(* ===== verification/Prelude.thy ===== *)
theory Prelude
  imports Main "HOL-Library.AList" "HOL-Library.List_Lexorder" "HOL-Library.Char_ord"
    "HOL-Library.Product_Lexorder" "HOL-Library.Multiset" "HOL-Library.Code_Target_Nat" "HOL-Library.Code_Target_Int"
begin

text \<open>
  What every theory of the development shares: the named collections that the component
  proofs rewrite with, the machine bounds of the program's \<open>usize\<close> and \<open>u64\<close> counters with
  their saturating operations, and generic lemmas on association lists and lists.  A Rust
  \<open>HashMap\<close> is an association list with distinct keys (library theory \<open>AList\<close>): \<open>map_of\<close> is
  \<open>get\<close>, \<open>AList.update\<close> is \<open>insert\<close> and \<open>AList.delete\<close> is \<open>remove\<close>.
\<close>

named_theorems model_defs "definitions of the model, unfolded on demand"
named_theorems inv_intros "preservation of the components' invariants"

section \<open>Machine bounds and saturating arithmetic\<close>

definition u64_max :: nat where
  "u64_max = 2 ^ 64 - 1"

lemma u64_max_code [code]: "u64_max = 18446744073709551615"
  by (simp add: u64_max_def)

definition sat_add :: "nat \<Rightarrow> nat \<Rightarrow> nat" where
  "sat_add a b = min (a + b) u64_max"

definition sat_mul :: "nat \<Rightarrow> nat \<Rightarrow> nat" where
  "sat_mul a b = min (a * b) u64_max"

lemma sat_add_le: "sat_add a b \<le> u64_max"
  by (simp add: sat_add_def)

lemma sat_add_exact: "a + b \<le> u64_max \<Longrightarrow> sat_add a b = a + b"
  by (simp add: sat_add_def)

lemma sat_mul_exact: "a * b \<le> u64_max \<Longrightarrow> sat_mul a b = a * b"
  by (simp add: sat_mul_def)

lemma u64_max_pos [simp]: "0 < u64_max" "0 \<noteq> u64_max"
  by (simp_all add: u64_max_def)

section \<open>Sorted lists\<close>

lemma distinct_map_sort_key: "distinct (map f (sort_key g xs)) = distinct (map f xs)"
proof -
  have "mset (map f (sort_key g xs)) = mset (map f xs)"
    by simp
  then show ?thesis
    by (rule mset_eq_imp_distinct_iff)
qed

text \<open>A Rust \<open>BTreeSet\<close> is its sorted list of elements; \<open>insert\<close> is the library's \<open>insort_insert\<close>.\<close>

definition btree_set :: "'a::linorder list \<Rightarrow> 'a list" where
  "btree_set xs = fold insort_insert xs []"

lemma fold_insort_insert:
  "sorted s \<Longrightarrow> distinct s \<Longrightarrow>
   sorted (fold insort_insert xs s) \<and> distinct (fold insort_insert xs s)
   \<and> set (fold insort_insert xs s) = set xs \<union> set s"
  by (induction xs arbitrary: s) (auto simp: sorted_insort_insert distinct_insort_insert set_insort_insert)

lemma btree_set_props [simp]:
  "sorted (btree_set xs)" "distinct (btree_set xs)" "set (btree_set xs) = set xs"
  using fold_insort_insert [of "[]" xs] by (simp_all add: btree_set_def)

lemma btree_set_length: "length (btree_set xs) = card (set xs)"
  by (metis btree_set_props(2,3) distinct_card)

lemma btree_set_eq: "set xs = set ys \<Longrightarrow> btree_set xs = btree_set ys"
  by (metis btree_set_props sorted_distinct_set_unique)

section \<open>Association lists\<close>

abbreviation keys :: "('k \<times> 'v) list \<Rightarrow> 'k list" where
  "keys xs \<equiv> map fst xs"

lemma dom_map_of_keys: "map_of xs k = None \<longleftrightarrow> k \<notin> set (keys xs)"
  by (simp add: map_of_eq_None_iff)

lemma map_of_update [simp]: "map_of (AList.update k v xs) k' = (if k' = k then Some v else map_of xs k')"
  by (simp add: update_conv')

lemma map_of_delete [simp]: "map_of (AList.delete k xs) k' = (if k' = k then None else map_of xs k')"
  by (simp add: delete_conv')

lemma length_update:
  "length (AList.update k v xs) = (if k \<in> set (keys xs) then length xs else Suc (length xs))"
  by (induction xs) auto

lemma length_delete:
  assumes "distinct (keys xs)"
  shows "length (AList.delete k xs) = (if k \<in> set (keys xs) then length xs - 1 else length xs)"
  using assms
proof (induction xs)
  case (Cons x xs)
  obtain a b where x: "x = (a, b)"
    by fastforce
  have "k \<notin> set (keys xs) \<Longrightarrow> AList.delete k xs = xs"
    by (simp add: delete_idem)
  moreover have "k \<in> set (keys xs) \<Longrightarrow> xs \<noteq> []"
    by auto
  ultimately show ?case
    using Cons by (auto simp: x Suc_diff_le delete_notin_dom)
qed simp

lemma keys_delete: "set (keys (AList.delete k xs)) = set (keys xs) - {k}"
  by (induction xs) auto

lemma keys_update: "set (keys (AList.update k v xs)) = insert k (set (keys xs))"
  using dom_update [of k v xs] by (simp add: dom_map_of_conv_image_fst)

lemma distinct_delete_keys: "distinct (keys xs) \<Longrightarrow> distinct (keys (AList.delete k xs))"
  by (rule distinct_delete)

lemma distinct_update_keys: "distinct (keys xs) \<Longrightarrow> distinct (keys (AList.update k v xs))"
  by (rule distinct_update)

lemma length_card_keys: "distinct (keys xs) \<Longrightarrow> length xs = card (set (keys xs))"
  by (metis distinct_card length_map)

lemma in_set_map_of: "distinct (keys xs) \<Longrightarrow> (k, v) \<in> set xs \<longleftrightarrow> map_of xs k = Some v"
  by (metis map_of_eq_Some_iff)

end
