(* ===== verification/F64.thy ===== *)
theory F64
  imports Prelude "HOL-Library.Word"
begin

text \<open>
  The program's \<open>f64\<close> values as their 64-bit patterns, with the IEEE 754 comparisons the code makes
  on them, Rust's \<open>f64::max\<close> and \<open>f64::total_cmp\<close>, and the exact conversion \<open>u64 as f64\<close>
  (round to nearest, ties to even).  A finite value is ordered by its signed magnitude
  (\<open>f64_key\<close>), in which the two zeros coincide.
\<close>

type_synonym f64 = "64 word"

definition f64_magnitude :: "f64 \<Rightarrow> nat" where
  "f64_magnitude x = unat x mod 2 ^ 63"

definition f64_negative :: "f64 \<Rightarrow> bool" where
  "f64_negative x \<longleftrightarrow> 2 ^ 63 \<le> unat x"

definition f64_infinity_bits :: nat where
  "f64_infinity_bits = 9218868437227405312"

definition f64_is_nan :: "f64 \<Rightarrow> bool" where
  "f64_is_nan x \<longleftrightarrow> f64_infinity_bits < f64_magnitude x"

definition f64_is_finite :: "f64 \<Rightarrow> bool" where
  "f64_is_finite x \<longleftrightarrow> f64_magnitude x < f64_infinity_bits"

definition f64_key :: "f64 \<Rightarrow> int" where
  "f64_key x = (if f64_negative x then - int (f64_magnitude x) else int (f64_magnitude x))"

definition f64_lt :: "f64 \<Rightarrow> f64 \<Rightarrow> bool" where
  "f64_lt x y \<longleftrightarrow> \<not> f64_is_nan x \<and> \<not> f64_is_nan y \<and> f64_key x < f64_key y"

definition f64_le :: "f64 \<Rightarrow> f64 \<Rightarrow> bool" where
  "f64_le x y \<longleftrightarrow> \<not> f64_is_nan x \<and> \<not> f64_is_nan y \<and> f64_key x \<le> f64_key y"

definition f64_eq :: "f64 \<Rightarrow> f64 \<Rightarrow> bool" where
  "f64_eq x y \<longleftrightarrow> \<not> f64_is_nan x \<and> \<not> f64_is_nan y \<and> f64_key x = f64_key y"

definition f64_max :: "f64 \<Rightarrow> f64 \<Rightarrow> f64" where
  "f64_max x y = (if f64_is_nan x then y else if f64_is_nan y then x else if f64_key x < f64_key y then y else x)"

text \<open>\<open>total_cmp\<close>: the sign decides first, the magnitude second; negative zero is below zero.\<close>

definition f64_total_key :: "f64 \<Rightarrow> int" where
  "f64_total_key x = (if f64_negative x then - int (f64_magnitude x) - 1 else int (f64_magnitude x))"

definition f64_zero :: f64 where "f64_zero = 0"

definition f64_one :: f64 where "f64_one = 0x3FF0000000000000"

text \<open>The bits of \<open>n as f64\<close> for an unsigned \<open>n\<close>: exact below \<open>2 ^ 53\<close>, otherwise the shifted
  mantissa rounded to nearest, a carry moving into the exponent.\<close>

fun bit_length :: "nat \<Rightarrow> nat" where
  "bit_length n = (if n = 0 then 0 else Suc (bit_length (n div 2)))"

declare bit_length.simps [simp del]

definition f64_of_u64 :: "nat \<Rightarrow> f64" where
  "f64_of_u64 n =
     (if n = 0 then 0
      else let l = bit_length n in
        if l \<le> 53 then of_nat ((l + 1022) * 2 ^ 52 + (n * 2 ^ (53 - l) - 2 ^ 52))
        else let s = l - 53; q = n div 2 ^ s; r = n mod 2 ^ s; h = 2 ^ (s - 1);
                 q' = (if r > h \<or> (r = h \<and> odd q) then q + 1 else q)
             in of_nat ((l + 1022) * 2 ^ 52 + (q' - 2 ^ 52)))"

lemma f64_lt_irrefl [simp]: "\<not> f64_lt x x"
  by (simp add: f64_lt_def)

lemma f64_lt_asym: "f64_lt x y \<Longrightarrow> \<not> f64_lt y x"
  by (simp add: f64_lt_def)

lemma f64_lt_trans: "f64_lt x y \<Longrightarrow> f64_lt y z \<Longrightarrow> f64_lt x z"
  by (auto simp: f64_lt_def)

lemma f64_max_not_nan: "\<not> f64_is_nan y \<Longrightarrow> \<not> f64_is_nan (f64_max x y)"
  by (simp add: f64_max_def)

lemma f64_max_ge: "\<not> f64_is_nan x \<Longrightarrow> \<not> f64_is_nan y \<Longrightarrow> f64_le x (f64_max x y) \<and> f64_le y (f64_max x y)"
  by (simp add: f64_max_def f64_le_def)

lemma f64_le_trans: "f64_le x y \<Longrightarrow> f64_le y z \<Longrightarrow> f64_le x z"
  by (auto simp: f64_le_def)

lemma f64_total_key_inject: "f64_total_key x = f64_total_key y \<longleftrightarrow> x = y"
proof
  assume h: "f64_total_key x = f64_total_key y"
  have split: "unat z = f64_magnitude z + (if f64_negative z then 2 ^ 63 else 0)" for z :: f64
  proof -
    have "unat z < 2 ^ 64"
      using unsigned_less [of z, where 'a = nat] by simp
    then show ?thesis
      by (auto simp: f64_magnitude_def f64_negative_def le_mod_geq)
  qed
  have "f64_negative x = f64_negative y \<and> f64_magnitude x = f64_magnitude y"
    using h by (auto simp: f64_total_key_def split: if_splits)
  then show "x = y"
    using split [of x] split [of y] by (simp add: word_unat_eq_iff)
qed simp

end
