(* ===== verification/Rust_Str.thy ===== *)
theory Rust_Str
  imports Prelude "HOL-Library.Sublist"
begin

text \<open>
  The string operations of the Rust standard library the program uses.  A \<open>String\<close> is the list of
  its UTF-8 bytes (a HOL \<open>string\<close>, whose characters are bytes); the operations that work on
  \<open>char\<close>s group the bytes first (\<open>utf8_chars\<close>).  \<open>split\<close> keeps empty segments as Rust does, and
  the integer parser takes an optional sign and checks the range.
\<close>

section \<open>Bytes\<close>

definition byte :: "char \<Rightarrow> nat" where
  "byte c = of_char c"

definition is_upper :: "char \<Rightarrow> bool" where
  "is_upper c \<longleftrightarrow> 65 \<le> byte c \<and> byte c \<le> 90"

definition is_lower :: "char \<Rightarrow> bool" where
  "is_lower c \<longleftrightarrow> 97 \<le> byte c \<and> byte c \<le> 122"

definition is_digit :: "char \<Rightarrow> bool" where
  "is_digit c \<longleftrightarrow> 48 \<le> byte c \<and> byte c \<le> 57"

definition is_alnum :: "char \<Rightarrow> bool" where
  "is_alnum c \<longleftrightarrow> is_upper c \<or> is_lower c \<or> is_digit c"

definition ascii_lower :: "char \<Rightarrow> char" where
  "ascii_lower c = (if is_upper c then char_of (byte c + 32) else c)"

definition to_ascii_lowercase :: "string \<Rightarrow> string" where
  "to_ascii_lowercase s = map ascii_lower s"

lemma byte_less: "byte c < 256"
  by (simp add: byte_def)

lemma byte_char_of: "n < 256 \<Longrightarrow> byte (char_of n) = n"
  by (simp add: byte_def)

lemma byte_inject: "byte c = byte d \<longleftrightarrow> c = d"
  by (simp add: byte_def)

lemma is_upper_lower [simp]: "\<not> is_upper (ascii_lower c)"
  using byte_less [of c] by (auto simp: ascii_lower_def is_upper_def byte_char_of)

lemma ascii_lower_idem [simp]: "ascii_lower (ascii_lower c) = ascii_lower c"
  using is_upper_lower [of c] by (simp add: ascii_lower_def)

lemma lowercase_idem [simp]: "to_ascii_lowercase (to_ascii_lowercase s) = to_ascii_lowercase s"
  by (simp add: to_ascii_lowercase_def comp_def)

lemma length_lowercase [simp]: "length (to_ascii_lowercase s) = length s"
  by (simp add: to_ascii_lowercase_def)

section \<open>Searching and splitting\<close>

definition starts_with :: "string \<Rightarrow> string \<Rightarrow> bool" where
  "starts_with s p \<longleftrightarrow> take (length p) s = p"

definition ends_with :: "string \<Rightarrow> string \<Rightarrow> bool" where
  "ends_with s p \<longleftrightarrow> length p \<le> length s \<and> drop (length s - length p) s = p"

fun str_contains :: "string \<Rightarrow> string \<Rightarrow> bool" where
  "str_contains [] p = (p = [])"
| "str_contains (c # s) p = (starts_with (c # s) p \<or> str_contains s p)"

definition strip_prefix :: "string \<Rightarrow> string \<Rightarrow> string option" where
  "strip_prefix s p = (if starts_with s p then Some (drop (length p) s) else None)"

definition strip_suffix :: "string \<Rightarrow> string \<Rightarrow> string option" where
  "strip_suffix s p = (if ends_with s p then Some (take (length s - length p) s) else None)"

fun split_where :: "(char \<Rightarrow> bool) \<Rightarrow> string \<Rightarrow> string list" where
  "split_where P [] = [[]]"
| "split_where P (c # s) =
     (if P c then [] # split_where P s
      else (case split_where P s of seg # segs \<Rightarrow> (c # seg) # segs | [] \<Rightarrow> [[c]]))"

definition split_char :: "char \<Rightarrow> string \<Rightarrow> string list" where
  "split_char d = split_where (\<lambda>c. c = d)"

text \<open>\<open>split_once\<close> and \<open>rsplit_once\<close> for a one-byte separator; \<open>find_sub\<close> is \<open>str::find\<close>.\<close>

definition split_once :: "char \<Rightarrow> string \<Rightarrow> (string \<times> string) option" where
  "split_once d s = (if d \<in> set s then Some (takeWhile (\<lambda>c. c \<noteq> d) s, drop 1 (dropWhile (\<lambda>c. c \<noteq> d) s)) else None)"

definition rsplit_once :: "char \<Rightarrow> string \<Rightarrow> (string \<times> string) option" where
  "rsplit_once d s = map_option (\<lambda>(a, b). (rev b, rev a)) (split_once d (rev s))"

fun find_sub :: "string \<Rightarrow> string \<Rightarrow> nat option" where
  "find_sub [] p = (if p = [] then Some 0 else None)"
| "find_sub (c # s) p = (if starts_with (c # s) p then Some 0 else map_option Suc (find_sub s p))"

lemma starts_with_prefix: "starts_with s p \<longleftrightarrow> prefix p s"
  unfolding starts_with_def prefix_def by (metis append_eq_conv_conj append_take_drop_id)

lemma ends_with_suffix: "ends_with s p \<longleftrightarrow> suffix p s"
  unfolding ends_with_def suffix_def
  by (metis append_take_drop_id diff_add_inverse2 drop_eq_Nil append_eq_conv_conj diff_diff_cancel
      length_append length_drop le_add2)

lemma str_contains_sublist: "str_contains s p \<longleftrightarrow> sublist p s"
  by (induction s) (auto simp: starts_with_prefix sublist_Cons_right)

lemma starts_with_Nil [simp]: "starts_with s []"
  by (simp add: starts_with_def)

lemma starts_with_Cons [simp]: "starts_with (c # s) (d # p) \<longleftrightarrow> c = d \<and> starts_with s p"
  by (auto simp: starts_with_def)

lemma starts_with_empty [simp]: "starts_with [] (d # p) \<longleftrightarrow> False"
  by (simp add: starts_with_def)

lemma starts_with_append [simp]: "starts_with (p @ s) p"
  by (simp add: starts_with_def)

lemma strip_prefix_append [simp]: "strip_prefix (p @ s) p = Some s"
  by (simp add: strip_prefix_def)

lemma strip_prefix_Some: "strip_prefix s p = Some r \<longleftrightarrow> s = p @ r"
  by (auto simp: strip_prefix_def starts_with_prefix prefix_def)

lemma strip_suffix_Some: "strip_suffix s p = Some r \<longleftrightarrow> s = r @ p"
  by (auto simp: strip_suffix_def ends_with_suffix suffix_def)

lemma split_where_nonempty [simp]: "split_where P s \<noteq> []"
  by (induction s) (auto split: list.splits)

lemma split_where_sep_free: "seg \<in> set (split_where P s) \<Longrightarrow> c \<in> set seg \<Longrightarrow> \<not> P c"
  by (induction s arbitrary: seg) (fastforce split: list.splits if_splits)+

lemma split_where_chars: "seg \<in> set (split_where P s) \<Longrightarrow> set seg \<subseteq> set s"
  by (induction s arbitrary: seg) (fastforce split: list.splits if_splits)+

lemma split_where_free: "\<forall>c \<in> set s. \<not> P c \<Longrightarrow> split_where P s = [s]"
  by (induction s) auto

lemma split_where_append:
  "\<forall>c \<in> set s. \<not> P c \<Longrightarrow> P d \<Longrightarrow> split_where P (s @ d # t) = s # split_where P t"
  by (induction s) auto

lemma split_once_append:
  "d \<notin> set a \<Longrightarrow> split_once d (a @ d # b) = Some (a, b)"
  by (simp add: split_once_def takeWhile_append dropWhile_append)

lemma split_once_None: "split_once d s = None \<longleftrightarrow> d \<notin> set s"
  by (simp add: split_once_def)

lemma split_once_Some: "split_once d s = Some (a, b) \<longleftrightarrow> s = a @ d # b \<and> d \<notin> set a"
proof
  assume h: "split_once d s = Some (a, b)"
  then have "d \<in> set s"
    by (simp add: split_once_def split: if_splits)
  then obtain x y where "s = x @ d # y" "d \<notin> set x"
    by (metis split_list_first)
  with h show "s = a @ d # b \<and> d \<notin> set a"
    by (simp add: split_once_append)
qed (auto simp: split_once_append)

lemma rsplit_once_Some: "rsplit_once d s = Some (a, b) \<longleftrightarrow> s = a @ d # b \<and> d \<notin> set b"
proof -
  have "rsplit_once d s = Some (a, b) \<longleftrightarrow> split_once d (rev s) = Some (rev b, rev a)"
    by (cases "split_once d (rev s)") (auto simp: rsplit_once_def)
  also have "\<dots> \<longleftrightarrow> rev s = rev b @ d # rev a \<and> d \<notin> set b"
    by (simp add: split_once_Some)
  also have "rev s = rev b @ d # rev a \<longleftrightarrow> s = a @ d # b"
    by (metis append.assoc append_Cons append_Nil rev.simps(2) rev_append rev_rev_ident)
  finally show ?thesis .
qed

lemma rsplit_once_None: "rsplit_once d s = None \<longleftrightarrow> d \<notin> set s"
  by (simp add: rsplit_once_def split_once_None)

lemma find_sub_None: "find_sub s p = None \<longleftrightarrow> \<not> str_contains s p"
  by (induction s) auto

lemma find_sub_Some: "find_sub s p = Some n \<Longrightarrow> starts_with (drop n s) p \<and> n \<le> length s"
  by (induction s arbitrary: n) (auto split: if_splits)

lemma find_sub_first: "find_sub s p = Some n \<Longrightarrow> i < n \<Longrightarrow> \<not> starts_with (drop i s) p"
proof (induction s arbitrary: n i)
  case (Cons c s)
  then show ?case
    by (cases i) (auto split: if_splits)
qed (simp split: if_splits)

section \<open>Characters of a string and trimming\<close>

definition is_cont :: "char \<Rightarrow> bool" where
  "is_cont c \<longleftrightarrow> 128 \<le> byte c \<and> byte c < 192"

function utf8_chars :: "string \<Rightarrow> string list" where
  "utf8_chars [] = []"
| "utf8_chars (c # s) = (c # takeWhile is_cont s) # utf8_chars (dropWhile is_cont s)"
  by pat_completeness auto
termination
  by (relation "measure length") (simp_all add: length_dropWhile_le le_imp_less_Suc)

lemma concat_utf8_chars [simp]: "concat (utf8_chars s) = s"
  by (induction s rule: utf8_chars.induct) auto

text \<open>The code points with the Unicode property White_Space, as their UTF-8 bytes.\<close>

definition is_whitespace :: "string \<Rightarrow> bool" where
  "is_whitespace u \<longleftrightarrow> (case map byte u of
       [b] \<Rightarrow> (9 \<le> b \<and> b \<le> 13) \<or> b = 32
     | [a, b] \<Rightarrow> a = 194 \<and> (b = 133 \<or> b = 160)
     | [a, b, c] \<Rightarrow> (a = 225 \<and> b = 154 \<and> c = 128)
         \<or> (a = 226 \<and> b = 128 \<and> (128 \<le> c \<and> c \<le> 138 \<or> c = 168 \<or> c = 169 \<or> c = 175))
         \<or> (a = 226 \<and> b = 129 \<and> c = 159) \<or> (a = 227 \<and> b = 128 \<and> c = 128)
     | _ \<Rightarrow> False)"

definition trim_start :: "string \<Rightarrow> string" where
  "trim_start s = concat (dropWhile is_whitespace (utf8_chars s))"

definition trim_end :: "string \<Rightarrow> string" where
  "trim_end s = concat (rev (dropWhile is_whitespace (rev (utf8_chars s))))"

definition trim :: "string \<Rightarrow> string" where
  "trim s = trim_end (trim_start s)"

section \<open>Decimal integers\<close>

definition digit_char :: "nat \<Rightarrow> char" where
  "digit_char n = char_of (48 + n)"

definition digit_val :: "char \<Rightarrow> nat" where
  "digit_val c = byte c - 48"

fun show_nat :: "nat \<Rightarrow> string" where
  "show_nat n = (if n < 10 then [digit_char n] else show_nat (n div 10) @ [digit_char (n mod 10)])"

declare show_nat.simps [simp del]

definition show_int :: "int \<Rightarrow> string" where
  "show_int i = (if i < 0 then CHR ''-'' # show_nat (nat (- i)) else show_nat (nat i))"

definition digits_val :: "string \<Rightarrow> nat" where
  "digits_val s = foldl (\<lambda>a c. 10 * a + digit_val c) 0 s"

definition parse_digits :: "string \<Rightarrow> nat option" where
  "parse_digits s = (if s \<noteq> [] \<and> (\<forall>c \<in> set s. is_digit c) then Some (digits_val s) else None)"

definition parse_signed :: "int \<Rightarrow> int \<Rightarrow> string \<Rightarrow> int option" where
  "parse_signed lo hi s =
     (let v = (case s of
                 c # r \<Rightarrow> if c = CHR ''-'' then map_option (\<lambda>n. - int n) (parse_digits r)
                         else if c = CHR ''+'' then map_option int (parse_digits r)
                         else map_option int (parse_digits s)
               | [] \<Rightarrow> None)
      in (case v of Some i \<Rightarrow> if lo \<le> i \<and> i \<le> hi then Some i else None | None \<Rightarrow> None))"

definition parse_i64 :: "string \<Rightarrow> int option" where
  "parse_i64 = parse_signed (- (2 ^ 63)) (2 ^ 63 - 1)"

lemma is_digit_digit_char [simp]: "n < 10 \<Longrightarrow> is_digit (digit_char n)"
  by (simp add: is_digit_def digit_char_def byte_char_of)

lemma digit_val_char [simp]: "n < 10 \<Longrightarrow> digit_val (digit_char n) = n"
  by (simp add: digit_val_def digit_char_def byte_char_of)

lemma show_nat_digits: "c \<in> set (show_nat n) \<Longrightarrow> is_digit c"
  by (induction n rule: show_nat.induct) (subst (asm) (2) show_nat.simps, auto split: if_splits)

lemma show_nat_nonempty [simp]: "show_nat n \<noteq> []"
  by (subst show_nat.simps) simp

lemma digits_val_show [simp]: "digits_val (show_nat n) = n"
  by (induction n rule: show_nat.induct) (subst show_nat.simps, simp add: digits_val_def)

lemma parse_digits_show [simp]: "parse_digits (show_nat n) = Some n"
  by (auto simp: parse_digits_def dest: show_nat_digits)

lemma show_nat_inject: "show_nat m = show_nat n \<longleftrightarrow> m = n"
  by (metis digits_val_show)

lemma digit_not_sign: "is_digit c \<Longrightarrow> c \<noteq> CHR ''-'' \<and> c \<noteq> CHR ''+''"
  by (auto simp: is_digit_def byte_def)

lemma parse_signed_show:
  assumes "lo \<le> i" "i \<le> hi"
  shows "parse_signed lo hi (show_int i) = Some i"
proof -
  obtain c r where c: "show_nat (nat i) = c # r"
    by (metis neq_Nil_conv show_nat_nonempty)
  then have "c \<noteq> CHR ''-''" "c \<noteq> CHR ''+''"
    using show_nat_digits [of c "nat i"] digit_not_sign by auto
  then show ?thesis
    using assms c parse_digits_show [of "nat i"] by (auto simp: parse_signed_def show_int_def)
qed

lemma parse_i64_show: "- (2 ^ 63) \<le> i \<Longrightarrow> i \<le> 2 ^ 63 - 1 \<Longrightarrow> parse_i64 (show_int i) = Some i"
  by (simp add: parse_i64_def parse_signed_show)

section \<open>Replacing, ASCII text\<close>

text \<open>\<open>str::replace\<close> for a nonempty pattern: non-overlapping matches from the left.\<close>

function str_replace :: "string \<Rightarrow> string \<Rightarrow> string \<Rightarrow> string" where
  "str_replace p r [] = []"
| "str_replace p r (c # s) =
     (if p \<noteq> [] \<and> starts_with (c # s) p then r @ str_replace p r (drop (length p) (c # s))
      else c # str_replace p r s)"
  by pat_completeness auto
termination
  by (relation "measure (\<lambda>(p, r, s). length s)") auto

lemma str_replace_absent: "p \<noteq> [] \<Longrightarrow> hd p \<notin> set s \<Longrightarrow> str_replace p r s = s"
proof (induction s)
  case (Cons c s)
  then show ?case
    by (cases p) auto
qed simp

lemma find_sub_skip:
  "p \<noteq> [] \<Longrightarrow> hd p \<notin> set b \<Longrightarrow> find_sub (b @ t) p = map_option (\<lambda>n. length b + n) (find_sub t p)"
proof (induction b)
  case Nil
  then show ?case
    by (simp add: option.map_ident)
next
  case (Cons c b)
  then show ?case
    by (cases p) (auto simp: option.map_comp comp_def)
qed

lemma find_sub_here: "find_sub (p @ t) p = Some 0"
  using starts_with_append [of p t] by (cases "p @ t") auto

lemma find_sub_after: "p \<noteq> [] \<Longrightarrow> hd p \<notin> set b \<Longrightarrow> find_sub (b @ p @ t) p = Some (length b)"
  by (simp add: find_sub_skip find_sub_here)

definition plain_ascii :: "char \<Rightarrow> bool" where
  "plain_ascii c \<longleftrightarrow> 33 \<le> byte c \<and> byte c < 127"

lemma utf8_chars_ascii: "\<forall>c \<in> set s. byte c < 128 \<Longrightarrow> utf8_chars s = map (\<lambda>c. [c]) s"
proof (induction s)
  case (Cons c s)
  then have "takeWhile is_cont s = []" "dropWhile is_cont s = s"
    by (cases s; auto simp: is_cont_def)+
  with Cons show ?case
    by simp
qed simp

lemma trim_start_plain: "plain_ascii c \<Longrightarrow> trim_start (c # s) = c # s"
  by (auto simp: trim_start_def is_whitespace_def plain_ascii_def takeWhile_dropWhile_id split: list.splits)

lemma trim_plain:
  assumes "\<forall>c \<in> set s. plain_ascii c"
  shows "trim s = s"
proof (cases s)
  case (Cons c r)
  have u: "utf8_chars s = map (\<lambda>c. [c]) s"
    using assms by (intro utf8_chars_ascii) (auto simp: plain_ascii_def)
  have w: "\<not> is_whitespace [c]" if "c \<in> set s" for c
    using assms that by (auto simp: is_whitespace_def plain_ascii_def)
  have "dropWhile is_whitespace (map (\<lambda>c. [c]) t) = map (\<lambda>c. [c]) t" if "set t \<subseteq> set s" for t
    using w that by (cases t) auto
  then have "dropWhile is_whitespace (rev (map (\<lambda>c. [c]) s)) = rev (map (\<lambda>c. [c]) s)"
    by (metis rev_map set_rev subset_refl)
  then have "trim_end s = s"
    by (simp add: trim_end_def u)
  then show ?thesis
    using assms Cons by (simp add: trim_def trim_start_plain)
qed (simp add: trim_def trim_start_def trim_end_def)

lemma digit_plain: "is_digit c \<Longrightarrow> plain_ascii c"
  by (simp add: is_digit_def plain_ascii_def)

lemma show_int_plain: "\<forall>c \<in> set (show_int i). plain_ascii c \<and> c \<noteq> CHR ''<'' \<and> c \<noteq> CHR ''&''"
proof -
  have "is_digit c \<Longrightarrow> c \<noteq> CHR ''<'' \<and> c \<noteq> CHR ''&''" for c
    by (auto simp: is_digit_def byte_def)
  then show ?thesis
    by (auto simp: show_int_def dest: show_nat_digits intro: digit_plain) (simp add: plain_ascii_def byte_def)
qed

section \<open>Lines\<close>

text \<open>\<open>str::lines\<close>: segments between newlines without a final empty one; a newline takes a carriage return
  before it away.\<close>

definition strip_cr :: "string \<Rightarrow> string" where
  "strip_cr s = (if s \<noteq> [] \<and> byte (last s) = 13 then butlast s else s)"

definition str_lines :: "string \<Rightarrow> string list" where
  "str_lines s =
     (let segs = split_where (\<lambda>c. byte c = 10) s
      in map strip_cr (butlast segs) @ (if last segs = [] then [] else [last segs]))"

section \<open>Paths and validity\<close>

lemma rsplit_once_shorter: "rsplit_once d s = Some (a, b) \<Longrightarrow> length a < length s"
  by (auto simp: rsplit_once_def split_once_Some dest!: arg_cong [of "rev s" _ length])

text \<open>\<open>Path::file_name\<close>: the last component, none when there is none or it is the parent.\<close>

definition path_file_name :: "string \<Rightarrow> string option" where
  "path_file_name p = (case rev (filter (\<lambda>c. c \<noteq> [] \<and> c \<noteq> ''.'') (split_char (CHR ''/'') p)) of
     [] \<Rightarrow> None | c # _ \<Rightarrow> if c = ''..'' then None else Some c)"

text \<open>\<open>str::from_utf8\<close> accepts exactly the well-formed sequences.\<close>

definition cont_byte :: "nat \<Rightarrow> bool" where
  "cont_byte b \<longleftrightarrow> 128 \<le> b \<and> b < 192"

fun utf8_valid :: "nat list \<Rightarrow> bool" where
  "utf8_valid [] = True"
| "utf8_valid (a # s) =
     (if a < 128 then utf8_valid s
      else case s of
        [] \<Rightarrow> False
      | b # s2 \<Rightarrow>
        (if 194 \<le> a \<and> a < 224 then cont_byte b \<and> utf8_valid s2
         else case s2 of
           [] \<Rightarrow> False
         | c # s3 \<Rightarrow>
           (if 224 \<le> a \<and> a < 240
            then (if a = 224 then 160 \<le> b \<and> b < 192 else if a = 237 then 128 \<le> b \<and> b < 160 else cont_byte b)
              \<and> cont_byte c \<and> utf8_valid s3
            else case s3 of
              [] \<Rightarrow> False
            | d # s4 \<Rightarrow>
              240 \<le> a \<and> a < 245
              \<and> (if a = 240 then 144 \<le> b \<and> b < 192 else if a = 244 then 128 \<le> b \<and> b < 144 else cont_byte b)
              \<and> cont_byte c \<and> cont_byte d \<and> utf8_valid s4)))"

section \<open>Words and lossy decoding\<close>

text \<open>\<open>str::split_whitespace\<close>.\<close>

definition split_whitespace :: "string \<Rightarrow> string list" where
  "split_whitespace s = map concat (filter (\<lambda>w. w \<noteq> [])
     (foldr (\<lambda>u acc. if is_whitespace u then [] # acc else (u # hd acc) # tl acc) (utf8_chars s) [[]]))"

text \<open>\<open>String::from_utf8_lossy\<close>: the range of the second byte and the number of bytes after the first, and
  how many of them are there; a broken sequence becomes one replacement character.\<close>

definition utf8_second :: "nat \<Rightarrow> (nat \<times> nat \<times> nat) option" where
  "utf8_second b =
     (if 194 \<le> b \<and> b \<le> 223 then Some (128, 191, 1)
      else if b = 224 then Some (160, 191, 2)
      else if b = 237 then Some (128, 159, 2)
      else if 225 \<le> b \<and> b \<le> 239 then Some (128, 191, 2)
      else if b = 240 then Some (144, 191, 3)
      else if 241 \<le> b \<and> b \<le> 243 then Some (128, 191, 3)
      else if b = 244 then Some (128, 143, 3)
      else None)"

definition utf8_tail :: "nat \<Rightarrow> string \<Rightarrow> nat" where
  "utf8_tail b s = (case (utf8_second b, s) of
       (Some (lo, hi, k), c # r) \<Rightarrow>
         if lo \<le> byte c \<and> byte c \<le> hi then Suc (length (takeWhile is_cont (take (k - 1) r))) else 0
     | _ \<Rightarrow> 0)"

definition utf8_complete :: "nat \<Rightarrow> nat \<Rightarrow> bool" where
  "utf8_complete b n \<longleftrightarrow> b < 128 \<or> (case utf8_second b of Some (lo, hi, k) \<Rightarrow> n = k | None \<Rightarrow> False)"

definition replacement_char :: string where
  "replacement_char = map char_of [239::nat, 191, 189]"

function from_utf8_lossy :: "string \<Rightarrow> string" where
  "from_utf8_lossy [] = []"
| "from_utf8_lossy (c # s) =
     (let n = (if byte c < 128 then 0 else utf8_tail (byte c) s)
      in (if utf8_complete (byte c) n then c # take n s else replacement_char) @ from_utf8_lossy (drop n s))"
  by pat_completeness auto
termination
  by (relation "measure length") simp_all

section \<open>Lines of a report\<close>

text \<open>\<open>writeln!\<close> into a string, and the lines \<open>str::lines\<close> gives back.\<close>

definition out_line :: "string \<Rightarrow> string" where
  "out_line s = s @ [CHR 0x0A]"

definition out_lines :: "string list \<Rightarrow> string" where
  "out_lines ls = concat (map out_line ls)"

definition plain_line :: "string \<Rightarrow> bool" where
  "plain_line l \<longleftrightarrow> list_all (\<lambda>c. byte c \<noteq> 10) l \<and> (l = [] \<or> byte (last l) \<noteq> 13)"

lemma str_lines_out_line: "plain_line l \<Longrightarrow> str_lines (out_line l @ rest) = l # str_lines rest"
proof -
  assume l: "plain_line l"
  have "split_where (\<lambda>c. byte c = 10) (l @ CHR 0x0A # rest) = l # split_where (\<lambda>c. byte c = 10) rest"
    using l by (intro split_where_append) (simp_all add: plain_line_def list_all_iff byte_def)
  then show ?thesis
    using l by (auto simp: str_lines_def out_line_def Let_def plain_line_def strip_cr_def)
qed

lemma str_lines_out: "list_all plain_line ls \<Longrightarrow> str_lines (out_lines ls @ rest) = ls @ str_lines rest"
  by (induction ls) (simp_all add: out_lines_def str_lines_out_line)

lemma out_lines_append [simp]: "out_lines (xs @ ys) = out_lines xs @ out_lines ys"
  by (simp add: out_lines_def)

lemma out_lines_Cons [simp]: "out_lines (l # ls) = out_line l @ out_lines ls" "out_lines [] = []"
  by (simp_all add: out_lines_def)

lemma out_lines_closed:
  assumes "xs \<noteq> []"
  shows "ends_with (out_lines xs) [CHR 0x0A]" and "out_line (butlast (out_lines xs)) = out_lines xs"
proof -
  obtain ys y where "xs = ys @ [y]"
    using assms by (metis append_butlast_last_id)
  then have "out_lines xs = (out_lines ys @ y) @ [CHR 0x0A]"
    by (simp add: out_line_def)
  then show "ends_with (out_lines xs) [CHR 0x0A]" and "out_line (butlast (out_lines xs)) = out_lines xs"
    by (simp_all add: ends_with_suffix suffix_def out_line_def butlast_append)
qed

end
