(* ===== verification/Event.thy ===== *)
theory Event
  imports F64 Rust_Str
begin

text \<open>
  \<open>event.rs\<close> and the priority data of \<open>priority.rs\<close> it carries: ecosystems, tiers, sources, the
  priority snapshot, the release event, and the processing plan published with it.  Timestamps
  are nanoseconds since the epoch; \<open>Utc::now()\<close> is an argument.  The enumerations carry the text
  the program stores (\<open>as_str\<close>), and \<open>ecosystem\<close> the order the source derives.
\<close>

type_synonym datetime = int

section \<open>Enumerations\<close>

datatype ecosystem = Npm | Pypi | CratesIo

fun ecosystem_as_str :: "ecosystem \<Rightarrow> string" where
  "ecosystem_as_str Npm = ''npm''"
| "ecosystem_as_str Pypi = ''pypi''"
| "ecosystem_as_str CratesIo = ''crates-io''"

fun ecosystem_index :: "ecosystem \<Rightarrow> nat" where
  "ecosystem_index Npm = 0"
| "ecosystem_index Pypi = 1"
| "ecosystem_index CratesIo = 2"

lemma ecosystem_index_inject [simp]: "ecosystem_index a = ecosystem_index b \<longleftrightarrow> a = b"
  by (cases a; cases b) simp_all

instantiation ecosystem :: linorder
begin

definition less_eq_ecosystem :: "ecosystem \<Rightarrow> ecosystem \<Rightarrow> bool" where
  "less_eq_ecosystem a b \<longleftrightarrow> ecosystem_index a \<le> ecosystem_index b"

definition less_ecosystem :: "ecosystem \<Rightarrow> ecosystem \<Rightarrow> bool" where
  "less_ecosystem a b \<longleftrightarrow> ecosystem_index a < ecosystem_index b"

instance
  by standard (auto simp: less_eq_ecosystem_def less_ecosystem_def)

end

datatype priority_tier = High | Medium | Low

fun tier_as_str :: "priority_tier \<Rightarrow> string" where
  "tier_as_str High = ''high''"
| "tier_as_str Medium = ''medium''"
| "tier_as_str Low = ''low''"

datatype priority_source =
  OfflineScoreFile | PackageCensus | KnownPackageStub | LocalGraph
  | DepsDevDependentsApi | EcosysteMsCountsApi | DefaultUnknown

fun source_as_str :: "priority_source \<Rightarrow> string" where
  "source_as_str OfflineScoreFile = ''offline_score_file''"
| "source_as_str PackageCensus = ''package_census''"
| "source_as_str KnownPackageStub = ''known_package_stub''"
| "source_as_str LocalGraph = ''local_graph''"
| "source_as_str DepsDevDependentsApi = ''deps_dev_dependents_api''"
| "source_as_str EcosysteMsCountsApi = ''ecosyste_ms_counts_api''"
| "source_as_str DefaultUnknown = ''default_unknown''"

section \<open>Priority snapshots\<close>

record priority_snapshot =
  ps_tier :: priority_tier
  ps_source :: priority_source
  ps_direct_popularity :: "f64 option"
  ps_propagated_impact :: "f64 option"
  ps_hidden_leverage :: "f64 option"
  ps_computed_at :: "datetime option"
  ps_score_source_version :: "string option"

definition default_unknown :: priority_snapshot where
  "default_unknown = \<lparr>ps_tier = Medium, ps_source = DefaultUnknown, ps_direct_popularity = None,
     ps_propagated_impact = None, ps_hidden_leverage = None, ps_computed_at = None,
     ps_score_source_version = None\<rparr>"

definition known_package_stub :: "datetime \<Rightarrow> priority_snapshot" where
  "known_package_stub now = \<lparr>ps_tier = Medium, ps_source = KnownPackageStub,
     ps_direct_popularity = Some f64_zero, ps_propagated_impact = Some f64_zero,
     ps_hidden_leverage = Some f64_zero, ps_computed_at = Some now,
     ps_score_source_version = Some ''runtime_observed_v1''\<rparr>"

definition package_census_snapshot :: "datetime \<Rightarrow> priority_snapshot" where
  "package_census_snapshot now = \<lparr>ps_tier = Medium, ps_source = PackageCensus,
     ps_direct_popularity = Some f64_zero, ps_propagated_impact = Some f64_zero,
     ps_hidden_leverage = Some f64_zero, ps_computed_at = Some now,
     ps_score_source_version = Some ''package_census_v1''\<rparr>"

definition snapshot_capture_requested :: "priority_snapshot \<Rightarrow> bool" where
  "snapshot_capture_requested p = (ps_tier p \<noteq> Low)"

definition snapshot_diff_requested :: "priority_snapshot \<Rightarrow> bool" where
  "snapshot_diff_requested p = (ps_tier p = High)"

datatype priority_bucket = BucketHigh | BucketMedium | BucketLow | BucketUnknown

definition snapshot_bucket :: "priority_snapshot \<Rightarrow> priority_bucket" where
  "snapshot_bucket p =
     (if ps_source p = DefaultUnknown then BucketUnknown
      else (case ps_tier p of High \<Rightarrow> BucketHigh | Medium \<Rightarrow> BucketMedium | Low \<Rightarrow> BucketLow))"

record priority_counts =
  pc_high :: nat
  pc_medium :: nat
  pc_low :: nat
  pc_unknown :: nat

definition counts_zero :: priority_counts where
  "counts_zero = \<lparr>pc_high = 0, pc_medium = 0, pc_low = 0, pc_unknown = 0\<rparr>"

definition counts_record :: "priority_snapshot \<Rightarrow> priority_counts \<Rightarrow> priority_counts" where
  "counts_record p c = (case snapshot_bucket p of
     BucketHigh \<Rightarrow> c\<lparr>pc_high := pc_high c + 1\<rparr>
   | BucketMedium \<Rightarrow> c\<lparr>pc_medium := pc_medium c + 1\<rparr>
   | BucketLow \<Rightarrow> c\<lparr>pc_low := pc_low c + 1\<rparr>
   | BucketUnknown \<Rightarrow> c\<lparr>pc_unknown := pc_unknown c + 1\<rparr>)"

section \<open>Release events\<close>

record release_event =
  ev_event_id :: string
  ev_ecosystem :: ecosystem
  ev_package :: string
  ev_version :: string
  ev_published_at :: "datetime option"
  ev_observed_at :: datetime
  ev_source :: string
  ev_sequence :: "string option"
  ev_package_url :: "string option"
  ev_release_url :: "string option"
  ev_metadata_url :: "string option"
  ev_priority :: "priority_snapshot option"

definition format_release_key :: "string \<Rightarrow> string \<Rightarrow> string \<Rightarrow> string" where
  "format_release_key eco pkg ver = eco @ '':'' @ pkg @ ''@'' @ ver"

definition release_key :: "release_event \<Rightarrow> string" where
  "release_key e = format_release_key (ecosystem_as_str (ev_ecosystem e)) (ev_package e) (ev_version e)"

definition event_priority_snapshot :: "release_event \<Rightarrow> priority_snapshot" where
  "event_priority_snapshot e = (case ev_priority e of Some p \<Rightarrow> p | None \<Rightarrow> default_unknown)"

definition capture_requested :: "release_event \<Rightarrow> bool" where
  "capture_requested e = snapshot_capture_requested (event_priority_snapshot e)"

definition diff_requested :: "release_event \<Rightarrow> bool" where
  "diff_requested e = snapshot_diff_requested (event_priority_snapshot e)"

section \<open>Graph evidence and the emitted processing plan\<close>

record package_repository_identity =
  pri_provider :: string
  pri_repository_url :: string
  pri_normalized_repository_url :: string
  pri_source :: string
  pri_last_version :: "string option"
  pri_updated_at :: string

record emitted_graph_evidence =
  gr_known_in_local_graph :: bool
  gr_known_in_census :: bool
  gr_observed_count :: nat
  gr_direct_dependencies_seen :: nat
  gr_reverse_dependents_seen :: nat
  gr_repository :: "package_repository_identity option"

definition graph_capture_escalation :: "priority_snapshot \<Rightarrow> emitted_graph_evidence \<Rightarrow> bool" where
  "graph_capture_escalation p g \<longleftrightarrow>
     \<not> snapshot_capture_requested p \<and> gr_known_in_local_graph g
     \<and> gr_reverse_dependents_seen g > 0 \<and> gr_observed_count g \<ge> 2"

definition graph_diff_escalation :: "priority_snapshot \<Rightarrow> emitted_graph_evidence \<Rightarrow> bool" where
  "graph_diff_escalation p g \<longleftrightarrow>
     \<not> snapshot_diff_requested p \<and> gr_known_in_local_graph g
     \<and> gr_reverse_dependents_seen g > 0 \<and> gr_observed_count g \<ge> 2"

definition capture_requested_with_graph :: "release_event \<Rightarrow> emitted_graph_evidence \<Rightarrow> bool" where
  "capture_requested_with_graph e g =
     (let p = event_priority_snapshot e in snapshot_capture_requested p \<or> graph_capture_escalation p g)"

definition diff_requested_with_graph :: "release_event \<Rightarrow> emitted_graph_evidence \<Rightarrow> bool" where
  "diff_requested_with_graph e g =
     (let p = event_priority_snapshot e in snapshot_diff_requested p \<or> graph_diff_escalation p g)"

datatype knowledge_level = Scored | KLocalGraph | PackageExistence | RuntimeObserved | External | KUnknown

record priority_resolution =
  rs_knowledge :: knowledge_level
  rs_score_hit :: bool
  rs_local_graph_hit :: bool
  rs_census_hit :: bool
  rs_runtime_stub :: bool
  rs_external_fallback :: bool
  rs_provisional :: bool

record job_plan =
  jp_requested :: bool
  jp_planned_state :: string
  jp_reason :: string

record processing_plan =
  pl_capture :: job_plan
  pl_diff :: job_plan

record emitted_event =
  em_event :: release_event
  em_resolution :: priority_resolution
  em_graph :: emitted_graph_evidence
  em_plan :: processing_plan

definition mk_resolution :: "knowledge_level \<Rightarrow> bool \<Rightarrow> bool \<Rightarrow> bool \<Rightarrow> bool \<Rightarrow> bool \<Rightarrow> bool \<Rightarrow> priority_resolution" where
  "mk_resolution k score graph census stub ext prov =
     \<lparr>rs_knowledge = k, rs_score_hit = score, rs_local_graph_hit = graph, rs_census_hit = census,
      rs_runtime_stub = stub, rs_external_fallback = ext, rs_provisional = prov\<rparr>"

fun resolution_of :: "priority_source \<Rightarrow> priority_resolution" where
  "resolution_of OfflineScoreFile = mk_resolution Scored True False False False False False"
| "resolution_of LocalGraph = mk_resolution KLocalGraph False True False False False True"
| "resolution_of PackageCensus = mk_resolution PackageExistence False False True False False True"
| "resolution_of KnownPackageStub = mk_resolution RuntimeObserved False False False True False True"
| "resolution_of DepsDevDependentsApi = mk_resolution External False False False False True True"
| "resolution_of EcosysteMsCountsApi = mk_resolution External False False False False True True"
| "resolution_of DefaultUnknown = mk_resolution KUnknown False False False False False True"

definition emitted_view :: "release_event \<Rightarrow> emitted_graph_evidence \<Rightarrow> emitted_event" where
  "emitted_view e g =
     (let p = event_priority_snapshot e;
          cr = capture_requested_with_graph e g;
          dr = diff_requested_with_graph e g
      in \<lparr>em_event = e,
          em_resolution = resolution_of (ps_source p),
          em_graph = g,
          em_plan = \<lparr>
            pl_capture = \<lparr>jp_requested = cr,
              jp_planned_state = (if cr then ''pending'' else ''skipped''),
              jp_reason = (if graph_capture_escalation p g then ''graph policy escalated capture''
                           else if cr then ''priority policy requested capture''
                           else ''priority policy skipped capture'')\<rparr>,
            pl_diff = \<lparr>jp_requested = dr,
              jp_planned_state = (if dr then ''pending'' else ''skipped''),
              jp_reason = (if graph_diff_escalation p g then ''graph policy escalated diff''
                           else if dr then ''priority policy requested diff''
                           else ''priority policy skipped diff'')\<rparr>\<rparr>\<rparr>)"

section \<open>Lemmas\<close>

lemma ecosystem_as_str_inject [simp]: "ecosystem_as_str a = ecosystem_as_str b \<longleftrightarrow> a = b"
  by (cases a; cases b) simp_all

lemma tier_as_str_inject [simp]: "tier_as_str a = tier_as_str b \<longleftrightarrow> a = b"
  by (cases a; cases b) simp_all

lemma source_as_str_inject [simp]: "source_as_str a = source_as_str b \<longleftrightarrow> a = b"
  by (cases a; cases b) simp_all

lemma ecosystem_as_str_no_colon [simp]: "CHR '':'' \<notin> set (ecosystem_as_str e)" "CHR ''@'' \<notin> set (ecosystem_as_str e)"
  by (cases e; simp)+

lemma snapshot_diff_capture: "snapshot_diff_requested p \<Longrightarrow> snapshot_capture_requested p"
  by (simp add: snapshot_diff_requested_def snapshot_capture_requested_def)

lemma diff_plan_capture: "diff_requested_with_graph e g \<Longrightarrow> capture_requested_with_graph e g"
  by (auto simp: diff_requested_with_graph_def capture_requested_with_graph_def Let_def
      graph_diff_escalation_def graph_capture_escalation_def snapshot_diff_capture)

lemma counts_record_total:
  "pc_high (counts_record p c) + pc_medium (counts_record p c) + pc_low (counts_record p c)
     + pc_unknown (counts_record p c) = Suc (pc_high c + pc_medium c + pc_low c + pc_unknown c)"
  by (simp add: counts_record_def split: priority_bucket.splits)

lemma release_key_inject:
  assumes "release_key a = release_key b" "CHR ''@'' \<notin> set (ev_version a)" "CHR ''@'' \<notin> set (ev_version b)"
  shows "ev_ecosystem a = ev_ecosystem b \<and> ev_package a = ev_package b \<and> ev_version a = ev_version b"
proof -
  have s: "split_once CHR '':'' (release_key e) =
    Some (ecosystem_as_str (ev_ecosystem e), ev_package e @ ''@'' @ ev_version e)" for e
    by (simp add: release_key_def format_release_key_def split_once_append)
  have "ev_ecosystem a = ev_ecosystem b" and r: "ev_package a @ ''@'' @ ev_version a = ev_package b @ ''@'' @ ev_version b"
    using s [of a] s [of b] assms(1) by simp_all
  moreover have "rsplit_once CHR ''@'' (ev_package e @ ''@'' @ ev_version e) = Some (ev_package e, ev_version e)"
    if "CHR ''@'' \<notin> set (ev_version e)" for e
    unfolding rsplit_once_Some using that by simp
  then have "(ev_package a, ev_version a) = (ev_package b, ev_version b)"
    using assms(2,3) r by (metis option.inject)
  ultimately show ?thesis
    by simp
qed

end
