(* ===== verification/Names.thy ===== *)
theory Names
  imports Event
begin

text \<open>
  Package names and version strings: the normalisation of \<open>priority.rs\<close> under which every index of
  the program keys a package, PyPI requirement names, and the version predicates.  The functions
  work on \<open>char\<close>s that are ASCII or copied unchanged, so they act on the bytes of the string.
  The locale \<open>name_normaliser\<close> is the contract of a normaliser; it is interpreted by
  \<open>normalize_package_name\<close> of every ecosystem.
\<close>

section \<open>Normalisation\<close>

definition is_separator :: "char \<Rightarrow> bool" where
  "is_separator c \<longleftrightarrow> c = CHR ''-'' \<or> c = CHR ''_'' \<or> c = CHR ''.''"

fun pypi_loop :: "bool \<Rightarrow> string \<Rightarrow> string" where
  "pypi_loop previous_dash [] = []"
| "pypi_loop previous_dash (ch # s) =
     (let lower = ascii_lower ch in
      if is_separator lower then
        (if \<not> previous_dash then CHR ''-'' # pypi_loop True s else pypi_loop previous_dash s)
      else lower # pypi_loop False s)"

definition normalize_pypi_name :: "string \<Rightarrow> string" where
  "normalize_pypi_name name = pypi_loop False name"

definition normalize_package_name :: "ecosystem \<Rightarrow> string \<Rightarrow> string" where
  "normalize_package_name eco package =
     (case eco of Pypi \<Rightarrow> normalize_pypi_name package
      | Npm \<Rightarrow> to_ascii_lowercase package
      | CratesIo \<Rightarrow> to_ascii_lowercase package)"

section \<open>The contract of a normaliser\<close>

locale name_normaliser =
  fixes norm :: "string \<Rightarrow> string"
  assumes norm_idem: "norm (norm s) = norm s"
begin

lemma norm_eq_iff: "norm (norm s) = norm t \<longleftrightarrow> norm s = norm t"
  by (simp add: norm_idem)

text \<open>Keying by normalised names, a second normalisation of a key finds the same entry.\<close>

lemma lookup_stable: "map_of (map (\<lambda>(k, v). (norm k, v)) xs) (norm (norm s)) = map_of (map (\<lambda>(k, v). (norm k, v)) xs) (norm s)"
  by (simp add: norm_idem)

lemma keys_fixed: "k \<in> set (keys (map (\<lambda>(k, v). (norm k, v)) xs)) \<Longrightarrow> norm k = k"
  by (auto simp: norm_idem)

end

lemma ascii_lower_byte: "byte (ascii_lower c) = (if is_upper c then byte c + 32 else byte c)"
  using byte_less [of c] by (auto simp: ascii_lower_def is_upper_def byte_char_of)

lemma ascii_lower_dash [simp]: "ascii_lower CHR ''-'' = CHR ''-''"
  by (simp add: ascii_lower_def is_upper_def byte_def)

lemma is_separator_dash [simp]: "is_separator CHR ''-''"
  by (simp add: is_separator_def)

text \<open>The shape of a normalised PyPI name: no upper case, only single dashes as separators.\<close>

fun pypi_normal :: "bool \<Rightarrow> string \<Rightarrow> bool" where
  "pypi_normal after_dash [] = True"
| "pypi_normal after_dash (c # s) =
     (if c = CHR ''-'' then \<not> after_dash \<and> pypi_normal True s
      else \<not> is_separator c \<and> \<not> is_upper c \<and> pypi_normal False s)"

lemma pypi_loop_normal: "pypi_normal b (pypi_loop b s)"
  by (induction b s rule: pypi_loop.induct) (auto simp: Let_def is_separator_def)

lemma pypi_loop_fixed: "pypi_normal b s \<Longrightarrow> pypi_loop b s = s"
proof (induction b s rule: pypi_normal.induct)
  case (2 b c s)
  have "\<not> is_upper CHR ''-''"
    by (simp add: is_upper_def byte_def)
  then show ?case
    using 2 by (auto simp: Let_def ascii_lower_def split: if_splits)
qed simp

lemma normalize_pypi_idem: "normalize_pypi_name (normalize_pypi_name s) = normalize_pypi_name s"
  unfolding normalize_pypi_name_def by (rule pypi_loop_fixed [OF pypi_loop_normal])

interpretation pkg: name_normaliser "normalize_package_name eco" for eco
  by unfold_locales (cases eco; simp add: normalize_package_name_def normalize_pypi_idem)

section \<open>Requirement names and versions\<close>

definition name_char :: "char \<Rightarrow> bool" where
  "name_char c \<longleftrightarrow> is_alnum c \<or> is_separator c"

definition parse_pypi_requirement_name :: "string \<Rightarrow> string option" where
  "parse_pypi_requirement_name requirement =
     (let requirement = trim requirement in
      if requirement = [] then None
      else let name = takeWhile name_char requirement in if name \<noteq> [] then Some name else None)"

definition contains_any :: "string list \<Rightarrow> string \<Rightarrow> bool" where
  "contains_any markers s \<longleftrightarrow> list_ex (str_contains s) markers"

definition is_prerelease_version :: "string \<Rightarrow> bool" where
  "is_prerelease_version version =
     (let lower = to_ascii_lowercase version in
      contains_any [''nightly'', ''alpha'', ''beta'', ''rc'', ''dev'', ''canary'', ''preview''] lower
      \<or> CHR ''-'' \<in> set lower
      \<or> list_ex (\<lambda>ch. \<not> (is_digit ch \<or> ch = CHR ''.'')) lower)"

definition major_version_line :: "string \<Rightarrow> string option" where
  "major_version_line version =
     (case find (\<lambda>seg. seg \<noteq> []) (split_where (\<lambda>c. c \<in> {CHR ''.'', CHR ''-'', CHR ''+'', CHR ''_''}) version) of
        None \<Rightarrow> None
      | Some head \<Rightarrow> if list_all is_digit head then Some head else None)"

section \<open>Lemmas\<close>

lemma requirement_name_chars:
  "parse_pypi_requirement_name r = Some n \<Longrightarrow> n \<noteq> [] \<and> list_all name_char n \<and> prefix n (trim r)"
  by (auto simp: parse_pypi_requirement_name_def Let_def list_all_iff takeWhile_is_prefix
      dest: set_takeWhileD split: if_splits)

text \<open>A version is stable exactly when it consists of digits and dots: the other two tests of
  \<open>is_prerelease_version\<close> are implied by the last.\<close>

lemma ascii_lower_stable_char:
  "is_digit (ascii_lower c) \<or> ascii_lower c = CHR ''.'' \<longleftrightarrow> is_digit c \<or> c = CHR ''.''"
proof -
  have dot: "d = CHR ''.'' \<longleftrightarrow> byte d = 46" for d
    unfolding byte_inject [symmetric] by (simp add: byte_def)
  show ?thesis
    unfolding dot is_digit_def ascii_lower_byte is_upper_def by auto
qed

lemma marker_not_numeric:
  assumes "m \<in> set [''nightly'', ''alpha'', ''beta'', ''rc'', ''dev'', ''canary'', ''preview'']"
    and "str_contains s m"
  shows "\<exists>c \<in> set s. \<not> (is_digit c \<or> c = CHR ''.'')"
proof -
  have "\<exists>c \<in> set m. \<not> (is_digit c \<or> c = CHR ''.'')"
    using assms(1) by (auto simp: is_digit_def byte_def)
  moreover have "set m \<subseteq> set s"
    using assms(2) by (simp add: str_contains_sublist set_mono_sublist)
  ultimately show ?thesis
    by blast
qed

lemma stable_version_iff:
  "\<not> is_prerelease_version v \<longleftrightarrow> list_all (\<lambda>c. is_digit c \<or> c = CHR ''.'') v"
proof -
  have "CHR ''-'' \<in> set s \<Longrightarrow> \<exists>c \<in> set s. \<not> (is_digit c \<or> c = CHR ''.'')" for s
    by (rule bexI [of _ "CHR ''-''"]) (simp_all add: is_digit_def byte_def)
  then have "is_prerelease_version v \<longleftrightarrow> (\<exists>c \<in> set (to_ascii_lowercase v). \<not> (is_digit c \<or> c = CHR ''.''))"
    using marker_not_numeric [of _ "to_ascii_lowercase v"]
    by (auto simp: is_prerelease_version_def contains_any_def list_ex_iff Let_def)
  then show ?thesis
    by (auto simp: to_ascii_lowercase_def list_all_iff ascii_lower_stable_char)
qed

lemma major_line_digits:
  "major_version_line v = Some l \<Longrightarrow> l \<noteq> [] \<and> list_all is_digit l"
  by (auto simp: major_version_line_def find_Some_iff split: option.splits if_splits)

section \<open>Properties\<close>

text \<open>normalising a package name twice is normalising it once, in every ecosystem, and a
  normalised PyPI name has no upper-case letter, no \<open>_\<close> or \<open>.\<close> and no two adjacent dashes.\<close>

theorem normalize_package_name_canonical:
  "normalize_package_name eco (normalize_package_name eco s) = normalize_package_name eco s
   \<and> pypi_normal False (normalize_package_name Pypi s)"
  using pypi_loop_normal [of False s]
  by (intro conjI pkg.norm_idem) (simp add: normalize_package_name_def normalize_pypi_name_def)

end
