(* ===== verification/Json.thy ===== *)
theory Json
  imports F64 Rust_Str
begin

text \<open>
  JSON documents as the program reads them (\<open>serde_json::Value\<close> and its documented accessors).
  An object is an association list; \<open>get\<close> on anything but an object is \<open>None\<close>.  Numbers are the
  three variants of \<open>serde_json::Number\<close>.
\<close>

datatype json_number = PosInt nat | NegInt int | JFloat f64

datatype json =
    JNull
  | JBool bool
  | JNumber json_number
  | JString string
  | JArray "json list"
  | JObject "(string \<times> json) list"

fun json_get :: "json \<Rightarrow> string \<Rightarrow> json option" where
  "json_get (JObject fs) k = map_of fs k"
| "json_get _ k = None"

fun json_pointer :: "json \<Rightarrow> string list \<Rightarrow> json option" where
  "json_pointer v [] = Some v"
| "json_pointer v (k # ks) = (case json_get v k of Some w \<Rightarrow> json_pointer w ks | None \<Rightarrow> None)"

fun as_str :: "json \<Rightarrow> string option" where
  "as_str (JString s) = Some s"
| "as_str _ = None"

fun as_bool :: "json \<Rightarrow> bool option" where
  "as_bool (JBool b) = Some b"
| "as_bool _ = None"

fun as_array :: "json \<Rightarrow> json list option" where
  "as_array (JArray vs) = Some vs"
| "as_array _ = None"

fun as_object :: "json \<Rightarrow> (string \<times> json) list option" where
  "as_object (JObject fs) = Some fs"
| "as_object _ = None"

fun as_u64 :: "json \<Rightarrow> nat option" where
  "as_u64 (JNumber (PosInt n)) = Some n"
| "as_u64 _ = None"

fun as_f64 :: "json \<Rightarrow> f64 option" where
  "as_f64 (JNumber (PosInt n)) = Some (f64_of_u64 n)"
| "as_f64 (JNumber (NegInt i)) = Some (f64_of_u64 (nat (- i)) + 0x8000000000000000)"
| "as_f64 (JNumber (JFloat x)) = Some x"
| "as_f64 _ = None"

text \<open>The strings of an optional array, the elements of any other kind dropped.\<close>

definition array_items :: "json option \<Rightarrow> json list" where
  "array_items v = (case Option.bind v as_array of Some vs \<Rightarrow> vs | None \<Rightarrow> [])"

definition array_strings :: "json option \<Rightarrow> string list" where
  "array_strings v = List.map_filter as_str (array_items v)"

definition json_get_bool :: "json \<Rightarrow> string \<Rightarrow> bool" where
  "json_get_bool v k = (case Option.bind (json_get v k) as_bool of Some b \<Rightarrow> b | None \<Rightarrow> False)"

definition json_get_str :: "json \<Rightarrow> string \<Rightarrow> string option" where
  "json_get_str v k = Option.bind (json_get v k) as_str"

lemma json_get_object [simp]: "json_get v k = Some w \<Longrightarrow> \<exists>fs. v = JObject fs \<and> map_of fs k = Some w"
  by (cases v) auto

lemma as_str_Some: "as_str v = Some s \<longleftrightarrow> v = JString s"
  by (cases v) auto

end
