(* ===== verification/Capture_Types.thy ===== *)
theory Capture_Types
  imports Names Json
begin

text \<open>
  What a capture holds: \<open>CapturedRelease\<close> and its parts (\<open>capture.rs\<close>), the repository provenance
  (\<open>repo_provenance.rs\<close>), the content-risk scan result (\<open>content_risk.rs\<close>), the version-burst
  signal (\<open>assessment.rs\<close>) and the flags read back from the capture's JSON details.  The serde
  encoders and decoders of the three embedded signals are the fields of \<open>codecs\<close>.
\<close>

section \<open>Releases and artifacts\<close>

datatype release_status = Active | Yanked | Removed | Unknown

fun status_as_str :: "release_status \<Rightarrow> string" where
  "status_as_str Active = ''active''"
| "status_as_str Yanked = ''yanked''"
| "status_as_str Removed = ''removed''"
| "status_as_str Unknown = ''unknown''"

record artifact_hashes =
  ah_sha256 :: "string option"
  ah_sha512 :: "string option"
  ah_blake2b_256 :: "string option"
  ah_md5 :: "string option"
  ah_integrity :: "string option"
  ah_shasum :: "string option"
  ah_checksum :: "string option"

definition hashes_default :: artifact_hashes where
  "hashes_default = \<lparr>ah_sha256 = None, ah_sha512 = None, ah_blake2b_256 = None, ah_md5 = None,
     ah_integrity = None, ah_shasum = None, ah_checksum = None\<rparr>"

definition hashes_is_empty :: "artifact_hashes \<Rightarrow> bool" where
  "hashes_is_empty h \<longleftrightarrow> ah_sha256 h = None \<and> ah_sha512 h = None \<and> ah_blake2b_256 h = None
     \<and> ah_md5 h = None \<and> ah_integrity h = None \<and> ah_shasum h = None \<and> ah_checksum h = None"

record captured_artifact =
  ar_filename :: string
  ar_kind :: "string option"
  ar_url :: "string option"
  ar_size_bytes :: "nat option"
  ar_uploaded_at :: "datetime option"
  ar_yanked :: "bool option"
  ar_hashes :: artifact_hashes
  ar_provenance_path :: "string option"

datatype repository_provider = Github | Gitlab | UnknownProvider

fun provider_as_str :: "repository_provider \<Rightarrow> string" where
  "provider_as_str Github = ''github''"
| "provider_as_str Gitlab = ''gitlab''"
| "provider_as_str UnknownProvider = ''unknown''"

datatype repository_match_kind = MatchTag | MatchRelease | MatchCommit | MatchNone | MatchUnknown

record repository_provenance =
  rp_provider :: repository_provider
  rp_repository_url :: string
  rp_normalized_repository_url :: string
  rp_package_version :: string
  rp_checked_at :: datetime
  rp_candidate_refs :: "string list"
  rp_match_kind :: repository_match_kind
  rp_matched_ref :: "string option"
  rp_matched_commit :: "string option"
  rp_suspicious :: bool
  rp_reason :: string

record captured_release =
  ca_event_id :: string
  ca_ecosystem :: ecosystem
  ca_package :: string
  ca_version :: string
  ca_observed_at :: datetime
  ca_published_at :: "datetime option"
  ca_captured_at :: datetime
  ca_status :: release_status
  ca_package_url :: "string option"
  ca_release_url :: "string option"
  ca_metadata_url :: "string option"
  ca_raw_metadata_path :: "string option"
  ca_artifacts :: "captured_artifact list"
  ca_upstream_repository :: "repository_provenance option"
  ca_details :: json

definition captured_removed :: "datetime \<Rightarrow> release_event \<Rightarrow> captured_release" where
  "captured_removed now e = \<lparr>ca_event_id = ev_event_id e, ca_ecosystem = ev_ecosystem e,
     ca_package = ev_package e, ca_version = ev_version e, ca_observed_at = ev_observed_at e,
     ca_published_at = ev_published_at e, ca_captured_at = now, ca_status = Removed,
     ca_package_url = ev_package_url e, ca_release_url = ev_release_url e,
     ca_metadata_url = ev_metadata_url e, ca_raw_metadata_path = None, ca_artifacts = [],
     ca_upstream_repository = None, ca_details = JObject []\<rparr>"

section \<open>Embedded signals\<close>

record metadata_risk =
  mr_suspicious :: bool
  mr_score :: nat
  mr_factors :: "string list"
  mr_reason :: string

definition metadata_risk_default :: metadata_risk where
  "metadata_risk_default = \<lparr>mr_suspicious = False, mr_score = 0, mr_factors = [], mr_reason = []\<rparr>"

datatype match_class = MaliciousBehavior | RiskyInstallerMatch | InvasiveToolingMatch | ContextOnly

fun match_class_as_str :: "match_class \<Rightarrow> string" where
  "match_class_as_str MaliciousBehavior = ''malicious_behavior''"
| "match_class_as_str RiskyInstallerMatch = ''risky_installer''"
| "match_class_as_str InvasiveToolingMatch = ''invasive_tooling''"
| "match_class_as_str ContextOnly = ''context_only''"

record pattern_match =
  pm_pattern_id :: string
  pm_range_start :: nat
  pm_range_end :: nat
  pm_xor_key :: "nat option"
  pm_preview :: "string option"

record content_match =
  cm_rule_id :: string
  cm_namespace :: string
  cm_tags :: "string list"
  cm_match_class :: "match_class option"
  cm_behavior_tags :: "string list"
  cm_score :: nat
  cm_file_path :: string
  cm_file_role :: string
  cm_matched_patterns :: "string list"
  cm_pattern_matches :: "pattern_match list"
  cm_evidence_kind :: "string option"
  cm_description :: "string option"

record content_ioc =
  io_kind :: string
  io_value :: string
  io_file_path :: "string option"

record scanned_file =
  sf_path :: string
  sf_role :: string
  sf_size_bytes :: nat
  sf_text :: bool

record content_risk =
  cr_scanned :: bool
  cr_suspicious :: bool
  cr_score :: nat
  cr_factors :: "string list"
  cr_reason :: string
  cr_matches :: "content_match list"
  cr_iocs :: "content_ioc list"
  cr_scanned_files :: "scanned_file list"
  cr_engine :: "string option"
  cr_rule_set_version :: "string option"
  cr_error :: "string option"

definition content_risk_empty :: "string \<Rightarrow> content_risk" where
  "content_risk_empty reason = \<lparr>cr_scanned = False, cr_suspicious = False, cr_score = 0, cr_factors = [],
     cr_reason = reason, cr_matches = [], cr_iocs = [], cr_scanned_files = [], cr_engine = None,
     cr_rule_set_version = None, cr_error = None\<rparr>"

text \<open>A failed scan is a result, not an error: it carries the engine and the message.\<close>

definition scan_captured_release :: "string + content_risk \<Rightarrow> content_risk" where
  "scan_captured_release outcome = (case outcome of
     Inr signal \<Rightarrow> signal
   | Inl error \<Rightarrow> (content_risk_empty ''content-risk scan failed'')
        \<lparr>cr_engine := Some ''yara_x'', cr_error := Some error\<rparr>)"

record version_burst =
  vb_suspicious :: bool
  vb_versions_in_window :: nat
  vb_distinct_major_lines :: nat
  vb_window_secs :: nat
  vb_reason :: "string option"

definition version_burst_default :: version_burst where
  "version_burst_default = \<lparr>vb_suspicious = False, vb_versions_in_window = 0, vb_distinct_major_lines = 0,
     vb_window_secs = 0, vb_reason = None\<rparr>"

section \<open>Details\<close>

record codecs =
  enc_risk :: "metadata_risk \<Rightarrow> json"
  dec_risk :: "json \<Rightarrow> metadata_risk option"
  enc_content :: "content_risk \<Rightarrow> json"
  dec_content :: "json \<Rightarrow> content_risk option"
  enc_burst :: "version_burst \<Rightarrow> json"
  dec_burst :: "json \<Rightarrow> version_burst option"

text \<open>\<open>set_capture_detail\<close>: a details value that is not an object is replaced by one; the value is
  the result of \<open>to_value\<close>, \<open>None\<close> when it fails.\<close>

definition set_capture_detail :: "string \<Rightarrow> json option \<Rightarrow> json \<Rightarrow> json" where
  "set_capture_detail key v details =
     (let fs = (case details of JObject fs \<Rightarrow> fs | _ \<Rightarrow> []) in
      case v of Some w \<Rightarrow> JObject (AList.update key w fs) | None \<Rightarrow> JObject fs)"

definition captured_content_risk :: "codecs \<Rightarrow> captured_release \<Rightarrow> content_risk" where
  "captured_content_risk c cap =
     (case Option.bind (json_get (ca_details cap) ''content_risk'') (dec_content c) of
        Some s \<Rightarrow> s | None \<Rightarrow> content_risk_empty ''content risk not scanned'')"

definition captured_version_burst :: "codecs \<Rightarrow> captured_release \<Rightarrow> version_burst" where
  "captured_version_burst c cap =
     (case Option.bind (json_get (ca_details cap) ''version_burst'') (dec_burst c) of
        Some s \<Rightarrow> s | None \<Rightarrow> version_burst_default)"

definition capture_has_install_time_execution :: "captured_release \<Rightarrow> bool" where
  "capture_has_install_time_execution cap = json_get_bool (ca_details cap) ''has_install_scripts''"

definition capture_has_longstanding_install_time_execution :: "captured_release \<Rightarrow> bool" where
  "capture_has_longstanding_install_time_execution cap = json_get_bool (ca_details cap) ''install_scripts_longstanding''"

definition capture_has_benign_install_time_execution :: "captured_release \<Rightarrow> bool" where
  "capture_has_benign_install_time_execution cap = json_get_bool (ca_details cap) ''install_scripts_benign''"

definition captured_dependency_names :: "captured_release \<Rightarrow> string list" where
  "captured_dependency_names cap =
     map (normalize_package_name (ca_ecosystem cap)) (array_strings (json_get (ca_details cap) ''dependencies''))"

lemma get_set_detail [simp]:
  "json_get (set_capture_detail k (Some v) d) j = (if j = k then Some v else json_get d j)"
  by (cases d) (auto simp: set_capture_detail_def)

lemma get_set_detail_None [simp]: "json_get (set_capture_detail k None d) j = json_get d j"
  by (cases d) (auto simp: set_capture_detail_def)

end
