(* ===== verification/Detection.thy ===== *)
theory Detection
  imports Capture_Types
begin

text \<open>
  \<open>detection.rs\<close>: what a matched rule means.  A rule id is classified, given behaviour tags from its
  own tags and from markers in its name, and marked as a strong malicious chain; the evaluation of
  the detection corpus compares an assessment with what a fixture expects and counts the rules.
\<close>

section \<open>Rule profiles\<close>

record rule_profile =
  rf_match_class :: match_class
  rf_behavior_tags :: "string list"
  rf_strong_malicious_chain :: bool

definition context_only_rules :: "string list" where
  "context_only_rules = [
    ''npm_ci_environment_targeting'', ''pypi_ci_environment_targeting'', ''crate_ci_pipeline_targeting'',
    ''npm_string_construction_obfuscation'', ''pypi_setup_cmdclass_override'',
    ''pypi_anti_analysis_evasion'', ''pypi_environment_fingerprint_exfil'', ''pypi_pyarmor_obfuscation'',
    ''crate_runtime_obfuscated_strings'', ''generic_cloud_credential_paths'',
    ''generic_cloud_metadata_service'', ''generic_oast_callback'', ''generic_git_token_patterns'',
    ''generic_browser_credential_database'', ''generic_crypto_wallet_paths'',
    ''generic_packed_high_entropy_payload'', ''crate_ctor_auto_init_network'']"

definition classify_rule_match :: "string \<Rightarrow> match_class" where
  "classify_rule_match rule_id =
     (if rule_id \<in> set [''npm_downloader_and_exec_installer'', ''npm_downloader_pipe_to_shell_installer'',
          ''pypi_build_hook_downloader'', ''crate_build_script_downloader''] then RiskyInstallerMatch
      else if rule_id = ''npm_mcp_server_injection'' then InvasiveToolingMatch
      else if rule_id \<in> set context_only_rules then ContextOnly
      else if str_contains rule_id ''installer'' \<and> str_contains rule_id ''downloader'' then RiskyInstallerMatch
      else if str_contains rule_id ''mcp_server_injection'' then InvasiveToolingMatch
      else if str_contains rule_id ''ci_environment'' \<or> str_contains rule_id ''pipeline_targeting'' then ContextOnly
      else MaliciousBehavior)"

definition rule_tag_behaviors :: "string \<Rightarrow> string list" where
  "rule_tag_behaviors tag =
     (if tag = ''loader'' then [''remote_fetch'', ''dynamic_execution'']
      else if tag = ''installer'' \<or> tag = ''build'' then [''install_or_build_execution'']
      else if tag = ''callback'' then [''callback'']
      else if tag = ''recon'' then [''reconnaissance'']
      else if tag = ''exfil'' then [''exfiltration'']
      else if tag = ''c2'' \<or> tag = ''rat'' \<or> tag = ''backdoor'' then [''command_and_control'']
      else if tag = ''theft'' \<or> tag = ''stealer'' then [''credential_or_wallet_theft'']
      else if tag = ''shell'' then [''shell_execution'']
      else if tag = ''persistence'' \<or> tag = ''worm'' then [''persistence_or_propagation'']
      else if tag = ''injection'' then [''target_mutation'']
      else if tag = ''ci'' then [''ci_targeting'']
      else if tag = ''crypto'' then [''crypto_targeting'']
      else [])"

definition inferred_behaviors :: "(string \<times> string) list" where
  "inferred_behaviors = [
    (''loader'', ''remote_fetch''), (''remote_code_fetch_exec'', ''dynamic_execution''),
     (''downloader'', ''remote_fetch''), (''callback'', ''callback''),
     (''recon'', ''reconnaissance''), (''exfil'', ''exfiltration''),
     (''c2'', ''command_and_control''), (''rat'', ''command_and_control''),
     (''backdoor'', ''command_and_control''), (''shell'', ''shell_execution''),
     (''powershell'', ''shell_execution''), (''credential'', ''credential_or_wallet_theft''),
     (''browser'', ''browser_targeting''), (''wallet'', ''credential_or_wallet_theft''),
     (''crypto'', ''credential_or_wallet_theft''),
     (''persistent'', ''persistence_or_propagation''),
     (''persistence'', ''persistence_or_propagation''), (''worm'', ''persistence_or_propagation''),
     (''injection'', ''target_mutation''), (''asar'', ''target_mutation''),
     (''workers'', ''cloud_exfiltration''), (''ci'', ''ci_targeting''),
     (''install'', ''install_or_build_execution''), (''build'', ''install_or_build_execution''),
     (''dropper'', ''payload_drop''), (''obfuscation'', ''obfuscation''),
     (''evasion'', ''evasion''), (''discord'', ''discord_or_telegram_channel''),
     (''telegram'', ''discord_or_telegram_channel''),
     (''clipboard'', ''credential_or_wallet_theft''), (''steganograph'', ''obfuscation''),
     (''defender'', ''evasion''), (''destructive'', ''shell_execution''),
     (''marshal'', ''obfuscation''), (''fernet'', ''obfuscation''),
     (''hex_encoded'', ''obfuscation''), (''base64_exec'', ''obfuscation''),
     (''indirect_eval'', ''dynamic_execution''), (''getattr_builtins'', ''obfuscation''),
     (''pyarmor'', ''obfuscation''), (''miner'', ''crypto_targeting''),
     (''ctor_auto_init'', ''install_or_build_execution''),
     (''smart_contract_c2'', ''command_and_control''),
     (''propagation'', ''persistence_or_propagation''), (''mcp_server'', ''target_mutation''),
     (''smtp'', ''exfiltration'')]"

definition derive_behavior_tags :: "string \<Rightarrow> string list \<Rightarrow> string list" where
  "derive_behavior_tags rule_id rule_tags =
     (let tags = fold insort_insert (concat (map rule_tag_behaviors rule_tags)) [];
          rule_lower = to_ascii_lowercase rule_id
      in fold (\<lambda>(needle, behavior_tag) tags.
                 if str_contains rule_lower needle then insort_insert behavior_tag tags else tags)
           inferred_behaviors tags)"

definition weak_chain_rules :: "string list" where
  "weak_chain_rules = [''pypi_browser_credential_theft'', ''npm_cloudflare_workers_exfil'',
    ''npm_electron_app_injection'', ''npm_powershell_hidden_execution'', ''npm_macos_payload_dropper'',
    ''npm_exfil_channel_with_theft_markers'', ''pypi_exfil_channel_with_theft_markers'']"

definition strong_chain_markers :: "string list" where
  "strong_chain_markers = [
    ''reverse_shell'', ''runtime_encoded_remote_loader'', ''persistent_shell_backdoor'',
     ''secrets_harvesting_c2_agent'', ''multiphase_secrets_exfil_agent'',
     ''redis_reverse_shell_dropper'', ''environment_callback_probe'',
     ''credential_theft_toolchain'', ''worm_propagation'', ''token_publish_worm_propagation'',
     ''github_propagation_worm'', ''github_commit_secret_exfil'',
     ''github_actions_secret_artifact_exfil'', ''runner_memory_secret_scrape'',
     ''cloud_secret_manager_exfiltration'', ''remote_code_fetch_exec'',
     ''remote_payload_shell_exec'', ''pypi_setup_remote_payload_exec'',
     ''crate_build_remote_payload_exec'', ''binding_gyp_python_sandbox_escape'',
     ''in_memory_payload_loader'', ''build_script_env_exfil'', ''build_script_file_read_exfil'',
     ''browser_process_kill_and_theft'', ''discord_bot_rat'', ''discord_token_theft'',
     ''keylogger'', ''password_manager_theft'', ''browser_wallet_extension_theft'',
     ''ssh_or_cloud_credential_theft'', ''crypto_wallet_file_theft'', ''bulk_env_exfiltration'',
     ''wallet_or_session_theft_markers'', ''npm_token_worm'', ''release_toolchain_poisoning'',
     ''indirect_eval_payload'', ''ethereum_transaction_hook'', ''sandworm_markers'',
     ''ghostclaw_markers'', ''git_hook_injection'', ''shell_profile_persistence'',
     ''base64_exec_chain'', ''marshal_zlib_obfuscation'', ''getattr_builtins_indirection'',
     ''fernet_encrypted_payload'', ''clipboard_crypto_hijack'', ''steganographic_payload'',
     ''ctor_auto_init_antivirus'', ''crypto_key_scanner'', ''self_deletion_destructive'',
     ''defender_evasion'', ''smart_contract_c2'', ''trufflehog_gitleaks'']"

definition rule_behavior_profile :: "string \<Rightarrow> string list \<Rightarrow> rule_profile" where
  "rule_behavior_profile rule_id rule_tags =
     (let mc = classify_rule_match rule_id in
      \<lparr>rf_match_class = mc,
       rf_behavior_tags = derive_behavior_tags rule_id rule_tags,
       rf_strong_malicious_chain = (mc = MaliciousBehavior \<and> rule_id \<notin> set weak_chain_rules
         \<and> contains_any strong_chain_markers rule_id)\<rparr>)"

section \<open>Evidence\<close>

record rule_evidence =
  re_rule_id :: string
  re_match_class :: match_class
  re_behavior_tags :: "string list"
  re_file_path :: string
  re_file_role :: string
  re_evidence_kind :: "string option"
  re_pattern_ids :: "string list"
  re_preview :: "string option"

fun first_some :: "'a option list \<Rightarrow> 'a option" where
  "first_some [] = None"
| "first_some (Some x # xs) = Some x"
| "first_some (None # xs) = first_some xs"

definition match_class_of :: "content_match \<Rightarrow> match_class" where
  "match_class_of m = (case cm_match_class m of Some c \<Rightarrow> c
     | None \<Rightarrow> rf_match_class (rule_behavior_profile (cm_rule_id m) (cm_tags m)))"

definition behavior_tags_of :: "content_match \<Rightarrow> string list" where
  "behavior_tags_of m = (if cm_behavior_tags m = []
     then rf_behavior_tags (rule_behavior_profile (cm_rule_id m) (cm_tags m)) else cm_behavior_tags m)"

definition emitted_rule_evidence :: "content_match \<Rightarrow> rule_evidence" where
  "emitted_rule_evidence m = \<lparr>re_rule_id = cm_rule_id m, re_match_class = match_class_of m,
     re_behavior_tags = behavior_tags_of m, re_file_path = cm_file_path m, re_file_role = cm_file_role m,
     re_evidence_kind = cm_evidence_kind m, re_pattern_ids = map pm_pattern_id (cm_pattern_matches m),
     re_preview = first_some (map pm_preview (cm_pattern_matches m))\<rparr>"

section \<open>Lemmas\<close>

lemma fold_inferred:
  "fold (\<lambda>(n, b) tags. if str_contains r n then insort_insert b tags else tags) ib tags =
   fold insort_insert (map snd (filter (\<lambda>p. str_contains r (fst p)) ib)) tags"
  by (induction ib arbitrary: tags) auto

lemma derive_tags_props:
  "sorted (derive_behavior_tags r ts) \<and> distinct (derive_behavior_tags r ts)
   \<and> set (derive_behavior_tags r ts) = (\<Union>t \<in> set ts. set (rule_tag_behaviors t))
       \<union> snd ` {p \<in> set inferred_behaviors. str_contains (to_ascii_lowercase r) (fst p)}"
proof -
  let ?t = "fold insort_insert (concat (map rule_tag_behaviors ts)) []"
  have "sorted ?t" "distinct ?t" "set ?t = (\<Union>t \<in> set ts. set (rule_tag_behaviors t))"
    using fold_insort_insert [of "[]" "concat (map rule_tag_behaviors ts)"] by simp_all
  then show ?thesis
    using fold_insort_insert [of ?t "map snd (filter (\<lambda>p. str_contains (to_ascii_lowercase r) (fst p)) inferred_behaviors)"]
    by (simp add: derive_behavior_tags_def Let_def fold_inferred Un_commute)
qed

lemma strong_chain_malicious:
  "rf_strong_malicious_chain (rule_behavior_profile r ts) \<Longrightarrow> rf_match_class (rule_behavior_profile r ts) = MaliciousBehavior"
  by (simp add: rule_behavior_profile_def Let_def)

end
