(* ===== verification/Edit_Distance.thy ===== *)
theory Edit_Distance
  imports Rust_Str
begin

text \<open>
  \<open>levenshtein_distance\<close> of \<open>capture.rs\<close>: two rows of the dynamic programme, over the characters of
  the two names.  The specification is the least cost of an alignment: an inductive relation that
  deletes, inserts, keeps or replaces one element at a time.
\<close>

section \<open>The two-row programme\<close>

fun lev_row :: "'a \<Rightarrow> 'a list \<Rightarrow> nat list \<Rightarrow> nat \<Rightarrow> nat list" where
  "lev_row x (y # ys) (p0 # p1 # ps) c =
     (let cost = (if x \<noteq> y then 1 else 0); v = min (min (c + 1) (p1 + 1)) (p0 + cost)
      in v # lev_row x ys (p1 # ps) v)"
| "lev_row x _ _ c = []"

fun lev_rows :: "nat \<Rightarrow> 'a list \<Rightarrow> 'a list \<Rightarrow> nat list \<Rightarrow> nat list" where
  "lev_rows i [] right previous = previous"
| "lev_rows i (x # xs) right previous =
     lev_rows (i + 1) xs right ((i + 1) # lev_row x right previous (i + 1))"

definition lev_chars :: "'a list \<Rightarrow> 'a list \<Rightarrow> nat" where
  "lev_chars left right =
     (if left = right then 0
      else if left = [] then length right
      else if right = [] then length left
      else lev_rows 0 left right [0..<Suc (length right)] ! length right)"

definition levenshtein_distance :: "string \<Rightarrow> string \<Rightarrow> nat" where
  "levenshtein_distance left right = lev_chars (utf8_chars left) (utf8_chars right)"

section \<open>Alignments\<close>

inductive align :: "nat \<Rightarrow> 'a list \<Rightarrow> 'a list \<Rightarrow> bool" where
  align_done: "align 0 [] []"
| align_delete: "align n xs ys \<Longrightarrow> align (Suc n) (x # xs) ys"
| align_insert: "align n xs ys \<Longrightarrow> align (Suc n) xs (y # ys)"
| align_keep: "align n xs ys \<Longrightarrow> align n (x # xs) (x # ys)"
| align_replace: "align n xs ys \<Longrightarrow> align (Suc n) (x # xs) (y # ys)"

inductive_cases align_emptyE: "align n [] []"

fun lev :: "'a list \<Rightarrow> 'a list \<Rightarrow> nat" where
  "lev [] ys = length ys"
| "lev (x # xs) [] = Suc (length xs)"
| "lev (x # xs) (y # ys) =
     min (min (lev (x # xs) ys + 1) (lev xs (y # ys) + 1)) (lev xs ys + (if x \<noteq> y then 1 else 0))"

lemma lev_Nil2: "lev xs [] = length xs"
  by (cases xs) auto

lemma align_lev: "align (lev xs ys) xs ys"
proof (induction xs ys rule: lev.induct)
  case (1 ys)
  show ?case
    by (induction ys) (auto intro: align.intros)
next
  case (2 x xs)
  have "align (length xs) xs []"
    by (induction xs) (auto intro: align.intros)
  then show ?case
    by (simp add: align_delete)
next
  case (3 x xs y ys)
  then show ?case
    by (auto simp: min_def intro: align.intros)
qed

lemma lev_delete: "lev (x # xs) ys \<le> Suc (lev xs ys)"
  by (cases ys) (auto simp: lev_Nil2)

lemma lev_insert: "lev xs (y # ys) \<le> Suc (lev xs ys)"
  by (cases xs) auto

lemma lev_least: "align n xs ys \<Longrightarrow> lev xs ys \<le> n"
proof (induction rule: align.induct)
  case (align_delete n xs ys x)
  then show ?case
    using lev_delete [of x xs ys] by simp
next
  case (align_insert n xs ys y)
  then show ?case
    using lev_insert [of xs y ys] by simp
qed auto

lemma lev_is_least: "(LEAST n. align n xs ys) = lev xs ys"
  by (rule Least_equality) (simp_all add: align_lev lev_least)

text \<open>Alignments can be extended at the end, so they can be reversed.\<close>

lemma align_snoc_delete: "align n xs ys \<Longrightarrow> align (Suc n) (xs @ [x]) ys"
  by (induction rule: align.induct) (auto intro: align.intros)

lemma align_snoc_insert: "align n xs ys \<Longrightarrow> align (Suc n) xs (ys @ [y])"
  by (induction rule: align.induct) (auto intro: align.intros)

lemma align_snoc_keep: "align n xs ys \<Longrightarrow> align n (xs @ [x]) (ys @ [x])"
  by (induction rule: align.induct) (auto intro: align.intros)

lemma align_snoc_replace: "align n xs ys \<Longrightarrow> align (Suc n) (xs @ [x]) (ys @ [y])"
  by (induction rule: align.induct) (auto intro: align.intros)

lemma align_rev: "align n xs ys \<Longrightarrow> align n (rev xs) (rev ys)"
  by (induction rule: align.induct)
    (auto intro: align_done align_snoc_delete align_snoc_insert align_snoc_keep align_snoc_replace)

lemma lev_rev: "lev (rev xs) (rev ys) = lev xs ys"
  using lev_least [OF align_rev [OF align_lev [of xs ys]]]
    lev_least [OF align_rev [OF align_lev [of "rev xs" "rev ys"]]] by simp

section \<open>The rows hold the distances of prefixes\<close>

definition pre_lev :: "'a list \<Rightarrow> 'a list \<Rightarrow> nat" where
  "pre_lev u v = lev (rev u) (rev v)"

lemma pre_lev_snoc:
  "pre_lev (u @ [x]) (v @ [y]) =
     min (min (pre_lev (u @ [x]) v + 1) (pre_lev u (v @ [y]) + 1)) (pre_lev u v + (if x \<noteq> y then 1 else 0))"
  by (simp add: pre_lev_def)

lemma pre_lev_Nil: "pre_lev u [] = length u" "pre_lev [] v = length v"
  by (simp_all add: pre_lev_def lev_Nil2)

lemma lev_row_prefixes:
  "lev_row x ys (map (\<lambda>k. pre_lev u (v @ take k ys)) [0..<Suc (length ys)]) (pre_lev (u @ [x]) v) =
   map (\<lambda>k. pre_lev (u @ [x]) (v @ take (Suc k) ys)) [0..<length ys]"
proof (induction ys arbitrary: v)
  case (Cons y ys)
  let ?q = "\<lambda>k. pre_lev u ((v @ [y]) @ take k ys)"
  let ?w = "min (min (pre_lev (u @ [x]) v + 1) (?q 0 + 1)) (pre_lev u v + (if x \<noteq> y then 1 else 0))"
  have shift: "map f [0..<Suc n] = f 0 # map (\<lambda>k. f (Suc k)) [0..<n]" for f :: "nat \<Rightarrow> nat" and n
    by (subst upt_conv_Cons) (simp_all flip: map_Suc_upt del: upt_Suc)
  obtain ps where ps: "map ?q [0..<Suc (length ys)] = ?q 0 # ps"
    using shift by blast
  have "map (\<lambda>k. pre_lev u (v @ take k (y # ys))) [0..<Suc (length (y # ys))] = pre_lev u v # ?q 0 # ps"
    using ps by (subst shift) simp
  moreover have w: "?w = pre_lev (u @ [x]) (v @ [y])"
    by (simp add: pre_lev_snoc)
  moreover have "lev_row x ys (?q 0 # ps) (pre_lev (u @ [x]) (v @ [y])) =
    map (\<lambda>k. pre_lev (u @ [x]) ((v @ [y]) @ take (Suc k) ys)) [0..<length ys]"
    using Cons.IH [of "v @ [y]"] unfolding ps by simp
  moreover have "map (\<lambda>k. pre_lev (u @ [x]) (v @ take (Suc k) (y # ys))) [0..<length (y # ys)] =
    pre_lev (u @ [x]) (v @ [y]) # map (\<lambda>k. pre_lev (u @ [x]) ((v @ [y]) @ take (Suc k) ys)) [0..<length ys]"
    using shift [of "\<lambda>k. pre_lev (u @ [x]) (v @ take (Suc k) (y # ys))" "length ys"] by simp
  ultimately show ?case
    by (simp only: lev_row.simps Let_def w)
qed simp

lemma lev_rows_prefixes:
  "lev_rows (length u) xs ys (map (\<lambda>k. pre_lev u (take k ys)) [0..<Suc (length ys)]) =
   map (\<lambda>k. pre_lev (u @ xs) (take k ys)) [0..<Suc (length ys)]"
proof (induction xs arbitrary: u)
  case (Cons x xs)
  have "Suc (length u) # lev_row x ys (map (\<lambda>k. pre_lev u (take k ys)) [0..<Suc (length ys)]) (Suc (length u)) =
    map (\<lambda>k. pre_lev (u @ [x]) (take k ys)) [0..<Suc (length ys)]"
    using lev_row_prefixes [of x ys u "[]"]
    by (simp add: pre_lev_Nil map_Suc_upt [symmetric] upt_conv_Cons del: upt_Suc)
  then show ?case
    using Cons.IH [of "u @ [x]"] by simp
qed simp

lemma lev_chars_lev: "lev_chars xs ys = lev xs ys"
proof -
  have refl: "lev zs zs = 0" for zs :: "'a list"
  proof -
    have "align 0 zs zs"
      by (induction zs) (auto intro: align.intros)
    then show ?thesis
      using lev_least by fastforce
  qed
  have e: "map (\<lambda>k. pre_lev [] (take k ys)) [0..<Suc (length ys)] = [0..<Suc (length ys)]"
    by (rule nth_equalityI) (auto simp: pre_lev_Nil simp del: upt_Suc)
  have "lev_rows 0 xs ys [0..<Suc (length ys)] = map (\<lambda>k. pre_lev xs (take k ys)) [0..<Suc (length ys)]"
    using lev_rows_prefixes [of "[]" xs ys] unfolding e by simp
  then have "lev_rows 0 xs ys [0..<Suc (length ys)] ! length ys = lev xs ys"
    by (simp add: pre_lev_def lev_rev del: upt_Suc)
  then show ?thesis
    by (auto simp: lev_chars_def refl lev_Nil2)
qed

section \<open>Properties\<close>

text \<open>C38: the two-row programme computes the edit distance: the least number of insertions,
  deletions and replacements of characters that turns one name into the other.\<close>

theorem levenshtein_is_edit_distance:
  "levenshtein_distance left right = (LEAST n. align n (utf8_chars left) (utf8_chars right))"
  by (simp add: levenshtein_distance_def lev_chars_lev lev_is_least)

end
