(* ===== verification/Npm_Metadata.thy ===== *)
theory Npm_Metadata
  imports Capture_Types Edit_Distance
begin

text \<open>
  The npm heuristics: install scripts (\<open>install_scripts.rs\<close>) and the metadata risk score of
  \<open>capture.rs\<close>.  The score is a sequence of weighted factors; a package is suspicious from a
  score of six on.
\<close>

section \<open>Install scripts\<close>

definition install_script_names :: "string list" where
  "install_script_names = [''preinstall'', ''install'', ''postinstall'']"

definition has_npm_install_script :: "json \<Rightarrow> bool" where
  "has_npm_install_script version_meta =
     (case Option.bind (json_get version_meta ''scripts'') as_object of
        Some scripts \<Rightarrow> list_ex (\<lambda>n. n \<in> set (keys scripts)) install_script_names
      | None \<Rightarrow> False)"

text \<open>The \<open>BTreeMap\<close> of install scripts: sorted by name, one entry per name.\<close>

definition npm_install_scripts :: "json \<Rightarrow> (string \<times> string) list" where
  "npm_install_scripts version_meta =
     (case Option.bind (json_get version_meta ''scripts'') as_object of
        Some scripts \<Rightarrow>
          sort_key fst (List.map_filter
            (\<lambda>(name, v). if name \<notin> set install_script_names then None
                         else map_option (\<lambda>s. (name, s)) (as_str v)) scripts)
      | None \<Rightarrow> [])"

definition npm_install_scripts_longstanding :: "json \<Rightarrow> string \<Rightarrow> bool" where
  "npm_install_scripts_longstanding raw current_version =
     (case Option.bind (json_get raw ''versions'') as_object of
        None \<Rightarrow> False
      | Some versions \<Rightarrow>
        (case map_of versions current_version of
           None \<Rightarrow> False
         | Some current_meta \<Rightarrow>
             (let current = npm_install_scripts current_meta in
              current \<noteq> [] \<and>
              list_ex (\<lambda>(version, meta). version \<noteq> current_version \<and> npm_install_scripts meta = current) versions)))"

definition clearly_risky_markers :: "string list" where
  "clearly_risky_markers = [''http://'', ''https://'', ''curl '', ''wget '', ''invoke-webrequest'',
     ''start-process'', ''powershell'', ''child_process'', ''spawn('', ''exec('', ''fetch('', ''axios'',
     ''node scripts/'', ''npx '', ''npm exec'', ''npm install'', ''pnpm '', ''yarn '', ''bash '', ''sh '',
     ''python '', ''pip '']"

definition script_looks_benign :: "string \<Rightarrow> bool" where
  "script_looks_benign script =
     (let lower = to_ascii_lowercase script in
      if contains_any clearly_risky_markers lower then False
      else let informational = starts_with lower ''echo '' \<or> starts_with lower ''printf ''
                 \<or> str_contains lower ''|| echo '' \<or> str_contains lower ''|| printf ''
                 \<or> starts_with lower ''which '' \<or> starts_with lower ''command -v ''
                 \<or> (str_contains lower ''which '' \<and> str_contains lower ''|| echo '')
                 \<or> (str_contains lower ''command -v '' \<and> str_contains lower ''|| echo '');
               local_permission_fix = (str_contains lower ''chmodsync('' \<or> str_contains lower ''chmod '')
                 \<and> (str_contains lower ''__dirname'' \<or> str_contains lower ''join(__dirname'' \<or> str_contains lower ''./bin'')
           in informational \<or> local_permission_fix)"

definition npm_install_scripts_benign :: "json \<Rightarrow> bool" where
  "npm_install_scripts_benign version_meta =
     (let scripts = npm_install_scripts version_meta in
      scripts \<noteq> [] \<and> list_all (\<lambda>(name, script). script_looks_benign script) scripts)"

section \<open>Metadata risk\<close>

definition matching_dependencies :: "string set \<Rightarrow> string list \<Rightarrow> string list" where
  "matching_dependencies dependency_set candidates = filter (\<lambda>c. c \<in> dependency_set) candidates"

definition confusable_npm_package_core :: "string \<Rightarrow> bool" where
  "confusable_npm_package_core package =
     (let unscoped = last (split_char CHR ''/'' package);
          core = to_ascii_lowercase (hd (split_where is_separator unscoped))
      in 5 \<le> length core \<and>
         list_ex (\<lambda>candidate. core \<noteq> candidate \<and> levenshtein_distance core candidate \<le> 1)
           [''undici'', ''axios'', ''react'', ''lodash'', ''express'', ''chalk'', ''minimatch'', ''request''])"

definition native_credential_deps :: "string list" where
  "native_credential_deps = [''@primno/dpapi'', ''node-dpapi'', ''koffi'', ''ffi-napi'', ''ref-napi'']"
definition browser_data_deps :: "string list" where
  "browser_data_deps = [''sqlite3'', ''better-sqlite3'', ''level'']"
definition screen_capture_deps :: "string list" where
  "screen_capture_deps = [''screenshot-desktop'', ''node-webcam'']"
definition windows_tooling_deps :: "string list" where
  "windows_tooling_deps = [''rcedit'', ''resedit'', ''node-windows'', ''winreg'']"
definition archive_deps :: "string list" where
  "archive_deps = [''archiver'', ''adm-zip'', ''tar'']"
definition c2_deps :: "string list" where
  "c2_deps = [''ws'', ''socket.io-client'']"

definition add_factor :: "bool \<Rightarrow> nat \<Rightarrow> string \<Rightarrow> nat \<times> string list \<Rightarrow> nat \<times> string list" where
  "add_factor b w f acc = (if b then (fst acc + w, snd acc @ [f]) else acc)"

definition assess_npm_metadata_risk ::
  "string \<Rightarrow> string list \<Rightarrow> json option \<Rightarrow> json option \<Rightarrow> json option \<Rightarrow> metadata_risk" where
  "assess_npm_metadata_risk package dependencies bin main pkg_targets =
     (let dependency_set = set dependencies;
          native = matching_dependencies dependency_set native_credential_deps \<noteq> [];
          browser = matching_dependencies dependency_set browser_data_deps \<noteq> [];
          screen = matching_dependencies dependency_set screen_capture_deps \<noteq> [];
          windows = matching_dependencies dependency_set windows_tooling_deps \<noteq> [];
          archive = matching_dependencies dependency_set archive_deps \<noteq> [];
          c2 = matching_dependencies dependency_set c2_deps \<noteq> [];
          windows_pkg_target = list_ex (\<lambda>t. str_contains (to_ascii_lowercase t) ''win'') (array_strings pkg_targets);
          has_bin_entrypoint = (case bin of Some (JString _) \<Rightarrow> True | Some (JObject fs) \<Rightarrow> fs \<noteq> [] | _ \<Rightarrow> False);
          main_is_plain_js = (case Option.bind main as_str of Some e \<Rightarrow> ends_with e ''.js'' | None \<Rightarrow> False);
          executable_cli_shape = has_bin_entrypoint \<and> main_is_plain_js;
          confusable_core = confusable_npm_package_core package;
          acc = (0, []);
          acc = add_factor native 5 ''native_credential_access_dependency'' acc;
          acc = add_factor browser 2 ''browser_data_store_dependency'' acc;
          acc = add_factor screen 2 ''screen_capture_dependency'' acc;
          acc = add_factor windows 2 ''windows_binary_tooling_dependency'' acc;
          acc = add_factor archive 1 ''archive_exfiltration_dependency'' acc;
          acc = add_factor c2 1 ''realtime_c2_dependency'' acc;
          acc = add_factor windows_pkg_target 1 ''windows_binary_target'' acc;
          acc = add_factor executable_cli_shape 1 ''bin_executes_javascript_entrypoint'' acc;
          acc = add_factor confusable_core 2 ''confusable_package_name'' acc;
          acc = add_factor (native \<and> (browser \<or> screen \<or> windows)) 2 ''credential_theft_capability_combo'' acc;
          suspicious = fst acc \<ge> 6
      in \<lparr>mr_suspicious = suspicious, mr_score = fst acc, mr_factors = snd acc,
          mr_reason = (if suspicious
             then ''npm metadata for '' @ package @ '' combines high-risk native credential, surveillance, or exfiltration dependencies''
             else ''no malware-shaped npm metadata pattern observed'')\<rparr>)"

definition npm_metadata_risk_from_details :: "string \<Rightarrow> json \<Rightarrow> metadata_risk" where
  "npm_metadata_risk_from_details package details =
     assess_npm_metadata_risk package (array_strings (json_get details ''dependencies''))
       (json_get details ''bin'') (json_get details ''main'') (json_get details ''pkg_targets'')"

definition captured_metadata_risk :: "codecs \<Rightarrow> captured_release \<Rightarrow> metadata_risk" where
  "captured_metadata_risk c cap =
     (case Option.bind (json_get (ca_details cap) ''metadata_risk'') (dec_risk c) of
        Some s \<Rightarrow> s
      | None \<Rightarrow>
          (case ca_ecosystem cap of
             Npm \<Rightarrow> npm_metadata_risk_from_details (ca_package cap) (ca_details cap)
           | Pypi \<Rightarrow> metadata_risk_default
           | CratesIo \<Rightarrow> metadata_risk_default))"

definition extract_npm_dependencies :: "json \<Rightarrow> string list" where
  "extract_npm_dependencies version_meta =
     (case Option.bind (json_get version_meta ''dependencies'') as_object of
        Some deps \<Rightarrow> map (\<lambda>(name, _). normalize_package_name Npm name) deps
      | None \<Rightarrow> [])"

definition json_or_null :: "json option \<Rightarrow> json" where
  "json_or_null v = (case v of Some w \<Rightarrow> w | None \<Rightarrow> JNull)"

definition build_npm_capture_details :: "codecs \<Rightarrow> string \<Rightarrow> json \<Rightarrow> json" where
  "build_npm_capture_details c package version_meta =
     (let dependencies = extract_npm_dependencies version_meta;
          risk = assess_npm_metadata_risk package dependencies (json_get version_meta ''bin'')
                   (json_get version_meta ''main'') (json_pointer version_meta [''pkg'', ''targets''])
      in JObject [
          (''dist_tags'', JNull), (''maintainers'', JNull),
          (''publisher'', json_or_null (json_get version_meta ''_npmUser'')),
          (''repository'', json_or_null (json_get version_meta ''repository'')),
          (''dependencies'', JArray (map JString dependencies)),
          (''deprecated'', json_or_null (json_get version_meta ''deprecated'')),
          (''scripts'', json_or_null (json_get version_meta ''scripts'')),
          (''has_install_scripts'', JBool (has_npm_install_script version_meta)),
          (''install_scripts_longstanding'', JBool False),
          (''install_scripts_benign'', JBool (npm_install_scripts_benign version_meta)),
          (''unpublished'', JNull),
          (''bin'', json_or_null (json_get version_meta ''bin'')),
          (''main'', json_or_null (json_get version_meta ''main'')),
          (''pkg_targets'', json_or_null (json_pointer version_meta [''pkg'', ''targets''])),
          (''metadata_risk'', enc_risk c risk)])"

section \<open>Lemmas\<close>

lemma matching_nonempty: "matching_dependencies S cs \<noteq> [] \<longleftrightarrow> set cs \<inter> S \<noteq> {}"
  by (auto simp: matching_dependencies_def filter_empty_conv)

lemma matching_mono: "S \<subseteq> T \<Longrightarrow> matching_dependencies S cs \<noteq> [] \<Longrightarrow> matching_dependencies T cs \<noteq> []"
  unfolding matching_nonempty by blast

lemma array_strings_map [simp]: "array_strings (Some (JArray (map JString xs))) = xs"
  by (induction xs) (simp_all add: array_strings_def array_items_def List.map_filter_def)

lemma add_factor_fst: "fst (add_factor b w f acc) = fst acc + (if b then w else 0)"
  by (simp add: add_factor_def)

lemma add_factor_mono:
  "fst acc \<le> fst acc' \<Longrightarrow> (b \<Longrightarrow> b') \<Longrightarrow> fst (add_factor b w f acc) \<le> fst (add_factor b' w f acc')"
  by (auto simp: add_factor_fst)

lemma risk_suspicious_iff:
  "mr_suspicious (assess_npm_metadata_risk p ds b m t) \<longleftrightarrow> 6 \<le> mr_score (assess_npm_metadata_risk p ds b m t)"
  by (simp add: assess_npm_metadata_risk_def Let_def)

lemma risk_score_bound: "mr_score (assess_npm_metadata_risk p ds b m t) \<le> 19"
  by (simp add: assess_npm_metadata_risk_def Let_def add_factor_fst)

lemma risk_score_mono:
  assumes "set ds \<subseteq> set ds'"
  shows "mr_score (assess_npm_metadata_risk p ds b m t) \<le> mr_score (assess_npm_metadata_risk p ds' b m t)"
  using matching_mono [OF assms]
  by (auto simp: assess_npm_metadata_risk_def Let_def intro!: add_factor_mono)

lemma benign_no_risky_marker:
  "script_looks_benign s \<Longrightarrow> m \<in> set clearly_risky_markers \<Longrightarrow> \<not> str_contains (to_ascii_lowercase s) m"
  by (auto simp: script_looks_benign_def contains_any_def list_ex_iff Let_def split: if_splits)

lemma npm_details_fields:
  "json_get (build_npm_capture_details c p v) ''dependencies'' = Some (JArray (map JString (extract_npm_dependencies v)))"
  "json_get_bool (build_npm_capture_details c p v) ''install_scripts_longstanding'' = False"
  "json_get_bool (build_npm_capture_details c p v) ''install_scripts_benign'' = npm_install_scripts_benign v"
  "json_get_bool (build_npm_capture_details c p v) ''has_install_scripts'' = has_npm_install_script v"
  by (simp_all add: build_npm_capture_details_def Let_def json_get_bool_def)

section \<open>Properties\<close>

text \<open>adding dependencies never lowers the npm metadata risk score and never turns a suspicious
  package into an unsuspicious one; the score stays within 19.\<close>

theorem npm_risk_monotone:
  assumes "set deps \<subseteq> set deps'"
  shows "mr_score (assess_npm_metadata_risk p deps b m t) \<le> mr_score (assess_npm_metadata_risk p deps' b m t)
    \<and> (mr_suspicious (assess_npm_metadata_risk p deps b m t) \<longrightarrow> mr_suspicious (assess_npm_metadata_risk p deps' b m t))
    \<and> mr_score (assess_npm_metadata_risk p deps' b m t) \<le> 19"
  using risk_score_mono [OF assms, of p b m t] risk_score_bound [of p deps' b m t] by (simp add: risk_suspicious_iff)

theorem npm_risk_monotone_witness:
  "mr_score (assess_npm_metadata_risk ''demo'' [''koffi''] None None None)
     \<le> mr_score (assess_npm_metadata_risk ''demo'' [''ws'', ''koffi''] None None None)"
  by (rule npm_risk_monotone [THEN conjunct1]) simp

end
