(* ===== verification/Backoff.thy ===== *)
theory Backoff
  imports Prelude
begin

text \<open>
  \<open>sources/mod.rs\<close>: the failure backoff of a poller and the request throttle the requests of a
  source share.  Durations and instants are nanoseconds; \<open>Duration::saturating_mul\<close> saturates at
  \<open>Duration::MAX\<close> and the \<open>u32\<close> failure counters saturate.  The throttle's lock makes each access to
  its state atomic, so concurrent requests are an interleaving of \<open>throttle_step\<close>s at
  non-decreasing clock readings.
\<close>

type_synonym duration = nat

definition duration_max :: duration where
  "duration_max = (2 ^ 64 - 1) * 1000000000 + 999999999"

definition duration_mul :: "duration \<Rightarrow> nat \<Rightarrow> duration" where
  "duration_mul d k = min (d * k) duration_max"

definition u32_max :: nat where "u32_max = 2 ^ 32 - 1"

record resilience_config =
  rc_min_request_interval :: duration
  rc_backoff_initial :: duration
  rc_backoff_max :: duration

definition default_offline_resilience_config :: resilience_config where
  "default_offline_resilience_config = \<lparr>rc_min_request_interval = 100 * 10 ^ 6,
     rc_backoff_initial = 10 ^ 9, rc_backoff_max = 30 * 10 ^ 9\<rparr>"

section \<open>FailureBackoff\<close>

record failure_backoff =
  fb_initial :: duration
  fb_max :: duration
  fb_failures :: nat

definition fb_new :: "resilience_config \<Rightarrow> failure_backoff" where
  "fb_new c = \<lparr>fb_initial = rc_backoff_initial c,
     fb_max = max (rc_backoff_max c) (rc_backoff_initial c), fb_failures = 0\<rparr>"

definition fb_reset :: "failure_backoff \<Rightarrow> failure_backoff" where
  "fb_reset b = b\<lparr>fb_failures := 0\<rparr>"

definition fb_next_delay :: "failure_backoff \<Rightarrow> duration \<times> failure_backoff" where
  "fb_next_delay b =
     (let multiplier = 2 ^ min (fb_failures b) 8
      in (min (duration_mul (fb_initial b) multiplier) (fb_max b),
          b\<lparr>fb_failures := min (fb_failures b + 1) u32_max\<rparr>))"

section \<open>RequestThrottle\<close>

record throttle =
  th_min_interval :: duration
  th_backoff_initial :: duration
  th_backoff_max :: duration
  th_next_request_at :: nat
  th_backoff_until :: "nat option"
  th_failures :: nat

definition th_new :: "resilience_config \<Rightarrow> nat \<Rightarrow> throttle" where
  "th_new c now = \<lparr>th_min_interval = rc_min_request_interval c,
     th_backoff_initial = rc_backoff_initial c,
     th_backoff_max = max (rc_backoff_max c) (rc_backoff_initial c),
     th_next_request_at = now, th_backoff_until = None, th_failures = 0\<rparr>"

definition th_reset_failures :: "throttle \<Rightarrow> throttle" where
  "th_reset_failures t = t\<lparr>th_failures := 0, th_backoff_until := None\<rparr>"

definition th_ready_at :: "throttle \<Rightarrow> nat" where
  "th_ready_at t = (case th_backoff_until t of
     Some u \<Rightarrow> max u (th_next_request_at t) | None \<Rightarrow> th_next_request_at t)"

text \<open>One critical section of \<open>wait_turn\<close>: \<open>None\<close> grants the request, \<open>Some d\<close> sleeps for \<open>d\<close>.\<close>

definition th_poll :: "nat \<Rightarrow> throttle \<Rightarrow> nat option \<times> throttle" where
  "th_poll now t =
     (if th_ready_at t \<le> now then (None, t\<lparr>th_next_request_at := now + th_min_interval t\<rparr>)
      else (Some (th_ready_at t - now), t))"

definition th_note_failure :: "nat \<Rightarrow> throttle \<Rightarrow> throttle" where
  "th_note_failure now t =
     (let multiplier = 2 ^ min (th_failures t) 8;
          delay = min (duration_mul (th_backoff_initial t) multiplier) (th_backoff_max t)
      in t\<lparr>th_failures := min (th_failures t + 1) u32_max, th_backoff_until := Some (now + delay)\<rparr>)"

definition is_backoff_status :: "nat \<Rightarrow> bool" where
  "is_backoff_status status \<longleftrightarrow>
     status = 429 \<or> status = 408 \<or> status = 502 \<or> status = 503 \<or> status = 504
     \<or> (500 \<le> status \<and> status < 600)"

definition th_note_response :: "nat \<Rightarrow> nat \<Rightarrow> throttle \<Rightarrow> throttle" where
  "th_note_response now status t =
     (if is_backoff_status status then th_note_failure now t else th_reset_failures t)"

text \<open>The loop of \<open>wait_turn\<close> for one request: each round reads the clock, and a round that has
  to sleep learns whether the shutdown fired during the sleep.  \<open>None\<close> means that the readings ran
  out before the request was granted; \<open>Some True\<close> is a shutdown.\<close>

fun th_wait_turn :: "(nat \<times> bool) list \<Rightarrow> throttle \<Rightarrow> (bool \<times> throttle) option" where
  "th_wait_turn [] t = None"
| "th_wait_turn ((now, cancelled) # rounds) t =
     (case th_poll now t of
        (None, t') \<Rightarrow> Some (False, t')
      | (Some d, t') \<Rightarrow> if cancelled then Some (True, t') else th_wait_turn rounds t')"

text \<open>\<open>send\<close>: a shutdown while waiting is an error; otherwise the outcome of the request (its
  status, or \<open>None\<close> for a transport error) at time \<open>done\<close> updates the backoff.\<close>

datatype send_result = Send_Shutdown | Send_Response nat | Send_Transport_Error

definition th_send :: "(nat \<times> bool) list \<Rightarrow> nat \<Rightarrow> nat option \<Rightarrow> throttle \<Rightarrow> (send_result \<times> throttle) option" where
  "th_send rounds done outcome t =
     (case th_wait_turn rounds t of
        None \<Rightarrow> None
      | Some (True, t') \<Rightarrow> Some (Send_Shutdown, t')
      | Some (False, t') \<Rightarrow>
          (case outcome of
             Some status \<Rightarrow> Some (Send_Response status, th_note_response done status t')
           | None \<Rightarrow> Some (Send_Transport_Error, th_note_failure done t')))"

section \<open>Concurrent requests\<close>

datatype throttle_action = Poll | Response nat | Transport_Error

text \<open>A run: the throttle, the clock, and the instants at which a request was granted, latest
  first.\<close>

inductive throttle_run :: "resilience_config \<Rightarrow> nat \<Rightarrow> throttle \<Rightarrow> nat \<Rightarrow> nat list \<Rightarrow> bool"
  for c start where
  init: "throttle_run c start (th_new c start) start []"
| poll_granted: "throttle_run c start t clock gs \<Longrightarrow> clock \<le> now \<Longrightarrow> th_poll now t = (None, t') \<Longrightarrow>
    throttle_run c start t' now (now # gs)"
| poll_delayed: "throttle_run c start t clock gs \<Longrightarrow> clock \<le> now \<Longrightarrow> th_poll now t = (Some d, t') \<Longrightarrow>
    throttle_run c start t' now gs"
| response: "throttle_run c start t clock gs \<Longrightarrow> clock \<le> now \<Longrightarrow>
    throttle_run c start (th_note_response now status t) now gs"
| transport_error: "throttle_run c start t clock gs \<Longrightarrow> clock \<le> now \<Longrightarrow>
    throttle_run c start (th_note_failure now t) now gs"

inductive_cases throttle_run_grant: "throttle_run c start t clock (g # gs)"

lemma throttle_field_simps [simp]:
  "th_min_interval (th_note_response now st t) = th_min_interval t"
  "th_next_request_at (th_note_response now st t) = th_next_request_at t"
  "th_backoff_initial (th_note_response now st t) = th_backoff_initial t"
  "th_backoff_max (th_note_response now st t) = th_backoff_max t"
  "th_min_interval (th_note_failure now t) = th_min_interval t"
  "th_next_request_at (th_note_failure now t) = th_next_request_at t"
  "th_backoff_initial (th_note_failure now t) = th_backoff_initial t"
  "th_backoff_max (th_note_failure now t) = th_backoff_max t"
  by (simp_all add: th_note_response_def th_note_failure_def th_reset_failures_def Let_def)

lemma poll_grant: "th_poll now t = (None, t') \<longleftrightarrow>
  th_ready_at t \<le> now \<and> t' = t\<lparr>th_next_request_at := now + th_min_interval t\<rparr>"
  by (auto simp: th_poll_def)

lemma poll_delay: "th_poll now t = (Some d, t') \<longleftrightarrow>
  now < th_ready_at t \<and> d = th_ready_at t - now \<and> t' = t"
  by (auto simp: th_poll_def)

lemma ready_at_ge: "th_next_request_at t \<le> th_ready_at t"
  "th_backoff_until t = Some u \<Longrightarrow> u \<le> th_ready_at t"
  by (simp_all add: th_ready_at_def split: option.splits)

text \<open>Granted requests of one source are at least the minimal interval apart, however the polls,
  responses and failures of concurrent requests interleave.\<close>

lemma throttle_spacing_inv:
  "throttle_run c start t clock gs \<Longrightarrow>
   th_min_interval t = rc_min_request_interval c
   \<and> sorted_wrt (\<lambda>later earlier. earlier + rc_min_request_interval c \<le> later) gs
   \<and> (\<forall>g \<in> set gs. g + rc_min_request_interval c \<le> th_next_request_at t \<and> g \<le> clock)"
proof (induction rule: throttle_run.induct)
  case (poll_granted t clock gs now t')
  then show ?case
    using ready_at_ge(1) [of t] by (force simp: poll_grant)
qed (auto simp: th_new_def poll_delay)

section \<open>Backoff bounds\<close>

definition backoff_delay :: "duration \<Rightarrow> duration \<Rightarrow> nat \<Rightarrow> duration" where
  "backoff_delay initial mx n = min (duration_mul initial (2 ^ min n 8)) mx"

lemma fb_next_delay_eq: "fst (fb_next_delay b) = backoff_delay (fb_initial b) (fb_max b) (fb_failures b)"
  by (simp add: fb_next_delay_def backoff_delay_def Let_def)

lemma note_failure_until:
  "th_backoff_until (th_note_failure now t) =
     Some (now + backoff_delay (th_backoff_initial t) (th_backoff_max t) (th_failures t))"
  by (simp add: th_note_failure_def backoff_delay_def Let_def)

lemma backoff_delay_mono: "m \<le> n \<Longrightarrow> backoff_delay i mx m \<le> backoff_delay i mx n"
proof -
  assume "m \<le> n"
  then have "(2::nat) ^ min m 8 \<le> 2 ^ min n 8"
    by (intro power_increasing) auto
  then have "i * 2 ^ min m 8 \<le> i * 2 ^ min n 8"
    by (rule mult_le_mono2)
  then show ?thesis
    unfolding backoff_delay_def duration_mul_def by (intro min.mono order_refl)
qed

lemma backoff_delay_bounds:
  "i \<le> mx \<Longrightarrow> i \<le> duration_max \<Longrightarrow> i \<le> backoff_delay i mx n"
  "backoff_delay i mx n \<le> mx" "backoff_delay i mx n \<le> 256 * i"
proof -
  have p: "1 \<le> (2::nat) ^ min n 8" "(2::nat) ^ min n 8 \<le> 2 ^ 8"
    by (simp, intro power_increasing, auto)
  show "i \<le> mx \<Longrightarrow> i \<le> duration_max \<Longrightarrow> i \<le> backoff_delay i mx n"
    using p(1) by (auto simp: backoff_delay_def duration_mul_def)
  show "backoff_delay i mx n \<le> mx"
    by (simp add: backoff_delay_def)
  have "i * 2 ^ min n 8 \<le> i * 2 ^ 8"
    using p(2) by (rule mult_le_mono2)
  then show "backoff_delay i mx n \<le> 256 * i"
    by (simp add: backoff_delay_def duration_mul_def min.coboundedI1)
qed

text \<open>The delays of a run of failures that starts right after a reset.\<close>

fun fb_delays :: "nat \<Rightarrow> failure_backoff \<Rightarrow> duration list" where
  "fb_delays 0 b = []"
| "fb_delays (Suc n) b = (let (d, b') = fb_next_delay b in d # fb_delays n b')"

lemma fb_delays_nth:
  assumes "k < n" "fb_failures b + n \<le> u32_max"
  shows "fb_delays n b ! k = backoff_delay (fb_initial b) (fb_max b) (fb_failures b + k)"
  using assms
proof (induction n arbitrary: k b)
  case (Suc n)
  have b': "snd (fb_next_delay b) = b\<lparr>fb_failures := Suc (fb_failures b)\<rparr>"
    using Suc.prems by (simp add: fb_next_delay_def Let_def)
  show ?case
  proof (cases k)
    case 0
    then show ?thesis
      by (simp add: split_beta Let_def fb_next_delay_eq)
  next
    case (Suc j)
    have "fb_delays n (snd (fb_next_delay b)) ! j =
      backoff_delay (fb_initial b) (fb_max b) (Suc (fb_failures b) + j)"
      unfolding b' using Suc.IH [of j "b\<lparr>fb_failures := Suc (fb_failures b)\<rparr>"] Suc Suc.prems by simp
    then show ?thesis
      using Suc by (simp add: split_beta Let_def)
  qed
qed simp

lemma length_fb_delays [simp]: "length (fb_delays n b) = n"
  by (induction n arbitrary: b) (simp_all add: split_beta Let_def)

section \<open>Properties\<close>


definition demo_resilience :: resilience_config where
  "demo_resilience = \<lparr>rc_min_request_interval = 100, rc_backoff_initial = 10, rc_backoff_max = 40\<rparr>"


text \<open>A request that has to wait is granted at its second look at the clock, when that look comes
  at or after the instant the first look computed and no other request took the turn.\<close>

lemma wait_turn_two_rounds:
  assumes "th_poll now t = (Some d, t')" "now + d \<le> later"
  shows "th_wait_turn [(now, False), (later, False)] t =
    Some (False, t\<lparr>th_next_request_at := later + th_min_interval t\<rparr>)"
proof -
  have "t' = t" "th_ready_at t \<le> later"
    using assms by (auto simp: poll_delay)
  then show ?thesis
    using assms(1) by (simp add: th_poll_def)
qed

text \<open>the delays of consecutive failures start at the initial delay, never decrease, double at
  most up to 256 times the initial delay and never exceed the maximum.\<close>

theorem fb_delays_bounded:
  assumes "n \<le> u32_max" "rc_backoff_initial c \<le> duration_max" "j \<le> k" "k < n"
  shows "rc_backoff_initial c \<le> fb_delays n (fb_new c) ! j
    \<and> fb_delays n (fb_new c) ! j \<le> fb_delays n (fb_new c) ! k
    \<and> fb_delays n (fb_new c) ! k \<le> max (rc_backoff_max c) (rc_backoff_initial c)
    \<and> fb_delays n (fb_new c) ! k \<le> 256 * rc_backoff_initial c
    \<and> fb_delays n (fb_new c) ! 0 = rc_backoff_initial c"
proof -
  have nth: "fb_delays n (fb_new c) ! i =
    backoff_delay (rc_backoff_initial c) (max (rc_backoff_max c) (rc_backoff_initial c)) i" if "i < n" for i
    using fb_delays_nth [of i n "fb_new c"] assms(1) that by (simp add: fb_new_def)
  have "backoff_delay (rc_backoff_initial c) (max (rc_backoff_max c) (rc_backoff_initial c)) 0 = rc_backoff_initial c"
    using assms(2) by (simp add: backoff_delay_def duration_mul_def)
  then show ?thesis
    using assms backoff_delay_mono [OF assms(3)] backoff_delay_bounds by (simp add: nth)
qed

theorem fb_delays_bounded_witness:
  "rc_backoff_initial demo_resilience \<le> fb_delays 4 (fb_new demo_resilience) ! 1
    \<and> fb_delays 4 (fb_new demo_resilience) ! 1 \<le> fb_delays 4 (fb_new demo_resilience) ! 3
    \<and> fb_delays 4 (fb_new demo_resilience) ! 3 \<le> max (rc_backoff_max demo_resilience) (rc_backoff_initial demo_resilience)
    \<and> fb_delays 4 (fb_new demo_resilience) ! 3 \<le> 256 * rc_backoff_initial demo_resilience
    \<and> fb_delays 4 (fb_new demo_resilience) ! 0 = rc_backoff_initial demo_resilience"
  by (rule fb_delays_bounded) (simp_all add: u32_max_def duration_max_def demo_resilience_def)

end
