(* ===== verification/Capture_Extract.thy ===== *)
theory Capture_Extract
  imports Npm_Metadata Backoff
begin

text \<open>
  \<open>capture.rs\<close>: how registry metadata becomes a \<open>CapturedRelease\<close>, what the graph learns from it,
  the repository signal, the retention decision, the metadata fetch with its retry, and the pruning
  of the staging cache.  HTTP responses, date parsing, \<open>urlencoding\<close> and the provenance lookup are
  arguments; the full and the priority-only captures share the construction, as they do in the
  source line by line.
\<close>

section \<open>Artifacts\<close>

definition pointer_str :: "json \<Rightarrow> string list \<Rightarrow> string option" where
  "pointer_str v p = Option.bind (json_pointer v p) as_str"

definition or_else :: "'a option \<Rightarrow> 'a option \<Rightarrow> 'a option" where
  "or_else a b = (case a of Some x \<Rightarrow> Some x | None \<Rightarrow> b)"

definition pypi_artifact :: "(string \<Rightarrow> datetime option) \<Rightarrow> json \<Rightarrow> captured_artifact option" where
  "pypi_artifact parse_rfc3339 a =
     (case Option.bind (json_get a ''filename'') as_str of
        None \<Rightarrow> None
      | Some filename \<Rightarrow> Some \<lparr>
          ar_filename = filename,
          ar_kind = Option.bind (json_get a ''packagetype'') as_str,
          ar_url = Option.bind (json_get a ''url'') as_str,
          ar_size_bytes = Option.bind (json_get a ''size'') as_u64,
          ar_uploaded_at = or_else
            (Option.bind (Option.bind (json_get a ''upload_time_iso_8601'') as_str) parse_rfc3339)
            (Option.bind (Option.bind (json_get a ''upload_time'') as_str) parse_rfc3339),
          ar_yanked = Option.bind (json_get a ''yanked'') as_bool,
          ar_hashes = hashes_default\<lparr>
            ah_sha256 := pointer_str a [''digests'', ''sha256''],
            ah_sha512 := pointer_str a [''digests'', ''sha512''],
            ah_blake2b_256 := pointer_str a [''digests'', ''blake2b_256''],
            ah_md5 := or_else (pointer_str a [''digests'', ''md5'']) (Option.bind (json_get a ''md5_digest'') as_str)\<rparr>,
          ar_provenance_path = None\<rparr>)"

definition extract_pypi_artifacts :: "(string \<Rightarrow> datetime option) \<Rightarrow> json \<Rightarrow> captured_artifact list" where
  "extract_pypi_artifacts parse_rfc3339 raw =
     List.map_filter (pypi_artifact parse_rfc3339) (array_items (json_get raw ''urls''))"

definition slash_to_dash :: "string \<Rightarrow> string" where
  "slash_to_dash s = map (\<lambda>c. if c = CHR ''/'' then CHR ''-'' else c) s"

definition extract_npm_artifacts :: "release_event \<Rightarrow> json \<Rightarrow> captured_artifact list" where
  "extract_npm_artifacts e version_meta =
     (let dist = json_or_null (json_get version_meta ''dist'') in
      [\<lparr>ar_filename = slash_to_dash (ev_package e) @ ''-'' @ ev_version e @ ''.tgz'',
        ar_kind = Some ''npm-tarball'',
        ar_url = Option.bind (json_get dist ''tarball'') as_str,
        ar_size_bytes = Option.bind (json_get dist ''unpackedSize'') as_u64,
        ar_uploaded_at = None, ar_yanked = None,
        ar_hashes = hashes_default\<lparr>
          ah_integrity := Option.bind (json_get dist ''integrity'') as_str,
          ah_shasum := Option.bind (json_get dist ''shasum'') as_str\<rparr>,
        ar_provenance_path = None\<rparr>])"

definition extract_crates_artifacts ::
  "(string \<Rightarrow> datetime option) \<Rightarrow> (string \<Rightarrow> string) \<Rightarrow> release_event \<Rightarrow> json option \<Rightarrow> captured_artifact list" where
  "extract_crates_artifacts parse_rfc3339 encode e version_meta =
     (case version_meta of
        None \<Rightarrow> []
      | Some v \<Rightarrow>
        (let url = (case Option.bind (json_get v ''dl_path'') as_str of
               Some path \<Rightarrow> if starts_with path ''http://'' \<or> starts_with path ''https://'' then path
                            else ''https://crates.io'' @ path
             | None \<Rightarrow> ''https://crates.io/api/v1/crates/'' @ encode (ev_package e) @ ''/''
                        @ encode (ev_version e) @ ''/download'')
         in [\<lparr>ar_filename = ev_package e @ ''-'' @ ev_version e @ ''.crate'',
              ar_kind = Some ''crate'', ar_url = Some url, ar_size_bytes = None,
              ar_uploaded_at = Option.bind (Option.bind (json_get v ''created_at'') as_str) parse_rfc3339,
              ar_yanked = Option.bind (json_get v ''yanked'') as_bool,
              ar_hashes = hashes_default\<lparr>ah_checksum := Option.bind (json_get v ''checksum'') as_str\<rparr>,
              ar_provenance_path = None\<rparr>]))"

section \<open>Dependencies\<close>

definition extract_pypi_dependencies :: "json \<Rightarrow> string list" where
  "extract_pypi_dependencies raw =
     map (normalize_package_name Pypi)
       (List.map_filter parse_pypi_requirement_name (array_strings (json_pointer raw [''info'', ''requires_dist''])))"

definition crates_dependencies :: "json \<Rightarrow> string list" where
  "crates_dependencies raw =
     map (normalize_package_name CratesIo)
       (List.map_filter (\<lambda>d. Option.bind (json_get d ''crate_id'') as_str)
         (filter (\<lambda>d. (case Option.bind (json_get d ''kind'') as_str of None \<Rightarrow> True | Some kind \<Rightarrow> kind = ''normal'')
                      \<and> \<not> json_get_bool d ''optional'')
           (array_items (json_get raw ''dependencies''))))"

section \<open>Captures\<close>

definition released_from ::
  "datetime \<Rightarrow> release_event \<Rightarrow> release_status \<Rightarrow> string \<Rightarrow> string option \<Rightarrow> captured_artifact list
   \<Rightarrow> repository_provenance option \<Rightarrow> json \<Rightarrow> captured_release" where
  "released_from now e status metadata_url raw_path artifacts upstream details =
     \<lparr>ca_event_id = ev_event_id e, ca_ecosystem = ev_ecosystem e, ca_package = ev_package e,
      ca_version = ev_version e, ca_observed_at = ev_observed_at e, ca_published_at = ev_published_at e,
      ca_captured_at = now, ca_status = status, ca_package_url = ev_package_url e,
      ca_release_url = ev_release_url e, ca_metadata_url = Some metadata_url,
      ca_raw_metadata_path = raw_path, ca_artifacts = artifacts, ca_upstream_repository = upstream,
      ca_details = details\<rparr>"

definition pypi_details :: "json \<Rightarrow> json" where
  "pypi_details raw = JObject [
     (''last_serial'', json_or_null (json_get raw ''last_serial'')),
     (''requires_python'', json_or_null (json_pointer raw [''info'', ''requires_python''])),
     (''summary'', json_or_null (json_pointer raw [''info'', ''summary''])),
     (''home_page'', json_or_null (json_pointer raw [''info'', ''home_page''])),
     (''project_urls'', json_or_null (json_pointer raw [''info'', ''project_urls''])),
     (''dependencies'', JArray (map JString (extract_pypi_dependencies raw))),
     (''ownership'', json_or_null (json_pointer raw [''info'', ''ownership''])),
     (''yanked'', json_or_null (json_pointer raw [''info'', ''yanked''])),
     (''yanked_reason'', json_or_null (json_pointer raw [''info'', ''yanked_reason'']))]"

definition pypi_status :: "json \<Rightarrow> captured_artifact list \<Rightarrow> release_status" where
  "pypi_status raw artifacts =
     (let yanked = (case Option.bind (json_pointer raw [''info'', ''yanked'']) as_bool of
            Some y \<Rightarrow> y | None \<Rightarrow> list_ex (\<lambda>a. ar_yanked a = Some True) artifacts)
      in if yanked then Yanked else Active)"

definition pypi_metadata_url :: "(string \<Rightarrow> string) \<Rightarrow> release_event \<Rightarrow> string" where
  "pypi_metadata_url encode e = (case ev_metadata_url e of Some u \<Rightarrow> u
     | None \<Rightarrow> ''https://pypi.org/pypi/'' @ encode (ev_package e) @ ''/'' @ encode (ev_version e) @ ''/json'')"

text \<open>\<open>provenance\<close> gives the path of the integrity file written for an artifact, if any.\<close>

definition capture_pypi ::
  "(string \<Rightarrow> datetime option) \<Rightarrow> (string \<Rightarrow> string) \<Rightarrow> datetime \<Rightarrow> bool \<Rightarrow> (string \<Rightarrow> string option)
   \<Rightarrow> (json \<Rightarrow> repository_provenance option) \<Rightarrow> release_event \<Rightarrow> json option \<Rightarrow> captured_release" where
  "capture_pypi parse_rfc3339 encode now with_provenance provenance upstream e metadata =
     (case metadata of
        None \<Rightarrow> captured_removed now e
      | Some raw \<Rightarrow>
        (let artifacts = extract_pypi_artifacts parse_rfc3339 raw;
             status = pypi_status raw artifacts;
             artifacts = (if with_provenance
               then map (\<lambda>a. case provenance (ar_filename a) of
                                Some path \<Rightarrow> a\<lparr>ar_provenance_path := Some path\<rparr> | None \<Rightarrow> a) artifacts
               else artifacts);
             details = pypi_details raw
         in released_from now e status (pypi_metadata_url encode e) (Some ''metadata.json'') artifacts
              (upstream details) details))"

definition hydrate_priority_pypi ::
  "(string \<Rightarrow> datetime option) \<Rightarrow> (string \<Rightarrow> string) \<Rightarrow> datetime \<Rightarrow> release_event \<Rightarrow> json option
   \<Rightarrow> captured_release option" where
  "hydrate_priority_pypi parse_rfc3339 encode now e metadata =
     map_option (\<lambda>raw.
       let artifacts = extract_pypi_artifacts parse_rfc3339 raw in
       released_from now e (pypi_status raw artifacts) (pypi_metadata_url encode e) None artifacts None
         (pypi_details raw)) metadata"

definition npm_version_metadata_url :: "(string \<Rightarrow> string) \<Rightarrow> string \<Rightarrow> string \<Rightarrow> string" where
  "npm_version_metadata_url encode packument_url version =
     rev (dropWhile (\<lambda>c. c = CHR ''/'') (rev packument_url)) @ ''/'' @ encode version"

definition npm_metadata_url :: "(string \<Rightarrow> string) \<Rightarrow> release_event \<Rightarrow> string" where
  "npm_metadata_url encode e =
     npm_version_metadata_url encode
       (case ev_metadata_url e of Some u \<Rightarrow> u | None \<Rightarrow> ''https://registry.npmjs.org/'' @ encode (ev_package e))
       (ev_version e)"

definition capture_npm ::
  "codecs \<Rightarrow> (string \<Rightarrow> string) \<Rightarrow> datetime \<Rightarrow> (json \<Rightarrow> repository_provenance option) \<Rightarrow> release_event
   \<Rightarrow> json option \<Rightarrow> captured_release" where
  "capture_npm c encode now upstream e metadata =
     (case metadata of
        None \<Rightarrow> captured_removed now e
      | Some version_meta \<Rightarrow>
        (let details = build_npm_capture_details c (ev_package e) version_meta
         in released_from now e Active (npm_metadata_url encode e) (Some ''metadata.json'')
              (extract_npm_artifacts e version_meta) (upstream details) details))"

definition hydrate_priority_npm ::
  "codecs \<Rightarrow> (string \<Rightarrow> string) \<Rightarrow> datetime \<Rightarrow> release_event \<Rightarrow> json option \<Rightarrow> captured_release option" where
  "hydrate_priority_npm c encode now e metadata =
     map_option (\<lambda>version_meta.
       released_from now e Active (npm_metadata_url encode e) None (extract_npm_artifacts e version_meta) None
         (build_npm_capture_details c (ev_package e) version_meta)) metadata"

definition crates_version_meta :: "json \<Rightarrow> string \<Rightarrow> json option" where
  "crates_version_meta raw version =
     find (\<lambda>v. Option.bind (json_get v ''num'') as_str = Some version) (array_items (json_get raw ''versions''))"

definition crates_status :: "json option \<Rightarrow> release_status" where
  "crates_status version_meta =
     (case Option.bind version_meta (\<lambda>v. Option.bind (json_get v ''yanked'') as_bool) of
        Some True \<Rightarrow> Yanked | Some False \<Rightarrow> Active | None \<Rightarrow> Unknown)"

definition crates_details :: "json \<Rightarrow> string list \<Rightarrow> json option \<Rightarrow> json" where
  "crates_details raw dependencies version_meta = JObject [
     (''crate'', json_or_null (json_get raw ''crate'')),
     (''dependencies'', JArray (map JString dependencies)),
     (''version'', json_or_null version_meta)]"

definition crates_metadata_url :: "(string \<Rightarrow> string) \<Rightarrow> release_event \<Rightarrow> string" where
  "crates_metadata_url encode e = (case ev_metadata_url e of Some u \<Rightarrow> u
     | None \<Rightarrow> ''https://crates.io/api/v1/crates/'' @ encode (ev_package e))"

text \<open>\<open>deps\<close> is the reply of the dependency endpoint, \<open>None\<close> on an error.\<close>

definition capture_crates_io ::
  "(string \<Rightarrow> datetime option) \<Rightarrow> (string \<Rightarrow> string) \<Rightarrow> datetime \<Rightarrow> (json \<Rightarrow> repository_provenance option)
   \<Rightarrow> release_event \<Rightarrow> json option \<Rightarrow> json option \<Rightarrow> captured_release" where
  "capture_crates_io parse_rfc3339 encode now upstream e metadata deps =
     (case metadata of
        None \<Rightarrow> captured_removed now e
      | Some raw \<Rightarrow>
        (let dependencies = (case deps of Some d \<Rightarrow> crates_dependencies d | None \<Rightarrow> []);
             version_meta = crates_version_meta raw (ev_version e);
             details = crates_details raw dependencies version_meta
         in released_from now e (crates_status version_meta) (crates_metadata_url encode e)
              (Some ''metadata.json'') (extract_crates_artifacts parse_rfc3339 encode e version_meta)
              (upstream details) details))"

definition hydrate_priority_crates_io ::
  "(string \<Rightarrow> datetime option) \<Rightarrow> (string \<Rightarrow> string) \<Rightarrow> datetime \<Rightarrow> release_event \<Rightarrow> json option \<Rightarrow> json option
   \<Rightarrow> captured_release option" where
  "hydrate_priority_crates_io parse_rfc3339 encode now e metadata deps =
     map_option (\<lambda>raw.
       let dependencies = (case deps of Some d \<Rightarrow> crates_dependencies d | None \<Rightarrow> []);
           version_meta = crates_version_meta raw (ev_version e)
       in released_from now e (crates_status version_meta) (crates_metadata_url encode e) None
            (extract_crates_artifacts parse_rfc3339 encode e version_meta) None
            (crates_details raw dependencies version_meta)) metadata"

section \<open>Fetching metadata\<close>

record metadata_fetch_error =
  fe_message :: string
  fe_retryable :: bool

definition metadata_fetch_max_attempts :: nat where
  "metadata_fetch_max_attempts = 2"

text \<open>One attempt, from the outcome of the request: a transport error, a body that could not be read,
  or a status with a body.\<close>

datatype http_outcome = Transport_Failed string | Body_Failed string | Reply nat string string

definition fetch_json_metadata_once ::
  "(string \<Rightarrow> string + json) \<Rightarrow> (string \<Rightarrow> string) \<Rightarrow> string \<Rightarrow> string \<Rightarrow> http_outcome
   \<Rightarrow> metadata_fetch_error + json option" where
  "fetch_json_metadata_once decode preview source event_id outcome =
     (case outcome of
        Transport_Failed err \<Rightarrow>
          Inl \<lparr>fe_message = ''failed to fetch '' @ source @ '' for '' @ event_id @ '': '' @ err, fe_retryable = True\<rparr>
      | Body_Failed err \<Rightarrow>
          Inl \<lparr>fe_message = ''failed to read '' @ source @ '' response body for '' @ event_id @ '': '' @ err, fe_retryable = True\<rparr>
      | Reply status content_type body \<Rightarrow>
          if status = 404 then Inr None
          else if \<not> (200 \<le> status \<and> status < 300) then
            Inl \<lparr>fe_message = source @ '' returned HTTP '' @ show_nat status @ '' for '' @ event_id
                   @ ''; content_type='' @ content_type @ ''; body_preview='' @ preview body,
                 fe_retryable = (500 \<le> status \<and> status < 600) \<or> status = 429 \<or> status = 408\<rparr>
          else (case decode body of
                  Inr v \<Rightarrow> Inr (Some v)
                | Inl err \<Rightarrow> Inl \<lparr>fe_message = ''failed to decode '' @ source @ '' for '' @ event_id @ '': '' @ err
                     @ ''; content_type='' @ content_type @ ''; body_preview='' @ preview body,
                     fe_retryable = True\<rparr>))"

text \<open>The retry loop over the outcomes of the successive attempts, with the number of attempts made.\<close>

fun fetch_attempts :: "nat \<Rightarrow> (metadata_fetch_error + json option) list \<Rightarrow> (string + json option) \<times> nat" where
  "fetch_attempts attempt (Inr v # rs) = (Inr v, attempt)"
| "fetch_attempts attempt (Inl err # rs) =
     (if fe_retryable err \<and> attempt < metadata_fetch_max_attempts then fetch_attempts (attempt + 1) rs
      else (Inl (fe_message err), attempt))"
| "fetch_attempts attempt [] = (Inl ''no further attempt'', attempt - 1)"

definition fetch_json_metadata :: "(nat \<Rightarrow> metadata_fetch_error + json option) \<Rightarrow> (string + json option) \<times> nat" where
  "fetch_json_metadata once = fetch_attempts 1 (map once [1..<metadata_fetch_max_attempts + 1])"

section \<open>What the graph learns\<close>

datatype score_input =
    SI_Package ecosystem string f64
  | SI_Dependency ecosystem string string f64 "string list" "f64 option"

definition graph_records_from_captured_release :: "captured_release \<Rightarrow> score_input list" where
  "graph_records_from_captured_release cap =
     (if ca_status cap \<noteq> Active \<and> ca_status cap \<noteq> Yanked then []
      else let eco = ca_ecosystem cap;
               pkg = normalize_package_name eco (ca_package cap);
               popularity = (case eco of
                   CratesIo \<Rightarrow> (case Option.bind (json_pointer (ca_details cap) [''crate'', ''downloads'']) as_f64 of
                                 Some d \<Rightarrow> d | None \<Rightarrow> f64_zero)
                 | Npm \<Rightarrow> f64_zero | Pypi \<Rightarrow> f64_zero)
           in SI_Package eco pkg popularity
              # map (\<lambda>d. SI_Dependency eco pkg (normalize_package_name eco d) f64_one
                         [''capture_metadata''] (Some f64_one))
                  (array_strings (json_get (ca_details cap) ''dependencies'')))"

section \<open>The repository signal and retention\<close>

datatype severity = Informational | Warning | HighSeverity

fun severity_as_str :: "severity \<Rightarrow> string" where
  "severity_as_str Informational = ''informational''"
| "severity_as_str Warning = ''warning''"
| "severity_as_str HighSeverity = ''high''"

definition risky_install_time_execution :: "captured_release \<Rightarrow> bool" where
  "risky_install_time_execution cap \<longleftrightarrow> capture_has_install_time_execution cap
     \<and> \<not> capture_has_longstanding_install_time_execution cap
     \<and> \<not> capture_has_benign_install_time_execution cap"

definition repository_signal_assessment ::
  "release_event \<Rightarrow> captured_release \<Rightarrow> repository_provenance \<Rightarrow> severity \<times> string list" where
  "repository_signal_assessment e cap repo =
     (let prerelease = is_prerelease_version (ev_version e);
          high_impact = (ps_tier (event_priority_snapshot e) \<in> {High, Medium});
          factors =
            (if rp_suspicious repo then [''repo_release_mismatch''] else [])
            @ (if prerelease then [''prerelease_or_nightly''] else [''stable_version''])
            @ (if capture_has_install_time_execution cap then [''install_time_execution''] else [])
            @ (if capture_has_longstanding_install_time_execution cap then [''install_time_execution_longstanding''] else [])
            @ (if capture_has_benign_install_time_execution cap then [''install_time_execution_benign''] else [])
            @ (if high_impact then [''high_or_medium_impact''] else [])
            @ (if ca_status cap \<in> {Yanked, Removed} then [''removed_or_yanked''] else []);
          sev = (if \<not> rp_suspicious repo then Informational
                 else if risky_install_time_execution cap then HighSeverity
                 else if prerelease then Informational else Warning)
      in (sev, factors))"

definition should_retain_captured_release :: "codecs \<Rightarrow> captured_release \<Rightarrow> bool" where
  "should_retain_captured_release c cap =
     (if ca_status cap \<in> {Removed, Yanked} then True
      else if mr_suspicious (captured_metadata_risk c cap) \<or> cr_suspicious (captured_content_risk c cap) then True
      else if (case ca_upstream_repository cap of Some r \<Rightarrow> rp_suspicious r | None \<Rightarrow> False) then True
      else if risky_install_time_execution cap then True
      else False)"

section \<open>The staging cache\<close>

record staging_entry =
  se_path :: string
  se_modified_at :: nat
  se_bytes :: nat

record staging_stats =
  ss_entries :: nat
  ss_bytes :: nat
  ss_pruned_dirs :: nat

fun staging_expire :: "nat \<Rightarrow> duration \<Rightarrow> staging_entry list \<Rightarrow> staging_entry list \<times> nat \<times> nat" where
  "staging_expire now ttl [] = ([], 0, 0)"
| "staging_expire now ttl (en # ens) =
     (let (kept, bytes, pruned) = staging_expire now ttl ens in
      if ttl > 0 \<and> now - se_modified_at en \<ge> ttl then (kept, bytes, pruned + 1)
      else (en # kept, sat_add (se_bytes en) bytes, pruned))"

text \<open>The eviction loop: the directories left, the bytes left, and how many were removed.\<close>

fun staging_evict :: "nat \<Rightarrow> nat \<Rightarrow> staging_entry list \<Rightarrow> staging_entry list \<times> nat \<times> nat" where
  "staging_evict max_bytes bytes [] = ([], bytes, 0)"
| "staging_evict max_bytes bytes (en # ens) =
     (if bytes \<le> max_bytes then (en # ens, bytes, 0)
      else (let (left, bytes', pruned) = staging_evict max_bytes (bytes - se_bytes en) ens
            in (left, bytes', pruned + 1)))"

definition prune_staging_cache ::
  "nat \<Rightarrow> duration \<Rightarrow> nat \<Rightarrow> staging_entry list \<Rightarrow> staging_entry list \<times> staging_stats" where
  "prune_staging_cache now ttl max_bytes dirs =
     (let (retained, bytes, pruned) = staging_expire now ttl dirs in
      if max_bytes = 0 \<or> bytes \<le> max_bytes then
        (retained, \<lparr>ss_entries = length retained, ss_bytes = bytes, ss_pruned_dirs = pruned\<rparr>)
      else (let (left, bytes', evicted) = staging_evict max_bytes bytes (sort_key se_modified_at retained)
            in (left, \<lparr>ss_entries = length left, ss_bytes = bytes', ss_pruned_dirs = pruned + evicted\<rparr>)))"

text \<open>The size of a directory tree: symbolic links and special files count nothing.\<close>

datatype fs_node = FS_File nat | FS_Symlink | FS_Special | FS_Dir "fs_node list"

fun staging_dir_bytes :: "fs_node \<Rightarrow> nat" where
  "staging_dir_bytes (FS_File n) = n"
| "staging_dir_bytes FS_Symlink = 0"
| "staging_dir_bytes FS_Special = 0"
| "staging_dir_bytes (FS_Dir ns) = fold (\<lambda>n bytes. sat_add bytes (staging_dir_bytes n)) ns 0"

section \<open>Lemmas\<close>

abbreviation total_bytes :: "staging_entry list \<Rightarrow> nat" where
  "total_bytes ens \<equiv> sum_list (map se_bytes ens)"

lemma staging_expire_eq:
  assumes "total_bytes dirs \<le> u64_max"
  shows "staging_expire now ttl dirs =
    (filter (\<lambda>en. \<not> (ttl > 0 \<and> now - se_modified_at en \<ge> ttl)) dirs,
     total_bytes (filter (\<lambda>en. \<not> (ttl > 0 \<and> now - se_modified_at en \<ge> ttl)) dirs),
     length (filter (\<lambda>en. ttl > 0 \<and> now - se_modified_at en \<ge> ttl) dirs))"
  using assms
proof (induction dirs)
  case (Cons en dirs)
  have "total_bytes (filter P dirs) \<le> total_bytes dirs" for P
    by (induction dirs) auto
  with Cons show ?case
    by (auto simp: Let_def sat_add_def) (meson add_left_mono le_trans min.absorb1)+
qed simp

lemma staging_evict_spec:
  "\<exists>pre. ens = pre @ fst (staging_evict m t ens)
     \<and> fst (snd (staging_evict m t ens)) = t - total_bytes pre
     \<and> (fst (staging_evict m t ens) = [] \<or> fst (snd (staging_evict m t ens)) \<le> m)
     \<and> snd (snd (staging_evict m t ens)) = length pre"
proof (induction m t ens rule: staging_evict.induct)
  case (2 m t en ens)
  show ?case
  proof (cases "t \<le> m")
    case False
    then obtain pre where "ens = pre @ fst (staging_evict m (t - se_bytes en) ens)"
      "fst (snd (staging_evict m (t - se_bytes en) ens)) = t - se_bytes en - total_bytes pre"
      "fst (staging_evict m (t - se_bytes en) ens) = [] \<or> fst (snd (staging_evict m (t - se_bytes en) ens)) \<le> m"
      "snd (snd (staging_evict m (t - se_bytes en) ens)) = length pre"
      using 2 by blast
    then show ?thesis
      using False by (intro exI [of _ "en # pre"]) (auto simp: split_beta Let_def)
  qed simp
qed simp

lemma retain_iff:
  "should_retain_captured_release c cap \<longleftrightarrow>
     ca_status cap \<in> {Removed, Yanked}
     \<or> mr_suspicious (captured_metadata_risk c cap) \<or> cr_suspicious (captured_content_risk c cap)
     \<or> (\<exists>r. ca_upstream_repository cap = Some r \<and> rp_suspicious r) \<or> risky_install_time_execution cap"
  by (auto simp: should_retain_captured_release_def split: option.splits)

lemma signal_high_iff:
  "fst (repository_signal_assessment e cap r) = HighSeverity \<longleftrightarrow>
     rp_suspicious r \<and> risky_install_time_execution cap"
  by (simp add: repository_signal_assessment_def Let_def)

section \<open>Properties\<close>

text \<open>pruning keeps only directories that have not expired and, with a byte limit, leaves the
  cache within it; what is evicted for space is a prefix of the unexpired directories in order of
  age, and the reported figures describe what is left.\<close>

theorem prune_staging_cache_within_limit:
  assumes "total_bytes dirs \<le> u64_max" "prune_staging_cache now ttl max_bytes dirs = (left, stats)"
    and fresh: "fresh = filter (\<lambda>en. \<not> (ttl > 0 \<and> now - se_modified_at en \<ge> ttl)) dirs"
  shows "(max_bytes > 0 \<longrightarrow> total_bytes left \<le> max_bytes)
    \<and> ss_bytes stats = total_bytes left \<and> ss_entries stats = length left
    \<and> ss_entries stats + ss_pruned_dirs stats = length dirs
    \<and> (left = fresh \<or> (\<exists>evicted. sort_key se_modified_at fresh = evicted @ left \<and> total_bytes fresh > max_bytes))"
proof -
  let ?ex = "length (filter (\<lambda>en. ttl > 0 \<and> now - se_modified_at en \<ge> ttl) dirs)"
  have e: "staging_expire now ttl dirs = (fresh, total_bytes fresh, ?ex)"
    using staging_expire_eq [OF assms(1)] by (simp add: fresh)
  have len: "length fresh + ?ex = length dirs"
    unfolding fresh using sum_length_filter_compl [of "\<lambda>en. ttl > 0 \<and> now - se_modified_at en \<ge> ttl" dirs] by simp
  show ?thesis
  proof (cases "max_bytes = 0 \<or> total_bytes fresh \<le> max_bytes")
    case True
    then show ?thesis
      using assms(2) len by (auto simp: prune_staging_cache_def e)
  next
    case False
    let ?s = "sort_key se_modified_at fresh"
    obtain pre where pre: "?s = pre @ fst (staging_evict max_bytes (total_bytes fresh) ?s)"
      "fst (snd (staging_evict max_bytes (total_bytes fresh) ?s)) = total_bytes fresh - total_bytes pre"
      "fst (staging_evict max_bytes (total_bytes fresh) ?s) = [] \<or>
        fst (snd (staging_evict max_bytes (total_bytes fresh) ?s)) \<le> max_bytes"
      "snd (snd (staging_evict max_bytes (total_bytes fresh) ?s)) = length pre"
      using staging_evict_spec by blast
    have res: "left = fst (staging_evict max_bytes (total_bytes fresh) ?s)"
      "ss_bytes stats = total_bytes fresh - total_bytes pre" "ss_entries stats = length left"
      "ss_pruned_dirs stats = ?ex + length pre"
      using assms(2) False pre by (auto simp: prune_staging_cache_def e split_beta Let_def)
    have "sum_list (map se_bytes ?s) = total_bytes fresh"
      by (metis mset_map mset_sort sum_mset_sum_list)
    then have "total_bytes fresh = total_bytes pre + total_bytes left"
      using pre(1) res(1) by (metis map_append sum_list_append)
    moreover have "length fresh = length pre + length left"
      using pre(1) res(1) by (metis length_append length_sort)
    ultimately show ?thesis
      using False pre(1,2,3) res len by auto
  qed
qed

definition demo_staging :: "staging_entry list" where
  "demo_staging = [\<lparr>se_path = ''a'', se_modified_at = 5, se_bytes = 60\<rparr>, \<lparr>se_path = ''b'', se_modified_at = 3, se_bytes = 50\<rparr>,
     \<lparr>se_path = ''c'', se_modified_at = 1, se_bytes = 9\<rparr>]"

theorem prune_staging_cache_within_limit_witness:
  "total_bytes (fst (prune_staging_cache 10 9 80 demo_staging)) \<le> 80"
proof -
  have "80 > (0::nat) \<longrightarrow> total_bytes (fst (prune_staging_cache 10 9 80 demo_staging)) \<le> 80"
    by (rule prune_staging_cache_within_limit [THEN conjunct1, OF _ _ refl, of demo_staging 10 9 80 _ "snd (prune_staging_cache 10 9 80 demo_staging)"])
      (simp_all add: demo_staging_def u64_max_def)
  then show ?thesis
    by simp
qed

end
