(* ===== verification/Assessment.thy ===== *)
theory Assessment
  imports Detection Capture_Extract
begin

text \<open>
  \<open>assessment.rs\<close>: the verdict on a captured release.  The version-burst signal, the summary of the
  content matches, the factors, and the verdict chain of \<open>assess_release\<close>, whose order of tests is
  the policy.  The diff enters as \<open>diff_input\<close>, built from a stored diff in the theory \<open>Diff\<close>.
\<close>

section \<open>Version bursts\<close>

record burst_config =
  bc_window_secs :: nat
  bc_min_versions :: nat
  bc_min_major_lines :: nat

definition burst_config_default :: burst_config where
  "burst_config_default = \<lparr>bc_window_secs = 1800, bc_min_versions = 5, bc_min_major_lines = 2\<rparr>"

definition burst_window :: "burst_config \<Rightarrow> int" where
  "burst_window c = int (min (max (bc_window_secs c) 1) (2 ^ 63 - 1)) * 1000000000"

definition burst_reason :: "nat \<Rightarrow> nat \<Rightarrow> nat \<Rightarrow> string" where
  "burst_reason versions lines window =
     show_nat versions @ '' versions of this package across '' @ show_nat lines
     @ '' major-version lines within '' @ show_nat window
     @ ''s; rapid multi-major-line republish bursts are a mass-republish compromise shape, not a normal release cadence''"

definition evaluate_version_burst :: "(string \<times> datetime) list \<Rightarrow> burst_config \<Rightarrow> version_burst" where
  "evaluate_version_burst timestamps config =
     (if timestamps = [] then version_burst_default
      else let latest = Max (set (map snd timestamps));
               window_start = latest - burst_window config;
               in_window = map fst (filter (\<lambda>(_, at). window_start \<le> at \<and> at \<le> latest) timestamps);
               versions_in_window = length in_window;
               distinct_major_lines = length (btree_set (List.map_filter major_version_line in_window));
               suspicious = versions_in_window \<ge> bc_min_versions config
                 \<and> distinct_major_lines \<ge> bc_min_major_lines config
           in \<lparr>vb_suspicious = suspicious, vb_versions_in_window = versions_in_window,
               vb_distinct_major_lines = distinct_major_lines, vb_window_secs = bc_window_secs config,
               vb_reason = (if suspicious
                  then Some (burst_reason versions_in_window distinct_major_lines (bc_window_secs config))
                  else None)\<rparr>)"

section \<open>Inputs and outputs\<close>

record diff_input =
  di_status :: string
  di_baseline_version :: "string option"
  di_available :: bool
  di_patches_included :: bool
  di_files_added_count :: nat
  di_files_removed_count :: nat
  di_files_changed_count :: nat
  di_package_manifest_only :: bool
  di_target_has_install_scripts :: "bool option"
  di_install_scripts_longstanding :: "bool option"
  di_install_hook_changed :: "bool option"

record diff_evidence =
  de_status :: string
  de_available :: bool
  de_patches_included :: bool
  de_baseline_version :: "string option"
  de_files_added_count :: nat
  de_files_removed_count :: nat
  de_files_changed_count :: nat

record graph_evidence =
  ge_ecosystem :: ecosystem
  ge_package :: string
  ge_known :: bool
  ge_direct_popularity :: f64
  ge_direct_dependencies_seen :: nat
  ge_reverse_dependents_seen :: nat
  ge_repository :: "package_repository_identity option"

datatype verdict_class = Clean | SuspiciousUnknown | RiskyInstaller | InvasiveTooling | Malware

fun verdict_as_str :: "verdict_class \<Rightarrow> string" where
  "verdict_as_str Clean = ''clean''"
| "verdict_as_str SuspiciousUnknown = ''suspicious_unknown''"
| "verdict_as_str RiskyInstaller = ''risky_installer''"
| "verdict_as_str InvasiveTooling = ''invasive_tooling''"
| "verdict_as_str Malware = ''malware''"

record release_assessment =
  as_suspicious :: bool
  as_severity :: severity
  as_verdict_class :: verdict_class
  as_factors :: "string list"
  as_behavior_tags :: "string list"
  as_matched_rules :: "string list"
  as_matched_evidence :: "rule_evidence list"
  as_reason :: string
  as_graph :: emitted_graph_evidence
  as_diff :: "diff_evidence option"

definition graph_evidence_default :: emitted_graph_evidence where
  "graph_evidence_default = \<lparr>gr_known_in_local_graph = False, gr_known_in_census = False, gr_observed_count = 0,
     gr_direct_dependencies_seen = 0, gr_reverse_dependents_seen = 0, gr_repository = None\<rparr>"

definition emitted_graph_evidence_of :: "graph_evidence option \<Rightarrow> emitted_graph_evidence" where
  "emitted_graph_evidence_of graph = (case graph of
     Some g \<Rightarrow> \<lparr>gr_known_in_local_graph = ge_known g, gr_known_in_census = False, gr_observed_count = 0,
       gr_direct_dependencies_seen = ge_direct_dependencies_seen g,
       gr_reverse_dependents_seen = ge_reverse_dependents_seen g, gr_repository = ge_repository g\<rparr>
   | None \<Rightarrow> graph_evidence_default)"

definition emitted_diff_evidence :: "diff_input option \<Rightarrow> diff_evidence option" where
  "emitted_diff_evidence stored_diff = map_option (\<lambda>d.
     \<lparr>de_status = di_status d, de_available = di_available d, de_patches_included = di_patches_included d,
      de_baseline_version = di_baseline_version d, de_files_added_count = di_files_added_count d,
      de_files_removed_count = di_files_removed_count d, de_files_changed_count = di_files_changed_count d\<rparr>) stored_diff"

section \<open>Content matches\<close>

definition behavior_group :: "string \<Rightarrow> string" where
  "behavior_group tag =
     (if tag \<in> set [''remote_fetch'', ''dynamic_execution'', ''payload_drop'', ''shell_execution''] then ''execution''
      else if tag \<in> set [''callback'', ''exfiltration'', ''cloud_exfiltration''] then ''exfiltration''
      else if tag = ''command_and_control'' then ''command_and_control''
      else if tag \<in> set [''reconnaissance'', ''ci_targeting''] then ''reconnaissance''
      else if tag \<in> set [''credential_or_wallet_theft'', ''browser_targeting'', ''crypto_targeting''] then ''theft''
      else if tag = ''persistence_or_propagation'' then ''persistence''
      else if tag = ''target_mutation'' then ''target_mutation''
      else if tag = ''install_or_build_execution'' then ''install_or_build_execution''
      else if tag \<in> set [''evasion'', ''obfuscation''] then ''stealth''
      else ''misc'')"

record content_acc =
  ac_rules :: "string list"
  ac_tags :: "string list"
  ac_evidence :: "rule_evidence list"
  ac_groups :: "string list"
  ac_malicious_tags :: "string list"
  ac_malicious_count :: nat
  ac_strong_chains :: nat
  ac_concrete :: bool
  ac_has_malicious :: bool
  ac_has_risky_installer :: bool
  ac_has_invasive :: bool

definition content_acc_init :: content_acc where
  "content_acc_init = \<lparr>ac_rules = [], ac_tags = [], ac_evidence = [], ac_groups = [], ac_malicious_tags = [],
     ac_malicious_count = 0, ac_strong_chains = 0, ac_concrete = False, ac_has_malicious = False,
     ac_has_risky_installer = False, ac_has_invasive = False\<rparr>"

definition emitted_rule_evidence_from_match :: "content_match \<Rightarrow> match_class \<Rightarrow> string list \<Rightarrow> rule_evidence" where
  "emitted_rule_evidence_from_match m mc tags =
     (emitted_rule_evidence m)\<lparr>re_match_class := mc, re_behavior_tags := tags\<rparr>"

definition content_step :: "content_match \<Rightarrow> content_acc \<Rightarrow> content_acc" where
  "content_step m a =
     (let profile = rule_behavior_profile (cm_rule_id m) (cm_tags m);
          mc = (case cm_match_class m of Some c \<Rightarrow> c | None \<Rightarrow> rf_match_class profile);
          tags = (if cm_behavior_tags m = [] then rf_behavior_tags profile else cm_behavior_tags m);
          a = a\<lparr>ac_rules := insort_insert (cm_rule_id m) (ac_rules a),
                ac_tags := fold insort_insert tags (ac_tags a),
                ac_evidence := ac_evidence a @ [emitted_rule_evidence_from_match m mc tags]\<rparr>
      in (case mc of
            MaliciousBehavior \<Rightarrow>
              a\<lparr>ac_has_malicious := True,
                ac_malicious_count := ac_malicious_count a + 1,
                ac_concrete := ac_concrete a \<or> cm_evidence_kind m \<noteq> Some ''module_condition'',
                ac_strong_chains := (if rf_strong_malicious_chain profile then ac_strong_chains a + 1 else ac_strong_chains a),
                ac_malicious_tags := fold insort_insert tags (ac_malicious_tags a),
                ac_groups := fold insort_insert (map behavior_group tags) (ac_groups a)\<rparr>
          | RiskyInstallerMatch \<Rightarrow> a\<lparr>ac_has_risky_installer := True\<rparr>
          | InvasiveToolingMatch \<Rightarrow> a\<lparr>ac_has_invasive := True\<rparr>
          | ContextOnly \<Rightarrow> a))"

record content_summary =
  su_matched_rules :: "string list"
  su_behavior_tags :: "string list"
  su_matched_evidence :: "rule_evidence list"
  su_has_malicious_behavior :: bool
  su_has_risky_installer :: bool
  su_has_invasive_tooling :: bool
  su_confident_malware :: bool

definition summarize_content_matches :: "content_risk \<Rightarrow> content_summary" where
  "summarize_content_matches risk =
     (let a = fold content_step (cr_matches risk) content_acc_init;
          has_iocs = cr_iocs risk \<noteq> [];
          self_sufficient = ac_strong_chains a > 0 \<and> (length (ac_groups a) \<ge> 2 \<or> length (ac_malicious_tags a) \<ge> 2);
          corroborated = ac_concrete a \<or> has_iocs
      in \<lparr>su_matched_rules = ac_rules a, su_behavior_tags = ac_tags a,
          su_matched_evidence = sort_key (\<lambda>e. (re_rule_id e, re_file_path e)) (ac_evidence a),
          su_has_malicious_behavior = ac_has_malicious a,
          su_has_risky_installer = ac_has_risky_installer a,
          su_has_invasive_tooling = ac_has_invasive a,
          su_confident_malware =
            (ac_strong_chains a > 0 \<and> (corroborated \<or> self_sufficient)
             \<or> length (ac_groups a) \<ge> 2 \<and> corroborated \<and> ac_malicious_count a \<ge> 2)\<rparr>)"

section \<open>The verdict\<close>

record assessment_facts =
  fa_prerelease :: bool
  fa_install_time_execution :: bool
  fa_longstanding :: bool
  fa_hook_changed :: bool
  fa_benign :: bool
  fa_impact :: bool
  fa_reverse_dependents :: bool
  fa_repo_mismatch :: bool
  fa_removed_or_yanked :: bool
  fa_content_changed :: bool
  fa_content_large :: bool
  fa_manifest_only :: bool
  fa_metadata :: metadata_risk
  fa_content :: content_risk
  fa_summary :: content_summary
  fa_burst :: version_burst

definition assessment_facts_of ::
  "codecs \<Rightarrow> release_event \<Rightarrow> graph_evidence option \<Rightarrow> captured_release \<Rightarrow> repository_provenance option
   \<Rightarrow> diff_input option \<Rightarrow> assessment_facts" where
  "assessment_facts_of c e graph cap repository stored_diff =
     (let g = emitted_graph_evidence_of graph;
          content = captured_content_risk c cap;
          counts = (case emitted_diff_evidence stored_diff of
             Some d \<Rightarrow> Some (de_files_added_count d + de_files_removed_count d + de_files_changed_count d, de_files_changed_count d)
           | None \<Rightarrow> None)
      in \<lparr>fa_prerelease = is_prerelease_version (ev_version e),
          fa_install_time_execution = (case Option.bind stored_diff di_target_has_install_scripts of
             Some b \<Rightarrow> b | None \<Rightarrow> capture_has_install_time_execution cap),
          fa_longstanding = (case Option.bind stored_diff di_install_scripts_longstanding of
             Some b \<Rightarrow> b | None \<Rightarrow> capture_has_longstanding_install_time_execution cap),
          fa_hook_changed = (case Option.bind stored_diff di_install_hook_changed of Some b \<Rightarrow> b | None \<Rightarrow> False),
          fa_benign = capture_has_benign_install_time_execution cap,
          fa_impact = (ps_tier (event_priority_snapshot e) \<in> {Medium, High}),
          fa_reverse_dependents = (gr_reverse_dependents_seen g > 0),
          fa_repo_mismatch = (case repository of Some r \<Rightarrow> rp_suspicious r | None \<Rightarrow> False),
          fa_removed_or_yanked = (ca_status cap \<in> {Removed, Yanked}),
          fa_content_changed = (case counts of Some (n, _) \<Rightarrow> n > 0 | None \<Rightarrow> False),
          fa_content_large = (case counts of Some (n, ch) \<Rightarrow> n \<ge> 10 \<or> ch \<ge> 5 | None \<Rightarrow> False),
          fa_manifest_only = (case stored_diff of Some d \<Rightarrow> di_package_manifest_only d | None \<Rightarrow> False),
          fa_metadata = captured_metadata_risk c cap,
          fa_content = content,
          fa_summary = summarize_content_matches content,
          fa_burst = captured_version_burst c cap\<rparr>)"

definition fa_risky_install :: "assessment_facts \<Rightarrow> bool" where
  "fa_risky_install f \<longleftrightarrow> fa_install_time_execution f \<and> \<not> fa_benign f \<and> (\<not> fa_longstanding f \<or> fa_hook_changed f)"

definition assessment_factors :: "assessment_facts \<Rightarrow> string list" where
  "assessment_factors f =
     (if fa_repo_mismatch f then [''repo_release_mismatch''] else [])
     @ (if fa_prerelease f then [''prerelease_or_nightly''] else [''stable_version''])
     @ (if fa_install_time_execution f then [''install_time_execution''] else [])
     @ (if fa_longstanding f then [''install_time_execution_longstanding''] else [])
     @ (if fa_benign f then [''install_time_execution_benign''] else [])
     @ (if fa_hook_changed f then [''install_hook_changed''] else [])
     @ (if fa_impact f then [''high_or_medium_impact''] else [])
     @ (if fa_reverse_dependents f then [''reverse_dependents_present''] else [])
     @ (if fa_removed_or_yanked f then [''removed_or_yanked''] else [])
     @ (if mr_suspicious (fa_metadata f) then ''malware_shaped_metadata'' # mr_factors (fa_metadata f) else [])
     @ (if cr_suspicious (fa_content f) then ''malware_shaped_content'' # cr_factors (fa_content f) else [])
     @ (if cr_iocs (fa_content f) \<noteq> [] then [''content_iocs_present''] else [])
     @ (if vb_suspicious (fa_burst f) then [''rapid_version_burst''] else [])
     @ (if fa_content_changed f then [''content_changed''] else [])
     @ (if fa_content_large f then [''content_churn_large''] else [])
     @ (if fa_manifest_only f then [''package_manifest_only''] else [])"

fun join_strings :: "string \<Rightarrow> string list \<Rightarrow> string" where
  "join_strings sep [] = []"
| "join_strings sep [s] = s"
| "join_strings sep (s # ss) = s @ sep @ join_strings sep ss"

definition assessment_verdict :: "assessment_facts \<Rightarrow> severity \<times> verdict_class \<times> bool \<times> string" where
  "assessment_verdict f =
     (let s = fa_summary f; downstream = fa_impact f \<or> fa_reverse_dependents f in
      if su_confident_malware s then (HighSeverity, Malware, True, cr_reason (fa_content f))
      else if su_has_malicious_behavior s then
        (Warning, SuspiciousUnknown, True,
         ''content matched malicious behavior heuristics without a confident behavior chain [''
         @ join_strings '', '' (su_matched_rules s) @ '']'')
      else if su_has_risky_installer s \<or> fa_risky_install f then
        (Warning, RiskyInstaller, True,
         (if su_has_risky_installer s then cr_reason (fa_content f)
          else ''repository mismatch combined with install-time execution''))
      else if su_has_invasive_tooling s then (Warning, InvasiveTooling, True, cr_reason (fa_content f))
      else if mr_suspicious (fa_metadata f) then (Warning, SuspiciousUnknown, True, mr_reason (fa_metadata f))
      else if vb_suspicious (fa_burst f) then
        (Warning, SuspiciousUnknown, True,
         (case vb_reason (fa_burst f) of Some r \<Rightarrow> r
          | None \<Rightarrow> ''rapid multi-major-line version burst observed for this package''))
      else if fa_removed_or_yanked f \<and> fa_content_changed f \<and> downstream then
        (Warning, SuspiciousUnknown, True, ''removed or yanked release with content changes and downstream impact'')
      else if fa_repo_mismatch f \<and> \<not> fa_prerelease f \<and> fa_content_changed f \<and> \<not> fa_manifest_only f then
        (Informational, Clean, False,
         ''repository mismatch observed with concrete content changes but no additional corroborating security signals'')
      else if fa_content_large f \<and> downstream then
        (Warning, SuspiciousUnknown, True, ''large content churn on a package with observable downstream impact'')
      else if fa_repo_mismatch f \<and> \<not> fa_prerelease f \<and> downstream then
        (Informational, Clean, False, ''stable upstream mismatch on a package with observable downstream impact'')
      else if fa_repo_mismatch f then
        (Informational, Clean, False, ''repository mismatch observed without additional corroborating signals'')
      else (Informational, Clean, False, ''no corroborating multi-signal release risk factors observed''))"

definition assess_release ::
  "codecs \<Rightarrow> release_event \<Rightarrow> graph_evidence option \<Rightarrow> captured_release \<Rightarrow> repository_provenance option
   \<Rightarrow> diff_input option \<Rightarrow> release_assessment" where
  "assess_release c e graph cap repository stored_diff =
     (let f = assessment_facts_of c e graph cap repository stored_diff;
          (sev, verdict, suspicious, reason) = assessment_verdict f
      in \<lparr>as_suspicious = suspicious, as_severity = sev, as_verdict_class = verdict,
          as_factors = assessment_factors f, as_behavior_tags = su_behavior_tags (fa_summary f),
          as_matched_rules = su_matched_rules (fa_summary f),
          as_matched_evidence = su_matched_evidence (fa_summary f), as_reason = reason,
          as_graph = emitted_graph_evidence_of graph, as_diff = emitted_diff_evidence stored_diff\<rparr>)"

section \<open>The content summary, match by match\<close>

text \<open>The accumulator of the loop, read off the whole list of matches.\<close>

definition malicious_matches :: "content_risk \<Rightarrow> content_match list" where
  "malicious_matches risk = filter (\<lambda>m. match_class_of m = MaliciousBehavior) (cr_matches risk)"

definition match_is_strong :: "content_match \<Rightarrow> bool" where
  "match_is_strong m = rf_strong_malicious_chain (rule_behavior_profile (cm_rule_id m) (cm_tags m))"

definition malicious_tags :: "content_risk \<Rightarrow> string set" where
  "malicious_tags risk = (\<Union>m \<in> set (malicious_matches risk). set (behavior_tags_of m))"

definition corroborated_risk :: "content_risk \<Rightarrow> bool" where
  "corroborated_risk risk \<longleftrightarrow> cr_iocs risk \<noteq> []
     \<or> (\<exists>m \<in> set (malicious_matches risk). cm_evidence_kind m \<noteq> Some ''module_condition'')"

definition confident_malware_spec :: "content_risk \<Rightarrow> bool" where
  "confident_malware_spec risk \<longleftrightarrow>
     (let behaviours = behavior_group ` malicious_tags risk in
      (\<exists>m \<in> set (malicious_matches risk). match_is_strong m)
        \<and> (corroborated_risk risk \<or> 2 \<le> card behaviours \<or> 2 \<le> card (malicious_tags risk))
      \<or> 2 \<le> card behaviours \<and> corroborated_risk risk \<and> 2 \<le> length (malicious_matches risk))"

definition acc_reads :: "content_match list \<Rightarrow> content_acc \<Rightarrow> bool" where
  "acc_reads ms a \<longleftrightarrow>
     (let mal = filter (\<lambda>m. match_class_of m = MaliciousBehavior) ms;
          tags = (\<Union>m \<in> set mal. set (behavior_tags_of m)) in
      sorted (ac_groups a) \<and> distinct (ac_groups a) \<and> set (ac_groups a) = behavior_group ` tags
      \<and> sorted (ac_malicious_tags a) \<and> distinct (ac_malicious_tags a) \<and> set (ac_malicious_tags a) = tags
      \<and> ac_malicious_count a = length mal
      \<and> ac_strong_chains a = length (filter match_is_strong mal)
      \<and> (ac_concrete a \<longleftrightarrow> (\<exists>m \<in> set mal. cm_evidence_kind m \<noteq> Some ''module_condition''))
      \<and> (ac_has_malicious a \<longleftrightarrow> mal \<noteq> [])
      \<and> (ac_has_risky_installer a \<longleftrightarrow> (\<exists>m \<in> set ms. match_class_of m = RiskyInstallerMatch))
      \<and> (ac_has_invasive a \<longleftrightarrow> (\<exists>m \<in> set ms. match_class_of m = InvasiveToolingMatch))
      \<and> sorted (ac_rules a) \<and> distinct (ac_rules a) \<and> set (ac_rules a) = cm_rule_id ` set ms
      \<and> map re_rule_id (ac_evidence a) = map cm_rule_id ms)"

lemma acc_reads_init: "acc_reads [] content_acc_init"
  by (simp add: acc_reads_def content_acc_init_def)

lemma evidence_rule_id: "re_rule_id (emitted_rule_evidence_from_match m mc tags) = cm_rule_id m"
  by (simp add: emitted_rule_evidence_from_match_def emitted_rule_evidence_def)

lemma content_step_unfold:
  "content_step m a =
     (let a = a\<lparr>ac_rules := insort_insert (cm_rule_id m) (ac_rules a),
                ac_tags := fold insort_insert (behavior_tags_of m) (ac_tags a),
                ac_evidence := ac_evidence a
                  @ [emitted_rule_evidence_from_match m (match_class_of m) (behavior_tags_of m)]\<rparr>
      in (case match_class_of m of
            MaliciousBehavior \<Rightarrow>
              a\<lparr>ac_has_malicious := True,
                ac_malicious_count := ac_malicious_count a + 1,
                ac_concrete := ac_concrete a \<or> cm_evidence_kind m \<noteq> Some ''module_condition'',
                ac_strong_chains := (if match_is_strong m then ac_strong_chains a + 1 else ac_strong_chains a),
                ac_malicious_tags := fold insort_insert (behavior_tags_of m) (ac_malicious_tags a),
                ac_groups := fold insort_insert (map behavior_group (behavior_tags_of m)) (ac_groups a)\<rparr>
          | RiskyInstallerMatch \<Rightarrow> a\<lparr>ac_has_risky_installer := True\<rparr>
          | InvasiveToolingMatch \<Rightarrow> a\<lparr>ac_has_invasive := True\<rparr>
          | ContextOnly \<Rightarrow> a))"
  unfolding content_step_def Let_def match_class_of_def behavior_tags_of_def match_is_strong_def ..

lemma content_step_sels:
  "ac_rules (content_step m a) = insort_insert (cm_rule_id m) (ac_rules a)"
  "ac_evidence (content_step m a) = ac_evidence a
     @ [emitted_rule_evidence_from_match m (match_class_of m) (behavior_tags_of m)]"
  "ac_has_malicious (content_step m a) \<longleftrightarrow> match_class_of m = MaliciousBehavior \<or> ac_has_malicious a"
  "ac_has_risky_installer (content_step m a) \<longleftrightarrow> match_class_of m = RiskyInstallerMatch \<or> ac_has_risky_installer a"
  "ac_has_invasive (content_step m a) \<longleftrightarrow> match_class_of m = InvasiveToolingMatch \<or> ac_has_invasive a"
  by (cases "match_class_of m"; simp add: content_step_unfold Let_def)+

lemma content_step_malicious:
  assumes "match_class_of m = MaliciousBehavior"
  shows "ac_malicious_count (content_step m a) = ac_malicious_count a + 1"
    and "ac_concrete (content_step m a) \<longleftrightarrow> ac_concrete a \<or> cm_evidence_kind m \<noteq> Some ''module_condition''"
    and "ac_strong_chains (content_step m a) = (if match_is_strong m then ac_strong_chains a + 1 else ac_strong_chains a)"
    and "ac_malicious_tags (content_step m a) = fold insort_insert (behavior_tags_of m) (ac_malicious_tags a)"
    and "ac_groups (content_step m a) = fold insort_insert (map behavior_group (behavior_tags_of m)) (ac_groups a)"
  using assms by (simp_all add: content_step_unfold Let_def)

lemma content_step_other:
  assumes "match_class_of m \<noteq> MaliciousBehavior"
  shows "ac_malicious_count (content_step m a) = ac_malicious_count a"
    and "ac_concrete (content_step m a) = ac_concrete a"
    and "ac_strong_chains (content_step m a) = ac_strong_chains a"
    and "ac_malicious_tags (content_step m a) = ac_malicious_tags a"
    and "ac_groups (content_step m a) = ac_groups a"
  using assms by (cases "match_class_of m"; simp add: content_step_unfold Let_def)+

lemma acc_reads_step:
  assumes "acc_reads ms a"
  shows "acc_reads (ms @ [m]) (content_step m a)"
proof (cases "match_class_of m = MaliciousBehavior")
  case True
  show ?thesis
    using assms fold_insort_insert [of "ac_groups a" "map behavior_group (behavior_tags_of m)"]
      fold_insort_insert [of "ac_malicious_tags a" "behavior_tags_of m"] True
    unfolding acc_reads_def Let_def content_step_sels content_step_malicious [OF True]
    by (simp add: evidence_rule_id sorted_insort_insert distinct_insort_insert set_insort_insert
        image_Un Un_commute Un_ac insert_commute disj_commute bex_Un)
next
  case False
  then show ?thesis
    using assms unfolding acc_reads_def Let_def content_step_sels content_step_other [OF False]
    by (auto simp: evidence_rule_id sorted_insort_insert distinct_insort_insert set_insort_insert)
qed

lemma acc_reads_fold: "acc_reads ms a \<Longrightarrow> acc_reads (ms @ ns) (fold content_step ns a)"
proof (induction ns arbitrary: ms a)
  case (Cons n ns)
  show ?case
    using Cons.IH [OF acc_reads_step [OF Cons.prems]] by simp
qed simp

lemma acc_reads_matches: "acc_reads (cr_matches r) (fold content_step (cr_matches r) content_acc_init)"
  using acc_reads_fold [OF acc_reads_init] by simp

lemma summary_confident: "su_confident_malware (summarize_content_matches r) \<longleftrightarrow> confident_malware_spec r"
proof -
  define a where "a = fold content_step (cr_matches r) content_acc_init"
  have r: "acc_reads (cr_matches r) a"
    unfolding a_def by (rule acc_reads_matches)
  have g: "length (ac_groups a) = card (behavior_group ` malicious_tags r)"
    and t: "length (ac_malicious_tags a) = card (malicious_tags r)"
    using r unfolding acc_reads_def Let_def malicious_tags_def malicious_matches_def
    by (metis distinct_card)+
  have c: "ac_malicious_count a = length (malicious_matches r)"
    and k: "ac_concrete a \<longleftrightarrow> (\<exists>m \<in> set (malicious_matches r). cm_evidence_kind m \<noteq> Some ''module_condition'')"
    and s: "ac_strong_chains a > 0 \<longleftrightarrow> (\<exists>m \<in> set (malicious_matches r). match_is_strong m)"
    using r by (auto simp: acc_reads_def Let_def malicious_matches_def filter_empty_conv)
  show ?thesis
    unfolding summarize_content_matches_def confident_malware_spec_def corroborated_risk_def Let_def
      a_def [symmetric] content_summary.simps g t c k s
    by blast
qed

lemma summary_flags:
  "su_has_malicious_behavior (summarize_content_matches r) \<longleftrightarrow> malicious_matches r \<noteq> []"
  "su_has_risky_installer (summarize_content_matches r)
     \<longleftrightarrow> (\<exists>m \<in> set (cr_matches r). match_class_of m = RiskyInstallerMatch)"
  "su_has_invasive_tooling (summarize_content_matches r)
     \<longleftrightarrow> (\<exists>m \<in> set (cr_matches r). match_class_of m = InvasiveToolingMatch)"
  using acc_reads_matches [of r]
  by (auto simp: summarize_content_matches_def acc_reads_def Let_def malicious_matches_def)

lemma confident_has_malicious: "confident_malware_spec r \<Longrightarrow> malicious_matches r \<noteq> []"
  by (auto simp: confident_malware_spec_def Let_def)

section \<open>The verdict chain\<close>

lemma assess_release_verdict:
  "(as_severity (assess_release c e g cap rp d), as_verdict_class (assess_release c e g cap rp d),
    as_suspicious (assess_release c e g cap rp d), as_reason (assess_release c e g cap rp d))
   = assessment_verdict (assessment_facts_of c e g cap rp d)"
  by (simp add: assess_release_def Let_def split: prod.split)

lemma facts_summary:
  "fa_summary (assessment_facts_of c e g cap rp d) = summarize_content_matches (captured_content_risk c cap)"
  "fa_content (assessment_facts_of c e g cap rp d) = captured_content_risk c cap"
  "fa_metadata (assessment_facts_of c e g cap rp d) = captured_metadata_risk c cap"
  "fa_burst (assessment_facts_of c e g cap rp d) = captured_version_burst c cap"
  by (simp_all add: assessment_facts_of_def Let_def)

lemma verdict_consistent:
  assumes "assessment_verdict f = (sev, v, s, r)"
  shows "(sev = HighSeverity \<longleftrightarrow> v = Malware) \<and> (v = Malware \<longleftrightarrow> su_confident_malware (fa_summary f))
    \<and> (s \<longleftrightarrow> v \<noteq> Clean) \<and> (sev = Informational \<longleftrightarrow> v = Clean)"
  using assms by (auto simp: assessment_verdict_def Let_def split: if_splits)

text \<open>C2: the malware verdict is exactly the policy on the content matches, and severity, verdict and the
  suspicious flag never disagree: a release is \<open>malware\<close> iff its matches of class malicious-behaviour
  hold a strong chain that is corroborated (or two behaviours or tags), or two corroborated matches of two
  behaviours; the severity is \<open>High\<close> then and only then; and a release is flagged suspicious iff its
  verdict is not \<open>clean\<close> iff its severity is not \<open>Informational\<close>.  No metadata, burst, graph, diff or
  repository signal alone makes a release malware.\<close>

theorem assess_malware_iff:
  "(as_verdict_class (assess_release c e g cap rp d) = Malware
      \<longleftrightarrow> confident_malware_spec (captured_content_risk c cap))
   \<and> (as_severity (assess_release c e g cap rp d) = HighSeverity
      \<longleftrightarrow> confident_malware_spec (captured_content_risk c cap))
   \<and> (as_suspicious (assess_release c e g cap rp d) \<longleftrightarrow> as_verdict_class (assess_release c e g cap rp d) \<noteq> Clean)
   \<and> (as_severity (assess_release c e g cap rp d) = Informational
      \<longleftrightarrow> as_verdict_class (assess_release c e g cap rp d) = Clean)"
  using verdict_consistent [OF assess_release_verdict [symmetric], of c e g cap rp d]
  by (simp add: facts_summary summary_confident)

text \<open>The signals that flag a release, one by one; \<open>mutes_churn\<close> is the branch that keeps a stable
  release with a repository mismatch and content changes informational.\<close>

definition mutes_churn :: "assessment_facts \<Rightarrow> bool" where
  "mutes_churn f \<longleftrightarrow> fa_repo_mismatch f \<and> \<not> fa_prerelease f \<and> fa_content_changed f \<and> \<not> fa_manifest_only f"

definition assessment_signals :: "assessment_facts \<Rightarrow> bool list" where
  "assessment_signals f =
     [malicious_matches (fa_content f) \<noteq> [],
      (\<exists>m \<in> set (cr_matches (fa_content f)). match_class_of m = RiskyInstallerMatch),
      (\<exists>m \<in> set (cr_matches (fa_content f)). match_class_of m = InvasiveToolingMatch),
      fa_risky_install f, mr_suspicious (fa_metadata f), vb_suspicious (fa_burst f),
      fa_removed_or_yanked f \<and> fa_content_changed f \<and> (fa_impact f \<or> fa_reverse_dependents f),
      fa_content_large f \<and> (fa_impact f \<or> fa_reverse_dependents f) \<and> \<not> mutes_churn f]"

lemma verdict_suspicious:
  assumes "fa_summary f = summarize_content_matches (fa_content f)"
  shows "fst (snd (snd (assessment_verdict f))) \<longleftrightarrow> list_ex (\<lambda>b. b) (assessment_signals f)"
  using assms confident_has_malicious [of "fa_content f"]
  by (simp add: assessment_verdict_def Let_def assessment_signals_def mutes_churn_def summary_confident summary_flags
      split del: if_split cong: if_cong) (simp split: if_split; blast)

text \<open>C35: a release is flagged suspicious exactly when one of the eight signals of the policy holds: a
  match of a malicious, risky-installer or invasive class, a risky install hook, the metadata score, the
  version burst, a removed or yanked release that changed and has downstream impact, or large churn with
  downstream impact, this last one alone being muted by a repository mismatch of a stable release.\<close>

theorem assess_suspicious_iff:
  "as_suspicious (assess_release c e g cap rp d)
     \<longleftrightarrow> list_ex (\<lambda>b. b) (assessment_signals (assessment_facts_of c e g cap rp d))"
  using verdict_suspicious [of "assessment_facts_of c e g cap rp d"]
    arg_cong [OF assess_release_verdict, of "\<lambda>p. fst (snd (snd p))" c e g cap rp d]
  by (simp add: facts_summary)

text \<open>The reason of the risky-installer branch names a repository mismatch even when no repository
  evidence was there at all.\<close>

lemma risky_install_reason_without_repository:
  assumes "malicious_matches (captured_content_risk c cap) = []"
    and "\<forall>m \<in> set (cr_matches (captured_content_risk c cap)). match_class_of m \<noteq> RiskyInstallerMatch"
    and "fa_risky_install (assessment_facts_of c e g cap None d)"
  shows "\<not> fa_repo_mismatch (assessment_facts_of c e g cap None d)
    \<and> as_reason (assess_release c e g cap None d) = ''repository mismatch combined with install-time execution''"
proof -
  let ?f = "assessment_facts_of c e g cap None d"
  have "\<not> confident_malware_spec (captured_content_risk c cap)"
    using assms(1) confident_has_malicious by blast
  then have "snd (snd (snd (assessment_verdict ?f))) = ''repository mismatch combined with install-time execution''"
    using assms by (simp add: assessment_verdict_def Let_def facts_summary summary_confident summary_flags)
  then show ?thesis
    using arg_cong [OF assess_release_verdict, of "\<lambda>p. snd (snd (snd p))" c e g cap None d]
    by (simp add: assessment_facts_of_def Let_def)
qed

section \<open>Facts on version bursts\<close>

text \<open>The number of entries counts, not the number of distinct versions: an entry given twice counts twice.\<close>

lemma evaluate_version_burst_suspicious:
  "ts \<noteq> [] \<Longrightarrow> vb_suspicious (evaluate_version_burst ts config) \<longleftrightarrow>
     (let latest = Max (snd ` set ts);
          recent = filter (\<lambda>p. latest - burst_window config \<le> snd p) ts in
      bc_min_versions config \<le> length recent
      \<and> bc_min_major_lines config \<le> card (set (List.map_filter major_version_line (map fst recent))))"
proof -
  assume ts: "ts \<noteq> []"
  have "filter (\<lambda>(_, at). Max (snd ` set ts) - burst_window config \<le> at \<and> at \<le> Max (snd ` set ts)) ts
      = filter (\<lambda>p. Max (snd ` set ts) - burst_window config \<le> snd p) ts"
    by (rule filter_cong) (auto intro!: Max_ge image_eqI [of _ snd])
  with ts show ?thesis
    by (simp add: evaluate_version_burst_def Let_def btree_set_length)
qed

end
