(* ===== verification/Diff_Types.thy ===== *)
theory Diff_Types
  imports Capture_Types
begin

text \<open>
  The data of \<open>diff.rs\<close>: a release diff with its status, artifact, details and content parts, and the
  stored diff written to \<open>diff.json\<close>.  A \<open>BTreeMap\<close> is its association list in key order.
\<close>

record status_diff =
  sd_baseline :: string
  sd_target :: string
  sd_changed :: bool

record artifact_summary =
  af_filename :: string
  af_kind :: "string option"
  af_url :: "string option"
  af_path :: "string option"
  af_size_bytes :: "nat option"
  af_uploaded_at :: "datetime option"
  af_yanked :: "bool option"
  af_hashes :: artifact_hashes
  af_provenance_path :: "string option"

text \<open>\<open>ArtifactRef\<close> has the same fields.\<close>

type_synonym artifact_ref = artifact_summary

record artifact_change =
  ax_filename :: string
  ax_kind :: "string option"
  ax_baseline :: artifact_summary
  ax_target :: artifact_summary

record artifact_diff =
  ad_added :: "artifact_summary list"
  ad_removed :: "artifact_summary list"
  ad_changed :: "artifact_change list"

record metadata_value_change =
  mv_key :: string
  mv_baseline :: json
  mv_target :: json

record details_diff =
  dd_added_keys :: "string list"
  dd_removed_keys :: "string list"
  dd_changed_keys :: "string list"
  dd_added :: "(string \<times> json) list"
  dd_removed :: "(string \<times> json) list"
  dd_changed :: "metadata_value_change list"

datatype file_change_kind = FileAdded | FileRemoved | FileChanged

fun file_change_label :: "file_change_kind \<Rightarrow> string" where
  "file_change_label FileAdded = ''added''"
| "file_change_label FileRemoved = ''removed''"
| "file_change_label FileChanged = ''changed''"

record file_patch =
  fp_path :: string
  fp_change :: file_change_kind
  fp_text :: bool
  fp_patch :: "string option"
  fp_reason :: "string option"

record file_record =
  fr_path :: string
  fr_size_bytes :: nat
  fr_sha256 :: string
  fr_text :: bool

record file_record_change =
  fc_path :: string
  fc_baseline :: file_record
  fc_target :: file_record

record npm_install_hook_diff =
  ih_baseline_has_install_scripts :: bool
  ih_target_has_install_scripts :: bool
  ih_scripts_changed :: bool
  ih_hook_files_changed :: bool
  ih_effective_changed :: bool
  ih_longstanding_unchanged :: bool
  ih_baseline_scripts :: "(string \<times> string) list"
  ih_target_scripts :: "(string \<times> string) list"
  ih_referenced_files :: "string list"
  ih_referenced_files_changed :: "string list"

record crate_repository_commit_diff =
  xc_baseline_commit :: "string option"
  xc_target_commit :: "string option"
  xc_commit_changed :: bool

record content_diff =
  cd_available :: bool
  cd_reason :: "string option"
  cd_artifact_kind :: "string option"
  cd_baseline_artifact :: "artifact_ref option"
  cd_target_artifact :: "artifact_ref option"
  cd_patches_included :: bool
  cd_patch_context :: "nat option"
  cd_files_added_count :: nat
  cd_files_removed_count :: nat
  cd_files_changed_count :: nat
  cd_files_added :: "string list"
  cd_files_removed :: "string list"
  cd_files_changed :: "string list"
  cd_files_added_detail :: "file_record list"
  cd_files_removed_detail :: "file_record list"
  cd_files_changed_detail :: "file_record_change list"
  cd_file_patches :: "file_patch list"
  cd_npm_install_hook :: "npm_install_hook_diff option"
  cd_crate_repository_commit :: "crate_repository_commit_diff option"

record release_diff =
  rd_ecosystem :: ecosystem
  rd_package :: string
  rd_baseline_event_id :: string
  rd_target_event_id :: string
  rd_baseline_version :: string
  rd_target_version :: string
  rd_generated_at :: datetime
  rd_status :: status_diff
  rd_artifacts :: artifact_diff
  rd_details :: details_diff
  rd_content :: content_diff
  rd_notes :: "string list"

datatype stored_diff_status = DiffReady | NoBaseline

fun stored_diff_status_as_str :: "stored_diff_status \<Rightarrow> string" where
  "stored_diff_status_as_str DiffReady = ''ready''"
| "stored_diff_status_as_str NoBaseline = ''no_baseline''"

record stored_diff =
  st_event_id :: string
  st_ecosystem :: ecosystem
  st_package :: string
  st_version :: string
  st_generated_at :: datetime
  st_baseline_event_id :: "string option"
  st_baseline_version :: "string option"
  st_status :: stored_diff_status
  st_reason :: "string option"
  st_diff :: "release_diff option"

lemma stored_diff_status_inject [simp]:
  "stored_diff_status_as_str a = stored_diff_status_as_str b \<longleftrightarrow> a = b"
  by (cases a; cases b) simp_all

end
