(* ===== verification/Dedupe_Window.thy ===== *)
theory Dedupe_Window
  imports Prelude
begin

text \<open>
  The interface the pollers, the dropped-capture audit and the caches share: a bounded memory of
  keys that have been seen.  The provider promises that remembering a key makes it known, makes
  nothing else known, forgets nothing while there is room, and stays within its capacity.  The
  client is the emit loop of the sources (\<open>if recent_keys.insert(key) { send(event) }\<close>): a key is
  emitted only when it is unknown, and is remembered when it is.  \<open>Bounded_Map\<close> and
  \<open>Recent_Keys\<close> interpret the interface.
\<close>

text \<open>The emit loop: the state after a batch and the items that were emitted.\<close>

fun emit_fresh :: "('s \<Rightarrow> 'k \<Rightarrow> bool) \<Rightarrow> ('k \<Rightarrow> 's \<Rightarrow> 's) \<Rightarrow> ('e \<Rightarrow> 'k) \<Rightarrow> 's \<Rightarrow> 'e list \<Rightarrow> 's \<times> 'e list" where
  "emit_fresh knows remember key s [] = (s, [])"
| "emit_fresh knows remember key s (e # es) =
     (if knows s (key e) then emit_fresh knows remember key s es
      else (let (s', out) = emit_fresh knows remember key (remember (key e) s) es in (s', e # out)))"

locale bounded_memory =
  fixes inv :: "'s \<Rightarrow> bool"
    and knows :: "'s \<Rightarrow> 'k \<Rightarrow> bool"
    and remember :: "'k \<Rightarrow> 's \<Rightarrow> 's"
    and used :: "'s \<Rightarrow> nat"
    and cap :: "'s \<Rightarrow> nat"
  assumes inv_remember: "inv s \<Longrightarrow> inv (remember k s)"
    and knows_remember: "inv s \<Longrightarrow> knows (remember k s) k"
    and knows_only: "inv s \<Longrightarrow> knows (remember k s) j \<Longrightarrow> j = k \<or> knows s j"
    and room_keeps: "inv s \<Longrightarrow> used s < cap s \<Longrightarrow> knows s j \<Longrightarrow> knows (remember k s) j"
    and used_remember: "inv s \<Longrightarrow> used (remember k s) \<le> Suc (used s)"
    and used_cap: "inv s \<Longrightarrow> used s \<le> cap s"
    and cap_remember: "cap (remember k s) = cap s"
begin

abbreviation emit :: "('e \<Rightarrow> 'k) \<Rightarrow> 's \<Rightarrow> 'e list \<Rightarrow> 's \<times> 'e list" where
  "emit \<equiv> emit_fresh knows remember"

lemma emit_inv:
  "inv s \<Longrightarrow> inv (fst (emit key s es)) \<and> cap (fst (emit key s es)) = cap s"
  by (induction es arbitrary: s) (auto simp: split_beta Let_def inv_remember cap_remember)

lemma emit_used: "inv s \<Longrightarrow> used (fst (emit key s es)) \<le> cap s"
  using emit_inv used_cap by metis

lemma emit_subset: "set (snd (emit key s es)) \<subseteq> set es"
  by (induction es arbitrary: s) (auto simp: split_beta Let_def)

lemma emit_length: "length (snd (emit key s es)) \<le> length es"
proof (induction es arbitrary: s)
  case (Cons e es)
  then show ?case
    by (auto simp: split_beta Let_def le_SucI)
qed simp

text \<open>While the batch fits in the remaining room, nothing is emitted twice, nothing that was
  known is emitted, and every unknown key of the batch is emitted.\<close>

lemma emit_exact:
  assumes "inv s" "used s + length es \<le> cap s"
  shows "distinct (map key (snd (emit key s es)))
    \<and> key ` set (snd (emit key s es)) = {k \<in> key ` set es. \<not> knows s k}
    \<and> (\<forall>k. knows (fst (emit key s es)) k \<longleftrightarrow> knows s k \<or> k \<in> key ` set es)"
  using assms
proof (induction es arbitrary: s)
  case (Cons e es)
  show ?case
  proof (cases "knows s (key e)")
    case True
    then show ?thesis
      using Cons.IH [of s] Cons.prems by auto
  next
    case False
    let ?s = "remember (key e) s"
    have k: "knows ?s j \<longleftrightarrow> j = key e \<or> knows s j" for j
      using Cons.prems knows_remember knows_only room_keeps by (metis Suc_leI add.commute
          le_add2 le_trans length_Cons less_le_trans add_Suc lessI not_less_eq_eq)
    have "used ?s + length es \<le> cap ?s"
      using Cons.prems used_remember [of s "key e"] by (simp add: cap_remember)
    note ih = Cons.IH [OF inv_remember [OF Cons.prems(1)] this]
    then show ?thesis
      using False by (auto simp: split_beta Let_def k)
  qed
qed simp

end

end
