(* ===== verification/Recent_Keys.thy ===== *)
theory Recent_Keys
  imports Dedupe_Window
begin

text \<open>
  \<open>RecentKeys\<close> of \<open>state.rs\<close>: the window of release keys a poller has already emitted, kept
  across restarts through its snapshot.  The queue is the insertion order, the set its members.
\<close>

record 'k recent_keys_state =
  rk_keys :: "'k list"

record 'k recent_keys =
  rk_max_entries :: nat
  rk_queue :: "'k list"
  rk_set :: "'k set"

definition rk_new :: "nat \<Rightarrow> 'k recent_keys" where
  "rk_new n = \<lparr>rk_max_entries = n, rk_queue = [], rk_set = {}\<rparr>"

fun rk_trim :: "nat \<Rightarrow> 'k list \<Rightarrow> 'k set \<Rightarrow> 'k list \<times> 'k set" where
  "rk_trim n [] s = ([], s)"
| "rk_trim n (oldest # q) s =
     (if length (oldest # q) > n then rk_trim n q (s - {oldest}) else (oldest # q, s))"

definition rk_insert :: "'k \<Rightarrow> 'k recent_keys \<Rightarrow> bool \<times> 'k recent_keys" where
  "rk_insert k r =
     (if k \<in> rk_set r then (False, r)
      else (let (q, s) = rk_trim (rk_max_entries r) (rk_queue r @ [k]) (insert k (rk_set r))
            in (True, r\<lparr>rk_queue := q, rk_set := s\<rparr>)))"

definition rk_from_state :: "'k recent_keys_state \<Rightarrow> nat \<Rightarrow> 'k recent_keys" where
  "rk_from_state st n = fold (\<lambda>k r. snd (rk_insert k r)) (rk_keys st) (rk_new n)"

definition rk_snapshot :: "'k recent_keys \<Rightarrow> 'k recent_keys_state" where
  "rk_snapshot r = \<lparr>rk_keys = rk_queue r\<rparr>"

definition rk_contains :: "'k recent_keys \<Rightarrow> 'k \<Rightarrow> bool" where
  "rk_contains r k = (k \<in> rk_set r)"

definition rk_len :: "'k recent_keys \<Rightarrow> nat" where
  "rk_len r = length (rk_queue r)"

definition rk_is_empty :: "'k recent_keys \<Rightarrow> bool" where
  "rk_is_empty r = (rk_queue r = [])"

section \<open>Invariant and functional behaviour\<close>

definition rk_wf :: "'k recent_keys \<Rightarrow> bool" where
  "rk_wf r \<longleftrightarrow> distinct (rk_queue r) \<and> rk_set r = set (rk_queue r) \<and> length (rk_queue r) \<le> rk_max_entries r"

lemma rk_trim_drop:
  assumes "distinct q" "s = set q"
  shows "rk_trim n q s = (drop (length q - n) q, set (drop (length q - n) q))"
  using assms
proof (induction n q s rule: rk_trim.induct)
  case (2 n k q s)
  show ?case
  proof (cases "length (k # q) > n")
    case True
    then have "s - {k} = set q" "Suc (length q) - n = Suc (length q - n)"
      using 2 by auto
    then show ?thesis
      using 2 True by simp
  qed (use 2 in simp)
qed simp

lemma rk_insert_known: "k \<in> rk_set r \<Longrightarrow> rk_insert k r = (False, r)"
  by (simp add: rk_insert_def)

lemma rk_insert_new:
  assumes "rk_wf r" "k \<notin> rk_set r"
  shows "rk_insert k r =
    (True, (let q = drop (Suc (length (rk_queue r)) - rk_max_entries r) (rk_queue r @ [k])
            in r\<lparr>rk_queue := q, rk_set := set q\<rparr>))"
  using assms rk_trim_drop [of "rk_queue r @ [k]" "insert k (rk_set r)" "rk_max_entries r"]
  by (simp add: rk_insert_def rk_wf_def Let_def)

lemma rk_wf_new [inv_intros]: "rk_wf (rk_new n)"
  by (simp add: rk_wf_def rk_new_def)

lemma rk_wf_insert [inv_intros]: "rk_wf r \<Longrightarrow> rk_wf (snd (rk_insert k r))"
  by (cases "k \<in> rk_set r") (auto simp: rk_insert_known rk_insert_new Let_def rk_wf_def
      simp del: drop_append)

lemma rk_max_insert [simp]: "rk_max_entries (snd (rk_insert k r)) = rk_max_entries r"
  by (simp add: rk_insert_def split_beta Let_def)

lemma rk_fold_wf:
  "rk_wf r \<Longrightarrow> rk_wf (fold (\<lambda>k r. snd (rk_insert k r)) ks r)
     \<and> rk_max_entries (fold (\<lambda>k r. snd (rk_insert k r)) ks r) = rk_max_entries r"
  by (induction ks arbitrary: r) (simp_all add: rk_wf_insert)

lemma rk_wf_from_state [inv_intros]: "rk_wf (rk_from_state st n)"
  using rk_fold_wf [OF rk_wf_new, of "rk_keys st" n] by (simp add: rk_from_state_def)

lemma rk_fold_room:
  assumes "rk_wf r" "length (rk_queue r) + length ks \<le> rk_max_entries r"
    "distinct ks" "set ks \<inter> rk_set r = {}"
  shows "fold (\<lambda>k r. snd (rk_insert k r)) ks r =
    r\<lparr>rk_queue := rk_queue r @ ks, rk_set := set (rk_queue r @ ks)\<rparr>"
  using assms
proof (induction ks arbitrary: r)
  case Nil
  then show ?case
    by (simp add: rk_wf_def)
next
  case (Cons k ks)
  have i: "snd (rk_insert k r) = r\<lparr>rk_queue := rk_queue r @ [k], rk_set := insert k (rk_set r)\<rparr>"
    using Cons.prems by (simp add: rk_insert_new Let_def rk_wf_def)
  have w: "rk_wf (snd (rk_insert k r))"
    using Cons.prems(1) by (rule rk_wf_insert)
  show ?case
    using Cons.IH [OF w] Cons.prems by (simp add: i)
qed

text \<open>A restart restores the window the snapshot saved.\<close>

lemma rk_restore:
  assumes "rk_wf r"
  shows "rk_from_state (rk_snapshot r) (rk_max_entries r) = r"
  using rk_fold_room [OF rk_wf_new, of "rk_max_entries r" "rk_queue r"] assms
  by (auto simp: rk_from_state_def rk_snapshot_def rk_wf_def rk_new_def)

section \<open>The window interprets the interface\<close>

interpretation rk: bounded_memory
  "\<lambda>r. rk_wf r \<and> 1 \<le> rk_max_entries r" rk_contains "\<lambda>k r. snd (rk_insert k r)" rk_len rk_max_entries
proof
  fix r :: "'k recent_keys" and k j :: 'k
  assume r: "rk_wf r \<and> 1 \<le> rk_max_entries r"
  have last: "drop (Suc (length (rk_queue r)) - rk_max_entries r) (rk_queue r @ [k]) =
    drop (Suc (length (rk_queue r)) - rk_max_entries r) (rk_queue r) @ [k]"
    using r by simp
  show "rk_wf (snd (rk_insert k r)) \<and> 1 \<le> rk_max_entries (snd (rk_insert k r))"
    using r rk_wf_insert by auto
  show "rk_contains (snd (rk_insert k r)) k"
    using r by (cases "k \<in> rk_set r")
      (auto simp: rk_contains_def rk_insert_known rk_insert_new Let_def last simp del: drop_append)
  show "rk_contains (snd (rk_insert k r)) j \<Longrightarrow> j = k \<or> rk_contains r j"
    using r by (cases "k \<in> rk_set r")
      (auto simp: rk_contains_def rk_insert_known rk_insert_new Let_def last rk_wf_def
        simp del: drop_append dest: in_set_dropD)
  show "rk_len r < rk_max_entries r \<Longrightarrow> rk_contains r j \<Longrightarrow> rk_contains (snd (rk_insert k r)) j"
    using r by (cases "k \<in> rk_set r")
      (auto simp: rk_contains_def rk_insert_known rk_insert_new Let_def rk_len_def rk_wf_def)
  show "rk_len (snd (rk_insert k r)) \<le> Suc (rk_len r)"
    using r by (cases "k \<in> rk_set r")
      (auto simp: rk_insert_known rk_insert_new Let_def rk_len_def)
  show "rk_len r \<le> rk_max_entries r"
    using r by (simp add: rk_len_def rk_wf_def)
next
  fix r :: "'k recent_keys" and k
  show "rk_max_entries (snd (rk_insert k r)) = rk_max_entries r"
    by simp
qed

end
