(* ===== verification/Xml_Rpc.thy ===== *)
theory Xml_Rpc
  imports Rust_Str
begin

text \<open>
  The hand-written XML-RPC reader and writer of \<open>sources/pypi.rs\<close>.  The parser's cursor only moves
  forward, so its state is the rest of the input.  \<open>parse_value\<close> is recursive with a loop inside;
  it takes fuel, \<open>None\<close> means that the fuel ran out, and \<open>parse_value_total\<close> shows that one unit
  per input byte is enough.  Errors carry the source's message.
\<close>

datatype xml_rpc_value = XInt int | XString string | XArray "xml_rpc_value list"

section \<open>Writing\<close>

fun encode_xmlrpc_value :: "xml_rpc_value \<Rightarrow> string" where
  "encode_xmlrpc_value (XInt i) = ''<value>'' @ (''<int>'' @ show_int i @ ''</int>'') @ ''</value>''"
| "encode_xmlrpc_value (XString s) = ''<value>'' @ (''<string>'' @ s @ ''</string>'') @ ''</value>''"
| "encode_xmlrpc_value (XArray vs) =
     ''<value>'' @ (''<array><data>'' @ concat (map encode_xmlrpc_value vs) @ ''</data></array>'') @ ''</value>''"

definition xmlrpc_request :: "string \<Rightarrow> xml_rpc_value list \<Rightarrow> string" where
  "xmlrpc_request mname params =
     ''<?xml version=\"1.0\"?><methodCall>'' @ ''<methodName>'' @ mname @ ''</methodName><params>''
     @ concat (map (\<lambda>p. ''<param>'' @ encode_xmlrpc_value p @ ''</param>'') params)
     @ ''</params></methodCall>''"

section \<open>Reading\<close>

type_synonym 'a presult = "string + 'a \<times> string"

definition decode_xml_entities :: "string \<Rightarrow> string" where
  "decode_xml_entities v =
     str_replace ''&amp;'' ''&'' (str_replace ''&apos;'' [CHR 0x27]
       (str_replace ''&quot;'' [CHR 0x22] (str_replace ''&gt;'' ''>'' (str_replace ''&lt;'' ''<'' v))))"

definition skip_ws :: "string \<Rightarrow> string" where
  "skip_ws s = trim_start s"

definition xp_consume :: "string \<Rightarrow> string \<Rightarrow> string + string" where
  "xp_consume tok s =
     (let s = skip_ws s in
      if starts_with s tok then Inr (drop (length tok) s) else Inl (''expected XML token '' @ tok))"

definition consume_until :: "string \<Rightarrow> string \<Rightarrow> string + string" where
  "consume_until tok s = (case find_sub s tok of
     Some n \<Rightarrow> Inr (drop n s) | None \<Rightarrow> Inl (''missing XML token '' @ tok))"

definition take_until :: "string \<Rightarrow> string \<Rightarrow> string presult" where
  "take_until tok s = (case find_sub s tok of
     Some n \<Rightarrow> Inr (take n s, drop n s) | None \<Rightarrow> Inl (''missing XML token '' @ tok))"

definition on_ok :: "string + 'a \<Rightarrow> ('a \<Rightarrow> (string + 'b) option) \<Rightarrow> (string + 'b) option" where
  "on_ok r f = (case r of Inl e \<Rightarrow> Some (Inl e) | Inr x \<Rightarrow> f x)"

text \<open>The three integer branches \<open><int>\<close>, \<open><i4>\<close>, \<open><i8>\<close> differ in their tag only.\<close>

definition parse_int_element :: "string \<Rightarrow> string \<Rightarrow> (string + xml_rpc_value \<times> string) option" where
  "parse_int_element ty s =
     on_ok (xp_consume (''<'' @ ty @ ''>'') s) (\<lambda>s.
     on_ok (take_until (''</'' @ ty @ ''>'') s) (\<lambda>(raw, s).
     (case parse_i64 (trim raw) of
        None \<Rightarrow> Some (Inl (''invalid xml-rpc '' @ ty))
      | Some i \<Rightarrow> on_ok (xp_consume (''</'' @ ty @ ''>'') s) (\<lambda>s. Some (Inr (XInt i, s))))))"

definition parse_string_element :: "string \<Rightarrow> (string + xml_rpc_value \<times> string) option" where
  "parse_string_element s =
     on_ok (xp_consume ''<string>'' s) (\<lambda>s.
     on_ok (take_until ''</string>'' s) (\<lambda>(raw, s).
     on_ok (xp_consume ''</string>'' s) (\<lambda>s. Some (Inr (XString (decode_xml_entities raw), s)))))"

definition parse_bare_element :: "string \<Rightarrow> (string + xml_rpc_value \<times> string) option" where
  "parse_bare_element s =
     on_ok (take_until ''</value>'' s) (\<lambda>(raw, s).
       let trimmed = trim (decode_xml_entities raw) in
       (case parse_i64 trimmed of
          Some i \<Rightarrow> Some (Inr (XInt i, s))
        | None \<Rightarrow> Some (Inr (XString trimmed, s))))"

definition parse_flat_element :: "string \<Rightarrow> (string + xml_rpc_value \<times> string) option" where
  "parse_flat_element s =
     (if starts_with s ''<string>'' then parse_string_element s
      else if starts_with s ''<int>'' then parse_int_element ''int'' s
      else if starts_with s ''<i4>'' then parse_int_element ''i4'' s
      else if starts_with s ''<i8>'' then parse_int_element ''i8'' s
      else parse_bare_element s)"

fun parse_value :: "nat \<Rightarrow> string \<Rightarrow> (string + xml_rpc_value \<times> string) option"
  and parse_values :: "nat \<Rightarrow> string \<Rightarrow> (string + xml_rpc_value list \<times> string) option" where
  "parse_value 0 s = None"
| "parse_value (Suc n) s =
     on_ok (xp_consume ''<value>'' s) (\<lambda>s.
     let s = skip_ws s in
     case (if starts_with s ''<array>'' then
             on_ok (xp_consume ''<array>'' s) (\<lambda>s.
             on_ok (xp_consume ''<data>'' s) (\<lambda>s.
             case parse_values n s of
               None \<Rightarrow> None
             | Some r \<Rightarrow> on_ok r (\<lambda>(vs, s).
                 on_ok (xp_consume ''</data>'' s) (\<lambda>s.
                 on_ok (xp_consume ''</array>'' s) (\<lambda>s. Some (Inr (XArray vs, s)))))))
           else parse_flat_element s) of
       None \<Rightarrow> None
     | Some r \<Rightarrow> on_ok r (\<lambda>(v, s).
         let s = skip_ws s in
         on_ok (xp_consume ''</value>'' s) (\<lambda>s. Some (Inr (v, s)))))"
| "parse_values 0 s = None"
| "parse_values (Suc n) s =
     (let s = skip_ws s in
      if starts_with s ''</data>'' then Some (Inr ([], s))
      else (case parse_value n s of
              None \<Rightarrow> None
            | Some r \<Rightarrow> on_ok r (\<lambda>(v, s).
                case parse_values n s of
                  None \<Rightarrow> None
                | Some r \<Rightarrow> on_ok r (\<lambda>(vs, s). Some (Inr (v # vs, s))))))"

fun parse_params :: "nat \<Rightarrow> string \<Rightarrow> (string + xml_rpc_value list) option" where
  "parse_params 0 s = None"
| "parse_params (Suc n) s =
     (if find_sub s ''<param>'' = None then Some (Inr [])
      else on_ok (consume_until ''<param>'' s) (\<lambda>s.
           on_ok (xp_consume ''<param>'' s) (\<lambda>s.
           case parse_value n s of
             None \<Rightarrow> None
           | Some r \<Rightarrow> on_ok r (\<lambda>(v, s).
               on_ok (xp_consume ''</param>'' s) (\<lambda>s.
               case parse_params n s of
                 None \<Rightarrow> None
               | Some r \<Rightarrow> on_ok r (\<lambda>vs. Some (Inr (v # vs)))))))) "

definition parse_xmlrpc_response_values :: "nat \<Rightarrow> string \<Rightarrow> (string + xml_rpc_value list) option" where
  "parse_xmlrpc_response_values fuel body =
     (if str_contains body ''<fault>'' then Some (Inl ''XML-RPC fault response'')
      else parse_params fuel body)"

definition xmlrpc_string :: "xml_rpc_value \<Rightarrow> string option" where
  "xmlrpc_string v = (case v of XString s \<Rightarrow> Some s | XInt i \<Rightarrow> Some (show_int i) | XArray _ \<Rightarrow> None)"

definition xmlrpc_int :: "xml_rpc_value \<Rightarrow> int option" where
  "xmlrpc_int v = (case v of XInt i \<Rightarrow> Some i | XString s \<Rightarrow> parse_i64 s | XArray _ \<Rightarrow> None)"

section \<open>The journal\<close>

record journal_entry =
  je_package :: string
  je_version :: string
  je_timestamp :: int
  je_action :: string
  je_serial :: nat

definition or_default :: "'a \<Rightarrow> 'a option \<Rightarrow> 'a" where
  "or_default d x = (case x of Some y \<Rightarrow> y | None \<Rightarrow> d)"

fun journal_of_value :: "xml_rpc_value \<Rightarrow> journal_entry option" where
  "journal_of_value (XArray [package, version, timestamp, action, serial]) =
     Some \<lparr>je_package = or_default '''' (xmlrpc_string package),
           je_version = or_default '''' (xmlrpc_string version),
           je_timestamp = or_default 0 (xmlrpc_int timestamp),
           je_action = or_default '''' (xmlrpc_string action),
           je_serial = (case xmlrpc_int serial of Some i \<Rightarrow> if 0 \<le> i then nat i else 0 | None \<Rightarrow> 0)\<rparr>"
| "journal_of_value _ = None"

definition parse_pypi_changelog_entries :: "nat \<Rightarrow> string \<Rightarrow> (string + journal_entry list) option" where
  "parse_pypi_changelog_entries fuel body =
     (case parse_xmlrpc_response_values fuel body of
        None \<Rightarrow> None
      | Some r \<Rightarrow> on_ok r (\<lambda>values.
          case values of
            XArray entries # _ \<Rightarrow> Some (Inr (List.map_filter journal_of_value entries))
          | _ \<Rightarrow> Some (Inl ''unexpected XML-RPC changelog response'')))"

definition parse_xmlrpc_scalar_i64 :: "nat \<Rightarrow> string \<Rightarrow> int option option" where
  "parse_xmlrpc_scalar_i64 fuel body =
     (case parse_xmlrpc_response_values fuel body of
        None \<Rightarrow> None
      | Some (Inr (XInt i # _)) \<Rightarrow> Some (Some i)
      | Some _ \<Rightarrow> Some None)"

section \<open>The parser consumes input and never runs out of enough fuel\<close>

lemma length_trim_start: "length (trim_start s) \<le> length s"
proof -
  have "length (concat (dropWhile P us)) \<le> length (concat us)" for P and us :: "string list"
    by (induction us) auto
  from this [of is_whitespace "utf8_chars s"] show ?thesis
    by (simp add: trim_start_def)
qed

lemma consume_length: "xp_consume tok s = Inr r \<Longrightarrow> length r + length tok \<le> length s"
proof -
  assume h: "xp_consume tok s = Inr r"
  then have p: "prefix tok (skip_ws s)" "r = drop (length tok) (skip_ws s)"
    by (auto simp: xp_consume_def Let_def starts_with_prefix split: if_splits)
  have "length (skip_ws s) \<le> length s"
    unfolding skip_ws_def by (rule length_trim_start)
  with p show ?thesis
    using prefix_length_le [OF p(1)] by simp
qed

lemma take_until_length: "take_until tok s = Inr (a, r) \<Longrightarrow> length r \<le> length s"
  by (auto simp: take_until_def split: option.splits)

lemma consume_until_length: "consume_until tok s = Inr r \<Longrightarrow> length r \<le> length s"
  by (auto simp: consume_until_def split: option.splits)

lemmas parser_lengths = consume_length take_until_length consume_until_length

lemma on_ok_Inr: "on_ok r f = Some (Inr y) \<longleftrightarrow> (\<exists>x. r = Inr x \<and> f x = Some (Inr y))"
  by (cases r) (auto simp: on_ok_def)

lemma on_ok_None: "on_ok r f = None \<longleftrightarrow> (\<exists>x. r = Inr x \<and> f x = None)"
  by (cases r) (auto simp: on_ok_def)

lemma int_element_length:
  "parse_int_element ty s = Some (Inr (v, r)) \<Longrightarrow> length r \<le> length s"
  by (fastforce simp: parse_int_element_def on_ok_Inr split: option.splits dest: parser_lengths)

lemma string_element_length: "parse_string_element s = Some (Inr (v, r)) \<Longrightarrow> length r \<le> length s"
  by (fastforce simp: parse_string_element_def on_ok_Inr dest: parser_lengths)

lemma bare_element_length: "parse_bare_element s = Some (Inr (v, r)) \<Longrightarrow> length r \<le> length s"
  by (fastforce simp: parse_bare_element_def on_ok_Inr Let_def split: option.splits dest: parser_lengths)

lemma on_ok_Some [simp]: "on_ok r (\<lambda>x. Some (f x)) \<noteq> None"
  by (cases r) (simp_all add: on_ok_def)

lemma element_total:
  "parse_int_element ty s \<noteq> None" "parse_string_element s \<noteq> None" "parse_bare_element s \<noteq> None"
  by (auto simp: parse_int_element_def parse_string_element_def parse_bare_element_def on_ok_None
      Let_def simp del: not_None_eq split: option.splits)

lemma flat_element_total: "parse_flat_element s \<noteq> None"
  using element_total by (simp add: parse_flat_element_def)

lemma flat_element_length: "parse_flat_element s = Some (Inr (v, r)) \<Longrightarrow> length r \<le> length s"
  by (auto simp: parse_flat_element_def split: if_splits
      dest: int_element_length string_element_length bare_element_length)

lemma skip_ws_length: "length (skip_ws s) \<le> length s"
  by (simp add: skip_ws_def length_trim_start)

text \<open>A value takes at least its opening and closing tags from the input.\<close>

lemma parse_shrinks:
  "parse_value n s = Some (Inr (v, r)) \<Longrightarrow> length r + 7 \<le> length s"
  "parse_values n s = Some (Inr (vs, r)) \<Longrightarrow> length r \<le> length s"
proof (induction n s and n s arbitrary: v r and vs r rule: parse_value_parse_values.induct)
  case (2 n s)
  from "2.prems" obtain s1 where s1: "xp_consume ''<value>'' s = Inr s1"
    by (auto simp: on_ok_Inr)
  let ?s2 = "skip_ws s1"
  have l: "length ?s2 + 7 \<le> length s"
    using consume_length [OF s1] skip_ws_length [of s1] by simp
  obtain v' s3 where inner: "(if starts_with ?s2 ''<array>'' then
             on_ok (xp_consume ''<array>'' ?s2) (\<lambda>s.
             on_ok (xp_consume ''<data>'' s) (\<lambda>s.
             case parse_values n s of
               None \<Rightarrow> None
             | Some r \<Rightarrow> on_ok r (\<lambda>(vs, s).
                 on_ok (xp_consume ''</data>'' s) (\<lambda>s.
                 on_ok (xp_consume ''</array>'' s) (\<lambda>s. Some (Inr (XArray vs, s)))))))
           else parse_flat_element ?s2) = Some (Inr (v', s3))"
    and last: "xp_consume ''</value>'' (skip_ws s3) = Inr r"
    using "2.prems" by (auto simp: on_ok_Inr s1 Let_def split: option.splits prod.splits)
  have "length s3 \<le> length ?s2"
  proof (cases "starts_with ?s2 ''<array>''")
    case True
    with inner obtain a b vs c d where
      t: "xp_consume ''<array>'' ?s2 = Inr a" "xp_consume ''<data>'' a = Inr b"
        "xp_consume ''</data>'' c = Inr d" "xp_consume ''</array>'' d = Inr s3"
      and p: "parse_values n b = Some (Inr (vs, c))"
      by (auto simp: on_ok_Inr split: option.splits)
    from "2.IH"(1) [OF refl True p] t [THEN consume_length] show ?thesis
      by simp
  next
    case False
    with inner show ?thesis
      by (simp add: flat_element_length)
  qed
  with l consume_length [OF last] skip_ws_length [of s3] show ?case
    by simp
next
  case (4 n s)
  show ?case
  proof (cases "starts_with (skip_ws s) ''</data>''")
    case True
    with "4.prems" skip_ws_length [of s] show ?thesis
      by (auto simp: Let_def)
  next
    case False
    with "4.prems" obtain v s1 vs' where
      v: "parse_value n (skip_ws s) = Some (Inr (v, s1))" and
      vs: "parse_values n s1 = Some (Inr (vs', r))"
      by (auto simp: Let_def on_ok_Inr split: option.splits)
    have "length s1 + 7 \<le> length (skip_ws s)" "length r \<le> length s1"
      using "4.IH" False v vs by (metis not_None_eq)+
    then show ?thesis
      using skip_ws_length [of s]
      by simp
  qed
qed simp_all

lemma parse_total_aux:
  "length s < n \<Longrightarrow> parse_value n s \<noteq> None"
  "Suc (length s) < n \<Longrightarrow> parse_values n s \<noteq> None"
proof (induction n s and n s rule: parse_value_parse_values.induct)
  case (2 n s)
  show ?case
  proof (cases "xp_consume ''<value>'' s")
    case (Inr s1)
    let ?s2 = "skip_ws s1"
    have l: "length ?s2 + 7 \<le> length s"
      using consume_length [OF Inr] skip_ws_length [of s1] by simp
    show ?thesis
    proof (cases "starts_with ?s2 ''<array>''")
      case True
      have "parse_values n b \<noteq> None"
        if "xp_consume ''<array>'' ?s2 = Inr a" "xp_consume ''<data>'' a = Inr b" for a b
        using "2.IH"(1) [OF refl True] that [THEN consume_length] l "2.prems" by simp
      then show ?thesis
        by (auto simp: Inr on_ok_None Let_def True simp del: not_None_eq split: option.splits)
    next
      case False
      then show ?thesis
        by (auto simp: Inr on_ok_None Let_def flat_element_total simp del: not_None_eq split: option.splits if_splits)
    qed
  qed (simp add: on_ok_def)
next
  case (4 n s)
  show ?case
  proof (cases "starts_with (skip_ws s) ''</data>''")
    case False
    have v: "parse_value n (skip_ws s) \<noteq> None"
      using "4.IH"(1) [OF refl False] "4.prems" skip_ws_length [of s] by simp
    have "parse_values n t \<noteq> None" if p: "parse_value n (skip_ws s) = Some (Inr (v, t))" for v t
      using "4.IH"(2) [OF refl False p] parse_shrinks(1) [OF p] skip_ws_length [of s] "4.prems"
      by simp
    with v show ?thesis
      using False by (auto simp: on_ok_None Let_def simp del: not_None_eq split: option.splits)
  qed (simp add: Let_def)
qed simp_all

lemma parse_params_total: "length s < n \<Longrightarrow> parse_params n s \<noteq> None"
proof (induction n s rule: parse_params.induct)
  case (2 n s)
  show ?case
  proof (cases "find_sub s ''<param>'' = None")
    case False
    have l: "length b + 7 \<le> length s"
      if "consume_until ''<param>'' s = Inr a" "xp_consume ''<param>'' a = Inr b" for a b
      using consume_until_length [OF that(1)] consume_length [OF that(2)] by simp
    have v: "parse_value n b \<noteq> None"
      if "consume_until ''<param>'' s = Inr a" "xp_consume ''<param>'' a = Inr b" for a b
      using parse_total_aux(1) [of b n] l [OF that] "2.prems" by simp
    have "parse_params n d \<noteq> None"
      if "consume_until ''<param>'' s = Inr a" "xp_consume ''<param>'' a = Inr b"
        "parse_value n b = Some (Inr (w, c))" "xp_consume ''</param>'' c = Inr d" for a b w c d
      using "2.IH" [OF False that(3), of d] l [OF that(1,2)] parse_shrinks(1) [OF that(3)]
        consume_length [OF that(4)] "2.prems" that by simp
    with v show ?thesis
      using False by (auto simp: on_ok_None simp del: not_None_eq split: option.splits)
  qed simp
qed simp

section \<open>Writing and reading back\<close>

fun writable :: "xml_rpc_value \<Rightarrow> bool" where
  "writable (XInt i) = (- (2 ^ 63) \<le> i \<and> i \<le> 2 ^ 63 - 1)"
| "writable (XString s) = (CHR ''<'' \<notin> set s \<and> CHR ''&'' \<notin> set s)"
| "writable (XArray vs) = (\<forall>v \<in> set vs. writable v)"

lemma skip_ws_tag [simp]: "skip_ws (CHR ''<'' # s) = CHR ''<'' # s"
  unfolding skip_ws_def by (rule trim_start_plain) (simp add: plain_ascii_def byte_def)

lemma decode_plain: "CHR ''&'' \<notin> set s \<Longrightarrow> decode_xml_entities s = s"
  by (simp add: decode_xml_entities_def str_replace_absent)

lemma take_until_tag:
  "CHR ''<'' \<notin> set b \<Longrightarrow> take_until (CHR ''<'' # tok) (b @ CHR ''<'' # tok @ t) = Inr (b, CHR ''<'' # tok @ t)"
  using find_sub_after [of "CHR ''<'' # tok" b t] by (simp add: take_until_def)

lemma parse_int_written:
  assumes "writable (XInt i)"
  shows "parse_int_element ''int'' (''<int>'' @ show_int i @ ''</int>'' @ t) = Some (Inr (XInt i, t))"
proof -
  have o: "xp_consume ''<int>'' (''<int>'' @ x) = Inr x" "xp_consume ''</int>'' (''</int>'' @ x) = Inr x" for x
    by (simp_all add: xp_consume_def)
  have "take_until ''</int>'' (show_int i @ ''</int>'' @ t) = Inr (show_int i, ''</int>'' @ t)"
    using take_until_tag [of "show_int i" "''/int>''" t] show_int_plain [of i] by auto
  moreover have "parse_i64 (trim (show_int i)) = Some i"
    using assms show_int_plain [of i] by (simp add: trim_plain parse_i64_show)
  ultimately show ?thesis
    using o [of "show_int i @ ''</int>'' @ t"] o [of t] by (simp add: parse_int_element_def on_ok_def)
qed

lemma parse_string_written:
  assumes "writable (XString s)"
  shows "parse_string_element (''<string>'' @ s @ ''</string>'' @ t) = Some (Inr (XString s, t))"
proof -
  have o: "xp_consume ''<string>'' (''<string>'' @ x) = Inr x" "xp_consume ''</string>'' (''</string>'' @ x) = Inr x" for x
    by (simp_all add: xp_consume_def)
  have "take_until ''</string>'' (s @ ''</string>'' @ t) = Inr (s, ''</string>'' @ t)"
    using take_until_tag [of s "''/string>''" t] assms by simp
  then show ?thesis
    using assms o [of "s @ ''</string>'' @ t"] o [of t]
    by (simp add: parse_string_element_def on_ok_def decode_plain)
qed

lemma encode_starts: "\<exists>r. encode_xmlrpc_value v = ''<value>'' @ r"
  by (cases v) auto

lemma parse_values_written:
  assumes "\<And>v n t. v \<in> set vs \<Longrightarrow> length (encode_xmlrpc_value v) < n \<Longrightarrow>
      parse_value n (encode_xmlrpc_value v @ t) = Some (Inr (v, t))"
    and "Suc (length (concat (map encode_xmlrpc_value vs))) < n"
  shows "parse_values n (concat (map encode_xmlrpc_value vs) @ ''</data>'' @ t) = Some (Inr (vs, ''</data>'' @ t))"
  using assms
proof (induction vs arbitrary: n)
  case Nil
  then show ?case
    by (cases n) (simp_all add: Let_def)
next
  case (Cons v vs)
  then obtain m where n: "n = Suc m"
    by (cases n) auto
  obtain r where r: "encode_xmlrpc_value v = ''<value>'' @ r"
    using encode_starts by blast
  let ?t = "concat (map encode_xmlrpc_value vs) @ ''</data>'' @ t"
  have "7 \<le> length (encode_xmlrpc_value v)"
    by (simp add: r)
  then have l: "length (encode_xmlrpc_value v) < m" "Suc (length (concat (map encode_xmlrpc_value vs))) < m"
    using Cons.prems(2) n by simp_all
  have "parse_value m (encode_xmlrpc_value v @ ?t) = Some (Inr (v, ?t))"
    by (rule Cons.prems(1)) (simp_all add: l)
  moreover have "parse_values m ?t = Some (Inr (vs, ''</data>'' @ t))"
    by (rule Cons.IH [OF Cons.prems(1) l(2)]) simp_all
  ultimately show ?case
    by (simp add: n r Let_def on_ok_def)
qed

lemma parse_value_element:
  assumes "starts_with e ''<''" "\<not> starts_with e ''<array>''"
    and "parse_flat_element e = Some (Inr (v, ''</value>'' @ t))"
  shows "parse_value (Suc n) (''<value>'' @ e) = Some (Inr (v, t))"
proof -
  have "xp_consume ''<value>'' (''<value>'' @ e) = Inr e" "xp_consume ''</value>'' (''</value>'' @ t) = Inr t"
    by (simp_all add: xp_consume_def)
  moreover have "skip_ws e = e"
    using assms(1) by (cases e) auto
  ultimately show ?thesis
    using assms(2,3) by (simp add: on_ok_def Let_def)
qed

lemma parse_value_written:
  "writable v \<Longrightarrow> length (encode_xmlrpc_value v) < n \<Longrightarrow>
   parse_value n (encode_xmlrpc_value v @ t) = Some (Inr (v, t))"
proof (induction v arbitrary: n t)
  case (XInt i)
  then obtain m where "n = Suc m"
    by (cases n) auto
  moreover have "parse_value (Suc m) (''<value>'' @ (''<int>'' @ show_int i @ ''</int>'' @ ''</value>'' @ t)) = Some (Inr (XInt i, t))"
    by (rule parse_value_element) (use parse_int_written [OF XInt.prems(1), of "''</value>'' @ t"] in \<open>simp_all add: parse_flat_element_def\<close>)
  ultimately show ?case
    by simp
next
  case (XString s)
  then obtain m where "n = Suc m"
    by (cases n) auto
  moreover have "parse_value (Suc m) (''<value>'' @ (''<string>'' @ s @ ''</string>'' @ ''</value>'' @ t)) = Some (Inr (XString s, t))"
    by (rule parse_value_element) (use parse_string_written [OF XString.prems(1), of "''</value>'' @ t"] in \<open>simp_all add: parse_flat_element_def\<close>)
  ultimately show ?case
    by simp
next
  case (XArray vs)
  then obtain m where n: "n = Suc m"
    by (cases n) auto
  have "parse_values m (concat (map encode_xmlrpc_value vs) @ ''</data>'' @ (''</array>'' @ ''</value>'' @ t)) =
    Some (Inr (vs, ''</data>'' @ (''</array>'' @ ''</value>'' @ t)))"
    using XArray n by (intro parse_values_written) auto
  then show ?case
    by (simp add: n on_ok_def Let_def xp_consume_def)
qed

lemma parse_params_written:
  assumes "\<forall>v \<in> set vs. writable v"
    and "length (concat (map (\<lambda>p. ''<param>'' @ encode_xmlrpc_value p @ ''</param>'') vs)) < n"
  shows "parse_params n (concat (map (\<lambda>p. ''<param>'' @ encode_xmlrpc_value p @ ''</param>'') vs)
     @ ''</params></methodCall>'') = Some (Inr vs)"
  using assms
proof (induction vs arbitrary: n)
  case Nil
  then show ?case
    by (cases n) simp_all
next
  case (Cons v vs)
  then obtain m where n: "n = Suc m"
    by (cases n) auto
  let ?t = "concat (map (\<lambda>p. ''<param>'' @ encode_xmlrpc_value p @ ''</param>'') vs) @ ''</params></methodCall>''"
  have "parse_params m ?t = Some (Inr vs)"
    using Cons n by auto
  moreover have "parse_value m (encode_xmlrpc_value v @ ''</param>'' @ ?t) = Some (Inr (v, ''</param>'' @ ?t))"
    using Cons.prems n by (intro parse_value_written) auto
  ultimately show ?case
    by (simp add: n on_ok_def xp_consume_def consume_until_def)
qed

text \<open>Text in which no \<open><\<close> is last or followed by \<open>f\<close> holds no \<open><fault>\<close>.\<close>

fun no_lt_f :: "string \<Rightarrow> bool" where
  "no_lt_f [] = True"
| "no_lt_f (c # s) = (\<not> (c = CHR ''<'' \<and> (s = [] \<or> hd s = CHR ''f'')) \<and> no_lt_f s)"

lemma no_lt_f_append: "no_lt_f a \<Longrightarrow> no_lt_f b \<Longrightarrow> no_lt_f (a @ b)"
  by (induction a) (auto simp: hd_append)

lemma no_lt_f_plain: "CHR ''<'' \<notin> set s \<Longrightarrow> no_lt_f s"
  by (induction s) auto

lemma no_lt_f_concat: "\<forall>s \<in> set ss. no_lt_f s \<Longrightarrow> no_lt_f (concat ss)"
  by (induction ss) (auto intro: no_lt_f_append)

lemma no_lt_f_no_fault: "no_lt_f s \<Longrightarrow> \<not> str_contains s ''<fault>''"
proof (induction s)
  case (Cons c s)
  then show ?case
    by (cases s) auto
qed simp

lemma no_lt_f_encode: "writable v \<Longrightarrow> no_lt_f (encode_xmlrpc_value v)"
proof (induction v)
  case (XInt i)
  have "no_lt_f (show_int i)"
    using show_int_plain [of i] by (intro no_lt_f_plain) auto
  then show ?case
    by (simp add: no_lt_f_append)
next
  case (XString s)
  then show ?case
    by (simp add: no_lt_f_append no_lt_f_plain)
next
  case (XArray vs)
  then have "no_lt_f (concat (map encode_xmlrpc_value vs))"
    by (intro no_lt_f_concat) auto
  then show ?case
    by (simp add: no_lt_f_append)
qed

section \<open>Properties\<close>

text \<open>C33: the XML-RPC reader recovers the parameters of any request the writer produces, for
  parameters whose strings need no escaping and whose integers fit in 64 bits.\<close>

theorem xmlrpc_roundtrip:
  assumes "\<forall>v \<in> set params. writable v" "CHR ''<'' \<notin> set mname" "length (xmlrpc_request mname params) < fuel"
  shows "parse_xmlrpc_response_values fuel (xmlrpc_request mname params) = Some (Inr params)"
proof -
  let ?ps = "concat (map (\<lambda>p. ''<param>'' @ encode_xmlrpc_value p @ ''</param>'') params)"
  have "no_lt_f ?ps"
    using assms(1) by (auto intro!: no_lt_f_concat simp: no_lt_f_append no_lt_f_encode)
  then have "no_lt_f (xmlrpc_request mname params)"
    using assms(2) by (simp add: xmlrpc_request_def no_lt_f_append no_lt_f_plain)
  then have nofault: "\<not> str_contains (xmlrpc_request mname params) ''<fault>''"
    by (rule no_lt_f_no_fault)
  obtain m where m: "fuel = Suc m"
    using assms(3) by (cases fuel) auto
  have parsed: "parse_params k (?ps @ ''</params></methodCall>'') = Some (Inr params)" if "m \<le> k" for k
    using assms m that by (intro parse_params_written) (auto simp: xmlrpc_request_def)
  let ?h = "''<?xml version=\"1.0\"?><methodCall><methodName>'' @ mname @ ''</methodName><params>''"
  have b: "xmlrpc_request mname params = ?h @ ?ps @ ''</params></methodCall>''"
    by (simp add: xmlrpc_request_def)
  have skip: "find_sub (?h @ t) ''<param>'' = map_option (\<lambda>n. length ?h + n) (find_sub t ''<param>'')" for t
    using find_sub_skip [of "''<param>''" mname "''</methodName><params>'' @ t"] assms(2)
    by (simp add: option.map_comp comp_def)
  show ?thesis
  proof (cases params)
    case Nil
    then have "find_sub (xmlrpc_request mname params) ''<param>'' = None"
      unfolding b skip by simp
    then show ?thesis
      using nofault Nil by (simp add: parse_xmlrpc_response_values_def m)
  next
    case (Cons p ps)
    let ?t = "?ps @ ''</params></methodCall>''"
    have f0: "find_sub ?t ''<param>'' = Some 0"
      by (simp add: Cons)
    have f: "find_sub (xmlrpc_request mname params) ''<param>'' = Some (length ?h)"
      unfolding b skip f0 by simp
    have d: "drop (length ?h) (xmlrpc_request mname params) = ?t"
      unfolding b by simp
    have "parse_params (Suc m) (xmlrpc_request mname params) = parse_params (Suc m) ?t"
      by (simp only: parse_params.simps f f0 consume_until_def d option.case option.distinct if_False drop_0)
    then show ?thesis
      using nofault parsed [of "Suc m"] by (simp add: parse_xmlrpc_response_values_def m)
  qed
qed

theorem xmlrpc_roundtrip_witness:
  "parse_xmlrpc_response_values 1000 (xmlrpc_request ''changelog_since_serial'' [XInt (- 42), XArray [XString ''a b'', XInt 7]])
   = Some (Inr [XInt (- 42), XArray [XString ''a b'', XInt 7]])"
proof (rule xmlrpc_roundtrip)
  show "length (xmlrpc_request ''changelog_since_serial'' [XInt (- 42), XArray [XString ''a b'', XInt 7]]) < 1000"
    by code_simp
qed simp_all

text \<open>the reader always returns: one unit of fuel more than the length of the body is enough,
  whatever the body holds.\<close>

theorem xmlrpc_reader_total:
  "\<exists>r. parse_xmlrpc_response_values (Suc (length body)) body = Some r"
  using parse_params_total [of body "Suc (length body)"] by (simp add: parse_xmlrpc_response_values_def)

end
