(* ===== verification/Pollers.thy ===== *)
theory Pollers
  imports Backoff Recent_Keys Event Json Xml_Rpc "HOL-Library.Option_ord"
begin

text \<open>
  The registry pollers of \<open>sources/\<close>: how each turns registry data into release events, and one
  iteration of each \<open>run\<close> loop as a function of what the requests returned.  An iteration works on
  the state in memory, the dedupe window, the backoff and the state file on disk, and says what it
  sent and whether the loop goes on.  HTTP clients, \<open>chrono\<close>'s date parsers, \<open>serde_json\<close>'s text
  rendering and \<open>urlencoding\<close> are arguments.
\<close>

datatype control = Continue | Return | Failed string

record 'st poller =
  pl_state :: 'st
  pl_recent :: "string recent_keys"
  pl_backoff :: failure_backoff
  pl_disk :: "'st option"

definition build_sources :: "ecosystem list \<Rightarrow> string list" where
  "build_sources ecosystems =
     map (\<lambda>e. case e of Npm \<Rightarrow> ''npm'' | Pypi \<Rightarrow> ''pypi'' | CratesIo \<Rightarrow> ''crates-io'') ecosystems"

text \<open>What surrounds an iteration: the \<open>--once\<close> flag, whether the shutdown token is set when the loop
  starts and when it fires during a sleep, and whether the output channel and the state file work.\<close>

record loop_env =
  le_once :: bool
  le_cancelled :: bool
  le_sleep_cancelled :: bool
  le_channel_open :: bool
  le_save_ok :: bool

fun poller_emit :: "string recent_keys \<Rightarrow> release_event list \<Rightarrow> string recent_keys \<times> release_event list" where
  "poller_emit r [] = (r, [])"
| "poller_emit r (e # es) =
     (let (fresh, r') = rk_insert (release_key e) r; (r'', out) = poller_emit r' es
      in (r'', if fresh then e # out else out))"

definition prime_keys :: "release_event list \<Rightarrow> string recent_keys \<Rightarrow> string recent_keys" where
  "prime_keys es r = fold (\<lambda>e r. snd (rk_insert (release_key e) r)) es r"

definition after_sleep :: "loop_env \<Rightarrow> control" where
  "after_sleep env = (if le_once env \<or> le_sleep_cancelled env then Return else Continue)"

section \<open>npm\<close>

record npm_state =
  ns_since :: "string option"
  ns_recent :: "string recent_keys_state"

record npm_change =
  nc_id :: string
  nc_seq :: json
  nc_deleted :: bool

record npm_page =
  np_results :: "npm_change list"
  np_last_seq :: "json option"

record npm_packument =
  pk_versions :: "string list"
  pk_time :: "(string \<times> string) list"

definition seq_to_string :: "(json \<Rightarrow> string) \<Rightarrow> json \<Rightarrow> string" where
  "seq_to_string render v = (case v of JString s \<Rightarrow> s | _ \<Rightarrow> render v)"

definition npm_next_since :: "(json \<Rightarrow> string) \<Rightarrow> npm_page \<Rightarrow> string option" where
  "npm_next_since render page =
     (case np_last_seq page of
        Some s \<Rightarrow> Some (seq_to_string render s)
      | None \<Rightarrow> (if np_results page = [] then None
                 else Some (seq_to_string render (nc_seq (last (np_results page))))))"

text \<open>The changes a page makes the poller fetch packuments for.\<close>

definition npm_live_changes :: "npm_page \<Rightarrow> npm_change list" where
  "npm_live_changes page = filter (\<lambda>c. \<not> nc_deleted c) (np_results page)"

definition npm_event :: "(string \<Rightarrow> string) \<Rightarrow> datetime \<Rightarrow> string \<Rightarrow> string \<Rightarrow> string \<Rightarrow> datetime \<Rightarrow> release_event" where
  "npm_event encode now package sequence version published =
     \<lparr>ev_event_id = ''npm:'' @ package @ ''@'' @ version, ev_ecosystem = Npm, ev_package = package,
      ev_version = version, ev_published_at = Some published, ev_observed_at = now,
      ev_source = ''npm.replication'', ev_sequence = Some sequence,
      ev_package_url = Some (''https://www.npmjs.com/package/'' @ package),
      ev_release_url = Some (''https://www.npmjs.com/package/'' @ package @ ''/v/'' @ version),
      ev_metadata_url = Some (''https://registry.npmjs.org/'' @ encode package),
      ev_priority = None\<rparr>"

text \<open>\<open>chrono::Duration::from_std\<close> fails above \<open>i64::MAX\<close> milliseconds.\<close>

definition chrono_duration_max :: nat where
  "chrono_duration_max = (2 ^ 63 - 1) * 1000000"

definition extract_recent_releases ::
  "(string \<Rightarrow> datetime option) \<Rightarrow> (string \<Rightarrow> string) \<Rightarrow> datetime \<Rightarrow> string \<Rightarrow> string \<Rightarrow> npm_packument \<Rightarrow> duration
   \<Rightarrow> release_event list" where
  "extract_recent_releases parse_rfc3339 encode now package sequence p window =
     (case Option.bind (map_of (pk_time p) ''modified'') parse_rfc3339 of
        None \<Rightarrow> []
      | Some modified_at \<Rightarrow>
          if window > chrono_duration_max then []
          else let cutoff = modified_at - int window in
            sort_key ev_published_at
              (List.map_filter
                (\<lambda>version. case Option.bind (map_of (pk_time p) version) parse_rfc3339 of
                   None \<Rightarrow> None
                 | Some published_at \<Rightarrow>
                     if published_at < cutoff then None
                     else Some (npm_event encode now package sequence version published_at))
                (pk_versions p)))"

definition npm_bootstrap :: "(json \<Rightarrow> string) \<Rightarrow> bool \<Rightarrow> json \<Rightarrow> npm_state poller \<Rightarrow> npm_state poller \<times> control" where
  "npm_bootstrap render save_ok update_seq p =
     (let st = (pl_state p)\<lparr>ns_since := Some (seq_to_string render update_seq)\<rparr>; p = p\<lparr>pl_state := st\<rparr>
      in if \<not> save_ok then (p, Failed ''failed to persist npm bootstrap state'')
         else (p\<lparr>pl_disk := Some st\<rparr>, Continue))"

text \<open>The packument in hand: when the abbreviated document lacks \<open>modified\<close> it is the full one.\<close>

definition fetch_packument :: "npm_packument option \<Rightarrow> npm_packument option \<Rightarrow> npm_packument option" where
  "fetch_packument abbreviated full =
     (case abbreviated of None \<Rightarrow> None
      | Some p \<Rightarrow> if map_of (pk_time p) ''modified'' \<noteq> None then Some p else full)"

text \<open>One iteration: the page (\<open>None\<close> when the request failed) and, in completion order, the
  releases of each live change (\<open>None\<close> when its packument failed).\<close>

definition npm_iteration ::
  "(json \<Rightarrow> string) \<Rightarrow> loop_env \<Rightarrow> npm_page option \<Rightarrow> release_event list option list \<Rightarrow> npm_state poller
   \<Rightarrow> npm_state poller \<times> release_event list \<times> control" where
  "npm_iteration render env page outcomes p =
     (if le_cancelled env then (p, [], Return)
      else case ns_since (pl_state p) of
        None \<Rightarrow> (p, [], Failed ''npm state cursor missing after bootstrap'')
      | Some since \<Rightarrow>
        (case page of
           None \<Rightarrow> (let (d, b) = fb_next_delay (pl_backoff p) in (p\<lparr>pl_backoff := b\<rparr>, [], after_sleep env))
         | Some pg \<Rightarrow>
           (let p = p\<lparr>pl_backoff := fb_reset (pl_backoff p)\<rparr> in
            if np_results pg = [] then (p, [], after_sleep env)
            else case npm_next_since render pg of
              None \<Rightarrow> (p, [], Failed ''npm changes page missing pagination cursor'')
            | Some next_since \<Rightarrow>
                (let (r, out) = poller_emit (pl_recent p) (concat (List.map_filter (\<lambda>x. x) outcomes)) in
                 if out \<noteq> [] \<and> \<not> le_channel_open env then (p, [], Failed ''npm output channel closed'')
                 else let st = \<lparr>ns_since = Some next_since, ns_recent = rk_snapshot r\<rparr> in
                   if \<not> le_save_ok env then (p\<lparr>pl_state := st, pl_recent := r\<rparr>, out, Failed ''state file'')
                   else (p\<lparr>pl_state := st, pl_recent := r, pl_disk := Some st\<rparr>, out,
                         if le_once env then Return else Continue)))))"

section \<open>PyPI\<close>

record pypi_state =
  py_warmed_up :: bool
  py_last_serial :: "nat option"
  py_recent :: "string recent_keys_state"

definition parse_feed_item ::
  "(string \<Rightarrow> string list option) \<Rightarrow> (string \<Rightarrow> datetime option) \<Rightarrow> datetime \<Rightarrow> string option \<Rightarrow> string option
   \<Rightarrow> release_event option" where
  "parse_feed_item path_segments parse_rfc2822 now link pub_date =
     (case link of None \<Rightarrow> None
      | Some release_url \<Rightarrow>
        (case path_segments release_url of None \<Rightarrow> None
         | Some segments \<Rightarrow>
           if length segments < 4 \<or> segments ! 0 \<noteq> ''project'' then None
           else let package = segments ! 1; version = segments ! 2 in
             Some \<lparr>ev_event_id = ''pypi:'' @ package @ ''@'' @ version, ev_ecosystem = Pypi,
               ev_package = package, ev_version = version,
               ev_published_at = Option.bind pub_date parse_rfc2822, ev_observed_at = now,
               ev_source = ''pypi.rss.updates'', ev_sequence = None,
               ev_package_url = Some (''https://pypi.org/project/'' @ package @ ''/''),
               ev_release_url = Some release_url,
               ev_metadata_url = Some (''https://pypi.org/pypi/'' @ package @ ''/'' @ version @ ''/json''),
               ev_priority = None\<rparr>))"

definition feed_events ::
  "(string \<Rightarrow> string list option) \<Rightarrow> (string \<Rightarrow> datetime option) \<Rightarrow> datetime
   \<Rightarrow> (string option \<times> string option) list \<Rightarrow> release_event list" where
  "feed_events path_segments parse_rfc2822 now items =
     sort_key ev_published_at
       (List.map_filter (\<lambda>(link, pub_date). parse_feed_item path_segments parse_rfc2822 now link pub_date) items)"

definition journal_entry_to_event :: "(int \<Rightarrow> datetime option) \<Rightarrow> datetime \<Rightarrow> journal_entry \<Rightarrow> release_event option" where
  "journal_entry_to_event from_timestamp now je =
     (if je_action je \<noteq> ''new release'' \<or> je_package je = [] \<or> je_version je = [] then None
      else Some \<lparr>ev_event_id = ''pypi:'' @ je_package je @ ''@'' @ je_version je, ev_ecosystem = Pypi,
             ev_package = je_package je, ev_version = je_version je,
             ev_published_at = from_timestamp (je_timestamp je), ev_observed_at = now,
             ev_source = ''pypi.xmlrpc.changelog'', ev_sequence = Some (show_nat (je_serial je)),
             ev_package_url = Some (''https://pypi.org/project/'' @ je_package je @ ''/''),
             ev_release_url = Some (''https://pypi.org/project/'' @ je_package je @ ''/'' @ je_version je @ ''/''),
             ev_metadata_url = Some (''https://pypi.org/pypi/'' @ je_package je @ ''/'' @ je_version je @ ''/json''),
             ev_priority = None\<rparr>)"

definition journal_max_serial :: "nat \<Rightarrow> journal_entry list \<Rightarrow> nat" where
  "journal_max_serial serial entries = fold (\<lambda>je m. max m (je_serial je)) entries serial"

text \<open>What the requests of one iteration return, each \<open>None\<close> on failure.\<close>

record pypi_replies =
  pr_last_serial :: "nat option"
  pr_feed :: "release_event list option"
  pr_journal :: "journal_entry list option"

text \<open>The common end of an iteration that sends events: the channel, the state file, the sleep.\<close>

definition finish_emit ::
  "loop_env \<Rightarrow> string \<Rightarrow> ('st \<Rightarrow> string recent_keys_state \<Rightarrow> 'st) \<Rightarrow> release_event list \<Rightarrow> 'st poller
   \<Rightarrow> 'st poller \<times> release_event list \<times> control" where
  "finish_emit env closed put events p =
     (let (r, out) = poller_emit (pl_recent p) events in
      if out \<noteq> [] \<and> \<not> le_channel_open env then (p, [], Failed closed)
      else let st = put (pl_state p) (rk_snapshot r); p = p\<lparr>pl_state := st, pl_recent := r\<rparr> in
        if \<not> le_save_ok env then (p, out, Failed ''state file'')
        else (p\<lparr>pl_disk := Some st\<rparr>, out, after_sleep env))"

definition finish_prime ::
  "loop_env \<Rightarrow> ('st \<Rightarrow> string recent_keys_state \<Rightarrow> 'st) \<Rightarrow> release_event list \<Rightarrow> 'st poller
   \<Rightarrow> 'st poller \<times> release_event list \<times> control" where
  "finish_prime env put events p =
     (let r = prime_keys events (pl_recent p); st = put (pl_state p) (rk_snapshot r);
          p = p\<lparr>pl_state := st, pl_recent := r\<rparr> in
      if \<not> le_save_ok env then (p, [], Failed ''state file'')
      else (p\<lparr>pl_disk := Some st\<rparr>, [], after_sleep env))"

definition poller_backoff :: "loop_env \<Rightarrow> 'st poller \<Rightarrow> 'st poller \<times> release_event list \<times> control" where
  "poller_backoff env p =
     (let (d, b) = fb_next_delay (pl_backoff p) in (p\<lparr>pl_backoff := b\<rparr>, [], after_sleep env))"

definition reset_backoff :: "'st poller \<Rightarrow> 'st poller" where
  "reset_backoff p = p\<lparr>pl_backoff := fb_reset (pl_backoff p)\<rparr>"

definition pypi_iteration ::
  "(int \<Rightarrow> datetime option) \<Rightarrow> datetime \<Rightarrow> loop_env \<Rightarrow> pypi_replies \<Rightarrow> pypi_state poller
   \<Rightarrow> pypi_state poller \<times> release_event list \<times> control" where
  "pypi_iteration from_timestamp now env rep p =
     (if le_cancelled env then (p, [], Return)
      else if \<not> py_warmed_up (pl_state p) then
        (case pr_last_serial rep of
           Some serial \<Rightarrow>
             finish_prime env
               (\<lambda>st keys. st\<lparr>py_warmed_up := True, py_last_serial := Some serial, py_recent := keys\<rparr>)
               (case pr_feed rep of Some es \<Rightarrow> es | None \<Rightarrow> []) (reset_backoff p)
         | None \<Rightarrow>
             (case pr_feed rep of
                None \<Rightarrow> poller_backoff env p
              | Some es \<Rightarrow>
                  finish_prime env (\<lambda>st keys. st\<lparr>py_warmed_up := True, py_recent := keys\<rparr>) es (reset_backoff p)))
      else
        (case (py_last_serial (pl_state p), pr_journal rep) of
           (Some serial, Some entries) \<Rightarrow>
             finish_emit env ''PyPI output channel closed''
               (\<lambda>st keys. st\<lparr>py_last_serial := Some (journal_max_serial serial entries), py_recent := keys\<rparr>)
               (List.map_filter (journal_entry_to_event from_timestamp now) entries) (reset_backoff p)
         | _ \<Rightarrow>
             (case pr_feed rep of
                None \<Rightarrow> poller_backoff env p
              | Some es \<Rightarrow>
                  finish_emit env ''PyPI output channel closed'' (\<lambda>st keys. st\<lparr>py_recent := keys\<rparr>) es
                    (reset_backoff p))))"

section \<open>crates.io\<close>

record crates_state =
  cr_warmed_up :: bool
  cr_last_index_head :: "string option"
  cr_recent :: "string recent_keys_state"

record crate_summary_item =
  ci_name :: string
  ci_max_version :: string
  ci_created_at :: datetime
  ci_updated_at :: datetime

record crates_summary =
  cs_just_updated :: "crate_summary_item list"
  cs_new_crates :: "crate_summary_item list"

datatype source_kind = New | Updated

definition item_to_event :: "datetime \<Rightarrow> crate_summary_item \<Rightarrow> string \<Rightarrow> source_kind option \<Rightarrow> release_event" where
  "item_to_event now item source kind =
     (let published_at = (case (case kind of Some k \<Rightarrow> k | None \<Rightarrow> Updated) of
            New \<Rightarrow> Some (ci_created_at item) | Updated \<Rightarrow> Some (ci_updated_at item));
          package_url = ''https://crates.io/crates/'' @ ci_name item
      in \<lparr>ev_event_id = ''crates-io:'' @ ci_name item @ ''@'' @ ci_max_version item, ev_ecosystem = CratesIo,
          ev_package = ci_name item, ev_version = ci_max_version item, ev_published_at = published_at,
          ev_observed_at = now, ev_source = source, ev_sequence = None, ev_package_url = Some package_url,
          ev_release_url = Some (package_url @ ''/'' @ ci_max_version item),
          ev_metadata_url = Some (''https://crates.io/api/v1/crates/'' @ ci_name item),
          ev_priority = None\<rparr>)"

text \<open>The \<open>BTreeMap\<close> keyed by release key: later items overwrite earlier ones; its values come out
  in key order and are then sorted by publication time.\<close>

definition insert_by_key :: "release_event \<Rightarrow> (string \<times> release_event) list \<Rightarrow> (string \<times> release_event) list" where
  "insert_by_key e m = AList.update (release_key e) e m"

definition summary_to_events :: "datetime \<Rightarrow> crates_summary \<Rightarrow> release_event list" where
  "summary_to_events now s =
     (let m = fold insert_by_key
                (map (\<lambda>i. item_to_event now i ''crates.summary.new_crates'' (Some New)) (cs_new_crates s)) [];
          m = fold insert_by_key
                (map (\<lambda>i. item_to_event now i ''crates.summary.just_updated'' (Some Updated)) (cs_just_updated s)) m
      in sort_key ev_published_at (map snd (sort_key fst m)))"

record crates_index_record =
  ix_name :: string
  ix_version :: string

definition parse_index_versions :: "(string \<Rightarrow> crates_index_record option) \<Rightarrow> string option \<Rightarrow> crates_index_record list" where
  "parse_index_versions parse_record body =
     filter (\<lambda>r. ix_name r \<noteq> [] \<and> ix_version r \<noteq> [])
       (List.map_filter parse_record (case body of Some b \<Rightarrow> str_lines b | None \<Rightarrow> []))"

definition index_event :: "datetime \<Rightarrow> string \<Rightarrow> crates_index_record \<Rightarrow> release_event" where
  "index_event now commit r =
     (let package_url = ''https://crates.io/crates/'' @ ix_name r
      in \<lparr>ev_event_id = ''crates-io:'' @ ix_name r @ ''@'' @ ix_version r, ev_ecosystem = CratesIo,
          ev_package = ix_name r, ev_version = ix_version r, ev_published_at = None,
          ev_observed_at = now, ev_source = ''crates.index.git'', ev_sequence = Some commit,
          ev_package_url = Some package_url, ev_release_url = Some (package_url @ ''/'' @ ix_version r),
          ev_metadata_url = Some (''https://crates.io/api/v1/crates/'' @ ix_name r),
          ev_priority = None\<rparr>)"

definition index_path_added_events ::
  "(string \<Rightarrow> crates_index_record option) \<Rightarrow> datetime \<Rightarrow> string option \<Rightarrow> string option \<Rightarrow> string
   \<Rightarrow> release_event list" where
  "index_path_added_events parse_record now old_body new_body commit =
     (let old_versions = set (map ix_version (parse_index_versions parse_record old_body))
      in map (index_event now commit)
           (filter (\<lambda>r. \<not> (ix_name r = [] \<or> ix_version r = [] \<or> ix_version r \<in> old_versions))
             (parse_index_versions parse_record new_body)))"

record remote_head =
  rh_head :: string
  rh_branch_ref :: "string option"

definition ls_remote_line :: "string \<Rightarrow> string option \<times> string option \<Rightarrow> string option \<times> string option" where
  "ls_remote_line line acc =
     (case strip_prefix line ''ref: '' of
        Some rest \<Rightarrow>
          (case split_once (char_of (9::nat)) rest of
             Some (target, name) \<Rightarrow> if name = ''HEAD'' then (Some (trim target), snd acc) else acc
           | None \<Rightarrow> acc)
      | None \<Rightarrow>
          (case split_once (char_of (9::nat)) line of
             Some (oid, name) \<Rightarrow> if name = ''HEAD'' then (fst acc, Some (trim oid)) else acc
           | None \<Rightarrow> acc))"

definition parse_ls_remote :: "string \<Rightarrow> remote_head option" where
  "parse_ls_remote stdout =
     (case fold ls_remote_line (str_lines stdout) (None, None) of
        (branch_ref, Some head) \<Rightarrow> Some \<lparr>rh_head = head, rh_branch_ref = branch_ref\<rparr>
      | (_, None) \<Rightarrow> None)"

text \<open>\<open>sync_index_blocking\<close> with the git operations' results as arguments: the remote head, whether
  the fetch and the lookup of the head commit succeeded, and the events between two heads.\<close>

definition sync_index ::
  "remote_head option \<Rightarrow> bool \<Rightarrow> bool \<Rightarrow> (string \<Rightarrow> string \<Rightarrow> release_event list option) \<Rightarrow> string option
   \<Rightarrow> (string \<times> release_event list) option" where
  "sync_index remote fetched head_known walk since_head =
     (case remote of None \<Rightarrow> None
      | Some r \<Rightarrow>
        if since_head \<noteq> None \<and> since_head = Some (rh_head r) then Some (rh_head r, [])
        else if \<not> fetched \<or> \<not> head_known then None
        else (case since_head of
                Some s \<Rightarrow> if s = rh_head r then Some (rh_head r, [])
                          else map_option (\<lambda>es. (rh_head r, es)) (walk s (rh_head r))
              | None \<Rightarrow> Some (rh_head r, [])))"

definition index_sync_ready :: "nat option \<Rightarrow> nat \<Rightarrow> bool" where
  "index_sync_ready cooldown_until now = (case cooldown_until of Some u \<Rightarrow> u \<le> now | None \<Rightarrow> True)"

definition index_sync_failure_cooldown :: nat where
  "index_sync_failure_cooldown = 300 * 10 ^ 9"

record crates_replies =
  cp_remote_head :: "string option"
  cp_sync :: "(string \<times> release_event list) option"
  cp_summary :: "release_event list option"

definition crates_iteration ::
  "nat \<Rightarrow> loop_env \<Rightarrow> crates_replies \<Rightarrow> nat option \<Rightarrow> crates_state poller
   \<Rightarrow> nat option \<times> crates_state poller \<times> release_event list \<times> control" where
  "crates_iteration now env rep cooldown p =
     (if le_cancelled env then (cooldown, p, [], Return)
      else if \<not> cr_warmed_up (pl_state p) then
        (cooldown,
         (case cp_remote_head rep of
            Some head \<Rightarrow>
              finish_prime env (\<lambda>st keys. st\<lparr>cr_warmed_up := True, cr_last_index_head := Some head, cr_recent := keys\<rparr>)
                [] (reset_backoff p)
          | None \<Rightarrow>
              (case cp_summary rep of
                 None \<Rightarrow> poller_backoff env p
               | Some es \<Rightarrow>
                   finish_prime env (\<lambda>st keys. st\<lparr>cr_warmed_up := True, cr_recent := keys\<rparr>) es (reset_backoff p))))
      else
        (let summary = (case cp_summary rep of
               None \<Rightarrow> poller_backoff env p
             | Some es \<Rightarrow>
                 finish_emit env ''crates.io output channel closed'' (\<lambda>st keys. st\<lparr>cr_recent := keys\<rparr>) es
                   (reset_backoff p))
         in if cr_last_index_head (pl_state p) \<noteq> None \<and> index_sync_ready cooldown now then
              (case cp_sync rep of
                 Some (head, events) \<Rightarrow>
                   (None, finish_emit env ''crates.io output channel closed''
                      (\<lambda>st keys. st\<lparr>cr_last_index_head := Some head, cr_recent := keys\<rparr>) events (reset_backoff p))
               | None \<Rightarrow> (Some (now + index_sync_failure_cooldown), summary))
            else (cooldown, summary)))"

text \<open>\<open>collect_index_release_events\<close> over the commits the git walk yields between two heads, oldest
  first: for each commit, the old and new bodies of the paths its diff touches.\<close>

definition collect_index_release_events ::
  "(string \<Rightarrow> crates_index_record option) \<Rightarrow> datetime \<Rightarrow> (string \<times> (string option \<times> string option) list) list
   \<Rightarrow> release_event list" where
  "collect_index_release_events parse_record now commits =
     concat (map (\<lambda>(oid, paths).
       concat (map (\<lambda>(old_body, new_body). index_path_added_events parse_record now old_body new_body oid) paths)) commits)"

text \<open>The refspec and the retry chain of \<open>fetch_index_updates\<close>; \<open>fetch\<close> runs git with a refspec and
  says whether it succeeded and what it wrote to stderr, its first argument counting the calls.\<close>

definition index_branch_name :: "string \<Rightarrow> string" where
  "index_branch_name branch_ref = (case strip_prefix branch_ref ''refs/heads/'' of Some n \<Rightarrow> n | None \<Rightarrow> branch_ref)"

definition index_refspec :: "string \<Rightarrow> string" where
  "index_refspec branch_ref = ''+'' @ branch_ref @ '':'' @ ''refs/remotes/origin/'' @ index_branch_name branch_ref"

definition fetch_index_updates ::
  "bool \<Rightarrow> bool option \<Rightarrow> (nat \<Rightarrow> bool) \<Rightarrow> (nat \<Rightarrow> string \<Rightarrow> bool \<times> string) \<Rightarrow> string option \<Rightarrow> bool" where
  "fetch_index_updates remote_ok lock_active clear_ok fetch branch =
     (if \<not> remote_ok \<or> lock_active = None \<or> lock_active = Some True \<or> \<not> clear_ok 0 then False
      else let branch_ref = (case branch of Some b \<Rightarrow> b | None \<Rightarrow> ''refs/heads/master'');
               refspec = index_refspec branch_ref;
               (ok, stderr) = fetch 0 refspec;
               locked = str_contains stderr (''shallow.lock'' @ [CHR 0x27] @ '': File exists'')
           in if ok then True
              else if locked \<and> \<not> clear_ok 1 then False
              else if locked \<and> fst (fetch 1 refspec) then True
              else branch_ref \<noteq> ''refs/heads/main''
                   \<and> fst (fetch 2 ''+refs/heads/main:refs/remotes/origin/main''))"

section \<open>The emit loop is the dedupe window's client\<close>

lemma poller_emit_fresh:
  "poller_emit r es = emit_fresh rk_contains (\<lambda>k r. snd (rk_insert k r)) release_key r es"
proof (induction es arbitrary: r)
  case (Cons e es)
  show ?case
  proof (cases "release_key e \<in> rk_set r")
    case True
    then show ?thesis
      by (simp add: Cons.IH rk_contains_def rk_insert_known split_beta Let_def)
  next
    case False
    then have "fst (rk_insert (release_key e) r)"
      by (simp add: rk_insert_def split_beta Let_def)
    then show ?thesis
      using False by (simp add: Cons.IH rk_contains_def split_beta Let_def)
  qed
qed simp

definition window_ok :: "string recent_keys \<Rightarrow> bool" where
  "window_ok r \<longleftrightarrow> rk_wf r \<and> 1 \<le> rk_max_entries r"

lemma emit_window: "window_ok r \<Longrightarrow> window_ok (fst (poller_emit r es)) \<and>
  rk_max_entries (fst (poller_emit r es)) = rk_max_entries r"
  unfolding poller_emit_fresh window_ok_def by (rule rk.emit_inv)

lemma emit_known_not_sent:
  "window_ok r \<Longrightarrow> length (rk_queue r) + length es \<le> rk_max_entries r \<Longrightarrow>
   distinct (map release_key (snd (poller_emit r es)))
   \<and> release_key ` set (snd (poller_emit r es)) = {k \<in> release_key ` set es. k \<notin> rk_set r}
   \<and> rk_set (fst (poller_emit r es)) = rk_set r \<union> release_key ` set es"
  unfolding poller_emit_fresh window_ok_def
  using rk.emit_exact [of r es release_key] by (auto simp: rk_len_def rk_contains_def)

section \<open>Iterations\<close>

lemma finish_emit_saved:
  assumes "le_save_ok env" "le_channel_open env"
  shows "finish_emit env closed put es p =
    (let (r, out) = poller_emit (pl_recent p) es; st = put (pl_state p) (rk_snapshot r)
     in (p\<lparr>pl_state := st, pl_recent := r, pl_disk := Some st\<rparr>, out, after_sleep env))"
  using assms by (simp add: finish_emit_def split_beta Let_def)

lemma reset_backoff_simps [simp]:
  "pl_state (reset_backoff p) = pl_state p" "pl_recent (reset_backoff p) = pl_recent p"
  "pl_disk (reset_backoff p) = pl_disk p"
  by (simp_all add: reset_backoff_def)

lemma poller_backoff_simps [simp]:
  "pl_state (fst (poller_backoff env p)) = pl_state p" "pl_recent (fst (poller_backoff env p)) = pl_recent p"
  "fst (snd (poller_backoff env p)) = []"
  by (simp_all add: poller_backoff_def split_beta Let_def)

text \<open>An iteration either leaves the state or applies its update.\<close>

lemma finish_emit_state:
  "pl_state (fst (finish_emit env closed put es p)) = pl_state p \<or>
   pl_state (fst (finish_emit env closed put es p)) = put (pl_state p) (rk_snapshot (fst (poller_emit (pl_recent p) es)))"
  by (auto simp: finish_emit_def split_beta Let_def)

lemma finish_prime_state:
  "pl_state (fst (finish_prime env put es p)) = put (pl_state p) (rk_snapshot (prime_keys es (pl_recent p)))"
  by (auto simp: finish_prime_def Let_def)

lemmas finish_states = finish_emit_state finish_prime_state

lemma journal_max_ge:
  "serial \<le> journal_max_serial serial entries \<and> (\<forall>je \<in> set entries. je_serial je \<le> journal_max_serial serial entries)"
proof (induction entries arbitrary: serial)
  case (Cons je entries)
  from Cons.IH [of "max serial (je_serial je)"] show ?case
    by (auto simp: journal_max_serial_def)
qed (simp add: journal_max_serial_def)

definition pypi_run ::
  "(int \<Rightarrow> datetime option) \<Rightarrow> (datetime \<times> loop_env \<times> pypi_replies) list \<Rightarrow> pypi_state poller \<Rightarrow> pypi_state poller" where
  "pypi_run ts steps p = fold (\<lambda>(now, env, rep) p. fst (pypi_iteration ts now env rep p)) steps p"

lemma pypi_stuck_step:
  assumes "py_warmed_up (pl_state p)" "py_last_serial (pl_state p) = None"
  shows "py_warmed_up (pl_state (fst (pypi_iteration ts now env rep p)))
    \<and> py_last_serial (pl_state (fst (pypi_iteration ts now env rep p))) = None"
proof -
  have "py_warmed_up (pl_state (fst (finish_emit env closed (\<lambda>st keys. st\<lparr>py_recent := keys\<rparr>) es (reset_backoff p))))
    \<and> py_last_serial (pl_state (fst (finish_emit env closed (\<lambda>st keys. st\<lparr>py_recent := keys\<rparr>) es (reset_backoff p)))) = None"
    for closed es
    using finish_emit_state [of env closed "\<lambda>st keys. st\<lparr>py_recent := keys\<rparr>" es "reset_backoff p"] assms by auto
  then show ?thesis
    using assms by (auto simp: pypi_iteration_def split: option.split)
qed

lemma pypi_stuck_run:
  "py_warmed_up (pl_state p) \<Longrightarrow> py_last_serial (pl_state p) = None \<Longrightarrow>
   py_last_serial (pl_state (pypi_run ts steps p)) = None"
  unfolding pypi_run_def by (induction steps arbitrary: p) (auto simp: pypi_stuck_step)

text \<open>The serial of the journal never moves back.\<close>

lemma pypi_serial_step:
  assumes "py_last_serial (pl_state p) = Some serial" "py_warmed_up (pl_state p)"
  shows "\<exists>serial' \<ge> serial. py_last_serial (pl_state (fst (pypi_iteration ts now env rep p))) = Some serial'
    \<and> py_warmed_up (pl_state (fst (pypi_iteration ts now env rep p)))"
proof -
  have rss: "\<exists>serial' \<ge> serial. py_last_serial (pl_state (fst (finish_emit env c (\<lambda>st keys. st\<lparr>py_recent := keys\<rparr>) es (reset_backoff p)))) = Some serial'
      \<and> py_warmed_up (pl_state (fst (finish_emit env c (\<lambda>st keys. st\<lparr>py_recent := keys\<rparr>) es (reset_backoff p))))" for c es
    using finish_emit_state [of env c "\<lambda>st keys. st\<lparr>py_recent := keys\<rparr>" es "reset_backoff p"] assms by auto
  let ?put = "\<lambda>entries st keys. st\<lparr>py_last_serial := Some (journal_max_serial serial entries), py_recent := keys\<rparr>"
  have journal: "\<exists>serial' \<ge> serial. py_last_serial (pl_state (fst (finish_emit env c (?put entries) es (reset_backoff p)))) = Some serial'
      \<and> py_warmed_up (pl_state (fst (finish_emit env c (?put entries) es (reset_backoff p))))" for c es entries
    using finish_emit_state [of env c "?put entries" es "reset_backoff p"] assms journal_max_ge [of serial entries] by auto
  show ?thesis
    using assms rss journal by (auto simp: pypi_iteration_def split: option.split)
qed

lemma pypi_serial_run:
  "py_last_serial (pl_state p) = Some serial \<Longrightarrow> py_warmed_up (pl_state p) \<Longrightarrow>
   \<exists>serial' \<ge> serial. py_last_serial (pl_state (pypi_run ts steps p)) = Some serial'"
  unfolding pypi_run_def
proof (induction steps arbitrary: p serial)
  case (Cons s steps)
  obtain now env rep where s: "s = (now, env, rep)"
    by (cases s)
  obtain serial1 where "serial \<le> serial1"
    "py_last_serial (pl_state (fst (pypi_iteration ts now env rep p))) = Some serial1"
    "py_warmed_up (pl_state (fst (pypi_iteration ts now env rep p)))"
    using pypi_serial_step [OF Cons.prems] by blast
  with Cons.IH [of "fst (pypi_iteration ts now env rep p)" serial1] show ?case
    by (auto simp: s intro: order_trans)
qed auto

section \<open>Events of a summary and of the index\<close>

lemma map_of_fold_insert:
  "map_of (fold insert_by_key es m) k =
     (case find (\<lambda>e. release_key e = k) (rev es) of Some e \<Rightarrow> Some e | None \<Rightarrow> map_of m k)"
proof (induction es arbitrary: m)
  case (Cons e es)
  have f: "find P (xs @ [e]) = (case find P xs of Some x \<Rightarrow> Some x | None \<Rightarrow> if P e then Some e else None)"
    for P and xs :: "release_event list"
    by (induction xs) auto
  have "map_of (insert_by_key e m) k = (if k = release_key e then Some e else map_of m k)"
    by (simp add: insert_by_key_def)
  then show ?case
    by (simp add: Cons.IH [of "insert_by_key e m"] f split: option.split)
qed simp

lemma fold_insert_keys:
  "distinct (keys m) \<Longrightarrow> \<forall>(k, e) \<in> set m. k = release_key e \<Longrightarrow>
   distinct (keys (fold insert_by_key es m)) \<and> (\<forall>(k, e) \<in> set (fold insert_by_key es m). k = release_key e)"
proof (induction es arbitrary: m)
  case (Cons e es)
  have "\<forall>(k, f) \<in> set (insert_by_key e m). k = release_key f"
  proof -
    have "k = release_key f" if "(k, f) \<in> set (insert_by_key e m)" for k f
    proof -
      have "map_of (insert_by_key e m) k = Some f"
        using that Cons.prems(1) by (metis distinct_update_keys in_set_map_of insert_by_key_def)
      then show ?thesis
        using Cons.prems(2) by (auto simp: insert_by_key_def split: if_splits dest: map_of_SomeD)
    qed
    then show ?thesis
      by auto
  qed
  then show ?case
    using Cons.IH [of "insert_by_key e m"] Cons.prems(1) by (simp add: insert_by_key_def distinct_update_keys)
qed simp

section \<open>Properties\<close>


definition demo_env :: loop_env where
  "demo_env = \<lparr>le_once = False, le_cancelled = False, le_sleep_cancelled = False, le_channel_open = True, le_save_ok = True\<rparr>"

definition demo_npm :: "npm_state poller" where
  "demo_npm = \<lparr>pl_state = \<lparr>ns_since = Some ''1'', ns_recent = \<lparr>rk_keys = []\<rparr>\<rparr>, pl_recent = rk_new 4,
     pl_backoff = fb_new demo_resilience, pl_disk = None\<rparr>"

definition demo_page :: npm_page where
  "demo_page = \<lparr>np_results = [\<lparr>nc_id = ''a'', nc_seq = JString ''2'', nc_deleted = False\<rparr>], np_last_seq = Some (JString ''9'')\<rparr>"


text \<open>C39: when the serial bootstrap fails and the RSS bootstrap succeeds, the PyPI poller counts as
  warmed up without a serial, and no later iteration ever gets one, even when the serial endpoint
  and the journal answer again.\<close>

theorem pypi_rss_bootstrap_disables_journal:
  assumes "\<not> py_warmed_up (pl_state p)" "py_last_serial (pl_state p) = None" "\<not> le_cancelled env"
    and "pr_last_serial rep = None" "pr_feed rep = Some es"
  shows "py_last_serial (pl_state (pypi_run ts ((now, env, rep) # steps) p)) = None"
proof -
  let ?p = "fst (pypi_iteration ts now env rep p)"
  have "py_warmed_up (pl_state ?p) \<and> py_last_serial (pl_state ?p) = None"
    using assms by (simp add: pypi_iteration_def finish_prime_state)
  then show ?thesis
    using pypi_stuck_run [of ?p ts steps] by (simp add: pypi_run_def)
qed

definition demo_pypi :: "pypi_state poller" where
  "demo_pypi = \<lparr>pl_state = \<lparr>py_warmed_up = False, py_last_serial = None, py_recent = \<lparr>rk_keys = []\<rparr>\<rparr>,
     pl_recent = rk_new 4, pl_backoff = fb_new demo_resilience, pl_disk = None\<rparr>"

theorem pypi_rss_bootstrap_disables_journal_witness:
  "py_last_serial (pl_state (pypi_run (\<lambda>_. None)
     [(0, demo_env, \<lparr>pr_last_serial = None, pr_feed = Some [], pr_journal = None\<rparr>),
      (1, demo_env, \<lparr>pr_last_serial = Some 7, pr_feed = Some [], pr_journal = Some []\<rparr>)] demo_pypi)) = None"
  by (rule pypi_rss_bootstrap_disables_journal) (simp_all add: demo_pypi_def demo_env_def)

text \<open>once the PyPI poller has a journal serial, no sequence of iterations, with whatever
  failures of the endpoints, moves it back, and a processed journal moves it past every entry.\<close>

theorem pypi_serial_never_moves_back:
  assumes "py_warmed_up (pl_state p)" "py_last_serial (pl_state p) = Some serial"
  shows "(\<exists>serial' \<ge> serial. py_last_serial (pl_state (pypi_run ts steps p)) = Some serial')
    \<and> list_all (\<lambda>je. je_serial je \<le> journal_max_serial serial entries) entries"
  using pypi_serial_run [OF assms(2,1)] journal_max_ge [of serial entries] by (auto simp: list_all_iff)

theorem pypi_serial_never_moves_back_witness:
  "(\<exists>serial' \<ge> 5. py_last_serial (pl_state (pypi_run (\<lambda>_. None)
       [(0, demo_env, \<lparr>pr_last_serial = None, pr_feed = None, pr_journal = None\<rparr>)]
       (demo_pypi\<lparr>pl_state := \<lparr>py_warmed_up = True, py_last_serial = Some 5, py_recent = \<lparr>rk_keys = []\<rparr>\<rparr>\<rparr>))) = Some serial')
   \<and> list_all (\<lambda>je. je_serial je
          \<le> journal_max_serial 5 [\<lparr>je_package = ''a'', je_version = ''1'', je_timestamp = 0, je_action = '''', je_serial = 3\<rparr>])
        [\<lparr>je_package = ''a'', je_version = ''1'', je_timestamp = 0, je_action = '''', je_serial = 3\<rparr>]"
  by (rule pypi_serial_never_moves_back) simp_all

text \<open>the crates.io summary yields one event per release key, in publication order, and the event
  of a key is the last one of the new crates followed by the updated ones, so an update wins.\<close>

theorem summary_to_events_correct:
  "distinct (map release_key (summary_to_events now s))
   \<and> sorted (map ev_published_at (summary_to_events now s))
   \<and> (\<forall>e. e \<in> set (summary_to_events now s) \<longleftrightarrow>
        find (\<lambda>x. release_key x = release_key e)
          (rev (map (\<lambda>i. item_to_event now i ''crates.summary.new_crates'' (Some New)) (cs_new_crates s)
              @ map (\<lambda>i. item_to_event now i ''crates.summary.just_updated'' (Some Updated)) (cs_just_updated s))) = Some e)"
proof -
  let ?es = "map (\<lambda>i. item_to_event now i ''crates.summary.new_crates'' (Some New)) (cs_new_crates s)
    @ map (\<lambda>i. item_to_event now i ''crates.summary.just_updated'' (Some Updated)) (cs_just_updated s)"
  let ?m = "fold insert_by_key ?es []"
  have sum: "summary_to_events now s = sort_key ev_published_at (map snd (sort_key fst ?m))"
    by (simp add: summary_to_events_def Let_def)
  have m: "distinct (keys ?m)" "\<forall>(k, e) \<in> set ?m. k = release_key e"
    using fold_insert_keys [of "[]" ?es] by simp_all
  have "map (release_key \<circ> snd) ?m = keys ?m"
    using m(2) by auto
  moreover have "mset (map release_key (summary_to_events now s)) = mset (map (release_key \<circ> snd) ?m)"
    by (simp add: sum multiset.map_comp)
  ultimately have "distinct (map release_key (summary_to_events now s))"
    using m(1) mset_eq_imp_distinct_iff by metis
  moreover have "e \<in> set (summary_to_events now s) \<longleftrightarrow> map_of ?m (release_key e) = Some e" for e
    using m by (force simp: sum in_set_map_of [symmetric])
  ultimately show ?thesis
    using map_of_fold_insert [of ?es "[]"] by (simp add: sum split: option.split)
qed

text \<open>the events of an index file's change are exactly the versions its new body has and its old
  body had not, each with a nonempty name and version.\<close>

theorem index_added_events_correct:
  "ev_version ` set (index_path_added_events parse now old_body new_body commit) =
     ix_version ` set (parse_index_versions parse new_body) - ix_version ` set (parse_index_versions parse old_body)
   \<and> list_all (\<lambda>e. ev_package e \<noteq> [] \<and> ev_version e \<noteq> [] \<and> ev_ecosystem e = CratesIo)
        (index_path_added_events parse now old_body new_body commit)"
  unfolding list_all_iff index_path_added_events_def
  by (force simp: index_event_def Let_def parse_index_versions_def)

end
