(* ===== verification/Store.thy ===== *)
theory Store
  imports Assessment Diff_Types Pollers
begin

text \<open>
  \<open>store.rs\<close>: the SQLite index.  A table is an association list from its primary key to the row,
  a statement a function on it, a transaction all or nothing.  Enumerations are stored as text and
  parsed back, \<open>REAL\<close> columns hold the \<open>f64\<close> bound to them (\<open>None\<close> is NULL), and a timestamp
  column holds the instant: \<open>to_rfc3339\<close> in UTC sorts as text in the order of the instants.
  Text compares bytewise, SQLite's default collation.
\<close>

section \<open>Enumerations as text\<close>

datatype event_origin = Observed | Reconstructed

fun origin_as_str :: "event_origin \<Rightarrow> string" where
  "origin_as_str Observed = ''observed''"
| "origin_as_str Reconstructed = ''reconstructed''"

datatype job_state = Pending | JobReady | Skipped | Failed

fun job_state_as_str :: "job_state \<Rightarrow> string" where
  "job_state_as_str Pending = ''pending''"
| "job_state_as_str JobReady = ''ready''"
| "job_state_as_str Skipped = ''skipped''"
| "job_state_as_str Failed = ''failed''"

definition parse_ecosystem :: "string \<Rightarrow> ecosystem option" where
  "parse_ecosystem v = (if v = ''npm'' then Some Npm else if v = ''pypi'' then Some Pypi
     else if v = ''crates-io'' then Some CratesIo else None)"

definition parse_priority_tier :: "string \<Rightarrow> priority_tier option" where
  "parse_priority_tier v = (if v = ''high'' then Some High else if v = ''medium'' then Some Medium
     else if v = ''low'' then Some Low else None)"

definition parse_priority_source :: "string \<Rightarrow> priority_source option" where
  "parse_priority_source v =
     (if v = ''offline_score_file'' then Some OfflineScoreFile
      else if v = ''package_census'' then Some PackageCensus
      else if v = ''known_package_stub'' then Some KnownPackageStub
      else if v = ''local_graph'' then Some LocalGraph
      else if v = ''deps_dev_dependents_api'' then Some DepsDevDependentsApi
      else if v = ''ecosyste_ms_counts_api'' then Some EcosysteMsCountsApi
      else if v = ''default_unknown'' then Some DefaultUnknown
      else None)"

definition default_capture_state :: "string \<Rightarrow> priority_snapshot \<Rightarrow> job_state" where
  "default_capture_state origin p =
     (if origin = origin_as_str Observed
      then if snapshot_capture_requested p then Pending else Skipped
      else Pending)"

definition default_diff_state :: "string \<Rightarrow> priority_snapshot \<Rightarrow> job_state" where
  "default_diff_state origin p =
     (if origin = origin_as_str Observed \<and> snapshot_diff_requested p then Pending else Skipped)"

definition capture_skip_reason :: "string \<Rightarrow> priority_snapshot \<Rightarrow> string option" where
  "capture_skip_reason origin p =
     (if origin = origin_as_str Observed \<and> \<not> snapshot_capture_requested p
      then Some ''priority policy skipped capture'' else None)"

definition diff_skip_reason :: "string \<Rightarrow> priority_snapshot \<Rightarrow> string option" where
  "diff_skip_reason origin p =
     (if origin = origin_as_str Observed \<and> \<not> snapshot_diff_requested p then Some ''priority policy skipped diff''
      else if origin \<noteq> origin_as_str Observed then Some ''reconstructed release skipped diff''
      else None)"

section \<open>Tables\<close>

record release_row =
  rr_event_id :: string
  rr_ecosystem :: string
  rr_package :: string
  rr_version :: string
  rr_published_at :: "datetime option"
  rr_observed_at :: datetime
  rr_source :: string
  rr_sequence :: "string option"
  rr_package_url :: "string option"
  rr_release_url :: "string option"
  rr_metadata_url :: "string option"
  rr_priority_tier :: "string option"
  rr_priority_source :: "string option"
  rr_direct_popularity :: "f64 option"
  rr_propagated_impact :: "f64 option"
  rr_hidden_leverage :: "f64 option"
  rr_priority_computed_at :: "datetime option"
  rr_priority_score_source_version :: "string option"
  rr_origin :: string
  rr_capture_state :: string
  rr_capture_status :: "string option"
  rr_capture_artifact_count :: "nat option"
  rr_capture_dir :: "string option"
  rr_capture_reason :: "string option"
  rr_capture_updated_at :: "datetime option"
  rr_diff_state :: string
  rr_diff_status :: "string option"
  rr_diff_baseline_version :: "string option"
  rr_diff_path :: "string option"
  rr_diff_reason :: "string option"
  rr_diff_updated_at :: "datetime option"

record graph_package_row =
  gp_direct_popularity :: f64
  gp_updated_at :: datetime

record repository_row =
  pr_repository_provider :: string
  pr_repository_url :: string
  pr_normalized_repository_url :: string
  pr_source :: string
  pr_last_version :: "string option"
  pr_updated_at :: datetime

record graph_edge_row =
  geo_weight :: f64
  geo_confidence :: "f64 option"
  geo_sources_json :: "string option"
  geo_updated_at :: datetime

record priority_score_record =
  sc_ecosystem :: ecosystem
  sc_package :: string
  sc_priority_tier :: priority_tier
  sc_priority_source :: "priority_source option"
  sc_direct_popularity :: "f64 option"
  sc_propagated_impact :: "f64 option"
  sc_hidden_leverage :: "f64 option"
  sc_computed_at :: "datetime option"
  sc_score_source_version :: "string option"

record priority_score_row =
  pw_priority_tier :: string
  pw_priority_source :: "string option"
  pw_direct_popularity :: "f64 option"
  pw_propagated_impact :: "f64 option"
  pw_hidden_leverage :: "f64 option"
  pw_computed_at :: "datetime option"
  pw_score_source_version :: "string option"
  pw_updated_at :: datetime

record store =
  st_release_index :: "(string \<times> release_row) list"
  st_graph_package_index :: "((string \<times> string) \<times> graph_package_row) list"
  st_package_repository_index :: "((string \<times> string) \<times> repository_row) list"
  st_graph_edge_index :: "((string \<times> string \<times> string) \<times> graph_edge_row) list"
  st_priority_score_index :: "((string \<times> string) \<times> priority_score_row) list"

definition store_empty :: store where
  "store_empty = \<lparr>st_release_index = [], st_graph_package_index = [], st_package_repository_index = [],
     st_graph_edge_index = [], st_priority_score_index = []\<rparr>"

section \<open>Statements\<close>

definition i64_max :: nat where
  "i64_max = 2 ^ 63 - 1"

text \<open>\<open>UPDATE ... WHERE key\<close>: no row, no change.\<close>

definition sql_update :: "'k \<Rightarrow> ('r \<Rightarrow> 'r) \<Rightarrow> ('k \<times> 'r) list \<Rightarrow> ('k \<times> 'r) list" where
  "sql_update k f t = map (\<lambda>(k', r). (k', if k' = k then f r else r)) t"

text \<open>\<open>INSERT ... ON CONFLICT(key) DO UPDATE\<close>: \<open>merge\<close> gets the stored and the excluded row.\<close>

definition sql_upsert :: "'k \<Rightarrow> 'r \<Rightarrow> ('r \<Rightarrow> 'r \<Rightarrow> 'r) \<Rightarrow> ('k \<times> 'r) list \<Rightarrow> ('k \<times> 'r) list" where
  "sql_upsert k new merge t = AList.update k (case map_of t k of None \<Rightarrow> new | Some old \<Rightarrow> merge old new) t"

fun coalesce :: "'a option \<Rightarrow> 'a option \<Rightarrow> 'a option" where
  "coalesce (Some x) y = Some x"
| "coalesce None y = y"

text \<open>SQL's two-argument \<open>MAX\<close> on numbers.\<close>

definition sql_max :: "f64 \<Rightarrow> f64 \<Rightarrow> f64" where
  "sql_max a b = (if f64_lt a b then b else a)"

definition path_join :: "string \<Rightarrow> string \<Rightarrow> string" where
  "path_join d f = (if d = [] then f else if last d = CHR ''/'' then d @ f else d @ ''/'' @ f)"

definition event_row :: "string \<Rightarrow> release_event \<Rightarrow> release_row" where
  "event_row origin e =
     (let p = event_priority_snapshot e in
      \<lparr>rr_event_id = ev_event_id e, rr_ecosystem = ecosystem_as_str (ev_ecosystem e),
       rr_package = ev_package e, rr_version = ev_version e, rr_published_at = ev_published_at e,
       rr_observed_at = ev_observed_at e, rr_source = ev_source e, rr_sequence = ev_sequence e,
       rr_package_url = ev_package_url e, rr_release_url = ev_release_url e,
       rr_metadata_url = ev_metadata_url e,
       rr_priority_tier = Some (tier_as_str (ps_tier p)), rr_priority_source = Some (source_as_str (ps_source p)),
       rr_direct_popularity = ps_direct_popularity p, rr_propagated_impact = ps_propagated_impact p,
       rr_hidden_leverage = ps_hidden_leverage p, rr_priority_computed_at = ps_computed_at p,
       rr_priority_score_source_version = ps_score_source_version p,
       rr_origin = origin,
       rr_capture_state = job_state_as_str (default_capture_state origin p),
       rr_capture_status = None, rr_capture_artifact_count = None, rr_capture_dir = None,
       rr_capture_reason = capture_skip_reason origin p, rr_capture_updated_at = None,
       rr_diff_state = job_state_as_str (default_diff_state origin p),
       rr_diff_status = None, rr_diff_baseline_version = None, rr_diff_path = None,
       rr_diff_reason = diff_skip_reason origin p, rr_diff_updated_at = None\<rparr>)"

definition sticky_state :: "string \<Rightarrow> bool" where
  "sticky_state s \<longleftrightarrow> s = ''ready'' \<or> s = ''skipped'' \<or> s = ''failed''"

definition merge_event_row :: "release_row \<Rightarrow> release_row \<Rightarrow> release_row" where
  "merge_event_row old ex = old
     \<lparr>rr_ecosystem := rr_ecosystem ex, rr_package := rr_package ex, rr_version := rr_version ex,
      rr_published_at := coalesce (rr_published_at ex) (rr_published_at old),
      rr_observed_at := rr_observed_at ex, rr_source := rr_source ex,
      rr_sequence := coalesce (rr_sequence ex) (rr_sequence old),
      rr_package_url := coalesce (rr_package_url ex) (rr_package_url old),
      rr_release_url := coalesce (rr_release_url ex) (rr_release_url old),
      rr_metadata_url := coalesce (rr_metadata_url ex) (rr_metadata_url old),
      rr_priority_tier := rr_priority_tier ex, rr_priority_source := rr_priority_source ex,
      rr_direct_popularity := rr_direct_popularity ex, rr_propagated_impact := rr_propagated_impact ex,
      rr_hidden_leverage := rr_hidden_leverage ex, rr_priority_computed_at := rr_priority_computed_at ex,
      rr_priority_score_source_version := rr_priority_score_source_version ex,
      rr_origin := (if rr_origin ex = ''observed'' then ''observed'' else rr_origin old),
      rr_capture_state := (if sticky_state (rr_capture_state old) then rr_capture_state old else rr_capture_state ex),
      rr_capture_reason := (if sticky_state (rr_capture_state old) then rr_capture_reason old else rr_capture_reason ex),
      rr_diff_state := (if sticky_state (rr_diff_state old) then rr_diff_state old else rr_diff_state ex),
      rr_diff_reason := (if sticky_state (rr_diff_state old) then rr_diff_reason old else rr_diff_reason ex)\<rparr>"

definition upsert_event_row :: "release_event \<Rightarrow> event_origin \<Rightarrow> store \<Rightarrow> store" where
  "upsert_event_row e origin s =
     s\<lparr>st_release_index := sql_upsert (ev_event_id e) (event_row (origin_as_str origin) e) merge_event_row (st_release_index s)\<rparr>"

definition capture_row_update :: "string \<Rightarrow> captured_release \<Rightarrow> release_row \<Rightarrow> release_row" where
  "capture_row_update dir cap r = r
     \<lparr>rr_capture_state := ''ready'', rr_capture_status := Some (status_as_str (ca_status cap)),
      rr_capture_artifact_count := Some (length (ca_artifacts cap)), rr_capture_dir := Some dir,
      rr_capture_reason := None, rr_capture_updated_at := Some (ca_captured_at cap)\<rparr>"

definition update_capture_row :: "string \<Rightarrow> string \<Rightarrow> captured_release \<Rightarrow> store \<Rightarrow> store option" where
  "update_capture_row event_id dir cap s =
     (if length (ca_artifacts cap) > i64_max then None
      else Some (s\<lparr>st_release_index := sql_update event_id (capture_row_update dir cap) (st_release_index s)\<rparr>))"

definition diff_row_update :: "string \<Rightarrow> stored_diff \<Rightarrow> release_row \<Rightarrow> release_row" where
  "diff_row_update dir d r = r
     \<lparr>rr_diff_state := ''ready'', rr_diff_status := Some (stored_diff_status_as_str (st_status d)),
      rr_diff_baseline_version := st_baseline_version d, rr_diff_path := Some (path_join dir ''diff.json''),
      rr_diff_reason := st_reason d, rr_diff_updated_at := Some (st_generated_at d)\<rparr>"

definition update_diff_row :: "string \<Rightarrow> string \<Rightarrow> stored_diff \<Rightarrow> store \<Rightarrow> store" where
  "update_diff_row event_id dir d s =
     s\<lparr>st_release_index := sql_update event_id (diff_row_update dir d) (st_release_index s)\<rparr>"

definition merge_repository_row :: "repository_row \<Rightarrow> repository_row \<Rightarrow> repository_row" where
  "merge_repository_row old ex = ex\<lparr>pr_last_version := coalesce (pr_last_version ex) (pr_last_version old)\<rparr>"

definition upsert_package_repository_identity ::
  "ecosystem \<Rightarrow> string \<Rightarrow> string option \<Rightarrow> repository_provenance \<Rightarrow> string \<Rightarrow> store \<Rightarrow> store" where
  "upsert_package_repository_identity eco pkg version r source s =
     s\<lparr>st_package_repository_index :=
        sql_upsert (ecosystem_as_str eco, normalize_package_name eco pkg)
          \<lparr>pr_repository_provider = provider_as_str (rp_provider r), pr_repository_url = rp_repository_url r,
           pr_normalized_repository_url = rp_normalized_repository_url r, pr_source = source,
           pr_last_version = version, pr_updated_at = rp_checked_at r\<rparr>
          merge_repository_row (st_package_repository_index s)\<rparr>"

text \<open>\<open>repo_provenance::PackageRepositoryIdentity\<close>, the identity before it is stored.\<close>

record repository_ref =
  rf_ecosystem :: ecosystem
  rf_package :: string
  rf_provider :: repository_provider
  rf_repository_url :: string
  rf_normalized_repository_url :: string
  rf_source :: string
  rf_confidence :: "f64 option"
  rf_checked_at :: datetime

definition upsert_package_repository_ref ::
  "ecosystem \<Rightarrow> string \<Rightarrow> string option \<Rightarrow> repository_ref \<Rightarrow> store \<Rightarrow> store" where
  "upsert_package_repository_ref eco pkg version r s =
     s\<lparr>st_package_repository_index :=
        sql_upsert (ecosystem_as_str eco, normalize_package_name eco pkg)
          \<lparr>pr_repository_provider = provider_as_str (rf_provider r), pr_repository_url = rf_repository_url r,
           pr_normalized_repository_url = rf_normalized_repository_url r, pr_source = rf_source r,
           pr_last_version = version, pr_updated_at = rf_checked_at r\<rparr>
          merge_repository_row (st_package_repository_index s)\<rparr>"

text \<open>The graph.  \<open>enc\<close> is serde's encoding of the list of sources.\<close>

definition merge_edge_row :: "graph_edge_row \<Rightarrow> graph_edge_row \<Rightarrow> graph_edge_row" where
  "merge_edge_row old ex =
     \<lparr>geo_weight = sql_max (geo_weight old) (geo_weight ex),
      geo_confidence = (case (geo_confidence old, geo_confidence ex) of
         (None, c) \<Rightarrow> c | (Some c, None) \<Rightarrow> Some c | (Some c, Some d) \<Rightarrow> Some (sql_max c d)),
      geo_sources_json = (if geo_sources_json old = None \<or> geo_sources_json old = Some ''[]''
         then geo_sources_json ex else geo_sources_json old),
      geo_updated_at = geo_updated_at ex\<rparr>"

definition touch_graph_node :: "datetime \<Rightarrow> string \<times> string \<Rightarrow> store \<Rightarrow> store" where
  "touch_graph_node now k s =
     s\<lparr>st_graph_package_index := sql_upsert k \<lparr>gp_direct_popularity = f64_zero, gp_updated_at = now\<rparr>
        (\<lambda>old ex. old\<lparr>gp_updated_at := gp_updated_at ex\<rparr>) (st_graph_package_index s)\<rparr>"

fun upsert_graph_record :: "(string list \<Rightarrow> string) \<Rightarrow> datetime \<Rightarrow> score_input \<Rightarrow> store \<Rightarrow> store" where
  "upsert_graph_record enc now (SI_Package eco pkg popularity) s =
     s\<lparr>st_graph_package_index := sql_upsert (ecosystem_as_str eco, pkg)
        \<lparr>gp_direct_popularity = f64_max popularity f64_zero, gp_updated_at = now\<rparr>
        (\<lambda>old ex. \<lparr>gp_direct_popularity = sql_max (gp_direct_popularity old) (gp_direct_popularity ex),
                   gp_updated_at = gp_updated_at ex\<rparr>) (st_graph_package_index s)\<rparr>"
| "upsert_graph_record enc now (SI_Dependency eco pkg dep weight sources confidence) s =
     (let s = touch_graph_node now (ecosystem_as_str eco, dep) (touch_graph_node now (ecosystem_as_str eco, pkg) s) in
      s\<lparr>st_graph_edge_index := sql_upsert (ecosystem_as_str eco, pkg, dep)
         \<lparr>geo_weight = f64_max weight f64_zero, geo_confidence = confidence,
          geo_sources_json = Some (enc sources), geo_updated_at = now\<rparr>
         merge_edge_row (st_graph_edge_index s)\<rparr>)"

definition upsert_priority_score_record :: "datetime \<Rightarrow> priority_score_record \<Rightarrow> store \<Rightarrow> store" where
  "upsert_priority_score_record now r s =
     s\<lparr>st_priority_score_index := sql_upsert (ecosystem_as_str (sc_ecosystem r), sc_package r)
        \<lparr>pw_priority_tier = tier_as_str (sc_priority_tier r),
         pw_priority_source = map_option source_as_str (sc_priority_source r),
         pw_direct_popularity = sc_direct_popularity r, pw_propagated_impact = sc_propagated_impact r,
         pw_hidden_leverage = sc_hidden_leverage r, pw_computed_at = sc_computed_at r,
         pw_score_source_version = sc_score_source_version r, pw_updated_at = now\<rparr>
        (\<lambda>old ex. ex) (st_priority_score_index s)\<rparr>"

section \<open>Write commands\<close>

datatype write_command =
    RecordEvent release_event event_origin
  | RecordCapture release_event event_origin string captured_release
  | RecordDiff release_event event_origin string stored_diff
  | RecordRepositoryIdentity ecosystem string "string option" repository_provenance string
  | RecordRepositoryRef repository_ref "string option"
  | RecordRepositoryRefs "repository_ref list"
  | MarkCaptureSkipped string string
  | MarkCaptureFailed string string
  | MarkDiffFailed string string
  | MarkDiffSkipped string string
  | RecordGraphRecords "score_input list"
  | RecordPriorityScoreRecords "priority_score_record list"

definition update_release_row :: "string \<Rightarrow> (release_row \<Rightarrow> release_row) \<Rightarrow> store \<Rightarrow> store" where
  "update_release_row event_id f s = s\<lparr>st_release_index := sql_update event_id f (st_release_index s)\<rparr>"

text \<open>The statements of one command on a healthy database; \<open>None\<close> is an error before the commit.\<close>

fun command_effect :: "(string list \<Rightarrow> string) \<Rightarrow> datetime \<Rightarrow> write_command \<Rightarrow> store \<Rightarrow> store option" where
  "command_effect enc now (RecordEvent e origin) s = Some (upsert_event_row e origin s)"
| "command_effect enc now (RecordCapture e origin dir cap) s =
     map_option (\<lambda>s. case ca_upstream_repository cap of
         Some r \<Rightarrow> upsert_package_repository_identity (ev_ecosystem e) (ev_package e) (Some (ev_version e)) r ''capture'' s
       | None \<Rightarrow> s)
       (update_capture_row (ev_event_id e) dir cap (upsert_event_row e origin s))"
| "command_effect enc now (RecordDiff e origin dir d) s =
     Some (update_diff_row (ev_event_id e) dir d (upsert_event_row e origin s))"
| "command_effect enc now (RecordRepositoryIdentity eco pkg version r source) s =
     Some (upsert_package_repository_identity eco pkg version r source s)"
| "command_effect enc now (RecordRepositoryRef r version) s =
     Some (upsert_package_repository_ref (rf_ecosystem r) (rf_package r) version r s)"
| "command_effect enc now (RecordRepositoryRefs rs) s =
     Some (fold (\<lambda>r. upsert_package_repository_ref (rf_ecosystem r) (rf_package r) None r) rs s)"
| "command_effect enc now (MarkCaptureFailed i reason) s =
     Some (update_release_row i (\<lambda>r. r\<lparr>rr_capture_state := ''failed'', rr_capture_reason := Some reason,
       rr_capture_updated_at := Some now\<rparr>) s)"
| "command_effect enc now (MarkCaptureSkipped i reason) s =
     Some (update_release_row i (\<lambda>r. r\<lparr>rr_capture_state := ''skipped'', rr_capture_status := None,
       rr_capture_artifact_count := None, rr_capture_dir := None, rr_capture_reason := Some reason,
       rr_capture_updated_at := Some now\<rparr>) s)"
| "command_effect enc now (MarkDiffFailed i reason) s =
     Some (update_release_row i (\<lambda>r. r\<lparr>rr_diff_state := ''failed'', rr_diff_reason := Some reason,
       rr_diff_updated_at := Some now\<rparr>) s)"
| "command_effect enc now (MarkDiffSkipped i reason) s =
     Some (update_release_row i (\<lambda>r. r\<lparr>rr_diff_state := ''skipped'', rr_diff_reason := Some reason,
       rr_diff_updated_at := Some now\<rparr>) s)"
| "command_effect enc now (RecordGraphRecords rs) s = Some (fold (upsert_graph_record enc now) rs s)"
| "command_effect enc now (RecordPriorityScoreRecords rs) s = Some (fold (upsert_priority_score_record now) rs s)"

text \<open>A command is atomic: when a statement or the commit fails (\<open>db_ok\<close> is false), nothing is
  written and the caller gets the error.  The result is the store and what the caller is told.\<close>

definition execute_write_command ::
  "(string list \<Rightarrow> string) \<Rightarrow> bool \<Rightarrow> datetime \<Rightarrow> write_command \<Rightarrow> store \<Rightarrow> store \<times> bool" where
  "execute_write_command enc db_ok now c s =
     (case (if db_ok then command_effect enc now c s else None) of
        Some s' \<Rightarrow> (s', True) | None \<Rightarrow> (s, False))"

definition execute_event_write_batch :: "bool \<Rightarrow> (release_event \<times> event_origin) list \<Rightarrow> store \<Rightarrow> store \<times> bool" where
  "execute_event_write_batch db_ok batch s =
     (if db_ok then (fold (\<lambda>(e, origin). upsert_event_row e origin) batch s, True) else (s, False))"

section \<open>The write worker\<close>

text \<open>What the receiver sees, in order: a command with the time at which it is executed, or the batch
  window running out; the end of the list is the last sender going away.\<close>

datatype received = Received datetime write_command | TimedOut

definition store_event_write_batch_max :: nat where
  "store_event_write_batch_max = 256"

fun recv :: "received list \<Rightarrow> ((datetime \<times> write_command) \<times> received list) option" where
  "recv [] = None"
| "recv (Received t c # msgs) = Some ((t, c), msgs)"
| "recv (TimedOut # msgs) = recv msgs"

fun next_write_command ::
  "(datetime \<times> write_command) option \<Rightarrow> received list \<Rightarrow> ((datetime \<times> write_command) \<times> received list) option" where
  "next_write_command (Some c) msgs = Some (c, msgs)"
| "next_write_command None msgs = recv msgs"

text \<open>The loop of \<open>collect_event_write_batch\<close> with room for \<open>n\<close> more events: the batch, the command
  kept pending, the rest of the channel, and whether the channel is closed.\<close>

fun collect_loop ::
  "nat \<Rightarrow> (release_event \<times> event_origin) list \<Rightarrow> received list
   \<Rightarrow> (release_event \<times> event_origin) list \<times> (datetime \<times> write_command) option \<times> received list \<times> bool" where
  "collect_loop 0 batch msgs = (batch, None, msgs, False)"
| "collect_loop (Suc n) batch [] = (batch, None, [], True)"
| "collect_loop (Suc n) batch (TimedOut # msgs) = (batch, None, msgs, False)"
| "collect_loop (Suc n) batch (Received t c # msgs) =
     (case c of RecordEvent e origin \<Rightarrow> collect_loop n (batch @ [(e, origin)]) msgs
      | _ \<Rightarrow> (batch, Some (t, c), msgs, False))"

definition collect_event_write_batch ::
  "release_event \<times> event_origin \<Rightarrow> received list
   \<Rightarrow> (release_event \<times> event_origin) list \<times> (datetime \<times> write_command) option \<times> received list \<times> bool" where
  "collect_event_write_batch first msgs = collect_loop (store_event_write_batch_max - 1) [first] msgs"

definition queued :: "(datetime \<times> write_command) option \<Rightarrow> received list \<Rightarrow> (datetime \<times> write_command) list" where
  "queued pending msgs = (case pending of Some c \<Rightarrow> [c] | None \<Rightarrow> [])
     @ concat (map (\<lambda>m. case m of Received t c \<Rightarrow> [(t, c)] | TimedOut \<Rightarrow> []) msgs)"

lemma recv_queued:
  "recv msgs = Some (c, rest) \<Longrightarrow> queued None msgs = c # queued None rest \<and> length rest < length msgs"
  by (induction msgs rule: recv.induct) (auto simp: queued_def)

lemma recv_None: "recv msgs = None \<Longrightarrow> queued None msgs = []"
  by (induction msgs rule: recv.induct) (auto simp: queued_def)

lemma next_queued:
  "next_write_command pending msgs = Some (c, rest) \<Longrightarrow> queued pending msgs = c # queued None rest
     \<and> length rest < (if pending = None then 0 else 1) + length msgs"
proof (cases pending)
  case None
  then show "next_write_command pending msgs = Some (c, rest) \<Longrightarrow> ?thesis"
    using recv_queued by simp
qed (simp add: queued_def)

lemma next_None: "next_write_command pending msgs = None \<Longrightarrow> queued pending msgs = []"
  by (cases pending) (simp_all add: recv_None)

lemma collect_loop_props:
  assumes "collect_loop n batch msgs = (batch', pending, rest, closed)"
  shows "\<exists>xs new. batch' = batch @ new \<and> queued None msgs = xs @ queued pending rest
      \<and> map snd xs = map (\<lambda>(e, origin). RecordEvent e origin) new \<and> length new \<le> n
      \<and> (closed \<longrightarrow> queued pending rest = [])
      \<and> (if pending = None then 0 else 1) + length rest \<le> length msgs"
  using assms
proof (induction n batch msgs rule: collect_loop.induct)
  case (4 n batch t c msgs)
  show ?case
  proof (cases "\<exists>e origin. c = RecordEvent e origin")
    case True
    then obtain e origin where c: "c = RecordEvent e origin"
      by blast
    obtain xs new where "batch' = (batch @ [(e, origin)]) @ new" "queued None msgs = xs @ queued pending rest"
      "map snd xs = map (\<lambda>(e, origin). RecordEvent e origin) new" "length new \<le> n"
      "closed \<longrightarrow> queued pending rest = []" "(if pending = None then 0 else 1) + length rest \<le> length msgs"
      using 4 c by fastforce
    then show ?thesis
      by (intro exI [of _ "(t, c) # xs"] exI [of _ "(e, origin) # new"]) (auto simp: c queued_def)
  next
    case False
    then have "batch' = batch \<and> pending = Some (t, c) \<and> rest = msgs \<and> \<not> closed"
      using 4(2) by (cases c) auto
    then show ?thesis
      by (intro exI [of _ "[]"]) (simp add: queued_def)
  qed
qed (auto simp: queued_def)

lemma collect_smaller:
  "next_write_command pending msgs = Some ((t, c), msgs') \<Longrightarrow>
   collect_event_write_batch first msgs' = (batch, pending', rest, closed) \<Longrightarrow>
   (if pending' = None then 0 else 1) + length rest < (if pending = None then 0 else 1) + length msgs"
  using next_queued [of pending msgs "(t, c)" msgs']
    collect_loop_props [of "store_event_write_batch_max - 1" "[first]" msgs' batch pending' rest closed]
  unfolding collect_event_write_batch_def by fastforce

function run_store_write_worker ::
  "(string list \<Rightarrow> string) \<Rightarrow> (nat \<Rightarrow> bool) \<Rightarrow> nat \<Rightarrow> (datetime \<times> write_command) option \<Rightarrow> received list
   \<Rightarrow> store \<Rightarrow> store \<times> bool list" where
  "run_store_write_worker enc db_ok n pending msgs s =
     (case next_write_command pending msgs of
        None \<Rightarrow> (s, [])
      | Some ((t, c), msgs) \<Rightarrow>
          (case c of
             RecordEvent e origin \<Rightarrow>
               (case collect_event_write_batch (e, origin) msgs of (batch, pending, rest, disconnected) \<Rightarrow>
                  (case execute_event_write_batch (db_ok n) batch s of (s, r) \<Rightarrow>
                     (case (if disconnected then (s, []) else run_store_write_worker enc db_ok (Suc n) pending rest s) of
                        (s, rs) \<Rightarrow> (s, replicate (length batch) r @ rs))))
           | _ \<Rightarrow>
               (case execute_write_command enc (db_ok n) t c s of (s, r) \<Rightarrow>
                  (case run_store_write_worker enc db_ok (Suc n) None msgs s of (s, rs) \<Rightarrow> (s, r # rs)))))"
  by pat_completeness auto

termination
proof (relation "measure (\<lambda>(enc, ok, n, pending, msgs, s). (if pending = None then 0 else 1) + length msgs)", goal_cases)
  case (2 enc db_ok n pending msgs s x y xa ya xb yb z b pend c rest d xe yd)
  then have "next_write_command pending msgs = Some ((ya, xb), xa)"
    "collect_event_write_batch (yb, z) xa = (b, c, d, xe)"
    by (simp_all add: eq_commute)
  from collect_smaller [OF this] show ?case
    by simp
qed (auto dest: next_queued simp del: next_write_command.simps)

declare run_store_write_worker.simps [simp del]

text \<open>The specification of the worker: the acknowledged commands one after the other, the others never.\<close>

fun acked_run ::
  "(string list \<Rightarrow> string) \<Rightarrow> (datetime \<times> write_command) list \<Rightarrow> bool list \<Rightarrow> store \<Rightarrow> store option" where
  "acked_run enc [] [] s = Some s"
| "acked_run enc ((t, c) # cs) (a # as) s =
     (if a then Option.bind (command_effect enc t c s) (acked_run enc cs as) else acked_run enc cs as s)"
| "acked_run enc _ _ s = None"

lemma acked_run_append:
  "length as = length cs \<Longrightarrow>
   acked_run enc (cs @ ds) (as @ bs) s = Option.bind (acked_run enc cs as s) (acked_run enc ds bs)"
proof (induction as cs arbitrary: s rule: list_induct2)
  case (Cons a as c cs)
  obtain t w where c: "c = (t, w)"
    by fastforce
  show ?case
    by (cases "command_effect enc t w s") (simp_all add: c Cons.IH)
qed simp

lemma acked_run_batch:
  "map snd xs = map (\<lambda>(e, origin). RecordEvent e origin) batch \<Longrightarrow>
   acked_run enc xs (replicate (length batch) r) s = Some (fst (execute_event_write_batch r batch s))"
proof (induction batch arbitrary: xs s)
  case (Cons b batch)
  obtain e origin where b: "b = (e, origin)"
    by fastforce
  obtain t ys where xs: "xs = (t, RecordEvent e origin) # ys" "map snd ys = map (\<lambda>(e, origin). RecordEvent e origin) batch"
    using Cons.prems by (cases xs) (auto simp: b)
  show ?case
    using Cons.IH [OF xs(2)] by (cases r) (simp_all add: xs(1) b execute_event_write_batch_def)
qed (simp add: execute_event_write_batch_def)

lemma worker_acks:
  "length (snd (run_store_write_worker enc db_ok n pending msgs s)) = length (queued pending msgs)
   \<and> acked_run enc (queued pending msgs) (snd (run_store_write_worker enc db_ok n pending msgs s)) s
     = Some (fst (run_store_write_worker enc db_ok n pending msgs s))"
proof (induction enc db_ok n pending msgs s rule: run_store_write_worker.induct)
  case (1 enc db_ok n pending msgs s)
  show ?case
  proof (cases "next_write_command pending msgs")
    case None
    then show ?thesis
      by (simp add: run_store_write_worker.simps [of _ _ _ pending] next_None)
  next
    case (Some p)
    obtain t c rest where p: "p = ((t, c), rest)"
      by (metis prod.collapse)
    note nx = Some [unfolded p]
    have q: "queued pending msgs = (t, c) # queued None rest"
      using next_queued [OF nx] by simp
    show ?thesis
    proof (cases "\<exists>e origin. c = RecordEvent e origin")
      case True
      then obtain e origin where c: "c = RecordEvent e origin"
        by blast
      obtain batch pend rest' closed where b: "collect_event_write_batch (e, origin) rest = (batch, pend, rest', closed)"
        by (metis prod_cases4)
      obtain xs new where x: "batch = [(e, origin)] @ new" "queued None rest = xs @ queued pend rest'"
        "map snd xs = map (\<lambda>(e, origin). RecordEvent e origin) new" "closed \<longrightarrow> queued pend rest' = []"
        using collect_loop_props [OF b [unfolded collect_event_write_batch_def]] by blast
      have m: "map snd ((t, c) # xs) = map (\<lambda>(e, origin). RecordEvent e origin) batch"
        by (simp add: x c)
      obtain s1 r where e: "execute_event_write_batch (db_ok n) batch s = (s1, r)"
        by fastforce
      have r: "r = db_ok n"
        using e by (auto simp: execute_event_write_batch_def split: if_splits)
      define tail where "tail = (if closed then (s1, []) else run_store_write_worker enc db_ok (Suc n) pend rest' s1)"
      have run: "run_store_write_worker enc db_ok n pending msgs s = (fst tail, replicate (length batch) r @ snd tail)"
        by (simp add: run_store_write_worker.simps [of _ _ _ pending] nx c b e tail_def split: prod.split)
      have t: "length (snd tail) = length (queued pend rest') \<and> acked_run enc (queued pend rest') (snd tail) s1 = Some (fst tail)"
        using 1(1) [OF nx refl refl c b [symmetric] refl refl e [symmetric]] x(4)
        by (cases closed) (simp_all add: tail_def)
      have "length ((t, c) # xs) = length batch"
        using m by (metis length_map)
      then show ?thesis
        using acked_run_append [of "replicate (length batch) r" "(t, c) # xs" enc "queued pend rest'" "snd tail" s]
          acked_run_batch [OF m, of enc r s] t e
        by (simp add: q x(2) run r)
    next
      case False
      obtain s1 r where e: "execute_write_command enc (db_ok n) t c s = (s1, r)"
        by fastforce
      have run: "run_store_write_worker enc db_ok n pending msgs s =
          (case run_store_write_worker enc db_ok (Suc n) None rest s1 of (s, rs) \<Rightarrow> (s, r # rs))"
        using False e by (cases c) (simp_all add: run_store_write_worker.simps [of _ _ _ pending] nx)
      have t: "length (snd (run_store_write_worker enc db_ok (Suc n) None rest s1)) = length (queued None rest)
          \<and> acked_run enc (queued None rest) (snd (run_store_write_worker enc db_ok (Suc n) None rest s1)) s1
            = Some (fst (run_store_write_worker enc db_ok (Suc n) None rest s1))"
        using 1(2-) nx False e by (cases c) (auto simp: eq_commute)
      have "(if r then Option.bind (command_effect enc t c s) k else k s) = k s1" for k :: "store \<Rightarrow> store option"
        using e by (auto simp: execute_write_command_def split: option.splits if_splits)
      then show ?thesis
        using t by (cases "run_store_write_worker enc db_ok (Suc n) None rest s1") (simp add: q run)
    qed
  qed
qed

text \<open>C1: the write worker writes exactly what it acknowledges.  Whatever arrives on the channel, in
  whatever batches the event window cuts it, and whichever transactions fail, every queued command gets
  one answer, in order, and the final database is the acknowledged commands executed one after the other
  from the initial one: batching events changes nothing, and a command answered with an error left no
  trace.\<close>

theorem store_worker_acks_exactly:
  "length (snd (run_store_write_worker enc db_ok n None msgs s)) = length (queued None msgs)
   \<and> acked_run enc (queued None msgs) (snd (run_store_write_worker enc db_ok n None msgs s)) s
     = Some (fst (run_store_write_worker enc db_ok n None msgs s))"
  by (rule worker_acks)

end
