(* ===== verification/Store_Queries.thy ===== *)
theory Store_Queries
  imports Store
begin

text \<open>
  The reads of \<open>store.rs\<close>: a query filters, orders and cuts the rows of a table and decodes them; a row
  that does not decode is an error, \<open>None\<close> here.  The invariant \<open>store_wf\<close> is what the write commands
  keep: every row decodes, and its job states are the four the program names.
\<close>

section \<open>Decoding\<close>

definition opt_parse :: "('a \<Rightarrow> 'b option) \<Rightarrow> 'a option \<Rightarrow> 'b option option" where
  "opt_parse f v = (case v of None \<Rightarrow> Some None | Some x \<Rightarrow> map_option Some (f x))"

definition event_from_row :: "release_row \<Rightarrow> release_event option" where
  "event_from_row r =
     (case (parse_ecosystem (rr_ecosystem r), opt_parse parse_priority_tier (rr_priority_tier r),
            opt_parse parse_priority_source (rr_priority_source r)) of
        (Some eco, Some tier, Some source) \<Rightarrow> Some
          \<lparr>ev_event_id = rr_event_id r, ev_ecosystem = eco, ev_package = rr_package r, ev_version = rr_version r,
           ev_published_at = rr_published_at r, ev_observed_at = rr_observed_at r, ev_source = rr_source r,
           ev_sequence = rr_sequence r, ev_package_url = rr_package_url r, ev_release_url = rr_release_url r,
           ev_metadata_url = rr_metadata_url r,
           ev_priority = Some \<lparr>ps_tier = (case tier of Some t \<Rightarrow> t | None \<Rightarrow> Medium),
             ps_source = (case source of Some s \<Rightarrow> s | None \<Rightarrow> DefaultUnknown),
             ps_direct_popularity = rr_direct_popularity r, ps_propagated_impact = rr_propagated_impact r,
             ps_hidden_leverage = rr_hidden_leverage r, ps_computed_at = rr_priority_computed_at r,
             ps_score_source_version = rr_priority_score_source_version r\<rparr>\<rparr>
      | _ \<Rightarrow> None)"

record release_record_status =
  rs_event :: release_event
  rs_origin :: string
  rs_capture_state :: string
  rs_capture_status :: "string option"
  rs_capture_dir :: "string option"
  rs_capture_reason :: "string option"
  rs_diff_state :: string
  rs_diff_status :: "string option"
  rs_diff_path :: "string option"
  rs_diff_reason :: "string option"

definition release_record_from_row :: "release_row \<Rightarrow> release_record_status option" where
  "release_record_from_row r = map_option (\<lambda>e.
     \<lparr>rs_event = e, rs_origin = rr_origin r, rs_capture_state = rr_capture_state r,
      rs_capture_status = rr_capture_status r, rs_capture_dir = rr_capture_dir r,
      rs_capture_reason = rr_capture_reason r, rs_diff_state = rr_diff_state r,
      rs_diff_status = rr_diff_status r, rs_diff_path = rr_diff_path r, rs_diff_reason = rr_diff_reason r\<rparr>)
     (event_from_row r)"

definition priority_score_record_from_row :: "(string \<times> string) \<times> priority_score_row \<Rightarrow> priority_score_record option" where
  "priority_score_record_from_row p = (case p of ((eco, pkg), r) \<Rightarrow>
     (case (parse_ecosystem eco, parse_priority_tier (pw_priority_tier r),
            opt_parse parse_priority_source (pw_priority_source r)) of
        (Some eco, Some tier, Some source) \<Rightarrow> Some
          \<lparr>sc_ecosystem = eco, sc_package = pkg, sc_priority_tier = tier, sc_priority_source = source,
           sc_direct_popularity = pw_direct_popularity r, sc_propagated_impact = pw_propagated_impact r,
           sc_hidden_leverage = pw_hidden_leverage r, sc_computed_at = pw_computed_at r,
           sc_score_source_version = pw_score_source_version r\<rparr>
      | _ \<Rightarrow> None))"

section \<open>Queries on the releases\<close>

definition release_rows :: "store \<Rightarrow> release_row list" where
  "release_rows s = map snd (st_release_index s)"

definition sql_limit :: "nat option \<Rightarrow> 'a list \<Rightarrow> 'a list option" where
  "sql_limit n xs = (case n of None \<Rightarrow> Some xs | Some n \<Rightarrow> if n \<le> i64_max then Some (take n xs) else None)"

definition newest_first :: "release_row list \<Rightarrow> release_row list" where
  "newest_first rows = rev (sort_key (\<lambda>r. (rr_observed_at r, rr_event_id r)) rows)"

definition release_time :: "release_row \<Rightarrow> datetime" where
  "release_time r = (case rr_published_at r of Some t \<Rightarrow> t | None \<Rightarrow> rr_observed_at r)"

definition event_count :: "store \<Rightarrow> nat" where
  "event_count s = length (st_release_index s)"

definition load_package_events :: "ecosystem \<Rightarrow> string \<Rightarrow> store \<Rightarrow> release_event list option" where
  "load_package_events eco pkg s = those (map event_from_row
     (sort_key (\<lambda>r. (release_time r, rr_observed_at r, rr_event_id r))
       (filter (\<lambda>r. rr_ecosystem r = ecosystem_as_str eco \<and> rr_package r = pkg) (release_rows s))))"

definition load_package_release_times_since ::
  "ecosystem \<Rightarrow> string \<Rightarrow> datetime \<Rightarrow> store \<Rightarrow> (string \<times> datetime) list" where
  "load_package_release_times_since eco pkg since s =
     (let pkg = normalize_package_name eco pkg in
      map (\<lambda>r. (rr_version r, release_time r))
        (filter (\<lambda>r. rr_ecosystem r = ecosystem_as_str eco \<and> rr_package r = pkg \<and> since \<le> release_time r)
          (release_rows s)))"

definition load_event :: "string \<Rightarrow> store \<Rightarrow> release_event option option" where
  "load_event i s = (case map_of (st_release_index s) i of
     None \<Rightarrow> Some None | Some r \<Rightarrow> map_option Some (event_from_row r))"

definition load_release_record :: "string \<Rightarrow> store \<Rightarrow> release_record_status option option" where
  "load_release_record i s = (case map_of (st_release_index s) i of
     None \<Rightarrow> Some None | Some r \<Rightarrow> map_option Some (release_record_from_row r))"

definition in_ecosystem :: "ecosystem option \<Rightarrow> release_row \<Rightarrow> bool" where
  "in_ecosystem eco r = (case eco of None \<Rightarrow> True | Some e \<Rightarrow> rr_ecosystem r = ecosystem_as_str e)"

definition load_recent_events :: "ecosystem option \<Rightarrow> nat \<Rightarrow> store \<Rightarrow> release_event list option" where
  "load_recent_events eco limit s =
     Option.bind (sql_limit (Some limit) (newest_first (filter (in_ecosystem eco) (release_rows s))))
       (\<lambda>rows. those (map event_from_row rows))"

definition load_release_records_since ::
  "ecosystem option \<Rightarrow> datetime \<Rightarrow> nat option \<Rightarrow> store \<Rightarrow> release_record_status list option" where
  "load_release_records_since eco since limit s =
     Option.bind (sql_limit limit (newest_first
         (filter (\<lambda>r. in_ecosystem eco r \<and> since \<le> rr_observed_at r) (release_rows s))))
       (\<lambda>rows. those (map release_record_from_row rows))"

definition load_failed_capture_records :: "nat option \<Rightarrow> store \<Rightarrow> release_record_status list option" where
  "load_failed_capture_records limit s =
     Option.bind (sql_limit limit (rev (sort_key
         (\<lambda>r. (case rr_capture_updated_at r of Some t \<Rightarrow> t | None \<Rightarrow> rr_observed_at r, rr_event_id r))
         (filter (\<lambda>r. rr_capture_state r = ''failed'') (release_rows s)))))
       (\<lambda>rows. those (map release_record_from_row rows))"

definition load_skipped_capture_records ::
  "ecosystem option \<Rightarrow> string option \<Rightarrow> datetime option \<Rightarrow> nat option \<Rightarrow> store \<Rightarrow> release_record_status list option" where
  "load_skipped_capture_records eco pkg since limit s =
     (let pkg = (case (pkg, eco) of (Some p, Some e) \<Rightarrow> Some (normalize_package_name e p) | _ \<Rightarrow> pkg) in
      Option.bind (sql_limit limit (newest_first (filter (\<lambda>r.
          rr_origin r = ''observed'' \<and> rr_capture_state r = ''skipped''
          \<and> rr_capture_reason r = Some ''priority policy skipped capture''
          \<and> in_ecosystem eco r
          \<and> (case pkg of None \<Rightarrow> True | Some p \<Rightarrow> rr_package r = p)
          \<and> (case since of None \<Rightarrow> True | Some t \<Rightarrow> t \<le> rr_observed_at r)) (release_rows s))))
        (\<lambda>rows. those (map release_record_from_row rows)))"

record hot_stub_package =
  hs_ecosystem :: ecosystem
  hs_package :: string
  hs_observations :: nat

definition hot_stub_groups :: "datetime \<Rightarrow> ecosystem \<Rightarrow> store \<Rightarrow> (string \<times> nat \<times> datetime) list" where
  "hot_stub_groups since eco s =
     (let rows = filter (\<lambda>r. rr_origin r = ''observed'' \<and> rr_priority_source r = Some ''known_package_stub''
            \<and> since \<le> rr_observed_at r \<and> rr_ecosystem r = ecosystem_as_str eco) (release_rows s)
      in sort_key (\<lambda>(pkg, n, latest). (- int n, - latest, pkg))
           (map (\<lambda>pkg. let g = filter (\<lambda>r. rr_package r = pkg) rows
                       in (pkg, length g, Max (set (map rr_observed_at g))))
              (btree_set (map rr_package rows))))"

definition load_hot_stub_packages :: "ecosystem list \<Rightarrow> datetime \<Rightarrow> nat \<Rightarrow> store \<Rightarrow> hot_stub_package list option" where
  "load_hot_stub_packages ecosystems since limit s =
     (if limit > i64_max then None
      else Some (take limit (sort_key (\<lambda>h. (- int (hs_observations h), ecosystem_as_str (hs_ecosystem h), hs_package h))
        (concat (map (\<lambda>eco. map (\<lambda>(pkg, n, _). \<lparr>hs_ecosystem = eco,
             hs_package = normalize_package_name eco pkg, hs_observations = n\<rparr>)
           (take limit (hot_stub_groups since eco s))) ecosystems)))))"

section \<open>Counts\<close>

record job_state_counts =
  jc_pending :: nat
  jc_ready :: nat
  jc_skipped :: nat
  jc_failed :: nat

record store_counts =
  sn_total_events :: nat
  sn_observed_events :: nat
  sn_reconstructed_events :: nat
  sn_captures_ready :: nat
  sn_diffs_ready :: nat
  sn_capture_states :: job_state_counts
  sn_diff_states :: job_state_counts
  sn_priorities :: priority_counts

definition count_where :: "('a \<Rightarrow> bool) \<Rightarrow> 'a list \<Rightarrow> nat" where
  "count_where P xs = length (filter P xs)"

definition job_states :: "(release_row \<Rightarrow> string) \<Rightarrow> release_row list \<Rightarrow> job_state_counts" where
  "job_states f rows =
     \<lparr>jc_pending = count_where (\<lambda>r. f r = ''pending'') rows, jc_ready = count_where (\<lambda>r. f r = ''ready'') rows,
      jc_skipped = count_where (\<lambda>r. f r = ''skipped'') rows, jc_failed = count_where (\<lambda>r. f r = ''failed'') rows\<rparr>"

definition known_source :: "release_row \<Rightarrow> bool" where
  "known_source r \<longleftrightarrow> rr_priority_source r \<noteq> None \<and> rr_priority_source r \<noteq> Some ''default_unknown''"

definition row_counts :: "release_row list \<Rightarrow> store_counts" where
  "row_counts rows =
     \<lparr>sn_total_events = length rows,
      sn_observed_events = count_where (\<lambda>r. rr_origin r = ''observed'') rows,
      sn_reconstructed_events = count_where (\<lambda>r. rr_origin r = ''reconstructed'') rows,
      sn_captures_ready = count_where (\<lambda>r. rr_capture_state r = ''ready'') rows,
      sn_diffs_ready = count_where (\<lambda>r. rr_diff_state r = ''ready'') rows,
      sn_capture_states = job_states rr_capture_state rows,
      sn_diff_states = job_states rr_diff_state rows,
      sn_priorities = \<lparr>
        pc_high = count_where (\<lambda>r. known_source r \<and> rr_priority_tier r = Some ''high'') rows,
        pc_medium = count_where (\<lambda>r. known_source r \<and> rr_priority_tier r = Some ''medium'') rows,
        pc_low = count_where (\<lambda>r. known_source r \<and> rr_priority_tier r = Some ''low'') rows,
        pc_unknown = count_where (\<lambda>r. \<not> known_source r) rows\<rparr>\<rparr>"

definition store_stats :: "store \<Rightarrow> (store_counts \<times> (ecosystem \<times> store_counts) list) option" where
  "store_stats s =
     (let rows = release_rows s in
      map_option (\<lambda>groups. (row_counts rows, groups))
        (those (map (\<lambda>eco. map_option (\<lambda>e. (e, row_counts (filter (\<lambda>r. rr_ecosystem r = eco) rows))) (parse_ecosystem eco))
          (btree_set (map rr_ecosystem rows)))))"

section \<open>Queries on the graph\<close>

definition load_package_repository_identity :: "ecosystem \<Rightarrow> string \<Rightarrow> (datetime \<Rightarrow> string) \<Rightarrow> store
    \<Rightarrow> package_repository_identity option" where
  "load_package_repository_identity eco pkg show_time s =
     map_option (\<lambda>r. \<lparr>pri_provider = pr_repository_provider r, pri_repository_url = pr_repository_url r,
       pri_normalized_repository_url = pr_normalized_repository_url r, pri_source = pr_source r,
       pri_last_version = pr_last_version r, pri_updated_at = show_time (pr_updated_at r)\<rparr>)
       (map_of (st_package_repository_index s) (ecosystem_as_str eco, pkg))"

definition edges_from :: "ecosystem \<Rightarrow> string \<Rightarrow> store \<Rightarrow> ((string \<times> string \<times> string) \<times> graph_edge_row) list" where
  "edges_from eco pkg s = filter (\<lambda>((e, p, d), _). e = ecosystem_as_str eco \<and> p = pkg) (st_graph_edge_index s)"

definition edges_to :: "ecosystem \<Rightarrow> string \<Rightarrow> store \<Rightarrow> ((string \<times> string \<times> string) \<times> graph_edge_row) list" where
  "edges_to eco pkg s = filter (\<lambda>((e, p, d), _). e = ecosystem_as_str eco \<and> d = pkg) (st_graph_edge_index s)"

definition load_graph_evidence_blocking :: "(datetime \<Rightarrow> string) \<Rightarrow> ecosystem \<Rightarrow> string \<Rightarrow> store \<Rightarrow> graph_evidence option" where
  "load_graph_evidence_blocking show_time eco pkg s =
     (let popularity = map_option gp_direct_popularity (map_of (st_graph_package_index s) (ecosystem_as_str eco, pkg));
          direct = length (edges_from eco pkg s); reverse = length (edges_to eco pkg s)
      in if popularity = None \<and> direct = 0 \<and> reverse = 0 then None
         else Some \<lparr>ge_ecosystem = eco, ge_package = pkg, ge_known = True,
           ge_direct_popularity = (case popularity of Some v \<Rightarrow> v | None \<Rightarrow> f64_zero),
           ge_direct_dependencies_seen = direct, ge_reverse_dependents_seen = reverse,
           ge_repository = load_package_repository_identity eco pkg show_time s\<rparr>)"

definition load_graph_evidence :: "(datetime \<Rightarrow> string) \<Rightarrow> ecosystem \<Rightarrow> string \<Rightarrow> store \<Rightarrow> graph_evidence option" where
  "load_graph_evidence show_time eco pkg s =
     load_graph_evidence_blocking show_time eco (normalize_package_name eco pkg) s"

record graph_neighborhood =
  gn_evidence :: graph_evidence
  gn_direct_dependencies :: "string list"
  gn_reverse_dependents :: "string list"

definition load_graph_neighborhood ::
  "(datetime \<Rightarrow> string) \<Rightarrow> ecosystem \<Rightarrow> string \<Rightarrow> nat \<Rightarrow> store \<Rightarrow> graph_neighborhood option option" where
  "load_graph_neighborhood show_time eco pkg limit s =
     (let pkg = normalize_package_name eco pkg in
      case load_graph_evidence_blocking show_time eco pkg s of
        None \<Rightarrow> Some None
      | Some evidence \<Rightarrow>
          if limit > i64_max then None
          else Some (Some \<lparr>gn_evidence = evidence,
            gn_direct_dependencies = take limit (sort (map (\<lambda>((_, _, d), _). d) (edges_from eco pkg s))),
            gn_reverse_dependents = take limit (sort (map (\<lambda>((_, p, _), _). p) (edges_to eco pkg s)))\<rparr>))"

definition load_known_graph_packages :: "ecosystem list \<Rightarrow> store \<Rightarrow> (ecosystem \<times> string) list option" where
  "load_known_graph_packages ecosystems s =
     (let rows = keys (st_graph_package_index s);
          rows = (if ecosystems = [] then rows else filter (\<lambda>(e, _). e \<in> set (map ecosystem_as_str ecosystems)) rows)
      in map_option btree_set
           (those (map (\<lambda>(e, pkg). map_option (\<lambda>eco. (eco, pkg)) (parse_ecosystem e)) rows)))"

definition graph_stats :: "store \<Rightarrow> (nat \<times> nat \<times> (ecosystem \<times> nat \<times> nat) list) option" where
  "graph_stats s =
     (let ps = map (\<lambda>((e, _), _). e) (st_graph_package_index s);
          ds = map (\<lambda>((e, _, _), _). e) (st_graph_edge_index s)
      in map_option (\<lambda>groups. (length ps, length ds, groups))
           (those (map (\<lambda>e. map_option (\<lambda>eco. (eco, count_where (\<lambda>x. x = e) ps, count_where (\<lambda>x. x = e) ds))
              (parse_ecosystem e)) (btree_set (ps @ ds)))))"

definition load_priority_score_records :: "store \<Rightarrow> priority_score_record list option" where
  "load_priority_score_records s = those (map priority_score_record_from_row (sort_key fst (st_priority_score_index s)))"

definition priority_score_stats :: "store \<Rightarrow> (nat \<times> (ecosystem \<times> nat \<times> priority_counts) list) option" where
  "priority_score_stats s =
     (let rows = st_priority_score_index s in
      map_option (\<lambda>groups. (length rows, groups))
        (those (map (\<lambda>e. map_option (\<lambda>eco.
              let g = filter (\<lambda>((e', _), _). e' = e) rows in
              (eco, length g, \<lparr>pc_high = count_where (\<lambda>(_, r). pw_priority_tier r = ''high'') g,
                 pc_medium = count_where (\<lambda>(_, r). pw_priority_tier r = ''medium'') g,
                 pc_low = count_where (\<lambda>(_, r). pw_priority_tier r = ''low'') g, pc_unknown = 0\<rparr>))
            (parse_ecosystem e)) (btree_set (map (\<lambda>((e, _), _). e) rows)))))"

section \<open>The neighbourhood of some roots\<close>

text \<open>\<open>slice::chunks\<close> for a positive size; the queries go in chunks of at most 900 parameters.\<close>

function chunks :: "nat \<Rightarrow> 'a list \<Rightarrow> 'a list list" where
  "chunks n xs = (if n = 0 \<or> xs = [] then [] else take n xs # chunks n (drop n xs))"
  by pat_completeness auto

termination
  by (relation "measure (\<lambda>(n, xs). length xs)") auto

declare chunks.simps [simp del]

definition sqlite_in_batch :: nat where
  "sqlite_in_batch = 900"

text \<open>\<open>?2, ?3, ...\<close>: the placeholders of one \<open>IN\<close> list.\<close>

definition sqlite_placeholders :: "nat \<Rightarrow> nat \<Rightarrow> string" where
  "sqlite_placeholders start_index n =
     join_strings '', '' (map (\<lambda>offset. ''?'' @ show_nat (start_index + offset)) [0..<n])"

definition chunk_limit :: "nat \<Rightarrow> 'a list \<Rightarrow> nat option" where
  "chunk_limit per_root_limit chunk =
     (let n = max (sat_mul per_root_limit (length chunk)) 1 in if n \<le> i64_max then Some n else None)"

definition incoming_chunk :: "ecosystem \<Rightarrow> nat \<Rightarrow> store \<Rightarrow> string list \<Rightarrow> string list option" where
  "incoming_chunk eco per_root_limit s chunk =
     map_option (\<lambda>n. take n (btree_set (map (\<lambda>((_, p, _), _). p)
        (filter (\<lambda>((e, _, d), _). e = ecosystem_as_str eco \<and> d \<in> set chunk) (st_graph_edge_index s)))))
       (chunk_limit per_root_limit chunk)"

definition edge_chunk :: "ecosystem \<Rightarrow> nat \<Rightarrow> store \<Rightarrow> string list
    \<Rightarrow> ((string \<times> string \<times> string) \<times> graph_edge_row) list option" where
  "edge_chunk eco per_root_limit s chunk =
     map_option (\<lambda>n. take n (sort_key (\<lambda>((_, p, d), _). (p, d))
        (filter (\<lambda>((e, p, _), _). e = ecosystem_as_str eco \<and> p \<in> set chunk) (st_graph_edge_index s))))
       (chunk_limit per_root_limit chunk)"

definition root_frontier :: "ecosystem \<Rightarrow> store \<Rightarrow> string list \<Rightarrow> string list \<Rightarrow> string list" where
  "root_frontier eco s roots reverse_dependents =
     btree_set (filter (\<lambda>root. load_graph_evidence_blocking (\<lambda>_. []) eco root s \<noteq> None) roots @ reverse_dependents)"

definition neighborhood_records ::
  "(string \<Rightarrow> string list option) \<Rightarrow> ecosystem \<Rightarrow> store \<Rightarrow> string list
   \<Rightarrow> ((string \<times> string \<times> string) \<times> graph_edge_row) list \<Rightarrow> score_input list" where
  "neighborhood_records dec eco s frontier edges =
     map (\<lambda>pkg. SI_Package eco pkg
        (case map_of (st_graph_package_index s) (ecosystem_as_str eco, pkg) of
           Some r \<Rightarrow> gp_direct_popularity r | None \<Rightarrow> f64_zero))
       (btree_set (frontier @ concat (map (\<lambda>((_, p, d), _). [p, d]) edges)))
     @ map (\<lambda>((_, p, d), r). SI_Dependency eco p d (geo_weight r)
        (case Option.bind (geo_sources_json r) dec of Some sources \<Rightarrow> sources | None \<Rightarrow> []) (geo_confidence r)) edges"

definition load_graph_records_for_roots ::
  "(string \<Rightarrow> string list option) \<Rightarrow> ecosystem \<Rightarrow> string list \<Rightarrow> nat \<Rightarrow> store \<Rightarrow> (string list \<times> score_input list) option" where
  "load_graph_records_for_roots dec eco roots per_root_limit s =
     (let roots = filter (\<lambda>r. r \<noteq> []) (map (\<lambda>r. trim (normalize_package_name eco r)) roots) in
      if roots = [] then Some ([], [])
      else Option.bind (those (map (incoming_chunk eco per_root_limit s) (chunks sqlite_in_batch roots))) (\<lambda>incoming.
        let frontier = root_frontier eco s roots (concat incoming) in
        if frontier = [] then Some (roots, [])
        else map_option (\<lambda>edges. (roots, neighborhood_records dec eco s frontier (concat edges)))
               (those (map (edge_chunk eco per_root_limit s) (chunks sqlite_in_batch frontier)))))"

section \<open>Reconciliation with the files\<close>

text \<open>The ledgers are read in the order observed, legacy, reconstructed; a later observed line
  replaces an earlier one, and the other two only fill in.  The files of an event are its capture and
  its stored diff record, decoded.\<close>

definition reconcile_records ::
  "release_event list \<Rightarrow> release_event list \<Rightarrow> release_event list \<Rightarrow> (string \<times> release_event \<times> event_origin) list" where
  "reconcile_records observed legacy reconstructed =
     (let put = (\<lambda>o' e m. AList.update (ev_event_id e) (e, o') m);
          put_new = (\<lambda>o' e m. if map_of m (ev_event_id e) = None then put o' e m else m);
          m = fold (put Observed) observed [];
          m = fold (put_new Observed) legacy m;
          m = fold (put_new Reconstructed) reconstructed m
      in sort_key fst m)"

definition capture_dir_for_event :: "(string \<Rightarrow> string) \<Rightarrow> string \<Rightarrow> release_event \<Rightarrow> string" where
  "capture_dir_for_event url_encode data_dir e =
     path_join (path_join (path_join (path_join data_dir ''captures'') (ecosystem_as_str (ev_ecosystem e)))
       (url_encode (ev_package e))) (url_encode (ev_version e))"

record reconcile_stats =
  rn_events :: nat
  rn_captures :: nat
  rn_diffs :: nat
  rn_graph_records :: nat
  rn_repository_refs :: nat

text \<open>What reconciliation reads of a \<open>diff.json\<close>.\<close>

record stored_diff_record =
  sx_generated_at :: datetime
  sx_baseline_version :: "string option"
  sx_status :: stored_diff_status
  sx_reason :: "string option"

definition update_diff_row_from_record :: "string \<Rightarrow> string \<Rightarrow> stored_diff_record \<Rightarrow> store \<Rightarrow> store" where
  "update_diff_row_from_record event_id dir d s = update_release_row event_id (\<lambda>r. r
     \<lparr>rr_diff_state := ''ready'', rr_diff_status := Some (stored_diff_status_as_str (sx_status d)),
      rr_diff_baseline_version := sx_baseline_version d, rr_diff_path := Some (path_join dir ''diff.json''),
      rr_diff_reason := sx_reason d, rr_diff_updated_at := Some (sx_generated_at d)\<rparr>) s"

text \<open>The environment of one reconciliation: the clock, serde's source lists, the percent encoding, the
  files (\<open>Some None\<close> is a file that does not decode), and the extractor of the repository identity.\<close>

record reconcile_env =
  re_now :: datetime
  re_enc_sources :: "string list \<Rightarrow> string"
  re_url_encode :: "string \<Rightarrow> string"
  re_data_dir :: string
  re_capture_file :: "string \<Rightarrow> captured_release option option"
  re_diff_file :: "string \<Rightarrow> stored_diff_record option option"
  re_repository_of :: "ecosystem \<Rightarrow> captured_release \<Rightarrow> repository_ref option"

definition reconcile_capture :: "reconcile_env \<Rightarrow> release_event \<Rightarrow> string \<Rightarrow> store \<times> reconcile_stats \<Rightarrow> (store \<times> reconcile_stats) option" where
  "reconcile_capture env e dir sn = (case sn of (s, n) \<Rightarrow>
     (case re_capture_file env (path_join dir ''capture.json'') of
        None \<Rightarrow> Some (s, n)
      | Some None \<Rightarrow> None
      | Some (Some cap) \<Rightarrow> map_option (\<lambda>s.
          let records = graph_records_from_captured_release cap;
              s = fold (upsert_graph_record (re_enc_sources env) (re_now env)) records s;
              n = n\<lparr>rn_graph_records := rn_graph_records n + length records, rn_captures := rn_captures n + 1\<rparr>
          in case re_repository_of env (ev_ecosystem e) cap of
               Some r \<Rightarrow> (upsert_package_repository_ref (ev_ecosystem e) (ca_package cap) (Some (ca_version cap)) r s,
                  n\<lparr>rn_repository_refs := rn_repository_refs n + 1\<rparr>)
             | None \<Rightarrow> (s, n))
          (update_capture_row (ev_event_id e) dir cap s)))"

definition reconcile_diff :: "reconcile_env \<Rightarrow> release_event \<Rightarrow> string \<Rightarrow> store \<times> reconcile_stats \<Rightarrow> (store \<times> reconcile_stats) option" where
  "reconcile_diff env e dir sn = (case sn of (s, n) \<Rightarrow>
     (case re_diff_file env (path_join dir ''diff.json'') of
        None \<Rightarrow> Some (s, n)
      | Some None \<Rightarrow> None
      | Some (Some d) \<Rightarrow> Some (update_diff_row_from_record (ev_event_id e) dir d s, n\<lparr>rn_diffs := rn_diffs n + 1\<rparr>)))"

definition reconcile_step :: "reconcile_env \<Rightarrow> release_event \<times> event_origin \<Rightarrow> store \<times> reconcile_stats \<Rightarrow> (store \<times> reconcile_stats) option" where
  "reconcile_step env p sn = (case (p, sn) of ((e, origin), (s, n)) \<Rightarrow>
     (let dir = capture_dir_for_event (re_url_encode env) (re_data_dir env) e in
      Option.bind (reconcile_capture env e dir (upsert_event_row e origin s, n\<lparr>rn_events := rn_events n + 1\<rparr>))
        (reconcile_diff env e dir)))"

fun reconcile_loop :: "reconcile_env \<Rightarrow> (release_event \<times> event_origin) list \<Rightarrow> store \<times> reconcile_stats \<Rightarrow> (store \<times> reconcile_stats) option" where
  "reconcile_loop env [] sn = Some sn"
| "reconcile_loop env (p # ps) sn = Option.bind (reconcile_step env p sn) (reconcile_loop env ps)"

definition reconcile_local_data ::
  "reconcile_env \<Rightarrow> release_event list \<Rightarrow> release_event list \<Rightarrow> release_event list \<Rightarrow> store \<Rightarrow> (store \<times> reconcile_stats) option" where
  "reconcile_local_data env observed legacy reconstructed s =
     reconcile_loop env (map snd (reconcile_records observed legacy reconstructed))
       (s, \<lparr>rn_events = 0, rn_captures = 0, rn_diffs = 0, rn_graph_records = 0, rn_repository_refs = 0\<rparr>)"

end
