(* ===== verification/Store_Props.thy ===== *)
theory Store_Props
  imports Store_Queries
begin

text \<open>
  What the write commands of the store keep: every row decodes, the job states are the four the program
  names and agree with the columns of the job; how a command moves the two job states and the origin of
  a row; and what a read returns after a write.
\<close>

section \<open>Statements on tables\<close>

lemma map_of_sql_update: "map_of (sql_update k f t) j = (if j = k then map_option f (map_of t j) else map_of t j)"
  by (induction t) (auto simp: sql_update_def)

lemma map_of_sql_upsert:
  "map_of (sql_upsert k new merge t) j =
     (if j = k then Some (case map_of t k of None \<Rightarrow> new | Some old \<Rightarrow> merge old new) else map_of t j)"
  by (simp add: sql_upsert_def)

lemma keys_sql_update [simp]: "keys (sql_update k f t) = keys t"
  by (induction t) (auto simp: sql_update_def)

lemma distinct_sql_upsert: "distinct (keys t) \<Longrightarrow> distinct (keys (sql_upsert k new merge t))"
  by (simp add: sql_upsert_def distinct_update_keys)

text \<open>A table whose keys are distinct and whose rows satisfy \<open>P\<close>.\<close>

definition table_ok :: "('k \<Rightarrow> 'r \<Rightarrow> bool) \<Rightarrow> ('k \<times> 'r) list \<Rightarrow> bool" where
  "table_ok P t \<longleftrightarrow> distinct (keys t) \<and> (\<forall>k r. map_of t k = Some r \<longrightarrow> P k r)"

lemma table_ok_update:
  "table_ok P t \<Longrightarrow> (\<And>r. P k r \<Longrightarrow> P k (f r)) \<Longrightarrow> table_ok P (sql_update k f t)"
  by (auto simp: table_ok_def map_of_sql_update split: if_splits)

lemma table_ok_upsert:
  assumes t: "table_ok P t" and new: "P k new" and merge: "\<And>r. P k r \<Longrightarrow> P k (merge r new)"
  shows "table_ok P (sql_upsert k new merge t)"
proof -
  have "P j r" if "map_of (sql_upsert k new merge t) j = Some r" for j r
  proof (cases "j = k")
    case True
    then have "r = (case map_of t k of None \<Rightarrow> new | Some old \<Rightarrow> merge old new)"
      using that by (simp add: map_of_sql_upsert)
    moreover have "map_of t k = Some old \<Longrightarrow> P k old" for old
      using t by (simp add: table_ok_def)
    ultimately show ?thesis
      using True new merge by (cases "map_of t k") simp_all
  next
    case False
    then show ?thesis
      using t that by (simp add: map_of_sql_upsert table_ok_def)
  qed
  then show ?thesis
    using t by (simp add: table_ok_def distinct_sql_upsert)
qed

lemma table_ok_rows:
  assumes "table_ok P t" "(k, r) \<in> set t"
  shows "P k r"
  using assms in_set_map_of [of t k r] unfolding table_ok_def by blast

section \<open>The invariant\<close>

lemma parse_as_str [simp]:
  "parse_ecosystem (ecosystem_as_str e) = Some e"
  "parse_priority_tier (tier_as_str t) = Some t"
  "parse_priority_source (source_as_str src) = Some src"
proof -
  show "parse_ecosystem (ecosystem_as_str e) = Some e"
    by (cases e) (simp_all add: parse_ecosystem_def)
  show "parse_priority_tier (tier_as_str t) = Some t"
    by (cases t) (simp_all add: parse_priority_tier_def)
  show "parse_priority_source (source_as_str src) = Some src"
    by (cases src) (simp_all add: parse_priority_source_def)
qed

lemma job_state_as_str_inject [simp]: "job_state_as_str a = job_state_as_str b \<longleftrightarrow> a = b"
  by (cases a; cases b) simp_all

lemma job_state_texts:
  "''pending'' = job_state_as_str Pending" "''ready'' = job_state_as_str JobReady"
  "''skipped'' = job_state_as_str Skipped" "''failed'' = job_state_as_str Failed"
  by simp_all

lemma sticky_state_iff [simp]: "sticky_state (job_state_as_str j) \<longleftrightarrow> j \<noteq> Pending"
  by (cases j) (simp_all add: sticky_state_def)

text \<open>The columns of the two jobs, for a given state.\<close>

definition capture_columns_wf :: "release_row \<Rightarrow> job_state \<Rightarrow> bool" where
  "capture_columns_wf r j \<longleftrightarrow> rr_capture_state r = job_state_as_str j
     \<and> (j = JobReady \<longrightarrow> rr_capture_dir r \<noteq> None \<and> rr_capture_status r \<noteq> None
          \<and> rr_capture_artifact_count r \<noteq> None \<and> rr_capture_reason r = None)
     \<and> (j = Pending \<or> j = Skipped \<longrightarrow> rr_capture_dir r = None \<and> rr_capture_status r = None
          \<and> rr_capture_artifact_count r = None)"

definition diff_columns_wf :: "release_row \<Rightarrow> job_state \<Rightarrow> bool" where
  "diff_columns_wf r j \<longleftrightarrow> rr_diff_state r = job_state_as_str j
     \<and> (j = JobReady \<longrightarrow> rr_diff_path r \<noteq> None \<and> rr_diff_status r \<noteq> None)"

definition event_columns_wf :: "string \<Rightarrow> release_row \<Rightarrow> bool" where
  "event_columns_wf k r \<longleftrightarrow> rr_event_id r = k
     \<and> (\<exists>eco. rr_ecosystem r = ecosystem_as_str eco)
     \<and> (\<exists>tier. rr_priority_tier r = Some (tier_as_str tier))
     \<and> (\<exists>src. rr_priority_source r = Some (source_as_str src))
     \<and> (\<exists>origin. rr_origin r = origin_as_str origin)"

definition row_wf :: "string \<Rightarrow> release_row \<Rightarrow> bool" where
  "row_wf k r \<longleftrightarrow> event_columns_wf k r \<and> (\<exists>j. capture_columns_wf r j) \<and> (\<exists>j. diff_columns_wf r j)"

definition score_row_wf :: "string \<times> string \<Rightarrow> priority_score_row \<Rightarrow> bool" where
  "score_row_wf k r \<longleftrightarrow> (\<exists>eco. fst k = ecosystem_as_str eco)
     \<and> (\<exists>tier. pw_priority_tier r = tier_as_str tier)
     \<and> (pw_priority_source r = None \<or> (\<exists>src. pw_priority_source r = Some (source_as_str src)))"

definition store_wf :: "store \<Rightarrow> bool" where
  "store_wf s \<longleftrightarrow> table_ok row_wf (st_release_index s)
     \<and> table_ok (\<lambda>k _. \<exists>eco. fst k = ecosystem_as_str eco) (st_graph_package_index s)
     \<and> table_ok (\<lambda>k r. (\<exists>eco. fst k = ecosystem_as_str eco) \<and> f64_le f64_zero (geo_weight r)) (st_graph_edge_index s)
     \<and> table_ok score_row_wf (st_priority_score_index s)"

lemma store_wf_empty: "store_wf store_empty"
  by (simp add: store_wf_def store_empty_def table_ok_def)

lemma event_row_wf: "row_wf (ev_event_id e) (event_row (origin_as_str origin) e)"
proof -
  let ?r = "event_row (origin_as_str origin) e" and ?p = "event_priority_snapshot e"
  have "event_columns_wf (ev_event_id e) ?r"
    by (auto simp: event_columns_wf_def event_row_def Let_def)
  moreover have "capture_columns_wf ?r (default_capture_state (origin_as_str origin) ?p)"
    by (simp add: capture_columns_wf_def event_row_def Let_def default_capture_state_def)
  moreover have "diff_columns_wf ?r (default_diff_state (origin_as_str origin) ?p)"
    by (simp add: diff_columns_wf_def event_row_def Let_def default_diff_state_def)
  ultimately show ?thesis
    by (auto simp: row_wf_def)
qed

definition not_ready :: "release_row \<Rightarrow> bool" where
  "not_ready r \<longleftrightarrow> rr_capture_state r \<noteq> ''ready'' \<and> rr_diff_state r \<noteq> ''ready''"

lemma event_row_not_ready: "not_ready (event_row origin e)"
  by (simp add: not_ready_def event_row_def Let_def default_capture_state_def default_diff_state_def)

lemma merge_event_row_sels:
  "rr_event_id (merge_event_row old ex) = rr_event_id old"
  "rr_ecosystem (merge_event_row old ex) = rr_ecosystem ex"
  "rr_priority_tier (merge_event_row old ex) = rr_priority_tier ex"
  "rr_priority_source (merge_event_row old ex) = rr_priority_source ex"
  "rr_origin (merge_event_row old ex) = (if rr_origin ex = ''observed'' then ''observed'' else rr_origin old)"
  "rr_capture_state (merge_event_row old ex) =
     (if sticky_state (rr_capture_state old) then rr_capture_state old else rr_capture_state ex)"
  "rr_capture_reason (merge_event_row old ex) =
     (if sticky_state (rr_capture_state old) then rr_capture_reason old else rr_capture_reason ex)"
  "rr_capture_dir (merge_event_row old ex) = rr_capture_dir old"
  "rr_capture_status (merge_event_row old ex) = rr_capture_status old"
  "rr_capture_artifact_count (merge_event_row old ex) = rr_capture_artifact_count old"
  "rr_diff_state (merge_event_row old ex) =
     (if sticky_state (rr_diff_state old) then rr_diff_state old else rr_diff_state ex)"
  "rr_diff_path (merge_event_row old ex) = rr_diff_path old"
  "rr_diff_status (merge_event_row old ex) = rr_diff_status old"
  unfolding merge_event_row_def by simp_all

lemma merge_event_row_wf:
  assumes old: "row_wf k old" and ex: "row_wf k ex" and nr: "not_ready ex"
  shows "row_wf k (merge_event_row old ex)"
proof -
  obtain jc jd where j: "capture_columns_wf old jc" "diff_columns_wf old jd"
    using old by (auto simp: row_wf_def)
  obtain jc' jd' where j': "capture_columns_wf ex jc'" "diff_columns_wf ex jd'"
    using ex by (auto simp: row_wf_def)
  have n: "jc' \<noteq> JobReady" "jd' \<noteq> JobReady"
    using nr j' by (auto simp: not_ready_def capture_columns_wf_def diff_columns_wf_def)
  have "capture_columns_wf (merge_event_row old ex) (if jc = Pending then jc' else jc)"
    using j(1) j'(1) n(1) unfolding capture_columns_wf_def merge_event_row_sels by simp
  moreover have "diff_columns_wf (merge_event_row old ex) (if jd = Pending then jd' else jd)"
    using j(2) j'(2) n(2) unfolding diff_columns_wf_def merge_event_row_sels by simp
  moreover have "event_columns_wf k (merge_event_row old ex)"
    using old ex unfolding row_wf_def event_columns_wf_def merge_event_row_sels
    by (auto intro: exI [of _ Observed])
  ultimately show ?thesis
    by (auto simp: row_wf_def)
qed

lemma upsert_event_row_wf: "store_wf s \<Longrightarrow> store_wf (upsert_event_row e origin s)"
  unfolding store_wf_def upsert_event_row_def
  by (auto intro!: table_ok_upsert event_row_wf merge_event_row_wf simp: event_row_not_ready)

lemma update_release_row_wf:
  "store_wf s \<Longrightarrow> (\<And>r. row_wf i r \<Longrightarrow> row_wf i (f r)) \<Longrightarrow> store_wf (update_release_row i f s)"
  by (auto simp: store_wf_def update_release_row_def intro: table_ok_update)

lemma row_wf_capture:
  assumes "row_wf i r" "capture_columns_wf r' j" "event_columns_wf i r' = event_columns_wf i r"
    "\<And>j. diff_columns_wf r' j = diff_columns_wf r j"
  shows "row_wf i r'"
  using assms by (auto simp: row_wf_def)

lemma row_wf_diff:
  assumes "row_wf i r" "diff_columns_wf r' j" "event_columns_wf i r' = event_columns_wf i r"
    "\<And>j. capture_columns_wf r' j = capture_columns_wf r j"
  shows "row_wf i r'"
  using assms by (auto simp: row_wf_def)

lemma row_updates_wf:
  "row_wf i r \<Longrightarrow> row_wf i (capture_row_update dir cap r)"
  "row_wf i r \<Longrightarrow> row_wf i (diff_row_update dir d r)"
  "row_wf i r \<Longrightarrow> row_wf i (r\<lparr>rr_capture_state := ''failed'', rr_capture_reason := Some reason, rr_capture_updated_at := t\<rparr>)"
  "row_wf i r \<Longrightarrow> row_wf i (r\<lparr>rr_capture_state := ''skipped'', rr_capture_status := None, rr_capture_artifact_count := None,
     rr_capture_dir := None, rr_capture_reason := Some reason, rr_capture_updated_at := t\<rparr>)"
  "row_wf i r \<Longrightarrow> row_wf i (r\<lparr>rr_diff_state := ''failed'', rr_diff_reason := Some reason, rr_diff_updated_at := t\<rparr>)"
  "row_wf i r \<Longrightarrow> row_wf i (r\<lparr>rr_diff_state := ''skipped'', rr_diff_reason := Some reason, rr_diff_updated_at := t\<rparr>)"
proof -
  note d = capture_columns_wf_def diff_columns_wf_def event_columns_wf_def capture_row_update_def diff_row_update_def
  show "row_wf i r \<Longrightarrow> row_wf i (capture_row_update dir cap r)"
    by (erule row_wf_capture [where j = JobReady]) (simp_all add: d)
  show "row_wf i r \<Longrightarrow> row_wf i (diff_row_update dir d r)"
    by (erule row_wf_diff [where j = JobReady]) (simp_all add: d)
  show "row_wf i r \<Longrightarrow> row_wf i (r\<lparr>rr_capture_state := ''failed'', rr_capture_reason := Some reason, rr_capture_updated_at := t\<rparr>)"
    by (erule row_wf_capture [where j = Failed]) (simp_all add: d)
  show "row_wf i r \<Longrightarrow> row_wf i (r\<lparr>rr_capture_state := ''skipped'', rr_capture_status := None, rr_capture_artifact_count := None,
     rr_capture_dir := None, rr_capture_reason := Some reason, rr_capture_updated_at := t\<rparr>)"
    by (erule row_wf_capture [where j = Skipped]) (simp_all add: d)
  show "row_wf i r \<Longrightarrow> row_wf i (r\<lparr>rr_diff_state := ''failed'', rr_diff_reason := Some reason, rr_diff_updated_at := t\<rparr>)"
    by (erule row_wf_diff [where j = Failed]) (simp_all add: d)
  show "row_wf i r \<Longrightarrow> row_wf i (r\<lparr>rr_diff_state := ''skipped'', rr_diff_reason := Some reason, rr_diff_updated_at := t\<rparr>)"
    by (erule row_wf_diff [where j = Skipped]) (simp_all add: d)
qed

lemma repository_upsert_wf:
  "store_wf s \<Longrightarrow> store_wf (upsert_package_repository_identity eco pkg v r src s)"
  "store_wf s \<Longrightarrow> store_wf (upsert_package_repository_ref eco pkg v ref s)"
  by (simp_all add: store_wf_def upsert_package_repository_identity_def upsert_package_repository_ref_def)

lemma sql_max_nonneg: "f64_le f64_zero a \<Longrightarrow> f64_le f64_zero b \<Longrightarrow> f64_le f64_zero (sql_max a b)"
  by (simp add: sql_max_def)

lemma f64_max_zero_nonneg: "f64_le f64_zero (f64_max x f64_zero)"
  by (auto simp: f64_le_def f64_max_def f64_is_nan_def f64_magnitude_def f64_zero_def f64_key_def f64_infinity_bits_def)

lemma upsert_graph_record_wf: "store_wf s \<Longrightarrow> store_wf (upsert_graph_record enc now r s)"
  by (cases r)
    (auto simp: store_wf_def touch_graph_node_def Let_def merge_edge_row_def
      intro!: table_ok_upsert sql_max_nonneg f64_max_zero_nonneg)

lemma upsert_score_wf: "store_wf s \<Longrightarrow> store_wf (upsert_priority_score_record now r s)"
  by (auto simp: store_wf_def upsert_priority_score_record_def score_row_wf_def intro!: table_ok_upsert)

lemma fold_wf: "(\<And>x s. store_wf s \<Longrightarrow> store_wf (f x s)) \<Longrightarrow> store_wf s \<Longrightarrow> store_wf (fold f xs s)"
  by (induction xs arbitrary: s) auto

lemma update_as_release_row:
  "s\<lparr>st_release_index := sql_update i f (st_release_index s)\<rparr> = update_release_row i f s"
  by (simp add: update_release_row_def)

lemma command_effect_wf:
  assumes "store_wf s" "command_effect enc now c s = Some s'"
  shows "store_wf s'"
  using assms
  by (cases c)
    (auto simp: update_capture_row_def update_diff_row_def update_as_release_row
      intro!: upsert_event_row_wf update_release_row_wf row_updates_wf repository_upsert_wf fold_wf
        upsert_graph_record_wf upsert_score_wf
      split: option.splits if_splits)

lemma acked_run_wf: "store_wf s \<Longrightarrow> acked_run enc cs as s = Some s' \<Longrightarrow> store_wf s'"
  by (induction enc cs as s rule: acked_run.induct)
    (auto split: if_splits dest: command_effect_wf simp: Option.bind_eq_Some_conv)

lemma worker_wf: "store_wf s \<Longrightarrow> store_wf (fst (run_store_write_worker enc db_ok n pending msgs s))"
  using worker_acks acked_run_wf by blast

section \<open>Reads on a well-formed store\<close>

lemma those_map: "(\<And>x. x \<in> set xs \<Longrightarrow> f x \<noteq> None) \<Longrightarrow> those (map f xs) \<noteq> None"
  by (induction xs) (auto split: option.splits)

lemma release_rows_wf: "store_wf s \<Longrightarrow> r \<in> set (release_rows s) \<Longrightarrow> row_wf (rr_event_id r) r"
proof -
  assume s: "store_wf s" "r \<in> set (release_rows s)"
  then obtain k where "(k, r) \<in> set (st_release_index s)"
    by (auto simp: release_rows_def)
  then have "row_wf k r"
    using s(1) table_ok_rows [of row_wf "st_release_index s" k r] by (simp add: store_wf_def)
  then show ?thesis
    by (auto simp: row_wf_def event_columns_wf_def)
qed

lemma row_wf_decodes:
  assumes "row_wf k r"
  shows "event_from_row r \<noteq> None" "release_record_from_row r \<noteq> None" "parse_ecosystem (rr_ecosystem r) \<noteq> None"
proof -
  obtain eco tier src where "rr_ecosystem r = ecosystem_as_str eco" "rr_priority_tier r = Some (tier_as_str tier)"
    "rr_priority_source r = Some (source_as_str src)"
    using assms by (auto simp: row_wf_def event_columns_wf_def)
  then show "event_from_row r \<noteq> None" "parse_ecosystem (rr_ecosystem r) \<noteq> None"
    by (simp_all add: event_from_row_def opt_parse_def)
  then show "release_record_from_row r \<noteq> None"
    by (simp add: release_record_from_row_def)
qed

lemma count_where_sum4:
  assumes "\<And>x. x \<in> set xs \<Longrightarrow> f x \<in> {a, b, c, d}" "distinct [a, b, c, d]"
  shows "count_where (\<lambda>x. f x = a) xs + count_where (\<lambda>x. f x = b) xs + count_where (\<lambda>x. f x = c) xs
    + count_where (\<lambda>x. f x = d) xs = length xs"
  using assms by (induction xs) (auto simp: count_where_def)

lemma job_states_total:
  assumes "\<And>r. r \<in> set rows \<Longrightarrow> \<exists>j. f r = job_state_as_str j"
  shows "jc_pending (job_states f rows) + jc_ready (job_states f rows) + jc_skipped (job_states f rows)
    + jc_failed (job_states f rows) = length rows"
proof -
  have "f r \<in> {''pending'', ''ready'', ''skipped'', ''failed''}" if r: "r \<in> set rows" for r
  proof -
    obtain j where "f r = job_state_as_str j"
      using assms [OF r] by blast
    then show ?thesis
      by (cases j) simp_all
  qed
  from count_where_sum4 [OF this] show ?thesis
    by (simp add: job_states_def)
qed

definition counts_partition :: "store_counts \<Rightarrow> bool" where
  "counts_partition n \<longleftrightarrow>
     sn_observed_events n + sn_reconstructed_events n = sn_total_events n
     \<and> jc_pending (sn_capture_states n) + jc_ready (sn_capture_states n) + jc_skipped (sn_capture_states n)
         + jc_failed (sn_capture_states n) = sn_total_events n
     \<and> jc_pending (sn_diff_states n) + jc_ready (sn_diff_states n) + jc_skipped (sn_diff_states n)
         + jc_failed (sn_diff_states n) = sn_total_events n
     \<and> pc_high (sn_priorities n) + pc_medium (sn_priorities n) + pc_low (sn_priorities n)
         + pc_unknown (sn_priorities n) = sn_total_events n"

lemma origin_total:
  "(\<And>r. r \<in> set rows \<Longrightarrow> \<exists>o'. rr_origin r = origin_as_str o') \<Longrightarrow>
   count_where (\<lambda>r. rr_origin r = ''observed'') rows + count_where (\<lambda>r. rr_origin r = ''reconstructed'') rows = length rows"
proof (induction rows)
  case (Cons r rows)
  obtain x where "rr_origin r = origin_as_str x"
    using Cons.prems by fastforce
  then show ?case
    using Cons by (cases x) (simp_all add: count_where_def)
qed (simp add: count_where_def)

lemma priority_total:
  "(\<And>r. r \<in> set rows \<Longrightarrow> \<exists>t. rr_priority_tier r = Some (tier_as_str t)) \<Longrightarrow>
   count_where (\<lambda>r. known_source r \<and> rr_priority_tier r = Some ''high'') rows
   + count_where (\<lambda>r. known_source r \<and> rr_priority_tier r = Some ''medium'') rows
   + count_where (\<lambda>r. known_source r \<and> rr_priority_tier r = Some ''low'') rows
   + count_where (\<lambda>r. \<not> known_source r) rows = length rows"
proof (induction rows)
  case (Cons r rows)
  obtain x where "rr_priority_tier r = Some (tier_as_str x)"
    using Cons.prems by fastforce
  then show ?case
    using Cons by (cases x; cases "known_source r") (simp_all add: count_where_def)
qed (simp add: count_where_def)

lemma row_counts_partition:
  assumes "\<And>r. r \<in> set rows \<Longrightarrow> row_wf (rr_event_id r) r"
  shows "counts_partition (row_counts rows)"
proof -
  have "\<exists>j. rr_capture_state r = job_state_as_str j" "\<exists>j. rr_diff_state r = job_state_as_str j"
    "\<exists>o'. rr_origin r = origin_as_str o'" "\<exists>t. rr_priority_tier r = Some (tier_as_str t)" if "r \<in> set rows" for r
    using assms [OF that] by (auto simp: row_wf_def event_columns_wf_def capture_columns_wf_def diff_columns_wf_def)
  then show ?thesis
    using job_states_total [of rows rr_capture_state] job_states_total [of rows rr_diff_state]
      origin_total [of rows] priority_total [of rows]
    by (simp add: counts_partition_def row_counts_def)
qed

lemma store_stats_ok:
  assumes "store_wf s"
  shows "\<exists>groups. store_stats s = Some (row_counts (release_rows s), groups)
    \<and> counts_partition (row_counts (release_rows s)) \<and> list_all (\<lambda>(_, n). counts_partition n) groups"
proof -
  let ?f = "\<lambda>eco. map_option (\<lambda>e. (e, row_counts (filter (\<lambda>r. rr_ecosystem r = eco) (release_rows s)))) (parse_ecosystem eco)"
  have "those (map ?f (btree_set (map rr_ecosystem (release_rows s)))) \<noteq> None"
    by (rule those_map) (use row_wf_decodes(3) release_rows_wf [OF assms] in fastforce)
  then obtain groups where g: "those (map ?f (btree_set (map rr_ecosystem (release_rows s)))) = Some groups"
    by blast
  have "counts_partition (row_counts (filter P (release_rows s)))" for P
    by (rule row_counts_partition) (use release_rows_wf [OF assms] in auto)
  then have "those (map ?f ecos) = Some gs \<Longrightarrow> list_all (\<lambda>(_, n). counts_partition n) gs" for ecos gs
    by (induction ecos arbitrary: gs) (auto split: option.splits)
  then show ?thesis
    using g row_counts_partition [of "release_rows s"] release_rows_wf [OF assms]
    by (auto simp: store_stats_def Let_def)
qed

lemma those_rows: "store_wf s \<Longrightarrow> set rows \<subseteq> set (release_rows s) \<Longrightarrow> those (map release_record_from_row rows) \<noteq> None"
  by (rule those_map) (use row_wf_decodes release_rows_wf in blast)


section \<open>How a command moves a row\<close>

text \<open>The state of the capture job of event \<open>i\<close> after a command.\<close>

fun capture_transition :: "string \<Rightarrow> write_command \<Rightarrow> string \<Rightarrow> string" where
  "capture_transition i (RecordCapture e origin dir cap) st = (if ev_event_id e = i then ''ready'' else st)"
| "capture_transition i (MarkCaptureFailed j reason) st = (if j = i then ''failed'' else st)"
| "capture_transition i (MarkCaptureSkipped j reason) st = (if j = i then ''skipped'' else st)"
| "capture_transition i (RecordEvent e origin) st =
     (if ev_event_id e = i \<and> \<not> sticky_state st
      then job_state_as_str (default_capture_state (origin_as_str origin) (event_priority_snapshot e)) else st)"
| "capture_transition i (RecordDiff e origin dir d) st =
     (if ev_event_id e = i \<and> \<not> sticky_state st
      then job_state_as_str (default_capture_state (origin_as_str origin) (event_priority_snapshot e)) else st)"
| "capture_transition i _ st = st"

fun diff_transition :: "string \<Rightarrow> write_command \<Rightarrow> string \<Rightarrow> string" where
  "diff_transition i (RecordDiff e origin dir d) st = (if ev_event_id e = i then ''ready'' else st)"
| "diff_transition i (MarkDiffFailed j reason) st = (if j = i then ''failed'' else st)"
| "diff_transition i (MarkDiffSkipped j reason) st = (if j = i then ''skipped'' else st)"
| "diff_transition i (RecordEvent e origin) st =
     (if ev_event_id e = i \<and> \<not> sticky_state st
      then job_state_as_str (default_diff_state (origin_as_str origin) (event_priority_snapshot e)) else st)"
| "diff_transition i (RecordCapture e origin dir cap) st =
     (if ev_event_id e = i \<and> \<not> sticky_state st
      then job_state_as_str (default_diff_state (origin_as_str origin) (event_priority_snapshot e)) else st)"
| "diff_transition i _ st = st"

fun origin_transition :: "string \<Rightarrow> write_command \<Rightarrow> string \<Rightarrow> string" where
  "origin_transition i (RecordEvent e origin) st = (if ev_event_id e = i \<and> origin = Observed then ''observed'' else st)"
| "origin_transition i (RecordCapture e origin dir cap) st = (if ev_event_id e = i \<and> origin = Observed then ''observed'' else st)"
| "origin_transition i (RecordDiff e origin dir d) st = (if ev_event_id e = i \<and> origin = Observed then ''observed'' else st)"
| "origin_transition i _ st = st"

lemma event_row_sels:
  "rr_origin (event_row origin e) = origin"
  "rr_capture_state (event_row origin e) = job_state_as_str (default_capture_state origin (event_priority_snapshot e))"
  "rr_diff_state (event_row origin e) = job_state_as_str (default_diff_state origin (event_priority_snapshot e))"
  by (simp_all add: event_row_def Let_def)

lemma row_after_upsert:
  "map_of (st_release_index s) i = Some r \<Longrightarrow>
   map_of (st_release_index (upsert_event_row e origin s)) i
     = Some (if ev_event_id e = i then merge_event_row r (event_row (origin_as_str origin) e) else r)"
  by (auto simp: upsert_event_row_def map_of_sql_upsert)

lemma releases_unchanged:
  "st_release_index (upsert_package_repository_identity eco pkg v p src s) = st_release_index s"
  "st_release_index (upsert_package_repository_ref eco pkg v rf s) = st_release_index s"
  "st_release_index (upsert_graph_record enc now g s) = st_release_index s"
  "st_release_index (upsert_priority_score_record now sc s) = st_release_index s"
  by (simp_all add: upsert_package_repository_identity_def upsert_package_repository_ref_def
      upsert_priority_score_record_def) (cases g; simp add: Let_def touch_graph_node_def)

lemma fold_releases:
  "(\<And>x s. st_release_index (f x s) = st_release_index s) \<Longrightarrow> st_release_index (fold f xs s) = st_release_index s"
  by (induction xs arbitrary: s) auto

lemma origin_observed: "origin_as_str origin = ''observed'' \<longleftrightarrow> origin = Observed"
  by (cases origin) simp_all

lemma row_transition:
  assumes "map_of (st_release_index s) i = Some r" "command_effect enc now c s = Some s'"
  shows "\<exists>r'. map_of (st_release_index s') i = Some r'
    \<and> rr_capture_state r' = capture_transition i c (rr_capture_state r)
    \<and> rr_diff_state r' = diff_transition i c (rr_diff_state r)
    \<and> rr_origin r' = origin_transition i c (rr_origin r)"
  using assms
  by (cases c)
    (auto simp: row_after_upsert update_capture_row_def update_diff_row_def update_release_row_def map_of_sql_update
      merge_event_row_sels event_row_sels capture_row_update_def diff_row_update_def releases_unchanged
      fold_releases origin_observed split: option.splits if_splits)


definition demo_event :: release_event where
  "demo_event = \<lparr>ev_event_id = ''a'', ev_ecosystem = Npm, ev_package = ''p'', ev_version = ''1'', ev_published_at = None,
     ev_observed_at = 5, ev_source = ''npm'', ev_sequence = None, ev_package_url = None, ev_release_url = None,
     ev_metadata_url = None, ev_priority = None\<rparr>"


section \<open>What is read after a write\<close>

text \<open>The event that a row stands for after \<open>e\<close> was recorded over the row \<open>r\<close>.\<close>

definition stored_event :: "release_event \<Rightarrow> release_row option \<Rightarrow> release_event" where
  "stored_event e old = (case old of
     None \<Rightarrow> e\<lparr>ev_priority := Some (event_priority_snapshot e)\<rparr>
   | Some r \<Rightarrow> e\<lparr>ev_event_id := rr_event_id r, ev_priority := Some (event_priority_snapshot e),
       ev_published_at := coalesce (ev_published_at e) (rr_published_at r),
       ev_sequence := coalesce (ev_sequence e) (rr_sequence r),
       ev_package_url := coalesce (ev_package_url e) (rr_package_url r),
       ev_release_url := coalesce (ev_release_url e) (rr_release_url r),
       ev_metadata_url := coalesce (ev_metadata_url e) (rr_metadata_url r)\<rparr>)"

lemma event_from_event_row: "event_from_row (event_row origin e) = Some (stored_event e None)"
  by (simp add: event_from_row_def event_row_def Let_def opt_parse_def stored_event_def)

lemma event_from_merged_row:
  "event_from_row (merge_event_row r (event_row origin e)) = Some (stored_event e (Some r))"
  by (simp add: event_from_row_def event_row_def merge_event_row_def Let_def opt_parse_def stored_event_def)

text \<open>C37: an event that is recorded and read back is the event itself with its priority made explicit
  (an event without one reads back as the default unknown snapshot), the optional fields it does not
  carry being filled in from what the store already had for its id; every other event reads as before.\<close>

theorem recorded_event_roundtrip:
  "load_event i (upsert_event_row e origin s) =
     (if i = ev_event_id e then Some (Some (stored_event e (map_of (st_release_index s) i))) else load_event i s)"
  by (simp add: load_event_def upsert_event_row_def map_of_sql_upsert event_from_event_row event_from_merged_row
      split: option.split)

end
