(* ===== verification/Bounded_Map.thy ===== *)
theory Bounded_Map
  imports Dedupe_Window
begin

text \<open>
  \<open>bounded_map.rs\<close>: the least-recently-used map behind every in-memory cache of the program.
  The state keeps the entries with the generation of their last use, and an order queue of
  \<open>(key, generation)\<close> pairs whose stale pairs are skipped at eviction and dropped by a compaction
  when the queue grows beyond \<open>4 * max_entries + 16\<close>.  The compaction runs \<^emph>\<open>before\<close> the touched
  entry gets its new generation, so the touched key leaves the queue (an orphan) until the next
  compaction; the lemmas below bound what follows from that.
\<close>

section \<open>State and operations\<close>

record 'v entry =
  entry_value :: 'v
  entry_generation :: nat

record ('k, 'v) bounded_map =
  max_entries :: nat
  next_generation :: nat
  order :: "('k \<times> nat) list"
  entries :: "('k \<times> 'v entry) list"

definition bm_new :: "nat \<Rightarrow> ('k, 'v) bounded_map" where
  "bm_new n = \<lparr>max_entries = max n 1, next_generation = 1, order = [], entries = []\<rparr>"

definition bm_get :: "('k, 'v) bounded_map \<Rightarrow> 'k \<Rightarrow> 'v option" where
  "bm_get m k = map_option entry_value (map_of (entries m) k)"

definition bm_contains_key :: "('k, 'v) bounded_map \<Rightarrow> 'k \<Rightarrow> bool" where
  "bm_contains_key m k = (map_of (entries m) k \<noteq> None)"

definition bm_len :: "('k, 'v) bounded_map \<Rightarrow> nat" where
  "bm_len m = length (entries m)"

definition bm_is_empty :: "('k, 'v) bounded_map \<Rightarrow> bool" where
  "bm_is_empty m = (entries m = [])"

definition bm_allocate_generation :: "('k, 'v) bounded_map \<Rightarrow> nat \<times> ('k, 'v) bounded_map" where
  "bm_allocate_generation m =
     (next_generation m, m\<lparr>next_generation := sat_add (next_generation m) 1\<rparr>)"

definition bm_max_order_len :: "('k, 'v) bounded_map \<Rightarrow> nat" where
  "bm_max_order_len m = sat_add (sat_mul (max_entries m) 4) 16"

definition bm_compact_order_if_needed :: "('k, 'v) bounded_map \<Rightarrow> ('k, 'v) bounded_map" where
  "bm_compact_order_if_needed m =
     (if length (order m) \<le> bm_max_order_len m then m
      else m\<lparr>order := sort_key snd (map (\<lambda>(k, e). (k, entry_generation e)) (entries m))\<rparr>)"

fun bm_evict_loop :: "('k \<times> nat) list \<Rightarrow> ('k \<times> 'v entry) list \<Rightarrow> ('k \<times> nat) list \<times> ('k \<times> 'v entry) list" where
  "bm_evict_loop [] es = ([], es)"
| "bm_evict_loop ((oldest, g) # q) es =
     (if (case map_of es oldest of Some e \<Rightarrow> entry_generation e = g | None \<Rightarrow> False)
      then (q, AList.delete oldest es)
      else bm_evict_loop q es)"

definition bm_evict_oldest :: "('k, 'v) bounded_map \<Rightarrow> ('k, 'v) bounded_map" where
  "bm_evict_oldest m = (let (q, es) = bm_evict_loop (order m) (entries m) in m\<lparr>order := q, entries := es\<rparr>)"

definition bm_push_order :: "'k \<Rightarrow> nat \<Rightarrow> ('k, 'v) bounded_map \<Rightarrow> ('k, 'v) bounded_map" where
  "bm_push_order k g m = m\<lparr>order := order m @ [(k, g)]\<rparr>"

definition bm_insert :: "'k \<Rightarrow> 'v \<Rightarrow> ('k, 'v) bounded_map \<Rightarrow> 'v option \<times> ('k, 'v) bounded_map" where
  "bm_insert k v m =
     (let (g, m1) = bm_allocate_generation m in
      case map_of (entries m1) k of
        Some e \<Rightarrow>
          (let m2 = bm_compact_order_if_needed (bm_push_order k g m1)
           in (Some (entry_value e),
               m2\<lparr>entries := AList.update k \<lparr>entry_value = v, entry_generation = g\<rparr> (entries m2)\<rparr>))
      | None \<Rightarrow>
          (let m2 = (if bm_len m1 \<ge> max_entries m1 then bm_evict_oldest m1 else m1);
               m3 = bm_compact_order_if_needed (bm_push_order k g m2)
           in (None,
               m3\<lparr>entries := AList.update k \<lparr>entry_value = v, entry_generation = g\<rparr> (entries m3)\<rparr>)))"

definition bm_touch :: "'k \<Rightarrow> ('k, 'v) bounded_map \<Rightarrow> ('k, 'v) bounded_map" where
  "bm_touch k m =
     (if \<not> bm_contains_key m k then m
      else (let (g, m1) = bm_allocate_generation m;
                m2 = bm_compact_order_if_needed (bm_push_order k g m1)
            in (case map_of (entries m2) k of
                  Some e \<Rightarrow> m2\<lparr>entries := AList.update k (e\<lparr>entry_generation := g\<rparr>) (entries m2)\<rparr>
                | None \<Rightarrow> m2)))"

definition bm_get_cloned_refresh :: "'k \<Rightarrow> ('k, 'v) bounded_map \<Rightarrow> 'v option \<times> ('k, 'v) bounded_map" where
  "bm_get_cloned_refresh k m =
     (case map_of (entries m) k of
        None \<Rightarrow> (None, m)
      | Some e \<Rightarrow> (Some (entry_value e), bm_touch k m))"

text \<open>
  \<open>get_mut\<close> hands out a mutable reference; the caller's write through it is the function \<open>f\<close>.
  \<open>None\<close> is the source's \<open>None\<close>: the key is absent and nothing changes.
\<close>

definition bm_get_mut :: "'k \<Rightarrow> ('v \<Rightarrow> 'v) \<Rightarrow> ('k, 'v) bounded_map \<Rightarrow> 'v option \<times> ('k, 'v) bounded_map" where
  "bm_get_mut k f m =
     (if \<not> bm_contains_key m k then (None, m)
      else (let (g, m1) = bm_allocate_generation m;
                m2 = bm_compact_order_if_needed (bm_push_order k g m1)
            in (case map_of (entries m2) k of
                  Some e \<Rightarrow>
                    (Some (entry_value e),
                     m2\<lparr>entries := AList.update k \<lparr>entry_value = f (entry_value e), entry_generation = g\<rparr> (entries m2)\<rparr>)
                | None \<Rightarrow> (None, m2))))"

definition bm_remove :: "'k \<Rightarrow> ('k, 'v) bounded_map \<Rightarrow> 'v option \<times> ('k, 'v) bounded_map" where
  "bm_remove k m =
     (case map_of (entries m) k of
        None \<Rightarrow> (None, m)
      | Some e \<Rightarrow>
          (Some (entry_value e),
           bm_compact_order_if_needed (m\<lparr>entries := AList.delete k (entries m)\<rparr>)))"

section \<open>Well-formedness\<close>

text \<open>The keys of the map whose current generation has no pair in the order queue.\<close>

definition bm_orphans :: "('k, 'v) bounded_map \<Rightarrow> 'k set" where
  "bm_orphans m = {k. \<exists>e. map_of (entries m) k = Some e \<and> (k, entry_generation e) \<notin> set (order m)}"

definition bm_wf :: "('k, 'v) bounded_map \<Rightarrow> bool" where
  "bm_wf m \<longleftrightarrow> distinct (keys (entries m)) \<and> 1 \<le> max_entries m
     \<and> (\<exists>k. bm_orphans m \<subseteq> {k}) \<and> length (entries m) \<le> max 2 (max_entries m)"

text \<open>The recency part of the invariant: as long as the counter has not saturated, the order
  queue is sorted by generation and every generation in use is below the counter and unique.\<close>

definition bm_recent :: "('k, 'v) bounded_map \<Rightarrow> bool" where
  "bm_recent m \<longleftrightarrow> sorted_wrt (<) (map snd (order m))
     \<and> (\<forall>p \<in> set (order m). snd p < next_generation m)
     \<and> (\<forall>k e. map_of (entries m) k = Some e \<longrightarrow> entry_generation e < next_generation m)
     \<and> (\<forall>k k' e e'. map_of (entries m) k = Some e \<longrightarrow> map_of (entries m) k' = Some e'
          \<longrightarrow> entry_generation e = entry_generation e' \<longrightarrow> k = k')"

section \<open>The refresh step shared by insert, touch and get_mut\<close>

definition bm_stamp :: "'k \<Rightarrow> 'v \<Rightarrow> ('k, 'v) bounded_map \<Rightarrow> ('k, 'v) bounded_map" where
  "bm_stamp k v m =
     (let (g, m1) = bm_allocate_generation m;
          m2 = bm_compact_order_if_needed (bm_push_order k g m1)
      in m2\<lparr>entries := AList.update k \<lparr>entry_value = v, entry_generation = g\<rparr> (entries m2)\<rparr>)"

lemma entries_compact [simp]:
  "entries (bm_compact_order_if_needed m) = entries m"
  "max_entries (bm_compact_order_if_needed m) = max_entries m"
  "next_generation (bm_compact_order_if_needed m) = next_generation m"
  by (simp_all add: bm_compact_order_if_needed_def)

lemma push_order_simps [simp]:
  "entries (bm_push_order k g m) = entries m"
  "max_entries (bm_push_order k g m) = max_entries m"
  "next_generation (bm_push_order k g m) = next_generation m"
  "order (bm_push_order k g m) = order m @ [(k, g)]"
  by (simp_all add: bm_push_order_def)

lemma evict_simps [simp]:
  "max_entries (bm_evict_oldest m) = max_entries m"
  "next_generation (bm_evict_oldest m) = next_generation m"
  by (simp_all add: bm_evict_oldest_def split_beta Let_def)

lemma stamp_simps [simp]:
  "max_entries (bm_stamp k v m) = max_entries m"
  "next_generation (bm_stamp k v m) = sat_add (next_generation m) 1"
  "entries (bm_stamp k v m) =
     AList.update k \<lparr>entry_value = v, entry_generation = next_generation m\<rparr> (entries m)"
  by (simp_all add: bm_stamp_def bm_allocate_generation_def)

lemma evict_commute:
  "bm_evict_oldest (m\<lparr>next_generation := n\<rparr>) = (bm_evict_oldest m)\<lparr>next_generation := n\<rparr>"
  by (simp add: bm_evict_oldest_def split_beta Let_def)

lemma insert_old:
  "map_of (entries m) k = Some e \<Longrightarrow> bm_insert k v m = (Some (entry_value e), bm_stamp k v m)"
  by (simp add: bm_insert_def bm_stamp_def bm_allocate_generation_def Let_def)

lemma insert_new:
  "map_of (entries m) k = None \<Longrightarrow>
   bm_insert k v m = (None, bm_stamp k v (if bm_len m \<ge> max_entries m then bm_evict_oldest m else m))"
  by (simp add: bm_insert_def bm_stamp_def bm_allocate_generation_def Let_def evict_commute bm_len_def)

lemma touch_absent: "map_of (entries m) k = None \<Longrightarrow> bm_touch k m = m"
  by (simp add: bm_touch_def bm_contains_key_def)

lemma touch_present:
  "map_of (entries m) k = Some e \<Longrightarrow> bm_touch k m = bm_stamp k (entry_value e) m"
  by (cases e) (simp add: bm_touch_def bm_contains_key_def bm_stamp_def bm_allocate_generation_def Let_def)

lemma get_mut_absent: "map_of (entries m) k = None \<Longrightarrow> bm_get_mut k f m = (None, m)"
  by (simp add: bm_get_mut_def bm_contains_key_def)

lemma get_mut_present:
  "map_of (entries m) k = Some e \<Longrightarrow>
   bm_get_mut k f m = (Some (entry_value e), bm_stamp k (f (entry_value e)) m)"
  by (simp add: bm_get_mut_def bm_contains_key_def bm_stamp_def bm_allocate_generation_def Let_def)

lemmas bm_as_stamp = insert_old insert_new touch_absent touch_present get_mut_absent get_mut_present

section \<open>Eviction\<close>

definition live_pair :: "('k \<times> 'v entry) list \<Rightarrow> 'k \<times> nat \<Rightarrow> bool" where
  "live_pair es p \<longleftrightarrow> (\<exists>e. map_of es (fst p) = Some e \<and> entry_generation e = snd p)"

lemma evict_loop_cases:
  assumes "bm_evict_loop q es = (q', es')"
  obtains (none) "\<forall>p \<in> set q. \<not> live_pair es p" "q' = []" "es' = es"
  | (hit) pre k g where "q = pre @ (k, g) # q'" "\<forall>p \<in> set pre. \<not> live_pair es p"
      "live_pair es (k, g)" "es' = AList.delete k es"
proof -
  have "(\<forall>p \<in> set q. \<not> live_pair es p) \<and> q' = [] \<and> es' = es \<or>
     (\<exists>pre k g. q = pre @ (k, g) # q' \<and> (\<forall>p \<in> set pre. \<not> live_pair es p) \<and>
        live_pair es (k, g) \<and> es' = AList.delete k es)"
    using assms
  proof (induction q es rule: bm_evict_loop.induct)
    case (2 k g q es)
    show ?case
    proof (cases "live_pair es (k, g)")
      case True
      then have "q' = q" "es' = AList.delete k es"
        using 2 by (auto simp: live_pair_def split: option.splits)
      then show ?thesis
        using True by fastforce
    next
      case False
      then have nl: "\<not> (case map_of es k of None \<Rightarrow> False | Some e \<Rightarrow> entry_generation e = g)"
        by (auto simp: live_pair_def split: option.splits)
      then have "bm_evict_loop q es = (q', es')"
        using 2(2) by simp
      from 2(1) [OF nl this] show ?thesis
        using False by (metis (no_types, lifting) append_Cons set_ConsD)
    qed
  qed simp
  then show thesis
    using none hit by blast
qed

lemma orphan_iff:
  "k \<in> bm_orphans m \<longleftrightarrow> (\<exists>e. map_of (entries m) k = Some e \<and> (k, entry_generation e) \<notin> set (order m))"
  by (simp add: bm_orphans_def)

lemma not_orphan_live:
  "map_of (entries m) k = Some e \<Longrightarrow> k \<notin> bm_orphans m \<Longrightarrow>
   (k, entry_generation e) \<in> set (order m) \<and> live_pair (entries m) (k, entry_generation e)"
  by (auto simp: bm_orphans_def live_pair_def)

lemma evict_effect:
  assumes "\<exists>k e. map_of (entries m) k = Some e \<and> k \<notin> bm_orphans m"
  obtains pre k g where "order m = pre @ (k, g) # order (bm_evict_oldest m)"
    "\<forall>p \<in> set pre. \<not> live_pair (entries m) p" "live_pair (entries m) (k, g)"
    "entries (bm_evict_oldest m) = AList.delete k (entries m)"
proof -
  obtain q es where l: "bm_evict_loop (order m) (entries m) = (q, es)"
    by fastforce
  have e: "order (bm_evict_oldest m) = q" "entries (bm_evict_oldest m) = es"
    by (simp_all add: bm_evict_oldest_def l)
  from l show thesis
  proof (cases rule: evict_loop_cases)
    case none
    then show ?thesis
      using assms not_orphan_live by metis
  qed (use e that in auto)
qed

lemma evict_subset:
  "bm_orphans (bm_evict_oldest m) \<subseteq> bm_orphans m"
  "distinct (keys (entries m)) \<Longrightarrow> distinct (keys (entries (bm_evict_oldest m)))"
  "map_of (entries (bm_evict_oldest m)) k = Some e \<Longrightarrow> map_of (entries m) k = Some e"
  "\<exists>pre. order m = pre @ order (bm_evict_oldest m)"
proof -
  obtain q es where l: "bm_evict_loop (order m) (entries m) = (q, es)"
    by fastforce
  have e: "order (bm_evict_oldest m) = q" "entries (bm_evict_oldest m) = es"
    by (simp_all add: bm_evict_oldest_def l)
  from l have 1: "(es = entries m \<and> q = [] \<and> (\<forall>p \<in> set (order m). \<not> live_pair (entries m) p)) \<or>
    (\<exists>pre k g. order m = pre @ (k, g) # q \<and> (\<forall>p \<in> set pre. \<not> live_pair (entries m) p) \<and>
       es = AList.delete k (entries m))"
    by (cases rule: evict_loop_cases) auto
  then show "bm_orphans (bm_evict_oldest m) \<subseteq> bm_orphans m"
    unfolding bm_orphans_def e by (fastforce simp: live_pair_def split: if_splits)
  show "distinct (keys (entries m)) \<Longrightarrow> distinct (keys (entries (bm_evict_oldest m)))"
    using 1 by (auto simp: e distinct_delete_keys)
  show "map_of (entries (bm_evict_oldest m)) k = Some e \<Longrightarrow> map_of (entries m) k = Some e"
    using 1 by (auto simp: e split: if_splits)
  show "\<exists>pre. order m = pre @ order (bm_evict_oldest m)"
    using 1 by (metis e(1) append.right_neutral append_Cons append_Nil append_assoc)
qed

section \<open>Every operation preserves well-formedness\<close>

lemma compact_orphans:
  "bm_max_order_len m < length (order m) \<Longrightarrow>
   (k, g) \<in> set (order (bm_compact_order_if_needed m)) \<longleftrightarrow>
   (\<exists>e. (k, e) \<in> set (entries m) \<and> g = entry_generation e)"
  by (auto simp: bm_compact_order_if_needed_def intro: rev_image_eqI)

lemma stamp_orphans:
  assumes "distinct (keys (entries m))"
  shows "bm_orphans (bm_stamp k v m) \<subseteq> bm_orphans m - {k} \<or> bm_orphans (bm_stamp k v m) \<subseteq> {k}"
proof (cases "Suc (length (order m)) \<le> bm_max_order_len m")
  case True
  then have "order (bm_stamp k v m) = order m @ [(k, next_generation m)]"
    by (simp add: bm_stamp_def bm_allocate_generation_def bm_compact_order_if_needed_def
        bm_push_order_def bm_max_order_len_def)
  then have "bm_orphans (bm_stamp k v m) \<subseteq> bm_orphans m - {k}"
    by (auto simp: orphan_iff split: if_splits)
  then show ?thesis ..
next
  case False
  let ?m = "bm_push_order k (next_generation m) (m\<lparr>next_generation := sat_add (next_generation m) 1\<rparr>)"
  have o: "order (bm_stamp k v m) = order (bm_compact_order_if_needed ?m)"
    by (simp add: bm_stamp_def bm_allocate_generation_def)
  have "bm_max_order_len ?m < length (order ?m)"
    using False by (simp add: bm_max_order_len_def)
  note c = compact_orphans [OF this]
  have "j = k" if j: "j \<in> bm_orphans (bm_stamp k v m)" for j
  proof (rule ccontr)
    assume "j \<noteq> k"
    then obtain e where e: "map_of (entries m) j = Some e"
      "(j, entry_generation e) \<notin> set (order (bm_compact_order_if_needed ?m))"
      using j unfolding orphan_iff o by auto
    from e(2) map_of_SomeD [OF e(1)] show False
      unfolding c by auto
  qed
  then have "bm_orphans (bm_stamp k v m) \<subseteq> {k}"
    by auto
  then show ?thesis ..
qed

lemma stamp_one_orphan:
  assumes "distinct (keys (entries m))" "bm_orphans m \<subseteq> {j}"
  shows "\<exists>i. bm_orphans (bm_stamp k v m) \<subseteq> {i}"
  using stamp_orphans [OF assms(1), of k v] assms(2) by blast

lemma wf_new [inv_intros]: "bm_wf (bm_new n)"
  by (simp add: bm_wf_def bm_new_def bm_orphans_def)

lemma wf_stamp_old:
  assumes "bm_wf m" "map_of (entries m) k = Some e"
  shows "bm_wf (bm_stamp k v m)"
proof -
  have "k \<in> set (keys (entries m))"
    using assms(2) by (metis dom_map_of_keys option.distinct(1))
  then show ?thesis
    using assms stamp_one_orphan [of m _ k v]
    by (auto simp: bm_wf_def length_update distinct_update_keys simp del: set_map)
qed

lemma evict_length:
  assumes wf: "bm_wf m" and full: "max_entries m \<le> length (entries m)"
  shows "Suc (length (entries (bm_evict_oldest m))) \<le> max 2 (max_entries m)"
proof (cases "\<exists>k e. map_of (entries m) k = Some e \<and> k \<notin> bm_orphans m")
  case True
  then obtain k g where k: "live_pair (entries m) (k, g)"
    "entries (bm_evict_oldest m) = AList.delete k (entries m)"
    by (rule evict_effect)
  have "k \<in> set (keys (entries m))"
    using k(1) unfolding live_pair_def by (metis dom_map_of_keys fst_conv option.distinct(1))
  then have "length (entries (bm_evict_oldest m)) = length (entries m) - 1"
    using wf k(2) by (simp add: bm_wf_def length_delete del: set_map)
  then show ?thesis
    using wf full by (auto simp: bm_wf_def)
next
  case False
  obtain j where "bm_orphans m \<subseteq> {j}"
    using wf by (auto simp: bm_wf_def)
  with False have "set (keys (entries m)) \<subseteq> {j}"
    by (metis dom_map_of_keys insert_iff not_Some_eq subsetI subset_iff)
  then have "card (set (keys (entries m))) \<le> 1"
    by (metis One_nat_def card.empty card_insert_disjoint card_mono empty_iff finite.emptyI
        finite_insert)
  then have l: "length (entries m) \<le> 1"
    using wf by (simp add: bm_wf_def length_card_keys del: set_map)
  obtain q es where l': "bm_evict_loop (order m) (entries m) = (q, es)"
    by fastforce
  then have "length es \<le> length (entries m)"
    by (cases rule: evict_loop_cases) (auto simp: length_delete_le)
  then have "length (entries (bm_evict_oldest m)) \<le> length (entries m)"
    by (simp add: bm_evict_oldest_def l')
  then show ?thesis
    using l by simp
qed

lemma wf_insert [inv_intros]:
  assumes "bm_wf m"
  shows "bm_wf (snd (bm_insert k v m))"
proof (cases "map_of (entries m) k")
  case None
  let ?m = "if bm_len m \<ge> max_entries m then bm_evict_oldest m else m"
  have "map_of (entries ?m) k = None"
    using None evict_subset(3) [of m k] by (cases "map_of (entries (bm_evict_oldest m)) k") auto
  moreover obtain j where "bm_orphans m \<subseteq> {j}"
    using assms by (auto simp: bm_wf_def)
  then have o: "bm_orphans ?m \<subseteq> {j}"
    using evict_subset(1) [of m] by auto
  moreover have d: "distinct (keys (entries ?m))"
    using assms evict_subset(2) [of m] by (auto simp: bm_wf_def)
  moreover have "Suc (length (entries ?m)) \<le> max 2 (max_entries m)"
    using assms evict_length [of m] by (auto simp: bm_wf_def bm_len_def)
  moreover have "1 \<le> max_entries m"
    using assms by (simp add: bm_wf_def)
  ultimately have "bm_wf (bm_stamp k v ?m)"
    using stamp_one_orphan [OF d o, of k v]
    by (simp add: bm_wf_def length_update distinct_update_keys dom_map_of_keys del: set_map)
      (auto split: if_splits)
  then show ?thesis
    by (simp add: insert_new [OF None])
qed (simp add: insert_old assms wf_stamp_old)

lemma wf_touch [inv_intros]: "bm_wf m \<Longrightarrow> bm_wf (bm_touch k m)"
  by (cases "map_of (entries m) k") (simp_all add: touch_absent touch_present wf_stamp_old)

lemma wf_get_mut [inv_intros]: "bm_wf m \<Longrightarrow> bm_wf (snd (bm_get_mut k f m))"
  by (cases "map_of (entries m) k") (simp_all add: get_mut_absent get_mut_present wf_stamp_old)

lemma wf_get_cloned_refresh [inv_intros]: "bm_wf m \<Longrightarrow> bm_wf (snd (bm_get_cloned_refresh k m))"
  by (auto simp: bm_get_cloned_refresh_def wf_touch split: option.splits)

lemma remove_orphans:
  assumes "distinct (keys (entries m))"
  shows "bm_orphans (snd (bm_remove k m)) \<subseteq> bm_orphans m"
proof (cases "map_of (entries m) k")
  case (Some e)
  let ?m = "m\<lparr>entries := AList.delete k (entries m)\<rparr>"
  have s: "snd (bm_remove k m) = bm_compact_order_if_needed ?m"
    by (simp add: bm_remove_def Some)
  have d: "distinct (keys (entries ?m))"
    using assms by (simp add: distinct_delete_keys)
  show ?thesis
  proof (cases "length (order ?m) \<le> bm_max_order_len ?m")
    case True
    then show ?thesis
      by (auto simp: s bm_compact_order_if_needed_def orphan_iff split: if_splits)
  next
    case False
    then have "bm_max_order_len ?m < length (order ?m)"
      by simp
    from compact_orphans [OF this] show ?thesis
      using d in_set_map_of [OF d] by (auto simp: s orphan_iff)
  qed
qed (simp add: bm_remove_def)

lemma wf_remove [inv_intros]:
  assumes "bm_wf m"
  shows "bm_wf (snd (bm_remove k m))"
proof -
  have "distinct (keys (entries m))"
    using assms by (simp add: bm_wf_def)
  note remove_orphans [OF this, of k]
  then show ?thesis
    using assms length_delete_le [of k "entries m"]
    by (auto simp: bm_wf_def bm_remove_def distinct_delete_keys split: option.splits) 
qed

section \<open>Recency: the order queue is sorted by last use\<close>

lemma recent_new [inv_intros]: "bm_recent (bm_new n)"
  by (simp add: bm_recent_def bm_new_def)

lemma strict_sorted_of_distinct: "sorted xs \<Longrightarrow> distinct xs \<Longrightarrow> sorted_wrt (<) (xs :: nat list)"
  by (simp add: strict_sorted_iff)

lemma compact_recent:
  assumes "bm_recent m" "distinct (keys (entries m))"
  shows "bm_recent (bm_compact_order_if_needed m)"
proof (cases "length (order m) \<le> bm_max_order_len m")
  case False
  let ?a = "map (\<lambda>(k, e). (k, entry_generation e)) (entries m)"
  have "inj_on (entry_generation \<circ> snd) (set (entries m))"
  proof (rule inj_onI)
    fix x y
    assume xy: "x \<in> set (entries m)" "y \<in> set (entries m)" "(entry_generation \<circ> snd) x = (entry_generation \<circ> snd) y"
    obtain a e b f where "x = (a, e)" "y = (b, f)"
      by (cases x, cases y)
    with xy assms show "x = y"
      unfolding bm_recent_def by (metis comp_apply in_set_map_of option.inject snd_conv)
  qed
  moreover have "map snd ?a = map (entry_generation \<circ> snd) (entries m)"
    by (auto simp: comp_def split_beta)
  ultimately have "distinct (map snd ?a)"
    using assms(2) by (metis distinct_map)
  then have "distinct (map snd (sort_key snd ?a))"
    by (simp add: distinct_map_sort_key)
  then have "sorted_wrt (<) (map snd (sort_key snd ?a))"
    by (intro strict_sorted_of_distinct) simp_all
  moreover have "entry_generation e < next_generation m" if "(k, e) \<in> set (entries m)" for k e
    using assms that unfolding bm_recent_def by (metis in_set_map_of)
  then have "\<forall>p \<in> set ?a. snd p < next_generation m"
    by auto
  ultimately show ?thesis
    using assms(1) False by (simp add: bm_compact_order_if_needed_def bm_recent_def)
qed (use assms in \<open>simp add: bm_compact_order_if_needed_def\<close>)

lemma stamp_recent:
  assumes r: "bm_recent m" and d: "distinct (keys (entries m))" and n: "next_generation m < u64_max"
  shows "bm_recent (bm_stamp k v m)"
proof -
  let ?g = "next_generation m"
  let ?m = "bm_push_order k ?g (m\<lparr>next_generation := Suc ?g\<rparr>)"
  have g: "sat_add ?g 1 = Suc ?g"
    using n by (simp add: sat_add_def)
  have "bm_recent ?m"
    using r by (auto simp: bm_recent_def sorted_wrt_append less_Suc_eq)
  then have c: "bm_recent (bm_compact_order_if_needed ?m)"
    using d by (simp add: compact_recent)
  have "bm_stamp k v m = (bm_compact_order_if_needed ?m)
    \<lparr>entries := AList.update k \<lparr>entry_value = v, entry_generation = ?g\<rparr> (entries m)\<rparr>"
    by (simp add: bm_stamp_def bm_allocate_generation_def g [simplified])
  moreover have "entry_generation f \<noteq> ?g" "?g \<noteq> entry_generation f"
    if "map_of (entries m) j = Some f" for j f
    using r that unfolding bm_recent_def by (metis nat_neq_iff)+
  ultimately show ?thesis
    using c r unfolding bm_recent_def by (auto simp: less_Suc_eq)
qed

lemma evict_recent:
  assumes "bm_recent m"
  shows "bm_recent (bm_evict_oldest m)"
proof -
  obtain pre where "order m = pre @ order (bm_evict_oldest m)"
    using evict_subset(4) by blast
  then have "sorted_wrt (<) (map snd (order (bm_evict_oldest m)))"
    "set (order (bm_evict_oldest m)) \<subseteq> set (order m)"
    using assms by (auto simp: bm_recent_def sorted_wrt_append)
  then show ?thesis
    using assms evict_subset(3) [of m] unfolding bm_recent_def evict_simps by blast
qed

lemma recent_insert [inv_intros]:
  assumes "bm_wf m" "bm_recent m" "next_generation m < u64_max"
  shows "bm_recent (snd (bm_insert k v m))"
proof (cases "map_of (entries m) k")
  case None
  then show ?thesis
    using assms evict_recent [of m] evict_subset(2) [of m]
    by (simp add: insert_new stamp_recent bm_wf_def)
qed (use assms in \<open>simp add: insert_old stamp_recent bm_wf_def\<close>)

lemma recent_touch [inv_intros]:
  "bm_wf m \<Longrightarrow> bm_recent m \<Longrightarrow> next_generation m < u64_max \<Longrightarrow> bm_recent (bm_touch k m)"
  by (cases "map_of (entries m) k") (simp_all add: touch_absent touch_present stamp_recent bm_wf_def)

lemma recent_get_mut [inv_intros]:
  "bm_wf m \<Longrightarrow> bm_recent m \<Longrightarrow> next_generation m < u64_max \<Longrightarrow> bm_recent (snd (bm_get_mut k f m))"
  by (cases "map_of (entries m) k") (simp_all add: get_mut_absent get_mut_present stamp_recent bm_wf_def)

lemma recent_remove [inv_intros]:
  assumes "bm_wf m" "bm_recent m"
  shows "bm_recent (snd (bm_remove k m))"
proof (cases "map_of (entries m) k")
  case (Some e)
  have "bm_recent (m\<lparr>entries := AList.delete k (entries m)\<rparr>)"
    using assms(2) unfolding bm_recent_def by (auto split: if_splits)
  then show ?thesis
    using assms(1) by (simp add: bm_remove_def Some compact_recent bm_wf_def distinct_delete_keys)
qed (simp add: bm_remove_def assms)

section \<open>What the operations return and change\<close>

lemma get_insert_same: "bm_get (snd (bm_insert k v m)) k = Some v"
  by (cases "map_of (entries m) k") (simp_all add: bm_get_def insert_old insert_new)

lemma get_stamp: "bm_get (bm_stamp k v m) j = (if j = k then Some v else bm_get m j)"
  by (simp add: bm_get_def)

lemma insert_returns_old: "fst (bm_insert k v m) = bm_get m k"
  by (cases "map_of (entries m) k") (simp_all add: bm_get_def insert_old insert_new)

lemma get_insert_other_present:
  "bm_contains_key m k \<Longrightarrow> bm_get (snd (bm_insert k v m)) j = (if j = k then Some v else bm_get m j)"
  by (cases "map_of (entries m) k") (auto simp: bm_contains_key_def insert_old get_stamp)

lemma get_insert_other_room:
  "bm_len m < max_entries m \<Longrightarrow> bm_get (snd (bm_insert k v m)) j = (if j = k then Some v else bm_get m j)"
  by (cases "map_of (entries m) k") (auto simp: insert_old insert_new get_stamp)

lemma get_touch: "bm_get (bm_touch k m) j = bm_get m j"
  by (cases "map_of (entries m) k") (auto simp: touch_absent touch_present bm_get_def)

lemma get_remove: "bm_get (snd (bm_remove k m)) j = (if j = k then None else bm_get m j)"
  by (auto simp: bm_remove_def bm_get_def split: option.splits)

lemma evict_least_recent:
  assumes wf: "bm_wf m" and r: "bm_recent m"
    and some: "map_of (entries m) i = Some ei" "i \<notin> bm_orphans m"
  obtains k e where "map_of (entries m) k = Some e" "k \<notin> bm_orphans m"
    "entries (bm_evict_oldest m) = AList.delete k (entries m)"
    "\<And>j f. map_of (entries m) j = Some f \<Longrightarrow> j \<notin> bm_orphans m \<Longrightarrow> entry_generation e \<le> entry_generation f"
proof -
  obtain pre k g where o: "order m = pre @ (k, g) # order (bm_evict_oldest m)"
    "\<forall>p \<in> set pre. \<not> live_pair (entries m) p" "live_pair (entries m) (k, g)"
    "entries (bm_evict_oldest m) = AList.delete k (entries m)"
    by (rule evict_effect [of m]) (use some in auto)
  obtain e where e: "map_of (entries m) k = Some e" "entry_generation e = g"
    using o(3) by (auto simp: live_pair_def)
  have "k \<notin> bm_orphans m"
    using o(1) e by (auto simp: orphan_iff)
  moreover have "g \<le> entry_generation f"
    if f: "map_of (entries m) j = Some f" "j \<notin> bm_orphans m" for j f
  proof -
    have l: "(j, entry_generation f) \<in> set (order m)" "live_pair (entries m) (j, entry_generation f)"
      using not_orphan_live [OF f] by auto
    then have "(j, entry_generation f) \<in> set ((k, g) # order (bm_evict_oldest m))"
      using o(1,2) by (metis Un_iff set_append)
    moreover have "\<forall>p \<in> set (order (bm_evict_oldest m)). g < snd p"
      using r unfolding bm_recent_def by (subst (asm) o(1)) (auto simp: sorted_wrt_append)
    ultimately show ?thesis
      by (metis fst_conv less_imp_le order_refl set_ConsD snd_conv)
  qed
  ultimately show thesis
    using that e o(4) by blast
qed

section \<open>Histories of operations\<close>

datatype ('k, 'v) bm_op = Op_Insert 'k 'v | Op_Refresh 'k | Op_Get_Mut 'k 'v | Op_Remove 'k

fun bm_apply :: "('k, 'v) bm_op \<Rightarrow> ('k, 'v) bounded_map \<Rightarrow> ('k, 'v) bounded_map" where
  "bm_apply (Op_Insert k v) m = snd (bm_insert k v m)"
| "bm_apply (Op_Refresh k) m = snd (bm_get_cloned_refresh k m)"
| "bm_apply (Op_Get_Mut k v) m = snd (bm_get_mut k (\<lambda>_. v) m)"
| "bm_apply (Op_Remove k) m = snd (bm_remove k m)"

definition bm_run :: "('k, 'v) bm_op list \<Rightarrow> ('k, 'v) bounded_map \<Rightarrow> ('k, 'v) bounded_map" where
  "bm_run ops m = fold bm_apply ops m"

lemma snd_get_cloned_refresh: "snd (bm_get_cloned_refresh k m) = bm_touch k m"
  by (auto simp: bm_get_cloned_refresh_def touch_absent split: option.splits)

lemma max_touch [simp]: "max_entries (bm_touch k m) = max_entries m"
  by (cases "map_of (entries m) k") (simp_all add: touch_absent touch_present)

lemma max_apply [simp]: "max_entries (bm_apply op m) = max_entries m"
  by (cases op; cases "map_of (entries m) (case op of Op_Insert k _ \<Rightarrow> k | Op_Refresh k \<Rightarrow> k
        | Op_Get_Mut k _ \<Rightarrow> k | Op_Remove k \<Rightarrow> k)")
    (simp_all add: bm_as_stamp snd_get_cloned_refresh bm_remove_def)

lemma gen_apply: "next_generation (bm_apply op m) \<le> Suc (next_generation m)"
proof -
  have s: "sat_add a (Suc 0) \<le> Suc a" for a
    by (simp add: sat_add_def)
  then show ?thesis
    by (cases op; cases "map_of (entries m) (case op of Op_Insert k _ \<Rightarrow> k | Op_Refresh k \<Rightarrow> k
          | Op_Get_Mut k _ \<Rightarrow> k | Op_Remove k \<Rightarrow> k)")
      (simp_all add: bm_as_stamp snd_get_cloned_refresh bm_remove_def)
qed

lemma wf_apply [inv_intros]: "bm_wf m \<Longrightarrow> bm_wf (bm_apply op m)"
  by (cases op) (simp_all add: wf_insert wf_get_mut wf_get_cloned_refresh wf_remove)

lemma recent_apply [inv_intros]:
  "bm_wf m \<Longrightarrow> bm_recent m \<Longrightarrow> next_generation m < u64_max \<Longrightarrow> bm_recent (bm_apply op m)"
  by (cases op) (simp_all add: recent_insert recent_get_mut snd_get_cloned_refresh recent_touch recent_remove)

lemma wf_run [inv_intros]:
  "bm_wf m \<Longrightarrow> bm_wf (bm_run ops m) \<and> max_entries (bm_run ops m) = max_entries m"
  unfolding bm_run_def by (induction ops arbitrary: m) (simp_all add: wf_apply)

lemma recent_run [inv_intros]:
  assumes "bm_wf m" "bm_recent m" "next_generation m + length ops < u64_max"
  shows "bm_recent (bm_run ops m) \<and> next_generation (bm_run ops m) \<le> next_generation m + length ops"
  using assms unfolding bm_run_def
proof (induction ops arbitrary: m)
  case (Cons op ops)
  note g = gen_apply [of op m]
  have "next_generation (bm_apply op m) + length ops < u64_max"
    using Cons.prems(3) g by simp
  from Cons.IH [OF wf_apply recent_apply this] Cons.prems g show ?case
    by simp
qed simp

text \<open>The map as a bounded memory of keys, the way the dropped-capture audit uses it: for
  capacities of at least two the bound of the interface holds.\<close>

interpretation bm: bounded_memory
  "\<lambda>m. bm_wf m \<and> 2 \<le> max_entries m" bm_contains_key "\<lambda>k m. snd (bm_insert k v m)" bm_len max_entries
  for v
proof
  fix m :: "('a, 'b) bounded_map" and k j :: 'a
  assume m: "bm_wf m \<and> 2 \<le> max_entries m"
  have c: "bm_contains_key m j \<longleftrightarrow> bm_get m j \<noteq> None" for j and m :: "('a, 'b) bounded_map"
    by (simp add: bm_contains_key_def bm_get_def)
  show "bm_wf (snd (bm_insert k v m)) \<and> 2 \<le> max_entries (snd (bm_insert k v m))"
    using m wf_insert max_apply [of "Op_Insert k v" m] by auto
  show "bm_contains_key (snd (bm_insert k v m)) k"
    by (simp add: c get_insert_same)
  show "bm_contains_key (snd (bm_insert k v m)) j \<Longrightarrow> j = k \<or> bm_contains_key m j"
    using evict_subset(3) [of m j]
    by (cases "map_of (entries m) k") (auto simp: bm_contains_key_def insert_old insert_new split: if_splits)
  show "bm_len m < max_entries m \<Longrightarrow> bm_contains_key m j \<Longrightarrow> bm_contains_key (snd (bm_insert k v m)) j"
    by (simp add: c get_insert_other_room)
  show "bm_len (snd (bm_insert k v m)) \<le> Suc (bm_len m)"
  proof -
    obtain q es where l: "bm_evict_loop (order m) (entries m) = (q, es)"
      by fastforce
    then have "length es \<le> length (entries m)"
      by (cases rule: evict_loop_cases) (auto simp: length_delete_le)
    then have "length (entries (bm_evict_oldest m)) \<le> length (entries m)"
      by (simp add: bm_evict_oldest_def l)
    then show ?thesis
      by (cases "map_of (entries m) k") (auto simp: insert_old insert_new bm_len_def length_update)
  qed
  show "bm_len m \<le> max_entries m"
    using m by (auto simp: bm_wf_def bm_len_def)
next
  fix m :: "('a, 'b) bounded_map" and k :: 'a
  show "max_entries (snd (bm_insert k v m)) = max_entries m"
    using max_apply [of "Op_Insert k v" m] by simp
qed

section \<open>Properties\<close>

text \<open>whatever the sequence of inserts, refreshes, mutable accesses and removals, the map never
  holds more than \<open>max 2 n\<close> entries, so the configured capacity is respected for \<open>n \<ge> 2\<close>.\<close>

theorem bm_run_bounded: "bm_len (bm_run ops (bm_new n)) \<le> max 2 n"
  using wf_run [OF wf_new, of ops n] by (auto simp: bm_wf_def bm_len_def bm_new_def)


definition bm_demo :: "(nat, string) bounded_map" where
  "bm_demo = bm_run [Op_Insert 1 ''a'', Op_Insert 2 ''b'', Op_Refresh 1] (bm_new 2)"


text \<open>because the compaction drops the touched key from the order queue, a map of capacity one
  can hold two entries, and a map of capacity two can evict the most recently inserted key
  while an older one stays.\<close>

theorem bm_compaction_orphans_touched_key:
  "bm_len (bm_run (Op_Insert (1::nat) () # replicate 20 (Op_Refresh 1) @ [Op_Insert 2 ()]) (bm_new 1)) = 2
   \<and> bm_contains_key (bm_run ([Op_Insert (1::nat) (), Op_Insert 2 ()] @ replicate 23 (Op_Refresh 1)
         @ [Op_Insert 3 (), Op_Insert 4 ()]) (bm_new 2)) 1
   \<and> \<not> bm_contains_key (bm_run ([Op_Insert (1::nat) (), Op_Insert 2 ()] @ replicate 23 (Op_Refresh 1)
         @ [Op_Insert 3 (), Op_Insert 4 ()]) (bm_new 2)) 3"
  by code_simp

end
