(* ===== verification/Triage.thy ===== *)
theory Triage
  imports Store_Props Bounded_Map
begin

text \<open>
  \<open>triage.rs\<close>: which releases below the High tier get a capture.  The decision on the hydrated
  metadata, the handler that marks a release skipped or sends a capture request, and one pass of the
  audit that resamples releases the policy skipped.  The priority resolver is a state of type \<open>'p\<close>.
\<close>

section \<open>Requests\<close>

datatype capture_retention = Permanent | Ephemeral

record capture_request =
  cq_event :: release_event
  cq_origin :: event_origin
  cq_notify_diff :: bool
  cq_retention :: capture_retention

definition request_observed :: "release_event \<Rightarrow> bool \<Rightarrow> capture_request" where
  "request_observed e notify_diff = \<lparr>cq_event = e, cq_origin = Observed, cq_notify_diff = notify_diff, cq_retention = Permanent\<rparr>"

definition request_triaged :: "release_event \<Rightarrow> bool \<Rightarrow> capture_request" where
  "request_triaged e notify_diff = \<lparr>cq_event = e, cq_origin = Observed, cq_notify_diff = notify_diff, cq_retention = Ephemeral\<rparr>"

definition request_reconstructed :: "release_event \<Rightarrow> bool \<Rightarrow> capture_request" where
  "request_reconstructed e notify_diff = \<lparr>cq_event = e, cq_origin = Reconstructed, cq_notify_diff = notify_diff, cq_retention = Permanent\<rparr>"

record triage_request =
  tq_event :: release_event
  tq_graph :: emitted_graph_evidence
  tq_notify_diff :: bool

record triage_decision =
  td_promote :: bool
  td_reason :: string

record triage_config =
  tc_suspicious_small_artifact_max_bytes :: nat
  tc_ephemeral_scan_max_artifact_bytes :: nat
  tc_dropped_audit_window :: int
  tc_dropped_audit_sample_size :: nat
  tc_dropped_backfill_batch_size :: nat
  tc_dropped_history_size :: nat

section \<open>The decision\<close>

definition fast_triage_decision ::
  "release_event \<Rightarrow> emitted_graph_evidence \<Rightarrow> triage_config \<Rightarrow> triage_decision option" where
  "fast_triage_decision e g config =
     (if tc_ephemeral_scan_max_artifact_bytes config > 0 then None
      else if ev_ecosystem e = CratesIo \<and> ps_tier (event_priority_snapshot e) = Medium
         \<and> gr_reverse_dependents_seen g = 0
      then Some \<lparr>td_promote = False,
        td_reason = ''metadata triage dropped low-impact crates release before metadata hydrate''\<rparr>
      else None)"

definition artifact_sizes :: "captured_release \<Rightarrow> nat list" where
  "artifact_sizes cap = List.map_filter ar_size_bytes (ca_artifacts cap)"

definition suspicious_throwaway_installer_reason ::
  "release_event \<Rightarrow> emitted_graph_evidence \<Rightarrow> captured_release \<Rightarrow> triage_config \<Rightarrow> string option" where
  "suspicious_throwaway_installer_reason e g cap config =
     (let repository_missing = (ca_upstream_repository cap = None
            \<and> (case json_get (ca_details cap) ''repository'' of None \<Rightarrow> True | Some v \<Rightarrow> v = JNull));
          artifact_bytes = (if artifact_sizes cap = [] then u64_max else Min (set (artifact_sizes cap)));
          dependency_count = length (case Option.bind (json_get (ca_details cap) ''dependencies'') as_array of
            Some ds \<Rightarrow> ds | None \<Rightarrow> [])
      in if \<not> capture_has_install_time_execution cap then None
         else if gr_reverse_dependents_seen g > 0 then None
         else if \<not> repository_missing then None
         else if artifact_bytes > tc_suspicious_small_artifact_max_bytes config then None
         else if dependency_count > 1 then None
         else Some (''metadata triage promoted release: small no-repo install-hook package required deep analysis (''
           @ ev_package e @ '')''))"

definition broad_ephemeral_scan_reason :: "captured_release \<Rightarrow> triage_config \<Rightarrow> string option" where
  "broad_ephemeral_scan_reason cap config =
     (if tc_ephemeral_scan_max_artifact_bytes config = 0 then None
      else if artifact_sizes cap = [] then None
      else let artifact_bytes = Min (set (artifact_sizes cap)) in
        if artifact_bytes > tc_ephemeral_scan_max_artifact_bytes config then None
        else Some (''metadata triage promoted release: artifact eligible for ephemeral content-risk scan (''
          @ show_nat artifact_bytes @ '' bytes)''))"

definition triage_decision ::
  "codecs \<Rightarrow> release_event \<Rightarrow> emitted_graph_evidence \<Rightarrow> captured_release option \<Rightarrow> triage_config \<Rightarrow> triage_decision" where
  "triage_decision c e g hydrated config =
     (if ps_tier (event_priority_snapshot e) = High
      then \<lparr>td_promote = True, td_reason = ''high-priority release bypassed metadata triage''\<rparr>
      else case hydrated of
        None \<Rightarrow> \<lparr>td_promote = False, td_reason = ''metadata triage could not resolve release metadata''\<rparr>
      | Some cap \<Rightarrow>
          let risk = captured_metadata_risk c cap in
          if mr_suspicious risk
          then \<lparr>td_promote = True, td_reason = ''metadata triage promoted release: '' @ mr_reason risk\<rparr>
          else case suspicious_throwaway_installer_reason e g cap config of
            Some reason \<Rightarrow> \<lparr>td_promote = True, td_reason = reason\<rparr>
          | None \<Rightarrow>
              if capture_has_install_time_execution cap
              then \<lparr>td_promote = True, td_reason =
                (if capture_has_benign_install_time_execution cap
                 then ''metadata triage promoted release: install-time execution present''
                 else ''metadata triage promoted release: risky install-time execution present'')\<rparr>
              else if gr_reverse_dependents_seen g > 0 \<and> mr_score risk > 0
              then \<lparr>td_promote = True, td_reason =
                ''metadata triage promoted release: graph impact strengthened suspicious metadata''\<rparr>
              else case broad_ephemeral_scan_reason cap config of
                Some reason \<Rightarrow> \<lparr>td_promote = True, td_reason = reason\<rparr>
              | None \<Rightarrow> \<lparr>td_promote = False, td_reason =
                  ''metadata triage dropped low-signal release before capture''\<rparr>)"

section \<open>The handler\<close>

text \<open>The surroundings of one request: the clock, the registry (\<open>hydrate\<close>), the resolver's update,
  whether the capture channel is open and whether the store's transaction commits.\<close>

record 'p triage_env =
  te_now :: datetime
  te_codecs :: codecs
  te_hydrate :: "release_event \<Rightarrow> string + captured_release option"
  te_record_hydrated :: "release_event \<Rightarrow> captured_release \<Rightarrow> 'p \<Rightarrow> 'p option"
  te_channel_open :: bool
  te_mark_ok :: bool

definition mark_capture_skipped :: "bool \<Rightarrow> datetime \<Rightarrow> string \<Rightarrow> string \<Rightarrow> store \<Rightarrow> store \<times> bool" where
  "mark_capture_skipped db_ok now i reason s =
     execute_write_command (\<lambda>_. []) db_ok now (MarkCaptureSkipped i reason) s"

text \<open>The result: resolver, store, the capture requests sent, and success or the error.\<close>

definition drop_release ::
  "'p triage_env \<Rightarrow> release_event \<Rightarrow> string \<Rightarrow> 'p \<Rightarrow> store \<Rightarrow> 'p \<times> store \<times> capture_request list \<times> (string + unit)" where
  "drop_release env e reason p s =
     (case mark_capture_skipped (te_mark_ok env) (te_now env) (ev_event_id e) reason s of
        (s, True) \<Rightarrow> (p, s, [], Inr ()) | (s, False) \<Rightarrow> (p, s, [], Inl ''store write failed''))"

definition handle_triage_request ::
  "'p triage_env \<Rightarrow> triage_config \<Rightarrow> triage_request \<Rightarrow> 'p \<Rightarrow> store
   \<Rightarrow> 'p \<times> store \<times> capture_request list \<times> (string + unit)" where
  "handle_triage_request env config rq p s =
     (let e = tq_event rq; g = tq_graph rq in
      case load_release_record (ev_event_id e) s of
        None \<Rightarrow> (p, s, [], Inl ''release row does not decode'')
      | Some record \<Rightarrow>
          if (case record of Some r \<Rightarrow> rs_capture_state r \<in> {''ready'', ''skipped''} | None \<Rightarrow> False)
          then (p, s, [], Inr ())
          else case fast_triage_decision e g config of
            Some d \<Rightarrow> drop_release env e (td_reason d) p s
          | None \<Rightarrow>
              (case te_hydrate env e of
                 Inl err \<Rightarrow> (p, s, [], Inl err)
               | Inr hydrated \<Rightarrow>
                   let d = triage_decision (te_codecs env) e g hydrated config in
                   if td_promote d then
                     if te_channel_open env then (p, s, [request_triaged e (tq_notify_diff rq)], Inr ())
                     else (p, s, [], Inl ''capture worker channel closed'')
                   else case hydrated of
                       Some cap \<Rightarrow> (case te_record_hydrated env e cap p of
                           None \<Rightarrow> (p, s, [], Inl ''failed to record hydrated metadata'')
                         | Some p \<Rightarrow> drop_release env e (td_reason d) p s)
                     | None \<Rightarrow> drop_release env e (td_reason d) p s))"

section \<open>The audit of dropped releases\<close>

text \<open>The backfill takes the newest records that the window has not seen; \<open>'h\<close> is the key of the
  standard library's hash.\<close>

definition audit_backfill ::
  "nat \<Rightarrow> release_record_status list \<Rightarrow> (string, unit) bounded_map \<Rightarrow> release_event list
   \<Rightarrow> (string, unit) bounded_map \<times> release_event list" where
  "audit_backfill batch records seen selected =
     fold (\<lambda>r (seen, selected). let i = ev_event_id (rs_event r) in
         if bm_contains_key seen i then (seen, selected)
         else (snd (bm_insert i () seen), selected @ [rs_event r]))
       (take batch records) (seen, selected)"

fun audit_sample ::
  "nat \<Rightarrow> release_record_status list \<Rightarrow> (string, unit) bounded_map \<Rightarrow> release_event list
   \<Rightarrow> (string, unit) bounded_map \<times> release_event list" where
  "audit_sample max_selected [] seen selected = (seen, selected)"
| "audit_sample max_selected (r # rs) seen selected =
     (if length selected \<ge> max_selected then (seen, selected)
      else let i = ev_event_id (rs_event r) in
        if bm_contains_key seen i then audit_sample max_selected rs seen selected
        else audit_sample max_selected rs (snd (bm_insert i () seen)) (selected @ [rs_event r]))"

definition audit_candidate_limit :: "triage_config \<Rightarrow> nat" where
  "audit_candidate_limit config = max (sat_mul (sat_add (tc_dropped_audit_sample_size config)
     (tc_dropped_backfill_batch_size config)) 20) 32"

definition audit_select ::
  "(string \<Rightarrow> nat) \<Rightarrow> triage_config \<Rightarrow> release_record_status list \<Rightarrow> (string, unit) bounded_map
   \<Rightarrow> (string, unit) bounded_map \<times> release_event list" where
  "audit_select stable_event_hash config records seen =
     (case audit_backfill (tc_dropped_backfill_batch_size config) records seen [] of (seen, selected) \<Rightarrow>
        if tc_dropped_audit_sample_size config > 0
        then audit_sample (sat_add (tc_dropped_backfill_batch_size config) (tc_dropped_audit_sample_size config))
          (take (sat_mul (tc_dropped_audit_sample_size config) 8)
            (sort_key (\<lambda>r. stable_event_hash (ev_event_id (rs_event r))) records)) seen selected
        else (seen, selected))"

text \<open>One pass: the window, and the requests sent while the channel is open; \<open>None\<close> is an error.\<close>

definition run_dropped_capture_audit_once ::
  "(string \<Rightarrow> nat) \<Rightarrow> datetime \<Rightarrow> triage_config \<Rightarrow> bool \<Rightarrow> store \<Rightarrow> (string, unit) bounded_map
   \<Rightarrow> (string, unit) bounded_map \<times> capture_request list option" where
  "run_dropped_capture_audit_once stable_event_hash now config channel_open s seen =
     (case load_skipped_capture_records None None (Some (now - tc_dropped_audit_window config))
             (Some (audit_candidate_limit config)) s of
        None \<Rightarrow> (seen, None)
      | Some records \<Rightarrow>
          if records = [] then (seen, Some [])
          else case audit_select stable_event_hash config records seen of (seen, selected) \<Rightarrow>
            (seen, if channel_open then Some (map (\<lambda>e. request_triaged e False) selected)
                   else if selected = [] then Some [] else None))"

section \<open>What the decision and the handler do\<close>

lemma throwaway_installs:
  "suspicious_throwaway_installer_reason e g cap config = Some r \<Longrightarrow> capture_has_install_time_execution cap"
  by (simp add: suspicious_throwaway_installer_reason_def Let_def split: if_splits)

lemma broad_scan_iff:
  "broad_ephemeral_scan_reason cap config \<noteq> None \<longleftrightarrow>
     (\<exists>n \<in> set (artifact_sizes cap). 0 < tc_ephemeral_scan_max_artifact_bytes config
        \<and> n \<le> tc_ephemeral_scan_max_artifact_bytes config)"
proof -
  have "xs \<noteq> [] \<Longrightarrow> Min (set xs) \<le> k \<longleftrightarrow> (\<exists>n \<in> set xs. n \<le> k)" for xs :: "nat list" and k
    by (simp add: Min_le_iff)
  then show ?thesis
    by (auto simp: broad_ephemeral_scan_reason_def Let_def not_less)
qed

text \<open>the triage policy.  A release is promoted to a capture exactly when its tier is High, or its
  registry metadata resolved and shows malware-shaped metadata, an install hook, a graph impact on top of
  a positive metadata score, or an artifact small enough for the ephemeral scan; the throwaway-installer
  rule only chooses the reason.\<close>

theorem triage_promotes_iff:
  "td_promote (triage_decision c e g hydrated config) \<longleftrightarrow>
     ps_tier (event_priority_snapshot e) = High
     \<or> (\<exists>cap. hydrated = Some cap
        \<and> (mr_suspicious (captured_metadata_risk c cap) \<or> capture_has_install_time_execution cap
           \<or> 0 < gr_reverse_dependents_seen g \<and> 0 < mr_score (captured_metadata_risk c cap)
           \<or> (\<exists>n \<in> set (artifact_sizes cap). 0 < tc_ephemeral_scan_max_artifact_bytes config
               \<and> n \<le> tc_ephemeral_scan_max_artifact_bytes config)))"
proof (cases hydrated)
  case (Some cap)
  then show ?thesis
    using broad_scan_iff [of cap config]
    by (cases "suspicious_throwaway_installer_reason e g cap config"; cases "broad_ephemeral_scan_reason cap config")
      (auto simp: triage_decision_def Let_def dest: throwaway_installs)
qed (simp add: triage_decision_def)

lemma mark_capture_skipped_cases:
  "mark_capture_skipped ok now i reason s = (s', b) \<Longrightarrow>
   b = ok \<and> s' = (if ok then update_release_row i (\<lambda>r. r\<lparr>rr_capture_state := ''skipped'', rr_capture_status := None,
     rr_capture_artifact_count := None, rr_capture_dir := None, rr_capture_reason := Some reason,
     rr_capture_updated_at := Some now\<rparr>) s else s)"
  by (auto simp: mark_capture_skipped_def execute_write_command_def split: if_splits)

lemma handle_outcomes:
  assumes "handle_triage_request env config rq p s = (p', s', sent, res)"
  shows "(sent = [] \<and> s' = s)
    \<or> (sent = [request_triaged (tq_event rq) (tq_notify_diff rq)] \<and> s' = s \<and> p' = p \<and> res = Inr ())
    \<or> (sent = [] \<and> res = Inr () \<and> (\<exists>reason. mark_capture_skipped True (te_now env) (ev_event_id (tq_event rq)) reason s = (s', True)))"
proof -
  have d: "drop_release env e reason q s = (p', s', sent, res) \<Longrightarrow>
      sent = [] \<and> (s' = s \<or> res = Inr () \<and> mark_capture_skipped True (te_now env) (ev_event_id e) reason s = (s', True))" for e reason q
    by (cases "te_mark_ok env") (auto simp: drop_release_def mark_capture_skipped_def execute_write_command_def)
  show ?thesis
    using assms unfolding handle_triage_request_def Let_def
    by (auto split: option.splits sum.splits if_splits dest!: d)
qed

text \<open>The handler lets a release that the store already has as ready or skipped go.\<close>

lemma handle_settled:
  assumes "map_of (st_release_index s) (ev_event_id (tq_event rq)) = Some r" "row_wf (ev_event_id (tq_event rq)) r"
    "rr_capture_state r \<in> {''ready'', ''skipped''}"
  shows "handle_triage_request env config rq p s = (p, s, [], Inr ())"
proof -
  obtain rec where rec: "release_record_from_row r = Some rec"
    using row_wf_decodes(2) [OF assms(2)] by blast
  then have "rs_capture_state rec = rr_capture_state r"
    by (auto simp: release_record_from_row_def)
  then show ?thesis
    using assms rec by (simp add: handle_triage_request_def Let_def load_release_record_def)
qed

lemma audit_backfill_bound:
  "audit_backfill n records seen selected = (seen', selected') \<Longrightarrow>
   length selected' \<le> length selected + n \<and> set selected' \<subseteq> set selected \<union> rs_event ` set records"
proof (induction n arbitrary: records seen selected)
  case (Suc n)
  show ?case
  proof (cases records)
    case (Cons r rs)
    then show ?thesis
      using Suc.IH [of rs] Suc.prems by (fastforce simp: audit_backfill_def Let_def split: if_splits)
  qed (use Suc in \<open>simp add: audit_backfill_def\<close>)
qed (simp add: audit_backfill_def)

lemma audit_sample_bound:
  "audit_sample m records seen selected = (seen', selected') \<Longrightarrow>
   length selected' \<le> max m (length selected) \<and> set selected' \<subseteq> set selected \<union> rs_event ` set records"
proof (induction m records seen selected rule: audit_sample.induct)
  case (2 m r rs seen selected)
  show ?case
    using 2 by (cases "m \<le> length selected"; cases "bm_contains_key seen (ev_event_id (rs_event r))") (auto simp: max_def split: if_splits)
qed simp

lemma audit_select_bound:
  assumes "audit_select h config records seen = (seen', selected)"
  shows "length selected \<le> tc_dropped_backfill_batch_size config + tc_dropped_audit_sample_size config
    \<and> set selected \<subseteq> rs_event ` set records"
proof -
  let ?b = "tc_dropped_backfill_batch_size config" and ?n = "tc_dropped_audit_sample_size config"
  let ?rs = "take (sat_mul ?n 8) (sort_key (\<lambda>r. h (ev_event_id (rs_event r))) records)"
  obtain seen1 sel1 where b: "audit_backfill ?b records seen [] = (seen1, sel1)"
    by fastforce
  have l: "length sel1 \<le> ?b" "set sel1 \<subseteq> rs_event ` set records"
    using audit_backfill_bound [OF b] by simp_all
  have t: "set ?rs \<subseteq> set records"
    using set_take_subset [of "sat_mul ?n 8"] by fastforce
  show ?thesis
  proof (cases "?n > 0")
    case True
    then have "audit_sample (sat_add ?b ?n) ?rs seen1 sel1 = (seen', selected)"
      using assms by (simp add: audit_select_def b)
    note a = audit_sample_bound [OF this]
    have "set selected \<subseteq> rs_event ` set records"
      using a l(2) image_mono [OF t, of rs_event] by blast
    then show ?thesis
      using a l(1) by (auto simp: sat_add_def)
  qed (use assms l in \<open>simp add: audit_select_def b\<close>)
qed

end
