(* ===== verification/Capture_Worker.thy ===== *)
theory Capture_Worker
  imports Triage
begin

text \<open>
  The capture worker of \<open>capture.rs\<close>: a request is fetched into a workspace directory, recorded, analysed,
  then kept (and a diff requested), promoted from the staging area, or dropped.  The world is the store,
  the files by path, the queue of the diff worker, the graph file and the priority resolver (type \<open>'p\<close>);
  what the registry, the scanner and the file system answer is the environment.  Publishing to the sink
  and the runtime counters change none of these and are left out.
\<close>

section \<open>World and environment\<close>

datatype stored_file = EventJson release_event | CaptureJson captured_release | CaptureError string
  | DiffJson stored_diff | DiffMarkdown string

record diff_request =
  dq_event :: release_event
  dq_force_reason :: "string option"

record 'p world =
  wo_store :: store
  wo_files :: "(string \<times> stored_file) list"
  wo_diff_queue :: "diff_request list"
  wo_graph_file :: "score_input list"
  wo_priority :: 'p

text \<open>The steps that can fail on their own.\<close>

datatype io_step =
    ReadExisting | StoreExisting | CreateDir | WriteEvent | WriteCapture | StoreCapture | WriteErrorFile | StoreFailed
  | WriteScanned | AppendGraph | StoreGraph | StoreRepository | StoreSkipped | PromoteParent | Promote | StoreRetained | DiffChannel

record 'p capture_env =
  ce_io :: "io_step \<Rightarrow> bool"
  ce_now :: datetime
  ce_codecs :: codecs
  ce_enc_sources :: "string list \<Rightarrow> string"
  ce_url_encode :: "string \<Rightarrow> string"
  ce_capture_dir :: string
  ce_staging_dir :: string
  ce_version_burst :: burst_config
  ce_fetch :: "release_event \<Rightarrow> string \<Rightarrow> string + captured_release"
  ce_materialize :: "string \<Rightarrow> captured_release \<Rightarrow> captured_release"
  ce_scan :: "string \<Rightarrow> captured_release \<Rightarrow> string + content_risk"
  ce_repository_of :: "ecosystem \<Rightarrow> captured_release \<Rightarrow> repository_ref option"
  ce_record_captured :: "captured_release \<Rightarrow> 'p \<Rightarrow> 'p"
  ce_previous_capture :: "release_event \<Rightarrow> string + captured_release option"

type_synonym ('p, 'a) outcome = "'p world \<times> (string + 'a)"

definition when_io :: "bool \<Rightarrow> string \<Rightarrow> 'p world \<Rightarrow> ('p world \<Rightarrow> ('p, 'a) outcome) \<Rightarrow> ('p, 'a) outcome" where
  "when_io ok err w k = (if ok then k w else (w, Inl err))"

definition write_file :: "string \<Rightarrow> stored_file \<Rightarrow> 'p world \<Rightarrow> 'p world" where
  "write_file path f w = w\<lparr>wo_files := AList.update path f (wo_files w)\<rparr>"

definition in_dir :: "string \<Rightarrow> string \<Rightarrow> bool" where
  "in_dir dir path = starts_with path (dir @ ''/'')"

definition remove_dir :: "string \<Rightarrow> 'p world \<Rightarrow> 'p world" where
  "remove_dir dir w = w\<lparr>wo_files := filter (\<lambda>(path, _). \<not> in_dir dir path) (wo_files w)\<rparr>"

definition rename_dir :: "string \<Rightarrow> string \<Rightarrow> 'p world \<Rightarrow> 'p world" where
  "rename_dir old new w = w\<lparr>wo_files := map (\<lambda>(path, f).
     (if in_dir old path then new @ drop (length old) path else path, f)) (wo_files w)\<rparr>"

definition store_write :: "'p capture_env \<Rightarrow> io_step \<Rightarrow> write_command \<Rightarrow> 'p world \<Rightarrow> ('p, unit) outcome" where
  "store_write env io c w =
     (case execute_write_command (ce_enc_sources env) (ce_io env io) (ce_now env) c (wo_store w) of
        (s, True) \<Rightarrow> (w\<lparr>wo_store := s\<rparr>, Inr ())
      | (s, False) \<Rightarrow> (w\<lparr>wo_store := s\<rparr>, Inl ''store write failed''))"

definition and_then :: "('p, 'a) outcome \<Rightarrow> ('p world \<Rightarrow> 'a \<Rightarrow> ('p, 'b) outcome) \<Rightarrow> ('p, 'b) outcome" where
  "and_then r k = (case r of (w, Inr a) \<Rightarrow> k w a | (w, Inl err) \<Rightarrow> (w, Inl err))"

text \<open>The old directory goes, the staged one takes its name.\<close>

definition promote_capture_dir :: "'p capture_env \<Rightarrow> string \<Rightarrow> string \<Rightarrow> 'p world \<Rightarrow> ('p, string) outcome" where
  "promote_capture_dir env staging final w =
     when_io (ce_io env PromoteParent) ''failed to create capture dir'' w (\<lambda>w.
     when_io (ce_io env Promote) ''failed to promote staged capture'' (remove_dir final w) (\<lambda>w.
       (rename_dir staging final w, Inr final)))"

section \<open>Paths and the diff queue\<close>

definition capture_path_for_event :: "'p capture_env \<Rightarrow> release_event \<Rightarrow> string" where
  "capture_path_for_event env e =
     path_join (path_join (path_join (ce_capture_dir env) (ecosystem_as_str (ev_ecosystem e)))
       (ce_url_encode env (ev_package e))) (ce_url_encode env (ev_version e))"

definition capture_workspace_path_for_request :: "'p capture_env \<Rightarrow> release_event \<Rightarrow> capture_retention \<Rightarrow> string" where
  "capture_workspace_path_for_request env e retention = (case retention of
     Permanent \<Rightarrow> capture_path_for_event env e
   | Ephemeral \<Rightarrow> path_join (ce_staging_dir env) (ce_url_encode env (ev_event_id e)))"

definition notify_diff_worker :: "'p capture_env \<Rightarrow> release_event \<Rightarrow> string option \<Rightarrow> 'p world \<Rightarrow> 'p world" where
  "notify_diff_worker env e force_reason w =
     (if ce_io env DiffChannel
      then w\<lparr>wo_diff_queue := wo_diff_queue w @ [\<lparr>dq_event = e, dq_force_reason = force_reason\<rparr>]\<rparr> else w)"

definition index_existing_capture ::
  "'p capture_env \<Rightarrow> release_event \<Rightarrow> event_origin \<Rightarrow> string \<Rightarrow> 'p world \<Rightarrow> ('p, unit) outcome" where
  "index_existing_capture env e origin dir w =
     when_io (ce_io env ReadExisting) ''failed to read capture.json'' w (\<lambda>w.
       case map_of (wo_files w) (path_join dir ''capture.json'') of
         Some (CaptureJson cap) \<Rightarrow> store_write env StoreExisting (RecordCapture e origin dir cap) w
       | _ \<Rightarrow> (w, Inl ''failed to parse capture.json''))"

section \<open>Fetching\<close>

record post_capture_request =
  po_event :: release_event
  po_origin :: event_origin
  po_notify_diff :: bool
  po_retention :: capture_retention
  po_capture_dir :: string
  po_final_capture_dir :: string
  po_capture :: captured_release

definition fail_capture ::
  "'p capture_env \<Rightarrow> string \<Rightarrow> release_event \<Rightarrow> ('p, 'a) outcome \<Rightarrow> ('p, 'a) outcome" where
  "fail_capture env dir e r = (case r of
     (w, Inr a) \<Rightarrow> (w, Inr a)
   | (w, Inl err) \<Rightarrow>
       and_then (store_write env StoreFailed (MarkCaptureFailed (ev_event_id e) err)
           (if ce_io env WriteErrorFile then write_file (path_join dir ''capture-error.json'') (CaptureError err) w else w))
         (\<lambda>w _. (w, Inl err)))"

definition fetch_capture ::
  "'p capture_env \<Rightarrow> capture_request \<Rightarrow> 'p world \<Rightarrow> ('p, post_capture_request option) outcome" where
  "fetch_capture env rq w =
     (let e = cq_event rq;
          final_dir = capture_path_for_event env e;
          dir = capture_workspace_path_for_request env e (cq_retention rq) in
      if map_of (wo_files w) (path_join final_dir ''capture.json'') \<noteq> None then
        and_then (index_existing_capture env e (cq_origin rq) final_dir w) (\<lambda>w _.
          (if cq_notify_diff rq then notify_diff_worker env e None w else w, Inr None))
      else
        when_io (ce_io env CreateDir) ''failed to create capture dir''
          (if cq_retention rq = Ephemeral then remove_dir dir w else w) (\<lambda>w.
        when_io (ce_io env WriteEvent) ''failed to write event.json'' w (\<lambda>w.
          let w = write_file (path_join dir ''event.json'') (EventJson e) w in
          case ce_fetch env e dir of
            Inl err \<Rightarrow> (w, Inl err)
          | Inr cap \<Rightarrow>
              when_io (ce_io env WriteCapture) ''failed to write capture.json'' w (\<lambda>w.
                let w = write_file (path_join dir ''capture.json'') (CaptureJson cap) w in
                and_then (if cq_retention rq = Permanent
                    then store_write env StoreCapture (RecordCapture e (cq_origin rq) dir cap) w
                    else (w, Inr ())) (\<lambda>w _.
                  (w, Inr (Some \<lparr>po_event = e, po_origin = cq_origin rq, po_notify_diff = cq_notify_diff rq,
                     po_retention = cq_retention rq, po_capture_dir = dir, po_final_capture_dir = final_dir,
                     po_capture = cap\<rparr>)))))))"

definition fetch_capture_if_missing ::
  "'p capture_env \<Rightarrow> capture_request \<Rightarrow> 'p world \<Rightarrow> ('p, post_capture_request option) outcome" where
  "fetch_capture_if_missing env rq w =
     fail_capture env (capture_workspace_path_for_request env (cq_event rq) (cq_retention rq)) (cq_event rq)
       (fetch_capture env rq w)"

section \<open>After the capture\<close>

definition compute_version_burst :: "'p capture_env \<Rightarrow> release_event \<Rightarrow> captured_release \<Rightarrow> store \<Rightarrow> version_burst" where
  "compute_version_burst env e cap s =
     (let config = ce_version_burst env;
          since = ce_now env - burst_window config;
          timestamps = load_package_release_times_since (ev_ecosystem e) (ev_package e) since s;
          candidate_at = max (case ca_published_at cap of Some t \<Rightarrow> t | None \<Rightarrow> ca_observed_at cap) (ev_observed_at e)
      in evaluate_version_burst (timestamps @ [(ca_version cap, candidate_at)]) config)"

text \<open>\<open>remdups_adj (sort xs)\<close> is \<open>sort\<close> then \<open>dedup\<close>.\<close>

definition new_dependencies_since_previous_capture ::
  "'p capture_env \<Rightarrow> release_event \<Rightarrow> captured_release \<Rightarrow> string + string list" where
  "new_dependencies_since_previous_capture env e cap =
     (let current = captured_dependency_names cap in
      if current = [] then Inr []
      else case ce_previous_capture env e of
        Inl err \<Rightarrow> Inl err
      | Inr None \<Rightarrow> Inr []
      | Inr (Some previous) \<Rightarrow>
          Inr (remdups_adj (sort (filter (\<lambda>d. d \<notin> set (captured_dependency_names previous)) current))))"

definition diff_escalation_reason ::
  "'p capture_env \<Rightarrow> release_event \<Rightarrow> captured_release \<Rightarrow> store \<Rightarrow> string + string option" where
  "diff_escalation_reason env e cap s =
     (let prerelease = is_prerelease_version (ev_version e);
          risky = capture_has_install_time_execution cap
            \<and> \<not> capture_has_longstanding_install_time_execution cap
            \<and> \<not> capture_has_benign_install_time_execution cap;
          graph = load_graph_evidence (\<lambda>_. []) (ev_ecosystem e) (ev_package e) s;
          downstream_impact = (ps_tier (event_priority_snapshot e) \<in> {Medium, High}
            \<or> (case graph of Some g \<Rightarrow> ge_reverse_dependents_seen g > 0 | None \<Rightarrow> False));
          metadata_risk = captured_metadata_risk (ce_codecs env) cap;
          content_risk = captured_content_risk (ce_codecs env) cap
      in if mr_suspicious metadata_risk then
           Inr (Some (''post-capture diff escalation: malware-shaped metadata ['' @ join_strings '', '' (mr_factors metadata_risk) @ '']''))
         else if cr_suspicious content_risk then
           Inr (Some (''post-capture diff escalation: malware-shaped content ['' @ join_strings '', '' (cr_factors content_risk) @ '']''))
         else if risky then Inr (Some ''post-capture diff escalation: install-time execution observed'')
         else if (case ca_upstream_repository cap of Some r \<Rightarrow> rp_suspicious r | None \<Rightarrow> False)
           \<and> \<not> prerelease \<and> downstream_impact
         then Inr (Some ''post-capture diff escalation: stable upstream mismatch on impacted package'')
         else case new_dependencies_since_previous_capture env e cap of
             Inl err \<Rightarrow> Inl err
           | Inr new \<Rightarrow> if new \<noteq> [] \<and> downstream_impact
               then Inr (Some (''post-capture diff escalation: introduced new dependencies ['' @ join_strings '', '' new @ '']''))
               else Inr None)"

definition captured_analysis :: "'p capture_env \<Rightarrow> string \<Rightarrow> release_event \<Rightarrow> captured_release \<Rightarrow> store
   \<Rightarrow> captured_release \<times> version_burst" where
  "captured_analysis env dir e cap s =
     (let cap = ce_materialize env dir cap;
          risk = scan_captured_release (ce_scan env dir cap);
          cap = cap\<lparr>ca_details := set_capture_detail ''content_risk'' (Some (enc_content (ce_codecs env) risk)) (ca_details cap)\<rparr>;
          burst = compute_version_burst env e cap s
      in (cap\<lparr>ca_details := set_capture_detail ''version_burst'' (Some (enc_burst (ce_codecs env) burst)) (ca_details cap)\<rparr>, burst))"

text \<open>The graph, the repository and the resolver learn the capture.\<close>

definition record_knowledge :: "'p capture_env \<Rightarrow> release_event \<Rightarrow> captured_release \<Rightarrow> 'p world \<Rightarrow> ('p, unit) outcome" where
  "record_knowledge env e cap w =
     (let records = graph_records_from_captured_release cap in
      and_then (if records = [] then (w, Inr ())
          else when_io (ce_io env AppendGraph) ''failed to append graph file'' w (\<lambda>w.
            store_write env StoreGraph (RecordGraphRecords records) (w\<lparr>wo_graph_file := wo_graph_file w @ records\<rparr>))) (\<lambda>w _.
      and_then (case ce_repository_of env (ev_ecosystem e) cap of
            Some r \<Rightarrow> store_write env StoreRepository (RecordRepositoryRef
               (r\<lparr>rf_package := normalize_package_name (rf_ecosystem r) (rf_package r)\<rparr>) (Some (ca_version cap))) w
          | None \<Rightarrow> (w, Inr ())) (\<lambda>w _.
      (w\<lparr>wo_priority := ce_record_captured env cap (wo_priority w)\<rparr>, Inr ()))))"

definition settle_capture ::
  "'p capture_env \<Rightarrow> post_capture_request \<Rightarrow> captured_release \<Rightarrow> string option \<Rightarrow> bool \<Rightarrow> 'p world \<Rightarrow> ('p, unit) outcome" where
  "settle_capture env rq cap force_reason burst_suspicious w =
     (let e = po_event rq; dir = po_capture_dir rq;
          retain = po_retention rq = Permanent \<or> should_retain_captured_release (ce_codecs env) cap \<or> po_notify_diff rq
            \<or> force_reason \<noteq> None \<or> burst_suspicious
      in if \<not> retain then
           and_then (store_write env StoreSkipped (MarkCaptureSkipped (ev_event_id e)
               ''post-analysis dropped low-signal triaged capture'') w)
             (\<lambda>w _. (remove_dir dir w, Inr ()))
         else
           and_then (if po_retention rq = Ephemeral
               then promote_capture_dir env dir (po_final_capture_dir rq) w
               else (w, Inr dir)) (\<lambda>w retained_dir.
           and_then (store_write env StoreRetained (RecordCapture e (po_origin rq) retained_dir cap) w) (\<lambda>w _.
             (if po_notify_diff rq \<or> force_reason \<noteq> None then notify_diff_worker env e force_reason w else w, Inr ()))))"

definition analyse_capture :: "'p capture_env \<Rightarrow> post_capture_request \<Rightarrow> 'p world \<Rightarrow> ('p, unit) outcome" where
  "analyse_capture env rq w =
     (let e = po_event rq;
          (cap, burst) = captured_analysis env (po_capture_dir rq) e (po_capture rq) (wo_store w) in
      when_io (ce_io env WriteScanned) ''failed to write capture.json'' w (\<lambda>w.
      and_then (record_knowledge env e cap (write_file (path_join (po_capture_dir rq) ''capture.json'') (CaptureJson cap) w)) (\<lambda>w _.
        case (if po_notify_diff rq then Inr None else diff_escalation_reason env e cap (wo_store w)) of
          Inl err \<Rightarrow> (w, Inl err)
        | Inr force_reason \<Rightarrow>
            settle_capture env rq cap force_reason (vb_suspicious burst) w)))"

definition post_process_capture :: "'p capture_env \<Rightarrow> post_capture_request \<Rightarrow> 'p world \<Rightarrow> ('p, unit) outcome" where
  "post_process_capture env rq w = fail_capture env (po_capture_dir rq) (po_event rq) (analyse_capture env rq w)"

end
