(* ===== verification/Diff_Worker.thy ===== *)
theory Diff_Worker
  imports Capture_Worker
begin

text \<open>
  \<open>autodiff.rs\<close>: the worker that diffs a captured release against its predecessor.  A request is refused
  by the policy, answered by the files that are already there, or built (with one lineage backfill when
  there is no baseline), written, and recorded.  The diff itself, the backfill and the provenance check of
  a crate's commit are answers of the environment.
\<close>

definition diff_request_new :: "release_event \<Rightarrow> diff_request" where
  "diff_request_new e = \<lparr>dq_event = e, dq_force_reason = None\<rparr>"

definition diff_request_forced :: "release_event \<Rightarrow> string \<Rightarrow> diff_request" where
  "diff_request_forced e reason = \<lparr>dq_event = e, dq_force_reason = Some reason\<rparr>"

datatype diff_io = StoreDiffSkipped | CreateDiffDir | ReadDiff | ReadCapture | RewriteCapture | StoreProvenance
  | WriteDiff | WriteMarkdown | StoreDiff | StoreDiffFailed

datatype lineage_backfill = Backfilled | NoPreviousRelease | TargetNotVisibleOnline

record diff_env =
  de_io :: "diff_io \<Rightarrow> bool"
  de_now :: datetime
  de_dir_of :: "release_event \<Rightarrow> string"
  de_write_markdown :: bool
  de_backfill_lineage :: bool
  de_build :: "bool \<Rightarrow> release_event \<Rightarrow> string + stored_diff"
  de_backfill :: "release_event \<Rightarrow> string + lineage_backfill"
  de_commit_provenance :: "repository_provenance \<Rightarrow> string \<Rightarrow> string \<Rightarrow> string + repository_provenance option"
  de_render :: "stored_diff \<Rightarrow> string"

text \<open>\<open>de_build backfilled\<close> is the diff before and after the lineage was extended.\<close>

definition diff_store_write :: "diff_env \<Rightarrow> diff_io \<Rightarrow> write_command \<Rightarrow> 'p world \<Rightarrow> ('p, unit) outcome" where
  "diff_store_write env io c w =
     (case execute_write_command (\<lambda>_. []) (de_io env io) (de_now env) c (wo_store w) of
        (s, True) \<Rightarrow> (w\<lparr>wo_store := s\<rparr>, Inr ())
      | (s, False) \<Rightarrow> (w\<lparr>wo_store := s\<rparr>, Inl ''store write failed''))"

definition existing_diff_status :: "string \<Rightarrow> 'p world \<Rightarrow> string option" where
  "existing_diff_status path w = (case map_of (wo_files w) path of
     Some (DiffJson d) \<Rightarrow> Some (stored_diff_status_as_str (st_status d)) | _ \<Rightarrow> None)"

definition target_commit_of :: "stored_diff \<Rightarrow> string option" where
  "target_commit_of d = Option.bind (st_diff d) (\<lambda>r.
     Option.bind (cd_crate_repository_commit (rd_content r)) xc_target_commit)"

text \<open>A crate whose repository looked suspicious is cleared when the commit recorded in its archive is
  found upstream: the capture file and the store get the new provenance.\<close>

definition reconcile_crate_commit_provenance ::
  "diff_env \<Rightarrow> release_event \<Rightarrow> string \<Rightarrow> stored_diff \<Rightarrow> 'p world \<Rightarrow> ('p, unit) outcome" where
  "reconcile_crate_commit_provenance env e dir d w =
     (if ev_ecosystem e \<noteq> CratesIo then (w, Inr ())
      else case target_commit_of d of
        None \<Rightarrow> (w, Inr ())
      | Some commit \<Rightarrow>
          when_io (de_io env ReadCapture) ''failed to read capture.json'' w (\<lambda>w.
          case map_of (wo_files w) (path_join dir ''capture.json'') of
            Some (CaptureJson cap) \<Rightarrow>
              (case ca_upstream_repository cap of
                 None \<Rightarrow> (w, Inr ())
               | Some repository \<Rightarrow>
                   if \<not> rp_suspicious repository then (w, Inr ())
                   else case de_commit_provenance env repository (ev_version e) commit of
                     Inl err \<Rightarrow> (w, Inl err)
                   | Inr None \<Rightarrow> (w, Inr ())
                   | Inr (Some p) \<Rightarrow>
                       if rp_suspicious p then (w, Inr ())
                       else let cap = cap\<lparr>ca_upstream_repository := Some p\<rparr> in
                         when_io (de_io env RewriteCapture) ''failed to write capture.json'' w (\<lambda>w.
                           diff_store_write env StoreProvenance (RecordCapture e Observed dir cap)
                             (write_file (path_join dir ''capture.json'') (CaptureJson cap) w)))
          | _ \<Rightarrow> (w, Inl ''failed to parse capture.json'')))"

definition lineage_failed_reason :: "stored_diff \<Rightarrow> string \<Rightarrow> stored_diff" where
  "lineage_failed_reason d err = d\<lparr>st_reason := Some
     ((case st_reason d of Some r \<Rightarrow> r | None \<Rightarrow> ''lineage backfill unavailable'')
      @ ''; lineage backfill failed: '' @ err)\<rparr>"

definition build_with_backfill :: "diff_env \<Rightarrow> release_event \<Rightarrow> string + stored_diff" where
  "build_with_backfill env e = (case de_build env False e of
     Inl err \<Rightarrow> Inl err
   | Inr d \<Rightarrow>
       if de_backfill_lineage env \<and> st_status d = NoBaseline
       then (case de_backfill env e of
           Inr Backfilled \<Rightarrow> de_build env True e
         | Inr _ \<Rightarrow> Inr d
         | Inl err \<Rightarrow> Inr (lineage_failed_reason d err))
       else Inr d)"

definition write_diff :: "diff_env \<Rightarrow> release_event \<Rightarrow> string \<Rightarrow> stored_diff \<Rightarrow> 'p world \<Rightarrow> ('p, unit) outcome" where
  "write_diff env e dir d w =
     (and_then (reconcile_crate_commit_provenance env e dir d w) (\<lambda>w _.
      when_io (de_io env WriteDiff) ''failed to write diff.json'' w (\<lambda>w.
      let w = write_file (path_join dir ''diff.json'') (DiffJson d) w in
      and_then (if de_write_markdown env
          then when_io (de_io env WriteMarkdown) ''failed to write diff.md'' w (\<lambda>w.
            (write_file (path_join dir ''diff.md'') (DiffMarkdown (de_render env d)) w, Inr ()))
          else (w, Inr ())) (\<lambda>w _.
        diff_store_write env StoreDiff (RecordDiff e Observed dir d) w))))"

definition generate_diff :: "diff_env \<Rightarrow> diff_request \<Rightarrow> 'p world \<Rightarrow> ('p, unit) outcome" where
  "generate_diff env rq w =
     (let e = dq_event rq; dir = de_dir_of env e;
          diff_json = path_join dir ''diff.json''; diff_md = path_join dir ''diff.md'' in
      if \<not> diff_requested e \<and> dq_force_reason rq = None then
        diff_store_write env StoreDiffSkipped (MarkDiffSkipped (ev_event_id e) ''priority policy skipped diff'') w
      else when_io (de_io env CreateDiffDir) ''failed to create diff dir'' w (\<lambda>w.
        when_io (\<not> de_backfill_lineage env \<or> de_io env ReadDiff) ''failed to read diff.json'' w (\<lambda>w.
          let markdown_missing = de_write_markdown env \<and> map_of (wo_files w) diff_md = None;
              allow_lineage_upgrade = de_backfill_lineage env \<and> existing_diff_status diff_json w = Some ''no_baseline''
          in if map_of (wo_files w) diff_json \<noteq> None \<and> \<not> markdown_missing \<and> \<not> allow_lineage_upgrade
             then (w, Inr ())
             else case build_with_backfill env e of
               Inl err \<Rightarrow> (w, Inl err)
             | Inr d \<Rightarrow> write_diff env e dir d w)))"

definition generate_if_missing :: "diff_env \<Rightarrow> diff_request \<Rightarrow> 'p world \<Rightarrow> ('p, unit) outcome" where
  "generate_if_missing env rq w = (case generate_diff env rq w of
     (w, Inr a) \<Rightarrow> (w, Inr a)
   | (w, Inl err) \<Rightarrow>
       and_then (diff_store_write env StoreDiffFailed (MarkDiffFailed (ev_event_id (dq_event rq)) err) w)
         (\<lambda>w _. (w, Inl err)))"

end
