(* ===== verification/Pipeline.thy ===== *)
theory Pipeline
  imports Diff_Worker
begin

text \<open>
  The event loop of \<open>lib.rs\<close> and what the components do together: an observed event is classified,
  logged, stored and published before it is sent to the capture or the triage worker; properties that
  span the store, triage, the capture worker and the diff worker.
\<close>

section \<open>The event loop\<close>

record 'p system =
  sy_world :: "'p world"
  sy_ledger :: "release_event list"
  sy_published :: "emitted_event list"
  sy_capture_queue :: "capture_request list"
  sy_triage_queue :: "triage_request list"

text \<open>The resolver (\<open>apply\<close>, \<open>emitted_graph_evidence\<close>) and what can fail: the ledger, the store and the
  sink end the loop with an error, a closed channel only loses the request.\<close>

record 'p loop_params =
  lo_apply :: "release_event \<Rightarrow> 'p \<Rightarrow> release_event \<times> 'p"
  lo_graph :: "ecosystem \<Rightarrow> string \<Rightarrow> 'p \<Rightarrow> emitted_graph_evidence"
  lo_ledger_ok :: bool
  lo_store_ok :: bool
  lo_sink_ok :: bool
  lo_capture_open :: bool
  lo_triage_open :: bool

definition observe_event :: "'p loop_params \<Rightarrow> release_event \<Rightarrow> 'p system \<Rightarrow> 'p system \<times> (string + unit)" where
  "observe_event lp e sys =
     (let w = sy_world sys;
          (e, p) = lo_apply lp e (wo_priority w);
          sys = sys\<lparr>sy_world := w\<lparr>wo_priority := p\<rparr>\<rparr> in
      if \<not> lo_ledger_ok lp then (sys, Inl ''ledger append failed'')
      else let sys = sys\<lparr>sy_ledger := sy_ledger sys @ [e]\<rparr> in
        case execute_event_write_batch (lo_store_ok lp) [(e, Observed)] (wo_store (sy_world sys)) of
          (s, False) \<Rightarrow> (sys, Inl ''store write failed'')
        | (s, True) \<Rightarrow>
            let sys = sys\<lparr>sy_world := (sy_world sys)\<lparr>wo_store := s\<rparr>\<rparr>;
                graph = lo_graph lp (ev_ecosystem e) (ev_package e) p;
                notify = diff_requested_with_graph e graph in
            if \<not> lo_sink_ok lp then (sys, Inl ''sink publish failed'')
            else let sys = sys\<lparr>sy_published := sy_published sys @ [emitted_view e graph]\<rparr> in
              if ps_tier (event_priority_snapshot e) = High
              then (if lo_capture_open lp
                    then sys\<lparr>sy_capture_queue := sy_capture_queue sys @ [request_observed e notify]\<rparr> else sys, Inr ())
              else (if lo_triage_open lp
                    then sys\<lparr>sy_triage_queue := sy_triage_queue sys
                      @ [\<lparr>tq_event = e, tq_graph = graph, tq_notify_diff = notify\<rparr>]\<rparr> else sys, Inr ()))"

text \<open>C26: an event that is sent to a worker is already durable and published.  When the loop survives an
  event, the ledger, the published stream and the store hold it (with its default job states, or the
  merged row), and exactly one request went out: to the capture worker for a High release, to triage for
  every other one, carrying the diff request of the published plan; when it fails, nothing was sent.\<close>

theorem event_recorded_before_dispatch:
  "let (e', p) = lo_apply lp e (wo_priority (sy_world sys));
       g = lo_graph lp (ev_ecosystem e') (ev_package e') p;
       (sys', res) = observe_event lp e sys;
       plan = em_plan (emitted_view e' g) in
   (case res of
      Inl _ \<Rightarrow> sy_capture_queue sys' = sy_capture_queue sys \<and> sy_triage_queue sys' = sy_triage_queue sys
    | Inr _ \<Rightarrow> sy_ledger sys' = sy_ledger sys @ [e']
        \<and> sy_published sys' = sy_published sys @ [emitted_view e' g]
        \<and> wo_store (sy_world sys') = upsert_event_row e' Observed (wo_store (sy_world sys))
        \<and> sy_capture_queue sys' = sy_capture_queue sys
            @ (if ps_tier (event_priority_snapshot e') = High \<and> lo_capture_open lp
               then [request_observed e' (jp_requested (pl_diff plan))] else [])
        \<and> sy_triage_queue sys' = sy_triage_queue sys
            @ (if ps_tier (event_priority_snapshot e') \<noteq> High \<and> lo_triage_open lp
               then [\<lparr>tq_event = e', tq_graph = g, tq_notify_diff = jp_requested (pl_diff plan)\<rparr>] else []))"
  by (cases "lo_apply lp e (wo_priority (sy_world sys))")
    (simp add: observe_event_def Let_def execute_event_write_batch_def emitted_view_def)

section \<open>Graph escalation\<close>

lemma low_release_stored_skipped:
  assumes "map_of (st_release_index s) (ev_event_id e) = None" "ps_tier (event_priority_snapshot e) = Low"
  shows "map_of (st_release_index (upsert_event_row e Observed s)) (ev_event_id e) = Some (event_row ''observed'' e)
    \<and> rr_capture_state (event_row ''observed'' e) = ''skipped''"
  using assms
  by (simp add: upsert_event_row_def map_of_sql_upsert event_row_sels default_capture_state_def
      snapshot_capture_requested_def)


definition demo_low_event :: release_event where
  "demo_low_event = demo_event\<lparr>ev_priority := Some (default_unknown\<lparr>ps_tier := Low, ps_source := OfflineScoreFile\<rparr>)\<rparr>"

definition demo_graph :: emitted_graph_evidence where
  "demo_graph = graph_evidence_default\<lparr>gr_known_in_local_graph := True, gr_observed_count := 3,
     gr_direct_dependencies_seen := 1, gr_reverse_dependents_seen := 4\<rparr>"

definition demo_triage_config :: triage_config where
  "demo_triage_config = \<lparr>tc_suspicious_small_artifact_max_bytes = 32768, tc_ephemeral_scan_max_artifact_bytes = 0,
     tc_dropped_audit_window = 3600, tc_dropped_audit_sample_size = 2, tc_dropped_backfill_batch_size = 1,
     tc_dropped_history_size = 8\<rparr>"


text \<open>The diff side: a request without a force reason for a release that is not High.\<close>

lemma unforced_diff_skipped:
  assumes "\<not> diff_requested e" "de_io env StoreDiffSkipped"
  shows "generate_if_missing env \<lparr>dq_event = e, dq_force_reason = None\<rparr> w =
    (w\<lparr>wo_store := update_release_row (ev_event_id e) (\<lambda>r. r\<lparr>rr_diff_state := ''skipped'',
        rr_diff_reason := Some ''priority policy skipped diff'', rr_diff_updated_at := Some (de_now env)\<rparr>) (wo_store w)\<rparr>, Inr ())"
  using assms
  by (simp add: generate_if_missing_def generate_diff_def Let_def diff_store_write_def execute_write_command_def)

lemma and_then_success: "and_then r k = (w', Inr b) \<longleftrightarrow> (\<exists>w a. r = (w, Inr a) \<and> k w a = (w', Inr b))"
  by (cases r) (auto simp: and_then_def split: sum.splits)

lemma when_io_success: "when_io ok err w k = (w', Inr b) \<longleftrightarrow> ok \<and> k w = (w', Inr b)"
  by (simp add: when_io_def)

lemma store_write_queue: "store_write env io c w = (w', Inr a) \<Longrightarrow> wo_diff_queue w' = wo_diff_queue w"
  by (auto simp: store_write_def split: prod.splits bool.splits)

lemma record_knowledge_queue: "record_knowledge env e cap w = (w', Inr a) \<Longrightarrow> wo_diff_queue w' = wo_diff_queue w"
  by (auto simp: record_knowledge_def Let_def and_then_success when_io_success dest!: store_write_queue
      split: if_splits option.splits)

lemma settle_notified:
  assumes "settle_capture env rq cap force_reason burst w = (w', Inr ())" "po_notify_diff rq" "ce_io env DiffChannel"
  shows "wo_diff_queue w' = wo_diff_queue w @ [\<lparr>dq_event = po_event rq, dq_force_reason = force_reason\<rparr>]"
  using assms
  by (auto simp: settle_capture_def Let_def and_then_success promote_capture_dir_def when_io_success
      notify_diff_worker_def remove_dir_def rename_dir_def dest!: store_write_queue split: if_splits)

lemma analyse_notified:
  assumes "analyse_capture env rq w = (w', Inr ())" "po_notify_diff rq" "ce_io env DiffChannel"
  shows "wo_diff_queue w' = wo_diff_queue w @ [\<lparr>dq_event = po_event rq, dq_force_reason = None\<rparr>]"
proof -
  obtain cap burst where a: "captured_analysis env (po_capture_dir rq) (po_event rq) (po_capture rq) (wo_store w) = (cap, burst)"
    by fastforce
  have r: "and_then (record_knowledge env (po_event rq) cap
        (write_file (path_join (po_capture_dir rq) ''capture.json'') (CaptureJson cap) w))
      (\<lambda>w _. settle_capture env rq cap None (vb_suspicious burst) w) = (w', Inr ())"
    using assms(1,2) by (simp add: analyse_capture_def Let_def a when_io_success)
  then obtain w1 u where k: "record_knowledge env (po_event rq) cap
      (write_file (path_join (po_capture_dir rq) ''capture.json'') (CaptureJson cap) w) = (w1, Inr u)"
    and s: "settle_capture env rq cap None (vb_suspicious burst) w1 = (w', Inr ())"
    unfolding and_then_success by blast
  show ?thesis
    using settle_notified [OF s assms(2,3)] record_knowledge_queue [OF k] by (simp add: write_file_def)
qed

text \<open>the graph escalation of a diff ends in a skipped diff.  A release that is not High whose diff was
  asked for by the plan is captured with the notify flag; then no post-capture signal, however suspicious
  the release, gives the diff a force reason, the diff worker gets one unforced request, and answers it by
  marking the diff \<open>skipped\<close>.\<close>

theorem graph_escalated_diff_is_skipped:
  assumes "po_notify_diff rq" and low: "\<not> diff_requested (po_event rq)"
    and "analyse_capture env rq w = (w', Inr ())" and "ce_io env DiffChannel" and io: "de_io denv StoreDiffSkipped"
  shows "\<exists>req. wo_diff_queue w' = wo_diff_queue w @ [req]
    \<and> generate_if_missing denv req w' =
      (w'\<lparr>wo_store := update_release_row (ev_event_id (po_event rq)) (\<lambda>r. r\<lparr>rr_diff_state := ''skipped'',
          rr_diff_reason := Some ''priority policy skipped diff'', rr_diff_updated_at := Some (de_now denv)\<rparr>) (wo_store w')\<rparr>, Inr ())"
  using analyse_notified [OF assms(3,1,4)] unforced_diff_skipped [OF low io] by blast

definition demo_codecs :: codecs where
  "demo_codecs = \<lparr>enc_risk = \<lambda>_. JNull, dec_risk = \<lambda>_. None, enc_content = \<lambda>_. JNull, dec_content = \<lambda>_. None,
     enc_burst = \<lambda>_. JNull, dec_burst = \<lambda>_. None\<rparr>"

definition demo_capture_env :: "unit capture_env" where
  "demo_capture_env = \<lparr>ce_io = \<lambda>_. True, ce_now = 10, ce_codecs = demo_codecs, ce_enc_sources = \<lambda>_. ''[]'',
     ce_url_encode = \<lambda>s. s, ce_capture_dir = ''c'', ce_staging_dir = ''s'', ce_version_burst = burst_config_default,
     ce_fetch = \<lambda>e _. Inr (captured_removed 9 e), ce_materialize = \<lambda>_ cap. cap,
     ce_scan = \<lambda>_ _. Inr (content_risk_empty ''none''), ce_repository_of = \<lambda>_ _. None,
     ce_record_captured = \<lambda>_ p. p, ce_previous_capture = \<lambda>_. Inr None\<rparr>"

definition demo_world :: "unit world" where
  "demo_world = \<lparr>wo_store = store_empty, wo_files = [], wo_diff_queue = [], wo_graph_file = [], wo_priority = ()\<rparr>"

definition demo_post_request :: post_capture_request where
  "demo_post_request = \<lparr>po_event = demo_event, po_origin = Observed, po_notify_diff = True, po_retention = Permanent,
     po_capture_dir = ''d'', po_final_capture_dir = ''d'', po_capture = captured_removed 9 demo_event\<rparr>"

definition demo_diff_env :: diff_env where
  "demo_diff_env = \<lparr>de_io = \<lambda>_. True, de_now = 11, de_dir_of = \<lambda>_. ''d'', de_write_markdown = False,
     de_backfill_lineage = False, de_build = \<lambda>_ _. Inl ''none'', de_backfill = \<lambda>_. Inr NoPreviousRelease,
     de_commit_provenance = \<lambda>_ _ _. Inr None, de_render = \<lambda>_. []\<rparr>"

lemma demo_analyse: "snd (analyse_capture demo_capture_env demo_post_request demo_world) = Inr ()"
  by (simp add: analyse_capture_def demo_post_request_def demo_capture_env_def Let_def captured_analysis_def
      when_io_def record_knowledge_def and_then_def graph_records_from_captured_release_def captured_removed_def
      settle_capture_def store_write_def execute_write_command_def update_capture_row_def i64_max_def split: prod.split)

definition demo_analysed :: "unit world" where
  "demo_analysed = fst (analyse_capture demo_capture_env demo_post_request demo_world)"

theorem graph_escalated_diff_is_skipped_witness:
  "\<exists>req. wo_diff_queue demo_analysed = wo_diff_queue demo_world @ [req]
    \<and> generate_if_missing demo_diff_env req demo_analysed =
      (demo_analysed\<lparr>wo_store := update_release_row (ev_event_id (po_event demo_post_request)) (\<lambda>r. r\<lparr>rr_diff_state := ''skipped'',
          rr_diff_reason := Some ''priority policy skipped diff'', rr_diff_updated_at := Some (de_now demo_diff_env)\<rparr>)
          (wo_store demo_analysed)\<rparr>, Inr ())"
proof (rule graph_escalated_diff_is_skipped)
  show "analyse_capture demo_capture_env demo_post_request demo_world = (demo_analysed, Inr ())"
    using demo_analyse by (simp add: demo_analysed_def prod_eq_iff)
  show "po_notify_diff demo_post_request" "ce_io demo_capture_env DiffChannel" "de_io demo_diff_env StoreDiffSkipped"
    by (simp_all add: demo_post_request_def demo_capture_env_def demo_diff_env_def)
  show "\<not> diff_requested (po_event demo_post_request)"
    by (simp add: demo_post_request_def demo_event_def diff_requested_def snapshot_diff_requested_def
        event_priority_snapshot_def default_unknown_def)
qed

section \<open>The version burst in the pipeline\<close>

text \<open>What is recorded for one package.\<close>

definition record_all :: "release_event list \<Rightarrow> store \<Rightarrow> store" where
  "record_all es s = fold (\<lambda>e. upsert_event_row e Observed) es s"

lemma in_set_update: "(k, r) \<in> set (AList.update j v t) \<Longrightarrow> (k, r) = (j, v) \<or> (k, r) \<in> set t"
  by (induction t) (auto split: if_splits)

lemma upsert_packages:
  assumes "ev_package e = pkg" "\<And>r. r \<in> set (release_rows s) \<Longrightarrow> rr_package r = pkg"
    and "r \<in> set (release_rows (upsert_event_row e Observed s))"
  shows "rr_package r = pkg"
proof -
  let ?new = "event_row ''observed'' e"
  let ?row = "case map_of (st_release_index s) (ev_event_id e) of None \<Rightarrow> ?new | Some old \<Rightarrow> merge_event_row old ?new"
  obtain k where "(k, r) \<in> set (AList.update (ev_event_id e) ?row (st_release_index s))"
    using assms(3) by (auto simp: release_rows_def upsert_event_row_def sql_upsert_def)
  then consider "r = ?row" | "(k, r) \<in> set (st_release_index s)"
    using in_set_update by fastforce
  then show ?thesis
  proof cases
    case 1
    have "rr_package ?new = pkg" "rr_package (merge_event_row old ?new) = pkg" for old
      using assms(1) by (simp_all add: event_row_def merge_event_row_def Let_def)
    then show ?thesis
      using 1 by (simp split: option.splits)
  next
    case 2
    then show ?thesis
      using assms(2) [of r] by (force simp: release_rows_def)
  qed
qed

lemma record_all_packages:
  "(\<And>e. e \<in> set es \<Longrightarrow> ev_package e = pkg) \<Longrightarrow> (\<And>r. r \<in> set (release_rows s) \<Longrightarrow> rr_package r = pkg) \<Longrightarrow>
   r \<in> set (release_rows (record_all es s)) \<Longrightarrow> rr_package r = pkg"
proof (induction es arbitrary: s)
  case (Cons e es)
  show ?case
    using Cons.IH [of "upsert_event_row e Observed s"] Cons.prems upsert_packages [of e pkg s] by (simp add: record_all_def)
qed (simp add: record_all_def)

text \<open>the version burst is blind for a package whose registry name is not in normal form.  The store
  keeps the name of the event, the query asks for the normalised one: however many releases of such a
  package were recorded, the query finds none of them, and a burst that needs two versions never fires.\<close>

theorem burst_blind_for_unnormalised_names:
  assumes "list_all (\<lambda>e. ev_package e = pkg) es" "normalize_package_name eco pkg \<noteq> pkg"
    and "ev_ecosystem e = eco" "ev_package e = pkg" "2 \<le> bc_min_versions (ce_version_burst env)"
  shows "load_package_release_times_since eco pkg since (record_all es store_empty) = []
    \<and> \<not> vb_suspicious (compute_version_burst env e cap (record_all es store_empty))"
proof -
  have "rr_package r = pkg" if "r \<in> set (release_rows (record_all es store_empty))" for r
    by (rule record_all_packages [OF _ _ that]) (use assms(1) in \<open>auto simp: list_all_iff release_rows_def store_empty_def\<close>)
  then have none: "load_package_release_times_since eco pkg t (record_all es store_empty) = []" for t
    using assms(2) by (auto simp: load_package_release_times_since_def Let_def filter_empty_conv)
  let ?at = "max (case ca_published_at cap of Some t \<Rightarrow> t | None \<Rightarrow> ca_observed_at cap) (ev_observed_at e)"
  have "\<not> vb_suspicious (evaluate_version_burst [(ca_version cap, ?at)] (ce_version_burst env))"
    using assms(5) by (auto simp: evaluate_version_burst_suspicious Let_def)
  then show ?thesis
    using none assms(3,4) by (simp add: compute_version_burst_def Let_def)
qed

definition demo_unnormalised :: release_event where
  "demo_unnormalised = demo_event\<lparr>ev_ecosystem := Pypi, ev_package := ''My_Pkg''\<rparr>"

theorem burst_blind_for_unnormalised_names_witness:
  "load_package_release_times_since Pypi ''My_Pkg'' 0 (record_all [demo_unnormalised, demo_unnormalised] store_empty) = []
    \<and> \<not> vb_suspicious (compute_version_burst demo_capture_env demo_unnormalised (captured_removed 9 demo_unnormalised)
          (record_all [demo_unnormalised, demo_unnormalised] store_empty))"
  by (rule burst_blind_for_unnormalised_names)
    (simp_all add: demo_unnormalised_def demo_event_def demo_capture_env_def burst_config_default_def
      normalize_package_name_def, code_simp)

text \<open>the release under analysis counts twice in its own burst.  When the store already has the
  candidate (as it has every observed release) and the versions stored for its package are distinct and
  fall in the window, the number of versions in the window is one more than the number of versions.\<close>

theorem burst_counts_candidate_twice:
  assumes loaded: "load_package_release_times_since (ev_ecosystem e) (ev_package e)
        (ce_now env - burst_window (ce_version_burst env)) s = ts"
    and cand: "(ca_version cap, max (case ca_published_at cap of Some t \<Rightarrow> t | None \<Rightarrow> ca_observed_at cap) (ev_observed_at e)) \<in> set ts"
    and distinct: "distinct (map fst ts)"
    and window: "list_all (\<lambda>p. Max (snd ` set ts) - burst_window (ce_version_burst env) \<le> snd p) ts"
  shows "vb_versions_in_window (compute_version_burst env e cap s) = Suc (card (fst ` set ts))"
proof -
  define c where "c = (ca_version cap, max (case ca_published_at cap of Some t \<Rightarrow> t | None \<Rightarrow> ca_observed_at cap) (ev_observed_at e))"
  have cand: "c \<in> set ts"
    using cand by (simp add: c_def)
  have m: "set (ts @ [c]) = set ts"
    using cand by auto
  have "snd p \<le> Max (snd ` set ts)" if "p \<in> set ts" for p
    using that by (intro Max_ge) auto
  then have "filter (\<lambda>(_, at). Max (snd ` set ts) - burst_window (ce_version_burst env) \<le> at \<and> at \<le> Max (snd ` set ts)) (ts @ [c])
      = ts @ [c]"
    using window cand by (auto simp: filter_id_conv list_all_iff split_beta)
  then have "vb_versions_in_window (evaluate_version_burst (ts @ [c]) (ce_version_burst env)) = Suc (length ts)"
    unfolding evaluate_version_burst_def Let_def set_map m by simp
  moreover have "length ts = card (fst ` set ts)"
    using distinct distinct_card by fastforce
  ultimately show ?thesis
    using loaded by (simp add: compute_version_burst_def Let_def c_def)
qed

text \<open>Four versions of two major lines are a burst of five.\<close>

definition demo_version :: "string \<Rightarrow> release_event" where
  "demo_version v = demo_event\<lparr>ev_event_id := v, ev_version := v\<rparr>"

definition demo_versions :: "release_event list" where
  "demo_versions = map demo_version [''1.0.0'', ''1.1.0'', ''2.0.0'', ''2.1.0'']"

definition demo_times :: "(string \<times> datetime) list" where
  "demo_times = [(''1.0.0'', 5), (''1.1.0'', 5), (''2.0.0'', 5), (''2.1.0'', 5)]"

lemma demo_loaded:
  "load_package_release_times_since Npm ''p'' (10 - burst_window burst_config_default) (record_all demo_versions store_empty)
   = demo_times"
  by code_simp

theorem burst_counts_candidate_twice_witness:
  "vb_versions_in_window (compute_version_burst demo_capture_env (demo_version ''2.1.0'')
      (captured_removed 9 (demo_version ''2.1.0'')) (record_all demo_versions store_empty)) = Suc (card (fst ` set demo_times))"
proof (rule burst_counts_candidate_twice)
  show "load_package_release_times_since (ev_ecosystem (demo_version ''2.1.0'')) (ev_package (demo_version ''2.1.0''))
      (ce_now demo_capture_env - burst_window (ce_version_burst demo_capture_env)) (record_all demo_versions store_empty) = demo_times"
    using demo_loaded by (simp add: demo_version_def demo_event_def demo_capture_env_def)
qed (simp_all add: demo_times_def demo_version_def demo_event_def captured_removed_def demo_capture_env_def burst_window_def)

lemma four_versions_fire:
  "vb_suspicious (compute_version_burst demo_capture_env (demo_version ''2.1.0'')
      (captured_removed 9 (demo_version ''2.1.0'')) (record_all demo_versions store_empty))
   \<and> card (set (map ev_version demo_versions)) < bc_min_versions burst_config_default"
  by code_simp

end
