(* ===== verification/Worker_Pools.thy ===== *)
theory Worker_Pools
  imports Prelude
begin

text \<open>
  The control loops of the three workers as step relations.  \<open>TriageWorker::run\<close> (\<open>triage.rs\<close>) and
  \<open>DiffWorker::run\<close> (\<open>autodiff.rs\<close>) receive a request, spawn its task and wait for tasks while as many run
  as the configured concurrency; \<open>CaptureWorker::run_requests_loop\<close> (\<open>capture.rs\<close>) has a second task set
  for the analysis of what was captured.  The scheduler decides when a task finishes and with what outcome,
  and which finished task \<open>join_next\<close> returns; the senders decide what is queued and when the channel closes.
  Requests are of any type.  A task that panicked is joined like one that failed.
\<close>

section \<open>One task set\<close>

text \<open>Where the loop is: at \<open>recv\<close>, in the drain after a spawn, in the final drain, or returned.\<close>

datatype pool_pc = PoolRecv | PoolDrain | PoolFinal | PoolDone

record 'r pool =
  po_pc :: pool_pc
  po_queue :: "'r list"
  po_closed :: bool
  po_running :: "'r list"
  po_finished :: "'r list"
  po_joined :: "'r list"

definition pool_init :: "'r pool" where
  "pool_init = \<lparr>po_pc = PoolRecv, po_queue = [], po_closed = False, po_running = [], po_finished = [], po_joined = []\<rparr>"

definition pool_in_flight :: "'r pool \<Rightarrow> nat" where
  "pool_in_flight p = length (po_running p) + length (po_finished p)"

definition pool_join :: "'r \<Rightarrow> 'r pool \<Rightarrow> 'r pool" where
  "pool_join r p = p\<lparr>po_finished := remove1 r (po_finished p), po_joined := po_joined p @ [r]\<rparr>"

text \<open>\<open>n\<close> is the concurrency, at least one (\<open>worker_concurrency.max(1)\<close>).\<close>

inductive pool_step :: "nat \<Rightarrow> 'r pool \<Rightarrow> 'r pool \<Rightarrow> bool" for n :: nat where
  close: "\<not> po_closed p \<Longrightarrow> pool_step n p (p\<lparr>po_closed := True\<rparr>)"
| finish: "r \<in> set (po_running p)
    \<Longrightarrow> pool_step n p (p\<lparr>po_running := remove1 r (po_running p), po_finished := po_finished p @ [r]\<rparr>)"
| recv: "po_pc p = PoolRecv \<Longrightarrow> po_queue p = r # q
    \<Longrightarrow> pool_step n p (p\<lparr>po_pc := PoolDrain, po_queue := q, po_running := po_running p @ [r]\<rparr>)"
| recv_closed: "po_pc p = PoolRecv \<Longrightarrow> po_queue p = [] \<Longrightarrow> po_closed p \<Longrightarrow> pool_step n p (p\<lparr>po_pc := PoolFinal\<rparr>)"
| drain_join: "po_pc p = PoolDrain \<Longrightarrow> max 1 n \<le> pool_in_flight p \<Longrightarrow> r \<in> set (po_finished p)
    \<Longrightarrow> pool_step n p (pool_join r p)"
| drain_exit: "po_pc p = PoolDrain \<Longrightarrow> pool_in_flight p < max 1 n \<Longrightarrow> pool_step n p (p\<lparr>po_pc := PoolRecv\<rparr>)"
| final_join: "po_pc p = PoolFinal \<Longrightarrow> r \<in> set (po_finished p) \<Longrightarrow> pool_step n p (pool_join r p)"
| final_exit: "po_pc p = PoolFinal \<Longrightarrow> pool_in_flight p = 0 \<Longrightarrow> pool_step n p (p\<lparr>po_pc := PoolDone\<rparr>)"

text \<open>The states a pool reaches, with every request sent so far.\<close>

inductive pool_reachable :: "nat \<Rightarrow> 'r list \<Rightarrow> 'r pool \<Rightarrow> bool" for n :: nat where
  init: "pool_reachable n [] pool_init"
| send: "pool_reachable n sent p \<Longrightarrow> \<not> po_closed p \<Longrightarrow> pool_reachable n (sent @ [r]) (p\<lparr>po_queue := po_queue p @ [r]\<rparr>)"
| step: "pool_reachable n sent p \<Longrightarrow> pool_step n p p' \<Longrightarrow> pool_reachable n sent p'"

section \<open>Two task sets\<close>

text \<open>The outcome of a capture task: a capture to analyse, nothing more to do, or a failure.\<close>

datatype 'r capture_outcome = CaptureDone 'r | CaptureNothing | CaptureError

text \<open>The drain of posts nested in \<open>join_next_capture\<close> has a place of its own in both capture drains.\<close>

datatype capture_pc = CapRecv | CapDrain | CapDrainPosts | CapPosts | CapFinal | CapFinalPosts | CapLast | CapStopped

record 'r capture_pool =
  cp_pc :: capture_pc
  cp_queue :: "'r list"
  cp_closed :: bool
  cp_captures :: "'r list"
  cp_captured :: "('r \<times> 'r capture_outcome) list"
  cp_posts :: "'r list"
  cp_posted :: "'r list"
  cp_ended :: "'r list"

definition capture_pool_init :: "'r capture_pool" where
  "capture_pool_init = \<lparr>cp_pc = CapRecv, cp_queue = [], cp_closed = False, cp_captures = [], cp_captured = [],
     cp_posts = [], cp_posted = [], cp_ended = []\<rparr>"

definition capture_in_flight :: "'r capture_pool \<Rightarrow> nat" where
  "capture_in_flight p = length (cp_captures p) + length (cp_captured p)"

definition post_in_flight :: "'r capture_pool \<Rightarrow> nat" where
  "post_in_flight p = length (cp_posts p) + length (cp_posted p)"

definition spawn_capture :: "'r \<Rightarrow> 'r capture_pool \<Rightarrow> 'r capture_pool" where
  "spawn_capture r p = p\<lparr>cp_captures := cp_captures p @ [r]\<rparr>"

definition spawn_post_capture :: "'r \<Rightarrow> 'r capture_pool \<Rightarrow> 'r capture_pool" where
  "spawn_post_capture r p = p\<lparr>cp_posts := cp_posts p @ [r]\<rparr>"

text \<open>A joined capture spawns its analysis, and the posts are drained before the loop goes on.\<close>

definition join_next_capture :: "'r \<times> 'r capture_outcome \<Rightarrow> capture_pc \<Rightarrow> 'r capture_pool \<Rightarrow> 'r capture_pool" where
  "join_next_capture ro posts_pc p =
     (let p = p\<lparr>cp_captured := remove1 ro (cp_captured p)\<rparr> in
      case snd ro of
        CaptureDone r \<Rightarrow> (spawn_post_capture r p)\<lparr>cp_pc := posts_pc\<rparr>
      | _ \<Rightarrow> p\<lparr>cp_ended := cp_ended p @ [fst ro]\<rparr>)"

definition join_next_post :: "'r \<Rightarrow> 'r capture_pool \<Rightarrow> 'r capture_pool" where
  "join_next_post r p = p\<lparr>cp_posted := remove1 r (cp_posted p), cp_ended := cp_ended p @ [r]\<rparr>"

inductive capture_step :: "nat \<Rightarrow> 'r capture_pool \<Rightarrow> 'r capture_pool \<Rightarrow> bool" for n :: nat where
  close: "\<not> cp_closed p \<Longrightarrow> capture_step n p (p\<lparr>cp_closed := True\<rparr>)"
| captured: "r \<in> set (cp_captures p) \<Longrightarrow> oc \<in> {CaptureDone r, CaptureNothing, CaptureError}
    \<Longrightarrow> capture_step n p (p\<lparr>cp_captures := remove1 r (cp_captures p), cp_captured := cp_captured p @ [(r, oc)]\<rparr>)"
| posted: "r \<in> set (cp_posts p)
    \<Longrightarrow> capture_step n p (p\<lparr>cp_posts := remove1 r (cp_posts p), cp_posted := cp_posted p @ [r]\<rparr>)"
| recv: "cp_pc p = CapRecv \<Longrightarrow> cp_queue p = r # q
    \<Longrightarrow> capture_step n p (spawn_capture r (p\<lparr>cp_pc := CapDrain, cp_queue := q\<rparr>))"
| recv_closed: "cp_pc p = CapRecv \<Longrightarrow> cp_queue p = [] \<Longrightarrow> cp_closed p \<Longrightarrow> capture_step n p (p\<lparr>cp_pc := CapFinal\<rparr>)"
| drain_join: "cp_pc p = CapDrain \<Longrightarrow> max 1 n \<le> capture_in_flight p \<Longrightarrow> ro \<in> set (cp_captured p)
    \<Longrightarrow> capture_step n p (join_next_capture ro CapDrainPosts p)"
| drain_exit: "cp_pc p = CapDrain \<Longrightarrow> capture_in_flight p < max 1 n \<Longrightarrow> capture_step n p (p\<lparr>cp_pc := CapPosts\<rparr>)"
| posts_join: "cp_pc p \<in> {CapDrainPosts, CapPosts, CapFinalPosts} \<Longrightarrow> max 1 n \<le> post_in_flight p
    \<Longrightarrow> r \<in> set (cp_posted p) \<Longrightarrow> capture_step n p (join_next_post r p)"
| drain_posts_exit: "cp_pc p = CapDrainPosts \<Longrightarrow> post_in_flight p < max 1 n \<Longrightarrow> capture_step n p (p\<lparr>cp_pc := CapDrain\<rparr>)"
| posts_exit: "cp_pc p = CapPosts \<Longrightarrow> post_in_flight p < max 1 n \<Longrightarrow> capture_step n p (p\<lparr>cp_pc := CapRecv\<rparr>)"
| final_join: "cp_pc p = CapFinal \<Longrightarrow> ro \<in> set (cp_captured p)
    \<Longrightarrow> capture_step n p (join_next_capture ro CapFinalPosts p)"
| final_posts_exit: "cp_pc p = CapFinalPosts \<Longrightarrow> post_in_flight p < max 1 n \<Longrightarrow> capture_step n p (p\<lparr>cp_pc := CapFinal\<rparr>)"
| final_exit: "cp_pc p = CapFinal \<Longrightarrow> capture_in_flight p = 0 \<Longrightarrow> capture_step n p (p\<lparr>cp_pc := CapLast\<rparr>)"
| last_join: "cp_pc p = CapLast \<Longrightarrow> r \<in> set (cp_posted p) \<Longrightarrow> capture_step n p (join_next_post r p)"
| last_exit: "cp_pc p = CapLast \<Longrightarrow> post_in_flight p = 0 \<Longrightarrow> capture_step n p (p\<lparr>cp_pc := CapStopped\<rparr>)"

inductive capture_reachable :: "nat \<Rightarrow> 'r list \<Rightarrow> 'r capture_pool \<Rightarrow> bool" for n :: nat where
  init: "capture_reachable n [] capture_pool_init"
| send: "capture_reachable n sent p \<Longrightarrow> \<not> cp_closed p
    \<Longrightarrow> capture_reachable n (sent @ [r]) (p\<lparr>cp_queue := cp_queue p @ [r]\<rparr>)"
| step: "capture_reachable n sent p \<Longrightarrow> capture_step n p p' \<Longrightarrow> capture_reachable n sent p'"

section \<open>Bounded and lossless\<close>

lemmas capture_pool_defs = join_next_capture_def join_next_post_def spawn_capture_def spawn_post_capture_def
  capture_in_flight_def post_in_flight_def Let_def

text \<open>Every request sent is queued, in one of the two task sets, or ended.\<close>

definition capture_accounted :: "'r capture_pool \<Rightarrow> 'r multiset" where
  "capture_accounted p = mset (cp_queue p) + mset (cp_captures p) + mset (map fst (cp_captured p))
     + mset (cp_posts p) + mset (cp_posted p) + mset (cp_ended p)"

definition outcomes_own :: "'r capture_pool \<Rightarrow> bool" where
  "outcomes_own p \<longleftrightarrow> list_all (\<lambda>(r, oc). oc \<in> {CaptureDone r, CaptureNothing, CaptureError}) (cp_captured p)"

text \<open>A place of the loop that can only be reached with room in a task set has that room.\<close>

definition capture_room :: "nat \<Rightarrow> 'r capture_pool \<Rightarrow> bool" where
  "capture_room n p \<longleftrightarrow> capture_in_flight p \<le> max 1 n \<and> post_in_flight p \<le> max 1 n
     \<and> (cp_pc p \<in> {CapRecv, CapPosts, CapDrainPosts} \<longrightarrow> capture_in_flight p < max 1 n)
     \<and> (cp_pc p \<in> {CapRecv, CapDrain, CapFinal} \<longrightarrow> post_in_flight p < max 1 n)
     \<and> (cp_pc p \<in> {CapLast, CapStopped} \<longrightarrow> capture_in_flight p = 0)
     \<and> (cp_pc p = CapStopped \<longrightarrow> post_in_flight p = 0)"

lemma remove1_length: "r \<in> set xs \<Longrightarrow> length xs = Suc (length (remove1 r xs))"
  by (induction xs) auto

lemma mset_remove1_add: "r \<in> set xs \<Longrightarrow> add_mset r (mset (remove1 r xs)) = mset xs"
  by simp

lemma mset_map_remove1: "r \<in> set xs \<Longrightarrow> add_mset (f r) (mset (map f (remove1 r xs))) = mset (map f xs)"
  by (metis image_mset_add_mset mset_map mset_remove1_add)

lemma capture_step_room:
  "capture_step n p p' \<Longrightarrow> capture_room n p \<Longrightarrow> capture_room n p'"
proof (induction rule: capture_step.induct)
  case (captured r p oc)
  then show ?case
    using remove1_length [of r "cp_captures p"] by (auto simp: capture_room_def capture_pool_defs)
next
  case (posted r p)
  then show ?case
    using remove1_length [of r "cp_posts p"] by (auto simp: capture_room_def capture_pool_defs)
next
  case (drain_join p ro)
  then show ?case
    using remove1_length [of ro "cp_captured p"]
    by (auto simp: capture_room_def capture_pool_defs split: capture_outcome.splits)
next
  case (final_join p ro)
  then show ?case
    using remove1_length [of ro "cp_captured p"]
    by (auto simp: capture_room_def capture_pool_defs split: capture_outcome.splits)
next
  case (posts_join p r)
  then show ?case
    using remove1_length [of r "cp_posted p"] by (auto simp: capture_room_def capture_pool_defs)
next
  case (last_join p r)
  then show ?case
    using remove1_length [of r "cp_posted p"] by (auto simp: capture_room_def capture_pool_defs)
qed (auto simp: capture_room_def capture_pool_defs)

lemma capture_step_own: "capture_step n p p' \<Longrightarrow> outcomes_own p \<Longrightarrow> outcomes_own p'"
  by (induction rule: capture_step.induct)
    (auto simp: outcomes_own_def capture_pool_defs list_all_iff split: capture_outcome.splits dest!: set_remove1_subset [THEN subsetD])

lemma capture_step_accounted:
  "capture_step n p p' \<Longrightarrow> outcomes_own p \<Longrightarrow> capture_accounted p' = capture_accounted p"
proof (induction rule: capture_step.induct)
  case (captured r p oc)
  then show ?case
    using mset_remove1_add [of r "cp_captures p"] by (simp add: capture_accounted_def ac_simps)
next
  case (posted r p)
  then show ?case
    using mset_remove1_add [of r "cp_posts p"] by (simp add: capture_accounted_def ac_simps)
next
  case (drain_join p ro)
  then show ?case
    using mset_map_remove1 [of ro "cp_captured p" fst]
    by (cases ro) (auto simp: capture_accounted_def capture_pool_defs outcomes_own_def list_all_iff ac_simps split: capture_outcome.splits)
next
  case (final_join p ro)
  then show ?case
    using mset_map_remove1 [of ro "cp_captured p" fst]
    by (cases ro) (auto simp: capture_accounted_def capture_pool_defs outcomes_own_def list_all_iff ac_simps split: capture_outcome.splits)
next
  case (posts_join p r)
  then show ?case
    using mset_remove1_add [of r "cp_posted p"] by (simp add: capture_accounted_def capture_pool_defs ac_simps)
next
  case (last_join p r)
  then show ?case
    using mset_remove1_add [of r "cp_posted p"] by (simp add: capture_accounted_def capture_pool_defs ac_simps)
qed (simp_all add: capture_accounted_def capture_pool_defs)

lemma capture_reachable_inv:
  "capture_reachable n sent p \<Longrightarrow> capture_room n p \<and> outcomes_own p \<and> capture_accounted p = mset sent"
proof (induction rule: capture_reachable.induct)
  case init
  then show ?case
    by (simp add: capture_room_def outcomes_own_def capture_accounted_def capture_pool_init_def capture_pool_defs)
next
  case (send sent p r)
  then show ?case
    by (auto simp: capture_room_def outcomes_own_def capture_accounted_def capture_pool_defs)
next
  case (step sent p p')
  then show ?case
    using capture_step_room capture_step_own capture_step_accounted by metis
qed

section \<open>Stopping\<close>

text \<open>Once nothing more is sent every step makes progress: a request only moves on, and between two moves
  the loop only falls through its places.\<close>

fun capture_pc_rank :: "capture_pc \<Rightarrow> nat" where
  "capture_pc_rank CapDrainPosts = 7"
| "capture_pc_rank CapDrain = 6"
| "capture_pc_rank CapPosts = 5"
| "capture_pc_rank CapRecv = 4"
| "capture_pc_rank CapFinalPosts = 3"
| "capture_pc_rank CapFinal = 2"
| "capture_pc_rank CapLast = 1"
| "capture_pc_rank CapStopped = 0"

definition capture_measure :: "'r capture_pool \<Rightarrow> nat" where
  "capture_measure p = 8 * length (cp_queue p) + 5 * length (cp_captures p) + 4 * length (cp_captured p)
     + 2 * length (cp_posts p) + length (cp_posted p) + capture_pc_rank (cp_pc p) + (if cp_closed p then 0 else 1)"

lemma capture_step_decreases: "capture_step n p p' \<Longrightarrow> capture_measure p' < capture_measure p"
proof (induction rule: capture_step.induct)
  case (captured r p oc)
  then show ?case
    using remove1_length [of r "cp_captures p"] by (simp add: capture_measure_def)
next
  case (posted r p)
  then show ?case
    using remove1_length [of r "cp_posts p"] by (simp add: capture_measure_def)
next
  case (drain_join p ro)
  then show ?case
    using remove1_length [of ro "cp_captured p"]
    by (auto simp: capture_measure_def capture_pool_defs split: capture_outcome.splits)
next
  case (final_join p ro)
  then show ?case
    using remove1_length [of ro "cp_captured p"]
    by (auto simp: capture_measure_def capture_pool_defs split: capture_outcome.splits)
next
  case (posts_join p r)
  then show ?case
    using remove1_length [of r "cp_posted p"] by (auto simp: capture_measure_def capture_pool_defs)
next
  case (last_join p r)
  then show ?case
    using remove1_length [of r "cp_posted p"] by (auto simp: capture_measure_def capture_pool_defs)
qed (auto simp: capture_measure_def capture_pool_defs)

lemma nonempty_in_set: "xs \<noteq> [] \<Longrightarrow> \<exists>x. x \<in> set xs"
  by (cases xs) auto

lemma capture_waits:
  assumes "\<nexists>p'. capture_step n p p'"
  shows "cp_captures p = []" "cp_posts p = []"
    "capture_in_flight p \<noteq> 0 \<Longrightarrow> \<exists>ro. ro \<in> set (cp_captured p)"
    "post_in_flight p \<noteq> 0 \<Longrightarrow> \<exists>r. r \<in> set (cp_posted p)"
proof -
  show captures: "cp_captures p = []"
  proof (rule ccontr)
    assume "cp_captures p \<noteq> []"
    then obtain r where "r \<in> set (cp_captures p)"
      using nonempty_in_set by blast
    then show False
      using assms capture_step.captured [of r p CaptureNothing n] by blast
  qed
  show posts: "cp_posts p = []"
  proof (rule ccontr)
    assume "cp_posts p \<noteq> []"
    then obtain r where "r \<in> set (cp_posts p)"
      using nonempty_in_set by blast
    then show False
      using assms capture_step.posted [of r p n] by blast
  qed
  show "\<exists>ro. ro \<in> set (cp_captured p)" if "capture_in_flight p \<noteq> 0"
    using that captures by (intro nonempty_in_set) (auto simp: capture_in_flight_def)
  show "\<exists>r. r \<in> set (cp_posted p)" if "post_in_flight p \<noteq> 0"
    using that posts by (intro nonempty_in_set) (auto simp: post_in_flight_def)
qed

lemma capture_progress:
  assumes "cp_closed p" "cp_pc p \<noteq> CapStopped"
  shows "\<exists>p'. capture_step n p p'"
proof (rule ccontr)
  assume stuck: "\<nexists>p'. capture_step n p p'"
  then have stuckD: "\<And>p'. \<not> capture_step n p p'"
    by blast
  note waits = capture_waits [OF stuck]
  have cap: "0 < max 1 n"
    by simp
  show False
  proof (cases "cp_pc p")
    case CapRecv
    then show ?thesis
      using assms(1) stuckD capture_step.recv [of p _ _ n] capture_step.recv_closed [of p n]
      by (cases "cp_queue p") blast+
  next
    case CapDrain
    then show ?thesis
      using cap waits(3) stuckD capture_step.drain_join [of p n] capture_step.drain_exit [of p n] by (metis not_le)
  next
    case CapDrainPosts
    then show ?thesis
      using cap waits(4) stuckD capture_step.posts_join [of p n] capture_step.drain_posts_exit [of p n]
      by (metis insertI1 not_le)
  next
    case CapPosts
    then show ?thesis
      using cap waits(4) stuckD capture_step.posts_join [of p n] capture_step.posts_exit [of p n]
      by (metis insertI1 insertI2 not_le)
  next
    case CapFinal
    then show ?thesis
      using waits(3) stuckD capture_step.final_join [of p _ n] capture_step.final_exit [of p n] by blast
  next
    case CapFinalPosts
    then show ?thesis
      using cap waits(4) stuckD capture_step.posts_join [of p n] capture_step.final_posts_exit [of p n]
      by (metis insertI1 insertI2 not_le)
  next
    case CapLast
    then show ?thesis
      using waits(4) stuckD capture_step.last_join [of p _ n] capture_step.last_exit [of p n] by blast
  qed (use assms(2) in simp)
qed

lemma capture_step_closed: "capture_step n p p' \<Longrightarrow> cp_closed p \<Longrightarrow> cp_closed p'"
  by (induction rule: capture_step.induct) (auto simp: capture_pool_defs split: capture_outcome.splits)

lemma capture_runs_to_stop:
  "cp_closed p \<Longrightarrow> capture_reachable n sent p
   \<Longrightarrow> \<exists>p'. capture_reachable n sent p' \<and> (capture_step n)\<^sup>*\<^sup>* p p' \<and> cp_pc p' = CapStopped"
proof (induction "capture_measure p" arbitrary: p rule: less_induct)
  case less
  show ?case
  proof (cases "cp_pc p = CapStopped")
    case False
    then obtain p' where p': "capture_step n p p'"
      using capture_progress less.prems(1) by blast
    then show ?thesis
      using less.hyps [OF capture_step_decreases [OF p'] capture_step_closed [OF p' less.prems(1)]
          capture_reachable.step [OF less.prems(2) p']] by (meson converse_rtranclp_into_rtranclp)
  qed (use less.prems in blast)
qed

lemma queue_empty_when_final:
  "capture_reachable n sent p \<Longrightarrow> cp_pc p \<in> {CapFinal, CapFinalPosts, CapLast, CapStopped}
   \<Longrightarrow> cp_queue p = [] \<and> cp_closed p"
proof (induction rule: capture_reachable.induct)
  case (step sent p p')
  from step(2,1,3,4) show ?case
    by (induction rule: capture_step.induct) (auto simp: capture_pool_defs split: capture_outcome.splits)
qed (auto simp: capture_pool_init_def)

lemma capture_stopped_ended:
  assumes "capture_reachable n sent p" "cp_pc p = CapStopped"
  shows "mset (cp_ended p) = mset sent"
proof -
  have "capture_in_flight p = 0" "post_in_flight p = 0" "capture_accounted p = mset sent"
    using capture_reachable_inv [OF assms(1)] assms(2) by (auto simp: capture_room_def)
  then show ?thesis
    using queue_empty_when_final [OF assms(1)] assms(2)
    by (simp add: capture_accounted_def capture_in_flight_def post_in_flight_def)
qed

section \<open>Requests that wait for later requests\<close>

definition nothing_joined :: "nat \<Rightarrow> 'r list \<Rightarrow> 'r capture_pool \<Rightarrow> bool" where
  "nothing_joined n sent p \<longleftrightarrow> cp_closed p \<or> max 1 n \<le> length sent
     \<or> (cp_pc p \<in> {CapRecv, CapDrain, CapPosts} \<and> cp_posts p = [] \<and> cp_posted p = [] \<and> cp_ended p = [])"

lemma accounted_in_flight:
  assumes "capture_accounted p = mset sent"
  shows "capture_in_flight p \<le> length sent"
proof -
  have "capture_in_flight p \<le> size (capture_accounted p)"
    by (simp add: capture_accounted_def capture_in_flight_def)
  then show ?thesis
    by (simp add: assms)
qed

lemma reachable_nothing_joined: "capture_reachable n sent p \<Longrightarrow> nothing_joined n sent p"
proof (induction rule: capture_reachable.induct)
  case (step sent p p')
  have "capture_in_flight p \<le> length sent"
    using accounted_in_flight capture_reachable_inv [OF step(1)] by blast
  with step(2,3) show ?case
    by (induction rule: capture_step.induct)
      (auto simp: nothing_joined_def capture_pool_defs split: capture_outcome.splits)
qed (auto simp: nothing_joined_def capture_pool_init_def)

section \<open>The one-set pool\<close>

definition pool_accounted :: "'r pool \<Rightarrow> 'r multiset" where
  "pool_accounted p = mset (po_queue p) + mset (po_running p) + mset (po_finished p) + mset (po_joined p)"

definition pool_ok :: "nat \<Rightarrow> 'r list \<Rightarrow> 'r pool \<Rightarrow> bool" where
  "pool_ok n sent p \<longleftrightarrow> pool_in_flight p \<le> max 1 n \<and> (po_pc p = PoolRecv \<longrightarrow> pool_in_flight p < max 1 n)
     \<and> (po_pc p = PoolDone \<longrightarrow> pool_in_flight p = 0)
     \<and> (po_pc p \<in> {PoolFinal, PoolDone} \<longrightarrow> po_queue p = [] \<and> po_closed p)
     \<and> pool_accounted p = mset sent"

lemmas pool_defs = pool_ok_def pool_in_flight_def pool_accounted_def pool_join_def

lemma pool_join_accounted: "r \<in> set (po_finished p) \<Longrightarrow> pool_accounted (pool_join r p) = pool_accounted p"
  by (simp add: pool_accounted_def pool_join_def mset_remove1_add del: mset_remove1)

lemma pool_step_ok: "pool_step n p p' \<Longrightarrow> pool_ok n sent p \<Longrightarrow> pool_ok n sent p'"
proof (induction rule: pool_step.induct)
  case (finish r p)
  then show ?case
    using remove1_length [of r "po_running p"] mset_remove1_add [of r "po_running p"]
    by (auto simp: pool_defs ac_simps)
next
  case (drain_join p r)
  then show ?case
    using remove1_length [of r "po_finished p"] pool_join_accounted [of r p]
    by (auto simp: pool_ok_def) (auto simp: pool_in_flight_def pool_join_def)
next
  case (final_join p r)
  then show ?case
    using remove1_length [of r "po_finished p"] pool_join_accounted [of r p]
    by (auto simp: pool_ok_def) (auto simp: pool_in_flight_def pool_join_def)
qed (auto simp: pool_defs)

lemma pool_reachable_ok: "pool_reachable n sent p \<Longrightarrow> pool_ok n sent p"
proof (induction rule: pool_reachable.induct)
  case (step sent p p')
  then show ?case
    using pool_step_ok by blast
qed (auto simp: pool_defs pool_init_def)

section \<open>Properties\<close>

text \<open>A triage or diff worker never has more tasks in flight than its concurrency, no request is lost or
  handled twice, and when the worker returns every request sent was handled.\<close>

theorem worker_pool_bounded_lossless:
  assumes "pool_reachable n sent p"
  shows "pool_in_flight p \<le> max 1 n \<and> pool_accounted p = mset sent
    \<and> (po_pc p \<noteq> PoolDone \<or> mset (po_joined p) = mset sent)"
  using pool_reachable_ok [OF assms] by (auto simp: pool_defs)

text \<open>A run with two requests, concurrency two: one task has finished and is not yet joined.\<close>

definition demo_pool :: "nat pool" where
  "demo_pool = \<lparr>po_pc = PoolDrain, po_queue = [], po_closed = False, po_running = [8], po_finished = [7], po_joined = []\<rparr>"

lemma demo_pool_reachable: "pool_reachable 2 [7, 8] demo_pool"
proof -
  note st = pool_reachable.step [rotated] and sn = pool_reachable.send
  have "pool_reachable 2 [7, 8] \<lparr>po_pc = PoolRecv, po_queue = [7, 8::nat], po_closed = False, po_running = [], po_finished = [], po_joined = []\<rparr>"
    using sn [OF sn [OF pool_reachable.init [of 2], of 7], of 8] by (simp add: pool_init_def)
  note st [OF pool_step.recv [of _ 7 "[8]"] this]
  then have "pool_reachable 2 [7, 8] \<lparr>po_pc = PoolDrain, po_queue = [8::nat], po_closed = False, po_running = [7], po_finished = [], po_joined = []\<rparr>"
    by simp
  note st [OF pool_step.drain_exit this]
  then have "pool_reachable 2 [7, 8] \<lparr>po_pc = PoolRecv, po_queue = [8::nat], po_closed = False, po_running = [7], po_finished = [], po_joined = []\<rparr>"
    by (simp add: pool_in_flight_def)
  note st [OF pool_step.recv [of _ 8 "[]"] this]
  then have "pool_reachable 2 [7, 8] \<lparr>po_pc = PoolDrain, po_queue = [], po_closed = False, po_running = [7, 8::nat], po_finished = [], po_joined = []\<rparr>"
    by simp
  note st [OF pool_step.finish [of 7] this]
  then show ?thesis
    by (simp add: demo_pool_def)
qed

lemma worker_pool_bounded_lossless_witness:
  "pool_in_flight demo_pool \<le> max 1 2 \<and> pool_accounted demo_pool = mset [7, 8]"
  using worker_pool_bounded_lossless [OF demo_pool_reachable] by blast

text \<open>C16: The capture worker never runs more captures, nor more analyses, than its concurrency, and every
  request sent is queued, in exactly one of the two task sets, or ended.\<close>

theorem capture_pool_bounded_lossless:
  assumes "capture_reachable n sent p"
  shows "capture_in_flight p \<le> max 1 n \<and> post_in_flight p \<le> max 1 n \<and> capture_accounted p = mset sent"
  using capture_reachable_inv [OF assms] by (simp add: capture_room_def)

text \<open>A release captured while the worker waits for its next request.\<close>

definition demo_captured :: "nat capture_pool" where
  "demo_captured = \<lparr>cp_pc = CapRecv, cp_queue = [], cp_closed = False, cp_captures = [],
     cp_captured = [(7, CaptureDone 7)], cp_posts = [], cp_posted = [], cp_ended = []\<rparr>"

lemma demo_captured_reachable: "capture_reachable 2 [7] demo_captured"
proof -
  note st = capture_reachable.step [rotated]
  have "capture_reachable 2 [7] \<lparr>cp_pc = CapRecv, cp_queue = [7::nat], cp_closed = False, cp_captures = [],
     cp_captured = [], cp_posts = [], cp_posted = [], cp_ended = []\<rparr>"
    using capture_reachable.send [OF capture_reachable.init, of 2 7] by (simp add: capture_pool_init_def)
  note st [OF capture_step.recv [of _ 7 "[]"] this]
  then have "capture_reachable 2 [7] \<lparr>cp_pc = CapDrain, cp_queue = [], cp_closed = False, cp_captures = [7::nat],
     cp_captured = [], cp_posts = [], cp_posted = [], cp_ended = []\<rparr>"
    by (simp add: spawn_capture_def)
  note st [OF capture_step.captured [of 7 _ "CaptureDone 7"] this]
  then have "capture_reachable 2 [7] \<lparr>cp_pc = CapDrain, cp_queue = [], cp_closed = False, cp_captures = [],
     cp_captured = [(7::nat, CaptureDone 7)], cp_posts = [], cp_posted = [], cp_ended = []\<rparr>"
    by simp
  note st [OF capture_step.drain_exit this]
  then have "capture_reachable 2 [7] \<lparr>cp_pc = CapPosts, cp_queue = [], cp_closed = False, cp_captures = [],
     cp_captured = [(7::nat, CaptureDone 7)], cp_posts = [], cp_posted = [], cp_ended = []\<rparr>"
    by (simp add: capture_in_flight_def)
  note st [OF capture_step.posts_exit this]
  then show ?thesis
    by (simp add: post_in_flight_def demo_captured_def)
qed

lemma capture_pool_bounded_lossless_witness:
  "capture_in_flight demo_captured \<le> max 1 2 \<and> post_in_flight demo_captured \<le> max 1 2
   \<and> capture_accounted demo_captured = mset [7]"
  by (rule capture_pool_bounded_lossless [OF demo_captured_reachable])

text \<open>A captured release is analysed only when later requests fill the pool: as long as fewer requests
  than the concurrency were sent and the channel is open, no capture is ever joined, so no analysis, and no
  verdict, is started, however long the worker runs.\<close>

theorem captured_release_waits_for_later_requests:
  assumes "capture_reachable n sent p" "\<not> cp_closed p" "length sent < max 1 n"
  shows "cp_posts p = [] \<and> cp_posted p = [] \<and> cp_ended p = []"
  using reachable_nothing_joined [OF assms(1)] assms(2,3) by (auto simp: nothing_joined_def)

lemma captured_release_waits_for_later_requests_witness:
  "capture_reachable 2 [7] demo_captured \<and> cp_captured demo_captured = [(7, CaptureDone 7)]
   \<and> cp_posts demo_captured = [] \<and> cp_posted demo_captured = [] \<and> cp_ended demo_captured = []"
  using captured_release_waits_for_later_requests [OF demo_captured_reachable] demo_captured_reachable
  by (simp add: demo_captured_def)

text \<open>When the channel is closed the capture worker always returns: every step makes progress towards its
  end and one is possible until it is reached, and then every request sent has ended.\<close>

theorem capture_worker_returns_when_closed:
  assumes "capture_reachable n sent p" "cp_closed p"
  shows "(\<exists>p'. (capture_step n)\<^sup>*\<^sup>* p p' \<and> cp_pc p' = CapStopped \<and> mset (cp_ended p') = mset sent)
    \<and> wfp (\<lambda>p' p. capture_step n p p')
    \<and> (cp_pc p = CapStopped \<or> (\<exists>p'. capture_step n p p'))"
proof -
  have "wfp (\<lambda>p' p. capture_step n p p')"
    using capture_step_decreases by (intro wfp_if_convertible_to_nat [of _ capture_measure]) blast
  then show ?thesis
    using capture_runs_to_stop [OF assms(2,1)] capture_stopped_ended capture_progress [OF assms(2)] by blast
qed

lemma demo_closed_reachable: "capture_reachable 2 [7] (demo_captured\<lparr>cp_closed := True\<rparr>)"
  using capture_reachable.step [OF demo_captured_reachable capture_step.close] by (simp add: demo_captured_def)

lemma capture_worker_returns_when_closed_witness:
  "\<exists>p'. (capture_step 2)\<^sup>*\<^sup>* (demo_captured\<lparr>cp_closed := True\<rparr>) p' \<and> cp_pc p' = CapStopped \<and> mset (cp_ended p') = mset [7]"
  using capture_worker_returns_when_closed [OF demo_closed_reachable] by (auto simp del: mset.simps)

end
