(* ===== verification/Shutdown.thy ===== *)
theory Shutdown
  imports Prelude
begin

text \<open>
  The shutdown of \<open>lib.rs\<close> \<open>run\<close>: which task waits for which channel and which token, and the order in
  which the main task drops its senders, joins the tasks and cancels the tokens.  A worker returns when
  the last sender of its channel is gone (it drains its tasks, which is no concern here); the periodic
  tasks and the audit loop return when their token is cancelled; a disabled audit returns at once and an
  enabled one also when a tick fails.  Tasks do not panic.
\<close>

datatype task = Triage | Capture | Diff | Audit | Sweeper | Perf | View | Health

text \<open>What the main task does after the event loop, in order.\<close>

datatype main_action = DropTriageTx | Join task | DropCaptureTx | JoinSources | DropDiffTx | CancelTokens

definition main_program :: "main_action list" where
  "main_program = [DropTriageTx, Join Triage, DropCaptureTx, JoinSources, Join Capture, DropDiffTx, Join Diff,
     CancelTokens, Join Perf, Join View, Join Sweeper, Join Health, Join Audit]"

text \<open>\<open>run_dropped_capture_audit_loop\<close> loops when it has an interval and anything to select; a health
  server runs when an address is configured.\<close>

record shutdown_config =
  cf_audit_enabled :: bool
  cf_audit_fails :: bool
  cf_health :: bool

record runtime =
  ru_sources :: nat
  ru_signalled :: bool
  ru_triage_tx :: bool
  ru_capture_tx :: bool
  ru_diff_tx :: bool
  ru_cancelled :: bool
  ru_running :: "task set"
  ru_todo :: "main_action list option"

definition runtime_init :: "shutdown_config \<Rightarrow> nat \<Rightarrow> runtime" where
  "runtime_init cfg sources = \<lparr>ru_sources = sources, ru_signalled = False, ru_triage_tx = True, ru_capture_tx = True,
     ru_diff_tx = True, ru_cancelled = False,
     ru_running = {Triage, Capture, Diff, Audit, Sweeper, Perf, View} \<union> (if cf_health cfg then {Health} else {}),
     ru_todo = None\<rparr>"

text \<open>The senders of a channel: the triage queue has the main task's, the capture queue also those of the
  triage worker and of the audit loop, the diff queue also the capture worker's.\<close>

definition capture_senders :: "runtime \<Rightarrow> bool" where
  "capture_senders s \<longleftrightarrow> ru_capture_tx s \<or> Triage \<in> ru_running s \<or> Audit \<in> ru_running s"

fun may_return :: "shutdown_config \<Rightarrow> runtime \<Rightarrow> task \<Rightarrow> bool" where
  "may_return cfg s Triage = (\<not> ru_triage_tx s)"
| "may_return cfg s Capture = (\<not> capture_senders s)"
| "may_return cfg s Diff = (\<not> ru_diff_tx s \<and> Capture \<notin> ru_running s)"
| "may_return cfg s Audit = (\<not> cf_audit_enabled cfg \<or> cf_audit_fails cfg \<or> ru_cancelled s)"
| "may_return cfg s Sweeper = ru_cancelled s"
| "may_return cfg s Perf = ru_cancelled s"
| "may_return cfg s View = ru_cancelled s"
| "may_return cfg s Health = ru_cancelled s"

fun main_ready :: "runtime \<Rightarrow> main_action \<Rightarrow> bool" where
  "main_ready s (Join t) = (t \<notin> ru_running s)"
| "main_ready s JoinSources = (ru_sources s = 0)"
| "main_ready s a = True"

fun main_effect :: "main_action \<Rightarrow> runtime \<Rightarrow> runtime" where
  "main_effect DropTriageTx s = s\<lparr>ru_triage_tx := False\<rparr>"
| "main_effect DropCaptureTx s = s\<lparr>ru_capture_tx := False\<rparr>"
| "main_effect DropDiffTx s = s\<lparr>ru_diff_tx := False\<rparr>"
| "main_effect CancelTokens s = s\<lparr>ru_cancelled := True\<rparr>"
| "main_effect a s = s"

text \<open>The event loop leaves when every sender of the event channel, one per source, is gone.\<close>

inductive shutdown_step :: "shutdown_config \<Rightarrow> runtime \<Rightarrow> runtime \<Rightarrow> bool" for cfg :: shutdown_config where
  signal: "ru_todo s = None \<Longrightarrow> \<not> ru_signalled s \<Longrightarrow> shutdown_step cfg s (s\<lparr>ru_signalled := True\<rparr>)"
| source_stops: "ru_sources s = Suc k \<Longrightarrow> shutdown_step cfg s (s\<lparr>ru_sources := k\<rparr>)"
| loop_exit: "ru_todo s = None \<Longrightarrow> ru_sources s = 0 \<Longrightarrow> shutdown_step cfg s (s\<lparr>ru_todo := Some main_program\<rparr>)"
| returns: "t \<in> ru_running s \<Longrightarrow> may_return cfg s t \<Longrightarrow> shutdown_step cfg s (s\<lparr>ru_running := ru_running s - {t}\<rparr>)"
| main: "ru_todo s = Some (a # todo) \<Longrightarrow> main_ready s a
    \<Longrightarrow> shutdown_step cfg s ((main_effect a s)\<lparr>ru_todo := Some todo\<rparr>)"

inductive shutdown_reachable :: "shutdown_config \<Rightarrow> runtime \<Rightarrow> bool" for cfg :: shutdown_config where
  init: "shutdown_reachable cfg (runtime_init cfg sources)"
| step: "shutdown_reachable cfg s \<Longrightarrow> shutdown_step cfg s s' \<Longrightarrow> shutdown_reachable cfg s'"

section \<open>The audit loop keeps the capture queue open\<close>

text \<open>As long as the audit loop runs the capture worker does, and the main task has not got past joining it.\<close>

definition held :: "runtime \<Rightarrow> bool" where
  "held s \<longleftrightarrow> \<not> ru_cancelled s \<and> Audit \<in> ru_running s \<and> Capture \<in> ru_running s
     \<and> (ru_todo s = None \<or> ru_todo s \<in> Some ` (\<lambda>n. drop n main_program) ` {..4})"

lemma drop_program:
  "n \<le> 4 \<Longrightarrow> drop n main_program = a # todo
   \<Longrightarrow> (n < 4 \<and> todo = drop (Suc n) main_program \<and> a \<noteq> CancelTokens) \<or> a = Join Capture"
proof -
  assume "n \<le> 4" and d: "drop n main_program = a # todo"
  then have "n = 0 \<or> n = 1 \<or> n = 2 \<or> n = 3 \<or> n = 4"
    by auto
  with d show ?thesis
    by (elim disjE) (auto simp: main_program_def)
qed

lemma main_effect_frame [simp]:
  "ru_running (main_effect a s) = ru_running s" "ru_sources (main_effect a s) = ru_sources s"
  "ru_todo (main_effect a s) = ru_todo s" "ru_signalled (main_effect a s) = ru_signalled s"
  by (cases a; simp)+

lemma main_effect_cancelled [simp]: "ru_cancelled (main_effect a s) = (ru_cancelled s \<or> a = CancelTokens)"
  by (cases a) simp_all

lemma held_step:
  assumes "shutdown_step cfg s s'" "cf_audit_enabled cfg" "\<not> cf_audit_fails cfg" "held s"
  shows "held s'"
  using assms
proof (induction rule: shutdown_step.induct)
  case (loop_exit s)
  have "main_program = drop 0 main_program"
    by simp
  with loop_exit show ?case
    unfolding held_def by (auto simp: image_iff intro!: bexI [of _ 0])
next
  case (returns t s)
  then show ?case
    by (cases t) (auto simp: held_def capture_senders_def)
next
  case (main s a todo)
  then obtain n where n: "n \<le> 4" "drop n main_program = a # todo"
    by (auto simp: held_def)
  have "a \<noteq> Join Capture"
    using main by (auto simp: held_def)
  then have "n < 4" "todo = drop (Suc n) main_program" "a \<noteq> CancelTokens"
    using drop_program [OF n] by auto
  then show ?case
    using main by (auto simp: held_def image_iff intro!: bexI [of _ "Suc n"])
qed (auto simp: held_def)

lemma held_init: "held (runtime_init cfg sources)"
  by (simp add: held_def runtime_init_def)

lemma held_reachable:
  "shutdown_reachable cfg s \<Longrightarrow> cf_audit_enabled cfg \<Longrightarrow> \<not> cf_audit_fails cfg \<Longrightarrow> held s"
  by (induction rule: shutdown_reachable.induct) (simp_all add: held_init held_step)

section \<open>Without the audit loop the shutdown ends\<close>

definition shutdown_measure :: "runtime \<Rightarrow> nat" where
  "shutdown_measure s = ru_sources s + card (ru_running s) + (if ru_signalled s then 0 else 1)
     + (case ru_todo s of None \<Rightarrow> Suc (length main_program) | Some todo \<Rightarrow> length todo)"

lemma finite_tasks: "finite (T :: task set)"
proof -
  have "(UNIV :: task set) = {Triage, Capture, Diff, Audit, Sweeper, Perf, View, Health}"
    by (auto intro: task.exhaust)
  then show ?thesis
    by (metis finite.simps finite_subset subset_UNIV)
qed

lemma shutdown_step_decreases: "shutdown_step cfg s s' \<Longrightarrow> shutdown_measure s' < shutdown_measure s"
proof (induction rule: shutdown_step.induct)
  case (returns t s)
  then show ?case
    using card_Diff1_less [OF finite_tasks, of t "ru_running s"] by (simp add: shutdown_measure_def)
qed (auto simp: shutdown_measure_def)

text \<open>What an action of the main task leaves behind, and keeps.\<close>

fun happened :: "runtime \<Rightarrow> main_action \<Rightarrow> bool" where
  "happened s DropTriageTx = (\<not> ru_triage_tx s)"
| "happened s DropCaptureTx = (\<not> ru_capture_tx s)"
| "happened s DropDiffTx = (\<not> ru_diff_tx s)"
| "happened s CancelTokens = ru_cancelled s"
| "happened s JoinSources = (ru_sources s = 0)"
| "happened s (Join t) = (t \<notin> ru_running s)"

definition todo_ok :: "runtime \<Rightarrow> bool" where
  "todo_ok s \<longleftrightarrow> (\<forall>todo. ru_todo s = Some todo \<longrightarrow> (\<exists>past. past @ todo = main_program \<and> list_all (happened s) past))"

lemma happened_step: "shutdown_step cfg s s' \<Longrightarrow> happened s a \<Longrightarrow> happened s' a"
proof (induction rule: shutdown_step.induct)
  case (main s b todo)
  then show ?case
    by (cases a; cases b) simp_all
qed (cases a; simp)+

lemma happened_main: "main_ready s a \<Longrightarrow> happened ((main_effect a s)\<lparr>ru_todo := t\<rparr>) a"
  by (cases a) simp_all

lemma todo_ok_step:
  assumes "shutdown_step cfg s s'" "todo_ok s"
  shows "todo_ok s'"
proof (cases "ru_todo s' = ru_todo s")
  case True
  then show ?thesis
    using assms happened_step [OF assms(1)] unfolding todo_ok_def by (metis (no_types, lifting) list_all_iff)
next
  case False
  with assms(1) show ?thesis
  proof (cases rule: shutdown_step.cases)
    case loop_exit
    then show ?thesis
      by (auto simp: todo_ok_def)
  next
    case (main a todo)
    then obtain past where past: "past @ a # todo = main_program" "list_all (happened s) past"
      using assms(2) by (auto simp: todo_ok_def)
    moreover have "list_all (happened s') (past @ [a])"
      using past(2) happened_step [OF assms(1)] happened_main [OF main(3)] main(1) by (auto simp: list_all_iff)
    moreover have "(past @ [a]) @ todo = main_program"
      using past(1) by simp
    ultimately show ?thesis
      using main(1) unfolding todo_ok_def by (auto intro!: exI [of _ "past @ [a]"])
  qed auto
qed

lemma todo_ok_reachable: "shutdown_reachable cfg s \<Longrightarrow> todo_ok s"
proof (induction rule: shutdown_reachable.induct)
  case (init sources)
  then show ?case
    by (simp add: todo_ok_def runtime_init_def)
qed (rule todo_ok_step)

fun join_needs :: "task \<Rightarrow> main_action set" where
  "join_needs Triage = {DropTriageTx}"
| "join_needs Capture = {Join Triage, DropCaptureTx}"
| "join_needs Diff = {DropDiffTx, Join Capture}"
| "join_needs t = {CancelTokens}"

lemma join_needs_past: "past @ Join t # todo = main_program \<Longrightarrow> join_needs t \<subseteq> set past"
  by (cases t) (auto simp: main_program_def append_eq_Cons_conv)

lemma blocked_join_moves:
  assumes "join_needs t \<subseteq> Collect (happened s)" "t \<in> ru_running s" "\<not> cf_audit_enabled cfg \<or> cf_audit_fails cfg"
  shows "\<exists>t' \<in> ru_running s. may_return cfg s t'"
proof (cases "t = Capture")
  case True
  then show ?thesis
    using assms by (cases "Audit \<in> ru_running s") (auto simp: capture_senders_def intro: bexI [of _ Audit] bexI [of _ Capture])
next
  case False
  then have "may_return cfg s t"
    using assms by (cases t) auto
  then show ?thesis
    using assms(2) by blast
qed

lemma shutdown_progress:
  assumes "todo_ok s" "\<not> cf_audit_enabled cfg \<or> cf_audit_fails cfg" "ru_todo s = Some (a # todo)"
  shows "\<exists>s'. shutdown_step cfg s s'"
proof (cases "main_ready s a")
  case True
  then show ?thesis
    using shutdown_step.main [OF assms(3)] by blast
next
  case False
  obtain past where past: "past @ a # todo = main_program" "list_all (happened s) past"
    using assms(1,3) by (auto simp: todo_ok_def)
  show ?thesis
  proof (cases a)
    case (Join t)
    then have "join_needs t \<subseteq> Collect (happened s)"
      using join_needs_past past by (fastforce simp: list_all_iff)
    then show ?thesis
      using blocked_join_moves [OF _ _ assms(2)] False Join shutdown_step.returns by fastforce
  next
    case JoinSources
    then show ?thesis
      using False shutdown_step.source_stops by (cases "ru_sources s") fastforce+
  qed (use False in simp_all)
qed

lemma shutdown_runs_to_end:
  "todo_ok s \<Longrightarrow> ru_todo s \<noteq> None \<Longrightarrow> \<not> cf_audit_enabled cfg \<or> cf_audit_fails cfg
   \<Longrightarrow> \<exists>s'. (shutdown_step cfg)\<^sup>*\<^sup>* s s' \<and> ru_todo s' = Some []"
proof (induction "shutdown_measure s" arbitrary: s rule: less_induct)
  case less
  show ?case
  proof (cases "ru_todo s = Some []")
    case False
    then obtain a todo where "ru_todo s = Some (a # todo)"
      using less.prems(2) by (cases "ru_todo s") (auto simp: neq_Nil_conv)
    then obtain s' where s': "shutdown_step cfg s s'"
      using shutdown_progress [OF less.prems(1,3)] by blast
    moreover have "ru_todo s' \<noteq> None"
      using s' less.prems(2) by (cases rule: shutdown_step.cases) auto
    ultimately show ?thesis
      using less.hyps [OF shutdown_step_decreases [OF s'] todo_ok_step [OF s' less.prems(1)] _ less.prems(3)]
      by (meson converse_rtranclp_into_rtranclp)
  qed blast
qed

section \<open>Properties\<close>


text \<open>The state it ends in after a signal: all sources have stopped, triage has returned, nothing can move.\<close>

definition audit_config :: shutdown_config where
  "audit_config = \<lparr>cf_audit_enabled = True, cf_audit_fails = False, cf_health = False\<rparr>"

definition deadlocked :: runtime where
  "deadlocked = \<lparr>ru_sources = 0, ru_signalled = True, ru_triage_tx = False, ru_capture_tx = False, ru_diff_tx = True,
     ru_cancelled = False, ru_running = {Capture, Diff, Audit, Sweeper, Perf, View}, ru_todo = Some (drop 4 main_program)\<rparr>"

lemma deadlocked_stuck: "\<not> shutdown_step audit_config deadlocked s'"
proof
  assume "shutdown_step audit_config deadlocked s'"
  then show False
    by (cases rule: shutdown_step.cases)
      (auto simp: deadlocked_def audit_config_def main_program_def capture_senders_def)
qed

lemma deadlocked_reachable: "shutdown_reachable audit_config deadlocked"
proof -
  let ?R = "{Capture, Diff, Audit, Sweeper, Perf, View}"
  note st = shutdown_reachable.step [rotated]
  have 0: "shutdown_reachable audit_config \<lparr>ru_sources = 1, ru_signalled = False, ru_triage_tx = True, ru_capture_tx = True,
     ru_diff_tx = True, ru_cancelled = False, ru_running = insert Triage ?R, ru_todo = None\<rparr>"
    using shutdown_reachable.init [of audit_config 1] by (simp add: runtime_init_def audit_config_def)
  note st [OF shutdown_step.signal 0]
  then have 1: "shutdown_reachable audit_config \<lparr>ru_sources = 1, ru_signalled = True, ru_triage_tx = True, ru_capture_tx = True,
     ru_diff_tx = True, ru_cancelled = False, ru_running = insert Triage ?R, ru_todo = None\<rparr>"
    by simp
  note st [OF shutdown_step.source_stops [of _ 0] 1]
  then have 2: "shutdown_reachable audit_config \<lparr>ru_sources = 0, ru_signalled = True, ru_triage_tx = True, ru_capture_tx = True,
     ru_diff_tx = True, ru_cancelled = False, ru_running = insert Triage ?R, ru_todo = None\<rparr>"
    by simp
  note st [OF shutdown_step.loop_exit 2]
  then have 3: "shutdown_reachable audit_config \<lparr>ru_sources = 0, ru_signalled = True, ru_triage_tx = True, ru_capture_tx = True,
     ru_diff_tx = True, ru_cancelled = False, ru_running = insert Triage ?R, ru_todo = Some main_program\<rparr>"
    by simp
  note st [OF shutdown_step.main [of _ DropTriageTx "drop 1 main_program"] 3]
  then have 4: "shutdown_reachable audit_config \<lparr>ru_sources = 0, ru_signalled = True, ru_triage_tx = False, ru_capture_tx = True,
     ru_diff_tx = True, ru_cancelled = False, ru_running = insert Triage ?R, ru_todo = Some (drop 1 main_program)\<rparr>"
    by (simp add: main_program_def)
  note st [OF shutdown_step.returns [of Triage] 4]
  then have 5: "shutdown_reachable audit_config \<lparr>ru_sources = 0, ru_signalled = True, ru_triage_tx = False, ru_capture_tx = True,
     ru_diff_tx = True, ru_cancelled = False, ru_running = ?R, ru_todo = Some (drop 1 main_program)\<rparr>"
    by (simp add: insert_Diff_if)
  note st [OF shutdown_step.main [of _ "Join Triage" "drop 2 main_program"] 5]
  then have 6: "shutdown_reachable audit_config \<lparr>ru_sources = 0, ru_signalled = True, ru_triage_tx = False, ru_capture_tx = True,
     ru_diff_tx = True, ru_cancelled = False, ru_running = ?R, ru_todo = Some (drop 2 main_program)\<rparr>"
    by (simp add: main_program_def)
  note st [OF shutdown_step.main [of _ DropCaptureTx "drop 3 main_program"] 6]
  then have 7: "shutdown_reachable audit_config \<lparr>ru_sources = 0, ru_signalled = True, ru_triage_tx = False, ru_capture_tx = False,
     ru_diff_tx = True, ru_cancelled = False, ru_running = ?R, ru_todo = Some (drop 3 main_program)\<rparr>"
    by (simp add: main_program_def)
  note st [OF shutdown_step.main [of _ JoinSources "drop 4 main_program"] 7]
  then show ?thesis
    by (simp add: main_program_def deadlocked_def)
qed


text \<open>Without the audit loop, disabled or ended by an error, the shutdown always completes: no run is
  infinite, some step is possible until every task is joined, and once the event loop has been left a run to
  the end exists from every state.\<close>

theorem shutdown_completes_without_audit:
  assumes "shutdown_reachable cfg s" "\<not> cf_audit_enabled cfg \<or> cf_audit_fails cfg" "ru_todo s \<noteq> None"
  shows "wfp (\<lambda>s' s. shutdown_step cfg s s') \<and> (ru_todo s = Some [] \<or> (\<exists>s'. shutdown_step cfg s s'))
    \<and> (\<exists>s'. (shutdown_step cfg)\<^sup>*\<^sup>* s s' \<and> ru_todo s' = Some [])"
proof -
  have "wfp (\<lambda>s' s. shutdown_step cfg s s')"
    using shutdown_step_decreases by (intro wfp_if_convertible_to_nat [of _ shutdown_measure]) blast
  moreover have "ru_todo s = Some [] \<or> (\<exists>s'. shutdown_step cfg s s')"
    using shutdown_progress [OF todo_ok_reachable [OF assms(1)] assms(2)] assms(3) by (metis list.exhaust option.exhaust)
  ultimately show ?thesis
    using shutdown_runs_to_end [OF todo_ok_reachable [OF assms(1)] assms(3,2)] by blast
qed

lemma shutdown_completes_without_audit_witness:
  "\<exists>s'. (shutdown_step \<lparr>cf_audit_enabled = False, cf_audit_fails = False, cf_health = False\<rparr>)\<^sup>*\<^sup>*
      ((runtime_init \<lparr>cf_audit_enabled = False, cf_audit_fails = False, cf_health = False\<rparr> 0)\<lparr>ru_todo := Some main_program\<rparr>) s'
    \<and> ru_todo s' = Some []"
proof -
  let ?cfg = "\<lparr>cf_audit_enabled = False, cf_audit_fails = False, cf_health = False\<rparr>"
  have "shutdown_reachable ?cfg ((runtime_init ?cfg 0)\<lparr>ru_todo := Some main_program\<rparr>)"
    by (rule shutdown_reachable.step [OF shutdown_reachable.init shutdown_step.loop_exit]) (simp_all add: runtime_init_def)
  from shutdown_completes_without_audit [OF this] show ?thesis
    by simp
qed

end
