(* ===== verification/Ledger.thy ===== *)
theory Ledger
  imports Event
begin

text \<open>
  \<open>ledger.rs\<close>, the event sink of \<open>sink.rs\<close> and the state files of \<open>state.rs\<close>.  The ledger is a file of one
  JSON line per event: an append writes and flushes one line and syncs when enough is pending; a read
  decodes every line or fails.  Serde's encoder and decoder are arguments, as is the file system's answer
  where an operation can fail.  Times are nanoseconds.
\<close>

section \<open>Appending\<close>

record ledger_writer =
  lw_file :: string
  lw_pending_sync_events :: nat
  lw_pending_sync_bytes :: nat
  lw_last_sync_at :: datetime

definition ledger_sync_max_delay :: int where
  "ledger_sync_max_delay = 250 * 1000000"

definition ledger_sync_max_pending_events :: nat where
  "ledger_sync_max_pending_events = 64"

definition ledger_sync_max_pending_bytes :: nat where
  "ledger_sync_max_pending_bytes = 256 * 1024"

lemmas ledger_limits = ledger_sync_max_delay_def ledger_sync_max_pending_events_def ledger_sync_max_pending_bytes_def

definition ledger_open :: "string \<Rightarrow> datetime \<Rightarrow> ledger_writer" where
  "ledger_open file now = \<lparr>lw_file = file, lw_pending_sync_events = 0, lw_pending_sync_bytes = 0, lw_last_sync_at = now\<rparr>"

text \<open>What can go wrong with one append: the encoder refuses the event, only a prefix of the line gets
  written before an error, or the sync fails.\<close>

datatype append_fault = EncodeFails | WriteFails nat | SyncFails

abbreviation newline :: char where
  "newline \<equiv> CHR 0x0A"

definition ledger_append ::
  "(release_event \<Rightarrow> string) \<Rightarrow> append_fault option \<Rightarrow> datetime \<Rightarrow> datetime \<Rightarrow> release_event \<Rightarrow> ledger_writer
   \<Rightarrow> ledger_writer \<times> (string + unit)" where
  "ledger_append enc fault elapsed_at now e w =
     (let encoded = enc e @ [newline] in
      case fault of
        Some EncodeFails \<Rightarrow> (w, Inl ''failed to encode event for ledger'')
      | Some (WriteFails n) \<Rightarrow> (w\<lparr>lw_file := lw_file w @ take n encoded\<rparr>, Inl ''failed to append event'')
      | _ \<Rightarrow>
          (let w = w\<lparr>lw_file := lw_file w @ encoded,
                     lw_pending_sync_events := lw_pending_sync_events w + 1,
                     lw_pending_sync_bytes := lw_pending_sync_bytes w + length encoded\<rparr> in
           if lw_pending_sync_events w \<ge> ledger_sync_max_pending_events
              \<or> lw_pending_sync_bytes w \<ge> ledger_sync_max_pending_bytes
              \<or> elapsed_at - lw_last_sync_at w \<ge> ledger_sync_max_delay
           then (if fault = Some SyncFails then (w, Inl ''failed to sync event ledger'')
                 else (w\<lparr>lw_pending_sync_events := 0, lw_pending_sync_bytes := 0, lw_last_sync_at := now\<rparr>, Inr ()))
           else (w, Inr ())))"

fun ledger_append_all :: "(release_event \<Rightarrow> string) \<Rightarrow> (datetime \<times> release_event) list \<Rightarrow> ledger_writer \<Rightarrow> ledger_writer" where
  "ledger_append_all enc [] w = w"
| "ledger_append_all enc ((now, e) # es) w = ledger_append_all enc es (fst (ledger_append enc None now now e w))"

section \<open>Reading\<close>

text \<open>A file that cannot be opened is an error unless it is missing; a blank line is skipped; a line that
  does not decode is an error of the whole read.\<close>

datatype opened = Missing | OpenFails | Opened string

fun read_lines :: "(string \<Rightarrow> release_event option) \<Rightarrow> string list \<Rightarrow> string + release_event list" where
  "read_lines dec [] = Inr []"
| "read_lines dec (line # lines) =
     (if trim line = [] then read_lines dec lines
      else case dec line of
          None \<Rightarrow> Inl ''failed to decode ledger line''
        | Some e \<Rightarrow> (case read_lines dec lines of Inl err \<Rightarrow> Inl err | Inr es \<Rightarrow> Inr (e # es)))"

definition read_events :: "(string \<Rightarrow> release_event option) \<Rightarrow> opened \<Rightarrow> string + release_event list" where
  "read_events dec f = (case f of
     Missing \<Rightarrow> Inr []
   | OpenFails \<Rightarrow> Inl ''failed to open event ledger''
   | Opened content \<Rightarrow> read_lines dec (str_lines content))"

text \<open>The first line of an event id wins, over all files in order.\<close>

fun keep_first :: "('a \<Rightarrow> string) \<Rightarrow> string set \<Rightarrow> 'a list \<Rightarrow> 'a list" where
  "keep_first f seen [] = []"
| "keep_first f seen (x # xs) =
     (if f x \<in> seen then keep_first f seen xs else x # keep_first f (insert (f x) seen) xs)"

fun read_all :: "(string \<Rightarrow> release_event option) \<Rightarrow> opened list \<Rightarrow> string + release_event list" where
  "read_all dec [] = Inr []"
| "read_all dec (f # fs) = (case read_events dec f of Inl err \<Rightarrow> Inl err
     | Inr es \<Rightarrow> (case read_all dec fs of Inl err \<Rightarrow> Inl err | Inr rest \<Rightarrow> Inr (es @ rest)))"

definition read_events_from_paths :: "(string \<Rightarrow> release_event option) \<Rightarrow> opened list \<Rightarrow> string + release_event list" where
  "read_events_from_paths dec fs = map_sum id (keep_first ev_event_id {}) (read_all dec fs)"

record ledger_files =
  lf_observed :: opened
  lf_reconstructed :: opened
  lf_legacy :: opened

text \<open>The legacy log is looked at only when it exists.\<close>

definition local_ledger_paths :: "ledger_files \<Rightarrow> opened list" where
  "local_ledger_paths fs = [lf_observed fs, lf_reconstructed fs] @ (if lf_legacy fs = Missing then [] else [lf_legacy fs])"

definition read_local_events :: "(string \<Rightarrow> release_event option) \<Rightarrow> ledger_files \<Rightarrow> string + release_event list" where
  "read_local_events dec fs = read_events_from_paths dec (local_ledger_paths fs)"

section \<open>The sink\<close>

text \<open>Messages handed to the buffered writer and not yet flushed may still be in memory; after a flush all
  are on standard output.\<close>

record sink_writer =
  sk_flushed :: "string list"
  sk_unflushed :: "string list"
  sk_pending_messages :: nat
  sk_pending_bytes :: nat
  sk_last_flush_at :: datetime

definition sink_flush_max_delay :: int where
  "sink_flush_max_delay = 100 * 1000000"

definition sink_flush_max_pending_messages :: nat where
  "sink_flush_max_pending_messages = 32"

definition sink_flush_max_pending_bytes :: nat where
  "sink_flush_max_pending_bytes = 64 * 1024"

lemmas sink_limits = sink_flush_max_delay_def sink_flush_max_pending_messages_def sink_flush_max_pending_bytes_def

definition sink_new :: "datetime \<Rightarrow> sink_writer" where
  "sink_new now = \<lparr>sk_flushed = [], sk_unflushed = [], sk_pending_messages = 0, sk_pending_bytes = 0, sk_last_flush_at = now\<rparr>"

definition write_encoded_line :: "datetime \<Rightarrow> string \<Rightarrow> sink_writer \<Rightarrow> sink_writer" where
  "write_encoded_line now encoded s =
     (let s = s\<lparr>sk_unflushed := sk_unflushed s @ [encoded],
                sk_pending_messages := sk_pending_messages s + 1,
                sk_pending_bytes := sk_pending_bytes s + length encoded\<rparr> in
      if sk_pending_messages s \<ge> sink_flush_max_pending_messages
         \<or> sk_pending_bytes s \<ge> sink_flush_max_pending_bytes
         \<or> now - sk_last_flush_at s \<ge> sink_flush_max_delay
      then s\<lparr>sk_flushed := sk_flushed s @ sk_unflushed s, sk_unflushed := [],
             sk_pending_messages := 0, sk_pending_bytes := 0, sk_last_flush_at := now\<rparr>
      else s)"

definition sink_publish :: "('m \<Rightarrow> string) \<Rightarrow> datetime \<Rightarrow> 'm \<Rightarrow> sink_writer \<Rightarrow> sink_writer" where
  "sink_publish enc now m s = write_encoded_line now (enc m @ [newline]) s"

fun sink_run :: "('m \<Rightarrow> string) \<Rightarrow> (datetime \<times> 'm) list \<Rightarrow> sink_writer \<Rightarrow> sink_writer" where
  "sink_run enc [] s = s"
| "sink_run enc ((now, m) # ms) s = sink_run enc ms (sink_publish enc now m s)"

section \<open>State files\<close>

text \<open>A save writes a temporary file and renames it over the state file; the fault is where it stops.\<close>

datatype save_fault = CreateDirFails | SerializeFails | WriteTmpFails nat | RenameFails

definition state_path :: "string \<Rightarrow> string" where
  "state_path key = key @ ''.json''"

definition state_tmp_path :: "string \<Rightarrow> string" where
  "state_tmp_path key = key @ ''.tmp''"

definition state_save ::
  "('s \<Rightarrow> string) \<Rightarrow> save_fault option \<Rightarrow> string \<Rightarrow> 's \<Rightarrow> (string \<times> string) list \<Rightarrow> (string \<times> string) list \<times> (string + unit)" where
  "state_save enc fault key v files =
     (case fault of
        Some CreateDirFails \<Rightarrow> (files, Inl ''failed to create state dir'')
      | Some SerializeFails \<Rightarrow> (files, Inl ''failed to serialize state file'')
      | Some (WriteTmpFails n) \<Rightarrow>
          (AList.update (state_tmp_path key) (take n (enc v)) files, Inl ''failed to write temp state file'')
      | _ \<Rightarrow>
          (let files = AList.update (state_tmp_path key) (enc v) files in
           if fault = Some RenameFails then (files, Inl ''failed to replace state file'')
           else (AList.update (state_path key) (enc v) (AList.delete (state_tmp_path key) files), Inr ())))"

definition state_load :: "(string \<Rightarrow> 's option) \<Rightarrow> string \<Rightarrow> (string \<times> string) list \<Rightarrow> string + 's option" where
  "state_load dec key files = (case map_of files (state_path key) of
     None \<Rightarrow> Inr None
   | Some bytes \<Rightarrow> (case dec bytes of None \<Rightarrow> Inl ''failed to parse state file'' | Some v \<Rightarrow> Inr (Some v)))"


section \<open>Lines of a file\<close>

definition line_ok :: "string \<Rightarrow> bool" where
  "line_ok l \<longleftrightarrow> list_all (\<lambda>c. byte c \<noteq> 10 \<and> byte c \<noteq> 13) l \<and> trim l \<noteq> []"

definition complete :: "string \<Rightarrow> bool" where
  "complete f \<longleftrightarrow> f = [] \<or> last f = newline"

lemma byte_newline [simp]: "byte c = 10 \<longleftrightarrow> c = newline"
  by (cases c) (auto simp: byte_def)

lemma split_where_join:
  "P c \<Longrightarrow> split_where P (a @ c # b) = split_where P a @ split_where P b"
  by (induction a) (auto split: list.splits)

lemma str_lines_nil [simp]: "str_lines [] = []"
  by (simp add: str_lines_def)

lemma complete_butlast:
  assumes "complete f" "f \<noteq> []"
  shows "\<exists>g. f = g @ [newline]"
  using assms by (metis append_butlast_last_id complete_def)

lemma str_lines_complete: "str_lines (g @ [newline]) = map strip_cr (split_where (\<lambda>c. c = newline) g)"
  using split_where_join [of "\<lambda>c. c = newline" newline g "[]"] by (simp add: str_lines_def)

lemma str_lines_append_line:
  assumes "complete f" "list_all (\<lambda>c. c \<noteq> newline) l"
  shows "str_lines (f @ l @ [newline]) = str_lines f @ [strip_cr l]"
proof (cases "f = []")
  case True
  have "split_where (\<lambda>c. c = newline) l = [l]"
    using assms(2) by (intro split_where_free) (auto simp: list_all_iff)
  then show ?thesis
    using str_lines_complete [of l] by (simp add: True)
next
  case False
  then obtain g where g: "f = g @ [newline]"
    using assms(1) complete_butlast by blast
  have "split_where (\<lambda>c. c = newline) l = [l]"
    using assms(2) by (intro split_where_free) (auto simp: list_all_iff)
  then have "split_where (\<lambda>c. c = newline) (g @ newline # l) = split_where (\<lambda>c. c = newline) g @ [l]"
    using split_where_join [of "\<lambda>c. c = newline" newline g l] by simp
  then show ?thesis
    using str_lines_complete [of "g @ newline # l"] by (simp add: g str_lines_complete)
qed

lemma strip_cr_line_ok: "line_ok l \<Longrightarrow> strip_cr l = l"
  unfolding line_ok_def strip_cr_def list_all_iff by (metis last_in_set)

lemma complete_snoc [simp]: "complete (f @ [newline])"
  by (simp add: complete_def)

lemma line_ok_no_newline: "line_ok l \<Longrightarrow> list_all (\<lambda>c. c \<noteq> newline) l"
  by (auto simp: line_ok_def list_all_iff)

lemma str_lines_append_ok:
  "complete f \<Longrightarrow> line_ok l \<Longrightarrow> str_lines (f @ l @ [newline]) = str_lines f @ [l]"
  by (simp add: str_lines_append_line line_ok_no_newline strip_cr_line_ok)

section \<open>Reading back\<close>

lemma read_lines_append:
  "read_lines dec (xs @ ys) = (case read_lines dec xs of Inl err \<Rightarrow> Inl err
     | Inr es \<Rightarrow> (case read_lines dec ys of Inl err \<Rightarrow> Inl err | Inr fs \<Rightarrow> Inr (es @ fs)))"
  by (induction xs) (auto split: sum.splits option.splits)

lemma read_lines_bad:
  "trim l \<noteq> [] \<Longrightarrow> dec l = None \<Longrightarrow> \<exists>err. read_lines dec (xs @ l # ys) = Inl err"
  by (induction xs) (auto split: sum.splits option.splits)

lemma ledger_append_file [simp]:
  "lw_file (fst (ledger_append enc None elapsed now e w)) = lw_file w @ enc e @ [newline]"
  by (simp add: ledger_append_def Let_def)

lemma append_all_file:
  "lw_file (ledger_append_all enc es w) = lw_file w @ concat (map (\<lambda>(_, e). enc e @ [newline]) es)"
  by (induction enc es w rule: ledger_append_all.induct) simp_all

lemma append_all_lines:
  assumes "complete (lw_file w)" "list_all (\<lambda>(_, e). line_ok (enc e)) es"
  shows "str_lines (lw_file (ledger_append_all enc es w)) = str_lines (lw_file w) @ map (\<lambda>(_, e). enc e) es"
  using assms
proof (induction enc es w rule: ledger_append_all.induct)
  case (2 enc now e es w)
  have "complete (lw_file w @ enc e @ [newline])"
    by (metis append_assoc complete_snoc)
  then show ?case
    using 2 by (simp add: str_lines_append_ok)
qed simp

lemma read_lines_encoded:
  "list_all (\<lambda>(_, e). line_ok (enc e) \<and> dec (enc e) = Some e) es
   \<Longrightarrow> read_lines dec (map (\<lambda>(_, e). enc e) es) = Inr (map snd es)"
  by (induction es) (auto simp: line_ok_def)

section \<open>The sync window\<close>

definition synced :: "ledger_writer \<Rightarrow> bool" where
  "synced w \<longleftrightarrow> lw_pending_sync_events w < ledger_sync_max_pending_events
     \<and> lw_pending_sync_bytes w < ledger_sync_max_pending_bytes"

lemma ledger_append_synced [inv_intros]: "synced (fst (ledger_append enc None elapsed now e w))"
  by (auto simp: ledger_append_def Let_def synced_def ledger_limits)

lemma ledger_append_all_synced: "synced w \<Longrightarrow> synced (ledger_append_all enc es w)"
  by (induction enc es w rule: ledger_append_all.induct) (simp_all add: ledger_append_synced)

section \<open>Keeping the first of a key\<close>

lemma keep_first_distinct:
  "distinct (map f (keep_first f seen xs)) \<and> set (map f (keep_first f seen xs)) = f ` set xs - seen"
  by (induction xs arbitrary: seen) auto

lemma keep_first_subset: "set (keep_first f seen xs) \<subseteq> set xs"
  by (induction xs arbitrary: seen) auto

lemma keep_first_id:
  "distinct (map f xs) \<Longrightarrow> f ` set xs \<inter> seen = {} \<Longrightarrow> keep_first f seen xs = xs"
  by (induction xs arbitrary: seen) auto

section \<open>The sink's window\<close>

definition sink_ok :: "string list \<Rightarrow> sink_writer \<Rightarrow> bool" where
  "sink_ok msgs s \<longleftrightarrow> sk_flushed s @ sk_unflushed s = msgs
     \<and> sk_pending_messages s = length (sk_unflushed s)
     \<and> sk_pending_bytes s = sum_list (map length (sk_unflushed s))
     \<and> sk_pending_messages s < sink_flush_max_pending_messages
     \<and> sk_pending_bytes s < sink_flush_max_pending_bytes"

lemma sink_publish_ok:
  "sink_ok msgs s \<Longrightarrow> sink_ok (msgs @ [enc m @ [newline]]) (sink_publish enc now m s)"
  by (auto simp: sink_ok_def sink_publish_def write_encoded_line_def Let_def sink_limits)

lemma sink_run_ok:
  "sink_ok msgs s \<Longrightarrow> sink_ok (msgs @ map (\<lambda>(_, m). enc m @ [newline]) ms) (sink_run enc ms s)"
proof (induction enc ms s arbitrary: msgs rule: sink_run.induct)
  case (2 enc now m ms s)
  show ?case
    using 2(1) [OF sink_publish_ok [OF 2(2)]] by simp
qed simp

lemma sink_new_ok: "sink_ok [] (sink_new now)"
  by (simp add: sink_ok_def sink_new_def sink_limits)

section \<open>Saving state\<close>

lemma state_paths_apart [simp]: "state_path k \<noteq> state_tmp_path k'"
proof
  assume "state_path k = state_tmp_path k'"
  then have "last (state_path k) = last (state_tmp_path k')"
    by simp
  then show False
    by (simp add: state_path_def state_tmp_path_def)
qed

lemma state_path_inject [simp]: "state_path k = state_path k' \<longleftrightarrow> k = k'"
  by (simp add: state_path_def)

text \<open>A save that fails at any point leaves every state as it was; one that succeeds replaces its own only.\<close>

lemma state_save_failed:
  "fault \<noteq> None \<Longrightarrow> state_load dec k (fst (state_save enc fault key v files)) = state_load dec k files"
  by (cases fault) (auto simp: state_save_def state_load_def Let_def split: save_fault.splits)

lemma state_save_ok:
  "dec (enc v) = Some v \<Longrightarrow> state_load dec k (fst (state_save enc None key v files)) =
     (if k = key then Inr (Some v) else state_load dec k files)"
  by (auto simp: state_save_def state_load_def Let_def)

section \<open>Properties\<close>

definition demo_line_event :: release_event where
  "demo_line_event = \<lparr>ev_event_id = ''npm:a@1'', ev_ecosystem = Npm, ev_package = ''a'', ev_version = ''1'',
     ev_published_at = None, ev_observed_at = 5, ev_source = ''npm'', ev_sequence = None, ev_package_url = None,
     ev_release_url = None, ev_metadata_url = None, ev_priority = None\<rparr>"

text \<open>C24: Appending events to a ledger of complete lines and reading the file back gives the events it
  held followed by the appended ones, in order, and after every append fewer than 64 events and 256 KiB
  wait to be synced.\<close>

theorem ledger_roundtrip:
  assumes "complete (lw_file w)" "synced w" "read_events dec (Opened (lw_file w)) = Inr old"
    "list_all (\<lambda>(_, e). line_ok (enc e) \<and> dec (enc e) = Some e) es"
  shows "read_events dec (Opened (lw_file (ledger_append_all enc es w))) = Inr (old @ map snd es)
    \<and> synced (ledger_append_all enc es w)"
proof -
  have "list_all (\<lambda>(_, e). line_ok (enc e)) es"
    using assms(4) by (auto simp: list_all_iff)
  then have "str_lines (lw_file (ledger_append_all enc es w)) = str_lines (lw_file w) @ map (\<lambda>(_, e). enc e) es"
    using assms(1) by (rule append_all_lines [rotated])
  then show ?thesis
    using assms(2,3) read_lines_encoded [OF assms(4)]
    by (simp add: read_events_def read_lines_append ledger_append_all_synced)
qed

lemma ledger_roundtrip_witness:
  "read_events (\<lambda>s. if s = ''{}'' then Some demo_line_event else None)
     (Opened (lw_file (ledger_append_all (\<lambda>_. ''{}'') [(1, demo_line_event), (2, demo_line_event)] (ledger_open [] 0))))
   = Inr [demo_line_event, demo_line_event]
   \<and> synced (ledger_append_all (\<lambda>_. ''{}'') [(1, demo_line_event), (2, demo_line_event)] (ledger_open [] 0))"
proof -
  have "line_ok ''{}''"
    by code_simp
  then show ?thesis
    using ledger_roundtrip [of "ledger_open [] 0" "\<lambda>s. if s = ''{}'' then Some demo_line_event else None" "[]"
        "\<lambda>_. ''{}''" "[(1, demo_line_event), (2, demo_line_event)]"]
    by (simp add: ledger_open_def complete_def synced_def read_events_def ledger_limits)
qed

text \<open>C18: A line torn by a crash makes the observed ledger unreadable for good: the next process appends
  behind the torn line, the joined line does not decode, and from then on every read of the local events
  fails, however many good events follow.\<close>

theorem torn_line_blocks_ledger:
  assumes "complete (lw_file w)" "n \<le> length (enc torn)" "line_ok (take n (enc torn) @ enc e)"
    "dec (take n (enc torn) @ enc e) = None" "list_all (\<lambda>(_, e). line_ok (enc e)) es"
    "lf_observed fs = Opened (lw_file (ledger_append_all enc ((now, e) # es)
       (ledger_open (lw_file (fst (ledger_append enc (Some (WriteFails n)) t t torn w))) now)))"
  shows "\<exists>err. read_local_events dec fs = Inl err"
proof -
  let ?line = "take n (enc torn) @ enc e"
  define w' where "w' = fst (ledger_append enc None now now e
       (ledger_open (lw_file (fst (ledger_append enc (Some (WriteFails n)) t t torn w))) now))"
  have w': "lw_file w' = lw_file w @ ?line @ [newline]"
    using assms(2) by (simp add: w'_def ledger_open_def) (simp add: ledger_append_def)
  moreover have "complete (lw_file w')"
    unfolding w' by (metis append_assoc complete_snoc)
  ultimately have "str_lines (lw_file (ledger_append_all enc es w')) = str_lines (lw_file w) @ ?line # map (\<lambda>(_, e). enc e) es"
    using append_all_lines [OF _ assms(5), of w'] str_lines_append_ok [OF assms(1,3)] by simp
  then have "\<exists>err. read_events dec (lf_observed fs) = Inl err"
    using assms(3,4,6) read_lines_bad [of ?line dec "str_lines (lw_file w)"]
    by (simp add: w'_def [symmetric] read_events_def line_ok_def)
  then show ?thesis
    by (auto simp: read_local_events_def local_ledger_paths_def read_events_from_paths_def)
qed

lemma torn_line_blocks_ledger_witness:
  "\<exists>err. read_local_events (\<lambda>s. if s = ''{}'' then Some demo_line_event else None)
     \<lparr>lf_observed = Opened (lw_file (ledger_append_all (\<lambda>_. ''{}'') [(7, demo_line_event)]
        (ledger_open (lw_file (fst (ledger_append (\<lambda>_. ''{}'') (Some (WriteFails 1)) 1 1 demo_line_event (ledger_open [] 0)))) 7))),
      lf_reconstructed = Missing, lf_legacy = Missing\<rparr> = Inl err"
proof -
  have "line_ok ''{{}''"
    by code_simp
  then show ?thesis
    using torn_line_blocks_ledger [of "ledger_open [] 0" 1 "\<lambda>_. ''{}''" demo_line_event demo_line_event
        "\<lambda>s. if s = ''{}'' then Some demo_line_event else None" "[]"
        "\<lparr>lf_observed = Opened (lw_file (ledger_append_all (\<lambda>_. ''{}'') [(7, demo_line_event)]
        (ledger_open (lw_file (fst (ledger_append (\<lambda>_. ''{}'') (Some (WriteFails 1)) 1 1 demo_line_event (ledger_open [] 0)))) 7))),
      lf_reconstructed = Missing, lf_legacy = Missing\<rparr>" 7 1]
    by (simp add: ledger_open_def complete_def)
qed

text \<open>The sink writes every message once and in order; what has not been flushed is always the
  newest messages, fewer than 32 of them and less than 64 KiB, and nothing but a later message flushes
  them.\<close>

theorem sink_keeps_order_and_tail_bounded:
  "sk_flushed (sink_run enc ms (sink_new now)) @ sk_unflushed (sink_run enc ms (sink_new now))
     = map (\<lambda>(_, m). enc m @ [newline]) ms
   \<and> length (sk_unflushed (sink_run enc ms (sink_new now))) < 32
   \<and> sum_list (map length (sk_unflushed (sink_run enc ms (sink_new now)))) < 65536"
  using sink_run_ok [OF sink_new_ok, of enc ms now]
  by (simp add: sink_ok_def sink_limits)

end
