(* ===== verification/History.thy ===== *)
theory History
  imports Ledger Store_Queries
begin

text \<open>
  \<open>history.rs\<close>: the releases of a package as the store and the capture directory know them, or as the
  registry reports them, and the reconstruction of a missing predecessor.  The registry's answers are
  decoded documents; the store queries, the ledger and the capture files are those of the other theories.
  \<open>now\<close> stands for the calls of \<open>Utc::now()\<close>.
\<close>

record history_entry =
  he_event :: release_event
  he_capture :: "captured_release option"
  he_capture_dir :: "string option"

section \<open>Local history\<close>

text \<open>A capture file is missing, decodes, or is an error.\<close>

record history_env =
  hv_url_encode :: "string \<Rightarrow> string"
  hv_data_dir :: string
  hv_capture_file :: "string \<Rightarrow> string + captured_release option"

definition load_entry :: "history_env \<Rightarrow> release_event \<Rightarrow> string + history_entry" where
  "load_entry env e =
     (let dir = capture_dir_for_event (hv_url_encode env) (hv_data_dir env) e in
      case hv_capture_file env (path_join dir ''capture.json'') of
        Inl err \<Rightarrow> Inl err
      | Inr cap \<Rightarrow> Inr \<lparr>he_event = e, he_capture = cap, he_capture_dir = Some dir\<rparr>)"

fun load_entries :: "history_env \<Rightarrow> release_event list \<Rightarrow> string + history_entry list" where
  "load_entries env [] = Inr []"
| "load_entries env (e # es) = (case load_entry env e of
     Inl err \<Rightarrow> Inl err
   | Inr x \<Rightarrow> (case load_entries env es of Inl err \<Rightarrow> Inl err | Inr xs \<Rightarrow> Inr (x # xs)))"

definition history_sort_key :: "history_entry \<Rightarrow> datetime \<times> datetime \<times> string" where
  "history_sort_key h = (case ev_published_at (he_event h) of Some t \<Rightarrow> t | None \<Rightarrow> ev_observed_at (he_event h),
     ev_observed_at (he_event h), ev_event_id (he_event h))"

definition store_rows :: "'a option \<Rightarrow> string + 'a" where
  "store_rows r = (case r of None \<Rightarrow> Inl ''failed to decode row'' | Some x \<Rightarrow> Inr x)"

definition load_package_history :: "history_env \<Rightarrow> ecosystem \<Rightarrow> string \<Rightarrow> store \<Rightarrow> string + history_entry list" where
  "load_package_history env eco package s =
     (case store_rows (load_package_events eco package s) of
        Inl err \<Rightarrow> Inl err
      | Inr events \<Rightarrow> map_sum id (sort_key history_sort_key)
          (load_entries env (filter (\<lambda>e. ev_ecosystem e = eco \<and> ev_package e = package) events)))"

definition load_event_history :: "history_env \<Rightarrow> string \<Rightarrow> store \<Rightarrow> string + history_entry" where
  "load_event_history env event_id s =
     (case store_rows (load_event event_id s) of
        Inl err \<Rightarrow> Inl err
      | Inr None \<Rightarrow> Inl (''event not found in local ledger: '' @ event_id)
      | Inr (Some e) \<Rightarrow> load_entry env e)"

definition load_recent_history :: "history_env \<Rightarrow> ecosystem option \<Rightarrow> nat \<Rightarrow> store \<Rightarrow> string + history_entry list" where
  "load_recent_history env eco limit s =
     (case store_rows (load_recent_events eco limit s) of
        Inl err \<Rightarrow> Inl err
      | Inr events \<Rightarrow> map_sum id (\<lambda>xs. take limit (rev (sort_key history_sort_key xs)))
          (load_entries env (filter (\<lambda>e. eco = None \<or> eco = Some (ev_ecosystem e)) events)))"

text \<open>The last entry of a version stays, in place.\<close>

fun dedupe_history_entries :: "history_entry list \<Rightarrow> history_entry list" where
  "dedupe_history_entries [] = []"
| "dedupe_history_entries (h # hs) =
     (if ev_version (he_event h) \<in> (\<lambda>x. ev_version (he_event x)) ` set hs then dedupe_history_entries hs
      else h # dedupe_history_entries hs)"

definition release_position :: "history_entry list \<Rightarrow> string \<Rightarrow> nat option" where
  "release_position hs version =
     (let before = takeWhile (\<lambda>h. ev_version (he_event h) \<noteq> version) hs
      in if length before < length hs then Some (length before) else None)"

definition previous_lineage_candidate :: "history_entry list \<Rightarrow> history_entry list \<Rightarrow> string \<Rightarrow> history_entry option" where
  "previous_lineage_candidate local online version =
     (case release_position online version of
        Some (Suc i) \<Rightarrow> (if list_ex (\<lambda>h. ev_version (he_event h) = ev_version (he_event (online ! i))) local then None
          else Some (online ! i))
      | _ \<Rightarrow> None)"

section \<open>Event identifiers\<close>

record parsed_event_id =
  pe_ecosystem :: ecosystem
  pe_package :: string
  pe_version :: string

text \<open>The package ends at the last \<open>@\<close>, so a scoped package keeps its own.\<close>

definition parse_event_id :: "string \<Rightarrow> string + parsed_event_id" where
  "parse_event_id event_id =
     (case split_once (CHR '':'') event_id of
        None \<Rightarrow> Inl (''invalid event id: '' @ event_id)
      | Some (eco, rest) \<Rightarrow>
          (case rsplit_once (CHR ''@'') rest of
             None \<Rightarrow> Inl (''invalid event id: '' @ event_id)
           | Some (package, version) \<Rightarrow>
               (if eco = ''npm'' then Inr \<lparr>pe_ecosystem = Npm, pe_package = package, pe_version = version\<rparr>
                else if eco = ''pypi'' then Inr \<lparr>pe_ecosystem = Pypi, pe_package = package, pe_version = version\<rparr>
                else if eco = ''crates-io'' then Inr \<lparr>pe_ecosystem = CratesIo, pe_package = package, pe_version = version\<rparr>
                else Inl (''unsupported ecosystem in event id: '' @ eco))))"

section \<open>The registry's view\<close>

text \<open>The entry of one version: what the three loaders share.\<close>

definition online_entry ::
  "datetime \<Rightarrow> ecosystem \<Rightarrow> string \<Rightarrow> string \<Rightarrow> datetime option \<Rightarrow> string \<Rightarrow> string \<Rightarrow> string \<Rightarrow> string
   \<Rightarrow> release_status \<Rightarrow> captured_artifact list \<Rightarrow> json \<Rightarrow> history_entry" where
  "online_entry now eco package version published source package_url release_url metadata_url status artifacts details =
     (let event_id = format_release_key (ecosystem_as_str eco) package version in
      \<lparr>he_event = \<lparr>ev_event_id = event_id, ev_ecosystem = eco, ev_package = package, ev_version = version,
         ev_published_at = published, ev_observed_at = now, ev_source = source, ev_sequence = None,
         ev_package_url = Some package_url, ev_release_url = Some release_url, ev_metadata_url = Some metadata_url,
         ev_priority = None\<rparr>,
       he_capture = Some \<lparr>ca_event_id = event_id, ca_ecosystem = eco, ca_package = package, ca_version = version,
         ca_observed_at = now, ca_published_at = published, ca_captured_at = now, ca_status = status,
         ca_package_url = Some package_url, ca_release_url = Some release_url, ca_metadata_url = Some metadata_url,
         ca_raw_metadata_path = None, ca_artifacts = artifacts, ca_upstream_repository = None, ca_details = details\<rparr>,
       he_capture_dir = None\<rparr>)"

definition file_time :: "(string \<Rightarrow> datetime option) \<Rightarrow> json \<Rightarrow> datetime option" where
  "file_time parse_rfc3339 f = Option.bind (Option.bind (json_get f ''upload_time_iso_8601'') as_str) parse_rfc3339"

definition pypi_online_artifact :: "(string \<Rightarrow> datetime option) \<Rightarrow> json \<Rightarrow> captured_artifact option" where
  "pypi_online_artifact parse_rfc3339 f = map_option (\<lambda>filename.
     \<lparr>ar_filename = filename,
      ar_kind = json_get_str f ''packagetype'', ar_url = json_get_str f ''url'',
      ar_size_bytes = Option.bind (json_get f ''size'') as_u64,
      ar_uploaded_at = file_time parse_rfc3339 f,
      ar_yanked = Option.bind (json_get f ''yanked'') as_bool,
      ar_hashes = hashes_default\<lparr>
        ah_sha256 := pointer_str f [''digests'', ''sha256''], ah_sha512 := pointer_str f [''digests'', ''sha512''],
        ah_blake2b_256 := pointer_str f [''digests'', ''blake2b_256''],
        ah_md5 := or_else (pointer_str f [''digests'', ''md5'']) (json_get_str f ''md5_digest'')\<rparr>,
      ar_provenance_path = None\<rparr>)
     (json_get_str f ''filename'')"

definition min_time :: "datetime list \<Rightarrow> datetime option" where
  "min_time ts = (case sort ts of [] \<Rightarrow> None | t # _ \<Rightarrow> Some t)"

definition pypi_online_entry :: "(string \<Rightarrow> datetime option) \<Rightarrow> datetime \<Rightarrow> string \<Rightarrow> json \<Rightarrow> string \<times> json \<Rightarrow> history_entry" where
  "pypi_online_entry parse_rfc3339 now package raw vf =
     (let version = fst vf;
          files = (case as_array (snd vf) of Some fs \<Rightarrow> fs | None \<Rightarrow> []);
          published = min_time (List.map_filter (file_time parse_rfc3339) files);
          yanked = list_ex (\<lambda>f. Option.bind (json_get f ''yanked'') as_bool = Some True) files;
          reasons = filter (\<lambda>r. r \<noteq> []) (List.map_filter (\<lambda>f. json_get_str f ''yanked_reason'') files)
      in online_entry now Pypi package version published ''pypi.online.project-json''
           (''https://pypi.org/project/'' @ package @ ''/'')
           (''https://pypi.org/project/'' @ package @ ''/'' @ version @ ''/'')
           (''https://pypi.org/pypi/'' @ package @ ''/'' @ version @ ''/json'')
           (if yanked then Yanked else Active)
           (List.map_filter (pypi_online_artifact parse_rfc3339) files)
           (JObject [(''mode'', JString ''online-reconstruction''),
             (''yanked_reason'', case reasons of [] \<Rightarrow> JNull | r # _ \<Rightarrow> JString r),
             (''last_serial'', json_or_null (json_get raw ''last_serial'')),
             (''project_status'', json_or_null (json_pointer raw [''project-status'', ''status'']))]))"

definition object_fields :: "json option \<Rightarrow> (string \<times> json) list" where
  "object_fields v = (case Option.bind v as_object of Some fs \<Rightarrow> fs | None \<Rightarrow> [])"

definition load_pypi_history_online :: "(string \<Rightarrow> datetime option) \<Rightarrow> datetime \<Rightarrow> string \<Rightarrow> json \<Rightarrow> history_entry list" where
  "load_pypi_history_online parse_rfc3339 now package raw =
     map (pypi_online_entry parse_rfc3339 now package raw) (object_fields (json_get raw ''releases''))"

definition npm_online_entry ::
  "(string \<Rightarrow> datetime option) \<Rightarrow> (string \<Rightarrow> string) \<Rightarrow> datetime \<Rightarrow> string \<Rightarrow> json \<Rightarrow> string \<times> json \<Rightarrow> history_entry" where
  "npm_online_entry parse_rfc3339 encode now package raw vm =
     (let version = fst vm; meta = snd vm;
          times = object_fields (json_get raw ''time'');
          published = Option.bind (Option.bind (map_of times version) as_str) parse_rfc3339;
          dist = json_or_null (json_get meta ''dist'')
      in online_entry now Npm package version published ''npm.online.packument''
           (''https://www.npmjs.com/package/'' @ package)
           (''https://www.npmjs.com/package/'' @ package @ ''/v/'' @ version)
           (''https://registry.npmjs.org/'' @ encode package)
           Active
           [\<lparr>ar_filename = slash_to_dash package @ ''-'' @ version @ ''.tgz'', ar_kind = Some ''npm-tarball'',
             ar_url = json_get_str dist ''tarball'', ar_size_bytes = Option.bind (json_get dist ''unpackedSize'') as_u64,
             ar_uploaded_at = published, ar_yanked = None,
             ar_hashes = hashes_default\<lparr>ah_integrity := json_get_str dist ''integrity'', ah_shasum := json_get_str dist ''shasum''\<rparr>,
             ar_provenance_path = None\<rparr>]
           (JObject [(''mode'', JString ''online-reconstruction''),
             (''deprecated'', json_or_null (json_get meta ''deprecated'')),
             (''scripts'', json_or_null (json_get meta ''scripts'')),
             (''publisher'', json_or_null (json_get meta ''_npmUser'')),
             (''unpublished'', json_or_null (json_pointer raw [''time'', ''unpublished'']))]))"

definition load_npm_history_online ::
  "(string \<Rightarrow> datetime option) \<Rightarrow> (string \<Rightarrow> string) \<Rightarrow> datetime \<Rightarrow> string \<Rightarrow> json \<Rightarrow> history_entry list" where
  "load_npm_history_online parse_rfc3339 encode now package raw =
     map (npm_online_entry parse_rfc3339 encode now package raw) (object_fields (json_get raw ''versions''))"

definition crates_online_entry ::
  "(string \<Rightarrow> datetime option) \<Rightarrow> (string \<Rightarrow> string) \<Rightarrow> datetime \<Rightarrow> string \<Rightarrow> json \<Rightarrow> string \<Rightarrow> history_entry" where
  "crates_online_entry parse_rfc3339 encode now package meta version =
     (let published = Option.bind (json_get_str meta ''created_at'') parse_rfc3339;
          yanked = json_get_bool meta ''yanked'';
          url = (case json_get_str meta ''dl_path'' of Some path \<Rightarrow> ''https://crates.io'' @ path
            | None \<Rightarrow> ''https://crates.io/api/v1/crates/'' @ package @ ''/'' @ version @ ''/download'')
      in online_entry now CratesIo package version published ''crates.online.api''
           (''https://crates.io/crates/'' @ package)
           (''https://crates.io/crates/'' @ package @ ''/'' @ version)
           (''https://crates.io/api/v1/crates/'' @ encode package)
           (if yanked then Yanked else Active)
           [\<lparr>ar_filename = package @ ''-'' @ version @ ''.crate'', ar_kind = Some ''crate'', ar_url = Some url,
             ar_size_bytes = None, ar_uploaded_at = published, ar_yanked = Some yanked,
             ar_hashes = hashes_default\<lparr>ah_checksum := json_get_str meta ''checksum''\<rparr>, ar_provenance_path = None\<rparr>]
           (JObject [(''mode'', JString ''online-reconstruction''),
             (''crate_size'', json_or_null (json_get meta ''crate_size'')),
             (''downloads'', json_or_null (json_get meta ''downloads'')),
             (''license'', json_or_null (json_get meta ''license''))]))"

definition load_crates_history_online ::
  "(string \<Rightarrow> datetime option) \<Rightarrow> (string \<Rightarrow> string) \<Rightarrow> datetime \<Rightarrow> string \<Rightarrow> json \<Rightarrow> history_entry list" where
  "load_crates_history_online parse_rfc3339 encode now package raw =
     List.map_filter (\<lambda>meta. map_option (crates_online_entry parse_rfc3339 encode now package meta) (json_get_str meta ''num''))
       (array_items (json_get raw ''versions''))"

text \<open>The registry answers with an error or a document.\<close>

record online_env =
  ol_parse_rfc3339 :: "string \<Rightarrow> datetime option"
  ol_encode :: "string \<Rightarrow> string"
  ol_now :: datetime
  ol_fetch :: "ecosystem \<Rightarrow> string \<Rightarrow> string + json"

definition load_package_history_online :: "online_env \<Rightarrow> ecosystem \<Rightarrow> string \<Rightarrow> string + history_entry list" where
  "load_package_history_online env eco package = map_sum id (\<lambda>raw. sort_key history_sort_key
     (case eco of
        Pypi \<Rightarrow> load_pypi_history_online (ol_parse_rfc3339 env) (ol_now env) package raw
      | Npm \<Rightarrow> load_npm_history_online (ol_parse_rfc3339 env) (ol_encode env) (ol_now env) package raw
      | CratesIo \<Rightarrow> load_crates_history_online (ol_parse_rfc3339 env) (ol_encode env) (ol_now env) package raw))
     (ol_fetch env eco package)"

definition load_event_history_online :: "online_env \<Rightarrow> string \<Rightarrow> string + history_entry" where
  "load_event_history_online env event_id = (case parse_event_id event_id of
     Inl err \<Rightarrow> Inl err
   | Inr p \<Rightarrow> (case load_package_history_online env (pe_ecosystem p) (pe_package p) of
       Inl err \<Rightarrow> Inl err
     | Inr hs \<Rightarrow> (case filter (\<lambda>h. ev_version (he_event h) = pe_version p) hs of
         [] \<Rightarrow> Inl (''event not visible online: '' @ event_id)
       | h # _ \<Rightarrow> Inr h)))"

section \<open>Lemmas\<close>

abbreviation entry_version :: "history_entry \<Rightarrow> string" where
  "entry_version h \<equiv> ev_version (he_event h)"

lemma dedupe_versions: "set (map entry_version (dedupe_history_entries hs)) = set (map entry_version hs)"
  by (induction hs) (auto simp: image_iff)

lemma dedupe_set: "set (dedupe_history_entries hs) \<subseteq> set hs"
  by (induction hs) auto

lemma dedupe_distinct: "distinct (map entry_version (dedupe_history_entries hs))"
proof (induction hs)
  case (Cons h hs)
  then show ?case
    using dedupe_versions [of hs] by (simp add: image_iff)
qed simp

lemma dedupe_append:
  "dedupe_history_entries (xs @ ys) =
     filter (\<lambda>h. entry_version h \<notin> entry_version ` set ys) (dedupe_history_entries xs) @ dedupe_history_entries ys"
  by (induction xs) auto

lemma dedupe_id: "distinct (map entry_version hs) \<Longrightarrow> dedupe_history_entries hs = hs"
  by (induction hs) auto

lemma dedupe_idem [simp]: "dedupe_history_entries (dedupe_history_entries hs) = dedupe_history_entries hs"
  by (rule dedupe_id) (rule dedupe_distinct)

text \<open>The survivor of a version is its last entry.\<close>

lemma dedupe_keeps_last:
  assumes "entry_version h \<notin> entry_version ` set ys"
  shows "h \<in> set (dedupe_history_entries (xs @ h # ys))"
  using assms by (simp add: dedupe_append)

lemma takeWhile_short: "length (takeWhile P xs) < length xs \<longleftrightarrow> (\<exists>x \<in> set xs. \<not> P x)"
  by (induction xs) auto

lemma release_position_None: "release_position hs v = None \<longleftrightarrow> v \<notin> entry_version ` set hs"
  using takeWhile_short [of "\<lambda>h. entry_version h \<noteq> v" hs] by (auto simp: release_position_def Let_def)

lemma release_position_Some:
  assumes "release_position hs v = Some i"
  shows "i < length hs \<and> entry_version (hs ! i) = v \<and> (\<forall>j < i. entry_version (hs ! j) \<noteq> v)"
proof -
  let ?P = "\<lambda>h. entry_version h \<noteq> v"
  have i: "i = length (takeWhile ?P hs)" "i < length hs"
    using assms by (auto simp: release_position_def Let_def split: if_splits)
  moreover have "\<not> ?P (hs ! i)"
    using i nth_length_takeWhile [of ?P hs] by simp
  moreover have "\<forall>j < i. ?P (hs ! j)"
  proof (intro allI impI)
    fix j assume "j < i"
    then have "takeWhile ?P hs ! j \<in> set (takeWhile ?P hs)"
      unfolding i(1) by (rule nth_mem)
    moreover have "takeWhile ?P hs ! j = hs ! j"
      using \<open>j < i\<close> unfolding i(1) by (rule takeWhile_nth)
    ultimately have "hs ! j \<in> set (takeWhile ?P hs)"
      by simp
    then show "?P (hs ! j)"
      by (auto dest: set_takeWhileD)
  qed
  ultimately show ?thesis
    by simp
qed

section \<open>Well-formed entries\<close>

text \<open>The event and the capture of an entry speak of the same release.\<close>

definition entry_of :: "ecosystem \<Rightarrow> string \<Rightarrow> history_entry \<Rightarrow> bool" where
  "entry_of eco package h \<longleftrightarrow> ev_ecosystem (he_event h) = eco \<and> ev_package (he_event h) = package
     \<and> ev_event_id (he_event h) = release_key (he_event h)
     \<and> (case he_capture h of None \<Rightarrow> True | Some c \<Rightarrow> ca_event_id c = ev_event_id (he_event h) \<and> ca_ecosystem c = eco
         \<and> ca_package c = package \<and> ca_version c = entry_version h \<and> ca_published_at c = ev_published_at (he_event h))"

lemma online_entry_of:
  "entry_of eco package (online_entry now eco package v p src pu ru mu st arts d)"
  by (simp add: entry_of_def online_entry_def release_key_def Let_def)

lemma list_all_map_filter: "list_all P (List.map_filter f xs) \<longleftrightarrow> list_all (\<lambda>x. case f x of None \<Rightarrow> True | Some y \<Rightarrow> P y) xs"
  by (induction xs) (auto simp: List.map_filter_def split: option.splits)

lemma load_pypi_entries: "list_all (entry_of Pypi package) (load_pypi_history_online pr now package raw)"
  by (auto simp: load_pypi_history_online_def pypi_online_entry_def Let_def online_entry_of list_all_iff)

lemma load_npm_entries: "list_all (entry_of Npm package) (load_npm_history_online pr enc now package raw)"
  by (auto simp: load_npm_history_online_def npm_online_entry_def Let_def online_entry_of list_all_iff)

lemma load_crates_entries: "list_all (entry_of CratesIo package) (load_crates_history_online pr enc now package raw)"
  unfolding load_crates_history_online_def list_all_map_filter
  by (auto simp: crates_online_entry_def Let_def online_entry_of list_all_iff split: option.splits)

lemma load_online_entries:
  "load_package_history_online env eco package = Inr hs \<Longrightarrow> list_all (entry_of eco package) hs \<and> sorted (map history_sort_key hs)"
  using load_pypi_entries load_npm_entries load_crates_entries
  by (cases eco; cases "ol_fetch env eco package") (auto simp: load_package_history_online_def list_all_iff)

lemma load_entry_ok: "load_entry env e = Inr h \<Longrightarrow> he_event h = e"
  by (auto simp: load_entry_def Let_def split: sum.splits)

lemma load_entries_events: "load_entries env es = Inr hs \<Longrightarrow> map he_event hs = es"
  by (induction es arbitrary: hs) (auto split: sum.splits dest: load_entry_ok)

lemma map_sum_Inr: "map_sum id f r = Inr y \<longleftrightarrow> (\<exists>x. r = Inr x \<and> y = f x)"
  by (cases r) auto

lemma load_package_history_ok:
  assumes "load_package_history env eco package s = Inr hs"
  shows "sorted (map history_sort_key hs)"
    "list_all (\<lambda>h. ev_ecosystem (he_event h) = eco \<and> ev_package (he_event h) = package) hs"
proof -
  obtain events xs where xs: "load_entries env (filter (\<lambda>e. ev_ecosystem e = eco \<and> ev_package e = package) events) = Inr xs"
    and hs: "hs = sort_key history_sort_key xs"
    using assms by (auto simp: load_package_history_def map_sum_Inr split: sum.splits)
  show "sorted (map history_sort_key hs)"
    by (simp add: hs)
  show "list_all (\<lambda>h. ev_ecosystem (he_event h) = eco \<and> ev_package (he_event h) = package) hs"
  proof -
    have "list_all (\<lambda>e. ev_ecosystem e = eco \<and> ev_package e = package) (map he_event xs)"
      by (simp add: load_entries_events [OF xs] list_all_iff)
    then show ?thesis
      by (simp add: hs list_all_iff)
  qed
qed

section \<open>Identifiers round trip\<close>

lemma rsplit_once_append: "d \<notin> set b \<Longrightarrow> rsplit_once d (a @ d # b) = Some (a, b)"
  using split_once_append [of d "rev b" "rev a"] by (simp add: rsplit_once_def)

lemma ecosystem_no_colon: "CHR '':'' \<notin> set (ecosystem_as_str eco)"
  by (cases eco) simp_all

lemma parse_release_key:
  "CHR ''@'' \<notin> set v \<Longrightarrow> parse_event_id (format_release_key (ecosystem_as_str eco) package v)
     = Inr \<lparr>pe_ecosystem = eco, pe_package = package, pe_version = v\<rparr>"
proof -
  assume v: "CHR ''@'' \<notin> set v"
  have "split_once (CHR '':'') (format_release_key (ecosystem_as_str eco) package v)
      = Some (ecosystem_as_str eco, package @ CHR ''@'' # v)"
    using split_once_append [OF ecosystem_no_colon] by (simp add: format_release_key_def)
  then show ?thesis
    using v by (cases eco) (simp_all add: parse_event_id_def rsplit_once_append)
qed

end
