(* ===== verification/Lineage.thy ===== *)
theory Lineage
  imports History Capture_Worker Store_Props
begin

text \<open>
  The writing half of \<open>history.rs\<close>: history entries are persisted into the reconstructed ledger, the store
  and the capture directories, and the predecessor of a release that the local history lacks is fetched from
  the registry and persisted.  The ledgers are the lists of events they decode to; \<open>read_local_events\<close> of
  theory \<open>Ledger\<close> is what decodes them.
\<close>

datatype lineage_io = OpenStore | CountEvents | ReadLedgers | OpenLedger | AppendLedger string | LineageEvent string
  | LineageDir string | LineageEventJson string | LineageCaptureJson string | LineageCapture string

record lineage_env =
  ln_io :: "lineage_io \<Rightarrow> bool"
  ln_now :: datetime
  ln_enc_sources :: "string list \<Rightarrow> string"
  ln_history :: history_env
  ln_reconcile :: reconcile_env
  ln_online :: online_env

record 'p lineage_state =
  ls_observed :: "release_event list"
  ls_legacy :: "release_event list"
  ls_reconstructed :: "release_event list"
  ls_world :: "'p world"

type_synonym ('p, 'a) lineage_outcome = "'p lineage_state \<times> (string + 'a)"

definition lineage_then :: "('p, 'a) lineage_outcome \<Rightarrow> ('p lineage_state \<Rightarrow> 'a \<Rightarrow> ('p, 'b) lineage_outcome) \<Rightarrow> ('p, 'b) lineage_outcome" where
  "lineage_then r k = (case r of (s, Inr a) \<Rightarrow> k s a | (s, Inl err) \<Rightarrow> (s, Inl err))"

definition lineage_when :: "bool \<Rightarrow> string \<Rightarrow> 'p lineage_state \<Rightarrow> ('p lineage_state \<Rightarrow> ('p, 'a) lineage_outcome) \<Rightarrow> ('p, 'a) lineage_outcome" where
  "lineage_when ok err s k = (if ok then k s else (s, Inl err))"

definition on_world :: "('p world \<Rightarrow> 'p world) \<Rightarrow> 'p lineage_state \<Rightarrow> 'p lineage_state" where
  "on_world f s = s\<lparr>ls_world := f (ls_world s)\<rparr>"

definition lineage_write :: "lineage_env \<Rightarrow> lineage_io \<Rightarrow> write_command \<Rightarrow> 'p lineage_state \<Rightarrow> ('p, unit) lineage_outcome" where
  "lineage_write env io c s =
     (case execute_write_command (ln_enc_sources env) (ln_io env io) (ln_now env) c (wo_store (ls_world s)) of
        (st, True) \<Rightarrow> (on_world (\<lambda>w. w\<lparr>wo_store := st\<rparr>) s, Inr ())
      | (st, False) \<Rightarrow> (on_world (\<lambda>w. w\<lparr>wo_store := st\<rparr>) s, Inl ''store write failed''))"

text \<open>An empty store is first rebuilt from the ledgers.\<close>

definition local_store :: "lineage_env \<Rightarrow> 'p lineage_state \<Rightarrow> ('p, unit) lineage_outcome" where
  "local_store env s =
     lineage_when (ln_io env OpenStore) ''failed to open store'' s (\<lambda>s.
     lineage_when (ln_io env CountEvents) ''failed to count events'' s (\<lambda>s.
       if event_count (wo_store (ls_world s)) = 0 \<and> (ls_observed s \<noteq> [] \<or> ls_reconstructed s \<noteq> [] \<or> ls_legacy s \<noteq> [])
       then (case reconcile_local_data (ln_reconcile env) (ls_observed s) (ls_legacy s) (ls_reconstructed s) (wo_store (ls_world s)) of
           None \<Rightarrow> (s, Inl ''failed to reconcile'')
         | Some (st, _) \<Rightarrow> (on_world (\<lambda>w. w\<lparr>wo_store := st\<rparr>) s, Inr ()))
       else (s, Inr ())))"

definition existing_event_ids :: "'p lineage_state \<Rightarrow> string set" where
  "existing_event_ids s = ev_event_id ` (set (ls_observed s) \<union> set (ls_reconstructed s) \<union> set (ls_legacy s))"

text \<open>A file is written only when it is not there.\<close>

definition write_missing :: "lineage_env \<Rightarrow> lineage_io \<Rightarrow> string \<Rightarrow> stored_file \<Rightarrow> 'p lineage_state \<Rightarrow> ('p, unit) lineage_outcome" where
  "write_missing env io path f s =
     (if map_of (wo_files (ls_world s)) path \<noteq> None then (s, Inr ())
      else lineage_when (ln_io env io) (''failed to write '' @ path) s (\<lambda>s. (on_world (write_file path f) s, Inr ())))"

definition append_reconstructed :: "lineage_env \<Rightarrow> string set \<Rightarrow> release_event \<Rightarrow> 'p lineage_state \<Rightarrow> ('p, unit) lineage_outcome" where
  "append_reconstructed env ids e s =
     (if ev_event_id e \<in> ids then (s, Inr ())
      else lineage_when (ln_io env (AppendLedger (ev_event_id e))) ''failed to append event'' s
        (\<lambda>s. (s\<lparr>ls_reconstructed := ls_reconstructed s @ [e]\<rparr>, Inr ())))"

definition persist_entry :: "lineage_env \<Rightarrow> string set \<Rightarrow> history_entry \<Rightarrow> 'p lineage_state \<Rightarrow> ('p, unit) lineage_outcome" where
  "persist_entry env ids h s =
     (let e = he_event h; i = ev_event_id e;
          dir = capture_dir_for_event (hv_url_encode (ln_history env)) (hv_data_dir (ln_history env)) e in
      lineage_then (append_reconstructed env ids e s) (\<lambda>s _.
      lineage_then (lineage_write env (LineageEvent i) (RecordEvent e Reconstructed) s) (\<lambda>s _.
      lineage_when (ln_io env (LineageDir i)) ''failed to create capture dir'' s (\<lambda>s.
      lineage_then (write_missing env (LineageEventJson i) (path_join dir ''event.json'') (EventJson e) s) (\<lambda>s _.
      case he_capture h of
        None \<Rightarrow> (s, Inr ())
      | Some cap \<Rightarrow>
          lineage_then (write_missing env (LineageCaptureJson i) (path_join dir ''capture.json'') (CaptureJson cap) s) (\<lambda>s _.
            lineage_write env (LineageCapture i) (RecordCapture e Reconstructed dir cap) s))))))"

fun persist_loop :: "lineage_env \<Rightarrow> string set \<Rightarrow> history_entry list \<Rightarrow> 'p lineage_state \<Rightarrow> ('p, unit) lineage_outcome" where
  "persist_loop env ids [] s = (s, Inr ())"
| "persist_loop env ids (h # hs) s =
     lineage_then (persist_entry env ids h s) (\<lambda>s _. persist_loop env (insert (ev_event_id (he_event h)) ids) hs s)"

definition persist_history_entries :: "lineage_env \<Rightarrow> history_entry list \<Rightarrow> 'p lineage_state \<Rightarrow> ('p, unit) lineage_outcome" where
  "persist_history_entries env hs s =
     (if hs = [] then (s, Inr ())
      else lineage_then (local_store env s) (\<lambda>s _.
        lineage_when (ln_io env ReadLedgers) ''failed to read ledgers'' s (\<lambda>s.
        lineage_when (ln_io env OpenLedger) ''failed to open event ledger'' s (\<lambda>s.
          persist_loop env (existing_event_ids s) hs s))))"

datatype lineage_result = LineageBackfilled string string | LineageNoPrevious | LineageNotVisible

definition backfill_previous_lineage ::
  "lineage_env \<Rightarrow> ecosystem \<Rightarrow> string \<Rightarrow> string \<Rightarrow> 'p lineage_state \<Rightarrow> ('p, lineage_result) lineage_outcome" where
  "backfill_previous_lineage env eco package version s =
     lineage_then (local_store env s) (\<lambda>s _.
     (case load_package_history (ln_history env) eco package (wo_store (ls_world s)) of
        Inl err \<Rightarrow> (s, Inl err)
      | Inr locals \<Rightarrow>
        (case load_package_history_online (ln_online env) eco package of
           Inl err \<Rightarrow> (s, Inl err)
         | Inr onlines \<Rightarrow>
           (let online = dedupe_history_entries onlines in
            case previous_lineage_candidate locals online version of
              None \<Rightarrow> (s, Inr (if list_ex (\<lambda>h. ev_version (he_event h) = version) online then LineageNoPrevious else LineageNotVisible))
            | Some h \<Rightarrow> lineage_then (persist_history_entries env [h] s) (\<lambda>s _.
                (s, Inr (LineageBackfilled (ev_event_id (he_event h)) (ev_version (he_event h)))))))))"

section \<open>What persisting keeps\<close>

lemma lineage_then_Inr: "lineage_then r k = (s', Inr b) \<longleftrightarrow> (\<exists>s a. r = (s, Inr a) \<and> k s a = (s', Inr b))"
  by (cases r; cases "snd r") (auto simp: lineage_then_def)

lemma lineage_when_Inr: "lineage_when ok err s k = (s', Inr b) \<longleftrightarrow> ok \<and> k s = (s', Inr b)"
  by (simp add: lineage_when_def)

lemmas lineage_ok = lineage_then_Inr lineage_when_Inr

definition ledgers_of :: "'p lineage_state \<Rightarrow> release_event list \<times> release_event list \<times> release_event list" where
  "ledgers_of s = (ls_observed s, ls_legacy s, ls_reconstructed s)"

lemma on_world_ledgers [simp]: "ledgers_of (on_world f s) = ledgers_of s" "ls_world (on_world f s) = f (ls_world s)"
  by (simp_all add: ledgers_of_def on_world_def)

lemma lineage_write_ledgers: "ledgers_of (fst (lineage_write env io c s)) = ledgers_of s"
  by (auto simp: lineage_write_def split: prod.splits bool.splits)

lemma write_missing_ledgers: "ledgers_of (fst (write_missing env io path f s)) = ledgers_of s"
  by (simp add: write_missing_def lineage_when_def)

lemma write_missing_keeps:
  "map_of (wo_files (ls_world s)) p = Some x \<Longrightarrow> map_of (wo_files (ls_world (fst (write_missing env io path f s)))) p = Some x"
  by (auto simp: write_missing_def lineage_when_def write_file_def)

lemma fst_lineage_then: "fst (lineage_then r k) = (case snd r of Inl _ \<Rightarrow> fst r | Inr a \<Rightarrow> fst (k (fst r) a))"
  by (cases r; cases "snd r") (auto simp: lineage_then_def)

text \<open>Whatever the outcome, an entry only ever adds its own event to the reconstructed ledger, when its
  identifier is new.\<close>

lemma persist_entry_ledgers:
  "ledgers_of (fst (persist_entry env ids h s)) = ledgers_of s
   \<or> (ev_event_id (he_event h) \<notin> ids
      \<and> ledgers_of (fst (persist_entry env ids h s)) = (ls_observed s, ls_legacy s, ls_reconstructed s @ [he_event h]))"
proof -
  let ?r = "append_reconstructed env ids (he_event h) s"
  have rest: "ledgers_of (fst (persist_entry env ids h s)) = ledgers_of (fst ?r)"
    by (simp add: persist_entry_def Let_def fst_lineage_then lineage_when_def lineage_write_ledgers
        write_missing_ledgers split: sum.splits option.splits)
  show ?thesis
    unfolding rest by (auto simp: append_reconstructed_def lineage_when_def ledgers_of_def)
qed

lemma fst_snd_split: "r = (s, a) \<longleftrightarrow> fst r = s \<and> snd r = a"
  by (cases r) auto

text \<open>A successful entry is in the store and in a ledger.\<close>

lemma lineage_write_event:
  assumes "lineage_write env io (RecordEvent e o') s = (s', Inr ())"
  shows "wo_store (ls_world s') = upsert_event_row e o' (wo_store (ls_world s))"
  using assms
  by (auto simp: lineage_write_def execute_write_command_def split: if_splits prod.splits bool.splits)

definition ledger_ids :: "'p lineage_state \<Rightarrow> string list" where
  "ledger_ids s = map ev_event_id (ls_reconstructed s)"

lemma persist_loop_ledgers:
  "\<exists>new. ledgers_of (fst (persist_loop env ids hs s)) = (ls_observed s, ls_legacy s, ls_reconstructed s @ new)
     \<and> set new \<subseteq> he_event ` set hs \<and> distinct (map ev_event_id new) \<and> ids \<inter> ev_event_id ` set new = {}"
proof (induction env ids hs s rule: persist_loop.induct)
  case (2 env ids h hs s)
  let ?s1 = "fst (persist_entry env ids h s)"
  have one: "ledgers_of ?s1 = ledgers_of s \<or> (ev_event_id (he_event h) \<notin> ids
      \<and> ledgers_of ?s1 = (ls_observed s, ls_legacy s, ls_reconstructed s @ [he_event h]))"
    by (rule persist_entry_ledgers)
  show ?case
  proof (cases "snd (persist_entry env ids h s)")
    case (Inl err)
    then have "fst (persist_loop env ids (h # hs) s) = ?s1"
      by (simp add: fst_lineage_then)
    with one show ?thesis
      by (auto simp: ledgers_of_def intro: exI [of _ "[]"] exI [of _ "[he_event h]"])
  next
    case (Inr u)
    then have r: "fst (persist_loop env ids (h # hs) s) = fst (persist_loop env (insert (ev_event_id (he_event h)) ids) hs ?s1)"
      by (simp add: fst_lineage_then)
    obtain new where new: "ledgers_of (fst (persist_loop env (insert (ev_event_id (he_event h)) ids) hs ?s1))
        = (ls_observed ?s1, ls_legacy ?s1, ls_reconstructed ?s1 @ new)" "set new \<subseteq> he_event ` set hs"
      "distinct (map ev_event_id new)" "insert (ev_event_id (he_event h)) ids \<inter> ev_event_id ` set new = {}"
      using 2 by blast
    from one show ?thesis
    proof
      assume "ledgers_of ?s1 = ledgers_of s"
      then show ?thesis
        using new unfolding r by (intro exI [of _ new]) (auto simp: ledgers_of_def)
    next
      assume "ev_event_id (he_event h) \<notin> ids
        \<and> ledgers_of ?s1 = (ls_observed s, ls_legacy s, ls_reconstructed s @ [he_event h])"
      then show ?thesis
        using new unfolding r by (intro exI [of _ "he_event h # new"]) (auto simp: ledgers_of_def)
    qed
  qed
qed (simp add: ledgers_of_def)

lemma local_store_ledgers: "ledgers_of (fst (local_store env s)) = ledgers_of s"
  by (auto simp: local_store_def lineage_when_def split: option.splits)

text \<open>The ledgers never hold an identifier twice: persisting appends only events whose identifier no
  ledger has, whatever fails on the way.\<close>

definition ledgers_disjoint :: "'p lineage_state \<Rightarrow> bool" where
  "ledgers_disjoint s \<longleftrightarrow> distinct (ledger_ids s)
     \<and> set (ledger_ids s) \<inter> ev_event_id ` (set (ls_observed s) \<union> set (ls_legacy s)) = {}"

lemma persist_history_ledgers:
  "\<exists>new. ledgers_of (fst (persist_history_entries env hs s)) = (ls_observed s, ls_legacy s, ls_reconstructed s @ new)
     \<and> set new \<subseteq> he_event ` set hs \<and> distinct (map ev_event_id new) \<and> existing_event_ids s \<inter> ev_event_id ` set new = {}"
proof -
  let ?s1 = "fst (local_store env s)"
  have s1: "ls_observed ?s1 = ls_observed s" "ls_legacy ?s1 = ls_legacy s" "ls_reconstructed ?s1 = ls_reconstructed s"
    "existing_event_ids ?s1 = existing_event_ids s"
    using local_store_ledgers [of env s] by (auto simp: ledgers_of_def existing_event_ids_def)
  show ?thesis
    using persist_loop_ledgers [of env "existing_event_ids s" hs ?s1] s1
    by (auto simp: persist_history_entries_def fst_lineage_then lineage_when_def ledgers_of_def
        split: sum.splits intro: exI [of _ "[]"])
qed

lemma persist_keeps_ledgers_disjoint:
  assumes "ledgers_disjoint s"
  shows "ledgers_disjoint (fst (persist_history_entries env hs s))"
proof -
  obtain new where n: "ledgers_of (fst (persist_history_entries env hs s)) = (ls_observed s, ls_legacy s, ls_reconstructed s @ new)"
    "distinct (map ev_event_id new)" "existing_event_ids s \<inter> ev_event_id ` set new = {}"
    using persist_history_ledgers by blast
  then show ?thesis
    using assms by (auto simp: ledgers_of_def ledgers_disjoint_def ledger_ids_def existing_event_ids_def)
qed

section \<open>What persisting writes\<close>

abbreviation indexed :: "string \<Rightarrow> 'p lineage_state \<Rightarrow> bool" where
  "indexed i s \<equiv> map_of (st_release_index (wo_store (ls_world s))) i \<noteq> None"

lemma indexed_upsert: "map_of (st_release_index (upsert_event_row e o' st)) (ev_event_id e) \<noteq> None"
  by (simp add: upsert_event_row_def map_of_sql_upsert split: option.splits)

lemma indexed_record_event:
  "lineage_write env io (RecordEvent e o') s = (s', Inr u) \<Longrightarrow> indexed (ev_event_id e) s'"
  using indexed_upsert [of e o']
  by (auto simp: lineage_write_def execute_write_command_def on_world_def split: if_splits)

lemma indexed_record_capture:
  "lineage_write env io (RecordCapture e o' dir cap) s = (s', Inr u) \<Longrightarrow> indexed (ev_event_id e) s'"
  using indexed_upsert [of e o' "wo_store (ls_world s)"]
  by (auto simp: lineage_write_def execute_write_command_def on_world_def update_capture_row_def map_of_sql_update
      releases_unchanged split: if_splits option.splits)

lemma write_missing_store: "wo_store (ls_world (fst (write_missing env io path f s))) = wo_store (ls_world s)"
  by (simp add: write_missing_def lineage_when_def on_world_def write_file_def)

lemma persist_entry_indexed:
  assumes "persist_entry env ids h s = (s', Inr u)"
  shows "indexed (ev_event_id (he_event h)) s'"
proof (cases "he_capture h")
  case None
  then obtain s1 s2 u1 u2 io io' p f where "lineage_write env io (RecordEvent (he_event h) Reconstructed) s1 = (s2, Inr u1)"
    "write_missing env io' p f s2 = (s', Inr u2)"
    using assms by (auto simp: persist_entry_def Let_def lineage_ok)
  then show ?thesis
    using indexed_record_event write_missing_store by (metis fst_conv)
next
  case (Some cap)
  then obtain s1 io dir where "lineage_write env io (RecordCapture (he_event h) Reconstructed dir cap) s1 = (s', Inr u)"
    using assms by (auto simp: persist_entry_def Let_def lineage_ok)
  then show ?thesis
    by (rule indexed_record_capture)
qed

lemma persist_one_indexed:
  "persist_history_entries env [h] s = (s', Inr u) \<Longrightarrow> indexed (ev_event_id (he_event h)) s'"
  using persist_entry_indexed by (fastforce simp: persist_history_entries_def lineage_ok)

section \<open>Properties\<close>

lemma backfill_ok:
  assumes "backfill_previous_lineage env eco package version s = (s', Inr (LineageBackfilled i v))"
  obtains locals onlines h k s1 where
    "load_package_history (ln_history env) eco package (wo_store (ls_world s1)) = Inr locals"
    "s1 = fst (local_store env s)"
    "load_package_history_online (ln_online env) eco package = Inr onlines"
    "release_position (dedupe_history_entries onlines) version = Some (Suc k)"
    "h = dedupe_history_entries onlines ! k" "i = ev_event_id (he_event h)" "v = entry_version h"
    "v \<notin> entry_version ` set locals" "persist_history_entries env [h] s1 = (s', Inr ())"
proof -
  obtain s1 u where s1: "local_store env s = (s1, Inr u)"
    using assms by (auto simp: backfill_previous_lineage_def lineage_ok)
  obtain locals where locals: "load_package_history (ln_history env) eco package (wo_store (ls_world s1)) = Inr locals"
    using assms s1 by (auto simp: backfill_previous_lineage_def lineage_then_def split: sum.splits)
  obtain onlines where onlines: "load_package_history_online (ln_online env) eco package = Inr onlines"
    using assms s1 locals by (auto simp: backfill_previous_lineage_def lineage_then_def split: sum.splits)
  let ?online = "dedupe_history_entries onlines"
  obtain h where h: "previous_lineage_candidate locals ?online version = Some h"
    using assms s1 locals onlines
    by (auto simp: backfill_previous_lineage_def lineage_then_def Let_def split: option.splits if_splits)
  then obtain u' where p: "persist_history_entries env [h] s1 = (s', Inr u')"
    and iv: "i = ev_event_id (he_event h)" "v = entry_version h"
    using assms s1 locals onlines
    by (auto simp: backfill_previous_lineage_def lineage_ok Let_def)
  obtain k where k: "release_position ?online version = Some (Suc k)" "h = ?online ! k"
    "\<not> list_ex (\<lambda>x. entry_version x = entry_version h) locals"
    using h by (auto simp: previous_lineage_candidate_def split: option.splits nat.splits if_splits)
  have nh: "v \<notin> entry_version ` set locals"
    using k(3) iv(2) unfolding list_ex_iff image_iff by metis
  have p': "persist_history_entries env [h] s1 = (s', Inr ())"
    using p by simp
  have f: "s1 = fst (local_store env s)"
    by (simp add: s1)
  show ?thesis
    by (rule that [OF locals f onlines k(1,2) iv nh p'])
qed


text \<open>A lineage backfill that reports success has put the release immediately before the target in the
  registry's deduplicated, time-ordered history into the store; that release was not known locally, and the
  reconstructed ledger got at most its one event, never an identifier some ledger already had.\<close>

theorem backfill_adds_immediate_predecessor:
  assumes "backfill_previous_lineage env eco package version s = (s', Inr (LineageBackfilled i v))"
    "ledgers_disjoint s"
  shows "(\<exists>onlines k h. load_package_history_online (ln_online env) eco package = Inr onlines
      \<and> release_position (dedupe_history_entries onlines) version = Some (Suc k)
      \<and> dedupe_history_entries onlines ! k = h \<and> entry_of eco package h \<and> entry_version h = v \<and> ev_event_id (he_event h) = i)
    \<and> map_of (st_release_index (wo_store (ls_world s'))) i \<noteq> None \<and> ledgers_disjoint s'"
proof -
  obtain locals onlines h k s1 where b:
    "s1 = fst (local_store env s)" "load_package_history_online (ln_online env) eco package = Inr onlines"
    "release_position (dedupe_history_entries onlines) version = Some (Suc k)"
    "h = dedupe_history_entries onlines ! k" "i = ev_event_id (he_event h)" "v = entry_version h"
    "persist_history_entries env [h] s1 = (s', Inr ())"
    using backfill_ok [OF assms(1)] by metis
  have "h \<in> set (dedupe_history_entries onlines)"
    using release_position_Some [OF b(3)] b(4) by simp
  then have "entry_of eco package h"
    using load_online_entries [OF b(2)] dedupe_set by (auto simp: list_all_iff)
  moreover have "ledgers_disjoint s1"
    using assms(2) local_store_ledgers [of env s] by (simp add: b(1) ledgers_disjoint_def ledgers_of_def ledger_ids_def)
  then have "ledgers_disjoint s'"
    using persist_keeps_ledgers_disjoint [of s1 env "[h]"] b(7) by simp
  moreover have "map_of (st_release_index (wo_store (ls_world s'))) i \<noteq> None"
    using persist_one_indexed [OF b(7)] b(5) by simp
  ultimately show ?thesis
    using b by blast
qed


definition demo_reconcile :: reconcile_env where
  "demo_reconcile = \<lparr>re_now = 0, re_enc_sources = (\<lambda>_. []), re_url_encode = (\<lambda>s. s), re_data_dir = ''d'',
     re_capture_file = (\<lambda>_. None), re_diff_file = (\<lambda>_. None), re_repository_of = (\<lambda>_ _. None)\<rparr>"

definition demo_lineage :: lineage_env where
  "demo_lineage = \<lparr>ln_io = (\<lambda>_. True), ln_now = 0, ln_enc_sources = (\<lambda>_. []),
     ln_history = \<lparr>hv_url_encode = (\<lambda>s. s), hv_data_dir = ''d'', hv_capture_file = (\<lambda>_. Inr None)\<rparr>,
     ln_reconcile = demo_reconcile,
     ln_online = \<lparr>ol_parse_rfc3339 = (\<lambda>_. None), ol_encode = (\<lambda>s. s), ol_now = 0,
       ol_fetch = (\<lambda>_ _. Inr (JObject [(''versions'', JObject [(''1'', JObject []), (''2'', JObject [])])]))\<rparr>\<rparr>"

definition demo_lineage_state :: "unit lineage_state" where
  "demo_lineage_state = \<lparr>ls_observed = [], ls_legacy = [], ls_reconstructed = [],
     ls_world = \<lparr>wo_store = store_empty, wo_files = [], wo_diff_queue = [], wo_graph_file = [], wo_priority = ()\<rparr>\<rparr>"

lemma demo_backfill:
  "snd (backfill_previous_lineage demo_lineage Npm ''a'' ''2'' demo_lineage_state) = Inr (LineageBackfilled ''npm:a@1'' ''1'')"
  by code_simp

lemma backfill_adds_immediate_predecessor_witness:
  "map_of (st_release_index (wo_store (ls_world
     (fst (backfill_previous_lineage demo_lineage Npm ''a'' ''2'' demo_lineage_state))))) ''npm:a@1'' \<noteq> None"
proof -
  have "backfill_previous_lineage demo_lineage Npm ''a'' ''2'' demo_lineage_state
      = (fst (backfill_previous_lineage demo_lineage Npm ''a'' ''2'' demo_lineage_state), Inr (LineageBackfilled ''npm:a@1'' ''1''))"
    by (simp add: demo_backfill prod_eq_iff)
  moreover have "ledgers_disjoint demo_lineage_state"
    by (simp add: ledgers_disjoint_def ledger_ids_def demo_lineage_state_def)
  ultimately show ?thesis
    using backfill_adds_immediate_predecessor by blast
qed

end
