(* ===== verification/Diff_Content.thy ===== *)
theory Diff_Content
  imports Diff_Types Npm_Metadata
begin

text \<open>
  The comparing half of \<open>diff.rs\<close>: status, artifacts and metadata of two captures, and the files of two
  extracted archives.  A path is its list of components; a map by path is its association list in key
  order.  What the file system, the archive tools, \<open>diff\<close> and the hashes answer is the environment.
\<close>

section \<open>Sorted maps\<close>

definition btree_map :: "('k::linorder \<times> 'v) list \<Rightarrow> ('k \<times> 'v) list" where
  "btree_map kvs = sort_key fst (fold (\<lambda>(k, v) m. AList.update k v m) kvs [])"

text \<open>The keys of two maps, each once, in order.\<close>

definition key_union :: "('k::linorder \<times> 'v) list \<Rightarrow> ('k \<times> 'w) list \<Rightarrow> 'k list" where
  "key_union a b = btree_set (keys a @ keys b)"

section \<open>Status, artifacts, details\<close>

definition capture_status_label :: "captured_release option \<Rightarrow> string" where
  "capture_status_label c = (case c of
     Some cap \<Rightarrow> (case ca_status cap of Active \<Rightarrow> ''active'' | Yanked \<Rightarrow> ''yanked'' | Removed \<Rightarrow> ''removed'' | Unknown \<Rightarrow> ''unknown'')
   | None \<Rightarrow> ''uncaptured'')"

definition build_status_diff :: "captured_release option \<Rightarrow> captured_release option \<Rightarrow> status_diff" where
  "build_status_diff target baseline =
     \<lparr>sd_baseline = capture_status_label baseline, sd_target = capture_status_label target,
      sd_changed = (capture_status_label baseline \<noteq> capture_status_label target)\<rparr>"

record artifact_view =
  vw_artifact :: captured_artifact
  vw_local_path :: "string option"

definition capture_local_artifact_path :: "captured_release \<Rightarrow> string option" where
  "capture_local_artifact_path cap = Option.bind (json_pointer (ca_details cap) [''local_artifact'', ''path'']) as_str"

definition artifact_map :: "captured_release option \<Rightarrow> (string \<times> artifact_view) list" where
  "artifact_map c = (case c of None \<Rightarrow> []
     | Some cap \<Rightarrow> btree_map (map (\<lambda>a. (ar_filename a,
         \<lparr>vw_artifact = a, vw_local_path = capture_local_artifact_path cap\<rparr>)) (ca_artifacts cap)))"

definition artifact_summary_of :: "artifact_view \<Rightarrow> artifact_summary" where
  "artifact_summary_of v = (let a = vw_artifact v in
     \<lparr>af_filename = ar_filename a, af_kind = ar_kind a, af_url = ar_url a, af_path = vw_local_path v,
      af_size_bytes = ar_size_bytes a, af_uploaded_at = ar_uploaded_at a, af_yanked = ar_yanked a,
      af_hashes = ar_hashes a, af_provenance_path = ar_provenance_path a\<rparr>)"

definition artifact_changed :: "artifact_view \<Rightarrow> artifact_view \<Rightarrow> bool" where
  "artifact_changed l r = (let a = vw_artifact l; b = vw_artifact r in
     ar_kind a \<noteq> ar_kind b \<or> ar_url a \<noteq> ar_url b \<or> vw_local_path l \<noteq> vw_local_path r
     \<or> ar_size_bytes a \<noteq> ar_size_bytes b \<or> ar_uploaded_at a \<noteq> ar_uploaded_at b \<or> ar_yanked a \<noteq> ar_yanked b
     \<or> ah_sha256 (ar_hashes a) \<noteq> ah_sha256 (ar_hashes b) \<or> ah_sha512 (ar_hashes a) \<noteq> ah_sha512 (ar_hashes b)
     \<or> ah_blake2b_256 (ar_hashes a) \<noteq> ah_blake2b_256 (ar_hashes b) \<or> ah_md5 (ar_hashes a) \<noteq> ah_md5 (ar_hashes b)
     \<or> ah_integrity (ar_hashes a) \<noteq> ah_integrity (ar_hashes b) \<or> ah_shasum (ar_hashes a) \<noteq> ah_shasum (ar_hashes b)
     \<or> ah_checksum (ar_hashes a) \<noteq> ah_checksum (ar_hashes b) \<or> ar_provenance_path a \<noteq> ar_provenance_path b)"

definition artifact_step ::
  "(string \<times> artifact_view) list \<Rightarrow> (string \<times> artifact_view) list \<Rightarrow> artifact_diff \<Rightarrow> string \<Rightarrow> artifact_diff" where
  "artifact_step baseline target d key =
     (case (map_of baseline key, map_of target key) of
        (None, Some t) \<Rightarrow> d\<lparr>ad_added := ad_added d @ [artifact_summary_of t]\<rparr>
      | (Some b, None) \<Rightarrow> d\<lparr>ad_removed := ad_removed d @ [artifact_summary_of b]\<rparr>
      | (Some b, Some t) \<Rightarrow>
          (if artifact_changed b t then d\<lparr>ad_changed := ad_changed d @
             [\<lparr>ax_filename = key,
               ax_kind = (case ar_kind (vw_artifact t) of Some k \<Rightarrow> Some k | None \<Rightarrow> ar_kind (vw_artifact b)),
               ax_baseline = artifact_summary_of b, ax_target = artifact_summary_of t\<rparr>]\<rparr> else d)
      | (None, None) \<Rightarrow> d)"

definition build_artifact_diff :: "captured_release option \<Rightarrow> captured_release option \<Rightarrow> artifact_diff" where
  "build_artifact_diff target baseline =
     (let t = artifact_map target; b = artifact_map baseline in
      foldl (artifact_step b t) \<lparr>ad_added = [], ad_removed = [], ad_changed = []\<rparr> (key_union t b))"

text \<open>\<open>serde_json\<close> compares objects as maps.\<close>

fun json_norm :: "json \<Rightarrow> json" where
  "json_norm (JObject fs) = JObject (sort_key fst (map (\<lambda>kv. (fst kv, json_norm (snd kv))) fs))"
| "json_norm (JArray vs) = JArray (map json_norm vs)"
| "json_norm v = v"

definition json_eq :: "json \<Rightarrow> json \<Rightarrow> bool" where
  "json_eq a b \<longleftrightarrow> json_norm a = json_norm b"

definition top_level_keys :: "json option \<Rightarrow> string list" where
  "top_level_keys v = (case Option.bind v as_object of Some fs \<Rightarrow> btree_set (keys fs) | None \<Rightarrow> [])"

definition details_step :: "json option \<Rightarrow> json option \<Rightarrow> details_diff \<Rightarrow> string \<Rightarrow> details_diff" where
  "details_step baseline target d key =
     (case (Option.bind baseline (\<lambda>v. json_get v key), Option.bind target (\<lambda>v. json_get v key)) of
        (None, Some r) \<Rightarrow> d\<lparr>dd_added_keys := dd_added_keys d @ [key],
            dd_added := (if r = JNull then dd_added d else dd_added d @ [(key, r)])\<rparr>
      | (Some l, None) \<Rightarrow> d\<lparr>dd_removed_keys := dd_removed_keys d @ [key],
            dd_removed := (if l = JNull then dd_removed d else dd_removed d @ [(key, l)])\<rparr>
      | (Some l, Some r) \<Rightarrow>
          (if \<not> json_eq l r then d\<lparr>dd_changed_keys := dd_changed_keys d @ [key],
             dd_changed := (if l \<noteq> JNull \<or> r \<noteq> JNull
               then dd_changed d @ [\<lparr>mv_key = key, mv_baseline = l, mv_target = r\<rparr>] else dd_changed d)\<rparr> else d)
      | (None, None) \<Rightarrow> d)"

definition details_empty :: details_diff where
  "details_empty = \<lparr>dd_added_keys = [], dd_removed_keys = [], dd_changed_keys = [], dd_added = [], dd_removed = [], dd_changed = []\<rparr>"

definition build_details_diff :: "captured_release option \<Rightarrow> captured_release option \<Rightarrow> details_diff" where
  "build_details_diff target baseline =
     (let t = map_option ca_details target; b = map_option ca_details baseline in
      foldl (details_step b t) details_empty (btree_set (top_level_keys t @ top_level_keys b)))"

section \<open>Archive kinds\<close>

datatype artifact_kind = NpmTarball | CrateTarball | TarGz | Wheel | Zip

fun kind_label :: "artifact_kind \<Rightarrow> string" where
  "kind_label NpmTarball = ''npm-tarball''"
| "kind_label CrateTarball = ''crate''"
| "kind_label TarGz = ''tar.gz''"
| "kind_label Wheel = ''wheel''"
| "kind_label Zip = ''zip''"

definition archive_suffixes :: "string list" where
  "archive_suffixes = [''.tar.gz'', ''.whl'', ''.crate'', ''.tgz'', ''.zip'']"

definition has_archive_suffix :: "string \<Rightarrow> bool" where
  "has_archive_suffix s = list_ex (ends_with s) archive_suffixes"

text \<open>Extensions are dropped from the end until an archive name appears.\<close>

function drop_extensions :: "string \<Rightarrow> string option" where
  "drop_extensions candidate = (case rsplit_once (CHR ''.'') candidate of
     None \<Rightarrow> None
   | Some (p, _) \<Rightarrow> if has_archive_suffix p then Some p else drop_extensions p)"
  by pat_completeness auto
termination
  by (relation "measure length") (auto dest: rsplit_once_shorter)

declare drop_extensions.simps [simp del]

definition canonical_archive_name :: "string \<Rightarrow> string option" where
  "canonical_archive_name filename = (if has_archive_suffix filename then Some filename else drop_extensions filename)"

definition canonical_or_self :: "string \<Rightarrow> string" where
  "canonical_or_self filename = (case canonical_archive_name filename of Some c \<Rightarrow> c | None \<Rightarrow> filename)"

definition classify_filename :: "string \<Rightarrow> artifact_kind option" where
  "classify_filename filename = (let c = canonical_or_self filename in
     if ends_with c ''.tgz'' then Some NpmTarball
     else if ends_with c ''.crate'' then Some CrateTarball
     else if ends_with c ''.tar.gz'' then Some TarGz
     else if ends_with c ''.whl'' then Some Wheel
     else if ends_with c ''.zip'' then Some Zip else None)"

definition classify_artifact :: "captured_artifact \<Rightarrow> artifact_kind option" where
  "classify_artifact a =
     (if ar_kind a = Some ''npm-tarball'' then Some NpmTarball
      else if ar_kind a = Some ''crate'' then Some CrateTarball
      else if ar_kind a = Some ''sdist'' then Some TarGz
      else if ar_kind a = Some ''bdist_wheel'' then Some Wheel
      else classify_filename (ar_filename a))"

definition kind_priorities :: "artifact_kind list" where
  "kind_priorities = [NpmTarball, CrateTarball, TarGz, Wheel, Zip]"

fun first_pair :: "artifact_kind list \<Rightarrow> captured_release \<Rightarrow> captured_release
  \<Rightarrow> (captured_artifact \<times> captured_artifact \<times> artifact_kind) option" where
  "first_pair [] baseline target = None"
| "first_pair (k # ks) baseline target =
     (case (find (\<lambda>a. classify_artifact a = Some k) (ca_artifacts baseline),
            find (\<lambda>a. classify_artifact a = Some k) (ca_artifacts target)) of
        (Some b, Some t) \<Rightarrow> Some (b, t, k)
      | _ \<Rightarrow> first_pair ks baseline target)"

definition select_artifact_pair :: "captured_release \<Rightarrow> captured_release
  \<Rightarrow> (captured_artifact \<times> captured_artifact \<times> artifact_kind) option" where
  "select_artifact_pair = first_pair kind_priorities"

section \<open>Extracted files\<close>

text \<open>A file of an extracted archive: its path below the directory and its bytes, \<open>None\<close> when they cannot
  be read.  The list is in the order the directory walk finds them.\<close>

type_synonym extracted = "(string list \<times> string option) list"

definition common_top_level_dir :: "string list list \<Rightarrow> string option" where
  "common_top_level_dir files = (case List.map_filter (\<lambda>p. case p of [] \<Rightarrow> None | c # _ \<Rightarrow> Some c) files of
     [] \<Rightarrow> None | first # rest \<Rightarrow> if list_all (\<lambda>c. c = first) rest then Some first else None)"

fun join_slash :: "string list \<Rightarrow> string" where
  "join_slash [] = []"
| "join_slash [c] = c"
| "join_slash (c # d # cs) = c @ ''/'' @ join_slash (d # cs)"

definition normalize_relative_path :: "string list \<Rightarrow> string option \<Rightarrow> string" where
  "normalize_relative_path path strip =
     join_slash (if path \<noteq> [] \<and> strip = Some (hd path) then tl path else path)"

definition collect_files :: "extracted \<Rightarrow> (string \<times> string list \<times> string option) list" where
  "collect_files files =
     (let strip = common_top_level_dir (map fst files)
      in btree_map (map (\<lambda>(p, bytes). (normalize_relative_path p strip, p, bytes)) files))"

definition is_probably_text :: "string \<Rightarrow> bool" where
  "is_probably_text bytes \<longleftrightarrow> CHR 0x00 \<notin> set bytes \<and> utf8_valid (map byte bytes)"

section \<open>Comparing two archives\<close>

record content_env =
  cn_sha256 :: "string \<Rightarrow> string"
  cn_parse_json :: "string \<Rightarrow> json option"
  cn_unified_diff :: "string \<Rightarrow> file_change_kind \<Rightarrow> string option \<Rightarrow> string option \<Rightarrow> nat \<Rightarrow> string + string"

definition build_file_record :: "content_env \<Rightarrow> string \<Rightarrow> string \<Rightarrow> file_record" where
  "build_file_record env path bytes = \<lparr>fr_path = path, fr_size_bytes = length bytes, fr_sha256 = cn_sha256 env bytes,
     fr_text = is_probably_text bytes\<rparr>"

definition text_or_absent :: "string option \<Rightarrow> bool" where
  "text_or_absent bytes = (case bytes of Some b \<Rightarrow> is_probably_text b | None \<Rightarrow> True)"

definition build_file_patch ::
  "content_env \<Rightarrow> string \<Rightarrow> file_change_kind \<Rightarrow> string option \<Rightarrow> string option \<Rightarrow> nat \<Rightarrow> string + file_patch" where
  "build_file_patch env path change baseline target context_lines =
     (if text_or_absent baseline \<and> text_or_absent target
      then (case cn_unified_diff env path change baseline target context_lines of
          Inl err \<Rightarrow> Inl err
        | Inr patch \<Rightarrow> Inr \<lparr>fp_path = path, fp_change = change, fp_text = True, fp_patch = Some patch, fp_reason = None\<rparr>)
      else Inr \<lparr>fp_path = path, fp_change = change, fp_text = False, fp_patch = None,
        fp_reason = Some (file_change_label change @ '' file is binary or non-UTF-8'')\<rparr>)"

record compared =
  cm_added :: "string list"
  cm_removed :: "string list"
  cm_changed :: "string list"
  cm_added_detail :: "file_record list"
  cm_removed_detail :: "file_record list"
  cm_changed_detail :: "file_record_change list"
  cm_patches :: "file_patch list"

definition compared_empty :: compared where
  "compared_empty = \<lparr>cm_added = [], cm_removed = [], cm_changed = [], cm_added_detail = [], cm_removed_detail = [],
     cm_changed_detail = [], cm_patches = []\<rparr>"

text \<open>The patch of one file, when patches are asked for.\<close>

definition maybe_patch ::
  "content_env \<Rightarrow> nat option \<Rightarrow> string \<Rightarrow> file_change_kind \<Rightarrow> string option \<Rightarrow> string option \<Rightarrow> compared \<Rightarrow> string + compared" where
  "maybe_patch env patches path change baseline target d = (case patches of
     None \<Rightarrow> Inr d
   | Some n \<Rightarrow> (case build_file_patch env path change baseline target n of
       Inl err \<Rightarrow> Inl err | Inr p \<Rightarrow> Inr (d\<lparr>cm_patches := cm_patches d @ [p]\<rparr>)))"

type_synonym file_map = "(string \<times> string list \<times> string option) list"

definition unreadable :: "string \<Rightarrow> string" where
  "unreadable path = ''failed to read '' @ path"

definition compare_path ::
  "content_env \<Rightarrow> nat option \<Rightarrow> file_map \<Rightarrow> file_map \<Rightarrow> string \<Rightarrow> compared \<Rightarrow> string + compared" where
  "compare_path env patches baseline target path d =
     (case (map_of baseline path, map_of target path) of
        (None, Some (_, None)) \<Rightarrow> Inl (unreadable path)
      | (None, Some (_, Some r)) \<Rightarrow> map_sum id (\<lambda>d. d\<lparr>cm_added := cm_added d @ [path]\<rparr>)
          (maybe_patch env patches path FileAdded None (Some r)
             (d\<lparr>cm_added_detail := cm_added_detail d @ [build_file_record env path r]\<rparr>))
      | (Some (_, None), _) \<Rightarrow> Inl (unreadable path)
      | (Some (_, Some l), None) \<Rightarrow> map_sum id (\<lambda>d. d\<lparr>cm_removed := cm_removed d @ [path]\<rparr>)
          (maybe_patch env patches path FileRemoved (Some l) None
             (d\<lparr>cm_removed_detail := cm_removed_detail d @ [build_file_record env path l]\<rparr>))
      | (Some (_, Some l), Some (_, None)) \<Rightarrow> Inl (unreadable path)
      | (Some (_, Some l), Some (_, Some r)) \<Rightarrow>
          (if l = r then Inr d
           else map_sum id (\<lambda>d. d\<lparr>cm_changed := cm_changed d @ [path]\<rparr>)
             (maybe_patch env patches path FileChanged (Some l) (Some r)
                (d\<lparr>cm_changed_detail := cm_changed_detail d @
                   [\<lparr>fc_path = path, fc_baseline = build_file_record env path l, fc_target = build_file_record env path r\<rparr>]\<rparr>)))
      | (None, None) \<Rightarrow> Inr d)"

fun compare_paths ::
  "content_env \<Rightarrow> nat option \<Rightarrow> file_map \<Rightarrow> file_map \<Rightarrow> string list \<Rightarrow> compared \<Rightarrow> string + compared" where
  "compare_paths env patches baseline target [] d = Inr d"
| "compare_paths env patches baseline target (p # ps) d = (case compare_path env patches baseline target p d of
     Inl err \<Rightarrow> Inl err | Inr d \<Rightarrow> compare_paths env patches baseline target ps d)"

section \<open>Install hooks and repository commits\<close>

text \<open>\<open>Ok(None)\<close> when the file is missing, an error when it cannot be read or parsed.\<close>

definition parse_file :: "content_env \<Rightarrow> string \<Rightarrow> string option \<Rightarrow> string + json option" where
  "parse_file env path bytes = (case bytes of None \<Rightarrow> Inl (unreadable path)
     | Some b \<Rightarrow> (case cn_parse_json env b of None \<Rightarrow> Inl (''failed to parse '' @ path) | Some v \<Rightarrow> Inr (Some v)))"

definition read_json_file_from_map :: "content_env \<Rightarrow> file_map \<Rightarrow> string \<Rightarrow> string + json option" where
  "read_json_file_from_map env files path = (case map_of files path of
     None \<Rightarrow> Inr None | Some (_, bytes) \<Rightarrow> parse_file env path bytes)"

definition read_json_file_by_suffix_from_map :: "content_env \<Rightarrow> file_map \<Rightarrow> string \<Rightarrow> string + json option" where
  "read_json_file_by_suffix_from_map env files name =
     (case read_json_file_from_map env files name of
        Inl err \<Rightarrow> Inl err
      | Inr (Some v) \<Rightarrow> Inr (Some v)
      | Inr None \<Rightarrow>
          (case find (\<lambda>(path, comps, _). path = name \<or> ends_with path (''/'' @ name)
                       \<or> (comps \<noteq> [] \<and> last comps = name)) files of
             None \<Rightarrow> Inr None
           | Some (path, _, bytes) \<Rightarrow> parse_file env path bytes))"

definition crate_vcs_commit_from_value :: "json \<Rightarrow> string option" where
  "crate_vcs_commit_from_value v = Option.bind (json_pointer v [''git'', ''sha1'']) as_str"

definition derive_crate_repository_commit_diff ::
  "content_env \<Rightarrow> file_map \<Rightarrow> file_map \<Rightarrow> string + crate_repository_commit_diff option" where
  "derive_crate_repository_commit_diff env baseline target =
     (case read_json_file_by_suffix_from_map env baseline ''.cargo_vcs_info.json'' of
        Inl err \<Rightarrow> Inl err
      | Inr b \<Rightarrow>
        (case read_json_file_by_suffix_from_map env target ''.cargo_vcs_info.json'' of
           Inl err \<Rightarrow> Inl err
         | Inr t \<Rightarrow>
           (let bc = Option.bind b crate_vcs_commit_from_value; tc = Option.bind t crate_vcs_commit_from_value in
            if bc = None \<and> tc = None then Inr None
            else Inr (Some \<lparr>xc_baseline_commit = bc, xc_target_commit = tc, xc_commit_changed = (bc \<noteq> tc)\<rparr>))))"

text \<open>\<open>str::trim_matches\<close> and \<open>trim_start_matches\<close>.\<close>

definition script_quotes :: "string" where
  "script_quotes = [CHR 0x22, CHR 0x27, CHR 0x60, CHR '';'', CHR '','', CHR ''('', CHR '')'', CHR ''['', CHR '']'']"

definition trim_matches :: "char list \<Rightarrow> string \<Rightarrow> string" where
  "trim_matches cs s = rev (dropWhile (\<lambda>c. c \<in> set cs) (rev (dropWhile (\<lambda>c. c \<in> set cs) s)))"

function trim_start_matches :: "string \<Rightarrow> string \<Rightarrow> string" where
  "trim_start_matches p s = (if p \<noteq> [] \<and> starts_with s p then trim_start_matches p (drop (length p) s) else s)"
  by pat_completeness auto
termination
  by (relation "measure (\<lambda>(p, s). length s)") (auto simp: starts_with_prefix prefix_def)

declare trim_start_matches.simps [simp del]

definition looks_like_local_script_path :: "string \<Rightarrow> bool" where
  "looks_like_local_script_path path \<longleftrightarrow> (CHR ''/'' \<in> set path \<or> CHR ''.'' \<in> set path)
     \<and> list_ex (ends_with path) [''.js'', ''.mjs'', ''.cjs'', ''.ts'', ''.mts'', ''.cts'', ''.sh'', ''.bash'', ''.zsh'', ''.ps1'', ''.py'']"

definition script_token_ref :: "string \<Rightarrow> string option" where
  "script_token_ref token =
     (let t = trim_matches script_quotes token in
      if t = [] \<or> starts_with t ''-'' \<or> str_contains t ''://'' \<or> starts_with t ''$'' \<or> str_contains t ''${'' then None
      else let n = map (\<lambda>c. if c = CHR 0x5C then CHR ''/'' else c)
             (trim_start_matches [CHR ''.'', CHR 0x5C] (trim_start_matches ''./'' t)) in
        if looks_like_local_script_path n then Some n else None)"

definition install_script_file_refs :: "(string \<times> string) list \<Rightarrow> (string \<times> string) list \<Rightarrow> string list" where
  "install_script_file_refs baseline target =
     btree_set (concat (map (\<lambda>script. List.map_filter script_token_ref (split_whitespace script))
       (map snd baseline @ map snd target)))"

definition derive_npm_install_hook_diff ::
  "content_env \<Rightarrow> file_map \<Rightarrow> file_map \<Rightarrow> compared \<Rightarrow> string + npm_install_hook_diff option" where
  "derive_npm_install_hook_diff env baseline target d =
     (case read_json_file_from_map env baseline ''package.json'' of
        Inl err \<Rightarrow> Inl err
      | Inr b \<Rightarrow>
        (case read_json_file_from_map env target ''package.json'' of
           Inl err \<Rightarrow> Inl err
         | Inr t \<Rightarrow>
           (if b = None \<and> t = None then Inr None
            else let bs = (case b of Some v \<Rightarrow> npm_install_scripts v | None \<Rightarrow> []);
                     ts = (case t of Some v \<Rightarrow> npm_install_scripts v | None \<Rightarrow> []);
                     refs = install_script_file_refs bs ts;
                     touched = set (cm_added d) \<union> set (cm_removed d) \<union> set (cm_changed d);
                     refs_changed = filter (\<lambda>r. r \<in> touched) refs;
                     scripts_changed = (bs \<noteq> ts); hook_changed = (refs_changed \<noteq> []);
                     effective = (scripts_changed \<or> hook_changed)
                 in Inr (Some \<lparr>ih_baseline_has_install_scripts = (bs \<noteq> []), ih_target_has_install_scripts = (ts \<noteq> []),
                      ih_scripts_changed = scripts_changed, ih_hook_files_changed = hook_changed,
                      ih_effective_changed = effective,
                      ih_longstanding_unchanged = (ts \<noteq> [] \<and> bs \<noteq> [] \<and> \<not> effective),
                      ih_baseline_scripts = bs, ih_target_scripts = ts, ih_referenced_files = refs,
                      ih_referenced_files_changed = refs_changed\<rparr>))))"

definition compare_extracted_dirs ::
  "content_env \<Rightarrow> nat option \<Rightarrow> extracted \<Rightarrow> extracted
   \<Rightarrow> string + compared \<times> npm_install_hook_diff option \<times> crate_repository_commit_diff option" where
  "compare_extracted_dirs env patches baseline target =
     (let b = collect_files baseline; t = collect_files target in
      case compare_paths env patches b t (key_union b t) compared_empty of
        Inl err \<Rightarrow> Inl err
      | Inr d \<Rightarrow> (case derive_npm_install_hook_diff env b t d of
          Inl err \<Rightarrow> Inl err
        | Inr hook \<Rightarrow> (case derive_crate_repository_commit_diff env b t of
            Inl err \<Rightarrow> Inl err
          | Inr commit \<Rightarrow> Inr (d, hook, commit))))"

section \<open>What a comparison finds\<close>

abbreviation present :: "file_map \<Rightarrow> string \<Rightarrow> bool" where
  "present m p \<equiv> map_of m p \<noteq> None"

abbreviation bytes_at :: "file_map \<Rightarrow> string \<Rightarrow> string option option" where
  "bytes_at m p \<equiv> map_option snd (map_of m p)"

definition only_in :: "file_map \<Rightarrow> file_map \<Rightarrow> string \<Rightarrow> bool" where
  "only_in m other p \<longleftrightarrow> present m p \<and> \<not> present other p"

definition differs_in :: "file_map \<Rightarrow> file_map \<Rightarrow> string \<Rightarrow> bool" where
  "differs_in b t p \<longleftrightarrow> present b p \<and> present t p \<and> bytes_at b p \<noteq> bytes_at t p"

text \<open>The lists of a comparison agree with its details.\<close>

definition details_match :: "compared \<Rightarrow> bool" where
  "details_match d \<longleftrightarrow> map fr_path (cm_added_detail d) = cm_added d \<and> map fr_path (cm_removed_detail d) = cm_removed d
     \<and> map fc_path (cm_changed_detail d) = cm_changed d"

lemma maybe_patch_ok:
  "maybe_patch env patches path change l r d = Inr d'
   \<Longrightarrow> cm_added d' = cm_added d \<and> cm_removed d' = cm_removed d \<and> cm_changed d' = cm_changed d
     \<and> cm_added_detail d' = cm_added_detail d \<and> cm_removed_detail d' = cm_removed_detail d
     \<and> cm_changed_detail d' = cm_changed_detail d"
  by (auto simp: maybe_patch_def split: option.splits sum.splits)

lemma map_sum_id_Inr: "map_sum id f r = Inr y \<longleftrightarrow> (\<exists>x. r = Inr x \<and> y = f x)"
  by (cases r) auto

lemma compare_path_ok:
  assumes "compare_path env patches b t p d = Inr d'"
  shows "cm_added d' = cm_added d @ (if only_in t b p then [p] else [])"
    "cm_removed d' = cm_removed d @ (if only_in b t p then [p] else [])"
    "cm_changed d' = cm_changed d @ (if differs_in b t p then [p] else [])"
    "details_match d \<Longrightarrow> details_match d'"
  using assms
  by (auto simp: compare_path_def only_in_def differs_in_def details_match_def map_sum_id_Inr build_file_record_def
      split: option.splits prod.splits if_splits dest!: maybe_patch_ok)

lemma compare_paths_ok:
  assumes "compare_paths env patches b t ps d = Inr d'"
  shows "cm_added d' = cm_added d @ filter (only_in t b) ps"
    "cm_removed d' = cm_removed d @ filter (only_in b t) ps"
    "cm_changed d' = cm_changed d @ filter (differs_in b t) ps"
    "details_match d \<Longrightarrow> details_match d'"
  using assms
proof (induction env patches b t ps d rule: compare_paths.induct)
  case (2 env patches b t p ps d)
  { case 1
    then show ?case
      using 2(1) by (auto split: sum.splits dest!: compare_path_ok(1))
  next
    case 2
    then show ?case
      using "2.IH"(2) by (auto split: sum.splits dest!: compare_path_ok(2))
  next
    case 3
    then show ?case
      using "2.IH"(3) by (auto split: sum.splits dest!: compare_path_ok(3))
  next
    case 4
    then show ?case
      using "2.IH"(4) by (auto split: sum.splits dest: compare_path_ok(4))
  }
qed simp_all

lemma key_union_props [simp]:
  "sorted (key_union a b)" "distinct (key_union a b)" "set (key_union a b) = set (keys a) \<union> set (keys b)"
  by (simp_all add: key_union_def)

lemma present_keys: "present m p \<longleftrightarrow> p \<in> set (keys m)"
  by (metis map_of_eq_None_iff list.set_map)

lemma key_union_commute: "key_union a b = key_union b a"
  unfolding key_union_def by (rule btree_set_eq) auto

lemma compare_extracted_ok:
  assumes "compare_extracted_dirs env patches baseline target = Inr (d, hook, commit)"
  shows "cm_added d = filter (only_in (collect_files target) (collect_files baseline)) (key_union (collect_files baseline) (collect_files target))"
    "cm_removed d = filter (only_in (collect_files baseline) (collect_files target)) (key_union (collect_files baseline) (collect_files target))"
    "cm_changed d = filter (differs_in (collect_files baseline) (collect_files target)) (key_union (collect_files baseline) (collect_files target))"
    "details_match d"
proof -
  have c: "compare_paths env patches (collect_files baseline) (collect_files target)
      (key_union (collect_files baseline) (collect_files target)) compared_empty = Inr d"
    using assms by (auto simp: compare_extracted_dirs_def Let_def split: sum.splits)
  show "cm_added d = filter (only_in (collect_files target) (collect_files baseline)) (key_union (collect_files baseline) (collect_files target))"
    "cm_removed d = filter (only_in (collect_files baseline) (collect_files target)) (key_union (collect_files baseline) (collect_files target))"
    "cm_changed d = filter (differs_in (collect_files baseline) (collect_files target)) (key_union (collect_files baseline) (collect_files target))"
    "details_match d"
    using compare_paths_ok [OF c] by (simp_all add: compared_empty_def details_match_def)
qed

text \<open>Swapping the two archives swaps additions and removals.\<close>

lemma differs_in_commute: "differs_in b t = differs_in t b"
  by (rule ext) (auto simp: differs_in_def)

lemma compare_swapped:
  assumes "compare_extracted_dirs env patches baseline target = Inr (d, hook, commit)"
    "compare_extracted_dirs env' patches' target baseline = Inr (d', hook', commit')"
  shows "cm_added d' = cm_removed d \<and> cm_removed d' = cm_added d \<and> cm_changed d' = cm_changed d"
  using compare_extracted_ok [OF assms(1)] compare_extracted_ok [OF assms(2)]
  by (simp add: key_union_commute [of "collect_files target"] differs_in_commute [of "collect_files target"])

end
