(* ===== verification/Diff.thy ===== *)
theory Diff
  imports Diff_Content History
begin

text \<open>
  The release diff of \<open>diff.rs\<close>: which two releases are compared (from the history, or local archive files),
  the four parts of the diff, and the stored diff of a release against its predecessor.  The environment
  answers for the file system, the downloads, the archive tools and the clock.
\<close>

section \<open>Environment\<close>

record digests =
  dg_size_bytes :: nat
  dg_sha256 :: string
  dg_sha512 :: string

datatype artifact_source = SourceUrl string | SourceLocal string

text \<open>The steps of a content diff that can fail with a message.\<close>

datatype content_step = TempDir | BaselineDir | TargetDir

record diff_files =
  dn_is_file :: "string \<Rightarrow> bool"
  dn_is_dir :: "string \<Rightarrow> bool"
  dn_exists :: "string \<Rightarrow> bool"
  dn_digests :: "string \<Rightarrow> string + digests"
  dn_content :: content_env
  dn_step :: "content_step \<Rightarrow> string + unit"
  dn_fetch :: "artifact_source \<Rightarrow> string + string"
  dn_extract :: "artifact_kind \<Rightarrow> string \<Rightarrow> string + extracted"
  dn_archive_digests :: "string \<Rightarrow> string + digests"
  dn_now :: datetime

text \<open>\<open>dn_fetch\<close> gives the bytes of an archive, \<open>dn_extract\<close> the files in them.\<close>

section \<open>Inputs\<close>

record release_diff_input =
  di_entry :: history_entry
  di_artifact_path :: "string option"
  di_history_lookup_version :: "string option"

definition is_absolute :: "string \<Rightarrow> bool" where
  "is_absolute p = starts_with p ''/''"

definition history_input :: "diff_files \<Rightarrow> history_entry \<Rightarrow> release_diff_input" where
  "history_input fs h =
     (let path = Option.bind (he_capture h) (\<lambda>cap. Option.bind (capture_local_artifact_path cap) (\<lambda>recorded.
            Option.bind (if is_absolute recorded then Some recorded
                else map_option (\<lambda>dir. path_join dir recorded) (he_capture_dir h)) (\<lambda>resolved.
              if dn_is_file fs resolved then Some resolved else None)))
      in \<lparr>di_entry = h, di_artifact_path = path, di_history_lookup_version = Some (ev_version (he_event h))\<rparr>)"

definition release_index :: "history_entry list \<Rightarrow> string \<Rightarrow> string + nat" where
  "release_index hs version = (case release_position hs version of
     None \<Rightarrow> Inl (''version not found: '' @ version) | Some i \<Rightarrow> Inr i)"

definition baseline_index :: "history_entry list \<Rightarrow> nat \<Rightarrow> string \<Rightarrow> string \<Rightarrow> string + nat" where
  "baseline_index hs target_idx target_version selector =
     (if selector = ''previous'' then
        (case target_idx of 0 \<Rightarrow> Inl (''no previous release exists before '' @ target_version) | Suc i \<Rightarrow> Inr i)
      else case release_index hs selector of
        Inl err \<Rightarrow> Inl err
      | Inr i \<Rightarrow> if i = target_idx then Inl (''baseline version matches target version: '' @ target_version) else Inr i)"

section \<open>Versions in file names\<close>

definition strip_archive_extension :: "string \<Rightarrow> string option" where
  "strip_archive_extension filename = (let c = canonical_or_self filename in
     case List.map_filter (strip_suffix c) archive_suffixes of [] \<Rightarrow> None | s # _ \<Rightarrow> Some s)"

definition find_stem :: "string \<Rightarrow> string list \<Rightarrow> string option" where
  "find_stem stem candidates =
     (case List.map_filter (\<lambda>c. strip_prefix stem (c @ ''-'')) candidates of [] \<Rightarrow> None | r # _ \<Rightarrow> Some r)"

definition infer_dash_version_with_candidates :: "string \<Rightarrow> string list \<Rightarrow> string option" where
  "infer_dash_version_with_candidates filename candidates =
     Option.bind (strip_archive_extension filename) (\<lambda>stem. find_stem stem candidates)"

definition infer_dash_version :: "string \<Rightarrow> string \<Rightarrow> string option" where
  "infer_dash_version package filename = infer_dash_version_with_candidates filename [package, slash_to_dash package]"

fun collapse_separators :: "char \<Rightarrow> bool \<Rightarrow> string \<Rightarrow> string" where
  "collapse_separators sep prev [] = []"
| "collapse_separators sep prev (c # s) =
     (if c \<in> {CHR ''-'', CHR ''_'', CHR ''.''}
      then (if prev then collapse_separators sep True s else sep # collapse_separators sep True s)
      else c # collapse_separators sep False s)"

definition normalize_distribution :: "string \<Rightarrow> char \<Rightarrow> string" where
  "normalize_distribution package sep = collapse_separators sep False package"

definition pypi_distribution_candidates :: "string \<Rightarrow> string list" where
  "pypi_distribution_candidates package = rev (fold (\<lambda>c cs. if c \<in> set cs then cs else c # cs)
     [package, map (\<lambda>c. if c = CHR ''-'' then CHR ''_'' else c) package,
      map (\<lambda>c. if c = CHR ''.'' then CHR ''_'' else c) package,
      normalize_distribution package (CHR ''-''), normalize_distribution package (CHR ''_'')] [])"

definition infer_pypi_version :: "string \<Rightarrow> string \<Rightarrow> string option" where
  "infer_pypi_version package filename =
     (let candidates = pypi_distribution_candidates package; canonical = canonical_or_self filename in
      case Option.bind (strip_suffix canonical ''.whl'') (\<lambda>stem. find_stem stem candidates) of
        Some rest \<Rightarrow> Some (hd (split_char (CHR ''-'') rest))
      | None \<Rightarrow> infer_dash_version_with_candidates canonical candidates)"

definition infer_version_from_filename :: "ecosystem \<Rightarrow> string \<Rightarrow> string \<Rightarrow> string option" where
  "infer_version_from_filename eco package filename = (case eco of
     Pypi \<Rightarrow> infer_pypi_version package filename | _ \<Rightarrow> infer_dash_version package filename)"

definition local_version_label :: "string \<Rightarrow> string" where
  "local_version_label filename = (case strip_archive_extension filename of Some s \<Rightarrow> s | None \<Rightarrow> filename)"

definition infer_local_artifact_kind :: "string \<Rightarrow> string option" where
  "infer_local_artifact_kind filename = map_option (\<lambda>k. case k of
     NpmTarball \<Rightarrow> ''npm-tarball'' | CrateTarball \<Rightarrow> ''crate'' | TarGz \<Rightarrow> ''sdist'' | Wheel \<Rightarrow> ''bdist_wheel'' | Zip \<Rightarrow> ''zip'')
     (classify_filename filename)"

definition local_entry :: "datetime \<Rightarrow> ecosystem \<Rightarrow> string \<Rightarrow> string \<Rightarrow> string \<Rightarrow> string \<Rightarrow> digests \<Rightarrow> history_entry" where
  "local_entry now eco package version filename path dg =
     (let event_id = ''local:'' @ ecosystem_as_str eco @ '':'' @ package @ ''@'' @ version in
      \<lparr>he_event = \<lparr>ev_event_id = event_id, ev_ecosystem = eco, ev_package = package, ev_version = version,
         ev_published_at = None, ev_observed_at = now, ev_source = ''local.artifact'', ev_sequence = None,
         ev_package_url = None, ev_release_url = None, ev_metadata_url = None, ev_priority = None\<rparr>,
       he_capture = Some \<lparr>ca_event_id = event_id, ca_ecosystem = eco, ca_package = package, ca_version = version,
         ca_observed_at = now, ca_published_at = None, ca_captured_at = now, ca_status = Unknown,
         ca_package_url = None, ca_release_url = None, ca_metadata_url = None, ca_raw_metadata_path = None,
         ca_artifacts = [\<lparr>ar_filename = filename, ar_kind = infer_local_artifact_kind filename, ar_url = None,
           ar_size_bytes = Some (dg_size_bytes dg), ar_uploaded_at = None, ar_yanked = None,
           ar_hashes = hashes_default\<lparr>ah_sha256 := Some (dg_sha256 dg), ah_sha512 := Some (dg_sha512 dg)\<rparr>,
           ar_provenance_path = None\<rparr>],
         ca_upstream_repository = None,
         ca_details = JObject [(''local_artifact'', JObject [(''path'', JString path), (''sha256'', JString (dg_sha256 dg)),
           (''sha512'', JString (dg_sha512 dg)), (''size_bytes'', JNumber (PosInt (dg_size_bytes dg)))])]\<rparr>,
       he_capture_dir = None\<rparr>)"

definition synthesize_local_input ::
  "diff_files \<Rightarrow> ecosystem \<Rightarrow> string \<Rightarrow> string option \<Rightarrow> string \<Rightarrow> string + release_diff_input" where
  "synthesize_local_input fs eco package explicit_version path =
     (if \<not> dn_exists fs path then Inl (''local artifact does not exist: '' @ path)
      else if dn_is_dir fs path then Inl (''local artifact path must be a file, not a directory: '' @ path)
      else case path_file_name path of
        None \<Rightarrow> Inl (''failed to determine artifact filename for '' @ path)
      | Some filename \<Rightarrow>
          (let lookup = (case explicit_version of Some v \<Rightarrow> Some v | None \<Rightarrow> infer_version_from_filename eco package filename);
               display = (case lookup of Some v \<Rightarrow> v | None \<Rightarrow> local_version_label filename)
           in case dn_digests fs path of
             Inl err \<Rightarrow> Inl err
           | Inr dg \<Rightarrow> Inr \<lparr>di_entry = local_entry (dn_now fs) eco package display filename path dg,
               di_artifact_path = Some path, di_history_lookup_version = lookup\<rparr>))"

section \<open>Resolving a request\<close>

definition resolve_target_input ::
  "diff_files \<Rightarrow> ecosystem \<Rightarrow> string \<Rightarrow> string option \<Rightarrow> string option \<Rightarrow> history_entry list option \<Rightarrow> string + release_diff_input" where
  "resolve_target_input fs eco package target_version artifact entries =
     (case artifact of
        Some path \<Rightarrow> synthesize_local_input fs eco package target_version path
      | None \<Rightarrow> (case target_version of
          None \<Rightarrow> Inl ''target version is required unless --artifact is provided''
        | Some v \<Rightarrow> (case entries of
            None \<Rightarrow> Inl ''history is required to resolve the target release''
          | Some hs \<Rightarrow> (case release_index hs v of Inl err \<Rightarrow> Inl err | Inr i \<Rightarrow> Inr (history_input fs (hs ! i))))))"

definition resolve_baseline_input ::
  "diff_files \<Rightarrow> ecosystem \<Rightarrow> string \<Rightarrow> string option \<Rightarrow> string option \<Rightarrow> history_entry list option \<Rightarrow> release_diff_input \<Rightarrow> string + release_diff_input" where
  "resolve_baseline_input fs eco package selector artifact entries target =
     (case artifact of
        Some path \<Rightarrow> synthesize_local_input fs eco package (if selector = Some ''previous'' then None else selector) path
      | None \<Rightarrow> (case entries of
          None \<Rightarrow> Inl ''history is required to resolve the baseline release''
        | Some hs \<Rightarrow>
            (let sel = (case selector of Some x \<Rightarrow> x | None \<Rightarrow> ''previous'');
                 idx = (if sel = ''previous''
                   then (case di_history_lookup_version target of
                       None \<Rightarrow> Inl ''target version is required to resolve --baseline previous when using --artifact''
                     | Some v \<Rightarrow> (case release_index hs v of Inl err \<Rightarrow> Inl err | Inr i \<Rightarrow> baseline_index hs i v sel))
                   else (case release_index hs sel of
                       Inl err \<Rightarrow> Inl err
                     | Inr i \<Rightarrow> if di_history_lookup_version target = Some sel
                         then Inl (''baseline version matches target version: '' @ sel) else Inr i))
             in case idx of Inl err \<Rightarrow> Inl err | Inr i \<Rightarrow> Inr (history_input fs (hs ! i)))))"

section \<open>The content diff\<close>

definition artifact_source :: "captured_artifact \<Rightarrow> string option \<Rightarrow> artifact_source option" where
  "artifact_source a local_path = (case local_path of Some p \<Rightarrow> Some (SourceLocal p) | None \<Rightarrow> map_option SourceUrl (ar_url a))"

definition unavailable_content_diff :: "string \<Rightarrow> content_diff" where
  "unavailable_content_diff reason = \<lparr>cd_available = False, cd_reason = Some reason, cd_artifact_kind = None,
     cd_baseline_artifact = None, cd_target_artifact = None, cd_patches_included = False, cd_patch_context = None,
     cd_files_added_count = 0, cd_files_removed_count = 0, cd_files_changed_count = 0,
     cd_files_added = [], cd_files_removed = [], cd_files_changed = [], cd_files_added_detail = [],
     cd_files_removed_detail = [], cd_files_changed_detail = [], cd_file_patches = [],
     cd_npm_install_hook = None, cd_crate_repository_commit = None\<rparr>"

text \<open>The registry's hashes are kept; the archive is hashed when it is local or nothing is known of it.\<close>

definition artifact_ref_of :: "diff_files \<Rightarrow> captured_artifact \<Rightarrow> string option \<Rightarrow> string \<Rightarrow> string + artifact_ref" where
  "artifact_ref_of fs a local_path archive =
     (let must_hash = (local_path \<noteq> None \<or> (ar_size_bytes a = None \<and> hashes_is_empty (ar_hashes a)));
          ref = (\<lambda>size hashes. \<lparr>af_filename = ar_filename a, af_kind = ar_kind a, af_url = ar_url a, af_path = local_path,
            af_size_bytes = size, af_uploaded_at = ar_uploaded_at a, af_yanked = ar_yanked a, af_hashes = hashes,
            af_provenance_path = ar_provenance_path a\<rparr>)
      in if must_hash
         then (case dn_archive_digests fs archive of
             Inl err \<Rightarrow> Inl err
           | Inr dg \<Rightarrow> Inr (ref (or_else (ar_size_bytes a) (Some (dg_size_bytes dg)))
               ((ar_hashes a)\<lparr>ah_sha256 := or_else (ah_sha256 (ar_hashes a)) (Some (dg_sha256 dg)),
                              ah_sha512 := or_else (ah_sha512 (ar_hashes a)) (Some (dg_sha512 dg))\<rparr>)))
         else Inr (ref (ar_size_bytes a) (ar_hashes a)))"

definition or_unavailable :: "string \<Rightarrow> string + 'a \<Rightarrow> ('a \<Rightarrow> content_diff) \<Rightarrow> content_diff" where
  "or_unavailable what r k = (case r of Inl err \<Rightarrow> unavailable_content_diff (what @ err) | Inr x \<Rightarrow> k x)"

definition content_diff_of ::
  "artifact_kind \<Rightarrow> artifact_ref \<Rightarrow> artifact_ref \<Rightarrow> bool \<Rightarrow> nat
   \<Rightarrow> compared \<times> npm_install_hook_diff option \<times> crate_repository_commit_diff option \<Rightarrow> content_diff" where
  "content_diff_of kind b_ref t_ref patches n r = (case r of (d, hook, commit) \<Rightarrow>
     \<lparr>cd_available = True, cd_reason = None, cd_artifact_kind = Some (kind_label kind),
      cd_baseline_artifact = Some b_ref, cd_target_artifact = Some t_ref, cd_patches_included = patches,
      cd_patch_context = (if patches then Some n else None),
      cd_files_added_count = length (cm_added d), cd_files_removed_count = length (cm_removed d),
      cd_files_changed_count = length (cm_changed d),
      cd_files_added = cm_added d, cd_files_removed = cm_removed d, cd_files_changed = cm_changed d,
      cd_files_added_detail = cm_added_detail d, cd_files_removed_detail = cm_removed_detail d,
      cd_files_changed_detail = cm_changed_detail d, cd_file_patches = cm_patches d,
      cd_npm_install_hook = hook, cd_crate_repository_commit = commit\<rparr>)"

definition compare_artifacts ::
  "diff_files \<Rightarrow> captured_artifact \<Rightarrow> captured_artifact \<Rightarrow> artifact_kind \<Rightarrow> artifact_source \<Rightarrow> artifact_source
   \<Rightarrow> string option \<Rightarrow> string option \<Rightarrow> bool \<Rightarrow> nat \<Rightarrow> content_diff" where
  "compare_artifacts fs b_art t_art kind b_src t_src b_path t_path patches n =
     or_unavailable ''failed to create temp dir: '' (dn_step fs TempDir) (\<lambda>_.
     or_unavailable ''failed to create baseline extract dir: '' (dn_step fs BaselineDir) (\<lambda>_.
     or_unavailable ''failed to create target extract dir: '' (dn_step fs TargetDir) (\<lambda>_.
     or_unavailable ''failed to fetch baseline artifact: '' (dn_fetch fs b_src) (\<lambda>b_archive.
     or_unavailable ''failed to fetch target artifact: '' (dn_fetch fs t_src) (\<lambda>t_archive.
     or_unavailable ''failed to extract baseline artifact: '' (dn_extract fs kind b_archive) (\<lambda>b_files.
     or_unavailable ''failed to extract target artifact: '' (dn_extract fs kind t_archive) (\<lambda>t_files.
     or_unavailable ''failed to inspect baseline artifact: '' (artifact_ref_of fs b_art b_path b_archive) (\<lambda>b_ref.
     or_unavailable ''failed to inspect target artifact: '' (artifact_ref_of fs t_art t_path t_archive) (\<lambda>t_ref.
     or_unavailable ''failed to compare extracted content: ''
       (compare_extracted_dirs (dn_content fs) (if patches then Some n else None) b_files t_files)
       (content_diff_of kind b_ref t_ref patches n))))))))))"

definition build_content_diff ::
  "diff_files \<Rightarrow> captured_release option \<Rightarrow> captured_release option \<Rightarrow> string option \<Rightarrow> string option \<Rightarrow> bool \<Rightarrow> nat \<Rightarrow> content_diff" where
  "build_content_diff fs target baseline t_path b_path patches n =
     (case target of None \<Rightarrow> unavailable_content_diff ''target capture is unavailable''
      | Some t \<Rightarrow> (case baseline of None \<Rightarrow> unavailable_content_diff ''baseline capture is unavailable''
      | Some b \<Rightarrow> (case select_artifact_pair b t of
          None \<Rightarrow> unavailable_content_diff ''no comparable artifact pair was found''
        | Some (b_art, t_art, kind) \<Rightarrow>
          (case artifact_source b_art b_path of
             None \<Rightarrow> unavailable_content_diff ''baseline artifact source is unavailable''
           | Some b_src \<Rightarrow> (case artifact_source t_art t_path of
               None \<Rightarrow> unavailable_content_diff ''target artifact source is unavailable''
             | Some t_src \<Rightarrow> compare_artifacts fs b_art t_art kind b_src t_src b_path t_path patches n)))))"

definition build_notes :: "release_diff_input \<Rightarrow> release_diff_input \<Rightarrow> content_diff \<Rightarrow> string list" where
  "build_notes target baseline content =
     (if he_capture (di_entry target) = None then [''target release has no capture data''] else [])
     @ (if he_capture (di_entry baseline) = None then [''baseline release has no capture data''] else [])
     @ (case di_artifact_path target of Some p \<Rightarrow> [''target artifact source: '' @ p] | None \<Rightarrow> [])
     @ (case di_artifact_path baseline of Some p \<Rightarrow> [''baseline artifact source: '' @ p] | None \<Rightarrow> [])
     @ (if \<not> cd_available content then (case cd_reason content of Some r \<Rightarrow> [''content diff unavailable: '' @ r] | None \<Rightarrow> []) else [])"

section \<open>Release diffs\<close>

definition build_release_diff_from_inputs :: "diff_files \<Rightarrow> release_diff_input \<Rightarrow> release_diff_input \<Rightarrow> bool \<Rightarrow> nat \<Rightarrow> release_diff" where
  "build_release_diff_from_inputs fs target baseline patches n =
     (let te = di_entry target; be = di_entry baseline;
          content = build_content_diff fs (he_capture te) (he_capture be) (di_artifact_path target) (di_artifact_path baseline) patches n
      in \<lparr>rd_ecosystem = ev_ecosystem (he_event te), rd_package = ev_package (he_event te),
          rd_baseline_event_id = ev_event_id (he_event be), rd_target_event_id = ev_event_id (he_event te),
          rd_baseline_version = ev_version (he_event be), rd_target_version = ev_version (he_event te),
          rd_generated_at = dn_now fs,
          rd_status = build_status_diff (he_capture te) (he_capture be),
          rd_artifacts = build_artifact_diff (he_capture te) (he_capture be),
          rd_details = build_details_diff (he_capture te) (he_capture be),
          rd_content = content, rd_notes = build_notes target baseline content\<rparr>)"

record diff_load_request =
  rq_ecosystem :: ecosystem
  rq_package :: string
  rq_target_version :: "string option"
  rq_baseline_selector :: "string option"
  rq_online :: bool
  rq_target_artifact :: "string option"
  rq_baseline_artifact :: "string option"
  rq_include_patches :: bool
  rq_patch_context :: nat

text \<open>The history is loaded only when one side needs it.\<close>

definition load_release_diff ::
  "diff_files \<Rightarrow> (string + history_entry list) \<Rightarrow> (string + history_entry list) \<Rightarrow> diff_load_request \<Rightarrow> string + release_diff" where
  "load_release_diff fs locals onlines rq =
     (case (if rq_target_artifact rq = None \<or> rq_baseline_artifact rq = None
            then map_sum id (\<lambda>hs. Some (dedupe_history_entries hs)) (if rq_online rq then onlines else locals)
            else Inr None) of
        Inl err \<Rightarrow> Inl err
      | Inr entries \<Rightarrow>
        (case resolve_target_input fs (rq_ecosystem rq) (rq_package rq) (rq_target_version rq) (rq_target_artifact rq) entries of
           Inl err \<Rightarrow> Inl err
         | Inr target \<Rightarrow>
           (case resolve_baseline_input fs (rq_ecosystem rq) (rq_package rq) (rq_baseline_selector rq) (rq_baseline_artifact rq) entries target of
              Inl err \<Rightarrow> Inl err
            | Inr baseline \<Rightarrow> Inr (build_release_diff_from_inputs fs target baseline (rq_include_patches rq) (rq_patch_context rq)))))"

definition build_stored_release_diff ::
  "diff_files \<Rightarrow> (string + history_entry list) \<Rightarrow> string \<Rightarrow> bool \<Rightarrow> nat \<Rightarrow> string + stored_diff" where
  "build_stored_release_diff fs history version patches n =
     (case history of
        Inl err \<Rightarrow> Inl err
      | Inr hs \<Rightarrow>
        (let entries = dedupe_history_entries hs in
         case release_index entries version of
           Inl err \<Rightarrow> Inl err
         | Inr idx \<Rightarrow>
           (let target = history_input fs (entries ! idx); e = he_event (di_entry target);
                stored = \<lparr>st_event_id = ev_event_id e, st_ecosystem = ev_ecosystem e, st_package = ev_package e,
                  st_version = ev_version e, st_generated_at = dn_now fs, st_baseline_event_id = None,
                  st_baseline_version = None, st_status = NoBaseline,
                  st_reason = Some ''first observed release has no previous baseline'', st_diff = None\<rparr>
            in case idx of
              0 \<Rightarrow> Inr stored
            | Suc i \<Rightarrow>
                (let d = build_release_diff_from_inputs fs target (history_input fs (entries ! i)) patches n
                 in Inr (stored\<lparr>st_generated_at := rd_generated_at d, st_baseline_event_id := Some (rd_baseline_event_id d),
                      st_baseline_version := Some (rd_baseline_version d), st_status := DiffReady, st_reason := None,
                      st_diff := Some d\<rparr>)))))"

section \<open>Well-formed content diffs\<close>

text \<open>What every reader of a content diff relies on: an unavailable one is empty and says why, an available one
  names both artifacts, its counts are the lengths of its lists, its details are the records of its paths, and
  patches are there only when asked for.\<close>

definition content_diff_wf :: "content_diff \<Rightarrow> bool" where
  "content_diff_wf c \<longleftrightarrow>
     cd_files_added_count c = length (cd_files_added c) \<and> cd_files_removed_count c = length (cd_files_removed c)
     \<and> cd_files_changed_count c = length (cd_files_changed c)
     \<and> map fr_path (cd_files_added_detail c) = cd_files_added c \<and> map fr_path (cd_files_removed_detail c) = cd_files_removed c
     \<and> map fc_path (cd_files_changed_detail c) = cd_files_changed c
     \<and> (cd_patch_context c \<noteq> None \<longleftrightarrow> cd_patches_included c) \<and> (cd_patches_included c \<or> cd_file_patches c = [])
     \<and> (if cd_available c then cd_reason c = None \<and> cd_artifact_kind c \<noteq> None \<and> cd_baseline_artifact c \<noteq> None
          \<and> cd_target_artifact c \<noteq> None
        else cd_reason c \<noteq> None \<and> c = unavailable_content_diff (the (cd_reason c)))"

lemma unavailable_wf: "content_diff_wf (unavailable_content_diff r)"
  by (simp add: content_diff_wf_def unavailable_content_diff_def)

lemma or_unavailable_wf: "(\<And>x. r = Inr x \<Longrightarrow> content_diff_wf (k x)) \<Longrightarrow> content_diff_wf (or_unavailable what r k)"
  by (auto simp: or_unavailable_def unavailable_wf split: sum.splits)

lemma no_patches_path: "compare_path env None b t p d = Inr d' \<Longrightarrow> cm_patches d' = cm_patches d"
  by (auto simp: compare_path_def maybe_patch_def map_sum_id_Inr split: option.splits prod.splits if_splits)

lemma no_patches_paths: "compare_paths env None b t ps d = Inr d' \<Longrightarrow> cm_patches d' = cm_patches d"
  by (induction ps arbitrary: d) (auto split: sum.splits dest: no_patches_path)

lemma no_patches: "compare_extracted_dirs env None b t = Inr (d, hook, commit) \<Longrightarrow> cm_patches d = []"
  by (auto simp: compare_extracted_dirs_def Let_def compared_empty_def split: sum.splits dest: no_patches_paths)

lemma content_diff_of_wf:
  assumes "compare_extracted_dirs env (if patches then Some n else None) b t = Inr r"
  shows "content_diff_wf (content_diff_of kind b_ref t_ref patches n r)"
proof -
  obtain d hook commit where r: "r = (d, hook, commit)"
    by (cases r)
  have "details_match d"
    using compare_extracted_ok(4) assms r by blast
  moreover have "patches \<or> cm_patches d = []"
    using no_patches assms r by (auto split: if_splits)
  ultimately show ?thesis
    by (simp add: r content_diff_wf_def content_diff_of_def details_match_def)
qed

lemma compare_artifacts_wf: "content_diff_wf (compare_artifacts fs b_art t_art kind b_src t_src b_path t_path patches n)"
  unfolding compare_artifacts_def by (intro or_unavailable_wf content_diff_of_wf)

section \<open>Which releases are compared\<close>

lemma nth_versions_distinct:
  "i < length hs \<Longrightarrow> j < length hs \<Longrightarrow> distinct (map entry_version hs) \<Longrightarrow> entry_version (hs ! i) = entry_version (hs ! j) \<longleftrightarrow> i = j"
  using nth_eq_iff_index_eq [of "map entry_version hs" i j] by simp

lemma release_index_Inr: "release_index hs v = Inr i \<longleftrightarrow> release_position hs v = Some i"
  by (auto simp: release_index_def split: option.splits)

lemma release_index_ok:
  "v \<in> entry_version ` set hs \<Longrightarrow> \<exists>i. release_index hs v = Inr i"
  using release_position_None [of hs v] by (auto simp: release_index_def split: option.splits)

lemma history_input_entry [simp]: "di_entry (history_input fs h) = h"
  "di_history_lookup_version (history_input fs h) = Some (entry_version h)"
  by (simp_all add: history_input_def Let_def)

lemma build_diff_versions [simp]:
  "rd_baseline_version (build_release_diff_from_inputs fs t b patches n) = entry_version (di_entry b)"
  "rd_target_version (build_release_diff_from_inputs fs t b patches n) = entry_version (di_entry t)"
  by (simp_all add: build_release_diff_from_inputs_def Let_def)

text \<open>The versions a request for two recorded releases can name.\<close>

definition comparable :: "history_entry list \<Rightarrow> string \<Rightarrow> string option \<Rightarrow> bool" where
  "comparable hs v selector \<longleftrightarrow> v \<in> entry_version ` set hs \<and>
     (if selector = None \<or> selector = Some ''previous'' then v \<noteq> entry_version (hd (dedupe_history_entries hs))
      else the selector \<in> entry_version ` set hs \<and> the selector \<noteq> v)"

lemma first_position:
  assumes "release_position hs v = Some i"
  shows "i = 0 \<longleftrightarrow> v = entry_version (hd hs)"
  using release_position_Some [OF assms] by (cases hs) (auto simp: gr0_conv_Suc)

lemma previous_index_Inr:
  assumes "release_position hs v = Some i"
  shows "(\<exists>k. baseline_index hs i v ''previous'' = Inr k) \<longleftrightarrow> v \<noteq> entry_version (hd hs)"
    "baseline_index hs i v ''previous'' = Inr k \<Longrightarrow> distinct (map entry_version hs)
      \<Longrightarrow> entry_version (hs ! k) \<noteq> v"
proof -
  show "(\<exists>k. baseline_index hs i v ''previous'' = Inr k) \<longleftrightarrow> v \<noteq> entry_version (hd hs)"
    using first_position [OF assms] by (cases i) (auto simp: baseline_index_def)
  show "entry_version (hs ! k) \<noteq> v" if "baseline_index hs i v ''previous'' = Inr k" "distinct (map entry_version hs)"
  proof -
    have "i = Suc k"
      using that(1) by (cases i) (auto simp: baseline_index_def)
    then show ?thesis
      using release_position_Some [OF assms] by blast
  qed
qed

lemma resolve_target_recorded:
  "resolve_target_input fs eco package (Some v) None (Some hs) =
     (case release_position hs v of None \<Rightarrow> Inl (''version not found: '' @ v) | Some i \<Rightarrow> Inr (history_input fs (hs ! i)))"
  by (simp add: resolve_target_input_def release_index_def split: option.splits)

lemma resolve_baseline_recorded:
  assumes "release_position hs v = Some i" "distinct (map entry_version hs)"
  shows "(\<exists>b. resolve_baseline_input fs eco package sel None (Some hs) (history_input fs (hs ! i)) = Inr b)
      \<longleftrightarrow> (if sel = None \<or> sel = Some ''previous'' then v \<noteq> entry_version (hd hs)
          else the sel \<in> entry_version ` set hs \<and> the sel \<noteq> v)"
    "resolve_baseline_input fs eco package sel None (Some hs) (history_input fs (hs ! i)) = Inr b
      \<Longrightarrow> entry_version (di_entry b) \<noteq> v"
proof -
  have v: "entry_version (hs ! i) = v" and ri: "release_index hs v = Inr i"
    using release_position_Some [OF assms(1)] assms(1) by (auto simp: release_index_Inr)
  note defs = resolve_baseline_input_def Let_def v ri
  show "(\<exists>b. resolve_baseline_input fs eco package sel None (Some hs) (history_input fs (hs ! i)) = Inr b)
      \<longleftrightarrow> (if sel = None \<or> sel = Some ''previous'' then v \<noteq> entry_version (hd hs)
          else the sel \<in> entry_version ` set hs \<and> the sel \<noteq> v)"
  proof (cases "sel = None \<or> sel = Some ''previous''")
    case True
    then have "(\<exists>b. resolve_baseline_input fs eco package sel None (Some hs) (history_input fs (hs ! i)) = Inr b)
        \<longleftrightarrow> (\<exists>k. baseline_index hs i v ''previous'' = Inr k)"
      by (auto simp: defs split: sum.splits)
    then show ?thesis
      using previous_index_Inr(1) [OF assms(1)] True by simp
  next
    case False
    then obtain s where s: "sel = Some s" "s \<noteq> ''previous''"
      by (cases sel) auto
    have "release_position hs s = None \<longleftrightarrow> s \<notin> entry_version ` set hs"
      by (rule release_position_None)
    then show ?thesis
      using s by (cases "release_position hs s") (auto simp: defs release_index_def)
  qed
  show "entry_version (di_entry b) \<noteq> v"
    if b: "resolve_baseline_input fs eco package sel None (Some hs) (history_input fs (hs ! i)) = Inr b"
  proof (cases "sel = None \<or> sel = Some ''previous''")
    case True
    then obtain k where "baseline_index hs i v ''previous'' = Inr k" "b = history_input fs (hs ! k)"
      using b by (auto simp: defs split: sum.splits)
    then show ?thesis
      using previous_index_Inr(2) [OF assms(1) _ assms(2)] by simp
  next
    case False
    then obtain s where s: "sel = Some s" "s \<noteq> ''previous''"
      by (cases sel) auto
    then obtain k where "release_position hs s = Some k" "s \<noteq> v" "b = history_input fs (hs ! k)"
      using b by (auto simp: defs release_index_def split: option.splits if_splits)
    then show ?thesis
      using release_position_Some by fastforce
  qed
qed

lemma dedupe_image: "entry_version ` set (dedupe_history_entries hs) = entry_version ` set hs"
  using dedupe_versions [of hs] by simp

section \<open>Top-level directories\<close>

lemma keys_fold_update: "fst ` set (fold (\<lambda>(k, v) m. AList.update k v m) kvs m) = fst ` set m \<union> fst ` set kvs"
  by (induction kvs arbitrary: m) (simp_all add: split_beta keys_update [unfolded list.set_map])

lemma keys_btree_map [simp]: "fst ` set (btree_map kvs) = fst ` set kvs"
  by (simp add: btree_map_def keys_fold_update)

lemma no_common_dir:
  assumes "p \<in> set ps" "q \<in> set ps" "p \<noteq> []" "q \<noteq> []" "hd p \<noteq> hd q"
  shows "common_top_level_dir ps = None"
proof -
  let ?tops = "List.map_filter (\<lambda>p. case p of [] \<Rightarrow> None | c # _ \<Rightarrow> Some c) ps"
  have tops: "hd p \<in> set ?tops" "hd q \<in> set ?tops"
    using assms by (force simp: List.map_filter_def image_iff split: list.splits)+
  then obtain f rest where f: "?tops = f # rest"
    by (cases ?tops) auto
  have "\<not> list_all (\<lambda>c. c = f) rest"
  proof
    assume "list_all (\<lambda>c. c = f) rest"
    then have "\<forall>c \<in> set ?tops. c = f"
      by (simp add: f list_all_iff)
    then show False
      using tops assms(5) by metis
  qed
  then show ?thesis
    by (simp add: common_top_level_dir_def f)
qed

lemma collected_unstripped:
  assumes "common_top_level_dir (map fst files) = None"
  shows "set (keys (collect_files files)) = join_slash ` fst ` set files"
  using assms by (simp add: collect_files_def Let_def normalize_relative_path_def image_image split_beta)

lemma only_in_keys: "only_in m other p \<longleftrightarrow> p \<in> set (keys m) - set (keys other)"
  unfolding only_in_def present_keys by blast

lemma differs_in_keys: "differs_in b t p \<Longrightarrow> p \<in> set (keys b) \<union> set (keys t)"
  unfolding differs_in_def present_keys by blast

lemma no_refs: "install_script_file_refs [] [] = []"
  by (simp add: install_script_file_refs_def btree_set_def)

lemma hook_without_target_manifest:
  assumes "map_of t ''package.json'' = None" "derive_npm_install_hook_diff env b t d = Inr (Some hook)"
  shows "\<not> ih_target_has_install_scripts hook \<and> (ih_baseline_has_install_scripts hook \<or> \<not> ih_effective_changed hook)"
  using assms
  by (auto simp: derive_npm_install_hook_diff_def read_json_file_from_map_def Let_def no_refs split: sum.splits option.splits if_splits)

section \<open>Properties\<close>

text \<open>A content diff is always well formed, whatever fails on the way: an unavailable one is empty and gives
  the reason, an available one names both artifacts, counts its lists, has a record for every path, and has
  patches only when they were asked for.\<close>

theorem content_diff_always_well_formed:
  "content_diff_wf (build_content_diff fs target baseline t_path b_path patches n)"
  by (auto simp: build_content_diff_def unavailable_wf compare_artifacts_wf split: option.splits prod.splits)

text \<open>C17: A diff of two recorded releases fails exactly when the history cannot be loaded, no target is named, the
  target or the selected baseline is not in the history, the target is the first release and its
  predecessor is asked for, or the selected baseline is the target itself; and it never compares a release
  with itself.\<close>

theorem diff_request_fails_exactly:
  assumes "rq_target_artifact rq = None" "rq_baseline_artifact rq = None"
  shows "((\<exists>d. load_release_diff fs locals onlines rq = Inr d) \<longleftrightarrow>
      (\<exists>hs v. (if rq_online rq then onlines else locals) = Inr hs \<and> rq_target_version rq = Some v
        \<and> comparable hs v (rq_baseline_selector rq)))
    \<and> list_all (\<lambda>d. rd_baseline_version d \<noteq> rd_target_version d)
        (case load_release_diff fs locals onlines rq of Inl _ \<Rightarrow> [] | Inr d \<Rightarrow> [d])"
proof (cases "if rq_online rq then onlines else locals")
  case (Inl err)
  then show ?thesis
    using assms by (simp add: load_release_diff_def)
next
  case (Inr all)
  let ?hs = "dedupe_history_entries all"
  show ?thesis
  proof (cases "rq_target_version rq")
    case None
    then show ?thesis
      using assms Inr by (simp add: load_release_diff_def resolve_target_input_def)
  next
    case (Some v)
    show ?thesis
    proof (cases "release_position ?hs v")
      case None
      then have "v \<notin> entry_version ` set all"
        using release_position_None [of ?hs v] by (simp add: dedupe_image)
      then show ?thesis
        using assms Inr Some None by (simp add: load_release_diff_def resolve_target_recorded comparable_def)
    next
      case (Some i)
      then have "v \<in> entry_version ` set all"
        using release_position_None [of ?hs v] by (simp add: dedupe_image)
      then show ?thesis
        using assms Inr \<open>rq_target_version rq = Some v\<close> Some
          resolve_baseline_recorded [OF Some dedupe_distinct, of fs "rq_ecosystem rq" "rq_package rq" "rq_baseline_selector rq"]
          release_position_Some [OF Some]
        by (auto simp: load_release_diff_def resolve_target_recorded comparable_def dedupe_image split: sum.splits if_splits)
    qed
  qed
qed

text \<open>A successful comparison of two archives lists, each once and in order, exactly the paths that are only
  in the target, only in the baseline, and in both with different bytes, with one record for each; comparing
  the other way round swaps additions and removals and keeps the changes.\<close>

theorem compared_files_exact:
  assumes "compare_extracted_dirs env patches baseline target = Inr (d, hook, commit)"
    "compare_extracted_dirs env' patches' target baseline = Inr (d', hook', commit')"
  shows "sorted (cm_added d) \<and> sorted (cm_removed d) \<and> sorted (cm_changed d)
    \<and> distinct (cm_added d @ cm_removed d @ cm_changed d)
    \<and> set (cm_added d) = set (keys (collect_files target)) - set (keys (collect_files baseline))
    \<and> set (cm_removed d) = set (keys (collect_files baseline)) - set (keys (collect_files target))
    \<and> set (cm_changed d) = {p. differs_in (collect_files baseline) (collect_files target) p}
    \<and> details_match d
    \<and> cm_added d' = cm_removed d \<and> cm_removed d' = cm_added d \<and> cm_changed d' = cm_changed d"
proof -
  let ?b = "collect_files baseline" and ?t = "collect_files target"
  note ok = compare_extracted_ok [OF assms(1)]
  have "sorted (cm_added d)" "sorted (cm_removed d)" "sorted (cm_changed d)"
    unfolding ok(1,2,3) by (simp_all only: sorted_wrt_filter key_union_props(1))
  moreover have "distinct (cm_added d @ cm_removed d @ cm_changed d)"
    unfolding ok(1,2,3) by (auto simp: only_in_def differs_in_def)
  moreover have "set (cm_added d) = set (keys ?t) - set (keys ?b)" "set (cm_removed d) = set (keys ?b) - set (keys ?t)"
    unfolding ok(1,2) set_filter key_union_props only_in_keys by blast+
  moreover have "set (cm_changed d) = {p. differs_in ?b ?t p}"
    unfolding ok(3) set_filter key_union_props using differs_in_keys by blast
  ultimately show ?thesis
    using ok(4) compare_swapped [OF assms] by blast
qed

text \<open>Archives of an npm package: the target gained an install script, and in the second also a file beside the
  package directory.\<close>

definition demo_content_env :: content_env where
  "demo_content_env = \<lparr>cn_sha256 = (\<lambda>b. ''h'' @ b),
     cn_parse_json = (\<lambda>b. if b = ''evil'' then Some (JObject [(''scripts'', JObject [(''postinstall'', JString ''node x.js'')])])
       else Some (JObject [])),
     cn_unified_diff = (\<lambda>_ _ _ _ _. Inl ''no diff'')\<rparr>"

definition demo_baseline :: extracted where
  "demo_baseline = [([''package'', ''package.json''], Some ''{}''), ([''package'', ''a.js''], Some ''x'')]"

definition demo_target :: extracted where
  "demo_target = [([''package'', ''package.json''], Some ''evil''), ([''package'', ''b.js''], Some ''x'')]"

definition demo_stray_target :: extracted where
  "demo_stray_target = [([''package'', ''package.json''], Some ''evil''), ([''stray''], Some ''x'')]"

lemma demo_compare:
  "\<exists>d hook commit. compare_extracted_dirs demo_content_env None demo_baseline demo_target = Inr (d, hook, commit)"
  "\<exists>d hook commit. compare_extracted_dirs demo_content_env None demo_target demo_baseline = Inr (d, hook, commit)"
proof -
  have "(case compare_extracted_dirs demo_content_env None demo_baseline demo_target of Inr _ \<Rightarrow> True | _ \<Rightarrow> False) = True"
    by code_simp
  then show "\<exists>d hook commit. compare_extracted_dirs demo_content_env None demo_baseline demo_target = Inr (d, hook, commit)"
    by (auto split: sum.splits)
  have "(case compare_extracted_dirs demo_content_env None demo_target demo_baseline of Inr _ \<Rightarrow> True | _ \<Rightarrow> False) = True"
    by code_simp
  then show "\<exists>d hook commit. compare_extracted_dirs demo_content_env None demo_target demo_baseline = Inr (d, hook, commit)"
    by (auto split: sum.splits)
qed

lemma compared_files_exact_witness:
  "\<exists>d hook commit. compare_extracted_dirs demo_content_env None demo_baseline demo_target = Inr (d, hook, commit)
     \<and> set (cm_removed d) = set (keys (collect_files demo_baseline)) - set (keys (collect_files demo_target))"
proof -
  obtain d hook commit d' hook' commit' where
    c: "compare_extracted_dirs demo_content_env None demo_baseline demo_target = Inr (d, hook, commit)"
      "compare_extracted_dirs demo_content_env None demo_target demo_baseline = Inr (d', hook', commit')"
    using demo_compare by metis
  show ?thesis
    using compared_files_exact [OF c] c(1) by blast
qed

text \<open>One file beside the package directory blinds the install-hook diff: when the files of the target do not
  share their top directory, the directory is not stripped, \<open>package.json\<close> is not found, and the target is
  reported without install scripts; for a package that had none before, nothing is reported as changed.\<close>

theorem stray_file_hides_install_hook:
  assumes "compare_extracted_dirs env patches baseline target = Inr (d, Some hook, commit)"
    "p \<in> fst ` set target" "q \<in> fst ` set target" "p \<noteq> []" "q \<noteq> []" "hd p \<noteq> hd q"
    "list_all (\<lambda>(path, _). join_slash path \<noteq> ''package.json'') target"
  shows "\<not> ih_target_has_install_scripts hook \<and> (ih_baseline_has_install_scripts hook \<or> \<not> ih_effective_changed hook)"
proof -
  have "common_top_level_dir (map fst target) = None"
    using assms(2-6) by (intro no_common_dir [of p _ q]) auto
  then have "''package.json'' \<notin> set (keys (collect_files target))"
    using assms(7) by (subst collected_unstripped) (auto simp: list_all_iff)
  then have "map_of (collect_files target) ''package.json'' = None"
    by (metis map_of_eq_None_iff list.set_map)
  moreover obtain d' where "derive_npm_install_hook_diff env (collect_files baseline) (collect_files target) d' = Inr (Some hook)"
    using assms(1) by (auto simp: compare_extracted_dirs_def Let_def split: sum.splits)
  ultimately show ?thesis
    by (rule hook_without_target_manifest)
qed

lemma demo_stray:
  "\<exists>d hook commit. compare_extracted_dirs demo_content_env None demo_baseline demo_stray_target = Inr (d, Some hook, commit)"
proof -
  have "(case compare_extracted_dirs demo_content_env None demo_baseline demo_stray_target of
      Inr (_, Some _, _) \<Rightarrow> True | _ \<Rightarrow> False) = True"
    by code_simp
  then show ?thesis
    by (auto split: sum.splits option.splits)
qed

lemma stray_file_hides_install_hook_witness:
  "\<exists>d hook commit. compare_extracted_dirs demo_content_env None demo_baseline demo_stray_target = Inr (d, Some hook, commit)
     \<and> \<not> ih_target_has_install_scripts hook"
proof -
  obtain d hook commit where c: "compare_extracted_dirs demo_content_env None demo_baseline demo_stray_target = Inr (d, Some hook, commit)"
    using demo_stray by blast
  then have "\<not> ih_target_has_install_scripts hook"
    using stray_file_hides_install_hook [OF c, of "[''package'', ''package.json'']" "[''stray'']"]
    by (simp add: demo_stray_target_def)
  with c show ?thesis
    by blast
qed

text \<open>A history of two releases of one package.\<close>

definition demo_entry :: "datetime \<Rightarrow> string \<Rightarrow> history_entry" where
  "demo_entry t v = online_entry t Npm ''a'' v (Some t) ''npm'' [] [] [] Active [] JNull"

definition demo_diff_request :: diff_load_request where
  "demo_diff_request = \<lparr>rq_ecosystem = Npm, rq_package = ''a'', rq_target_version = Some ''2'', rq_baseline_selector = None,
     rq_online = False, rq_target_artifact = None, rq_baseline_artifact = None, rq_include_patches = False, rq_patch_context = 3\<rparr>"

lemma demo_comparable: "comparable [demo_entry 1 ''1'', demo_entry 2 ''2''] ''2'' None"
  by code_simp

lemma diff_request_fails_exactly_witness:
  "\<forall>fs. \<exists>d. load_release_diff fs (Inr [demo_entry 1 ''1'', demo_entry 2 ''2'']) (Inl []) demo_diff_request = Inr d"
proof -
  have rq: "rq_target_artifact demo_diff_request = None" "rq_baseline_artifact demo_diff_request = None"
    "rq_target_version demo_diff_request = Some ''2''" "rq_baseline_selector demo_diff_request = None"
    "\<not> rq_online demo_diff_request"
    by (simp_all add: demo_diff_request_def)
  show ?thesis
    by (rule allI, rule iffD2 [OF conjunct1 [OF diff_request_fails_exactly [OF rq(1,2)]]])
      (intro exI [of _ "[demo_entry 1 ''1'', demo_entry 2 ''2'']"] exI [of _ "''2''"] conjI; simp only: rq demo_comparable if_False)
qed

end
