(* ===== verification/F64_Arith.thy ===== *)
theory F64_Arith
  imports F64
begin

text \<open>
  The arithmetic the program does on \<open>f64\<close>: addition, subtraction, multiplication and division rounded
  to nearest with ties to even, \<open>floor\<close>, \<open>round\<close>, \<open>clamp\<close> and the saturating conversion \<open>as usize\<close>.  A finite
  value is its mantissa times a power of two; every operation is computed exactly on integers and rounded
  once.  A NaN result is the canonical quiet NaN.  The natural logarithm is the platform's and stays
  an argument where it is used.
\<close>

definition f64_nan :: f64 where "f64_nan = 0x7FF8000000000000"

definition f64_pack :: "bool \<Rightarrow> nat \<Rightarrow> f64" where
  "f64_pack negative magnitude = of_nat ((if negative then 2 ^ 63 else 0) + magnitude)"

definition f64_infinity :: "bool \<Rightarrow> f64" where
  "f64_infinity negative = f64_pack negative f64_infinity_bits"

definition f64_neg :: "f64 \<Rightarrow> f64" where
  "f64_neg x = f64_pack (\<not> f64_negative x) (f64_magnitude x)"

definition f64_abs :: "f64 \<Rightarrow> f64" where
  "f64_abs x = f64_pack False (f64_magnitude x)"

definition f64_is_infinite :: "f64 \<Rightarrow> bool" where
  "f64_is_infinite x \<longleftrightarrow> f64_magnitude x = f64_infinity_bits"

definition f64_is_zero :: "f64 \<Rightarrow> bool" where
  "f64_is_zero x \<longleftrightarrow> f64_magnitude x = 0"

text \<open>A finite value is \<open>f64_mantissa x * 2 ^ f64_exponent x\<close>, with its sign.\<close>

definition f64_mantissa :: "f64 \<Rightarrow> nat" where
  "f64_mantissa x =
     (if f64_magnitude x < 2 ^ 52 then f64_magnitude x else 2 ^ 52 + f64_magnitude x mod 2 ^ 52)"

definition f64_exponent :: "f64 \<Rightarrow> int" where
  "f64_exponent x = int (max 1 (f64_magnitude x div 2 ^ 52)) - 1075"

text \<open>The nearest value of \<open>m * 2 ^ e\<close>, of a number a little above it when \<open>sticky\<close>; too large is infinity.
  A carry out of the mantissa moves into the exponent by itself.\<close>

definition round_shift :: "nat \<Rightarrow> nat \<Rightarrow> bool \<Rightarrow> nat" where
  "round_shift m s sticky =
     (let q = m div 2 ^ s; r = 2 * (m mod 2 ^ s); h = 2 ^ s in
      if r > h \<or> (r = h \<and> (sticky \<or> odd q)) then q + 1 else q)"

definition f64_round_to :: "bool \<Rightarrow> nat \<Rightarrow> int \<Rightarrow> bool \<Rightarrow> f64" where
  "f64_round_to negative m e sticky =
     (let e' = max (e + int (bit_length m) - 53) (- 1074);
          q = (if e' \<le> e then m * 2 ^ nat (e - e') else round_shift m (nat (e' - e)) sticky)
      in f64_pack negative (min (nat (e' + 1074) * 2 ^ 52 + q) f64_infinity_bits))"

section \<open>Addition and subtraction\<close>

definition f64_scaled :: "f64 \<Rightarrow> int \<Rightarrow> int" where
  "f64_scaled x e = (if f64_negative x then - 1 else 1) * int (f64_mantissa x * 2 ^ nat (f64_exponent x - e))"

definition f64_add :: "f64 \<Rightarrow> f64 \<Rightarrow> f64" where
  "f64_add x y =
     (if f64_is_nan x \<or> f64_is_nan y then f64_nan
      else if f64_is_infinite x then
        (if f64_is_infinite y \<and> f64_negative x \<noteq> f64_negative y then f64_nan else x)
      else if f64_is_infinite y then y
      else let e = min (f64_exponent x) (f64_exponent y); s = f64_scaled x e + f64_scaled y e in
        if s = 0 then f64_pack (f64_negative x \<and> f64_negative y) 0
        else f64_round_to (s < 0) (nat \<bar>s\<bar>) e False)"

definition f64_sub :: "f64 \<Rightarrow> f64 \<Rightarrow> f64" where
  "f64_sub x y = f64_add x (if f64_is_nan y then y else f64_neg y)"

section \<open>Multiplication and division\<close>

definition f64_mul :: "f64 \<Rightarrow> f64 \<Rightarrow> f64" where
  "f64_mul x y =
     (let negative = (f64_negative x \<noteq> f64_negative y) in
      if f64_is_nan x \<or> f64_is_nan y then f64_nan
      else if f64_is_infinite x \<or> f64_is_infinite y then
        (if f64_is_zero x \<or> f64_is_zero y then f64_nan else f64_infinity negative)
      else f64_round_to negative (f64_mantissa x * f64_mantissa y) (f64_exponent x + f64_exponent y) False)"

text \<open>The quotient is taken with at least 55 significant bits; a remainder only makes it sticky.\<close>

definition f64_div :: "f64 \<Rightarrow> f64 \<Rightarrow> f64" where
  "f64_div x y =
     (let negative = (f64_negative x \<noteq> f64_negative y) in
      if f64_is_nan x \<or> f64_is_nan y then f64_nan
      else if f64_is_infinite x then (if f64_is_infinite y then f64_nan else f64_infinity negative)
      else if f64_is_infinite y then f64_pack negative 0
      else if f64_is_zero y then (if f64_is_zero x then f64_nan else f64_infinity negative)
      else let n = f64_mantissa x * 2 ^ 108; d = f64_mantissa y in
        f64_round_to negative (n div d) (f64_exponent x - f64_exponent y - 108) (n mod d \<noteq> 0))"

section \<open>Conversions\<close>

definition f64_clamp :: "f64 \<Rightarrow> f64 \<Rightarrow> f64 \<Rightarrow> f64" where
  "f64_clamp x low high = (if f64_lt x low then low else if f64_lt high x then high else x)"

text \<open>\<open>x.floor() as usize\<close> and \<open>x.round() as usize\<close> (half away from zero): negative and NaN give 0,
  too large the maximum.\<close>

definition f64_floor_usize :: "f64 \<Rightarrow> nat" where
  "f64_floor_usize x =
     (if f64_is_nan x \<or> f64_negative x then 0
      else if f64_is_infinite x then u64_max
      else if f64_exponent x \<ge> 0 then min (f64_mantissa x * 2 ^ nat (f64_exponent x)) u64_max
      else f64_mantissa x div 2 ^ nat (- f64_exponent x))"

definition f64_round_usize :: "f64 \<Rightarrow> nat" where
  "f64_round_usize x =
     (if f64_is_nan x \<or> f64_negative x then 0
      else if f64_is_infinite x then u64_max
      else if f64_exponent x \<ge> 0 then min (f64_mantissa x * 2 ^ nat (f64_exponent x)) u64_max
      else (2 * f64_mantissa x + 2 ^ nat (- f64_exponent x)) div (2 * 2 ^ nat (- f64_exponent x)))"

section \<open>Facts\<close>

text \<open>Reference values: \<open>0.1 + 0.2\<close>, \<open>1.0 - 0.7\<close>, \<open>0.1 * 3.0\<close>, \<open>1.0 / 3.0\<close>, the smallest subnormal halved
  (a tie, to even) and the largest finite value doubled.  Evaluation on numerals is \<open>simp add: f64_compute cong: let_weak_cong\<close>.\<close>

lemma bit_length_numeral:
  "bit_length 0 = 0" "bit_length (Suc 0) = 1" "bit_length (numeral k) = Suc (bit_length (numeral k div 2))"
  by (subst bit_length.simps, simp add: bit_length.simps [of 0])+

lemmas f64_compute = f64_add_def f64_sub_def f64_mul_def f64_div_def f64_neg_def f64_abs_def f64_scaled_def
  f64_round_to_def round_shift_def f64_is_nan_def f64_is_infinite_def f64_is_zero_def f64_mantissa_def f64_exponent_def
  f64_pack_def f64_infinity_def f64_nan_def f64_magnitude_def f64_negative_def f64_infinity_bits_def
  f64_floor_usize_def f64_round_usize_def f64_clamp_def f64_lt_def f64_le_def f64_key_def f64_max_def f64_total_key_def
  f64_of_u64_def bit_length_numeral Let_def

lemma f64_reference_values:
  "f64_add 0x3FB999999999999A 0x3FC999999999999A = 0x3FD3333333333334"
  "f64_sub 0x3FF0000000000000 0x3FE6666666666666 = 0x3FD3333333333334"
  "f64_mul 0x3FB999999999999A 0x4008000000000000 = 0x3FD3333333333334"
  "f64_div 0x3FF0000000000000 0x4008000000000000 = 0x3FD5555555555555"
  "f64_mul 1 0x3FE0000000000000 = 0"
  "f64_mul 0x7FEFFFFFFFFFFFFF 0x4000000000000000 = f64_infinity False"
  by (simp_all add: f64_compute cong: let_weak_cong)

lemma unat_pack:
  assumes "m < 2 ^ 63"
  shows "unat (f64_pack b m) = (if b then 2 ^ 63 else 0) + m"
proof -
  have "(if b then 2 ^ 63 else 0) + m < 2 ^ LENGTH(64)"
    using assms by simp
  then show ?thesis
    unfolding f64_pack_def unat_of_nat by simp
qed

lemma f64_magnitude_pack: "m < 2 ^ 63 \<Longrightarrow> f64_magnitude (f64_pack b m) = m"
  by (simp add: f64_magnitude_def unat_pack)

lemma f64_negative_pack: "m < 2 ^ 63 \<Longrightarrow> f64_negative (f64_pack b m) = b"
  by (simp add: f64_negative_def unat_pack)

lemma f64_infinity_less: "f64_infinity_bits < 2 ^ 63"
  by (simp add: f64_infinity_bits_def)

lemma f64_round_not_nan: "\<not> f64_is_nan (f64_round_to b m e s)"
  unfolding f64_is_nan_def f64_round_to_def Let_def
  by (subst f64_magnitude_pack) (auto simp: f64_infinity_bits_def)

lemma f64_round_negative: "f64_negative (f64_round_to b m e s) = b"
  unfolding f64_round_to_def Let_def
  by (subst f64_negative_pack) (auto simp: f64_infinity_bits_def)

end
