(* ===== verification/Scoring.thy ===== *)
theory Scoring
  imports F64_Arith Store
begin

text \<open>
  \<open>scoring.rs\<close>: score inputs are merged into one record per package and per edge, and priority scores are
  built from them: popularity flows along the dependency edges for a bounded number of rounds, a guardrail
  shrinks packages propped up by one npm scope, and packages are ranked by impact and by hidden leverage.
  Serde's line encoder and decoder and the platform's natural logarithm are arguments.  A Rust map is an
  association list; a \<open>BTreeMap\<close> is read in the order of its keys.
\<close>

section \<open>Configuration and graph\<close>

record score_build_config =
  sb_alpha :: f64
  sb_max_iterations :: nat
  sb_epsilon :: f64
  sb_high_quantile :: f64
  sb_medium_quantile :: f64
  sb_score_source_version :: "string option"

record edge_record =
  er_weight :: f64
  er_sources :: "string list"
  er_confidence :: "f64 option"

definition edge_default :: edge_record where
  "edge_default = \<lparr>er_weight = f64_zero, er_sources = [], er_confidence = None\<rparr>"

record ecosystem_graph =
  eg_packages :: "(string \<times> f64) list"
  eg_dependency_weights :: "(string \<times> (string \<times> edge_record) list) list"
  eg_input_package_records :: nat
  eg_input_dependency_records :: nat

definition graph_default :: ecosystem_graph where
  "graph_default = \<lparr>eg_packages = [], eg_dependency_weights = [], eg_input_package_records = 0,
     eg_input_dependency_records = 0\<rparr>"

text \<open>\<open>map.entry(k).or_default()\<close> followed by the update \<open>f\<close> through the reference.\<close>

definition entry_update :: "'k \<Rightarrow> 'v \<Rightarrow> ('v \<Rightarrow> 'v) \<Rightarrow> ('k \<times> 'v) list \<Rightarrow> ('k \<times> 'v) list" where
  "entry_update k d f m = AList.update k (f (case map_of m k of Some v \<Rightarrow> v | None \<Rightarrow> d)) m"

definition merge_edge_sources :: "string list \<Rightarrow> string list \<Rightarrow> string list" where
  "merge_edge_sources target sources =
     fold insort_insert (filter (\<lambda>s. s \<noteq> []) (map trim sources)) target"

fun max_confidence :: "f64 option \<Rightarrow> f64 option \<Rightarrow> f64 option" where
  "max_confidence (Some l) (Some r) = Some (f64_max l r)"
| "max_confidence (Some l) None = Some l"
| "max_confidence None r = r"

definition default_edge_weight :: f64 where
  "default_edge_weight = f64_one"

section \<open>Lines of records\<close>

text \<open>Blank lines are skipped; a line that does not parse fails the whole read.\<close>

fun parse_ndjson :: "string \<Rightarrow> (string \<Rightarrow> 'a option) \<Rightarrow> string list \<Rightarrow> string + 'a list" where
  "parse_ndjson err dec [] = Inr []"
| "parse_ndjson err dec (line # lines) =
     (if trim line = [] then parse_ndjson err dec lines
      else case dec line of
          None \<Rightarrow> Inl err
        | Some r \<Rightarrow> map_sum id ((#) r) (parse_ndjson err dec lines))"

datatype file_read = NotFound | ReadFails | FileBody string

definition load_score_input_records :: "(string \<Rightarrow> score_input option) \<Rightarrow> file_read \<Rightarrow> string + score_input list" where
  "load_score_input_records dec f = (case f of
     NotFound \<Rightarrow> Inr []
   | ReadFails \<Rightarrow> Inl ''failed to read scoring input''
   | FileBody body \<Rightarrow> parse_ndjson ''failed to parse scoring input line'' dec (str_lines body))"

definition encode_ndjson :: "('a \<Rightarrow> string) \<Rightarrow> 'a list \<Rightarrow> string" where
  "encode_ndjson enc rs = concat (map (\<lambda>r. enc r @ [CHR 0x0A]) rs)"

definition encode_score_input_ndjson :: "(score_input \<Rightarrow> string) \<Rightarrow> score_input list \<Rightarrow> string" where
  "encode_score_input_ndjson = encode_ndjson"

section \<open>Merging inputs\<close>

type_synonym graphs = "(ecosystem \<times> ecosystem_graph) list"

text \<open>One package record and one dependency record, with the way a popularity and a weight are joined:
  the maximum when inputs are merged, the sum when scores are built.\<close>

definition join_package :: "(f64 \<Rightarrow> f64 \<Rightarrow> f64) \<Rightarrow> ecosystem \<Rightarrow> string \<Rightarrow> f64 \<Rightarrow> ecosystem_graph \<Rightarrow> ecosystem_graph" where
  "join_package join eco pkg popularity g =
     g\<lparr>eg_packages := entry_update (normalize_package_name eco pkg) f64_zero (\<lambda>p. join p (f64_max popularity f64_zero)) (eg_packages g),
       eg_input_package_records := eg_input_package_records g + 1\<rparr>"

definition join_edge :: "(f64 \<Rightarrow> f64 \<Rightarrow> f64) \<Rightarrow> f64 \<Rightarrow> string list \<Rightarrow> f64 option \<Rightarrow> edge_record \<Rightarrow> edge_record" where
  "join_edge join weight sources confidence e =
     \<lparr>er_weight = join (er_weight e) (f64_max weight f64_zero),
      er_sources = merge_edge_sources (er_sources e) sources,
      er_confidence = max_confidence (er_confidence e) confidence\<rparr>"

definition join_dependency ::
  "(f64 \<Rightarrow> f64 \<Rightarrow> f64) \<Rightarrow> ecosystem \<Rightarrow> string \<Rightarrow> string \<Rightarrow> f64 \<Rightarrow> string list \<Rightarrow> f64 option \<Rightarrow> ecosystem_graph \<Rightarrow> ecosystem_graph" where
  "join_dependency join eco pkg dep weight sources confidence g =
     (let p = normalize_package_name eco pkg; d = normalize_package_name eco dep in
      g\<lparr>eg_packages := entry_update d f64_zero id (entry_update p f64_zero id (eg_packages g)),
        eg_dependency_weights := entry_update p [] (entry_update d edge_default (join_edge join weight sources confidence))
          (eg_dependency_weights g),
        eg_input_dependency_records := eg_input_dependency_records g + 1\<rparr>)"

fun join_record :: "(f64 \<Rightarrow> f64 \<Rightarrow> f64) \<Rightarrow> score_input \<Rightarrow> graphs \<Rightarrow> graphs" where
  "join_record join (SI_Package eco pkg popularity) gs =
     entry_update eco graph_default (join_package join eco pkg popularity) gs"
| "join_record join (SI_Dependency eco pkg dep weight sources confidence) gs =
     entry_update eco graph_default (join_dependency join eco pkg dep weight sources confidence) gs"

definition merge_record :: "score_input \<Rightarrow> graphs \<Rightarrow> graphs" where
  "merge_record = join_record f64_max"

definition build_record :: "score_input \<Rightarrow> graphs \<Rightarrow> graphs" where
  "build_record = join_record f64_add"

definition is_package_record :: "score_input \<Rightarrow> bool" where
  "is_package_record r = (case r of SI_Package _ _ _ \<Rightarrow> True | _ \<Rightarrow> False)"

definition graph_order :: "ecosystem list" where
  "graph_order = [Npm, Pypi, CratesIo]"

definition in_key_order :: "('k::linorder \<times> 'v) list \<Rightarrow> ('k \<times> 'v) list" where
  "in_key_order m = sort_key fst m"

definition graph_edges :: "ecosystem_graph \<Rightarrow> (string \<times> string \<times> edge_record) list" where
  "graph_edges g = concat (map (\<lambda>(p, ds). map (\<lambda>(d, e). (p, d, e)) (in_key_order ds)) (in_key_order (eg_dependency_weights g)))"

definition graph_records :: "ecosystem \<Rightarrow> ecosystem_graph \<Rightarrow> score_input list" where
  "graph_records eco g =
     map (\<lambda>(p, popularity). SI_Package eco p popularity) (in_key_order (eg_packages g))
     @ map (\<lambda>(p, d, e). SI_Dependency eco p d (er_weight e) (er_sources e) (er_confidence e)) (graph_edges g)"

record ecosystem_input_summary =
  ei_ecosystem :: ecosystem
  ei_packages :: nat
  ei_dependencies :: nat

record score_input_merge_summary =
  im_input_files :: nat
  im_input_packages :: nat
  im_input_dependencies :: nat
  im_merged_packages :: nat
  im_merged_dependencies :: nat
  im_ecosystems :: "ecosystem_input_summary list"

definition parse_bodies :: "(string \<Rightarrow> score_input option) \<Rightarrow> string list \<Rightarrow> string + score_input list" where
  "parse_bodies dec bodies = parse_ndjson ''failed to parse scoring input line'' dec (concat (map str_lines bodies))"

definition merge_score_input_ndjson ::
  "(string \<Rightarrow> score_input option) \<Rightarrow> string list \<Rightarrow> nat \<Rightarrow> string + (score_input list \<times> score_input_merge_summary)" where
  "merge_score_input_ndjson dec bodies input_files =
     map_sum id (\<lambda>records.
       let gs = fold merge_record records [];
           graphs = List.map_filter (\<lambda>eco. map_option (Pair eco) (map_of gs eco)) graph_order;
           ecosystems = map (\<lambda>(eco, g). \<lparr>ei_ecosystem = eco, ei_packages = length (eg_packages g),
             ei_dependencies = sum_list (map (\<lambda>(_, ds). length ds) (eg_dependency_weights g))\<rparr>) graphs
       in (concat (map (\<lambda>(eco, g). graph_records eco g) graphs),
           \<lparr>im_input_files = input_files,
            im_input_packages = length (filter is_package_record records),
            im_input_dependencies = length (filter (\<lambda>r. \<not> is_package_record r) records),
            im_merged_packages = sum_list (map ei_packages ecosystems),
            im_merged_dependencies = sum_list (map ei_dependencies ecosystems),
            im_ecosystems = ecosystems\<rparr>))
       (parse_bodies dec bodies)"

fun read_all_bodies :: "file_read list \<Rightarrow> string + string list" where
  "read_all_bodies [] = Inr []"
| "read_all_bodies (FileBody body # fs) = map_sum id ((#) body) (read_all_bodies fs)"
| "read_all_bodies (_ # fs) = Inl ''failed to read scoring input''"

definition merge_score_input_files ::
  "(string \<Rightarrow> score_input option) \<Rightarrow> file_read list \<Rightarrow> string + (score_input list \<times> score_input_merge_summary)" where
  "merge_score_input_files dec files = (case read_all_bodies files of
     Inl err \<Rightarrow> Inl err
   | Inr bodies \<Rightarrow> merge_score_input_ndjson dec bodies (length files))"

section \<open>Propagation\<close>

text \<open>A \<open>HashMap\<close> of values, read with zero for an absent key.\<close>

type_synonym value_map = "(string \<times> f64) list"

definition value_at :: "value_map \<Rightarrow> string \<Rightarrow> f64" where
  "value_at m k = (case map_of m k of Some v \<Rightarrow> v | None \<Rightarrow> f64_zero)"

definition total_weight :: "(string \<times> edge_record) list \<Rightarrow> f64" where
  "total_weight ds = fold (\<lambda>(_, e) t. f64_add t (er_weight e)) (in_key_order ds) f64_zero"

definition spread_package :: "f64 \<Rightarrow> value_map \<Rightarrow> string \<times> (string \<times> edge_record) list \<Rightarrow> value_map \<Rightarrow> value_map" where
  "spread_package alpha impact pd next' = (case pd of (package, ds) \<Rightarrow>
     let package_impact = value_at impact package; total = total_weight ds in
     if f64_le package_impact f64_zero \<or> f64_le total f64_zero then next'
     else fold (\<lambda>(d, e). entry_update d f64_zero
            (\<lambda>v. f64_add v (f64_mul (f64_mul alpha package_impact) (f64_div (er_weight e) total))))
          (in_key_order ds) next')"

definition spread :: "f64 \<Rightarrow> ecosystem_graph \<Rightarrow> value_map \<Rightarrow> value_map \<Rightarrow> value_map" where
  "spread alpha g direct impact = fold (spread_package alpha impact) (in_key_order (eg_dependency_weights g)) direct"

definition max_delta :: "value_map \<Rightarrow> value_map \<Rightarrow> f64" where
  "max_delta impact next' = fold (\<lambda>(p, v) m. f64_max m (f64_abs (f64_sub v (value_at impact p)))) next' f64_zero"

text \<open>At most \<open>n\<close> rounds; a round that moved nothing by more than epsilon is the last.\<close>

fun propagate :: "f64 \<Rightarrow> f64 \<Rightarrow> ecosystem_graph \<Rightarrow> value_map \<Rightarrow> nat \<Rightarrow> value_map \<Rightarrow> value_map" where
  "propagate alpha epsilon g direct 0 impact = impact"
| "propagate alpha epsilon g direct (Suc n) impact =
     (let next' = spread alpha g direct impact in
      if f64_le (max_delta impact next') epsilon then next'
      else propagate alpha epsilon g direct n next')"

section \<open>The namespace guardrail\<close>

definition npm_namespace_farm_min_reverse_dependents :: nat where
  "npm_namespace_farm_min_reverse_dependents = 25"

definition npm_namespace_farm_max_direct_popularity :: f64 where
  "npm_namespace_farm_max_direct_popularity = 0x4069000000000000"

definition npm_namespace_farm_min_dominant_ratio :: f64 where
  "npm_namespace_farm_min_dominant_ratio = 0x3FE6666666666666"

definition npm_namespace_farm_min_penalty :: f64 where
  "npm_namespace_farm_min_penalty = 0x3F947AE147AE147B"

lemmas guardrail_limits = npm_namespace_farm_min_reverse_dependents_def npm_namespace_farm_max_direct_popularity_def
  npm_namespace_farm_min_dominant_ratio_def npm_namespace_farm_min_penalty_def

definition build_reverse_dependents :: "ecosystem_graph \<Rightarrow> (string \<times> string list) list" where
  "build_reverse_dependents g = fold (\<lambda>(p, d, _). entry_update d [] (\<lambda>ps. ps @ [p])) (graph_edges g) []"

definition npm_namespace :: "string \<Rightarrow> string option" where
  "npm_namespace package =
     (let base = trim (hd (split_where (\<lambda>c. c = CHR ''>'') package)) in
      if \<not> starts_with base ''@'' then None
      else Some (hd (split_where (\<lambda>c. c = CHR ''/'') base)))"

definition dominant_npm_namespace_ratio :: "string list \<Rightarrow> f64 option" where
  "dominant_npm_namespace_ratio dependents =
     (let namespaces = fold (\<lambda>p m. case npm_namespace p of None \<Rightarrow> m | Some ns \<Rightarrow> entry_update ns 0 Suc m) dependents [] in
      if namespaces = [] then None
      else Some (f64_div (f64_of_u64 (Max (set (map snd namespaces)))) (f64_of_u64 (length dependents))))"

definition guardrail_penalty :: "f64 \<Rightarrow> f64 \<Rightarrow> f64" where
  "guardrail_penalty direct_popularity dominant_ratio =
     (let popularity_factor = f64_clamp (f64_div direct_popularity npm_namespace_farm_max_direct_popularity) f64_zero f64_one;
          concentration_factor = f64_clamp (f64_sub f64_one
            (f64_div (f64_sub dominant_ratio npm_namespace_farm_min_dominant_ratio)
                     (f64_sub f64_one npm_namespace_farm_min_dominant_ratio))) f64_zero f64_one
      in f64_clamp (f64_mul popularity_factor concentration_factor) npm_namespace_farm_min_penalty f64_one)"

definition guardrail_applies :: "f64 \<Rightarrow> string list \<Rightarrow> f64 option" where
  "guardrail_applies direct_popularity dependents =
     (if f64_lt npm_namespace_farm_max_direct_popularity direct_popularity
         \<or> length dependents < npm_namespace_farm_min_reverse_dependents then None
      else case dominant_npm_namespace_ratio dependents of
          None \<Rightarrow> None
        | Some ratio \<Rightarrow>
            if f64_lt ratio npm_namespace_farm_min_dominant_ratio then None
            else let penalty = guardrail_penalty direct_popularity ratio in
              if f64_le f64_one penalty then None else Some penalty)"

definition apply_structural_guardrails :: "ecosystem \<Rightarrow> ecosystem_graph \<Rightarrow> value_map \<Rightarrow> value_map \<Rightarrow> value_map" where
  "apply_structural_guardrails eco g direct impact =
     (if eco \<noteq> Npm then impact
      else fold (\<lambda>(package, dependents) impact.
          case guardrail_applies (value_at direct package) dependents of
            None \<Rightarrow> impact
          | Some penalty \<Rightarrow> map (\<lambda>(p, v). (p, if p = package then f64_mul v penalty else v)) impact)
        (build_reverse_dependents g) impact)"

section \<open>Ranks and tiers\<close>

definition top_bucket_size :: "nat \<Rightarrow> f64 \<Rightarrow> nat" where
  "top_bucket_size packages quantile =
     (if packages = 0 then 0
      else let quantile = f64_clamp quantile f64_zero f64_one in
        if f64_le f64_one quantile then 1
        else packages - f64_floor_usize (f64_mul (f64_of_u64 packages) quantile))"

definition descending_ranked :: "value_map \<Rightarrow> string list" where
  "descending_ranked m = map fst (sort_key (\<lambda>(p, v). (- f64_total_key v, p)) m)"

definition descending_rank_map :: "value_map \<Rightarrow> (string \<times> nat) list" where
  "descending_rank_map m = zip (descending_ranked m) [0..<length m]"

definition rank_below :: "(string \<times> nat) list \<Rightarrow> string \<Rightarrow> nat \<Rightarrow> bool" where
  "rank_below ranks p limit = (case map_of ranks p of Some r \<Rightarrow> r < limit | None \<Rightarrow> u64_max < limit)"

definition tier_by_ranks :: "nat \<Rightarrow> nat \<Rightarrow> (string \<times> nat) list \<Rightarrow> (string \<times> nat) list \<Rightarrow> string \<Rightarrow> priority_tier" where
  "tier_by_ranks high medium impact_ranks hidden_ranks p =
     (if rank_below impact_ranks p high \<or> rank_below hidden_ranks p high then High
      else if rank_below impact_ranks p medium \<or> rank_below hidden_ranks p medium then Medium
      else Low)"

definition hidden_leverage_of :: "(f64 \<Rightarrow> f64) \<Rightarrow> f64 \<Rightarrow> f64 \<Rightarrow> f64" where
  "hidden_leverage_of ln impact direct = f64_sub (ln (f64_add impact f64_one)) (ln (f64_add direct f64_one))"

definition score_ecosystem ::
  "(f64 \<Rightarrow> f64) \<Rightarrow> datetime \<Rightarrow> score_build_config \<Rightarrow> ecosystem \<Rightarrow> ecosystem_graph \<Rightarrow> priority_score_record list" where
  "score_ecosystem ln now cfg eco g =
     (let direct = eg_packages g;
          impact = apply_structural_guardrails eco g direct
            (propagate (sb_alpha cfg) (sb_epsilon cfg) g direct (sb_max_iterations cfg) direct);
          packages = map fst (in_key_order (eg_packages g));
          hidden = map (\<lambda>p. (p, f64_max (hidden_leverage_of ln (value_at impact p) (value_at direct p)) f64_zero)) packages;
          tier = tier_by_ranks (top_bucket_size (length packages) (sb_high_quantile cfg))
            (top_bucket_size (length packages) (sb_medium_quantile cfg))
            (descending_rank_map impact) (descending_rank_map hidden)
      in map (\<lambda>p. \<lparr>sc_ecosystem = eco, sc_package = p, sc_priority_tier = tier p,
             sc_priority_source = Some OfflineScoreFile, sc_direct_popularity = Some (value_at direct p),
             sc_propagated_impact = Some (value_at impact p), sc_hidden_leverage = Some (value_at hidden p),
             sc_computed_at = Some now, sc_score_source_version = sb_score_source_version cfg\<rparr>) packages)"

section \<open>Building scores\<close>

text \<open>\<open>(0.0..1.0).contains\<close> and its closed form; NaN is in neither, and a NaN epsilon is accepted.\<close>

definition validate_config :: "score_build_config \<Rightarrow> string option" where
  "validate_config cfg =
     (if \<not> (f64_le f64_zero (sb_alpha cfg) \<and> f64_lt (sb_alpha cfg) f64_one) then Some ''alpha must be >= 0.0 and < 1.0''
      else if sb_max_iterations cfg = 0 then Some ''max_iterations must be greater than zero''
      else if f64_lt (sb_epsilon cfg) f64_zero then Some ''epsilon must be >= 0.0''
      else if \<not> (f64_le f64_zero (sb_high_quantile cfg) \<and> f64_le (sb_high_quantile cfg) f64_one)
        then Some ''high_quantile must be between 0.0 and 1.0''
      else if \<not> (f64_le f64_zero (sb_medium_quantile cfg) \<and> f64_le (sb_medium_quantile cfg) f64_one)
        then Some ''medium_quantile must be between 0.0 and 1.0''
      else if f64_lt (sb_high_quantile cfg) (sb_medium_quantile cfg) then Some ''medium_quantile must be <= high_quantile''
      else None)"

definition count_priorities :: "priority_score_record list \<Rightarrow> priority_counts" where
  "count_priorities rs = fold (\<lambda>r c. case sc_priority_tier r of
       High \<Rightarrow> c\<lparr>pc_high := pc_high c + 1\<rparr>
     | Medium \<Rightarrow> c\<lparr>pc_medium := pc_medium c + 1\<rparr>
     | Low \<Rightarrow> c\<lparr>pc_low := pc_low c + 1\<rparr>) rs counts_zero"

record ecosystem_score_summary =
  es_ecosystem :: ecosystem
  es_packages :: nat
  es_dependencies :: nat
  es_priorities :: priority_counts

record score_build_summary =
  bs_input_packages :: nat
  bs_input_dependencies :: nat
  bs_scored_packages :: nat
  bs_ecosystems :: "ecosystem_score_summary list"

definition impact_or_zero :: "priority_score_record \<Rightarrow> f64" where
  "impact_or_zero r = (case sc_propagated_impact r of Some v \<Rightarrow> v | None \<Rightarrow> f64_zero)"

definition score_order :: "priority_score_record \<Rightarrow> nat \<times> int \<times> string" where
  "score_order r = (ecosystem_index (sc_ecosystem r), - f64_total_key (impact_or_zero r), sc_package r)"

definition scored_graphs ::
  "(f64 \<Rightarrow> f64) \<Rightarrow> datetime \<Rightarrow> score_build_config \<Rightarrow> graphs \<Rightarrow> (ecosystem \<times> ecosystem_graph \<times> priority_score_record list) list" where
  "scored_graphs ln now cfg gs = List.map_filter (\<lambda>eco. map_option (\<lambda>g. (eco, g, score_ecosystem ln now cfg eco g)) (map_of gs eco)) graph_order"

definition build_priority_scores_from_ndjson ::
  "(f64 \<Rightarrow> f64) \<Rightarrow> datetime \<Rightarrow> (string \<Rightarrow> score_input option) \<Rightarrow> string \<Rightarrow> score_build_config
   \<Rightarrow> string + (priority_score_record list \<times> score_build_summary)" where
  "build_priority_scores_from_ndjson ln now dec input cfg =
     (case validate_config cfg of Some err \<Rightarrow> Inl err
      | None \<Rightarrow> map_sum id (\<lambda>records.
          let scored = scored_graphs ln now cfg (fold build_record records []);
              scores = sort_key score_order (concat (map (\<lambda>(_, _, rs). rs) scored))
          in (scores,
              \<lparr>bs_input_packages = length (filter is_package_record records),
               bs_input_dependencies = length (filter (\<lambda>r. \<not> is_package_record r) records),
               bs_scored_packages = length scores,
               bs_ecosystems = map (\<lambda>(eco, g, rs). \<lparr>es_ecosystem = eco, es_packages = length rs,
                 es_dependencies = eg_input_dependency_records g, es_priorities = count_priorities rs\<rparr>) scored\<rparr>))
          (parse_ndjson ''failed to parse scoring input line'' dec (str_lines input)))"

definition build_priority_scores_from_file ::
  "(f64 \<Rightarrow> f64) \<Rightarrow> datetime \<Rightarrow> (string \<Rightarrow> score_input option) \<Rightarrow> file_read \<Rightarrow> score_build_config
   \<Rightarrow> string + (priority_score_record list \<times> score_build_summary)" where
  "build_priority_scores_from_file ln now dec f cfg =
     (case validate_config cfg of Some err \<Rightarrow> Inl err
      | None \<Rightarrow> (case f of FileBody body \<Rightarrow> build_priority_scores_from_ndjson ln now dec body cfg
                 | _ \<Rightarrow> Inl ''failed to read scoring input''))"

text \<open>The records go through their JSON lines; a value JSON cannot hold does not come back.\<close>

definition build_priority_scores_from_records ::
  "(f64 \<Rightarrow> f64) \<Rightarrow> datetime \<Rightarrow> (score_input \<Rightarrow> string) \<Rightarrow> (string \<Rightarrow> score_input option) \<Rightarrow> score_input list
   \<Rightarrow> score_build_config \<Rightarrow> string + (priority_score_record list \<times> score_build_summary)" where
  "build_priority_scores_from_records ln now enc dec records cfg =
     build_priority_scores_from_ndjson ln now dec (encode_score_input_ndjson enc records) cfg"
end
