(* ===== verification/Scoring_Props.thy ===== *)
theory Scoring_Props
  imports Scoring Ledger
begin

text \<open>
  What the score builder promises: a merged input has one record per package and per edge named in the
  inputs, with the greatest popularity and weight; scores cover exactly the packages named, once each; and
  the number of releases in the high and medium tiers is bounded by the configured quantiles.
\<close>

section \<open>Entries\<close>

lemma map_of_entry_update [simp]:
  "map_of (entry_update k d f m) k' =
     (if k' = k then Some (f (case map_of m k of Some v \<Rightarrow> v | None \<Rightarrow> d)) else map_of m k')"
  by (simp add: entry_update_def)

lemma keys_entry_update [simp]: "set (keys (entry_update k d f m)) = insert k (set (keys m))"
  unfolding entry_update_def by (rule keys_update)

lemma distinct_entry_update: "distinct (keys m) \<Longrightarrow> distinct (keys (entry_update k d f m))"
  unfolding entry_update_def by (rule distinct_update_keys)

lemma keys_map_of: "k \<in> set (keys m) \<longleftrightarrow> (\<exists>v. map_of m k = Some v)"
  using dom_map_of_keys [of m k] by auto

lemma set_in_key_order [simp]: "set (in_key_order m) = set m"
  by (simp add: in_key_order_def)

lemma length_in_key_order [simp]: "length (in_key_order m) = length m"
  by (simp add: in_key_order_def)

lemma distinct_keys_in_key_order [simp]: "distinct (keys (in_key_order m)) = distinct (keys m)"
  by (simp add: in_key_order_def distinct_map_sort_key)

section \<open>Graphs\<close>

text \<open>The packages and edges a record names, normalised.\<close>

fun names_of :: "score_input \<Rightarrow> (ecosystem \<times> string) set" where
  "names_of (SI_Package eco p v) = {(eco, normalize_package_name eco p)}"
| "names_of (SI_Dependency eco p d w ss c) = {(eco, normalize_package_name eco p), (eco, normalize_package_name eco d)}"

fun edges_of :: "score_input \<Rightarrow> (ecosystem \<times> string \<times> string) set" where
  "edges_of (SI_Package eco p v) = {}"
| "edges_of (SI_Dependency eco p d w ss c) = {(eco, normalize_package_name eco p, normalize_package_name eco d)}"

definition graph_wf :: "ecosystem_graph \<Rightarrow> bool" where
  "graph_wf g \<longleftrightarrow> distinct (keys (eg_packages g)) \<and> distinct (keys (eg_dependency_weights g))
     \<and> (\<forall>p ds. map_of (eg_dependency_weights g) p = Some ds \<longrightarrow>
          distinct (keys ds) \<and> insert p (set (keys ds)) \<subseteq> set (keys (eg_packages g)))"

lemma graph_wf_default: "graph_wf graph_default"
  by (simp add: graph_wf_def graph_default_def)

lemma graph_wfI:
  assumes "distinct (keys (eg_packages g))" "distinct (keys (eg_dependency_weights g))"
    "\<And>p ds. map_of (eg_dependency_weights g) p = Some ds
       \<Longrightarrow> distinct (keys ds) \<and> p \<in> set (keys (eg_packages g)) \<and> set (keys ds) \<subseteq> set (keys (eg_packages g))"
  shows "graph_wf g"
  using assms by (simp add: graph_wf_def)

lemma graph_wfD:
  assumes "graph_wf g"
  shows "distinct (keys (eg_packages g))" "distinct (keys (eg_dependency_weights g))"
    "map_of (eg_dependency_weights g) p = Some ds \<Longrightarrow> distinct (keys ds)"
    "map_of (eg_dependency_weights g) p = Some ds \<Longrightarrow> p \<in> set (keys (eg_packages g))"
    "map_of (eg_dependency_weights g) p = Some ds \<Longrightarrow> set (keys ds) \<subseteq> set (keys (eg_packages g))"
  using assms unfolding graph_wf_def by (blast+)

lemma join_package_fields:
  "keys (eg_packages (join_package j eco p v g)) = keys (entry_update (normalize_package_name eco p) f64_zero
     (\<lambda>x. j x (f64_max v f64_zero)) (eg_packages g))"
  "eg_dependency_weights (join_package j eco p v g) = eg_dependency_weights g"
  by (simp_all add: join_package_def)

lemma graph_wf_join_package:
  assumes "graph_wf g"
  shows "graph_wf (join_package j eco p v g)"
proof (rule graph_wfI)
  fix q ds
  assume "map_of (eg_dependency_weights (join_package j eco p v g)) q = Some ds"
  then have h: "map_of (eg_dependency_weights g) q = Some ds"
    by (simp add: join_package_fields)
  have "set (keys (eg_packages g)) \<subseteq> set (keys (eg_packages (join_package j eco p v g)))"
    unfolding join_package_fields by (subst keys_entry_update) blast
  then show "distinct (keys ds) \<and> q \<in> set (keys (eg_packages (join_package j eco p v g)))
      \<and> set (keys ds) \<subseteq> set (keys (eg_packages (join_package j eco p v g)))"
    using graph_wfD(3-5) [OF assms h] by blast
qed (use graph_wfD(1,2) [OF assms] in \<open>simp_all only: join_package_fields distinct_entry_update\<close>)

lemma join_dependency_keys:
  "set (keys (eg_packages (join_dependency j eco p d w ss c g)))
     = insert (normalize_package_name eco p) (insert (normalize_package_name eco d) (set (keys (eg_packages g))))"
  unfolding join_dependency_def Let_def by (simp del: set_map add: insert_commute)

lemma graph_wf_join_dependency:
  assumes "graph_wf g"
  shows "graph_wf (join_dependency j eco p d w ss c g)"
proof (rule graph_wfI)
  let ?g = "join_dependency j eco p d w ss c g" and ?p = "normalize_package_name eco p" and ?d = "normalize_package_name eco d"
  fix q ds
  assume h: "map_of (eg_dependency_weights ?g) q = Some ds"
  show "distinct (keys ds) \<and> q \<in> set (keys (eg_packages ?g)) \<and> set (keys ds) \<subseteq> set (keys (eg_packages ?g))"
  proof (cases "q = ?p")
    case True
    define old where "old = (case map_of (eg_dependency_weights g) ?p of Some v \<Rightarrow> v | None \<Rightarrow> [])"
    have ds: "ds = entry_update ?d edge_default (join_edge j w ss c) old"
      using h True by (simp add: join_dependency_def Let_def old_def)
    have "distinct (keys old) \<and> set (keys old) \<subseteq> set (keys (eg_packages g))"
      using graph_wfD(3,5) [OF assms, of ?p] by (cases "map_of (eg_dependency_weights g) ?p") (simp_all add: old_def del: set_map)
    then show ?thesis
      unfolding ds join_dependency_keys True by (subst keys_entry_update) (blast intro: distinct_entry_update)
  next
    case False
    then have "map_of (eg_dependency_weights g) q = Some ds"
      using h by (simp add: join_dependency_def Let_def)
    then show ?thesis
      unfolding join_dependency_keys using graph_wfD(3-5) [OF assms] by blast
  qed
qed (use graph_wfD(1,2) [OF assms] in \<open>simp_all add: join_dependency_def Let_def distinct_entry_update\<close>)

definition graphs_wf :: "graphs \<Rightarrow> bool" where
  "graphs_wf gs \<longleftrightarrow> (\<forall>eco g. map_of gs eco = Some g \<longrightarrow> graph_wf g)"

lemma graphs_wf_join: "graphs_wf gs \<Longrightarrow> graphs_wf (join_record j r gs)"
  by (cases r) (auto simp: graphs_wf_def graph_wf_default graph_wf_join_package graph_wf_join_dependency split: option.splits)

lemma graphs_wf_fold: "graphs_wf gs \<Longrightarrow> graphs_wf (fold (join_record j) rs gs)"
  by (induction rs arbitrary: gs) (simp_all add: graphs_wf_join)

lemma graphs_wf_Nil: "graphs_wf []"
  by (simp add: graphs_wf_def)

definition popularity_in :: "graphs \<Rightarrow> ecosystem \<Rightarrow> string \<Rightarrow> f64 option" where
  "popularity_in gs eco p = Option.bind (map_of gs eco) (\<lambda>g. map_of (eg_packages g) p)"

definition edge_in :: "graphs \<Rightarrow> ecosystem \<Rightarrow> string \<Rightarrow> string \<Rightarrow> edge_record option" where
  "edge_in gs eco p d = Option.bind (map_of gs eco) (\<lambda>g. Option.bind (map_of (eg_dependency_weights g) p) (\<lambda>ds. map_of ds d))"

abbreviation or_zero :: "f64 option \<Rightarrow> f64" where
  "or_zero v \<equiv> (case v of Some x \<Rightarrow> x | None \<Rightarrow> f64_zero)"

abbreviation or_new_edge :: "edge_record option \<Rightarrow> edge_record" where
  "or_new_edge e \<equiv> (case e of Some x \<Rightarrow> x | None \<Rightarrow> edge_default)"

lemma popularity_in_package:
  "popularity_in (join_record j (SI_Package e q v) gs) eco p =
     (if eco = e \<and> p = normalize_package_name e q then Some (j (or_zero (popularity_in gs eco p)) (f64_max v f64_zero))
      else popularity_in gs eco p)"
  by (auto simp: popularity_in_def join_package_def graph_default_def split: option.splits)

lemma popularity_in_dependency:
  "popularity_in (join_record j (SI_Dependency e q d w ss c) gs) eco p =
     (if (eco, p) \<in> names_of (SI_Dependency e q d w ss c) then Some (or_zero (popularity_in gs eco p))
      else popularity_in gs eco p)"
  by (auto simp: popularity_in_def join_dependency_def graph_default_def Let_def split: option.splits)

lemma edge_in_package: "edge_in (join_record j (SI_Package e q v) gs) eco p d = edge_in gs eco p d"
  by (auto simp: edge_in_def join_package_def graph_default_def split: option.splits)

lemma edge_in_dependency:
  "edge_in (join_record j (SI_Dependency e q d' w ss c) gs) eco p d =
     (if (eco, p, d) \<in> edges_of (SI_Dependency e q d' w ss c) then Some (join_edge j w ss c (or_new_edge (edge_in gs eco p d)))
      else edge_in gs eco p d)"
  by (auto simp: edge_in_def join_dependency_def graph_default_def Let_def split: option.splits)

lemmas graph_reads = popularity_in_package popularity_in_dependency edge_in_package edge_in_dependency

lemma popularity_named:
  "popularity_in (fold (join_record j) rs gs) eco p \<noteq> None \<longleftrightarrow>
     popularity_in gs eco p \<noteq> None \<or> (\<exists>r\<in>set rs. (eco, p) \<in> names_of r)"
proof (induction rs arbitrary: gs)
  case (Cons r rs)
  have "popularity_in (join_record j r gs) eco p \<noteq> None \<longleftrightarrow> popularity_in gs eco p \<noteq> None \<or> (eco, p) \<in> names_of r"
    by (cases r) (auto simp: graph_reads simp del: join_record.simps)
  then show ?case
    using Cons by auto
qed simp

lemma edge_named:
  "edge_in (fold (join_record j) rs gs) eco p d \<noteq> None \<longleftrightarrow>
     edge_in gs eco p d \<noteq> None \<or> (\<exists>r\<in>set rs. (eco, p, d) \<in> edges_of r)"
proof (induction rs arbitrary: gs)
  case (Cons r rs)
  have "edge_in (join_record j r gs) eco p d \<noteq> None \<longleftrightarrow> edge_in gs eco p d \<noteq> None \<or> (eco, p, d) \<in> edges_of r"
    by (cases r) (auto simp: graph_reads simp del: join_record.simps)
  then show ?case
    using Cons by auto
qed simp

lemma reads_Nil [simp]: "popularity_in [] eco p = None" "edge_in [] eco p d = None"
  by (simp_all add: popularity_in_def edge_in_def)

section \<open>What a merged input holds\<close>

definition greatest_of :: "f64 \<Rightarrow> f64 list \<Rightarrow> bool" where
  "greatest_of v xs \<longleftrightarrow> v \<in> set xs \<and> list_all (\<lambda>x. f64_le x v) xs"

lemma f64_max_cases: "f64_max x y = x \<or> f64_max x y = y"
  by (simp add: f64_max_def)

lemma f64_le_refl: "\<not> f64_is_nan x \<Longrightarrow> f64_le x x"
  by (simp add: f64_le_def)

lemma fold_max_greatest:
  "\<not> f64_is_nan x \<Longrightarrow> list_all (\<lambda>y. \<not> f64_is_nan y) ys \<Longrightarrow>
   greatest_of (fold (\<lambda>y m. f64_max m y) ys x) (x # ys) \<and> \<not> f64_is_nan (fold (\<lambda>y m. f64_max m y) ys x)"
proof (induction ys arbitrary: x)
  case (Cons y ys)
  let ?m = "f64_max x y"
  have "\<not> f64_is_nan ?m" "f64_le x ?m" "f64_le y ?m"
    using Cons.prems f64_max_ge [of x y] f64_max_not_nan [of y x] by simp_all
  moreover from Cons.IH [OF this(1)] Cons.prems
  have "greatest_of (fold (\<lambda>y m. f64_max m y) ys ?m) (?m # ys)" "\<not> f64_is_nan (fold (\<lambda>y m. f64_max m y) ys ?m)"
    by simp_all
  ultimately show ?case
    using f64_max_cases [of x y] by (auto simp: greatest_of_def intro: f64_le_trans)
qed (simp add: greatest_of_def f64_le_refl)

fun offered_popularity :: "ecosystem \<Rightarrow> string \<Rightarrow> score_input \<Rightarrow> f64 list" where
  "offered_popularity eco p (SI_Package e q v) =
     (if e = eco \<and> normalize_package_name e q = p then [f64_max v f64_zero] else [])"
| "offered_popularity eco p (SI_Dependency e q d w ss c) = []"

fun offered_edge :: "ecosystem \<Rightarrow> string \<Rightarrow> string \<Rightarrow> score_input \<Rightarrow> (f64 \<times> string list \<times> f64 option) list" where
  "offered_edge eco p d (SI_Package e q v) = []"
| "offered_edge eco p d (SI_Dependency e q d' w ss c) =
     (if e = eco \<and> normalize_package_name e q = p \<and> normalize_package_name e d' = d
      then [(w, ss, c)] else [])"

definition offered_popularities :: "ecosystem \<Rightarrow> string \<Rightarrow> score_input list \<Rightarrow> f64 list" where
  "offered_popularities eco p rs = concat (map (offered_popularity eco p) rs)"

definition offered_edges :: "ecosystem \<Rightarrow> string \<Rightarrow> string \<Rightarrow> score_input list \<Rightarrow> (f64 \<times> string list \<times> f64 option) list" where
  "offered_edges eco p d rs = concat (map (offered_edge eco p d) rs)"

lemma f64_zero_not_nan [simp]: "\<not> f64_is_nan f64_zero"
  by (simp add: f64_is_nan_def f64_zero_def f64_magnitude_def)

lemma offers_not_nan: "list_all (\<lambda>y. \<not> f64_is_nan y) (offered_popularities eco p rs)"
proof -
  have "list_all (\<lambda>y. \<not> f64_is_nan y) (offered_popularity eco p r)" for r
    by (cases r) (simp_all add: f64_max_not_nan)
  then show ?thesis
    by (induction rs) (simp_all add: offered_popularities_def)
qed

lemma merged_popularity:
  "or_zero (popularity_in (fold merge_record rs gs) eco p)
     = fold (\<lambda>y m. f64_max m y) (offered_popularities eco p rs) (or_zero (popularity_in gs eco p))"
proof (induction rs arbitrary: gs)
  case (Cons r rs)
  have "or_zero (popularity_in (merge_record r gs) eco p)
      = fold (\<lambda>y m. f64_max m y) (offered_popularity eco p r) (or_zero (popularity_in gs eco p))"
    by (cases r) (auto simp: merge_record_def graph_reads simp del: join_record.simps)
  then show ?case
    using Cons by (simp add: offered_popularities_def)
qed (simp add: offered_popularities_def)

lemma merged_edge:
  "or_new_edge (edge_in (fold merge_record rs gs) eco p d)
     = fold (\<lambda>(w, ss, c). join_edge f64_max w ss c) (offered_edges eco p d rs) (or_new_edge (edge_in gs eco p d))"
proof (induction rs arbitrary: gs)
  case (Cons r rs)
  have "or_new_edge (edge_in (merge_record r gs) eco p d)
      = fold (\<lambda>(w, ss, c). join_edge f64_max w ss c) (offered_edge eco p d r) (or_new_edge (edge_in gs eco p d))"
    by (cases r) (auto simp: merge_record_def graph_reads simp del: join_record.simps)
  then show ?case
    using Cons by (simp add: offered_edges_def)
qed (simp add: offered_edges_def)

abbreviation join_edges :: "(f64 \<times> string list \<times> f64 option) list \<Rightarrow> edge_record \<Rightarrow> edge_record" where
  "join_edges es e \<equiv> fold (\<lambda>(w, ss, c). join_edge f64_max w ss c) es e"

lemma joined_weight:
  "er_weight (join_edges es e) = fold (\<lambda>y m. f64_max m y) (map (\<lambda>(w, _). f64_max w f64_zero) es) (er_weight e)"
  by (induction es arbitrary: e) (auto simp: join_edge_def split: prod.splits)

lemma merged_sources:
  "set (merge_edge_sources old ss) = set old \<union> (trim ` set ss - {[]})"
  "sorted old \<Longrightarrow> distinct old \<Longrightarrow> sorted (merge_edge_sources old ss) \<and> distinct (merge_edge_sources old ss)"
proof -
  have "set (fold insort_insert ys zs) = set ys \<union> set zs" for ys zs :: "string list"
    by (induction ys arbitrary: zs) (auto simp: set_insort_insert)
  then show "set (merge_edge_sources old ss) = set old \<union> (trim ` set ss - {[]})"
    by (auto simp: merge_edge_sources_def)
  show "sorted old \<Longrightarrow> distinct old \<Longrightarrow> sorted (merge_edge_sources old ss) \<and> distinct (merge_edge_sources old ss)"
    using fold_insort_insert [of old] by (simp add: merge_edge_sources_def)
qed

lemma joined_sources:
  "set (er_sources (join_edges es e)) = set (er_sources e) \<union> (trim ` \<Union> (set (map (\<lambda>(_, ss, _). set ss) es)) - {[]})"
proof (induction es arbitrary: e)
  case (Cons x es)
  obtain w ss c where x: "x = (w, ss, c)"
    by (cases x)
  have "er_sources (join_edge f64_max w ss c e) = merge_edge_sources (er_sources e) ss"
    by (simp add: join_edge_def)
  then show ?case
    using Cons [of "join_edge f64_max w ss c e"] by (simp add: x merged_sources(1) image_Un Un_Diff Un_assoc)
qed simp

lemma joined_sources_sorted:
  "sorted (er_sources e) \<Longrightarrow> distinct (er_sources e) \<Longrightarrow>
   sorted (er_sources (join_edges es e)) \<and> distinct (er_sources (join_edges es e))"
proof (induction es arbitrary: e)
  case (Cons x es)
  then show ?case
    using merged_sources(2) [of "er_sources e"] by (cases x) (simp add: join_edge_def)
qed simp

lemma graph_records_package:
  assumes "graph_wf g"
  shows "SI_Package eco' p v \<in> set (graph_records eco g) \<longleftrightarrow> eco' = eco \<and> map_of (eg_packages g) p = Some v"
proof -
  have "SI_Package eco' p v \<in> set (graph_records eco g) \<longleftrightarrow> eco' = eco \<and> (p, v) \<in> set (eg_packages g)"
    by (auto simp: graph_records_def)
  then show ?thesis
    using in_set_map_of [OF graph_wfD(1) [OF assms]] by simp
qed

lemma in_graph_edges:
  assumes "graph_wf g"
  shows "(p, d, e) \<in> set (graph_edges g) \<longleftrightarrow> (\<exists>ds. map_of (eg_dependency_weights g) p = Some ds \<and> map_of ds d = Some e)"
proof -
  have "(p, d, e) \<in> set (graph_edges g) \<longleftrightarrow> (\<exists>ds. (p, ds) \<in> set (eg_dependency_weights g) \<and> (d, e) \<in> set ds)"
    unfolding graph_edges_def by (simp add: split_beta image_iff Bex_def) blast
  also have "\<dots> \<longleftrightarrow> (\<exists>ds. map_of (eg_dependency_weights g) p = Some ds \<and> (d, e) \<in> set ds)"
    using in_set_map_of [OF graph_wfD(2) [OF assms]] by simp
  also have "\<dots> \<longleftrightarrow> (\<exists>ds. map_of (eg_dependency_weights g) p = Some ds \<and> map_of ds d = Some e)"
    using in_set_map_of [OF graph_wfD(3) [OF assms, of p]] by blast
  finally show ?thesis .
qed

lemma graph_records_dependency:
  assumes "graph_wf g"
  shows "SI_Dependency eco' p d w ss c \<in> set (graph_records eco g) \<longleftrightarrow> eco' = eco \<and>
     (\<exists>ds e. map_of (eg_dependency_weights g) p = Some ds \<and> map_of ds d = Some e
        \<and> er_weight e = w \<and> er_sources e = ss \<and> er_confidence e = c)"
proof -
  have "SI_Dependency eco' p d w ss c \<in> set (graph_records eco g) \<longleftrightarrow> eco' = eco \<and>
     (\<exists>e. (p, d, e) \<in> set (graph_edges g) \<and> er_weight e = w \<and> er_sources e = ss \<and> er_confidence e = c)"
    unfolding graph_records_def by (simp add: split_beta image_iff Bex_def) blast
  then show ?thesis
    using in_graph_edges [OF assms] by auto
qed


lemma in_records_of_graphs:
  "r \<in> set (concat (map (\<lambda>(eco, g). graph_records eco g) (List.map_filter (\<lambda>eco. map_option (Pair eco) (map_of gs eco)) graph_order)))
     \<longleftrightarrow> (\<exists>eco g. map_of gs eco = Some g \<and> r \<in> set (graph_records eco g))"
proof -
  have "eco \<in> set graph_order" for eco
    by (cases eco) (simp_all add: graph_order_def)
  then have "(eco, g) \<in> set (List.map_filter (\<lambda>eco. map_option (Pair eco) (map_of gs eco)) graph_order) \<longleftrightarrow> map_of gs eco = Some g" for eco g
    by (auto simp: map_filter_def intro!: image_eqI [where x = eco])
  then show ?thesis
    by auto
qed

definition merged_records :: "graphs \<Rightarrow> score_input list" where
  "merged_records gs = concat (map (\<lambda>(eco, g). graph_records eco g)
     (List.map_filter (\<lambda>eco. map_option (Pair eco) (map_of gs eco)) graph_order))"

lemma merged_records_iff:
  assumes "graphs_wf gs"
  shows "SI_Package eco p v \<in> set (merged_records gs) \<longleftrightarrow> popularity_in gs eco p = Some v"
    "SI_Dependency eco p d w ss c \<in> set (merged_records gs) \<longleftrightarrow>
       (\<exists>e. edge_in gs eco p d = Some e \<and> er_weight e = w \<and> er_sources e = ss \<and> er_confidence e = c)"
proof -
  have wf: "map_of gs eco = Some g \<Longrightarrow> graph_wf g" for eco g
    using assms by (simp add: graphs_wf_def)
  have "SI_Package eco p v \<in> set (merged_records gs) \<longleftrightarrow> (\<exists>g. map_of gs eco = Some g \<and> map_of (eg_packages g) p = Some v)"
    unfolding merged_records_def in_records_of_graphs
  proof (intro iffI; elim exE conjE)
    fix e g
    assume "map_of gs e = Some g" "SI_Package eco p v \<in> set (graph_records e g)"
    then show "\<exists>g. map_of gs eco = Some g \<and> map_of (eg_packages g) p = Some v"
      using graph_records_package [OF wf] by metis
  next
    fix g
    assume "map_of gs eco = Some g" "map_of (eg_packages g) p = Some v"
    then show "\<exists>e g. map_of gs e = Some g \<and> SI_Package eco p v \<in> set (graph_records e g)"
      using graph_records_package [OF wf] by metis
  qed
  then show "SI_Package eco p v \<in> set (merged_records gs) \<longleftrightarrow> popularity_in gs eco p = Some v"
    by (simp add: popularity_in_def bind_eq_Some_conv)
  have "SI_Dependency eco p d w ss c \<in> set (merged_records gs) \<longleftrightarrow>
      (\<exists>g ds e. map_of gs eco = Some g \<and> map_of (eg_dependency_weights g) p = Some ds \<and> map_of ds d = Some e
        \<and> er_weight e = w \<and> er_sources e = ss \<and> er_confidence e = c)"
    unfolding merged_records_def in_records_of_graphs
  proof (intro iffI; elim exE conjE)
    fix e g
    assume "map_of gs e = Some g" "SI_Dependency eco p d w ss c \<in> set (graph_records e g)"
    then show "\<exists>g ds e. map_of gs eco = Some g \<and> map_of (eg_dependency_weights g) p = Some ds \<and> map_of ds d = Some e
        \<and> er_weight e = w \<and> er_sources e = ss \<and> er_confidence e = c"
      using graph_records_dependency [OF wf] by metis
  next
    fix g ds e
    assume "map_of gs eco = Some g" "map_of (eg_dependency_weights g) p = Some ds" "map_of ds d = Some e"
      "er_weight e = w" "er_sources e = ss" "er_confidence e = c"
    then show "\<exists>e g. map_of gs e = Some g \<and> SI_Dependency eco p d w ss c \<in> set (graph_records e g)"
      using graph_records_dependency [OF wf] by metis
  qed
  then show "SI_Dependency eco p d w ss c \<in> set (merged_records gs) \<longleftrightarrow>
       (\<exists>e. edge_in gs eco p d = Some e \<and> er_weight e = w \<and> er_sources e = ss \<and> er_confidence e = c)"
    by (auto simp: edge_in_def bind_eq_Some_conv)
qed

text \<open>The names of a record, to say that no package and no edge is listed twice.\<close>

fun record_key :: "score_input \<Rightarrow> ecosystem \<times> string \<times> string option" where
  "record_key (SI_Package eco p v) = (eco, p, None)"
| "record_key (SI_Dependency eco p d w ss c) = (eco, p, Some d)"

lemma distinct_pairs:
  "distinct (map fst kss) \<Longrightarrow> list_all (\<lambda>x. distinct (snd x)) kss \<Longrightarrow>
   distinct (concat (map (\<lambda>x. map (Pair (fst x)) (snd x)) kss))"
proof (induction kss)
  case (Cons x kss)
  have "fst y \<in> set (map fst kss)" if "y \<in> set (concat (map (\<lambda>x. map (Pair (fst x)) (snd x)) kss))" for y
    using that by auto (metis fst_conv image_eqI)
  moreover have "fst y = fst x" if "y \<in> set (map (Pair (fst x)) (snd x))" for y
    using that by auto
  moreover have "fst x \<notin> set (map fst kss)"
    using Cons.prems(1) by simp
  ultimately have "y \<notin> set (concat (map (\<lambda>x. map (Pair (fst x)) (snd x)) kss))" if "y \<in> set (map (Pair (fst x)) (snd x))" for y
    using that by metis
  then have "set (map (Pair (fst x)) (snd x)) \<inter> set (concat (map (\<lambda>x. map (Pair (fst x)) (snd x)) kss)) = {}"
    by blast
  then show ?case
    using Cons by (simp add: distinct_map inj_on_def del: set_concat set_map)
qed simp

lemma distinct_graph_edges:
  assumes "graph_wf g"
  shows "distinct (map (\<lambda>(p, d, e). (p, d)) (graph_edges g))"
proof -
  let ?kss = "map (\<lambda>(p, ds). (p, keys (in_key_order ds))) (in_key_order (eg_dependency_weights g))"
  have "map (\<lambda>(p, d, e). (p, d)) (graph_edges g) = concat (map (\<lambda>x. map (Pair (fst x)) (snd x)) ?kss)"
    by (simp add: graph_edges_def map_concat comp_def split_beta)
  moreover have "list_all (\<lambda>x. distinct (snd x)) ?kss"
    unfolding list_all_iff
  proof (clarsimp simp del: map_map)
    fix p ds
    assume "(p, ds) \<in> set (eg_dependency_weights g)"
    then show "distinct (keys ds)"
      using in_set_map_of [OF graph_wfD(2) [OF assms]] graph_wfD(3) [OF assms] by blast
  qed
  moreover have "map fst ?kss = keys (in_key_order (eg_dependency_weights g))"
    by (simp add: comp_def split_beta)
  ultimately show ?thesis
    using graph_wfD(2) [OF assms] distinct_pairs [of ?kss] by (simp only: distinct_keys_in_key_order)
qed

lemma distinct_graph_records:
  assumes "graph_wf g"
  shows "distinct (map record_key (graph_records eco g))"
proof -
  have "map record_key (graph_records eco g)
      = map (\<lambda>p. (eco, p, None)) (keys (in_key_order (eg_packages g)))
      @ map (\<lambda>(p, d). (eco, p, Some d)) (map (\<lambda>(p, d, e). (p, d)) (graph_edges g))"
    by (simp add: graph_records_def comp_def split_beta)
  moreover have "distinct (map (\<lambda>p. (eco, p, None :: string option)) (keys (in_key_order (eg_packages g))))"
    using graph_wfD(1) [OF assms] by (subst distinct_map) (auto simp: inj_on_def)
  moreover have "distinct (map (\<lambda>(p, d). (eco, p, Some d)) (map (\<lambda>(p, d, e). (p, d)) (graph_edges g)))"
    using distinct_graph_edges [OF assms] by (subst distinct_map) (auto simp: inj_on_def)
  ultimately show ?thesis
    by auto
qed

lemma distinct_merged_records:
  assumes "graphs_wf gs"
  shows "distinct (map record_key (merged_records gs))"
proof -
  have eco: "r \<in> set (graph_records eco g) \<Longrightarrow> fst (record_key r) = eco" for r eco g
    by (auto simp: graph_records_def)
  have wf: "map_of gs eco = Some g \<Longrightarrow> distinct (map record_key (graph_records eco g))" for eco g
    using assms distinct_graph_records by (simp add: graphs_wf_def)
  define part where "part eco = (case map_of gs eco of None \<Rightarrow> [] | Some g \<Rightarrow> graph_records eco g)" for eco
  have whole: "merged_records gs = part Npm @ part Pypi @ part CratesIo"
    by (simp add: merged_records_def graph_order_def map_filter_simps part_def split: option.splits)
  have "distinct (map record_key (part eco))" for eco
    using wf by (simp add: part_def split: option.splits)
  moreover have "r \<in> set (part eco) \<Longrightarrow> fst (record_key r) = eco" for r eco
    using eco by (auto simp: part_def split: option.splits)
  then have "record_key r \<noteq> record_key r'" if "r \<in> set (part a)" "r' \<in> set (part b)" "a \<noteq> b" for r r' a b
    using that by metis
  ultimately show ?thesis
    unfolding whole by (auto simp: image_iff)
qed


lemma merged_package_greatest:
  assumes "popularity_in (fold merge_record records []) eco p = Some v"
  shows "greatest_of v (f64_zero # offered_popularities eco p records)"
proof -
  have "v = fold (\<lambda>y m. f64_max m y) (offered_popularities eco p records) f64_zero"
    using merged_popularity [of records "[]" eco p] assms by simp
  then show ?thesis
    using fold_max_greatest [of f64_zero] offers_not_nan by simp
qed

lemma merged_edge_greatest:
  assumes "edge_in (fold merge_record records []) eco p d = Some e"
  shows "greatest_of (er_weight e) (f64_zero # map (\<lambda>(w, _). f64_max w f64_zero) (offered_edges eco p d records))
    \<and> sorted (er_sources e) \<and> distinct (er_sources e)
    \<and> set (er_sources e) = trim ` \<Union> (set (map (\<lambda>(_, ss, _). set ss) (offered_edges eco p d records))) - {[]}"
proof -
  let ?es = "offered_edges eco p d records"
  have e: "e = join_edges ?es edge_default"
    using merged_edge [of records "[]" eco p d] assms by simp
  have "list_all (\<lambda>y. \<not> f64_is_nan y) (map (\<lambda>(w, _). f64_max w f64_zero) ?es)"
    by (auto simp: list_all_iff f64_max_not_nan)
  then have "greatest_of (er_weight e) (f64_zero # map (\<lambda>(w, _). f64_max w f64_zero) ?es)"
    using fold_max_greatest [of f64_zero] by (simp add: e joined_weight edge_default_def)
  then show ?thesis
    using joined_sources [of ?es edge_default] joined_sources_sorted [of edge_default ?es]
    by (simp add: e edge_default_def)
qed

lemma merge_ok:
  assumes "merge_score_input_ndjson dec bodies n = Inr (out, summary)" "parse_bodies dec bodies = Inr records"
  shows "out = merged_records (fold merge_record records [])"
  using assms by (auto simp: merge_score_input_ndjson_def merged_records_def Let_def)

lemma merged_wf: "graphs_wf (fold merge_record records [])"
  unfolding merge_record_def by (rule graphs_wf_fold [OF graphs_wf_Nil])

text \<open>C7: A merged input lists every package and every edge named in the inputs once, a package with the greatest
  popularity offered for it (at least zero), an edge with the greatest weight and the sorted set of its
  trimmed sources, whatever the order and the number of the records.\<close>

theorem merged_input_exact:
  assumes "merge_score_input_ndjson dec bodies n = Inr (out, summary)" "parse_bodies dec bodies = Inr records"
  shows "distinct (map record_key out)
    \<and> (\<forall>eco p. (\<exists>v. SI_Package eco p v \<in> set out) \<longleftrightarrow> (\<exists>r\<in>set records. (eco, p) \<in> names_of r))
    \<and> (\<forall>eco p d. (\<exists>w ss c. SI_Dependency eco p d w ss c \<in> set out) \<longleftrightarrow> (\<exists>r\<in>set records. (eco, p, d) \<in> edges_of r))
    \<and> (\<forall>eco p v. SI_Package eco p v \<in> set out \<longrightarrow> greatest_of v (f64_zero # offered_popularities eco p records))
    \<and> (\<forall>eco p d w ss c. SI_Dependency eco p d w ss c \<in> set out \<longrightarrow>
        greatest_of w (f64_zero # map (\<lambda>(w, _). f64_max w f64_zero) (offered_edges eco p d records))
        \<and> sorted ss \<and> distinct ss \<and> set ss = trim ` \<Union> (set (map (\<lambda>(_, ss, _). set ss) (offered_edges eco p d records))) - {[]})"
    (is "_ \<and> ?names \<and> ?edges \<and> ?packages \<and> ?dependencies")
proof -
  note out = merge_ok [OF assms]
  note iff = merged_records_iff [OF merged_wf [of records], folded out]
  have "distinct (map record_key out)"
    unfolding out by (rule distinct_merged_records [OF merged_wf])
  moreover have ?names
    using popularity_named [of f64_max records "[]"] by (auto simp: iff merge_record_def)
  moreover have ?edges
    using edge_named [of f64_max records "[]"] by (auto simp: iff merge_record_def)
  moreover have ?packages
    using merged_package_greatest by (simp add: iff)
  moreover have ?dependencies
    unfolding iff using merged_edge_greatest by blast
  ultimately show ?thesis
    by blast
qed


section \<open>Coverage of the scores\<close>

definition score_key :: "priority_score_record \<Rightarrow> ecosystem \<times> string" where
  "score_key r = (sc_ecosystem r, sc_package r)"

lemma score_ecosystem_keys: "map score_key (score_ecosystem ln now cfg eco g) = map (Pair eco) (keys (in_key_order (eg_packages g)))"
  by (simp add: score_ecosystem_def Let_def score_key_def comp_def)

definition build_part :: "(f64 \<Rightarrow> f64) \<Rightarrow> datetime \<Rightarrow> score_build_config \<Rightarrow> graphs \<Rightarrow> ecosystem \<Rightarrow> priority_score_record list" where
  "build_part ln now cfg gs eco = (case map_of gs eco of None \<Rightarrow> [] | Some g \<Rightarrow> score_ecosystem ln now cfg eco g)"

lemma scored_graphs_parts:
  "concat (map (\<lambda>(_, _, rs). rs) (scored_graphs ln now cfg gs)) = concat (map (build_part ln now cfg gs) graph_order)"
  by (simp add: scored_graphs_def graph_order_def map_filter_simps build_part_def split: option.splits)

lemma build_part_keys:
  assumes "graphs_wf gs"
  shows "distinct (map score_key (build_part ln now cfg gs eco))"
    "k \<in> set (map score_key (build_part ln now cfg gs eco)) \<longleftrightarrow> fst k = eco \<and> popularity_in gs eco (snd k) \<noteq> None"
proof -
  show "distinct (map score_key (build_part ln now cfg gs eco))"
    using assms graph_wfD(1) unfolding graphs_wf_def
    by (auto simp: build_part_def score_ecosystem_keys distinct_map [of "Pair eco"] inj_on_def simp del: map_map split: option.splits)
  show "k \<in> set (map score_key (build_part ln now cfg gs eco)) \<longleftrightarrow> fst k = eco \<and> popularity_in gs eco (snd k) \<noteq> None"
  proof (cases "map_of gs eco")
    case (Some g)
    have "set (map score_key (build_part ln now cfg gs eco)) = Pair eco ` set (keys (eg_packages g))"
      unfolding build_part_def Some option.case score_ecosystem_keys by (simp add: image_image)
    then show ?thesis
      using dom_map_of_keys [of "eg_packages g" "snd k"] by (cases k) (auto simp: popularity_in_def Some)
  qed (simp add: build_part_def popularity_in_def)
qed

lemma build_parts_distinct:
  assumes "graphs_wf gs"
  shows "distinct (map score_key (concat (map (build_part ln now cfg gs) graph_order)))"
proof -
  have "score_key r \<noteq> score_key r'"
    if "r \<in> set (build_part ln now cfg gs a)" "r' \<in> set (build_part ln now cfg gs b)" "a \<noteq> b" for r r' a b
    using that build_part_keys(2) [OF assms] by (metis image_eqI set_map)
  then show ?thesis
    using build_part_keys(1) [OF assms] by (auto simp: graph_order_def image_iff)
qed

lemma build_ok:
  assumes "build_priority_scores_from_ndjson ln now dec input cfg = Inr (scores, summary)"
    "parse_ndjson ''failed to parse scoring input line'' dec (str_lines input) = Inr records"
  defines "gs \<equiv> fold build_record records []"
  shows "scores = sort_key score_order (concat (map (build_part ln now cfg gs) graph_order))"
    "bs_scored_packages summary = length scores"
    "bs_ecosystems summary = map (\<lambda>(eco, g, rs). \<lparr>es_ecosystem = eco, es_packages = length rs,
       es_dependencies = eg_input_dependency_records g, es_priorities = count_priorities rs\<rparr>) (scored_graphs ln now cfg gs)"
  using assms(1,2) unfolding build_priority_scores_from_ndjson_def scored_graphs_parts [symmetric] gs_def
  by (auto simp: Let_def split: option.splits)

lemma built_wf: "graphs_wf (fold build_record records [])"
  unfolding build_record_def by (rule graphs_wf_fold [OF graphs_wf_Nil])

text \<open>C8: A successful score build scores exactly the packages named in its input, dependencies included, each
  once under its normalised name, ordered by ecosystem, falling impact and name.\<close>

theorem scores_cover_inputs:
  assumes "build_priority_scores_from_ndjson ln now dec input cfg = Inr (scores, summary)"
    "parse_ndjson ''failed to parse scoring input line'' dec (str_lines input) = Inr records"
  shows "distinct (map score_key scores) \<and> set (map score_key scores) = \<Union> (names_of ` set records)
    \<and> sorted (map score_order scores) \<and> bs_scored_packages summary = card (\<Union> (names_of ` set records))"
proof -
  let ?gs = "fold build_record records []"
  note ok = build_ok [OF assms]
  have d: "distinct (map score_key scores)"
    unfolding ok(1) distinct_map_sort_key by (rule build_parts_distinct [OF built_wf])
  have "k \<in> set (map score_key scores) \<longleftrightarrow> (\<exists>eco. k \<in> set (map score_key (build_part ln now cfg ?gs eco)))" for k
  proof -
    have "eco \<in> set graph_order" for eco
      by (cases eco) (simp_all add: graph_order_def)
    then show ?thesis
      unfolding ok(1) by auto
  qed
  moreover have "popularity_in ?gs eco p \<noteq> None \<longleftrightarrow> (\<exists>r\<in>set records. (eco, p) \<in> names_of r)" for eco p
    using popularity_named [of f64_add records "[]"] by (simp add: build_record_def)
  ultimately have s: "set (map score_key scores) = \<Union> (names_of ` set records)"
    unfolding build_part_keys(2) [OF built_wf] set_eq_iff by auto
  have "sorted (map score_order scores)"
    unfolding ok(1) by simp
  then show ?thesis
    using d s ok(2) by (metis distinct_card length_map)
qed

section \<open>Ranks\<close>

definition same_keys :: "value_map \<Rightarrow> value_map \<Rightarrow> bool" where
  "same_keys m m' \<longleftrightarrow> distinct (keys m') \<and> set (keys m') = set (keys m)"

lemma same_keys_refl: "distinct (keys m) \<Longrightarrow> same_keys m m"
  by (simp add: same_keys_def)

lemma same_keys_entry: "same_keys m m' \<Longrightarrow> d \<in> set (keys m) \<Longrightarrow> same_keys m (entry_update d z f m')"
proof -
  assume a: "same_keys m m'" "d \<in> set (keys m)"
  have "insert d (set (keys m)) = set (keys m)"
    using a(2) by (rule insert_absorb)
  then show ?thesis
    using a(1) unfolding same_keys_def keys_entry_update by (simp only: distinct_entry_update simp_thms)
qed

lemma same_keys_spread_package:
  assumes "same_keys m m'" "set (keys (snd pd)) \<subseteq> set (keys m)"
  shows "same_keys m (spread_package alpha impact pd m')"
proof -
  have "same_keys m (fold (\<lambda>(d, e). entry_update d f64_zero (h e)) ds m')"
    if "set (keys ds) \<subseteq> set (keys m)" "same_keys m m'" for h :: "edge_record \<Rightarrow> f64 \<Rightarrow> f64" and ds m'
    using that
  proof (induction ds arbitrary: m')
    case (Cons de ds)
    then have "fst de \<in> set (keys m)" "set (keys ds) \<subseteq> set (keys m)"
      by simp_all
    with Cons.prems(2) Cons.IH show ?case
      by (cases de) (simp only: fold.simps comp_apply prod.case fst_conv same_keys_entry)
  qed simp
  then show ?thesis
    using assms by (cases pd) (simp add: spread_package_def Let_def)
qed

lemma same_keys_spread:
  assumes "graph_wf g"
  shows "same_keys (eg_packages g) (spread alpha g (eg_packages g) impact)"
proof -
  have "set (keys (snd pd)) \<subseteq> set (keys (eg_packages g))" if "pd \<in> set (in_key_order (eg_dependency_weights g))" for pd
  proof -
    have "(fst pd, snd pd) \<in> set (eg_dependency_weights g)"
      using that by simp
    then show ?thesis
      unfolding in_set_map_of [OF graph_wfD(2) [OF assms]] by (rule graph_wfD(5) [OF assms])
  qed
  note sub = this
  have "same_keys (eg_packages g) (fold (spread_package alpha impact) pds m)"
    if "set pds \<subseteq> set (in_key_order (eg_dependency_weights g))" "same_keys (eg_packages g) m" for pds m
    using that
  proof (induction pds arbitrary: m)
    case (Cons pd pds)
    from Cons.prems have "pd \<in> set (in_key_order (eg_dependency_weights g))" "set pds \<subseteq> set (in_key_order (eg_dependency_weights g))"
      by simp_all
    with same_keys_spread_package [OF Cons.prems(2)] Cons.IH sub show ?case
      by (simp only: fold.simps comp_apply)
  qed simp
  then show ?thesis
    unfolding spread_def using same_keys_refl [OF graph_wfD(1) [OF assms]] by blast
qed

lemma same_keys_propagate:
  "graph_wf g \<Longrightarrow> same_keys (eg_packages g) impact \<Longrightarrow>
   same_keys (eg_packages g) (propagate alpha epsilon g (eg_packages g) n impact)"
  by (induction n arbitrary: impact) (simp_all add: Let_def same_keys_spread)

lemma same_keys_guardrails: "same_keys m impact \<Longrightarrow> same_keys m (apply_structural_guardrails eco g direct impact)"
proof -
  have "same_keys m (fold (\<lambda>(package, dependents) impact.
          case guardrail_applies (value_at direct package) dependents of
            None \<Rightarrow> impact
          | Some penalty \<Rightarrow> map (\<lambda>(p, v). (p, if p = package then f64_mul v penalty else v)) impact) rs impact)"
    if "same_keys m impact" for rs impact
    using that
  proof (induction rs arbitrary: impact)
    case (Cons r rs)
    have "keys (map (\<lambda>(p, v). (p, if p = fst r then f64_mul v penalty else v)) impact) = keys impact" for penalty
      by (simp add: comp_def split_beta)
    then show ?case
      using Cons by (cases r) (simp add: same_keys_def del: set_map map_map split: option.splits)
  qed simp
  then show "same_keys m impact \<Longrightarrow> ?thesis"
    by (simp add: apply_structural_guardrails_def)
qed

lemma rank_below_iff:
  assumes "distinct xs" "p \<in> set xs"
  shows "rank_below (zip xs [0..<length xs]) p h \<longleftrightarrow> p \<in> set (take h xs)"
proof -
  obtain i where i: "i < length xs" "p = xs ! i"
    using assms(2) by (metis in_set_conv_nth)
  have "map_of (zip xs [0..<length xs]) p = Some i"
    using map_of_zip_nth [of xs "[0..<length xs]" i] assms(1) i by simp
  moreover have "p \<in> set (take h xs) \<longleftrightarrow> i < h"
    using assms(1) i by (auto simp: in_set_conv_nth nth_eq_iff_index_eq)
  ultimately show ?thesis
    by (simp add: rank_below_def)
qed

lemma descending_ranked_props:
  assumes "same_keys m m'"
  shows "distinct (descending_ranked m')" "set (descending_ranked m') = set (keys m)"
    "descending_rank_map m' = zip (descending_ranked m') [0..<length (descending_ranked m')]"
  using assms by (simp_all add: same_keys_def descending_ranked_def descending_rank_map_def distinct_map_sort_key)

lemma top_bucket_le: "top_bucket_size n q \<le> n"
  by (simp add: top_bucket_size_def Let_def)

text \<open>How many names two rankings put among their first \<open>h\<close>.\<close>

lemma union_of_tops:
  assumes "distinct xs" "distinct ys" "set xs = set ys" "h \<le> length xs"
  shows "h \<le> card (set (take h xs) \<union> set (take h ys)) \<and> card (set (take h xs) \<union> set (take h ys)) \<le> 2 * h"
proof -
  have "length ys = length xs"
    using assms(1-3) by (metis distinct_card)
  then have "card (set (take h xs)) = h" "card (set (take h ys)) = h"
    using assms by (simp_all add: distinct_card)
  then show ?thesis
    using card_mono [of "set (take h xs) \<union> set (take h ys)" "set (take h xs)"] card_Un_le [of "set (take h xs)" "set (take h ys)"]
    by simp
qed

definition in_tier :: "priority_tier set \<Rightarrow> priority_score_record list \<Rightarrow> nat" where
  "in_tier ts rs = length (filter (\<lambda>r. sc_priority_tier r \<in> ts) rs)"

lemma count_priorities_in_tier:
  "pc_high (count_priorities rs) = in_tier {High} rs \<and> pc_medium (count_priorities rs) = in_tier {Medium} rs
   \<and> pc_low (count_priorities rs) = in_tier {Low} rs"
proof -
  have "pc_high (fold (\<lambda>r c. case sc_priority_tier r of High \<Rightarrow> c\<lparr>pc_high := pc_high c + 1\<rparr>
       | Medium \<Rightarrow> c\<lparr>pc_medium := pc_medium c + 1\<rparr> | Low \<Rightarrow> c\<lparr>pc_low := pc_low c + 1\<rparr>) rs c) = pc_high c + in_tier {High} rs
     \<and> pc_medium (fold (\<lambda>r c. case sc_priority_tier r of High \<Rightarrow> c\<lparr>pc_high := pc_high c + 1\<rparr>
       | Medium \<Rightarrow> c\<lparr>pc_medium := pc_medium c + 1\<rparr> | Low \<Rightarrow> c\<lparr>pc_low := pc_low c + 1\<rparr>) rs c) = pc_medium c + in_tier {Medium} rs
     \<and> pc_low (fold (\<lambda>r c. case sc_priority_tier r of High \<Rightarrow> c\<lparr>pc_high := pc_high c + 1\<rparr>
       | Medium \<Rightarrow> c\<lparr>pc_medium := pc_medium c + 1\<rparr> | Low \<Rightarrow> c\<lparr>pc_low := pc_low c + 1\<rparr>) rs c) = pc_low c + in_tier {Low} rs" for c
  proof (induction rs arbitrary: c)
    case (Cons r rs)
    then show ?case
      by (cases "sc_priority_tier r") (simp_all add: in_tier_def)
  qed (simp add: in_tier_def)
  from this [of counts_zero] show ?thesis
    unfolding count_priorities_def by (simp only: counts_zero_def priority_counts.select_convs add_0)
qed

lemma tier_counts:
  fixes cfg :: score_build_config
  assumes "graph_wf g"
  defines "n \<equiv> length (eg_packages g)"
  defines "h \<equiv> top_bucket_size n (sb_high_quantile cfg)"
  defines "m \<equiv> max h (top_bucket_size n (sb_medium_quantile cfg))"
  shows "h \<le> in_tier {High} (score_ecosystem ln now cfg eco g) \<and> in_tier {High} (score_ecosystem ln now cfg eco g) \<le> 2 * h
    \<and> m \<le> in_tier {High, Medium} (score_ecosystem ln now cfg eco g) \<and> in_tier {High, Medium} (score_ecosystem ln now cfg eco g) \<le> 2 * m"
proof -
  let ?P = "eg_packages g" and ?ps = "keys (in_key_order (eg_packages g))"
  define impact where "impact = apply_structural_guardrails eco g ?P
      (propagate (sb_alpha cfg) (sb_epsilon cfg) g ?P (sb_max_iterations cfg) ?P)"
  define hidden where "hidden = map (\<lambda>p. (p, f64_max (hidden_leverage_of ln (value_at impact p) (value_at ?P p)) f64_zero)) ?ps"
  let ?A = "descending_ranked impact" and ?B = "descending_ranked hidden"
  let ?tier = "tier_by_ranks h (top_bucket_size n (sb_medium_quantile cfg)) (descending_rank_map impact) (descending_rank_map hidden)"
  have dp: "distinct ?ps" "set ?ps = set (keys ?P)"
    using graph_wfD(1) [OF assms(1)] by simp_all
  have ki: "same_keys ?P impact"
    unfolding impact_def by (intro same_keys_guardrails same_keys_propagate [OF assms(1)] same_keys_refl graph_wfD(1) [OF assms(1)])
  have kh: "same_keys ?P hidden"
    using dp unfolding same_keys_def hidden_def by (simp add: comp_def)
  note A = descending_ranked_props [OF ki] and B = descending_ranked_props [OF kh]
  have len: "length ?A = n"
    using A(1,2) graph_wfD(1) [OF assms(1)] unfolding n_def by (metis distinct_card length_map)
  have count: "in_tier ts (score_ecosystem ln now cfg eco g) = card {p \<in> set ?ps. ?tier p \<in> ts}" for ts
  proof -
    have "length ?ps = n"
      by (simp add: n_def)
    then have "in_tier ts (score_ecosystem ln now cfg eco g) = length (filter (\<lambda>p. ?tier p \<in> ts) ?ps)"
      by (simp add: score_ecosystem_def in_tier_def Let_def filter_map comp_def h_def hidden_def flip: impact_def)
    also have "\<dots> = card ({p. ?tier p \<in> ts} \<inter> set ?ps)"
      by (rule distinct_length_filter [OF dp(1)])
    finally show ?thesis
      by (simp only: Int_def mem_Collect_eq conj_commute)
  qed
  have top: "{p \<in> set ?ps. rank_below (descending_rank_map impact) p k \<or> rank_below (descending_rank_map hidden) p k}
      = set (take k ?A) \<union> set (take k ?B)" for k
    using rank_below_iff [OF A(1)] rank_below_iff [OF B(1)] set_take_subset [of k ?A] set_take_subset [of k ?B]
    unfolding A(3) B(3) dp(2) A(2) [symmetric] using A(2) B(2) by blast
  have both: "rank_below r p k \<Longrightarrow> k \<le> k' \<Longrightarrow> rank_below r p k'" for r p k k'
    by (auto simp: rank_below_def split: option.splits)
  have "{p \<in> set ?ps. ?tier p \<in> {High}} = set (take h ?A) \<union> set (take h ?B)"
    unfolding top [symmetric] by (auto simp: tier_by_ranks_def)
  moreover have "{p \<in> set ?ps. ?tier p \<in> {High, Medium}} = set (take m ?A) \<union> set (take m ?B)"
  proof -
    have "rank_below r p m \<longleftrightarrow> rank_below r p h \<or> rank_below r p (top_bucket_size n (sb_medium_quantile cfg))" for r p
      by (auto simp: m_def rank_below_def max_def split: option.splits)
    then show ?thesis
      unfolding top [symmetric] by (auto simp: tier_by_ranks_def)
  qed
  moreover have "h \<le> length ?A" "m \<le> length ?A"
    using top_bucket_le len by (simp_all add: h_def m_def)
  ultimately show ?thesis
    using union_of_tops [OF A(1) B(1)] A(2) B(2) by (simp only: count)
qed

definition tiers_bounded :: "score_build_config \<Rightarrow> ecosystem_score_summary \<Rightarrow> bool" where
  "tiers_bounded cfg s \<longleftrightarrow>
     (let h = top_bucket_size (es_packages s) (sb_high_quantile cfg);
          m = max h (top_bucket_size (es_packages s) (sb_medium_quantile cfg));
          c = es_priorities s
      in h \<le> pc_high c \<and> pc_high c \<le> 2 * h \<and> m \<le> pc_high c + pc_medium c \<and> pc_high c + pc_medium c \<le> 2 * m
         \<and> pc_high c + pc_medium c + pc_low c = es_packages s)"

lemma in_tier_split:
  "in_tier {High, Medium} rs = in_tier {High} rs + in_tier {Medium} rs"
  "in_tier {High} rs + in_tier {Medium} rs + in_tier {Low} rs = length rs"
proof -
  have "in_tier {High, Medium} rs = in_tier {High} rs + in_tier {Medium} rs
      \<and> in_tier {High} rs + in_tier {Medium} rs + in_tier {Low} rs = length rs"
  proof (induction rs)
    case (Cons r rs)
    then show ?case
      by (cases "sc_priority_tier r") (simp_all add: in_tier_def)
  qed (simp add: in_tier_def)
  then show "in_tier {High, Medium} rs = in_tier {High} rs + in_tier {Medium} rs"
    "in_tier {High} rs + in_tier {Medium} rs + in_tier {Low} rs = length rs"
    by simp_all
qed

lemma tiers_bounded_graph:
  assumes "graph_wf g"
  shows "tiers_bounded cfg \<lparr>es_ecosystem = eco, es_packages = length (score_ecosystem ln now cfg eco g),
    es_dependencies = k, es_priorities = count_priorities (score_ecosystem ln now cfg eco g)\<rparr>"
proof -
  let ?rs = "score_ecosystem ln now cfg eco g"
  have "length ?rs = length (eg_packages g)"
    by (simp add: score_ecosystem_def Let_def)
  then show ?thesis
    using tier_counts [OF assms, where cfg = cfg and ln = ln and now = now and eco = eco] in_tier_split [of ?rs]
    by (simp add: tiers_bounded_def Let_def count_priorities_in_tier)
qed

text \<open>C25: In every ecosystem of a successful score build with \<open>n\<close> packages, at least the \<open>h\<close> packages the high
  quantile leaves on top and at most twice as many are High, the same holds for High and Medium together
  with the medium quantile, and every package has one tier.\<close>

theorem score_tiers_bounded:
  assumes "build_priority_scores_from_ndjson ln now dec input cfg = Inr (scores, summary)"
  shows "list_all (tiers_bounded cfg) (bs_ecosystems summary)"
proof -
  obtain records where r: "parse_ndjson ''failed to parse scoring input line'' dec (str_lines input) = Inr records"
    using assms unfolding build_priority_scores_from_ndjson_def
    by (cases "parse_ndjson ''failed to parse scoring input line'' dec (str_lines input)") (auto split: option.splits)
  let ?gs = "fold build_record records []"
  have "graph_wf g \<and> rs = score_ecosystem ln now cfg eco g" if "(eco, g, rs) \<in> set (scored_graphs ln now cfg ?gs)" for eco g rs
    using that built_wf [of records] by (auto simp: scored_graphs_def graphs_wf_def map_filter_def)
  then show ?thesis
    unfolding build_ok(3) [OF assms r] list_all_iff set_map using tiers_bounded_graph by fastforce
qed

section \<open>Witnesses\<close>

text \<open>Two lines of one npm dependency, \<open>A\<close> on \<open>B\<close>.\<close>

definition demo_decode :: "string \<Rightarrow> score_input option" where
  "demo_decode line = (if line = ''d'' then Some (SI_Dependency Npm ''A'' ''B'' f64_one ['' x ''] None)
     else if line = ''p'' then Some (SI_Package Npm ''b'' 0x4024000000000000) else None)"

definition demo_input :: string where
  "demo_input = ''d'' @ [CHR 0x0A] @ ''p''"

definition demo_build_config :: score_build_config where
  "demo_build_config = \<lparr>sb_alpha = 0x3FE0000000000000, sb_max_iterations = 3, sb_epsilon = f64_zero,
     sb_high_quantile = 0x3FE0000000000000, sb_medium_quantile = 0x3FE0000000000000, sb_score_source_version = None\<rparr>"

lemma demo_lines: "parse_ndjson ''failed to parse scoring input line'' demo_decode (str_lines demo_input)
    = Inr [SI_Dependency Npm ''A'' ''B'' f64_one ['' x ''] None, SI_Package Npm ''b'' 0x4024000000000000]"
proof -
  have "str_lines demo_input = [''d'', ''p'']" "trim ''d'' \<noteq> []" "trim ''p'' \<noteq> []"
    by code_simp+
  then show ?thesis
    by (simp add: demo_decode_def)
qed

lemma demo_names: "normalize_package_name Npm ''A'' = ''a''" "normalize_package_name Npm ''B'' = ''b''" "normalize_package_name Npm ''b'' = ''b''"
  by code_simp+

lemma demo_config_valid: "validate_config demo_build_config = None"
  by (simp add: validate_config_def demo_build_config_def f64_compute f64_zero_def f64_one_def cong: let_weak_cong)

lemma demo_build: "\<exists>scores summary. build_priority_scores_from_ndjson ln now demo_decode demo_input demo_build_config = Inr (scores, summary)"
  by (simp add: build_priority_scores_from_ndjson_def demo_config_valid demo_lines Let_def)

lemma demo_merge: "\<exists>out summary. merge_score_input_ndjson demo_decode [demo_input] 1 = Inr (out, summary)"
  by (simp add: merge_score_input_ndjson_def parse_bodies_def demo_lines Let_def)

lemma merged_input_exact_witness:
  "\<exists>out summary w ss c. merge_score_input_ndjson demo_decode [demo_input] 1 = Inr (out, summary)
     \<and> SI_Dependency Npm ''a'' ''b'' w ss c \<in> set out"
proof -
  obtain out summary where m: "merge_score_input_ndjson demo_decode [demo_input] 1 = Inr (out, summary)"
    using demo_merge by blast
  have p: "parse_bodies demo_decode [demo_input]
      = Inr [SI_Dependency Npm ''A'' ''B'' f64_one ['' x ''] None, SI_Package Npm ''b'' 0x4024000000000000]"
    by (simp add: parse_bodies_def demo_lines)
  have "\<forall>eco p d. (\<exists>w ss c. SI_Dependency eco p d w ss c \<in> set out) \<longleftrightarrow>
      (\<exists>r\<in>set [SI_Dependency Npm ''A'' ''B'' f64_one ['' x ''] None, SI_Package Npm ''b'' 0x4024000000000000]. (eco, p, d) \<in> edges_of r)"
    by (rule conjunct1 [OF conjunct2 [OF conjunct2 [OF merged_input_exact [OF m p]]]])
  then have "\<exists>w ss c. SI_Dependency Npm ''a'' ''b'' w ss c \<in> set out"
    by (simp add: demo_names)
  then show ?thesis
    using m by blast
qed

lemma scores_cover_inputs_witness:
  "\<exists>scores summary. build_priority_scores_from_ndjson (\<lambda>x. x) 0 demo_decode demo_input demo_build_config = Inr (scores, summary)
     \<and> set (map score_key scores) = {(Npm, ''a''), (Npm, ''b'')} \<and> bs_scored_packages summary = 2"
proof -
  obtain scores summary where b: "build_priority_scores_from_ndjson (\<lambda>x. x) 0 demo_decode demo_input demo_build_config = Inr (scores, summary)"
    using demo_build by blast
  have names: "\<Union> (names_of ` set [SI_Dependency Npm ''A'' ''B'' f64_one ['' x ''] None, SI_Package Npm ''b'' 0x4024000000000000])
      = {(Npm, ''a''), (Npm, ''b'')}"
    by (auto simp: demo_names)
  note c = scores_cover_inputs [OF b demo_lines, unfolded names]
  have "set (map score_key scores) = {(Npm, ''a''), (Npm, ''b'')}" "bs_scored_packages summary = card {(Npm, ''a''), (Npm, ''b'')}"
    using c by (iprover elim: conjE)+
  then show ?thesis
    using b by (intro exI conjI) (simp_all add: numeral_2_eq_2)
qed

lemma score_tiers_bounded_witness:
  "\<exists>scores summary. build_priority_scores_from_ndjson (\<lambda>x. x) 0 demo_decode demo_input demo_build_config = Inr (scores, summary)
     \<and> list_all (tiers_bounded demo_build_config) (bs_ecosystems summary)"
  using demo_build score_tiers_bounded by blast

end
