(* ===== verification/Priority_Data.thy ===== *)
theory Priority_Data
  imports Scoring Store_Queries Capture_Extract
begin

text \<open>
  The data of \<open>priority.rs\<close>: which of two snapshots of a package wins, the merges of score records and of
  census records, the files they live in, the thresholds and snapshots of the online fallbacks, and the
  queries over a score file.
\<close>

section \<open>Which snapshot wins\<close>

fun priority_source_rank :: "priority_source \<Rightarrow> nat" where
  "priority_source_rank DefaultUnknown = 0"
| "priority_source_rank KnownPackageStub = 1"
| "priority_source_rank PackageCensus = 2"
| "priority_source_rank LocalGraph = 3"
| "priority_source_rank DepsDevDependentsApi = 4"
| "priority_source_rank EcosysteMsCountsApi = 4"
| "priority_source_rank OfflineScoreFile = 5"

fun priority_tier_rank :: "priority_tier \<Rightarrow> nat" where
  "priority_tier_rank Low = 0"
| "priority_tier_rank Medium = 1"
| "priority_tier_rank High = 2"

definition metric_or_zero :: "f64 option \<Rightarrow> f64" where
  "metric_or_zero v = (case v of Some x \<Rightarrow> x | None \<Rightarrow> f64_zero)"

definition should_replace_snapshot :: "priority_snapshot \<Rightarrow> priority_snapshot \<Rightarrow> bool" where
  "should_replace_snapshot existing candidate =
     (if priority_source_rank (ps_source candidate) \<noteq> priority_source_rank (ps_source existing)
      then priority_source_rank (ps_source candidate) > priority_source_rank (ps_source existing)
      else if ps_tier candidate \<noteq> ps_tier existing
      then priority_tier_rank (ps_tier candidate) > priority_tier_rank (ps_tier existing)
      else f64_lt (metric_or_zero (ps_propagated_impact existing)) (metric_or_zero (ps_propagated_impact candidate))
        \<or> f64_lt (metric_or_zero (ps_direct_popularity existing)) (metric_or_zero (ps_direct_popularity candidate))
        \<or> f64_lt (metric_or_zero (ps_hidden_leverage existing)) (metric_or_zero (ps_hidden_leverage candidate)))"

definition apply_metadata_risk_override :: "codecs \<Rightarrow> priority_snapshot \<Rightarrow> captured_release \<Rightarrow> priority_snapshot" where
  "apply_metadata_risk_override c snapshot cap =
     (let risk = captured_metadata_risk c cap in
      if \<not> mr_suspicious risk then snapshot
      else let override = (if mr_score risk \<ge> 8 then High else Medium) in
        if priority_tier_rank override > priority_tier_rank (ps_tier snapshot)
        then snapshot\<lparr>ps_tier := override, ps_score_source_version := Some ''local_graph_metadata_risk_v1''\<rparr>
        else snapshot)"

definition snapshot_persists_to_score_file :: "priority_snapshot \<Rightarrow> bool" where
  "snapshot_persists_to_score_file s = (ps_source s = LocalGraph \<or> ps_source s = OfflineScoreFile)"

definition snapshot_requires_runtime_persistence :: "priority_snapshot \<Rightarrow> bool" where
  "snapshot_requires_runtime_persistence s = (ps_source s \<noteq> KnownPackageStub \<and> ps_source s \<noteq> PackageCensus)"

section \<open>Score records\<close>

definition snapshot_from_score_record :: "priority_score_record \<Rightarrow> priority_snapshot" where
  "snapshot_from_score_record r =
     \<lparr>ps_tier = sc_priority_tier r,
      ps_source = (case sc_priority_source r of Some s \<Rightarrow> s | None \<Rightarrow> OfflineScoreFile),
      ps_direct_popularity = sc_direct_popularity r, ps_propagated_impact = sc_propagated_impact r,
      ps_hidden_leverage = sc_hidden_leverage r, ps_computed_at = sc_computed_at r,
      ps_score_source_version = sc_score_source_version r\<rparr>"

definition score_record_of :: "ecosystem \<Rightarrow> string \<Rightarrow> priority_snapshot \<Rightarrow> priority_score_record" where
  "score_record_of eco pkg s =
     \<lparr>sc_ecosystem = eco, sc_package = pkg, sc_priority_tier = ps_tier s, sc_priority_source = Some (ps_source s),
      sc_direct_popularity = ps_direct_popularity s, sc_propagated_impact = ps_propagated_impact s,
      sc_hidden_leverage = ps_hidden_leverage s, sc_computed_at = ps_computed_at s,
      sc_score_source_version = ps_score_source_version s\<rparr>"

definition record_name :: "priority_score_record \<Rightarrow> ecosystem \<times> string" where
  "record_name r = (sc_ecosystem r, normalize_package_name (sc_ecosystem r) (sc_package r))"

definition load_score_records :: "(string \<Rightarrow> priority_score_record option) \<Rightarrow> file_read \<Rightarrow> string + priority_score_record list" where
  "load_score_records dec f = (case f of
     NotFound \<Rightarrow> Inr []
   | ReadFails \<Rightarrow> Inl ''failed to read priority score file''
   | FileBody body \<Rightarrow> parse_ndjson ''failed to parse priority score line'' dec (str_lines body))"

text \<open>The merge keeps the position of a package's record; \<open>index\<close> holds the last one of each name.\<close>

record merge_state =
  ms_merged :: "priority_score_record list"
  ms_index :: "((ecosystem \<times> string) \<times> nat) list"
  ms_effective :: "priority_score_record list"

definition merge_update :: "priority_score_record \<Rightarrow> merge_state \<Rightarrow> merge_state" where
  "merge_update u m = (case map_of (ms_index m) (record_name u) of
     Some position \<Rightarrow>
       (if should_replace_snapshot (snapshot_from_score_record (ms_merged m ! position)) (snapshot_from_score_record u)
        then m\<lparr>ms_merged := (ms_merged m)[position := u], ms_effective := ms_effective m @ [u]\<rparr>
        else m)
   | None \<Rightarrow>
       m\<lparr>ms_index := AList.update (record_name u) (length (ms_merged m)) (ms_index m),
         ms_merged := ms_merged m @ [u], ms_effective := ms_effective m @ [u]\<rparr>)"

definition merge_start :: "priority_score_record list \<Rightarrow> merge_state" where
  "merge_start existing =
     \<lparr>ms_merged = existing,
      ms_index = fold (\<lambda>(i, r). AList.update (record_name r) i) (enumerate 0 existing) [],
      ms_effective = []\<rparr>"

definition merge_priority_score_records ::
  "priority_score_record list \<Rightarrow> priority_score_record list \<Rightarrow> priority_score_record list \<times> priority_score_record list" where
  "merge_priority_score_records existing updates =
     (let m = fold merge_update updates (merge_start existing) in (sort_key record_name (ms_merged m), ms_effective m))"

definition upsert_priority_score_records ::
  "(string \<Rightarrow> priority_score_record option) \<Rightarrow> file_read \<Rightarrow> priority_score_record list \<Rightarrow> string + priority_score_record list" where
  "upsert_priority_score_records dec f updates =
     map_sum id (\<lambda>existing. fst (merge_priority_score_records existing updates)) (load_score_records dec f)"

text \<open>With a graph store its records are merged over the file's; an empty store changes nothing.\<close>

definition load_priority_score_records_with_store ::
  "(string \<Rightarrow> priority_score_record option) \<Rightarrow> file_read \<Rightarrow> store option \<Rightarrow> string + priority_score_record list" where
  "load_priority_score_records_with_store dec f st =
     (case load_score_records dec f of Inl err \<Rightarrow> Inl err
      | Inr file_records \<Rightarrow> (case st of None \<Rightarrow> Inr file_records
          | Some s \<Rightarrow> (case load_priority_score_records s of None \<Rightarrow> Inl ''failed to read priority scores''
              | Some store_records \<Rightarrow> Inr (if store_records = [] then file_records
                  else fst (merge_priority_score_records file_records store_records)))))"

section \<open>The census\<close>

record package_census_record =
  pn_ecosystem :: ecosystem
  pn_package :: string
  pn_discovered_at :: "datetime option"
  pn_source :: "string option"

definition census_name :: "package_census_record \<Rightarrow> ecosystem \<times> string" where
  "census_name r = (pn_ecosystem r, normalize_package_name (pn_ecosystem r) (pn_package r))"

definition load_package_census_records ::
  "(string \<Rightarrow> package_census_record option) \<Rightarrow> file_read \<Rightarrow> string + package_census_record list" where
  "load_package_census_records dec f = (case f of
     NotFound \<Rightarrow> Inr []
   | ReadFails \<Rightarrow> Inl ''failed to read package census''
   | FileBody body \<Rightarrow> parse_ndjson ''failed to parse package census line'' dec (str_lines body))"

definition census_source_rank :: "string option \<Rightarrow> nat" where
  "census_source_rank source = (case source of
     None \<Rightarrow> 0
   | Some s \<Rightarrow>
       if s \<in> {''pypi_simple_index'', ''npm_all_docs'', ''crates_io_native''} then 5
       else if s = ''graph_input'' then 4
       else if s \<in> {''offline_score_file'', ''local_graph''} then 3
       else if s = ''package_census'' then 2
       else if s \<in> {''known_package_stub'', ''runtime_observed_v1''} then 1
       else 2)"

fun earlier :: "datetime option \<Rightarrow> datetime option \<Rightarrow> datetime option" where
  "earlier (Some l) (Some r) = Some (min l r)"
| "earlier None r = r"
| "earlier l None = l"

definition merge_package_census_record :: "package_census_record \<Rightarrow> package_census_record \<Rightarrow> package_census_record" where
  "merge_package_census_record target candidate =
     (let target = target\<lparr>pn_discovered_at := earlier (pn_discovered_at target) (pn_discovered_at candidate)\<rparr>;
          t = census_source_rank (pn_source target); c = census_source_rank (pn_source candidate) in
      if c > t \<or> (c = t \<and> pn_source target = None) then target\<lparr>pn_source := pn_source candidate\<rparr> else target)"

definition merge_census_step ::
  "package_census_record \<Rightarrow> ((ecosystem \<times> string) \<times> package_census_record) list
   \<Rightarrow> ((ecosystem \<times> string) \<times> package_census_record) list" where
  "merge_census_step r m = (case map_of m (census_name r) of
     Some existing \<Rightarrow> AList.update (census_name r) (merge_package_census_record existing r) m
   | None \<Rightarrow> AList.update (census_name r) (r\<lparr>pn_package := snd (census_name r)\<rparr>) m)"

definition merge_package_census_records :: "package_census_record list \<Rightarrow> package_census_record list" where
  "merge_package_census_records rs = map snd (in_key_order (fold merge_census_step rs []))"

text \<open>The packages and dependencies a score input names.\<close>

fun input_names :: "score_input \<Rightarrow> (ecosystem \<times> string) list" where
  "input_names (SI_Package eco p v) = [(eco, normalize_package_name eco p)]"
| "input_names (SI_Dependency eco p d w ss c) = [(eco, normalize_package_name eco p), (eco, normalize_package_name eco d)]"

definition roots_from_score_input :: "score_input list \<Rightarrow> (ecosystem \<times> string) list" where
  "roots_from_score_input rs = btree_set (concat (map input_names rs))"

definition package_census_from_score_input :: "score_input list \<Rightarrow> package_census_record list" where
  "package_census_from_score_input rs =
     map (\<lambda>(eco, p). \<lparr>pn_ecosystem = eco, pn_package = p, pn_discovered_at = None, pn_source = Some ''graph_input''\<rparr>)
       (btree_set (concat (map input_names rs)))"

text \<open>The names as they stand, of every ecosystem in the input.\<close>

definition touched_packages_from_score_input :: "score_input list \<Rightarrow> string list" where
  "touched_packages_from_score_input rs =
     btree_set (concat (map (\<lambda>r. case r of SI_Package _ p _ \<Rightarrow> [p] | SI_Dependency _ p d _ _ _ \<Rightarrow> [p, d]) rs))"

section \<open>Thresholds\<close>

record fallback_thresholds =
  ft_high :: f64
  ft_medium :: f64

definition quantile_threshold :: "f64 list \<Rightarrow> f64 \<Rightarrow> f64" where
  "quantile_threshold vs quantile =
     (if vs = [] then f64_zero
      else let last_index = length vs - 1;
               index = f64_round_usize (f64_mul (f64_of_u64 last_index) (f64_clamp quantile f64_zero f64_one))
           in vs ! min index last_index)"

definition observed_impact :: "priority_score_record \<Rightarrow> f64" where
  "observed_impact r = metric_or_zero
     (case sc_propagated_impact r of Some v \<Rightarrow> Some v | None \<Rightarrow> sc_direct_popularity r)"

definition positive_impacts :: "ecosystem \<Rightarrow> priority_score_record list \<Rightarrow> f64 list" where
  "positive_impacts eco rs =
     filter (\<lambda>v. f64_is_finite v \<and> f64_lt f64_zero v) (map observed_impact (filter (\<lambda>r. sc_ecosystem r = eco) rs))"

definition fallback_thresholds_of :: "priority_score_record list \<Rightarrow> ecosystem \<Rightarrow> fallback_thresholds option" where
  "fallback_thresholds_of rs eco =
     (let vs = sort_key f64_total_key (positive_impacts eco rs) in
      if vs = [] then None
      else Some \<lparr>ft_high = quantile_threshold vs 0x3FEFAE147AE147AE, ft_medium = quantile_threshold vs 0x3FECCCCCCCCCCCCD\<rparr>)"

definition fallback_min_medium_propagated_impact :: f64 where
  "fallback_min_medium_propagated_impact = 0x4024000000000000"

definition fallback_min_high_propagated_impact :: f64 where
  "fallback_min_high_propagated_impact = 0x4059000000000000"

definition fallback_priority_tier_from_counts :: "f64 \<Rightarrow> fallback_thresholds option \<Rightarrow> priority_tier" where
  "fallback_priority_tier_from_counts impact thresholds =
     (let (high, medium) = (case thresholds of
          Some t \<Rightarrow> (f64_max (ft_high t) fallback_min_high_propagated_impact, f64_max (ft_medium t) fallback_min_medium_propagated_impact)
        | None \<Rightarrow> (fallback_min_high_propagated_impact, fallback_min_medium_propagated_impact)) in
      if f64_le high impact then High else if f64_le medium impact then Medium else Low)"

section \<open>Snapshots from the online services\<close>

definition priority_snapshot_from_dependents_counts ::
  "(f64 \<Rightarrow> f64) \<Rightarrow> datetime \<Rightarrow> nat \<Rightarrow> nat \<Rightarrow> fallback_thresholds option \<Rightarrow> priority_snapshot" where
  "priority_snapshot_from_dependents_counts ln now dependents direct_dependents thresholds =
     (let impact = f64_of_u64 dependents; popularity = f64_of_u64 direct_dependents in
      \<lparr>ps_tier = fallback_priority_tier_from_counts impact thresholds, ps_source = DepsDevDependentsApi,
       ps_direct_popularity = Some popularity, ps_propagated_impact = Some impact,
       ps_hidden_leverage = Some (hidden_leverage_of ln impact popularity), ps_computed_at = Some now,
       ps_score_source_version = Some ''deps_dev_dependents_api''\<rparr>)"

definition priority_snapshot_from_ecosyste_ms_counts ::
  "(f64 \<Rightarrow> f64) \<Rightarrow> datetime \<Rightarrow> nat \<Rightarrow> nat option \<Rightarrow> fallback_thresholds option \<Rightarrow> priority_snapshot" where
  "priority_snapshot_from_ecosyste_ms_counts ln now packages repositories thresholds =
     (let popularity = f64_of_u64 packages;
          impact = f64_max (case repositories of Some n \<Rightarrow> f64_of_u64 n | None \<Rightarrow> popularity) popularity in
      \<lparr>ps_tier = fallback_priority_tier_from_counts impact thresholds, ps_source = EcosysteMsCountsApi,
       ps_direct_popularity = Some popularity, ps_propagated_impact = Some impact,
       ps_hidden_leverage = Some (hidden_leverage_of ln impact popularity), ps_computed_at = Some now,
       ps_score_source_version = Some ''ecosyste_ms_counts_api''\<rparr>)"

fun find_map :: "('a \<Rightarrow> 'b option) \<Rightarrow> 'a list \<Rightarrow> 'b option" where
  "find_map f [] = None"
| "find_map f (x # xs) = (case f x of Some y \<Rightarrow> Some y | None \<Rightarrow> find_map f xs)"

definition extract_u64 :: "json \<Rightarrow> string list \<Rightarrow> nat option" where
  "extract_u64 v ks = find_map (\<lambda>k. Option.bind (json_get v k) as_u64) ks"

fun deps_dev_v3_system :: "ecosystem \<Rightarrow> string" where
  "deps_dev_v3_system Npm = ''npm''"
| "deps_dev_v3_system Pypi = ''pypi''"
| "deps_dev_v3_system CratesIo = ''cargo''"

fun deps_dev_v3alpha_system :: "ecosystem \<Rightarrow> string" where
  "deps_dev_v3alpha_system Npm = ''NPM''"
| "deps_dev_v3alpha_system Pypi = ''PYPI''"
| "deps_dev_v3alpha_system CratesIo = ''CARGO''"

fun ecosyste_ms_registry_name :: "ecosystem \<Rightarrow> string" where
  "ecosyste_ms_registry_name Npm = ''npmjs.org''"
| "ecosyste_ms_registry_name Pypi = ''pypi.org''"
| "ecosyste_ms_registry_name CratesIo = ''crates.io''"

fun ecosyste_ms_usage_system :: "ecosystem \<Rightarrow> string" where
  "ecosyste_ms_usage_system Npm = ''npm''"
| "ecosyste_ms_usage_system Pypi = ''pypi''"
| "ecosyste_ms_usage_system CratesIo = ''cargo''"

text \<open>\<open>max_by_key\<close> keeps the last of equal maxima.\<close>

fun max_by_key :: "('a \<Rightarrow> 'k::linorder) \<Rightarrow> 'a list \<Rightarrow> 'a option" where
  "max_by_key f [] = None"
| "max_by_key f (x # xs) = (case max_by_key f xs of None \<Rightarrow> Some x | Some y \<Rightarrow> Some (if f y < f x then x else y))"

definition published_text :: "json \<Rightarrow> string" where
  "published_text v = (case json_get_str v ''publishedAt'' of Some s \<Rightarrow> s | None \<Rightarrow> [])"

definition select_deps_dev_default_version :: "json \<Rightarrow> string option" where
  "select_deps_dev_default_version raw = (case Option.bind (json_get raw ''versions'') as_array of
     None \<Rightarrow> None
   | Some versions \<Rightarrow>
       (let default = (case find (\<lambda>v. json_get_bool v ''isDefault'') versions of
            Some v \<Rightarrow> Some v | None \<Rightarrow> max_by_key published_text versions)
        in Option.bind default (\<lambda>v. Option.bind (json_pointer v [''versionKey'', ''version'']) as_str)))"

text \<open>The answers of the two services: an error, or the decoded document.  The second deps.dev document and
  the usage document are asked for by address.\<close>

record priority_web =
  pw_get :: "string \<Rightarrow> string + json"
  pw_get_status :: "string \<Rightarrow> string + (bool \<times> (string + json))"
  pw_url_encode :: "string \<Rightarrow> string"
  pw_v3_base :: string
  pw_v3alpha_base :: string

definition trim_slashes :: "string \<Rightarrow> string" where
  "trim_slashes s = rev (dropWhile (\<lambda>c. c = CHR ''/'') (rev s))"

definition fetch_deps_dev_fallback_snapshot ::
  "(f64 \<Rightarrow> f64) \<Rightarrow> datetime \<Rightarrow> priority_web \<Rightarrow> ecosystem \<Rightarrow> string \<Rightarrow> fallback_thresholds option \<Rightarrow> string + priority_snapshot" where
  "fetch_deps_dev_fallback_snapshot ln now web eco pkg thresholds =
     (case pw_get web (trim_slashes (pw_v3_base web) @ ''/systems/'' @ deps_dev_v3_system eco @ ''/packages/'' @ pw_url_encode web pkg) of
        Inl err \<Rightarrow> Inl err
      | Inr package_raw \<Rightarrow> (case select_deps_dev_default_version package_raw of
          None \<Rightarrow> Inl ''missing deps.dev default version''
        | Some version \<Rightarrow>
            (case pw_get web (trim_slashes (pw_v3alpha_base web) @ ''/systems/'' @ deps_dev_v3alpha_system eco @ ''/packages/''
                @ pw_url_encode web pkg @ ''/versions/'' @ pw_url_encode web version @ '':dependents'') of
               Inl err \<Rightarrow> Inl err
             | Inr raw \<Rightarrow> (case extract_u64 raw [''dependentCount'', ''dependentsCount''] of
                 None \<Rightarrow> Inl ''missing dependentCount''
               | Some n \<Rightarrow> Inr (priority_snapshot_from_dependents_counts ln now n
                   (case extract_u64 raw [''directDependentCount'', ''directDependentsCount''] of Some d \<Rightarrow> d | None \<Rightarrow> 0) thresholds)))))"

definition fetch_ecosyste_ms_fallback_snapshot ::
  "(f64 \<Rightarrow> f64) \<Rightarrow> datetime \<Rightarrow> priority_web \<Rightarrow> ecosystem \<Rightarrow> string \<Rightarrow> fallback_thresholds option \<Rightarrow> string + priority_snapshot" where
  "fetch_ecosyste_ms_fallback_snapshot ln now web eco pkg thresholds =
     (case pw_get web (''https://packages.ecosyste.ms/api/v1/registries/'' @ ecosyste_ms_registry_name eco @ ''/packages/'' @ pw_url_encode web pkg) of
        Inl err \<Rightarrow> Inl err
      | Inr raw \<Rightarrow> (case extract_u64 raw [''dependent_packages_count''] of
          None \<Rightarrow> Inl ''missing dependent_packages_count''
        | Some packages \<Rightarrow>
            map_sum id (\<lambda>repositories. priority_snapshot_from_ecosyste_ms_counts ln now packages repositories thresholds)
              (case extract_u64 raw [''dependent_repositories_count''] of
                 Some n \<Rightarrow> Inr (Some n)
               | None \<Rightarrow> (case pw_get_status web (''https://repos.ecosyste.ms/api/v1/usage/'' @ ecosyste_ms_usage_system eco @ ''/'' @ pw_url_encode web pkg) of
                   Inl err \<Rightarrow> Inl err
                 | Inr (False, _) \<Rightarrow> Inr None
                 | Inr (True, Inl err) \<Rightarrow> Inl err
                 | Inr (True, Inr usage) \<Rightarrow> Inr (extract_u64 usage [''dependents_count''])))))"

definition resolve_online_priority_snapshot ::
  "(f64 \<Rightarrow> f64) \<Rightarrow> datetime \<Rightarrow> priority_web \<Rightarrow> ecosystem \<Rightarrow> string \<Rightarrow> string + priority_snapshot" where
  "resolve_online_priority_snapshot ln now web eco pkg =
     (let name = normalize_package_name eco pkg in
      case fetch_deps_dev_fallback_snapshot ln now web eco name None of
        Inr s \<Rightarrow> Inr s | Inl _ \<Rightarrow> fetch_ecosyste_ms_fallback_snapshot ln now web eco name None)"

section \<open>Queries over a score file\<close>

datatype priority_score_metric = MetricDirectPopularity | MetricPropagatedImpact | MetricHiddenLeverage

fun metric_value :: "priority_score_metric \<Rightarrow> priority_score_record \<Rightarrow> f64" where
  "metric_value MetricDirectPopularity r = metric_or_zero (sc_direct_popularity r)"
| "metric_value MetricPropagatedImpact r = metric_or_zero (sc_propagated_impact r)"
| "metric_value MetricHiddenLeverage r = metric_or_zero (sc_hidden_leverage r)"

record priority_top_entry =
  te_ecosystem :: ecosystem
  te_package :: string
  te_priority_tier :: priority_tier
  te_direct_popularity :: f64
  te_propagated_impact :: f64
  te_hidden_leverage :: f64

definition top_entry_of :: "priority_score_record \<Rightarrow> priority_top_entry" where
  "top_entry_of r = \<lparr>te_ecosystem = sc_ecosystem r, te_package = sc_package r, te_priority_tier = sc_priority_tier r,
     te_direct_popularity = metric_or_zero (sc_direct_popularity r),
     te_propagated_impact = metric_or_zero (sc_propagated_impact r),
     te_hidden_leverage = metric_or_zero (sc_hidden_leverage r)\<rparr>"

definition top_priority_score_records :: "priority_score_record list \<Rightarrow> priority_score_metric \<Rightarrow> nat \<Rightarrow> priority_top_entry list" where
  "top_priority_score_records rs metric limit =
     map top_entry_of (take limit (sort_key (\<lambda>r. (- f64_total_key (metric_value metric r), ecosystem_index (sc_ecosystem r), sc_package r)) rs))"

definition top_priority_scores ::
  "priority_score_record list \<Rightarrow> ecosystem option \<Rightarrow> priority_score_metric \<Rightarrow> nat \<Rightarrow> priority_top_entry list" where
  "top_priority_scores rs eco metric limit =
     top_priority_score_records (filter (\<lambda>r. eco = None \<or> eco = Some (sc_ecosystem r)) rs) metric limit"

definition load_top_priority_scores ::
  "(string \<Rightarrow> priority_score_record option) \<Rightarrow> file_read \<Rightarrow> ecosystem option \<Rightarrow> priority_score_metric \<Rightarrow> nat
   \<Rightarrow> string + priority_top_entry list" where
  "load_top_priority_scores dec f eco metric limit =
     map_sum id (\<lambda>rs. top_priority_scores rs eco metric limit) (load_score_records dec f)"

definition count_record_priorities :: "priority_score_record list \<Rightarrow> priority_counts" where
  "count_record_priorities = count_priorities"

record priority_score_ecosystem_summary =
  py_ecosystem :: ecosystem
  py_packages :: nat
  py_priorities :: priority_counts
  py_top_by_propagated_impact :: "priority_top_entry list"
  py_top_by_hidden_leverage :: "priority_top_entry list"

record priority_score_stats_summary =
  py_scored_packages :: nat
  py_ecosystems :: "priority_score_ecosystem_summary list"

definition summarize_priority_score_records :: "priority_score_record list \<Rightarrow> nat \<Rightarrow> priority_score_stats_summary" where
  "summarize_priority_score_records rs top_limit =
     \<lparr>py_scored_packages = length rs,
      py_ecosystems = map (\<lambda>eco. let es = filter (\<lambda>r. sc_ecosystem r = eco) rs in
          \<lparr>py_ecosystem = eco, py_packages = length es, py_priorities = count_record_priorities es,
           py_top_by_propagated_impact = top_priority_score_records es MetricPropagatedImpact top_limit,
           py_top_by_hidden_leverage = top_priority_score_records es MetricHiddenLeverage top_limit\<rparr>)
        (btree_set (map sc_ecosystem rs))\<rparr>"

definition summarize_priority_scores ::
  "(string \<Rightarrow> priority_score_record option) \<Rightarrow> file_read \<Rightarrow> nat \<Rightarrow> string + priority_score_stats_summary" where
  "summarize_priority_scores dec f top_limit =
     map_sum id (\<lambda>rs. summarize_priority_score_records rs top_limit) (load_score_records dec f)"

record priority_score_lookup_result =
  pl_package :: string
  pl_normalized_package :: string
  pl_ecosystem_package_count :: nat
  pl_rank_by_propagated_impact :: "nat option"
  pl_rank_by_hidden_leverage :: "nat option"
  pl_record :: "priority_score_record option"

definition rank_of :: "(priority_score_record \<Rightarrow> bool) \<Rightarrow> priority_score_record list \<Rightarrow> nat option" where
  "rank_of P rs = (let i = length (takeWhile (\<lambda>r. \<not> P r) rs) in if i < length rs then Some (i + 1) else None)"

definition lookup_priority_score ::
  "(string \<Rightarrow> priority_score_record option) \<Rightarrow> file_read \<Rightarrow> ecosystem \<Rightarrow> string \<Rightarrow> string + priority_score_lookup_result" where
  "lookup_priority_score dec f eco pkg =
     map_sum id (\<lambda>rs.
       let name = normalize_package_name eco pkg;
           is_it = (\<lambda>r. normalize_package_name eco (sc_package r) = name);
           by_metric = (\<lambda>m. sort_key (\<lambda>r. (- f64_total_key (metric_value m r), sc_package r)));
           records = by_metric MetricPropagatedImpact (filter (\<lambda>r. sc_ecosystem r = eco) rs);
           hidden = by_metric MetricHiddenLeverage records
       in \<lparr>pl_package = pkg, pl_normalized_package = name, pl_ecosystem_package_count = length records,
           pl_rank_by_propagated_impact = rank_of is_it records, pl_rank_by_hidden_leverage = rank_of is_it hidden,
           pl_record = find is_it records\<rparr>) (load_score_records dec f)"
end
