(* ===== verification/Priority_Resolver.thy ===== *)
theory Priority_Resolver
  imports Priority_Data Bounded_Map
begin

text \<open>
  The priority resolver of \<open>priority.rs\<close>: the scores in memory, the local dependency graph (the graph store
  when one is configured, the graph file otherwise), the census of known packages, the two bounded caches and
  the expander's in-flight set.  An operation runs to its end on the state; serde's encoders and decoders,
  the platform's logarithm, the registries and which file or database step fails are the environment.  An
  append to a file fails as a whole.
\<close>

section \<open>State and environment\<close>

record priority_file =
  pf_read :: file_read
  pf_modified :: "datetime option"

record cached_evidence =
  cg_known_in_local_graph :: bool
  cg_known_in_census :: bool
  cg_direct_dependencies_seen :: nat
  cg_reverse_dependents_seen :: nat
  cg_repository :: "package_repository_identity option"

record census_cache =
  cs_modified_at :: "datetime option"
  cs_packages :: "(ecosystem \<times> string) set"
  cs_checked_at :: datetime

record local_graph_cache =
  lc_modified_at :: "datetime option"
  lc_direct_popularity :: "((ecosystem \<times> string) \<times> f64) list"
  lc_reverse_dependents :: "((ecosystem \<times> string) \<times> nat) list"
  lc_direct_dependencies :: "((ecosystem \<times> string) \<times> nat) list"
  lc_direct_dependency_names :: "((ecosystem \<times> string) \<times> string list) list"
  lc_reverse_dependent_names :: "((ecosystem \<times> string) \<times> string list) list"
  lc_known_packages :: "(ecosystem \<times> string) set"

record expand_request =
  xp_ecosystem :: ecosystem
  xp_package :: string
  xp_direct_popularity_hint :: "f64 option"

record resolver =
  rv_scores :: "((ecosystem \<times> string) \<times> priority_snapshot) list"
  rv_thresholds :: "ecosystem \<Rightarrow> fallback_thresholds option"
  rv_observation_counts :: "(ecosystem \<times> string, nat) bounded_map"
  rv_emitted_graph_cache :: "(ecosystem \<times> string, cached_evidence) bounded_map"
  rv_online_cache :: "(ecosystem \<times> string, priority_snapshot) bounded_map"
  rv_census :: "census_cache option"
  rv_local_cache :: "local_graph_cache option"
  rv_graph_file :: priority_file
  rv_score_file :: priority_file
  rv_census_file :: priority_file
  rv_store :: "store option"
  rv_in_flight :: "(ecosystem \<times> string) list"
  rv_spawned :: "expand_request list"

datatype priority_io =
    AppendCensus | AppendGraph | AppendScores | OpenScoreStore | WriteScoreStore | OpenGraphStore | WriteGraphStore
  | WriteRepositories | QueryEvidence | QueryRecords | QueryNeighborhood | QueryRepository | RewriteGraph | RewriteCensus | RewriteScores

record priority_env =
  rn_now :: datetime
  rn_io :: "priority_io \<Rightarrow> bool"
  rn_ln :: "f64 \<Rightarrow> f64"
  rn_enc_input :: "score_input \<Rightarrow> string"
  rn_dec_input :: "string \<Rightarrow> score_input option"
  rn_enc_score :: "priority_score_record \<Rightarrow> string"
  rn_dec_score :: "string \<Rightarrow> priority_score_record option"
  rn_enc_census :: "package_census_record \<Rightarrow> string"
  rn_dec_census :: "string \<Rightarrow> package_census_record option"
  rn_enc_sources :: "string list \<Rightarrow> string"
  rn_dec_sources :: "string \<Rightarrow> string list option"
  rn_show_time :: "datetime \<Rightarrow> string"
  rn_codecs :: codecs
  rn_score_build :: score_build_config
  rn_online_fallback :: bool
  rn_expander :: "nat option"
  rn_web :: priority_web
  rn_permit :: bool
  rn_hydrate :: "release_event \<Rightarrow> string + captured_release option"
  rn_repository_of :: "ecosystem \<Rightarrow> captured_release \<Rightarrow> repository_ref option"

type_synonym 'a priority_result = "resolver \<times> (string + 'a)"

definition priority_then :: "'a priority_result \<Rightarrow> (resolver \<Rightarrow> 'a \<Rightarrow> 'b priority_result) \<Rightarrow> 'b priority_result" where
  "priority_then r k = (case r of (s, Inr a) \<Rightarrow> k s a | (s, Inl err) \<Rightarrow> (s, Inl err))"

definition priority_ok_or :: "'a \<Rightarrow> 'a priority_result \<Rightarrow> resolver \<times> 'a" where
  "priority_ok_or d r = (fst r, case snd r of Inr a \<Rightarrow> a | Inl _ \<Rightarrow> d)"

definition max_observation_count_entries :: nat where
  "max_observation_count_entries = 100000"

definition max_online_fallback_cache_entries :: nat where
  "max_online_fallback_cache_entries = 50000"

definition max_emitted_graph_evidence_cache_entries :: nat where
  "max_emitted_graph_evidence_cache_entries = 50000"

definition package_census_refresh_interval :: int where
  "package_census_refresh_interval = 30 * 1000000000"

section \<open>Loading\<close>

definition scores_of_records :: "priority_score_record list \<Rightarrow> ((ecosystem \<times> string) \<times> priority_snapshot) list" where
  "scores_of_records rs = fold (\<lambda>r. AList.update (record_name r) (snapshot_from_score_record r)) rs []"

definition resolver_load ::
  "priority_env \<Rightarrow> priority_file \<Rightarrow> priority_file \<Rightarrow> priority_file \<Rightarrow> store option \<Rightarrow> string + resolver" where
  "resolver_load env graph_file score_file census_file st =
     (if st \<noteq> None \<and> \<not> rn_io env OpenGraphStore then Inl ''failed to open store''
      else map_sum id (\<lambda>records.
        \<lparr>rv_scores = scores_of_records records, rv_thresholds = fallback_thresholds_of records,
         rv_observation_counts = bm_new max_observation_count_entries,
         rv_emitted_graph_cache = bm_new max_emitted_graph_evidence_cache_entries,
         rv_online_cache = bm_new max_online_fallback_cache_entries,
         rv_census = None, rv_local_cache = None, rv_graph_file = graph_file, rv_score_file = score_file,
         rv_census_file = census_file, rv_store = st, rv_in_flight = [], rv_spawned = []\<rparr>)
        (load_priority_score_records_with_store (rn_dec_score env) (pf_read score_file) st))"

section \<open>Files\<close>

definition appended_file :: "datetime \<Rightarrow> string \<Rightarrow> priority_file \<Rightarrow> priority_file" where
  "appended_file now body f =
     \<lparr>pf_read = FileBody ((case pf_read f of FileBody old \<Rightarrow> old | _ \<Rightarrow> []) @ body), pf_modified = Some now\<rparr>"

definition append_census :: "priority_env \<Rightarrow> package_census_record list \<Rightarrow> resolver \<Rightarrow> unit priority_result" where
  "append_census env rs s =
     (if rs = [] then (s, Inr ())
      else if rn_io env AppendCensus
      then (s\<lparr>rv_census_file := appended_file (rn_now env) (encode_ndjson (rn_enc_census env) rs) (rv_census_file s)\<rparr>, Inr ())
      else (s, Inl ''failed to append census''))"

definition append_graph :: "priority_env \<Rightarrow> score_input list \<Rightarrow> resolver \<Rightarrow> unit priority_result" where
  "append_graph env rs s =
     (if rs = [] then (s, Inr ())
      else if rn_io env AppendGraph
      then (s\<lparr>rv_graph_file := appended_file (rn_now env) (encode_ndjson (rn_enc_input env) rs) (rv_graph_file s)\<rparr>, Inr ())
      else (s, Inl ''failed to append graph''))"

definition append_scores :: "priority_env \<Rightarrow> priority_score_record list \<Rightarrow> resolver \<Rightarrow> unit priority_result" where
  "append_scores env rs s =
     (if rn_io env AppendScores
      then (s\<lparr>rv_score_file := appended_file (rn_now env) (encode_ndjson (rn_enc_score env) rs) (rv_score_file s)\<rparr>, Inr ())
      else (s, Inl ''failed to append scores''))"

text \<open>A write of the graph store: opened first, then one command.\<close>

definition store_command :: "priority_env \<Rightarrow> priority_io \<Rightarrow> write_command \<Rightarrow> resolver \<Rightarrow> unit priority_result" where
  "store_command env io c s = (case rv_store s of
     None \<Rightarrow> (s, Inr ())
   | Some st \<Rightarrow> (case execute_write_command (rn_enc_sources env) (rn_io env io) (rn_now env) c st of
        (st', True) \<Rightarrow> (s\<lparr>rv_store := Some st'\<rparr>, Inr ())
      | (st', False) \<Rightarrow> (s\<lparr>rv_store := Some st'\<rparr>, Inl ''store write failed'')))"

definition open_store :: "priority_env \<Rightarrow> priority_io \<Rightarrow> resolver \<Rightarrow> unit priority_result" where
  "open_store env io s = (if rn_io env io then (s, Inr ()) else (s, Inl ''failed to open store''))"

section \<open>What a snapshot and a capture leave behind\<close>

definition append_snapshot_records ::
  "priority_env \<Rightarrow> ecosystem \<Rightarrow> string \<Rightarrow> priority_snapshot \<Rightarrow> resolver \<Rightarrow> unit priority_result" where
  "append_snapshot_records env eco pkg snap s =
     priority_then (append_census env [\<lparr>pn_ecosystem = eco, pn_package = pkg, pn_discovered_at = Some (rn_now env),
         pn_source = Some (source_as_str (ps_source snap))\<rparr>] s) (\<lambda>s _.
     priority_then (if ps_source snap = LocalGraph \<or> ps_source snap = OfflineScoreFile
         then append_graph env [SI_Package eco pkg (metric_or_zero (ps_direct_popularity snap))] s else (s, Inr ())) (\<lambda>s _.
       if \<not> snapshot_persists_to_score_file snap then (s, Inr ())
       else if rv_store s = None then append_scores env [score_record_of eco pkg snap] s
       else priority_then (open_store env OpenScoreStore s) (\<lambda>s _.
              store_command env WriteScoreStore (RecordPriorityScoreRecords [score_record_of eco pkg snap]) s)))"

definition persist_snapshot :: "priority_env \<Rightarrow> ecosystem \<Rightarrow> string \<Rightarrow> priority_snapshot \<Rightarrow> resolver \<Rightarrow> resolver" where
  "persist_snapshot env eco pkg snap s = fst (append_snapshot_records env eco pkg snap s)"

definition append_graph_material_records ::
  "priority_env \<Rightarrow> score_input list \<Rightarrow> repository_ref list \<Rightarrow> resolver \<Rightarrow> unit priority_result" where
  "append_graph_material_records env rs repos s =
     (if rs = [] \<and> repos = [] then (s, Inr ())
      else priority_then (if rs = [] then (s, Inr ())
          else priority_then (append_graph env rs s) (\<lambda>s _. append_census env (package_census_from_score_input rs) s)) (\<lambda>s _.
        if rv_store s = None then (s, Inr ())
        else priority_then (open_store env OpenGraphStore s) (\<lambda>s _.
             priority_then (if rs = [] then (s, Inr ()) else store_command env WriteGraphStore (RecordGraphRecords rs) s) (\<lambda>s _.
               if repos = [] then (s, Inr ()) else store_command env WriteRepositories (RecordRepositoryRefs repos) s))))"

section \<open>The census\<close>

definition census_contains :: "priority_env \<Rightarrow> ecosystem \<Rightarrow> string \<Rightarrow> resolver \<Rightarrow> bool priority_result" where
  "census_contains env eco pkg s =
     (let key = (eco, normalize_package_name eco pkg); modified = pf_modified (rv_census_file s);
          load = (case load_package_census_records (rn_dec_census env) (pf_read (rv_census_file s)) of
            Inl err \<Rightarrow> (s, Inl err)
          | Inr rs \<Rightarrow>
              (s\<lparr>rv_census := Some \<lparr>cs_modified_at = modified, cs_packages = census_name ` set rs, cs_checked_at = rn_now env\<rparr>\<rparr>,
               Inr (key \<in> census_name ` set rs))) in
      case rv_census s of
        None \<Rightarrow> load
      | Some c \<Rightarrow>
          if rn_now env - cs_checked_at c < package_census_refresh_interval then (s, Inr (key \<in> cs_packages c))
          else if cs_modified_at c = modified
          then (s\<lparr>rv_census := Some (c\<lparr>cs_checked_at := rn_now env\<rparr>)\<rparr>, Inr (key \<in> cs_packages c))
          else load)"

definition census_remember :: "priority_env \<Rightarrow> ecosystem \<Rightarrow> string \<Rightarrow> resolver \<Rightarrow> resolver" where
  "census_remember env eco pkg s =
     s\<lparr>rv_census := map_option (\<lambda>c. c\<lparr>cs_packages := insert (eco, normalize_package_name eco pkg) (cs_packages c),
        cs_checked_at := rn_now env\<rparr>) (rv_census s)\<rparr>"

definition census_remember_records :: "priority_env \<Rightarrow> package_census_record list \<Rightarrow> resolver \<Rightarrow> resolver" where
  "census_remember_records env rs s =
     (if rs = [] then s
      else s\<lparr>rv_census := map_option (\<lambda>c. c\<lparr>cs_packages := cs_packages c \<union> census_name ` set rs,
        cs_checked_at := rn_now env\<rparr>) (rv_census s)\<rparr>)"

definition census_remember_from_score_input :: "priority_env \<Rightarrow> score_input list \<Rightarrow> resolver \<Rightarrow> resolver" where
  "census_remember_from_score_input env rs = census_remember_records env (package_census_from_score_input rs)"

section \<open>Remembering\<close>

definition invalidate_emitted_graph_cache :: "ecosystem \<Rightarrow> string \<Rightarrow> resolver \<Rightarrow> resolver" where
  "invalidate_emitted_graph_cache eco pkg s =
     s\<lparr>rv_emitted_graph_cache := snd (bm_remove (eco, normalize_package_name eco pkg) (rv_emitted_graph_cache s))\<rparr>"

definition record_observation :: "ecosystem \<Rightarrow> string \<Rightarrow> resolver \<Rightarrow> resolver \<times> nat" where
  "record_observation eco pkg s =
     (case bm_get_mut (eco, pkg) Suc (rv_observation_counts s) of
        (Some old, m) \<Rightarrow> (s\<lparr>rv_observation_counts := m\<rparr>, Suc old)
      | (None, m) \<Rightarrow> (s\<lparr>rv_observation_counts := snd (bm_insert (eco, pkg) 1 m)\<rparr>, 1))"

definition remember_snapshot ::
  "priority_env \<Rightarrow> ecosystem \<Rightarrow> string \<Rightarrow> priority_snapshot \<Rightarrow> resolver \<Rightarrow> resolver \<times> priority_snapshot" where
  "remember_snapshot env eco pkg snap s =
     (let store_it = (let s = s\<lparr>rv_scores := AList.update (eco, pkg) snap (rv_scores s)\<rparr>;
                          s = invalidate_emitted_graph_cache eco pkg s;
                          s = (if snapshot_requires_runtime_persistence snap then persist_snapshot env eco pkg snap s else s)
                      in (census_remember env eco pkg s, snap)) in
      case map_of (rv_scores s) (eco, pkg) of
        Some existing \<Rightarrow> if should_replace_snapshot existing snap then store_it else (s, existing)
      | None \<Rightarrow> store_it)"

section \<open>The local graph\<close>

definition local_cache_empty :: local_graph_cache where
  "local_cache_empty = \<lparr>lc_modified_at = None, lc_direct_popularity = [], lc_reverse_dependents = [],
     lc_direct_dependencies = [], lc_direct_dependency_names = [], lc_reverse_dependent_names = [], lc_known_packages = {}\<rparr>"

text \<open>One record; an edge counts once, which the set of names already knows.\<close>

fun cache_record :: "score_input \<Rightarrow> local_graph_cache \<Rightarrow> local_graph_cache" where
  "cache_record (SI_Package eco pkg popularity) c =
     (let key = (eco, normalize_package_name eco pkg) in
      c\<lparr>lc_known_packages := insert key (lc_known_packages c),
        lc_direct_popularity := AList.map_default key popularity (\<lambda>old. f64_max old popularity) (lc_direct_popularity c)\<rparr>)"
| "cache_record (SI_Dependency eco pkg dep w ss conf) c =
     (let p = (eco, normalize_package_name eco pkg); d = (eco, normalize_package_name eco dep);
          c = c\<lparr>lc_known_packages := insert d (insert p (lc_known_packages c))\<rparr> in
      if (case map_of (lc_direct_dependency_names c) p of None \<Rightarrow> False | Some names \<Rightarrow> snd d \<in> set names) then c
      else c\<lparr>lc_direct_dependencies := entry_update p 0 Suc (lc_direct_dependencies c),
             lc_reverse_dependents := entry_update d 0 Suc (lc_reverse_dependents c),
             lc_direct_dependency_names := entry_update p [] (insort_insert (snd d)) (lc_direct_dependency_names c),
             lc_reverse_dependent_names := entry_update d [] (insort_insert (snd p)) (lc_reverse_dependent_names c)\<rparr>)"

definition load_cache :: "priority_env \<Rightarrow> resolver \<Rightarrow> local_graph_cache priority_result" where
  "load_cache env s =
     (let modified = pf_modified (rv_graph_file s);
          load = (case load_score_input_records (rn_dec_input env) (pf_read (rv_graph_file s)) of
            Inl err \<Rightarrow> (s, Inl err)
          | Inr rs \<Rightarrow> (let c = (fold cache_record rs local_cache_empty)\<lparr>lc_modified_at := modified\<rparr>
                     in (s\<lparr>rv_local_cache := Some c\<rparr>, Inr c))) in
      case rv_local_cache s of
        Some c \<Rightarrow> if lc_modified_at c = modified then (s, Inr c) else load
      | None \<Rightarrow> load)"

record local_graph_evidence =
  le_known :: bool
  le_direct_dependencies_seen :: nat
  le_reverse_dependents_seen :: nat
  le_repository :: "package_repository_identity option"

definition local_evidence_default :: local_graph_evidence where
  "local_evidence_default = \<lparr>le_known = False, le_direct_dependencies_seen = 0, le_reverse_dependents_seen = 0, le_repository = None\<rparr>"

definition count_at :: "((ecosystem \<times> string) \<times> nat) list \<Rightarrow> ecosystem \<times> string \<Rightarrow> nat" where
  "count_at m k = (case map_of m k of Some n \<Rightarrow> n | None \<Rightarrow> 0)"

definition names_at :: "((ecosystem \<times> string) \<times> string list) list \<Rightarrow> ecosystem \<times> string \<Rightarrow> string list" where
  "names_at m k = (case map_of m k of Some ns \<Rightarrow> ns | None \<Rightarrow> [])"

definition popularity_at :: "local_graph_cache \<Rightarrow> ecosystem \<times> string \<Rightarrow> f64" where
  "popularity_at c k = metric_or_zero (map_of (lc_direct_popularity c) k)"

definition load_store_evidence :: "priority_env \<Rightarrow> ecosystem \<Rightarrow> string \<Rightarrow> resolver \<Rightarrow> string + graph_evidence option" where
  "load_store_evidence env eco pkg s = (case rv_store s of
     None \<Rightarrow> Inr None
   | Some st \<Rightarrow> if rn_io env QueryEvidence then Inr (load_graph_evidence (rn_show_time env) eco pkg st) else Inl ''store read failed'')"

definition local_evidence :: "priority_env \<Rightarrow> ecosystem \<Rightarrow> string \<Rightarrow> resolver \<Rightarrow> local_graph_evidence priority_result" where
  "local_evidence env eco pkg s = (case load_store_evidence env eco pkg s of
     Inl err \<Rightarrow> (s, Inl err)
   | Inr (Some e) \<Rightarrow> (s, Inr \<lparr>le_known = ge_known e, le_direct_dependencies_seen = ge_direct_dependencies_seen e,
       le_reverse_dependents_seen = ge_reverse_dependents_seen e, le_repository = ge_repository e\<rparr>)
   | Inr None \<Rightarrow>
       if rv_store s \<noteq> None then (s, Inr local_evidence_default)
       else priority_then (load_cache env s) (\<lambda>s c.
         (s, Inr \<lparr>le_known = ((eco, pkg) \<in> lc_known_packages c),
            le_direct_dependencies_seen = count_at (lc_direct_dependencies c) (eco, pkg),
            le_reverse_dependents_seen = count_at (lc_reverse_dependents c) (eco, pkg), le_repository = None\<rparr>)))"

definition cache_frontier :: "local_graph_cache \<Rightarrow> ecosystem \<Rightarrow> string list \<Rightarrow> string list" where
  "cache_frontier c eco roots =
     btree_set (filter (\<lambda>r. (eco, r) \<in> lc_known_packages c) roots
       @ concat (map (\<lambda>r. names_at (lc_reverse_dependent_names c) (eco, r)) roots))"

definition cache_graph_records :: "local_graph_cache \<Rightarrow> ecosystem \<Rightarrow> string list \<Rightarrow> score_input list" where
  "cache_graph_records c eco roots =
     (let frontier = cache_frontier c eco (map (normalize_package_name eco) roots) in
      if frontier = [] then []
      else let edges = concat (map (\<lambda>p. map (Pair p) (names_at (lc_direct_dependency_names c) (eco, p))) frontier) in
        map (\<lambda>p. SI_Package eco p (popularity_at c (eco, p))) (btree_set (frontier @ map snd edges))
        @ map (\<lambda>(p, d). SI_Dependency eco p d f64_one [''local_graph_cache''] None) edges)"

definition neighborhood_input :: "priority_env \<Rightarrow> ecosystem \<Rightarrow> string list \<Rightarrow> nat \<Rightarrow> resolver \<Rightarrow> score_input list priority_result" where
  "neighborhood_input env eco roots limit s = (case rv_store s of
     Some st \<Rightarrow> (s, if \<not> rn_io env QueryRecords then Inl ''store read failed''
       else (case load_graph_records_for_roots (rn_dec_sources env) eco roots limit st of
           None \<Rightarrow> Inl ''store read failed'' | Some (_, rs) \<Rightarrow> Inr rs))
   | None \<Rightarrow> priority_then (load_cache env s) (\<lambda>s c. (s, Inr (cache_graph_records c eco roots))))"

definition raise_root :: "ecosystem \<Rightarrow> string list \<Rightarrow> score_input \<Rightarrow> score_input" where
  "raise_root eco roots r = (case r of
     SI_Package e p popularity \<Rightarrow>
       if e = eco \<and> p \<in> set (map (normalize_package_name eco) roots) then SI_Package e p (f64_max popularity f64_one) else r
   | _ \<Rightarrow> r)"

definition local_tier :: "fallback_thresholds option \<Rightarrow> f64 \<Rightarrow> priority_tier \<Rightarrow> priority_tier" where
  "local_tier thresholds impact fallback = (case thresholds of
     None \<Rightarrow> fallback
   | Some t \<Rightarrow> if f64_le (ft_high t) impact then High else if f64_le (ft_medium t) impact then Medium else Low)"

definition local_snapshot :: "fallback_thresholds option \<Rightarrow> priority_score_record \<Rightarrow> priority_snapshot" where
  "local_snapshot thresholds r =
     \<lparr>ps_tier = local_tier thresholds (metric_or_zero (sc_propagated_impact r)) (sc_priority_tier r), ps_source = LocalGraph,
      ps_direct_popularity = sc_direct_popularity r, ps_propagated_impact = sc_propagated_impact r,
      ps_hidden_leverage = sc_hidden_leverage r, ps_computed_at = sc_computed_at r, ps_score_source_version = Some ''local_graph''\<rparr>"

definition score_neighborhood ::
  "priority_env \<Rightarrow> ecosystem \<Rightarrow> string list \<Rightarrow> nat \<Rightarrow> resolver \<Rightarrow> (string \<times> priority_snapshot) list priority_result" where
  "score_neighborhood env eco roots limit s =
     priority_then (neighborhood_input env eco roots limit s) (\<lambda>s rs.
       if rs = [] then (s, Inr [])
       else case build_priority_scores_from_records (rn_ln env) (rn_now env) (rn_enc_input env) (rn_dec_input env)
                (map (raise_root eco roots) rs) (rn_score_build env) of
           Inl err \<Rightarrow> (s, Inl err)
         | Inr (scores, _) \<Rightarrow>
             (s, Inr (fold (\<lambda>r. AList.update (normalize_package_name eco (sc_package r)) (local_snapshot (rv_thresholds s eco) r))
                (filter (\<lambda>r. sc_ecosystem r = eco) scores) [])))"

definition snapshot_from_values :: "priority_env \<Rightarrow> fallback_thresholds option \<Rightarrow> f64 \<Rightarrow> nat \<Rightarrow> priority_snapshot" where
  "snapshot_from_values env thresholds popularity reverse =
     (let impact = f64_max (f64_of_u64 reverse) popularity in
      \<lparr>ps_tier = local_tier thresholds impact Medium, ps_source = LocalGraph,
       ps_direct_popularity = Some popularity, ps_propagated_impact = Some impact,
       ps_hidden_leverage = Some (hidden_leverage_of (rn_ln env) impact popularity),
       ps_computed_at = Some (rn_now env), ps_score_source_version = Some ''local_graph''\<rparr>)"

definition resolve_scored :: "priority_env \<Rightarrow> ecosystem \<Rightarrow> string \<Rightarrow> resolver \<Rightarrow> priority_snapshot option priority_result" where
  "resolve_scored env eco pkg s =
     priority_then (score_neighborhood env eco [pkg] 256 s) (\<lambda>s rescored.
       case map_of rescored pkg of
         Some snap \<Rightarrow> (s, Inr (Some snap))
       | None \<Rightarrow> (case load_store_evidence env eco pkg s of
           Inl err \<Rightarrow> (s, Inl err)
         | Inr (Some e) \<Rightarrow> (s, Inr (Some (snapshot_from_values env (rv_thresholds s eco) (ge_direct_popularity e) (ge_reverse_dependents_seen e))))
         | Inr None \<Rightarrow>
             if rv_store s \<noteq> None then (s, Inr None)
             else priority_then (load_cache env s) (\<lambda>s c.
               (s, Inr (if (eco, pkg) \<notin> lc_known_packages c then None
                  else Some (snapshot_from_values env (rv_thresholds s eco) (popularity_at c (eco, pkg))
                    (count_at (lc_reverse_dependents c) (eco, pkg))))))))"

definition local_resolve :: "priority_env \<Rightarrow> ecosystem \<Rightarrow> string \<Rightarrow> resolver \<Rightarrow> resolver \<times> priority_snapshot option" where
  "local_resolve env eco pkg s = priority_ok_or None (resolve_scored env eco pkg s)"

section \<open>Online services\<close>

definition online_resolve :: "priority_env \<Rightarrow> ecosystem \<Rightarrow> string \<Rightarrow> resolver \<Rightarrow> resolver \<times> priority_snapshot" where
  "online_resolve env eco pkg s = (case bm_get_cloned_refresh (eco, pkg) (rv_online_cache s) of
     (Some snap, m) \<Rightarrow> (s\<lparr>rv_online_cache := m\<rparr>, snap)
   | (None, m) \<Rightarrow>
       (let snap = (case fetch_deps_dev_fallback_snapshot (rn_ln env) (rn_now env) (rn_web env) eco pkg (rv_thresholds s eco) of
            Inr snap \<Rightarrow> snap
          | Inl _ \<Rightarrow> (case fetch_ecosyste_ms_fallback_snapshot (rn_ln env) (rn_now env) (rn_web env) eco pkg (rv_thresholds s eco) of
              Inr snap \<Rightarrow> snap | Inl _ \<Rightarrow> default_unknown))
        in (s\<lparr>rv_online_cache := snd (bm_insert (eco, pkg) snap m)\<rparr>, snap)))"

section \<open>Expansion requests\<close>

definition should_expand :: "nat \<Rightarrow> priority_snapshot \<Rightarrow> nat \<Rightarrow> bool" where
  "should_expand min_observations snap seen = (case ps_source snap of
     OfflineScoreFile \<Rightarrow> False
   | LocalGraph \<Rightarrow> ps_tier snap = High \<and> seen \<ge> min_observations
   | DepsDevDependentsApi \<Rightarrow> ps_tier snap = High \<or> seen \<ge> min_observations
   | EcosysteMsCountsApi \<Rightarrow> ps_tier snap = High \<or> seen \<ge> min_observations
   | PackageCensus \<Rightarrow> seen \<ge> min_observations
   | KnownPackageStub \<Rightarrow> seen \<ge> min_observations
   | DefaultUnknown \<Rightarrow> False)"

text \<open>The spawned task takes the request from \<open>rv_spawned\<close> and leaves the in-flight set at its end.\<close>

definition spawn_expand :: "ecosystem \<Rightarrow> string \<Rightarrow> f64 option \<Rightarrow> resolver \<Rightarrow> resolver" where
  "spawn_expand eco pkg hint s =
     (if (eco, pkg) \<in> set (rv_in_flight s) then s
      else s\<lparr>rv_in_flight := (eco, pkg) # rv_in_flight s,
             rv_spawned := rv_spawned s @ [\<lparr>xp_ecosystem = eco, xp_package = pkg, xp_direct_popularity_hint = hint\<rparr>]\<rparr>)"

definition expand_if_due :: "priority_env \<Rightarrow> ecosystem \<Rightarrow> string \<Rightarrow> nat \<Rightarrow> resolver \<times> priority_snapshot \<Rightarrow> resolver \<times> priority_snapshot" where
  "expand_if_due env eco pkg seen r = (case r of (s, snap) \<Rightarrow>
     (case rn_expander env of
        Some minimum \<Rightarrow> if should_expand minimum snap seen then (spawn_expand eco pkg (ps_direct_popularity snap) s, snap) else (s, snap)
      | None \<Rightarrow> (s, snap)))"

section \<open>Hydration\<close>

definition remember_rescored ::
  "priority_env \<Rightarrow> ecosystem \<Rightarrow> (string \<times> priority_snapshot) list \<Rightarrow> resolver \<Rightarrow> resolver" where
  "remember_rescored env eco rescored s = fold (\<lambda>(p, snap) s. fst (remember_snapshot env eco p snap s)) rescored s"

definition apply_hydrated_release_metadata ::
  "priority_env \<Rightarrow> release_event \<Rightarrow> string \<Rightarrow> captured_release \<Rightarrow> resolver \<Rightarrow> priority_snapshot option priority_result" where
  "apply_hydrated_release_metadata env e name cap s =
     (let records = graph_records_from_captured_release cap; eco = ev_ecosystem e;
          repos = (case rn_repository_of env eco cap of None \<Rightarrow> [] | Some r \<Rightarrow> [r]) in
      priority_then (append_graph_material_records env records repos s) (\<lambda>s _.
        let s = census_remember_from_score_input env records s;
            s = fold (invalidate_emitted_graph_cache eco) (touched_packages_from_score_input records) s in
        priority_then (score_neighborhood env eco [name] 32 s) (\<lambda>s rescored.
          let s = remember_rescored env eco
                (map (\<lambda>(p, snap). (p, if p = name then apply_metadata_risk_override (rn_codecs env) snap cap else snap)) rescored) s in
          case map_of rescored name of
            Some snap \<Rightarrow> (s, Inr (Some (apply_metadata_risk_override (rn_codecs env) snap cap)))
          | None \<Rightarrow> (let (s, r) = local_resolve env eco name s in
              (s, Inr (map_option (\<lambda>snap. apply_metadata_risk_override (rn_codecs env) snap cap) r))))))"

definition inline_hydrate_observed_release ::
  "priority_env \<Rightarrow> release_event \<Rightarrow> string \<Rightarrow> resolver \<Rightarrow> priority_snapshot option priority_result" where
  "inline_hydrate_observed_release env e name s =
     (if \<not> rn_permit env then (s, Inr None)
      else case rn_hydrate env e of
          Inl err \<Rightarrow> (s, Inl err)
        | Inr None \<Rightarrow> (s, Inr None)
        | Inr (Some cap) \<Rightarrow> apply_hydrated_release_metadata env e name cap s)"

definition record_hydrated_release_metadata ::
  "priority_env \<Rightarrow> release_event \<Rightarrow> captured_release \<Rightarrow> resolver \<Rightarrow> priority_snapshot option priority_result" where
  "record_hydrated_release_metadata env e cap s =
     apply_hydrated_release_metadata env e (normalize_package_name (ev_ecosystem e) (ev_package e)) cap s"

section \<open>Resolving\<close>

definition resolve :: "ecosystem \<Rightarrow> string \<Rightarrow> resolver \<Rightarrow> priority_snapshot" where
  "resolve eco pkg s = (case map_of (rv_scores s) (eco, normalize_package_name eco pkg) of Some snap \<Rightarrow> snap | None \<Rightarrow> default_unknown)"

definition seed_event_snapshot :: "priority_env \<Rightarrow> release_event \<Rightarrow> resolver \<Rightarrow> resolver \<times> priority_snapshot option" where
  "seed_event_snapshot env e s = (case ev_priority e of
     None \<Rightarrow> (s, None)
   | Some snap \<Rightarrow> map_prod id Some
       (remember_snapshot env (ev_ecosystem e) (normalize_package_name (ev_ecosystem e) (ev_package e)) snap s))"

text \<open>The census, or else the package becomes a stub.\<close>

definition resolve_by_census :: "priority_env \<Rightarrow> ecosystem \<Rightarrow> string \<Rightarrow> resolver \<Rightarrow> resolver \<times> priority_snapshot option" where
  "resolve_by_census env eco name s =
     (let (s, known) = priority_ok_or False (census_contains env eco name s) in
      if known then map_prod id Some (remember_snapshot env eco name (package_census_snapshot (rn_now env)) s) else (s, None))"

definition resolve_by_stub :: "priority_env \<Rightarrow> ecosystem \<Rightarrow> string \<Rightarrow> resolver \<Rightarrow> resolver \<times> priority_snapshot" where
  "resolve_by_stub env eco name s = remember_snapshot env eco name (known_package_stub (rn_now env)) s"

definition resolve_observed_release :: "priority_env \<Rightarrow> ecosystem \<Rightarrow> string \<Rightarrow> resolver \<Rightarrow> resolver \<times> priority_snapshot" where
  "resolve_observed_release env eco pkg s =
     (let name = normalize_package_name eco pkg; (s, seen) = record_observation eco name s in
      case map_of (rv_scores s) (eco, name) of
        Some snap \<Rightarrow> (s, snap)
      | None \<Rightarrow> expand_if_due env eco name seen
          (case local_resolve env eco name s of
             (s, Some snap) \<Rightarrow> remember_snapshot env eco name snap s
           | (s, None) \<Rightarrow> (case resolve_by_census env eco name s of
               (s, Some snap) \<Rightarrow> (s, snap)
             | (s, None) \<Rightarrow> resolve_by_stub env eco name s)))"

definition resolve_observed_event :: "priority_env \<Rightarrow> release_event \<Rightarrow> resolver \<Rightarrow> resolver \<times> priority_snapshot" where
  "resolve_observed_event env e s =
     (let eco = ev_ecosystem e; name = normalize_package_name eco (ev_package e);
          (s, seen) = record_observation eco name s;
          settled = (case map_of (rv_scores s) (eco, name) of
            Some snap \<Rightarrow> if ps_source snap \<noteq> KnownPackageStub \<or> seen < 2 then Some snap else None
          | None \<Rightarrow> None) in
      case settled of
        Some snap \<Rightarrow> (s, snap)
      | None \<Rightarrow> expand_if_due env eco name seen
          (case local_resolve env eco name s of
             (s, Some snap) \<Rightarrow> remember_snapshot env eco name snap s
           | (s, None) \<Rightarrow>
               (case (if seen \<ge> 2 then priority_ok_or None (inline_hydrate_observed_release env e name s) else (s, None)) of
                  (s, Some snap) \<Rightarrow> (s, snap)
                | (s, None) \<Rightarrow> (case resolve_by_census env eco name s of
                    (s, Some snap) \<Rightarrow> (s, snap)
                  | (s, None) \<Rightarrow> resolve_by_stub env eco name s))))"

definition resolver_apply :: "priority_env \<Rightarrow> release_event \<Rightarrow> resolver \<Rightarrow> resolver \<times> release_event" where
  "resolver_apply env e s = (let (s, snap) = resolve_observed_event env e s in (s, e\<lparr>ev_priority := Some snap\<rparr>))"

definition resolve_for_event :: "priority_env \<Rightarrow> ecosystem \<Rightarrow> string \<Rightarrow> resolver \<Rightarrow> resolver \<times> priority_snapshot" where
  "resolve_for_event env eco pkg s =
     (let name = normalize_package_name eco pkg; (s, seen) = record_observation eco name s in
      case map_of (rv_scores s) (eco, name) of
        Some snap \<Rightarrow> (s, snap)
      | None \<Rightarrow> expand_if_due env eco name seen
          (case local_resolve env eco name s of
             (s, Some snap) \<Rightarrow> remember_snapshot env eco name snap s
           | (s, None) \<Rightarrow> (case resolve_by_census env eco name s of
               (s, Some snap) \<Rightarrow> (s, snap)
             | (s, None) \<Rightarrow>
                 (let (s, snap) = (if rn_online_fallback env then online_resolve env eco name s else (s, default_unknown)) in
                  if ps_source snap = DefaultUnknown then resolve_by_stub env eco name s
                  else remember_snapshot env eco name snap s))))"

section \<open>Evidence for the published event\<close>

definition evidence_of_cached :: "nat \<Rightarrow> cached_evidence \<Rightarrow> emitted_graph_evidence" where
  "evidence_of_cached seen c =
     \<lparr>gr_known_in_local_graph = cg_known_in_local_graph c, gr_known_in_census = cg_known_in_census c, gr_observed_count = seen,
      gr_direct_dependencies_seen = cg_direct_dependencies_seen c, gr_reverse_dependents_seen = cg_reverse_dependents_seen c,
      gr_repository = cg_repository c\<rparr>"

definition resolver_graph_evidence :: "priority_env \<Rightarrow> ecosystem \<Rightarrow> string \<Rightarrow> resolver \<Rightarrow> resolver \<times> emitted_graph_evidence" where
  "resolver_graph_evidence env eco pkg s =
     (let name = normalize_package_name eco pkg; key = (eco, name);
          seen = (case bm_get (rv_observation_counts s) key of Some n \<Rightarrow> n | None \<Rightarrow> 0) in
      case bm_get_cloned_refresh key (rv_emitted_graph_cache s) of
        (Some c, m) \<Rightarrow> (s\<lparr>rv_emitted_graph_cache := m\<rparr>, evidence_of_cached seen c)
      | (None, m) \<Rightarrow>
          (let (s, in_census) = priority_ok_or False (census_contains env eco name s);
               (s, local) = priority_ok_or local_evidence_default (local_evidence env eco name s);
               c = \<lparr>cg_known_in_local_graph = le_known local, cg_known_in_census = in_census,
                    cg_direct_dependencies_seen = le_direct_dependencies_seen local,
                    cg_reverse_dependents_seen = le_reverse_dependents_seen local, cg_repository = le_repository local\<rparr>
           in (s\<lparr>rv_emitted_graph_cache := snd (bm_insert key c (rv_emitted_graph_cache s))\<rparr>, evidence_of_cached seen c)))"

section \<open>Captured releases\<close>

record priority_update =
  pu_ecosystem :: ecosystem
  pu_package :: string
  pu_previous :: "priority_snapshot option"
  pu_current :: priority_snapshot

definition touched_by_capture :: "captured_release \<Rightarrow> string list" where
  "touched_by_capture cap =
     fold (\<lambda>d touched. let n = normalize_package_name (ca_ecosystem cap) d in
         if n \<in> set touched then touched else touched @ [n])
       (array_strings (json_get (ca_details cap) ''dependencies''))
       [normalize_package_name (ca_ecosystem cap) (ca_package cap)]"

definition record_rescored ::
  "priority_env \<Rightarrow> ecosystem \<Rightarrow> string \<times> priority_snapshot \<Rightarrow> resolver \<times> priority_update list \<Rightarrow> resolver \<times> priority_update list" where
  "record_rescored env eco r acc = (case r of (p, snap) \<Rightarrow> (case acc of (s, updates) \<Rightarrow>
     (let previous = map_of (rv_scores s) (eco, p); (s, current) = remember_snapshot env eco p snap s in
      (s, if previous = Some current then updates
          else updates @ [\<lparr>pu_ecosystem = eco, pu_package = p, pu_previous = previous, pu_current = current\<rparr>]))))"

definition record_captured_release :: "priority_env \<Rightarrow> captured_release \<Rightarrow> resolver \<Rightarrow> resolver \<times> priority_update list" where
  "record_captured_release env cap s =
     (let eco = ca_ecosystem cap; touched = touched_by_capture cap;
          (s, rescored) = priority_ok_or [] (score_neighborhood env eco touched 128 s);
          (s, updates) = fold (record_rescored env eco) rescored (s, [])
      in (fold (invalidate_emitted_graph_cache eco) touched s, updates))"

section \<open>Inspection\<close>

record local_graph_inspection =
  li_ecosystem :: ecosystem
  li_package :: string
  li_known_in_local_graph :: bool
  li_known_in_census :: bool
  li_direct_popularity :: f64
  li_direct_dependencies_seen :: nat
  li_reverse_dependents_seen :: nat
  li_direct_dependencies :: "string list"
  li_reverse_dependents :: "string list"
  li_repository :: "package_repository_identity option"
  li_score :: "priority_snapshot option"

record local_graph_inspection_data =
  ld_known :: bool
  ld_direct_popularity :: f64
  ld_direct_dependencies_seen :: nat
  ld_reverse_dependents_seen :: nat
  ld_direct_dependencies :: "string list"
  ld_reverse_dependents :: "string list"
  ld_repository :: "package_repository_identity option"

definition inspection_default :: local_graph_inspection_data where
  "inspection_default = \<lparr>ld_known = False, ld_direct_popularity = f64_zero, ld_direct_dependencies_seen = 0,
     ld_reverse_dependents_seen = 0, ld_direct_dependencies = [], ld_reverse_dependents = [], ld_repository = None\<rparr>"

definition local_inspect ::
  "priority_env \<Rightarrow> ecosystem \<Rightarrow> string \<Rightarrow> nat \<Rightarrow> resolver \<Rightarrow> local_graph_inspection_data priority_result" where
  "local_inspect env eco pkg limit s = (case rv_store s of
     Some st \<Rightarrow>
       (s, if \<not> rn_io env QueryNeighborhood then Inl ''store read failed''
           else case load_graph_neighborhood (rn_show_time env) eco pkg limit st of
               None \<Rightarrow> Inl ''store read failed''
             | Some None \<Rightarrow> Inr inspection_default
             | Some (Some n) \<Rightarrow> Inr \<lparr>ld_known = ge_known (gn_evidence n), ld_direct_popularity = ge_direct_popularity (gn_evidence n),
                 ld_direct_dependencies_seen = ge_direct_dependencies_seen (gn_evidence n),
                 ld_reverse_dependents_seen = ge_reverse_dependents_seen (gn_evidence n),
                 ld_direct_dependencies = gn_direct_dependencies n, ld_reverse_dependents = gn_reverse_dependents n,
                 ld_repository = ge_repository (gn_evidence n)\<rparr>)
   | None \<Rightarrow> priority_then (load_cache env s) (\<lambda>s c. let key = (eco, pkg) in
       (s, Inr \<lparr>ld_known = (key \<in> lc_known_packages c), ld_direct_popularity = popularity_at c key,
          ld_direct_dependencies_seen = count_at (lc_direct_dependencies c) key,
          ld_reverse_dependents_seen = count_at (lc_reverse_dependents c) key,
          ld_direct_dependencies = take limit (names_at (lc_direct_dependency_names c) key),
          ld_reverse_dependents = take limit (names_at (lc_reverse_dependent_names c) key), ld_repository = None\<rparr>)))"

definition local_repository ::
  "priority_env \<Rightarrow> ecosystem \<Rightarrow> string \<Rightarrow> resolver \<Rightarrow> string + package_repository_identity option" where
  "local_repository env eco pkg s = (case rv_store s of
     None \<Rightarrow> Inr None
   | Some st \<Rightarrow> if rn_io env QueryRepository
       then Inr (load_package_repository_identity eco (normalize_package_name eco pkg) (rn_show_time env) st)
       else Inl ''store read failed'')"

definition inspect_local_graph ::
  "priority_env \<Rightarrow> ecosystem \<Rightarrow> string \<Rightarrow> nat \<Rightarrow> resolver \<Rightarrow> local_graph_inspection priority_result" where
  "inspect_local_graph env eco pkg limit s =
     (let name = normalize_package_name eco pkg; score = map_of (rv_scores s) (eco, name);
          (s, in_census) = priority_ok_or False (census_contains env eco name s) in
      priority_then (local_inspect env eco name limit s) (\<lambda>s d. (s, map_sum id (\<lambda>repository.
        \<lparr>li_ecosystem = eco, li_package = name, li_known_in_local_graph = ld_known d, li_known_in_census = in_census,
         li_direct_popularity = ld_direct_popularity d, li_direct_dependencies_seen = ld_direct_dependencies_seen d,
         li_reverse_dependents_seen = ld_reverse_dependents_seen d, li_direct_dependencies = ld_direct_dependencies d,
         li_reverse_dependents = ld_reverse_dependents d,
         li_repository = (case repository of None \<Rightarrow> ld_repository d | r \<Rightarrow> r), li_score = score\<rparr>)
        (local_repository env eco name s))))"

section \<open>Expansion\<close>

text \<open>The two live sources: the reverse dependents from the warehouse with their seeds, and the forward
  material collected for the seeds.\<close>

record seed_package =
  sd_ecosystem :: ecosystem
  sd_package :: string
  sd_direct_popularity :: "f64 option"

record expand_sources =
  xs_focus :: "ecosystem \<Rightarrow> string \<Rightarrow> string + (score_input list \<times> seed_package list)"
  xs_collect :: "seed_package list \<Rightarrow> seed_package list \<Rightarrow> string + (score_input list \<times> repository_ref list)"

record expand_summary =
  xm_merged_packages :: nat
  xm_merged_dependencies :: nat
  xm_scored_packages :: nat

definition expand_seeds :: "expand_sources \<Rightarrow> expand_request \<Rightarrow> score_input list \<times> seed_package list" where
  "expand_seeds xs rq = (case xs_focus xs (xp_ecosystem rq) (xp_package rq) of
     Inr r \<Rightarrow> r
   | Inl _ \<Rightarrow> ([], [\<lparr>sd_ecosystem = xp_ecosystem rq, sd_package = xp_package rq, sd_direct_popularity = xp_direct_popularity_hint rq\<rparr>]))"

definition nonempty_bodies :: "priority_env \<Rightarrow> score_input list list \<Rightarrow> string list" where
  "nonempty_bodies env rss = map (encode_score_input_ndjson (rn_enc_input env)) (filter (\<lambda>rs. rs \<noteq> []) rss)"

text \<open>The roots by ecosystem, each group scored with its neighbourhood; the first error ends the loop.\<close>

fun rescore_groups ::
  "priority_env \<Rightarrow> nat \<Rightarrow> (ecosystem \<times> string list) list \<Rightarrow> resolver \<Rightarrow> priority_score_record list priority_result" where
  "rescore_groups env limit [] s = (s, Inr [])"
| "rescore_groups env limit ((eco, pkgs) # gs) s =
     priority_then (score_neighborhood env eco pkgs limit s) (\<lambda>s rescored.
     priority_then (rescore_groups env limit gs s) (\<lambda>s rest.
       (s, Inr (map (\<lambda>(p, snap). score_record_of eco p snap) rescored @ rest))))"

definition grouped_roots :: "(ecosystem \<times> string) list \<Rightarrow> (ecosystem \<times> string list) list" where
  "grouped_roots roots = map (\<lambda>eco. (eco, map snd (filter (\<lambda>r. fst r = eco) roots))) (btree_set (map fst roots))"

text \<open>With a graph store: the batch goes into the store and the files, its neighbourhood is rescored into the
  score store, and the scores in memory become the records of the score file and the store.\<close>

definition expand_into_store ::
  "priority_env \<Rightarrow> score_input list \<Rightarrow> score_input_merge_summary \<Rightarrow> repository_ref list \<Rightarrow> resolver \<Rightarrow> expand_summary priority_result" where
  "expand_into_store env batch merged repos s =
     priority_then (if batch = [] then (s, Inr ())
         else priority_then (store_command env WriteGraphStore (RecordGraphRecords batch) s) (\<lambda>s _. append_graph env batch s)) (\<lambda>s _.
     priority_then (append_census env (package_census_from_score_input batch) s) (\<lambda>s _.
     priority_then (if repos = [] then (s, Inr ()) else store_command env WriteRepositories (RecordRepositoryRefs repos) s) (\<lambda>s _.
     priority_then (rescore_groups env 256 (grouped_roots (roots_from_score_input batch)) s) (\<lambda>s updates.
     priority_then (open_store env OpenScoreStore s) (\<lambda>s _.
     priority_then (store_command env WriteScoreStore (RecordPriorityScoreRecords updates) s) (\<lambda>s _.
       case load_priority_score_records_with_store (rn_dec_score env) (pf_read (rv_score_file s)) (rv_store s) of
         Inl err \<Rightarrow> (s, Inl err)
       | Inr records \<Rightarrow> (s\<lparr>rv_scores := scores_of_records records\<rparr>,
           Inr \<lparr>xm_merged_packages = im_merged_packages merged, xm_merged_dependencies = im_merged_dependencies merged,
                xm_scored_packages = length updates\<rparr>)))))))"

definition rewrite_file :: "priority_env \<Rightarrow> priority_io \<Rightarrow> string \<Rightarrow> priority_file \<Rightarrow> string + priority_file" where
  "rewrite_file env io body f =
     (if rn_io env io then Inr \<lparr>pf_read = FileBody body, pf_modified = Some (rn_now env)\<rparr> else Inl ''failed to write file'')"

text \<open>Without one: the graph file is merged with the batch and rewritten, everything is scored anew, and the
  score file and the scores in memory are replaced.\<close>

definition expand_into_files ::
  "priority_env \<Rightarrow> score_input list \<Rightarrow> resolver \<Rightarrow> expand_summary priority_result" where
  "expand_into_files env batch s =
     (case load_score_input_records (rn_dec_input env) (pf_read (rv_graph_file s)) of Inl err \<Rightarrow> (s, Inl err)
      | Inr existing \<Rightarrow>
     (let bodies = nonempty_bodies env [existing] @ [encode_score_input_ndjson (rn_enc_input env) batch] in
      case merge_score_input_ndjson (rn_dec_input env) bodies (length bodies) of Inl err \<Rightarrow> (s, Inl err)
      | Inr (merged, summary) \<Rightarrow>
     (case build_priority_scores_from_records (rn_ln env) (rn_now env) (rn_enc_input env) (rn_dec_input env) merged (rn_score_build env) of
        Inl err \<Rightarrow> (s, Inl err)
      | Inr (scores, built) \<Rightarrow>
     (case rewrite_file env RewriteGraph (encode_score_input_ndjson (rn_enc_input env) merged) (rv_graph_file s) of
        Inl err \<Rightarrow> (s, Inl err)
      | Inr graph \<Rightarrow> (let s = s\<lparr>rv_graph_file := graph\<rparr> in
     (case rewrite_file env RewriteCensus (encode_ndjson (rn_enc_census env) (package_census_from_score_input merged)) (rv_census_file s) of
        Inl err \<Rightarrow> (s, Inl err)
      | Inr census \<Rightarrow> (let s = s\<lparr>rv_census_file := census\<rparr> in
     (case rewrite_file env RewriteScores (encode_ndjson (rn_enc_score env) scores) (rv_score_file s) of
        Inl err \<Rightarrow> (s, Inl err)
      | Inr score_file \<Rightarrow>
          (s\<lparr>rv_score_file := score_file, rv_scores := scores_of_records scores\<rparr>,
           Inr \<lparr>xm_merged_packages = im_merged_packages summary, xm_merged_dependencies = im_merged_dependencies summary,
                xm_scored_packages = bs_scored_packages built\<rparr>)))))))))"

definition expand_priority_graph ::
  "priority_env \<Rightarrow> expand_sources \<Rightarrow> expand_request \<Rightarrow> resolver \<Rightarrow> expand_summary priority_result" where
  "expand_priority_graph env xs rq s =
     (let (reverse, seeds) = expand_seeds xs rq; popularity = filter (\<lambda>sd. sd_direct_popularity sd \<noteq> None) seeds in
      case xs_collect xs seeds popularity of Inl err \<Rightarrow> (s, Inl err)
      | Inr (forward, repos) \<Rightarrow>
     (let bodies = nonempty_bodies env [reverse, forward] in
      if bodies = [] then (s, Inr \<lparr>xm_merged_packages = 0, xm_merged_dependencies = 0, xm_scored_packages = 0\<rparr>)
      else case merge_score_input_ndjson (rn_dec_input env) bodies (length bodies) of Inl err \<Rightarrow> (s, Inl err)
      | Inr (batch, merged) \<Rightarrow>
          if rv_store s \<noteq> None then expand_into_store env batch merged repos s else expand_into_files env batch s))"

text \<open>The spawned task: one request, then its key leaves the in-flight set, whatever the result.\<close>

definition run_expand_task :: "priority_env \<Rightarrow> expand_sources \<Rightarrow> resolver \<Rightarrow> resolver" where
  "run_expand_task env xs s = (case rv_spawned s of
     [] \<Rightarrow> s
   | rq # rest \<Rightarrow>
       (let s = fst (expand_priority_graph env xs rq (s\<lparr>rv_spawned := rest\<rparr>)) in
        s\<lparr>rv_in_flight := removeAll (xp_ecosystem rq, xp_package rq) (rv_in_flight s)\<rparr>))"

text \<open>\<open>rescore_local_graph_roots\<close> loads the scores and opens the store anew; the records come
  sorted, one per package.\<close>

fun dedup_by_name :: "priority_score_record list \<Rightarrow> priority_score_record list" where
  "dedup_by_name (a # b # rs) =
     (if record_name a = record_name b then dedup_by_name (a # rs) else a # dedup_by_name (b # rs))"
| "dedup_by_name rs = rs"

definition rescore_local_graph_roots ::
  "priority_env \<Rightarrow> (ecosystem \<times> string) list \<Rightarrow> nat \<Rightarrow> resolver \<Rightarrow> string + priority_score_record list" where
  "rescore_local_graph_roots env roots limit s =
     (case resolver_load env (rv_graph_file s) (rv_score_file s) (rv_census_file s) (rv_store s) of
        Inl err \<Rightarrow> Inl err
      | Inr fresh \<Rightarrow> map_sum id (\<lambda>rescored. dedup_by_name (sort_key record_name rescored))
          (snd (rescore_groups env limit (grouped_roots (map (\<lambda>(eco, p). (eco, normalize_package_name eco p)) roots)) fresh)))"
end
