(* ===== verification/Resolver_Props.thy ===== *)
theory Resolver_Props
  imports Priority_Resolver Ledger
begin

text \<open>
  What the resolver keeps: a remembered snapshot never falls to a weaker source or, within a source, to a lower
  tier; snapshots equal in both can replace each other for ever; a package that no census lists becomes a
  census package on its second observation; and the merge of score records.
\<close>

section \<open>The order of snapshots\<close>

text \<open>Source rank first, tier rank second.\<close>

definition snapshot_class :: "priority_snapshot \<Rightarrow> nat \<times> nat" where
  "snapshot_class p = (priority_source_rank (ps_source p), priority_tier_rank (ps_tier p))"

lemma tier_rank_inject [simp]: "priority_tier_rank a = priority_tier_rank b \<longleftrightarrow> a = b"
  by (cases a; cases b) simp_all

lemma replace_class: "should_replace_snapshot old new \<Longrightarrow> snapshot_class old \<le> snapshot_class new"
  by (auto simp: should_replace_snapshot_def snapshot_class_def less_eq_prod_def split: if_splits)

lemma keep_class: "\<not> should_replace_snapshot old new \<Longrightarrow> snapshot_class new \<le> snapshot_class old"
proof -
  assume "\<not> should_replace_snapshot old new"
  then have "priority_source_rank (ps_source new) < priority_source_rank (ps_source old)
      \<or> priority_source_rank (ps_source new) = priority_source_rank (ps_source old)
        \<and> priority_tier_rank (ps_tier new) \<le> priority_tier_rank (ps_tier old)"
    by (auto simp: should_replace_snapshot_def split: if_splits)
  then show ?thesis
    by (auto simp: snapshot_class_def less_eq_prod_def)
qed

section \<open>Files do not touch the scores\<close>

lemma scores_append [simp]:
  "rv_scores (fst (append_census env rs s)) = rv_scores s"
  "rv_scores (fst (append_graph env ins s)) = rv_scores s"
  "rv_scores (fst (append_scores env recs s)) = rv_scores s"
  "rv_scores (fst (open_store env io s)) = rv_scores s"
  "rv_scores (fst (store_command env io c s)) = rv_scores s"
  by (auto simp: append_census_def append_graph_def append_scores_def open_store_def store_command_def
      split: option.splits prod.splits bool.splits)

lemma fst_priority_then:
  "fst (priority_then r k) = (case snd r of Inl _ \<Rightarrow> fst r | Inr a \<Rightarrow> fst (k (fst r) a))"
  by (cases r; cases "snd r") (auto simp: priority_then_def)

lemma scores_then:
  "rv_scores (fst r) = rv_scores s \<Longrightarrow> (\<And>t a. rv_scores (fst (k t a)) = rv_scores t) \<Longrightarrow>
     rv_scores (fst (priority_then r k)) = rv_scores s"
  by (simp add: fst_priority_then split: sum.split)

lemma scores_persist [simp]: "rv_scores (persist_snapshot env eco pkg snap s) = rv_scores s"
  unfolding persist_snapshot_def append_snapshot_records_def
  by (rule scores_then, simp, rule scores_then) (simp_all add: scores_then)

lemma scores_invalidate [simp]: "rv_scores (invalidate_emitted_graph_cache eco pkg s) = rv_scores s"
  by (simp add: invalidate_emitted_graph_cache_def)

lemma scores_census_remember [simp]: "rv_scores (census_remember env eco pkg s) = rv_scores s"
  by (simp add: census_remember_def)

definition stored_state :: "priority_env \<Rightarrow> ecosystem \<Rightarrow> string \<Rightarrow> priority_snapshot \<Rightarrow> resolver \<Rightarrow> resolver" where
  "stored_state env eco pkg snap s =
     (let s = s\<lparr>rv_scores := AList.update (eco, pkg) snap (rv_scores s)\<rparr>;
          s = invalidate_emitted_graph_cache eco pkg s;
          s = (if snapshot_requires_runtime_persistence snap then persist_snapshot env eco pkg snap s else s)
      in census_remember env eco pkg s)"

lemma scores_stored: "rv_scores (stored_state env eco pkg snap s) = AList.update (eco, pkg) snap (rv_scores s)"
  by (cases "snapshot_requires_runtime_persistence snap") (simp_all add: stored_state_def)

lemma remember_snapshot_state:
  "remember_snapshot env eco pkg snap s =
     (case map_of (rv_scores s) (eco, pkg) of
        Some old \<Rightarrow> if should_replace_snapshot old snap then (stored_state env eco pkg snap s, snap) else (s, old)
      | None \<Rightarrow> (stored_state env eco pkg snap s, snap))"
  unfolding remember_snapshot_def stored_state_def Let_def by (rule refl)

lemma remember_snapshot_scores:
  "rv_scores (fst (remember_snapshot env eco pkg snap s)) =
     (case map_of (rv_scores s) (eco, pkg) of
        Some old \<Rightarrow> if should_replace_snapshot old snap then AList.update (eco, pkg) snap (rv_scores s) else rv_scores s
      | None \<Rightarrow> AList.update (eco, pkg) snap (rv_scores s))"
  by (simp add: remember_snapshot_state scores_stored split: option.split)

lemma remember_snapshot_result:
  "map_of (rv_scores (fst (remember_snapshot env eco pkg snap s))) (eco, pkg) = Some (snd (remember_snapshot env eco pkg snap s))"
  by (simp add: remember_snapshot_state scores_stored update_Some_unfold split: option.split)

text \<open>The scores grow: every known package stays known, and its class does not fall.\<close>

definition scores_grow :: "resolver \<Rightarrow> resolver \<Rightarrow> bool" where
  "scores_grow s s' \<longleftrightarrow> (\<forall>k old. map_of (rv_scores s) k = Some old \<longrightarrow>
     (\<exists>new. map_of (rv_scores s') k = Some new \<and> snapshot_class old \<le> snapshot_class new))"

lemma scores_grow_refl: "rv_scores s' = rv_scores s \<Longrightarrow> scores_grow s s'"
  by (simp add: scores_grow_def)

lemma scores_grow_trans [trans]: "scores_grow s t \<Longrightarrow> scores_grow t u \<Longrightarrow> scores_grow s u"
  unfolding scores_grow_def by (meson order_trans)

lemma remember_grows: "scores_grow s (fst (remember_snapshot env eco pkg snap s))"
  unfolding scores_grow_def remember_snapshot_scores
  using replace_class by (auto split: option.splits)

section \<open>Every operation of the resolver\<close>

lemma scores_observation [simp]: "rv_scores (fst (record_observation eco pkg s)) = rv_scores s"
  by (auto simp: record_observation_def split: option.splits prod.splits)

lemma scores_load_cache [simp]: "rv_scores (fst (load_cache env s)) = rv_scores s"
  by (auto simp: load_cache_def Let_def split: option.splits sum.splits)

lemma scores_neighborhood_input [simp]: "rv_scores (fst (neighborhood_input env eco roots limit s)) = rv_scores s"
  by (simp add: neighborhood_input_def fst_priority_then split: option.splits sum.splits)

lemma scores_score_neighborhood [simp]: "rv_scores (fst (score_neighborhood env eco roots limit s)) = rv_scores s"
  by (simp add: score_neighborhood_def fst_priority_then split: sum.splits)

lemma scores_resolve_scored [simp]: "rv_scores (fst (resolve_scored env eco pkg s)) = rv_scores s"
  by (simp add: resolve_scored_def fst_priority_then split: sum.splits option.splits)

lemma scores_local_resolve [simp]: "rv_scores (fst (local_resolve env eco pkg s)) = rv_scores s"
  by (simp add: local_resolve_def priority_ok_or_def)

lemma scores_census_contains [simp]: "rv_scores (fst (census_contains env eco pkg s)) = rv_scores s"
  by (auto simp: census_contains_def Let_def split: option.splits sum.splits)

lemma scores_spawn [simp]: "rv_scores (spawn_expand eco pkg hint s) = rv_scores s"
  by (simp add: spawn_expand_def)

lemma scores_expand_if_due [simp]: "rv_scores (fst (expand_if_due env eco pkg n r)) = rv_scores (fst r)"
  by (cases r) (simp add: expand_if_due_def split: option.splits)

lemma scores_online [simp]: "rv_scores (fst (online_resolve env eco pkg s)) = rv_scores s"
  by (auto simp: online_resolve_def Let_def split: prod.splits option.splits)

lemma scores_material [simp]: "rv_scores (fst (append_graph_material_records env rs repos s)) = rv_scores s"
  by (simp add: append_graph_material_records_def scores_then)

lemma scores_remember_records [simp]: "rv_scores (census_remember_from_score_input env rs s) = rv_scores s"
  by (simp add: census_remember_from_score_input_def census_remember_records_def)

lemma scores_invalidate_all [simp]: "rv_scores (fold (invalidate_emitted_graph_cache eco) ps s) = rv_scores s"
  by (induction ps arbitrary: s) simp_all

lemma remember_rescored_grows: "scores_grow s (remember_rescored env eco rescored s)"
proof -
  have "scores_grow t (fold (\<lambda>(p, snap) s. fst (remember_snapshot env eco p snap s)) rescored t)" for t
  proof (induction rescored arbitrary: t)
    case (Cons r rs)
    show ?case
      using scores_grow_trans [OF remember_grows Cons] by (cases r) simp
  qed (simp add: scores_grow_refl)
  then show ?thesis
    by (simp add: remember_rescored_def)
qed

lemma resolve_by_census_grows: "scores_grow s (fst (resolve_by_census env eco name s))"
proof -
  have "scores_grow s (fst (census_contains env eco name s))"
    by (simp add: scores_grow_refl)
  then show ?thesis
    using scores_grow_trans [OF _ remember_grows]
    by (simp add: resolve_by_census_def priority_ok_or_def Let_def split_beta)
qed

lemma resolve_by_stub_grows: "scores_grow s (fst (resolve_by_stub env eco name s))"
  by (simp add: resolve_by_stub_def remember_grows)

lemma grows_then: "scores_grow s (fst r) \<Longrightarrow> (\<And>a. scores_grow (fst r) (fst (k (fst r) a))) \<Longrightarrow> scores_grow s (fst (priority_then r k))"
  by (auto simp: fst_priority_then split: sum.splits intro: scores_grow_trans)

lemma fst_priority_ok_or [simp]: "fst (priority_ok_or d r) = fst r"
  by (simp add: priority_ok_or_def)

lemma local_resolve_grows: "scores_grow s t \<Longrightarrow> scores_grow s (fst (local_resolve env eco name t))"
  by (simp add: scores_grow_def)

lemma hydrated_grows: "scores_grow s (fst (apply_hydrated_release_metadata env e name cap s))"
  unfolding apply_hydrated_release_metadata_def Let_def
proof (intro grows_then)
  fix rescored
  let ?t = "fst (append_graph_material_records env (graph_records_from_captured_release cap)
      (case rn_repository_of env (ev_ecosystem e) cap of None \<Rightarrow> [] | Some r \<Rightarrow> [r]) s)"
  let ?u = "fold (invalidate_emitted_graph_cache (ev_ecosystem e)) (touched_packages_from_score_input (graph_records_from_captured_release cap))
      (census_remember_from_score_input env (graph_records_from_captured_release cap) ?t)"
  let ?v = "fst (score_neighborhood env (ev_ecosystem e) [name] 32 ?u)"
  show "scores_grow ?v (fst (case map_of rescored name of
      None \<Rightarrow> case local_resolve env (ev_ecosystem e) name (remember_rescored env (ev_ecosystem e)
          (map (\<lambda>(p, snap). (p, if p = name then apply_metadata_risk_override (rn_codecs env) snap cap else snap)) rescored) ?v) of
        (s, r) \<Rightarrow> (s, Inr (map_option (\<lambda>snap. apply_metadata_risk_override (rn_codecs env) snap cap) r))
    | Some snap \<Rightarrow> (remember_rescored env (ev_ecosystem e)
          (map (\<lambda>(p, snap). (p, if p = name then apply_metadata_risk_override (rn_codecs env) snap cap else snap)) rescored) ?v,
        Inr (Some (apply_metadata_risk_override (rn_codecs env) snap cap)))))"
    by (cases "map_of rescored name")
      (auto simp: split_beta simp del: scores_local_resolve intro: local_resolve_grows remember_rescored_grows)
qed (simp_all add: scores_grow_refl)

lemma inline_hydrate_grows: "scores_grow s (fst (inline_hydrate_observed_release env e name s))"
  by (auto simp: inline_hydrate_observed_release_def hydrated_grows scores_grow_refl split: sum.splits option.splits)

lemma expand_if_due_grows: "scores_grow s (fst r) \<Longrightarrow> scores_grow s (fst (expand_if_due env eco pkg n r))"
  by (simp add: scores_grow_def)

lemma observation_grows: "scores_grow s (fst (record_observation eco name s))"
  by (simp add: scores_grow_refl)

text \<open>An operation's alternatives, tried in turn: each keeps what the state before it had.\<close>

lemma grows_alternative:
  assumes "scores_grow s (fst r)" and "\<And>t a. scores_grow s t \<Longrightarrow> scores_grow s (fst (f t a))"
    and "\<And>t. scores_grow s t \<Longrightarrow> scores_grow s (fst (g t))"
  shows "scores_grow s (fst (case r of (t, Some a) \<Rightarrow> f t a | (t, None) \<Rightarrow> g t))"
  using assms by (cases r; cases "snd r") auto

lemma census_or_stub_grows:
  "scores_grow s t \<Longrightarrow> scores_grow s (fst (case resolve_by_census env eco name t of
     (s, Some snap) \<Rightarrow> (s, snap) | (s, None) \<Rightarrow> resolve_by_stub env eco name s))"
  by (rule grows_alternative) (auto intro: scores_grow_trans resolve_by_census_grows resolve_by_stub_grows)

text \<open>The chain of sources each operation asks in turn once the package has no settled snapshot.\<close>

definition release_chain :: "priority_env \<Rightarrow> ecosystem \<Rightarrow> string \<Rightarrow> resolver \<Rightarrow> resolver \<times> priority_snapshot" where
  "release_chain env eco name s = (case local_resolve env eco name s of
     (s, Some snap) \<Rightarrow> remember_snapshot env eco name snap s
   | (s, None) \<Rightarrow> (case resolve_by_census env eco name s of
       (s, Some snap) \<Rightarrow> (s, snap)
     | (s, None) \<Rightarrow> resolve_by_stub env eco name s))"

definition event_chain :: "priority_env \<Rightarrow> release_event \<Rightarrow> string \<Rightarrow> nat \<Rightarrow> resolver \<Rightarrow> resolver \<times> priority_snapshot" where
  "event_chain env e name seen s = (case local_resolve env (ev_ecosystem e) name s of
     (s, Some snap) \<Rightarrow> remember_snapshot env (ev_ecosystem e) name snap s
   | (s, None) \<Rightarrow>
       (case (if seen \<ge> 2 then priority_ok_or None (inline_hydrate_observed_release env e name s) else (s, None)) of
          (s, Some snap) \<Rightarrow> (s, snap)
        | (s, None) \<Rightarrow> (case resolve_by_census env (ev_ecosystem e) name s of
            (s, Some snap) \<Rightarrow> (s, snap)
          | (s, None) \<Rightarrow> resolve_by_stub env (ev_ecosystem e) name s)))"

definition online_or_stub :: "priority_env \<Rightarrow> ecosystem \<Rightarrow> string \<Rightarrow> resolver \<Rightarrow> resolver \<times> priority_snapshot" where
  "online_or_stub env eco name s =
     (let (s, snap) = (if rn_online_fallback env then online_resolve env eco name s else (s, default_unknown)) in
      if ps_source snap = DefaultUnknown then resolve_by_stub env eco name s
      else remember_snapshot env eco name snap s)"

definition consumer_chain :: "priority_env \<Rightarrow> ecosystem \<Rightarrow> string \<Rightarrow> resolver \<Rightarrow> resolver \<times> priority_snapshot" where
  "consumer_chain env eco name s = (case local_resolve env eco name s of
     (s, Some snap) \<Rightarrow> remember_snapshot env eco name snap s
   | (s, None) \<Rightarrow> (case resolve_by_census env eco name s of
       (s, Some snap) \<Rightarrow> (s, snap)
     | (s, None) \<Rightarrow> online_or_stub env eco name s))"

lemma resolve_observed_release_chain:
  "resolve_observed_release env eco pkg s =
     (let name = normalize_package_name eco pkg; (s, seen) = record_observation eco name s in
      case map_of (rv_scores s) (eco, name) of
        Some snap \<Rightarrow> (s, snap) | None \<Rightarrow> expand_if_due env eco name seen (release_chain env eco name s))"
  unfolding resolve_observed_release_def release_chain_def by (rule refl)

lemma resolve_for_event_chain:
  "resolve_for_event env eco pkg s =
     (let name = normalize_package_name eco pkg; (s, seen) = record_observation eco name s in
      case map_of (rv_scores s) (eco, name) of
        Some snap \<Rightarrow> (s, snap) | None \<Rightarrow> expand_if_due env eco name seen (consumer_chain env eco name s))"
  unfolding resolve_for_event_def consumer_chain_def online_or_stub_def by (rule refl)

lemma resolve_observed_event_chain:
  "resolve_observed_event env e s =
     (let eco = ev_ecosystem e; name = normalize_package_name eco (ev_package e);
          (s, seen) = record_observation eco name s;
          settled = (case map_of (rv_scores s) (eco, name) of
            Some snap \<Rightarrow> if ps_source snap \<noteq> KnownPackageStub \<or> seen < 2 then Some snap else None
          | None \<Rightarrow> None) in
      case settled of
        Some snap \<Rightarrow> (s, snap) | None \<Rightarrow> expand_if_due env eco name seen (event_chain env e name seen s))"
  unfolding resolve_observed_event_def event_chain_def Let_def by (rule refl)

lemma remember_grows_after: "scores_grow s t \<Longrightarrow> scores_grow s (fst (remember_snapshot env eco pkg snap t))"
  by (rule scores_grow_trans [OF _ remember_grows])

lemma scores_grow_id [simp]: "scores_grow s s"
  by (simp add: scores_grow_refl)

lemma census_grows_after: "scores_grow s t \<Longrightarrow> scores_grow s (fst (resolve_by_census env eco name t))"
  by (rule scores_grow_trans [OF _ resolve_by_census_grows])

lemma stub_grows_after: "scores_grow s t \<Longrightarrow> scores_grow s (fst (resolve_by_stub env eco name t))"
  by (rule scores_grow_trans [OF _ resolve_by_stub_grows])

lemmas grows_after = local_resolve_grows remember_grows_after census_grows_after stub_grows_after

lemma release_chain_grows: "scores_grow s (fst (release_chain env eco name s))"
  unfolding release_chain_def
  by (intro grows_alternative grows_after) simp_all

lemma event_chain_grows: "scores_grow s (fst (event_chain env e name n s))"
proof -
  have "scores_grow s (fst (if n \<ge> 2 then priority_ok_or None (inline_hydrate_observed_release env e name t) else (t, None)))"
    if "scores_grow s t" for t
    using that scores_grow_trans [OF that inline_hydrate_grows] by simp
  then show ?thesis
    unfolding event_chain_def
    by (intro grows_alternative grows_after) (simp_all add: stub_grows_after)
qed

lemma online_or_stub_grows: "scores_grow s t \<Longrightarrow> scores_grow s (fst (online_or_stub env eco name t))"
proof -
  assume t: "scores_grow s t"
  then have "scores_grow s (fst (online_resolve env eco name t))"
    by (simp add: scores_grow_def)
  with t show ?thesis
    by (simp add: online_or_stub_def split_beta remember_grows_after resolve_by_stub_def)
qed

lemma consumer_chain_grows: "scores_grow s (fst (consumer_chain env eco name s))"
  unfolding consumer_chain_def
  by (intro grows_alternative grows_after online_or_stub_grows) simp_all

lemmas chains_grow = release_chain_grows event_chain_grows consumer_chain_grows

text \<open>Only the counters change before a chain starts.\<close>

lemma grows_expand:
  "(\<And>t. scores_grow t (fst (chain t))) \<Longrightarrow> scores_grow s t \<Longrightarrow> scores_grow s (fst (expand_if_due env eco name n (chain t)))"
  by (rule expand_if_due_grows) (rule scores_grow_trans)

lemma observation_grows_eq: "record_observation eco name s = (t, n) \<Longrightarrow> scores_grow s t"
  using observation_grows by (metis fst_conv)

lemma observed_release_grows: "scores_grow s (fst (resolve_observed_release env eco pkg s))"
  unfolding resolve_observed_release_chain Let_def
  by (auto split: prod.split option.split intro: grows_expand chains_grow observation_grows_eq)

lemma for_event_grows: "scores_grow s (fst (resolve_for_event env eco pkg s))"
  unfolding resolve_for_event_chain Let_def
  by (auto split: prod.split option.split intro: grows_expand chains_grow observation_grows_eq)

lemma observed_event_grows: "scores_grow s (fst (resolve_observed_event env e s))"
  unfolding resolve_observed_event_chain Let_def
  by (auto split: prod.split option.split intro: grows_expand chains_grow observation_grows_eq)

lemma seed_grows: "scores_grow s (fst (seed_event_snapshot env e s))"
  by (simp add: seed_event_snapshot_def remember_grows split: option.split)

lemma captured_grows: "scores_grow s (fst (record_captured_release env cap s))"
proof -
  have step: "scores_grow (fst acc) (fst (record_rescored env eco r acc))" for eco r acc
    using remember_grows by (simp add: record_rescored_def split_beta Let_def)
  have "scores_grow (fst acc) (fst (fold (record_rescored env eco) rs acc))" for eco rs acc
  proof (induction rs arbitrary: acc)
    case (Cons r rs)
    show ?case
      using scores_grow_trans [OF step Cons] by simp
  qed simp
  then have "scores_grow s (fst (fold (record_rescored env eco) rs (t, [])))" if "scores_grow s t" for eco rs t
    using that scores_grow_trans by (metis fst_conv)
  then show ?thesis
    by (simp add: record_captured_release_def Let_def split_beta scores_grow_def)
qed

lemma scores_local_evidence [simp]: "rv_scores (fst (local_evidence env eco pkg s)) = rv_scores s"
  by (simp add: local_evidence_def scores_then split: sum.split option.split)

lemma evidence_grows: "scores_grow s (fst (resolver_graph_evidence env eco pkg s))"
  by (rule scores_grow_refl) (simp add: resolver_graph_evidence_def Let_def split_beta split: option.split)

lemma scores_local_inspect [simp]: "rv_scores (fst (local_inspect env eco pkg n s)) = rv_scores s"
  by (simp add: local_inspect_def scores_then Let_def split: option.split)

lemma inspect_grows: "scores_grow s (fst (inspect_local_graph env eco pkg n s))"
  by (rule scores_grow_refl) (simp add: inspect_local_graph_def Let_def split_beta scores_then)

lemma record_hydrated_grows: "scores_grow s (fst (record_hydrated_release_metadata env e cap s))"
  unfolding record_hydrated_release_metadata_def by (rule hydrated_grows)

text \<open>The resolver's operations other than an expansion, each in an environment of its own.\<close>

inductive resolver_step :: "resolver \<Rightarrow> resolver \<Rightarrow> bool" where
  Resolve_Event: "resolver_step s (fst (resolver_apply env e s))"
| Resolve_Release: "resolver_step s (fst (resolve_observed_release env eco pkg s))"
| Resolve_Consumer: "resolver_step s (fst (resolve_for_event env eco pkg s))"
| Seed_Event: "resolver_step s (fst (seed_event_snapshot env e s))"
| Record_Capture: "resolver_step s (fst (record_captured_release env cap s))"
| Record_Hydrated: "resolver_step s (fst (record_hydrated_release_metadata env e cap s))"
| Collect_Evidence: "resolver_step s (fst (resolver_graph_evidence env eco pkg s))"
| Inspect_Graph: "resolver_step s (fst (inspect_local_graph env eco pkg n s))"

lemma step_grows: "resolver_step s t \<Longrightarrow> scores_grow s t"
proof (induction rule: resolver_step.induct)
  case (Resolve_Event s env e)
  show ?case
    using observed_event_grows by (simp add: resolver_apply_def split_beta)
qed (intro observed_release_grows for_event_grows seed_grows captured_grows record_hydrated_grows evidence_grows inspect_grows)+

lemma steps_grow: "resolver_step\<^sup>*\<^sup>* s t \<Longrightarrow> scores_grow s t"
  by (induction rule: rtranclp_induct) (auto intro: scores_grow_trans step_grows)

section \<open>What is returned is what is remembered\<close>

definition remembered :: "ecosystem \<Rightarrow> string \<Rightarrow> resolver \<times> priority_snapshot \<Rightarrow> bool" where
  "remembered eco name r \<longleftrightarrow> map_of (rv_scores (fst r)) (eco, name) = Some (snd r)"

lemma remembered_remember: "remembered eco name (remember_snapshot env eco name snap s)"
  by (simp add: remembered_def remember_snapshot_result)

lemma remembered_alternative:
  assumes "\<And>t a. r = (t, Some a) \<Longrightarrow> remembered eco name (f t a)" and "\<And>t. remembered eco name (g t)"
  shows "remembered eco name (case r of (t, Some a) \<Rightarrow> f t a | (t, None) \<Rightarrow> g t)"
  using assms by (cases r; cases "snd r") auto

lemma remembered_census: "resolve_by_census env eco name s = (t, Some a) \<Longrightarrow> remembered eco name (t, a)"
  using remembered_remember [of eco name env "package_census_snapshot (rn_now env)" "fst (priority_ok_or False (census_contains env eco name s))"]
  by (cases "remember_snapshot env eco name (package_census_snapshot (rn_now env)) (fst (priority_ok_or False (census_contains env eco name s)))")
    (auto simp: resolve_by_census_def split_beta remembered_def split: if_splits)

lemma remembered_stub: "remembered eco name (resolve_by_stub env eco name s)"
  by (simp add: resolve_by_stub_def remembered_remember)

lemma remembered_expand: "remembered eco name r \<Longrightarrow> remembered eco name (expand_if_due env eco' pkg n r)"
  by (cases r) (auto simp: remembered_def expand_if_due_def split: option.split)

lemma remembered_online: "remembered eco name (online_or_stub env eco name s)"
  by (simp add: online_or_stub_def split_beta remembered_stub remembered_remember)

lemma remembered_chains:
  "remembered eco name (release_chain env eco name s)"
  "remembered eco name (consumer_chain env eco name s)"
  unfolding release_chain_def consumer_chain_def
  by (intro remembered_alternative remembered_remember remembered_census remembered_stub remembered_online, assumption)+

lemma remembered_observed_release:
  "remembered eco (normalize_package_name eco pkg) (resolve_observed_release env eco pkg s)"
  unfolding resolve_observed_release_chain Let_def
  by (auto simp: remembered_def [of _ _ "(_, _)"] split: prod.split option.split intro: remembered_expand remembered_chains)

lemma remembered_for_event:
  "remembered eco (normalize_package_name eco pkg) (resolve_for_event env eco pkg s)"
  unfolding resolve_for_event_chain Let_def
  by (auto simp: remembered_def [of _ _ "(_, _)"] split: prod.split option.split intro: remembered_expand remembered_chains)

section \<open>The merge of score records\<close>

definition record_class :: "priority_score_record \<Rightarrow> nat \<times> nat" where
  "record_class r = snapshot_class (snapshot_from_score_record r)"

text \<open>An index holds the position of one element of each key.\<close>

definition indexes :: "('a \<Rightarrow> 'k) \<Rightarrow> ('k \<Rightarrow> nat option) \<Rightarrow> 'a list \<Rightarrow> bool" where
  "indexes f ix xs \<longleftrightarrow> dom ix = f ` set xs \<and> (\<forall>k i. ix k = Some i \<longrightarrow> i < length xs \<and> f (xs ! i) = k)"

lemma indexes_at: "indexes f ix xs \<Longrightarrow> ix k = Some i \<Longrightarrow> i < length xs \<and> f (xs ! i) = k"
  by (simp add: indexes_def)

lemma indexes_append: "indexes f ix xs \<Longrightarrow> indexes f (ix(f x \<mapsto> length xs)) (xs @ [x])"
proof -
  assume ix: "indexes f ix xs"
  have "i < length (xs @ [x]) \<and> f ((xs @ [x]) ! i) = k" if "(ix(f x \<mapsto> length xs)) k = Some i" for k i
    using that indexes_at [OF ix, of k i] by (auto simp: nth_append split: if_splits)
  moreover have "dom (ix(f x \<mapsto> length xs)) = f ` set (xs @ [x])"
    using ix by (auto simp: indexes_def)
  ultimately show ?thesis
    unfolding indexes_def by blast
qed

lemma indexes_update:
  assumes ix: "indexes f ix xs" and i: "ix (f u) = Some i"
  shows "indexes f ix (xs[i := u])"
proof -
  from indexes_at [OF ix i] have at: "i < length xs" "f (xs ! i) = f u"
    by simp_all
  have "map f (xs[i := u]) = map f xs"
    by (rule nth_equalityI) (auto simp: nth_list_update at)
  then have names: "f ` set (xs[i := u]) = f ` set xs"
    by (metis set_map)
  have elem: "j < length (xs[i := u])" "f (xs[i := u] ! j) = k" if "ix k = Some j" for k j
    using indexes_at [OF ix that] at indexes_at [OF ix i] by (cases "i = j"; simp)+
  show ?thesis
    unfolding indexes_def
  proof (intro conjI allI impI)
    show "dom ix = f ` set (xs[i := u])"
      using ix names by (simp add: indexes_def)
  qed (simp_all only: elem)
qed

definition merge_wf :: "merge_state \<Rightarrow> bool" where
  "merge_wf m \<longleftrightarrow> indexes record_name (map_of (ms_index m)) (ms_merged m)"

lemma merge_wf_at: "merge_wf m \<Longrightarrow> map_of (ms_index m) n = Some i \<Longrightarrow> i < length (ms_merged m) \<and> record_name (ms_merged m ! i) = n"
  unfolding merge_wf_def by (rule indexes_at)

lemma merge_start_wf: "merge_wf (merge_start existing)"
proof -
  let ?ix = "\<lambda>xs. map_of (fold (\<lambda>(i, r). AList.update (record_name r) i) (enumerate 0 xs) [])"
  have "indexes record_name (?ix xs) xs" for xs
  proof (induction xs rule: rev_induct)
    case (snoc x xs)
    have "?ix (xs @ [x]) = (?ix xs)(record_name x \<mapsto> length xs)"
      by (simp add: enumerate_append_eq update_conv')
    with indexes_append [OF snoc] show ?case
      by (simp only:)
  qed (simp add: indexes_def)
  then show ?thesis
    by (simp add: merge_wf_def merge_start_def)
qed

lemma merge_update_wf: "merge_wf m \<Longrightarrow> merge_wf (merge_update u m)"
  using indexes_append [of record_name "map_of (ms_index m)" "ms_merged m" u]
    indexes_update [of record_name "map_of (ms_index m)" "ms_merged m" u]
  by (simp add: merge_wf_def merge_update_def update_conv' split: option.split)

definition class_kept :: "priority_score_record list \<Rightarrow> priority_score_record \<Rightarrow> bool" where
  "class_kept ms r \<longleftrightarrow> (\<exists>m \<in> set ms. record_name m = record_name r \<and> record_class r \<le> record_class m)"

lemma class_kept_update:
  assumes wf: "merge_wf m" and kept: "class_kept (ms_merged m) r"
  shows "class_kept (ms_merged (merge_update u m)) r"
proof (cases "map_of (ms_index m) (record_name u)")
  case None
  with kept show ?thesis
    by (auto simp: class_kept_def merge_update_def)
next
  case (Some i)
  show ?thesis
  proof (cases "should_replace_snapshot (snapshot_from_score_record (ms_merged m ! i)) (snapshot_from_score_record u)")
    case True
    from wf Some have i: "i < length (ms_merged m)" "record_name (ms_merged m ! i) = record_name u"
      using merge_wf_at by blast+
    from kept obtain j where j: "j < length (ms_merged m)" "record_name (ms_merged m ! j) = record_name r"
        "record_class r \<le> record_class (ms_merged m ! j)"
      by (auto simp: class_kept_def in_set_conv_nth)
    have "record_class (ms_merged m ! i) \<le> record_class u"
      using True by (simp add: record_class_def replace_class)
    with i j have "record_name ((ms_merged m)[i := u] ! j) = record_name r \<and> record_class r \<le> record_class ((ms_merged m)[i := u] ! j)"
      by (cases "i = j") (auto intro: order_trans)
    with j(1) Some True show ?thesis
      by (auto simp: class_kept_def merge_update_def intro!: bexI [of _ "(ms_merged m)[i := u] ! j"])
  next
    case False
    with Some kept show ?thesis
      by (simp add: merge_update_def)
  qed
qed

lemma class_kept_new:
  assumes wf: "merge_wf m"
  shows "class_kept (ms_merged (merge_update u m)) u"
proof (cases "map_of (ms_index m) (record_name u)")
  case None
  then show ?thesis
    by (simp add: class_kept_def merge_update_def)
next
  case (Some i)
  with wf have i: "i < length (ms_merged m)" "record_name (ms_merged m ! i) = record_name u"
    using merge_wf_at by blast+
  then show ?thesis
    using keep_class [of "snapshot_from_score_record (ms_merged m ! i)" "snapshot_from_score_record u"] Some
    by (auto simp: class_kept_def merge_update_def record_class_def set_update_memI)
qed

lemma merge_fold:
  assumes "merge_wf m"
  shows "merge_wf (fold merge_update us m)
    \<and> (\<forall>r. class_kept (ms_merged m) r \<or> r \<in> set us \<longrightarrow> class_kept (ms_merged (fold merge_update us m)) r)
    \<and> set (ms_merged (fold merge_update us m)) \<subseteq> set (ms_merged m) \<union> set us
    \<and> record_name ` set (ms_merged (fold merge_update us m)) = record_name ` (set (ms_merged m) \<union> set us)"
  using assms
proof (induction us arbitrary: m)
  case (Cons u us)
  have sub: "set (ms_merged (merge_update u m)) \<subseteq> insert u (set (ms_merged m))"
    using set_update_subset_insert [of "ms_merged m" _ u] by (simp add: merge_update_def subset_insertI split: option.split)
  have "record_name ` set (ms_merged (merge_update u m)) = record_name ` insert u (set (ms_merged m))"
  proof
    show "record_name ` insert u (set (ms_merged m)) \<subseteq> record_name ` set (ms_merged (merge_update u m))"
    proof
      fix n assume "n \<in> record_name ` insert u (set (ms_merged m))"
      then obtain r where r: "n = record_name r" "r = u \<or> r \<in> set (ms_merged m)"
        by auto
      then have "class_kept (ms_merged (merge_update u m)) r"
        using class_kept_new [OF Cons.prems] class_kept_update [OF Cons.prems, of r]
        by (auto simp: class_kept_def)
      with r show "n \<in> record_name ` set (ms_merged (merge_update u m))"
        by (metis class_kept_def image_eqI)
    qed
  qed (use sub in auto)
  then have names: "record_name ` set (ms_merged (merge_update u m)) \<union> record_name ` set us = record_name ` (set (ms_merged m) \<union> set (u # us))"
    by auto
  note IH = Cons.IH [OF merge_update_wf [OF Cons.prems]]
  have kept: "class_kept (ms_merged (merge_update u m)) r \<or> r \<in> set us" if "class_kept (ms_merged m) r \<or> r \<in> set (u # us)" for r
    using that class_kept_new [OF Cons.prems, of u] class_kept_update [OF Cons.prems, of r u] by auto
  show ?case
  proof (intro conjI allI impI)
    show "merge_wf (fold merge_update (u # us) m)"
      using IH by simp
    show "class_kept (ms_merged (fold merge_update (u # us) m)) r" if "class_kept (ms_merged m) r \<or> r \<in> set (u # us)" for r
      using IH [THEN conjunct2, THEN conjunct1, rule_format, OF kept [OF that]] by simp
    have "set (ms_merged (fold merge_update us (merge_update u m))) \<subseteq> set (ms_merged (merge_update u m)) \<union> set us"
      using IH by simp
    with sub show "set (ms_merged (fold merge_update (u # us) m)) \<subseteq> set (ms_merged m) \<union> set (u # us)"
      by auto
    show "record_name ` set (ms_merged (fold merge_update (u # us) m)) = record_name ` (set (ms_merged m) \<union> set (u # us))"
      using IH names by (simp add: image_Un)
  qed
qed simp

section \<open>Properties\<close>

definition demo_high :: priority_snapshot where
  "demo_high = \<lparr>ps_tier = High, ps_source = LocalGraph, ps_direct_popularity = None, ps_propagated_impact = None,
     ps_hidden_leverage = None, ps_computed_at = None, ps_score_source_version = None\<rparr>"

definition no_file :: priority_file where
  "no_file = \<lparr>pf_read = NotFound, pf_modified = None\<rparr>"

definition demo_resolver :: resolver where
  "demo_resolver =
     \<lparr>rv_scores = [((Npm, ''a''), demo_high)], rv_thresholds = (\<lambda>_. None), rv_observation_counts = bm_new 4,
      rv_emitted_graph_cache = bm_new 4, rv_online_cache = bm_new 4, rv_census = None, rv_local_cache = None,
      rv_graph_file = no_file, rv_score_file = no_file, rv_census_file = no_file, rv_store = None, rv_in_flight = [],
      rv_spawned = []\<rparr>"

text \<open>C6: However events, consumers, captures, hydrations, seeds and inspections follow each other, a package that
  has a snapshot keeps one, and it never falls to a source of lower rank or, in a source of the same rank, to a
  lower tier.\<close>

theorem resolving_never_lowers:
  assumes "resolver_step\<^sup>*\<^sup>* s t" and "map_of (rv_scores s) (eco, name) = Some old"
  shows "\<exists>new. map_of (rv_scores t) (eco, name) = Some new
    \<and> snapshot_class old \<le> snapshot_class new"
  using steps_grow [OF assms(1)] assms(2) by (auto simp: scores_grow_def)

lemma resolving_never_lowers_witness:
  "\<forall>env. \<exists>new. map_of (rv_scores (fst (resolve_for_event env Npm ''b'' (fst (resolver_apply env demo_line_event demo_resolver)))))
      (Npm, ''a'') = Some new \<and> (3, 2) \<le> snapshot_class new"
proof
  fix env
  have "resolver_step\<^sup>*\<^sup>* demo_resolver (fst (resolve_for_event env Npm ''b'' (fst (resolver_apply env demo_line_event demo_resolver))))"
    by (meson Resolve_Event Resolve_Consumer converse_rtranclp_into_rtranclp rtranclp.rtrancl_refl)
  moreover have "map_of (rv_scores demo_resolver) (Npm, ''a'') = Some demo_high"
    by (simp add: demo_resolver_def)
  moreover have "snapshot_class demo_high = (3, 2)"
    by (simp add: snapshot_class_def demo_high_def)
  ultimately show "\<exists>new. map_of (rv_scores (fst (resolve_for_event env Npm ''b'' (fst (resolver_apply env demo_line_event demo_resolver)))))
      (Npm, ''a'') = Some new \<and> (3, 2) \<le> snapshot_class new"
    using resolving_never_lowers by metis
qed

text \<open>What \<open>resolve_for_event\<close> and \<open>resolve_observed_release\<close> return is what the resolver remembers: a
  later \<open>resolve\<close> of any spelling with the same normal form returns the same snapshot.\<close>

theorem resolved_snapshot_remembered:
  "resolve eco pkg (fst (resolve_for_event env eco pkg s)) = snd (resolve_for_event env eco pkg s)
   \<and> resolve eco pkg (fst (resolve_observed_release env eco pkg s)) = snd (resolve_observed_release env eco pkg s)"
  using remembered_for_event [of eco pkg env s] remembered_observed_release [of eco pkg env s]
  by (simp add: remembered_def resolve_def)

text \<open>Merging updates into score records loses no package and no class: the merged records are records of the
  two lists, they name the same packages, and each record given has a merged record of its package whose source
  rank and tier are at least its own.\<close>

theorem merge_keeps_best_class:
  "(let merged = fst (merge_priority_score_records existing updates) in
      set merged \<subseteq> set existing \<union> set updates
      \<and> record_name ` set merged = record_name ` (set existing \<union> set updates)
      \<and> list_all (\<lambda>r. list_ex (\<lambda>m. record_name m = record_name r \<and> record_class r \<le> record_class m) merged) (existing @ updates))"
proof -
  let ?m = "ms_merged (fold merge_update updates (merge_start existing))"
  have start: "ms_merged (merge_start existing) = existing"
    by (simp add: merge_start_def)
  note F = merge_fold [OF merge_start_wf, of updates existing, unfolded start]
  have "class_kept ?m r" if "r \<in> set (existing @ updates)" for r
    using that F by (auto simp: class_kept_def)
  with F show ?thesis
    by (simp add: merge_priority_score_records_def Let_def class_kept_def list_all_iff list_ex_iff)
qed

text \<open>Two records of a package with the same source rank and tier, one with the larger impact and the other with
  the larger popularity, each replace the other: the merge keeps whichever comes last.\<close>

theorem conflicting_metrics_last_wins:
  assumes "record_name a = record_name b"
    and "priority_source_rank (ps_source (snapshot_from_score_record a)) = priority_source_rank (ps_source (snapshot_from_score_record b))"
    and "sc_priority_tier a = sc_priority_tier b"
    and "f64_lt (metric_or_zero (sc_propagated_impact a)) (metric_or_zero (sc_propagated_impact b))"
    and "f64_lt (metric_or_zero (sc_direct_popularity b)) (metric_or_zero (sc_direct_popularity a))"
  shows "fst (merge_priority_score_records [] [a, b]) = [b] \<and> fst (merge_priority_score_records [] [b, a]) = [a]"
proof -
  have "should_replace_snapshot (snapshot_from_score_record a) (snapshot_from_score_record b)"
    "should_replace_snapshot (snapshot_from_score_record b) (snapshot_from_score_record a)"
    using assms by (simp_all add: should_replace_snapshot_def snapshot_from_score_record_def)
  with assms(1) show ?thesis
    by (simp add: merge_priority_score_records_def merge_start_def merge_update_def)
qed

definition demo_record :: "f64 \<Rightarrow> f64 \<Rightarrow> priority_score_record" where
  "demo_record popularity impact =
     \<lparr>sc_ecosystem = Npm, sc_package = ''a'', sc_priority_tier = High, sc_priority_source = Some LocalGraph,
      sc_direct_popularity = Some popularity, sc_propagated_impact = Some impact, sc_hidden_leverage = None,
      sc_computed_at = None, sc_score_source_version = None\<rparr>"

lemma conflicting_metrics_last_wins_witness:
  "fst (merge_priority_score_records [] [demo_record f64_one f64_zero, demo_record f64_zero f64_one]) = [demo_record f64_zero f64_one]
   \<and> fst (merge_priority_score_records [] [demo_record f64_zero f64_one, demo_record f64_one f64_zero]) = [demo_record f64_one f64_zero]"
proof -
  have lt: "f64_lt f64_zero f64_one"
    by code_simp
  show ?thesis
    by (rule conflicting_metrics_last_wins) (simp_all add: demo_record_def record_name_def metric_or_zero_def snapshot_from_score_record_def lt)
qed

lemma local_resolve_nothing:
  assumes "rv_store s = None" "pf_read (rv_graph_file s) = NotFound" "pf_modified (rv_graph_file s) = None"
    and "rv_local_cache s = None \<or> rv_local_cache s = Some local_cache_empty"
  shows "local_resolve env eco name s = (s\<lparr>rv_local_cache := Some local_cache_empty\<rparr>, None)"
proof -
  have load: "load_cache env s = (s\<lparr>rv_local_cache := Some local_cache_empty\<rparr>, Inr local_cache_empty)"
    using assms by (auto simp: load_cache_def load_score_input_records_def local_cache_empty_def Let_def)
  have reload: "load_cache env (s\<lparr>rv_local_cache := Some local_cache_empty\<rparr>) = (s\<lparr>rv_local_cache := Some local_cache_empty\<rparr>, Inr local_cache_empty)"
    using assms by (simp add: load_cache_def local_cache_empty_def)
  have no_rows: "cache_graph_records local_cache_empty eco [name] = []"
    by (simp add: cache_graph_records_def cache_frontier_def local_cache_empty_def names_at_def btree_set_def)
  let ?s = "s\<lparr>rv_local_cache := Some local_cache_empty\<rparr>"
  have "neighborhood_input env eco [name] 256 s = (?s, Inr [])"
    using assms(1) no_rows by (simp add: neighborhood_input_def load priority_then_def)
  then have score: "score_neighborhood env eco [name] 256 s = (?s, Inr [])"
    by (simp add: score_neighborhood_def priority_then_def)
  have "resolve_scored env eco name s = (?s, Inr None)"
    using assms(1) reload by (simp add: resolve_scored_def score load_store_evidence_def priority_then_def)
      (simp add: local_cache_empty_def)
  then show ?thesis
    by (simp add: local_resolve_def priority_ok_or_def)
qed

lemma census_contains_new:
  assumes "rv_census s = None" "pf_read (rv_census_file s) = NotFound" "pf_modified (rv_census_file s) = None"
  shows "census_contains env eco name s =
    (s\<lparr>rv_census := Some \<lparr>cs_modified_at = None, cs_packages = {}, cs_checked_at = rn_now env\<rparr>\<rparr>, Inr False)"
  using assms by (simp add: census_contains_def load_package_census_records_def Let_def)

lemma census_contains_cached:
  assumes "rv_census s = Some c" "cs_checked_at c = rn_now env"
  shows "census_contains env eco name s = (s, Inr ((eco, normalize_package_name eco name) \<in> cs_packages c))"
  using assms by (simp add: census_contains_def package_census_refresh_interval_def)

lemma record_observation_first:
  "bm_get (rv_observation_counts s) (eco, name) = None \<Longrightarrow>
     \<exists>m. record_observation eco name s = (s\<lparr>rv_observation_counts := m\<rparr>, 1) \<and> bm_get m (eco, name) = Some 1"
  by (intro exI [of _ "snd (bm_insert (eco, name) 1 (rv_observation_counts s))"])
    (auto simp: record_observation_def bm_get_def get_mut_absent insert_new)

lemma record_observation_again:
  "bm_get (rv_observation_counts s) (eco, name) = Some k \<Longrightarrow>
     \<exists>m. record_observation eco name s = (s\<lparr>rv_observation_counts := m\<rparr>, Suc k)"
  by (auto simp: record_observation_def bm_get_def get_mut_present)

text \<open>The chain on a resolver without a local graph: a package the cached census lacks becomes a stub, one it
  holds a census package.\<close>

definition bare :: "resolver \<Rightarrow> bool" where
  "bare s \<longleftrightarrow> rv_store s = None \<and> rv_graph_file s = no_file \<and> rv_census_file s = no_file
     \<and> (rv_local_cache s = None \<or> rv_local_cache s = Some local_cache_empty)"

lemma event_chain_bare:
  assumes "bare s" "\<not> rn_permit env"
  shows "event_chain env e name seen s =
    (let s = s\<lparr>rv_local_cache := Some local_cache_empty\<rparr> in
     case resolve_by_census env (ev_ecosystem e) name s of
       (s, Some snap) \<Rightarrow> (s, snap) | (s, None) \<Rightarrow> resolve_by_stub env (ev_ecosystem e) name s)"
proof -
  have "local_resolve env (ev_ecosystem e) name s = (s\<lparr>rv_local_cache := Some local_cache_empty\<rparr>, None)"
    using assms(1) by (intro local_resolve_nothing) (auto simp: bare_def no_file_def)
  with assms(2) show ?thesis
    by (cases "2 \<le> seen") (simp_all add: event_chain_def inline_hydrate_observed_release_def priority_ok_or_def)
qed

lemma first_observation:
  assumes "bare s" "\<not> rn_permit env" "rv_scores s = []" "rv_census s = None"
    and norm: "normalize_package_name (ev_ecosystem e) name = name"
  shows "\<exists>g. event_chain env e name seen s =
    (s\<lparr>rv_local_cache := Some local_cache_empty, rv_scores := [((ev_ecosystem e, name), known_package_stub (rn_now env))],
       rv_emitted_graph_cache := g,
       rv_census := Some \<lparr>cs_modified_at = None, cs_packages = {(ev_ecosystem e, name)}, cs_checked_at = rn_now env\<rparr>\<rparr>,
     known_package_stub (rn_now env))"
proof -
  let ?s = "s\<lparr>rv_local_cache := Some local_cache_empty\<rparr>"
  have "census_contains env (ev_ecosystem e) name ?s =
      (?s\<lparr>rv_census := Some \<lparr>cs_modified_at = None, cs_packages = {}, cs_checked_at = rn_now env\<rparr>\<rparr>, Inr False)"
    using assms by (intro census_contains_new) (simp_all add: bare_def no_file_def)
  then have "resolve_by_census env (ev_ecosystem e) name ?s =
      (?s\<lparr>rv_census := Some \<lparr>cs_modified_at = None, cs_packages = {}, cs_checked_at = rn_now env\<rparr>\<rparr>, None)"
    by (simp add: resolve_by_census_def priority_ok_or_def)
  with assms show ?thesis
    by (simp add: event_chain_bare resolve_by_stub_def remember_snapshot_state stored_state_def Let_def norm
        snapshot_requires_runtime_persistence_def known_package_stub_def invalidate_emitted_graph_cache_def census_remember_def)
      blast
qed

lemma next_observation:
  assumes "bare s" "\<not> rn_permit env" "rv_census s = Some c" "cs_checked_at c = rn_now env" "(ev_ecosystem e, name) \<in> cs_packages c"
    and "map_of (rv_scores s) (ev_ecosystem e, name) = Some (known_package_stub now)"
    and norm: "normalize_package_name (ev_ecosystem e) name = name"
  shows "snd (event_chain env e name seen s) = package_census_snapshot (rn_now env)
    \<and> rv_census_file (fst (event_chain env e name seen s)) = rv_census_file s
    \<and> rv_score_file (fst (event_chain env e name seen s)) = rv_score_file s"
proof -
  let ?s = "s\<lparr>rv_local_cache := Some local_cache_empty\<rparr>"
  have "census_contains env (ev_ecosystem e) name ?s = (?s, Inr True)"
    using assms by (simp add: census_contains_cached [of _ c])
  then have "resolve_by_census env (ev_ecosystem e) name ?s =
      map_prod id Some (remember_snapshot env (ev_ecosystem e) name (package_census_snapshot (rn_now env)) ?s)"
    by (simp add: resolve_by_census_def priority_ok_or_def)
  moreover have "should_replace_snapshot (known_package_stub now) (package_census_snapshot (rn_now env))"
    by (simp add: should_replace_snapshot_def known_package_stub_def package_census_snapshot_def)
  ultimately show ?thesis
    using assms
    by (simp add: event_chain_bare remember_snapshot_state stored_state_def Let_def
        snapshot_requires_runtime_persistence_def package_census_snapshot_def invalidate_emitted_graph_cache_def census_remember_def)
qed

lemma expand_if_due_frame [simp]:
  "snd (expand_if_due env eco pkg n r) = snd r"
  "rv_census (fst (expand_if_due env eco pkg n r)) = rv_census (fst r)"
  "rv_store (fst (expand_if_due env eco pkg n r)) = rv_store (fst r)"
  "rv_graph_file (fst (expand_if_due env eco pkg n r)) = rv_graph_file (fst r)"
  "rv_census_file (fst (expand_if_due env eco pkg n r)) = rv_census_file (fst r)"
  "rv_score_file (fst (expand_if_due env eco pkg n r)) = rv_score_file (fst r)"
  "rv_local_cache (fst (expand_if_due env eco pkg n r)) = rv_local_cache (fst r)"
  "rv_observation_counts (fst (expand_if_due env eco pkg n r)) = rv_observation_counts (fst r)"
  by (cases r; simp add: expand_if_due_def spawn_expand_def split: option.split)+

text \<open>A package that no file lists becomes a stub on its first observation, and, when its metadata is not
  fetched, a census package on its second: the stub put its name into the cached census, and both files are as
  they were.\<close>

theorem stub_becomes_census:
  assumes "resolver_load env no_file no_file no_file None = Inr s" and "\<not> rn_permit env"
  shows "let r1 = resolve_observed_event env e s; r2 = resolve_observed_event env e (fst r1) in
     ps_source (snd r1) = KnownPackageStub \<and> ps_source (snd r2) = PackageCensus
     \<and> rv_census_file (fst r2) = no_file \<and> rv_score_file (fst r2) = no_file"
proof -
  let ?eco = "ev_ecosystem e" and ?name = "normalize_package_name (ev_ecosystem e) (ev_package e)"
  let ?key = "(?eco, ?name)"
  have s: "rv_scores s = []" "rv_store s = None" "rv_census s = None" "rv_local_cache s = None" "rv_graph_file s = no_file"
      "rv_census_file s = no_file" "rv_score_file s = no_file" "bm_get (rv_observation_counts s) ?key = None"
    using assms(1)
    by (auto simp: resolver_load_def load_priority_score_records_with_store_def load_score_records_def no_file_def
        scores_of_records_def bm_new_def bm_get_def)
  have norm: "normalize_package_name ?eco ?name = ?name"
    by (rule pkg.norm_idem)
  obtain m where m: "record_observation ?eco ?name s = (s\<lparr>rv_observation_counts := m\<rparr>, 1)" "bm_get m ?key = Some 1"
    using record_observation_first s by metis
  let ?c = "\<lparr>cs_modified_at = None, cs_packages = {?key}, cs_checked_at = rn_now env\<rparr>"
  let ?stub = "known_package_stub (rn_now env)"
  have "bare (s\<lparr>rv_observation_counts := m\<rparr>)"
    by (simp add: bare_def s)
  then obtain g where first: "event_chain env e ?name 1 (s\<lparr>rv_observation_counts := m\<rparr>) =
      (s\<lparr>rv_observation_counts := m, rv_local_cache := Some local_cache_empty, rv_scores := [(?key, ?stub)],
         rv_emitted_graph_cache := g, rv_census := Some ?c\<rparr>, ?stub)" (is "_ = (?s1, _)")
    using first_observation [OF _ assms(2), of "s\<lparr>rv_observation_counts := m\<rparr>" e ?name 1] norm s by auto
  then have r1: "resolve_observed_event env e s = expand_if_due env ?eco ?name 1 (?s1, ?stub)"
    by (simp add: resolve_observed_event_chain Let_def m s)
  define t where "t = fst (expand_if_due env ?eco ?name 1 (?s1, ?stub))"
  have t: "rv_scores t = [(?key, ?stub)]" "rv_census t = Some ?c" "rv_store t = None" "rv_graph_file t = no_file"
      "rv_census_file t = no_file" "rv_score_file t = no_file" "rv_local_cache t = Some local_cache_empty"
      "rv_observation_counts t = m"
    by (simp_all add: t_def s)
  obtain m' where m': "record_observation ?eco ?name t = (t\<lparr>rv_observation_counts := m'\<rparr>, Suc 1)"
    using record_observation_again m(2) t(8) by metis
  let ?t = "t\<lparr>rv_observation_counts := m'\<rparr>"
  have "ps_source ?stub = KnownPackageStub"
    by (simp add: known_package_stub_def)
  then have r2: "resolve_observed_event env e t = expand_if_due env ?eco ?name 2 (event_chain env e ?name 2 ?t)"
    by (simp add: resolve_observed_event_chain Let_def m' t numeral_2_eq_2)
  have "snd (event_chain env e ?name 2 ?t) = package_census_snapshot (rn_now env)
      \<and> rv_census_file (fst (event_chain env e ?name 2 ?t)) = rv_census_file ?t
      \<and> rv_score_file (fst (event_chain env e ?name 2 ?t)) = rv_score_file ?t"
    using assms(2) norm by (intro next_observation [of _ _ ?c]) (simp_all add: bare_def t)
  then show ?thesis
    unfolding r1 Let_def t_def [symmetric] r2
    by (simp add: t) (simp add: known_package_stub_def package_census_snapshot_def)
qed

definition demo_env :: priority_env where
  "demo_env =
     \<lparr>rn_now = 7, rn_io = (\<lambda>_. True), rn_ln = id, rn_enc_input = (\<lambda>_. ''{}''), rn_dec_input = (\<lambda>_. None),
      rn_enc_score = (\<lambda>_. ''{}''), rn_dec_score = (\<lambda>_. None), rn_enc_census = (\<lambda>_. ''{}''), rn_dec_census = (\<lambda>_. None),
      rn_enc_sources = (\<lambda>_. ''[]''), rn_dec_sources = (\<lambda>_. Some []), rn_show_time = (\<lambda>_. ''1970''),
      rn_codecs = \<lparr>enc_risk = (\<lambda>_. JNull), dec_risk = (\<lambda>_. None), enc_content = (\<lambda>_. JNull), dec_content = (\<lambda>_. None),
        enc_burst = (\<lambda>_. JNull), dec_burst = (\<lambda>_. None)\<rparr>,
      rn_score_build = \<lparr>sb_alpha = f64_one, sb_max_iterations = 1, sb_epsilon = f64_zero, sb_high_quantile = f64_one,
        sb_medium_quantile = f64_zero, sb_score_source_version = None\<rparr>,
      rn_online_fallback = False, rn_expander = Some 2,
      rn_web = \<lparr>pw_get = (\<lambda>_. Inl ''offline''), pw_get_status = (\<lambda>_. Inl ''offline''), pw_url_encode = id, pw_v3_base = [],
        pw_v3alpha_base = []\<rparr>,
      rn_permit = False, rn_hydrate = (\<lambda>_. Inr None), rn_repository_of = (\<lambda>_ _. None)\<rparr>"

lemma stub_becomes_census_witness:
  "\<exists>s. resolver_load demo_env no_file no_file no_file None = Inr s
    \<and> ps_source (snd (resolve_observed_event demo_env demo_line_event s)) = KnownPackageStub
    \<and> ps_source (snd (resolve_observed_event demo_env demo_line_event (fst (resolve_observed_event demo_env demo_line_event s)))) = PackageCensus"
proof -
  obtain s where s: "resolver_load demo_env no_file no_file no_file None = Inr s"
    by (simp add: resolver_load_def load_priority_score_records_with_store_def load_score_records_def no_file_def)
  have "\<not> rn_permit demo_env"
    by (simp add: demo_env_def)
  from stub_becomes_census [OF s this, of demo_line_event] s show ?thesis
    by (auto simp: Let_def)
qed

end
