(* ===== verification/Provenance.thy ===== *)
theory Provenance
  imports Store Bounded_Map
begin

text \<open>
  The upstream-repository checks of \<open>repo_provenance.rs\<close>: which repository a release names, which tags,
  releases and commits answer for its version, the three process-wide caches and the GitHub backoff, and the
  metadata of a local artifact.  The HTTP client, the URL encoder, the text of a status code and the archive
  commands are the environment; a response is its status and the result of decoding its body.
\<close>

section \<open>Repositories\<close>

datatype local_artifact_kind = Wheel | PypiSdist | NpmTarball | CrateTarball

fun artifact_kind_as_str :: "local_artifact_kind \<Rightarrow> string" where
  "artifact_kind_as_str Wheel = ''wheel''"
| "artifact_kind_as_str PypiSdist = ''sdist''"
| "artifact_kind_as_str NpmTarball = ''npm_tarball''"
| "artifact_kind_as_str CrateTarball = ''crate_tarball''"

record resolved_repository =
  rr_provider :: repository_provider
  rr_repository_url :: string
  rr_normalized_repository_url :: string
  rr_owner :: string
  rr_name :: string

definition strip_or_keep :: "(string \<Rightarrow> string option) \<Rightarrow> string \<Rightarrow> string" where
  "strip_or_keep f s = (case f s of Some t \<Rightarrow> t | None \<Rightarrow> s)"

definition first_of :: "(string \<Rightarrow> string option) \<Rightarrow> (string \<Rightarrow> string option) \<Rightarrow> string \<Rightarrow> string option" where
  "first_of f g s = (case f s of Some t \<Rightarrow> Some t | None \<Rightarrow> g s)"

definition resolve_repository :: "string \<Rightarrow> resolved_repository option" where
  "resolve_repository raw =
     (let trimmed = trim raw;
          without_prefix = strip_or_keep (first_of (\<lambda>s. strip_prefix s ''git+'') (\<lambda>s. strip_prefix s ''git://'')) trimmed;
          without_git_suffix = strip_or_keep (\<lambda>s. strip_suffix s ''.git'') without_prefix;
          candidate = str_replace ''git@gitlab.com:'' ''https://gitlab.com/''
            (str_replace ''git@github.com:'' ''https://github.com/'' without_git_suffix);
          normalized = strip_or_keep (first_of (\<lambda>s. strip_prefix s ''https://'') (\<lambda>s. strip_prefix s ''http://'')) candidate;
          normalized = strip_or_keep (\<lambda>s. strip_prefix s ''www.'') normalized in
      case split_char (CHR ''/'') normalized of
        h # ow # n # _ \<Rightarrow>
          (let host = to_ascii_lowercase h; owner = trim ow; name = trim n in
           if owner = [] \<or> name = [] then None
           else let name = strip_or_keep (\<lambda>s. strip_suffix s ''.git'') name in
             Some \<lparr>rr_provider = (if host = ''github.com'' then Github else if host = ''gitlab.com'' then Gitlab else UnknownProvider),
                   rr_repository_url = raw,
                   rr_normalized_repository_url = ''https://'' @ host @ ''/'' @ owner @ ''/'' @ name,
                   rr_owner = owner, rr_name = name\<rparr>)
      | _ \<Rightarrow> None)"

definition candidate_version_refs :: "string \<Rightarrow> string list" where
  "candidate_version_refs version =
     (let normalized = trim version;
          refs = (if normalized = [] then []
            else if \<not> starts_with normalized ''v'' then [normalized, ''v'' @ normalized]
            else case strip_prefix normalized ''v'' of
                Some stripped \<Rightarrow> if stripped \<noteq> [] then [normalized, stripped] else [normalized]
              | None \<Rightarrow> [normalized]) in
      remdups_adj (sort refs))"

section \<open>The repository a release names\<close>

text \<open>A string value that is not blank, trimmed.\<close>

definition filled_str :: "json option \<Rightarrow> string option" where
  "filled_str v = (case Option.bind v as_str of Some s \<Rightarrow> if trim s \<noteq> [] then Some (trim s) else None | None \<Rightarrow> None)"

definition pypi_repository_keys :: "string list" where
  "pypi_repository_keys = [''Source'', ''Source Code'', ''Repository'', ''Code'', ''Homepage'', ''Home'']"

definition extract_pypi_repository_url :: "json \<Rightarrow> string option" where
  "extract_pypi_repository_url details = (case json_get details ''project_urls'' of
     None \<Rightarrow> None
   | Some urls \<Rightarrow> (case List.map_filter (\<lambda>k. filled_str (json_get urls k)) pypi_repository_keys of
       url # _ \<Rightarrow> Some url
     | [] \<Rightarrow> filled_str (json_get details ''home_page'')))"

definition extract_npm_repository_url :: "json \<Rightarrow> string option" where
  "extract_npm_repository_url details = (case json_get details ''repository'' of
     None \<Rightarrow> None
   | Some repository \<Rightarrow> (case filled_str (json_get repository ''url'') of
       Some url \<Rightarrow> Some url
     | None \<Rightarrow> filled_str (Some repository)))"

definition extract_crates_repository_url :: "json \<Rightarrow> string option" where
  "extract_crates_repository_url details = (case filled_str (json_pointer details [''crate'', ''repository'']) of
     Some url \<Rightarrow> Some url
   | None \<Rightarrow> filled_str (json_pointer details [''crate'', ''homepage'']))"

fun extract_repository_url :: "ecosystem \<Rightarrow> json \<Rightarrow> string option" where
  "extract_repository_url Pypi details = extract_pypi_repository_url details"
| "extract_repository_url Npm details = extract_npm_repository_url details"
| "extract_repository_url CratesIo details = extract_crates_repository_url details"

definition extract_vcs_commit_from_value :: "json \<Rightarrow> string option" where
  "extract_vcs_commit_from_value v = Option.bind (json_pointer v [''git'', ''sha1'']) as_str"

fun extract_embedded_repository_commit :: "ecosystem \<Rightarrow> json \<Rightarrow> string option" where
  "extract_embedded_repository_commit CratesIo details =
     (case Option.bind (json_pointer details [''crate'', ''vcs_commit'']) as_str of
        Some commit \<Rightarrow> Some commit
      | None \<Rightarrow> Option.bind (json_pointer details [''crate_vcs_info'']) extract_vcs_commit_from_value)"
| "extract_embedded_repository_commit _ details = None"

definition extract_package_repository_identity ::
  "datetime \<Rightarrow> ecosystem \<Rightarrow> string \<Rightarrow> json \<Rightarrow> string \<Rightarrow> f64 option \<Rightarrow> repository_ref option" where
  "extract_package_repository_identity now eco pkg details source confidence =
     map_option (\<lambda>url. case resolve_repository url of
         Some r \<Rightarrow> \<lparr>rf_ecosystem = eco, rf_package = pkg, rf_provider = rr_provider r, rf_repository_url = rr_repository_url r,
           rf_normalized_repository_url = rr_normalized_repository_url r, rf_source = source, rf_confidence = confidence,
           rf_checked_at = now\<rparr>
       | None \<Rightarrow> \<lparr>rf_ecosystem = eco, rf_package = pkg, rf_provider = UnknownProvider, rf_repository_url = url,
           rf_normalized_repository_url = url, rf_source = source, rf_confidence = confidence, rf_checked_at = now\<rparr>)
       (extract_repository_url eco details)"

section \<open>Caches and environment\<close>

datatype cached_github_tags = TagNames "string list" | TagsNotFound | TagsUnknown string

datatype cached_gitlab_tag = GitlabMatch bool | GitlabNotFound | GitlabUnknown string

record github_backoff =
  gb_until :: int
  gb_reason :: string

record provenance_state =
  pv_github_tags :: "(string, cached_github_tags) bounded_map"
  pv_github_releases :: "(string, bool) bounded_map"
  pv_gitlab_tags :: "(string, cached_gitlab_tag) bounded_map"
  pv_github_backoff :: "github_backoff option"

definition max_github_tag_cache_entries :: nat where
  "max_github_tag_cache_entries = 2048"

definition max_github_release_cache_entries :: nat where
  "max_github_release_cache_entries = 8192"

definition max_gitlab_tag_cache_entries :: nat where
  "max_gitlab_tag_cache_entries = 2048"

definition provenance_start :: provenance_state where
  "provenance_start =
     \<lparr>pv_github_tags = bm_new max_github_tag_cache_entries, pv_github_releases = bm_new max_github_release_cache_entries,
      pv_gitlab_tags = bm_new max_gitlab_tag_cache_entries, pv_github_backoff = None\<rparr>"

definition github_backoff_duration :: int where
  "github_backoff_duration = 15 * 60 * 1000000000"

text \<open>\<open>pe_get\<close> sends a request with the token, if any; the request fails, or answers a status and a body that
  decodes or not.  \<open>pe_now\<close> is the time, in nanoseconds, of every clock the check reads.\<close>

record provenance_env =
  pe_now :: int
  pe_github_token :: "string option"
  pe_gh_token :: "string option"
  pe_get :: "string option \<Rightarrow> string \<Rightarrow> string + (nat \<times> (string + json))"
  pe_status_text :: "nat \<Rightarrow> string"
  pe_url_encode :: "string \<Rightarrow> string"

type_synonym provenance_outcome = "provenance_state \<times> (string + repository_provenance option)"

definition github_api_token :: "provenance_env \<Rightarrow> string option" where
  "github_api_token env =
     (let filled = (\<lambda>v. case v of Some t \<Rightarrow> if trim t \<noteq> [] then Some t else None | None \<Rightarrow> None) in
      case filled (pe_github_token env) of Some t \<Rightarrow> Some t | None \<Rightarrow> filled (pe_gh_token env))"

definition active_github_backoff_reason :: "provenance_env \<Rightarrow> provenance_state \<Rightarrow> provenance_state \<times> string option" where
  "active_github_backoff_reason env s = (case pv_github_backoff s of
     None \<Rightarrow> (s, None)
   | Some b \<Rightarrow> if pe_now env < gb_until b then (s, Some (gb_reason b)) else (s\<lparr>pv_github_backoff := None\<rparr>, None))"

definition note_github_backoff :: "provenance_env \<Rightarrow> nat \<Rightarrow> string \<Rightarrow> provenance_state \<Rightarrow> provenance_state" where
  "note_github_backoff env status reason s =
     (if status \<noteq> 403 \<and> status \<noteq> 429 then s
      else s\<lparr>pv_github_backoff := Some \<lparr>gb_until = pe_now env + github_backoff_duration,
          gb_reason = reason @ ''; GitHub parity temporarily backed off''\<rparr>\<rparr>)"

definition is_transient_github_status_reason :: "string \<Rightarrow> bool" where
  "is_transient_github_status_reason reason \<longleftrightarrow> str_contains reason ''403 Forbidden''
     \<or> str_contains reason ''429 Too Many Requests'' \<or> str_contains reason ''temporarily backed off''"

section \<open>Verdicts\<close>

definition provenance_of ::
  "provenance_env \<Rightarrow> resolved_repository \<Rightarrow> string \<Rightarrow> string list \<Rightarrow> repository_match_kind \<Rightarrow> string option \<Rightarrow> string option \<Rightarrow> bool
     \<Rightarrow> string \<Rightarrow> repository_provenance" where
  "provenance_of env r version candidates kind ref commit suspicious reason =
     \<lparr>rp_provider = rr_provider r, rp_repository_url = rr_repository_url r,
      rp_normalized_repository_url = rr_normalized_repository_url r, rp_package_version = version, rp_checked_at = pe_now env,
      rp_candidate_refs = candidates, rp_match_kind = kind, rp_matched_ref = ref, rp_matched_commit = commit,
      rp_suspicious = suspicious, rp_reason = reason\<rparr>"

definition commit_provenance :: "provenance_env \<Rightarrow> resolved_repository \<Rightarrow> string \<Rightarrow> string \<Rightarrow> string \<Rightarrow> repository_provenance" where
  "commit_provenance env r version commit reason =
     provenance_of env r version (candidate_version_refs version) MatchCommit None (Some commit) False reason"

definition mismatch_provenance :: "provenance_env \<Rightarrow> resolved_repository \<Rightarrow> string \<Rightarrow> string list \<Rightarrow> string \<Rightarrow> repository_provenance" where
  "mismatch_provenance env r version candidates reason = provenance_of env r version candidates MatchNone None None True reason"

definition unknown_provenance :: "provenance_env \<Rightarrow> resolved_repository \<Rightarrow> string \<Rightarrow> string list \<Rightarrow> string \<Rightarrow> repository_provenance" where
  "unknown_provenance env r version candidates reason = provenance_of env r version candidates MatchUnknown None None False reason"

section \<open>Commits\<close>

definition check_github_commit ::
  "provenance_env \<Rightarrow> resolved_repository \<Rightarrow> string \<Rightarrow> string \<Rightarrow> string \<Rightarrow> provenance_state \<Rightarrow> provenance_outcome" where
  "check_github_commit env r version commit base s =
     (if trim commit = [] then (s, Inr None)
      else let token = github_api_token env;
               (s, backoff) = (if token = None then active_github_backoff_reason env s else (s, None)) in
        case backoff of
          Some reason \<Rightarrow> (s, Inr (Some (unknown_provenance env r version (candidate_version_refs version) reason)))
        | None \<Rightarrow> (case pe_get env token (base @ ''/repos/'' @ rr_owner r @ ''/'' @ rr_name r @ ''/commits/'' @ commit) of
            Inl _ \<Rightarrow> (s, Inl ''failed to fetch GitHub commit'')
          | Inr (status, _) \<Rightarrow>
              if status = 200
              then (s, Inr (Some (commit_provenance env r version commit
                ''found embedded GitHub commit in upstream repository for package artifact'')))
              else if status \<noteq> 404
              then let reason = ''GitHub commit provenance check returned status '' @ pe_status_text env status in
                (note_github_backoff env status reason s,
                 Inr (Some (unknown_provenance env r version (candidate_version_refs version) reason)))
              else (s, Inr None)))"

definition check_gitlab_commit ::
  "provenance_env \<Rightarrow> resolved_repository \<Rightarrow> string \<Rightarrow> string \<Rightarrow> string \<Rightarrow> provenance_state \<Rightarrow> provenance_outcome" where
  "check_gitlab_commit env r version commit base s =
     (if trim commit = [] then (s, Inr None)
      else case pe_get env None (base @ ''/projects/'' @ pe_url_encode env (rr_owner r @ ''/'' @ rr_name r)
          @ ''/repository/commits/'' @ pe_url_encode env commit) of
          Inl _ \<Rightarrow> (s, Inl ''failed to fetch GitLab commit'')
        | Inr (status, _) \<Rightarrow>
            (s, Inr (if status = 200
               then Some (commit_provenance env r version commit
                 ''found embedded GitLab commit in upstream repository for package artifact'')
               else if status \<noteq> 404
               then Some (unknown_provenance env r version (candidate_version_refs version)
                 ''GitLab commit provenance check returned an unexpected status'')
               else None)))"

text \<open>After the references: the embedded commit, and the mismatch when it settles nothing.\<close>

definition commit_or_mismatch ::
  "provenance_env \<Rightarrow> resolved_repository \<Rightarrow> string \<Rightarrow> string list \<Rightarrow> string \<Rightarrow> (string \<Rightarrow> provenance_state \<Rightarrow> provenance_outcome)
     \<Rightarrow> string option \<Rightarrow> provenance_state \<Rightarrow> provenance_outcome" where
  "commit_or_mismatch env r version candidates reason check commit s =
     (let (s, found) = (case commit of Some c \<Rightarrow> check c s | None \<Rightarrow> (s, Inr None)) in
      (s, case found of
         Inl err \<Rightarrow> Inl err
       | Inr (Some p) \<Rightarrow> Inr (Some p)
       | Inr None \<Rightarrow> Inr (Some (mismatch_provenance env r version candidates reason))))"

section \<open>GitHub\<close>

definition github_tags_key :: "string \<Rightarrow> resolved_repository \<Rightarrow> string" where
  "github_tags_key base r = base @ ''|'' @ rr_owner r @ ''|'' @ rr_name r"

definition github_tags_url :: "string \<Rightarrow> resolved_repository \<Rightarrow> string" where
  "github_tags_url base r = base @ ''/repos/'' @ rr_owner r @ ''/'' @ rr_name r @ ''/tags?per_page=100''"

definition github_release_key :: "string \<Rightarrow> resolved_repository \<Rightarrow> string \<Rightarrow> string" where
  "github_release_key base r c = github_tags_key base r @ ''|'' @ c"

definition github_release_url :: "provenance_env \<Rightarrow> string \<Rightarrow> resolved_repository \<Rightarrow> string \<Rightarrow> string" where
  "github_release_url env base r c = base @ ''/repos/'' @ rr_owner r @ ''/'' @ rr_name r @ ''/releases/tags/'' @ pe_url_encode env c"

text \<open>The tags: from the cache, where a transient failure is dropped, or from the first page of the API.  An answer
  other than the names settles the check.\<close>

definition cached_tags :: "string \<Rightarrow> provenance_state \<Rightarrow> provenance_state \<times> cached_github_tags option" where
  "cached_tags key s = (case bm_get_cloned_refresh key (pv_github_tags s) of
     (Some (TagsUnknown reason), m) \<Rightarrow>
       if is_transient_github_status_reason reason then (s\<lparr>pv_github_tags := snd (bm_remove key m)\<rparr>, None)
       else (s\<lparr>pv_github_tags := m\<rparr>, Some (TagsUnknown reason))
   | (v, m) \<Rightarrow> (s\<lparr>pv_github_tags := m\<rparr>, v))"

definition remember_tags :: "string \<Rightarrow> cached_github_tags \<Rightarrow> provenance_state \<Rightarrow> provenance_state" where
  "remember_tags key v s = s\<lparr>pv_github_tags := snd (bm_insert key v (pv_github_tags s))\<rparr>"

definition tag_names :: "json \<Rightarrow> string list option" where
  "tag_names body = map_option (List.map_filter (\<lambda>tag. Option.bind (json_get tag ''name'') as_str)) (as_array body)"

definition fetch_github_tags ::
  "provenance_env \<Rightarrow> resolved_repository \<Rightarrow> string \<Rightarrow> provenance_state \<Rightarrow> provenance_state \<times> (string + cached_github_tags)" where
  "fetch_github_tags env r base s =
     (let key = github_tags_key base r in
      case pe_get env (github_api_token env) (github_tags_url base r) of
        Inl _ \<Rightarrow> (s, Inl ''failed to fetch GitHub tags'')
      | Inr (status, body) \<Rightarrow>
          if status = 404 then (remember_tags key TagsNotFound s, Inr TagsNotFound)
          else if status \<noteq> 200
          then let reason = ''GitHub tags parity check returned status '' @ pe_status_text env status in
            (remember_tags key (TagsUnknown reason) (note_github_backoff env status reason s), Inr (TagsUnknown reason))
          else case Option.bind (case body of Inr v \<Rightarrow> Some v | Inl _ \<Rightarrow> None) tag_names of
              None \<Rightarrow> (s, Inl ''failed to decode GitHub tags'')
            | Some names \<Rightarrow> (remember_tags key (TagNames names) s, Inr (TagNames names)))"

definition github_tags ::
  "provenance_env \<Rightarrow> resolved_repository \<Rightarrow> string \<Rightarrow> provenance_state \<Rightarrow> provenance_state \<times> (string + cached_github_tags)" where
  "github_tags env r base s = (case cached_tags (github_tags_key base r) s of
     (s, Some v) \<Rightarrow> (s, Inr v)
   | (s, None) \<Rightarrow> fetch_github_tags env r base s)"

definition release_match :: "provenance_env \<Rightarrow> resolved_repository \<Rightarrow> string \<Rightarrow> string list \<Rightarrow> string \<Rightarrow> repository_provenance" where
  "release_match env r version candidates c =
     provenance_of env r version candidates MatchRelease (Some c) None False ''found matching GitHub release for package version''"

fun github_releases ::
  "provenance_env \<Rightarrow> resolved_repository \<Rightarrow> string \<Rightarrow> string list \<Rightarrow> string \<Rightarrow> string list \<Rightarrow> provenance_state
     \<Rightarrow> provenance_state \<times> (string + repository_provenance option)" where
  "github_releases env r version candidates base [] s = (s, Inr None)"
| "github_releases env r version candidates base (c # cs) s =
     (case bm_get_cloned_refresh (github_release_key base r c) (pv_github_releases s) of
        (Some found, m) \<Rightarrow>
          if found then (s\<lparr>pv_github_releases := m\<rparr>, Inr (Some (release_match env r version candidates c)))
          else github_releases env r version candidates base cs (s\<lparr>pv_github_releases := m\<rparr>)
      | (None, m) \<Rightarrow>
          (case pe_get env (github_api_token env) (github_release_url env base r c) of
             Inl _ \<Rightarrow> (s\<lparr>pv_github_releases := m\<rparr>, Inl ''failed to fetch GitHub release'')
           | Inr (status, _) \<Rightarrow>
               if status = 200
               then (s\<lparr>pv_github_releases := snd (bm_insert (github_release_key base r c) True m)\<rparr>,
                     Inr (Some (release_match env r version candidates c)))
               else if status = 404
               then github_releases env r version candidates base cs
                      (s\<lparr>pv_github_releases := snd (bm_insert (github_release_key base r c) False m)\<rparr>)
               else let reason = ''GitHub release parity check returned status '' @ pe_status_text env status in
                 (note_github_backoff env status reason (s\<lparr>pv_github_releases := m\<rparr>),
                  Inr (Some (unknown_provenance env r version candidates reason)))))"

definition check_github_release_provenance ::
  "provenance_env \<Rightarrow> resolved_repository \<Rightarrow> string \<Rightarrow> string option \<Rightarrow> string \<Rightarrow> provenance_state \<Rightarrow> provenance_outcome" where
  "check_github_release_provenance env r version commit base s =
     (let candidates = candidate_version_refs version;
          (s, backoff) = (if github_api_token env = None then active_github_backoff_reason env s else (s, None)) in
      case backoff of
        Some reason \<Rightarrow> (s, Inr (Some (unknown_provenance env r version candidates reason)))
      | None \<Rightarrow> (case github_tags env r base s of
          (s, Inl err) \<Rightarrow> (s, Inl err)
        | (s, Inr TagsNotFound) \<Rightarrow> (s, Inr (Some (unknown_provenance env r version candidates
              ''GitHub repository or tags endpoint was not found'')))
        | (s, Inr (TagsUnknown reason)) \<Rightarrow> (s, Inr (Some (unknown_provenance env r version candidates reason)))
        | (s, Inr (TagNames tags)) \<Rightarrow> (case List.find (\<lambda>c. c \<in> set tags) candidates of
            Some c \<Rightarrow> (s, Inr (Some (provenance_of env r version candidates MatchTag (Some c) None False
              ''found matching GitHub tag for package version'')))
          | None \<Rightarrow> (case github_releases env r version candidates base candidates s of
              (s, Inl err) \<Rightarrow> (s, Inl err)
            | (s, Inr (Some p)) \<Rightarrow> (s, Inr (Some p))
            | (s, Inr None) \<Rightarrow> commit_or_mismatch env r version candidates
                ''repository resolved on GitHub but no matching tag or release was found for the package version''
                (\<lambda>c. check_github_commit env r version c base) commit s))))"

section \<open>GitLab\<close>

definition gitlab_key :: "provenance_env \<Rightarrow> string \<Rightarrow> resolved_repository \<Rightarrow> string \<Rightarrow> string" where
  "gitlab_key env base r c = base @ ''|'' @ pe_url_encode env (rr_owner r @ ''/'' @ rr_name r) @ ''|'' @ c"

definition gitlab_tag_url :: "provenance_env \<Rightarrow> string \<Rightarrow> resolved_repository \<Rightarrow> string \<Rightarrow> string" where
  "gitlab_tag_url env base r c =
     base @ ''/projects/'' @ pe_url_encode env (rr_owner r @ ''/'' @ rr_name r) @ ''/repository/tags/'' @ pe_url_encode env c"

definition gitlab_match :: "provenance_env \<Rightarrow> resolved_repository \<Rightarrow> string \<Rightarrow> string list \<Rightarrow> string \<Rightarrow> bool \<Rightarrow> repository_provenance" where
  "gitlab_match env r version candidates c has_release =
     provenance_of env r version candidates (if has_release then MatchRelease else MatchTag) (Some c) None False
       (if has_release then ''found matching GitLab tag with release metadata for package version''
        else ''found matching GitLab tag for package version'')"

definition remember_gitlab :: "string \<Rightarrow> cached_gitlab_tag \<Rightarrow> provenance_state \<Rightarrow> provenance_state" where
  "remember_gitlab key v s = s\<lparr>pv_gitlab_tags := snd (bm_insert key v (pv_gitlab_tags s))\<rparr>"

definition fetch_gitlab_tag ::
  "provenance_env \<Rightarrow> resolved_repository \<Rightarrow> string \<Rightarrow> string \<Rightarrow> provenance_state \<Rightarrow> provenance_state \<times> (string + cached_gitlab_tag)" where
  "fetch_gitlab_tag env r base c s =
     (let key = gitlab_key env base r c in
      case pe_get env None (gitlab_tag_url env base r c) of
        Inl _ \<Rightarrow> (s, Inl ''failed to fetch GitLab tag'')
      | Inr (status, body) \<Rightarrow>
          if status = 200 then (case body of
              Inl _ \<Rightarrow> (s, Inl ''failed to decode GitLab tag'')
            | Inr v \<Rightarrow> (let found = GitlabMatch (case json_get v ''release'' of Some w \<Rightarrow> w \<noteq> JNull | None \<Rightarrow> False) in
                (remember_gitlab key found s, Inr found)))
          else if status = 404 then (remember_gitlab key GitlabNotFound s, Inr GitlabNotFound)
          else let v = GitlabUnknown ''GitLab release parity check returned an unexpected status'' in
            (remember_gitlab key v s, Inr v))"

fun gitlab_tags ::
  "provenance_env \<Rightarrow> resolved_repository \<Rightarrow> string \<Rightarrow> string list \<Rightarrow> string \<Rightarrow> string list \<Rightarrow> provenance_state \<Rightarrow> provenance_outcome" where
  "gitlab_tags env r version candidates base [] s = (s, Inr None)"
| "gitlab_tags env r version candidates base (c # cs) s =
     (let (s, tag) = (case bm_get_cloned_refresh (gitlab_key env base r c) (pv_gitlab_tags s) of
          (Some v, m) \<Rightarrow> (s\<lparr>pv_gitlab_tags := m\<rparr>, Inr v)
        | (None, m) \<Rightarrow> fetch_gitlab_tag env r base c (s\<lparr>pv_gitlab_tags := m\<rparr>)) in
      case tag of
        Inl err \<Rightarrow> (s, Inl err)
      | Inr (GitlabMatch has_release) \<Rightarrow> (s, Inr (Some (gitlab_match env r version candidates c has_release)))
      | Inr (GitlabUnknown reason) \<Rightarrow> (s, Inr (Some (unknown_provenance env r version candidates reason)))
      | Inr GitlabNotFound \<Rightarrow> gitlab_tags env r version candidates base cs s)"

definition check_gitlab_release_provenance ::
  "provenance_env \<Rightarrow> resolved_repository \<Rightarrow> string \<Rightarrow> string option \<Rightarrow> string \<Rightarrow> provenance_state \<Rightarrow> provenance_outcome" where
  "check_gitlab_release_provenance env r version commit base s =
     (let candidates = candidate_version_refs version in
      case gitlab_tags env r version candidates base candidates s of
        (s, Inl err) \<Rightarrow> (s, Inl err)
      | (s, Inr (Some p)) \<Rightarrow> (s, Inr (Some p))
      | (s, Inr None) \<Rightarrow> commit_or_mismatch env r version candidates
          ''repository resolved on GitLab but no matching tag or release was found for the package version''
          (\<lambda>c. check_gitlab_commit env r version c base) commit s)"

section \<open>The checks\<close>

definition check_release_provenance ::
  "provenance_env \<Rightarrow> ecosystem \<Rightarrow> string \<Rightarrow> json \<Rightarrow> string \<Rightarrow> string \<Rightarrow> provenance_state \<Rightarrow> provenance_outcome" where
  "check_release_provenance env eco version details github_base gitlab_base s =
     (case extract_repository_url eco details of
        None \<Rightarrow> (s, Inr None)
      | Some url \<Rightarrow> (case resolve_repository url of
          None \<Rightarrow> (s, Inr (Some
            \<lparr>rp_provider = UnknownProvider, rp_repository_url = url, rp_normalized_repository_url = url,
             rp_package_version = version, rp_checked_at = pe_now env, rp_candidate_refs = candidate_version_refs version,
             rp_match_kind = MatchUnknown, rp_matched_ref = None, rp_matched_commit = None, rp_suspicious = False,
             rp_reason = ''repository host is not yet supported for release parity checks''\<rparr>))
        | Some r \<Rightarrow> (let commit = extract_embedded_repository_commit eco details in
            case rr_provider r of
              Github \<Rightarrow> check_github_release_provenance env r version commit github_base s
            | Gitlab \<Rightarrow> check_gitlab_release_provenance env r version commit gitlab_base s
            | UnknownProvider \<Rightarrow> (s, Inr None))))"

definition check_repository_commit_provenance ::
  "provenance_env \<Rightarrow> string \<Rightarrow> string \<Rightarrow> string \<Rightarrow> string \<Rightarrow> string \<Rightarrow> provenance_state \<Rightarrow> provenance_outcome" where
  "check_repository_commit_provenance env url version commit github_base gitlab_base s =
     (case resolve_repository url of
        None \<Rightarrow> (s, Inr None)
      | Some r \<Rightarrow> (case rr_provider r of
          Github \<Rightarrow> check_github_commit env r version commit github_base s
        | Gitlab \<Rightarrow> check_gitlab_commit env r version commit gitlab_base s
        | UnknownProvider \<Rightarrow> (s, Inr None)))"

section \<open>Local artifacts\<close>

definition artifact_suffixes :: "string list" where
  "artifact_suffixes = [''.tar.gz'', ''.whl'', ''.crate'', ''.tgz'', ''.zip'']"

function shorten_to_artifact :: "string \<Rightarrow> string option" where
  "shorten_to_artifact candidate = (case rsplit_once (CHR ''.'') candidate of
     None \<Rightarrow> None
   | Some (front, _) \<Rightarrow> if list_ex (ends_with front) artifact_suffixes then Some front else shorten_to_artifact front)"
  by pat_completeness auto
termination
  by (relation "measure length") (auto dest!: rsplit_once_shorter)

declare shorten_to_artifact.simps [simp del]

definition canonical_artifact_name :: "string \<Rightarrow> string option" where
  "canonical_artifact_name filename =
     (if list_ex (ends_with filename) artifact_suffixes then Some filename else shorten_to_artifact filename)"

text \<open>\<open>None\<close> when the path has no file name.\<close>

definition classify_local_artifact :: "string option \<Rightarrow> string + local_artifact_kind" where
  "classify_local_artifact filename = (case filename of
     None \<Rightarrow> Inl ''artifact path does not contain a valid filename''
   | Some filename \<Rightarrow>
       (let canonical = (case canonical_artifact_name filename of Some c \<Rightarrow> c | None \<Rightarrow> filename) in
        if ends_with canonical ''.whl'' then Inr Wheel
        else if ends_with canonical ''.crate'' then Inr CrateTarball
        else if ends_with canonical ''.tgz'' then Inr NpmTarball
        else if ends_with canonical ''.tar.gz'' then Inr PypiSdist
        else Inl ''unsupported local artifact filename''))"

record artifact_metadata =
  am_version :: string
  am_details :: json

record multi_headers =
  mh_first :: "(string \<times> string) list"
  mh_all :: "(string \<times> string list) list"

definition headers_insert :: "string \<Rightarrow> string \<Rightarrow> multi_headers \<Rightarrow> multi_headers" where
  "headers_insert key v h =
     \<lparr>mh_first = AList.map_default key v id (mh_first h), mh_all = AList.map_default key [v] (\<lambda>vs. vs @ [v]) (mh_all h)\<rparr>"

definition headers_get_all :: "multi_headers \<Rightarrow> string \<Rightarrow> string list" where
  "headers_get_all h key = (case map_of (mh_all h) key of Some vs \<Rightarrow> vs | None \<Rightarrow> [])"

text \<open>The header being read and its value so far; without a header the value stays.\<close>

definition headers_flush :: "multi_headers \<times> string option \<times> string \<Rightarrow> multi_headers \<times> string option \<times> string" where
  "headers_flush st = (case st of
     (h, Some key, v) \<Rightarrow> (headers_insert key (trim v) h, None, [])
   | (h, None, v) \<Rightarrow> (h, None, v))"

fun headers_loop :: "string list \<Rightarrow> multi_headers \<times> string option \<times> string \<Rightarrow> multi_headers \<times> string option \<times> string" where
  "headers_loop [] st = st"
| "headers_loop (line # lines) st =
     (if trim line = [] then headers_flush st
      else if starts_with line '' '' \<or> starts_with line [CHR 0x09]
      then (case st of (h, key, v) \<Rightarrow> headers_loop lines (h, key, (if v = [] then v else v @ '' '') @ trim line))
      else (case headers_flush st of (h, key, v) \<Rightarrow>
        (case split_once (CHR '':'') line of
           Some (k, w) \<Rightarrow> headers_loop lines (h, Some (trim k), v @ trim w)
         | None \<Rightarrow> headers_loop lines (h, key, v))))"

definition parse_rfc822_headers :: "string \<Rightarrow> multi_headers" where
  "parse_rfc822_headers body = fst (headers_flush (headers_loop (str_lines body) (\<lparr>mh_first = [], mh_all = []\<rparr>, None, [])))"

definition json_of_option :: "string option \<Rightarrow> json" where
  "json_of_option v = (case v of Some s \<Rightarrow> JString s | None \<Rightarrow> JNull)"

definition project_urls_of :: "string list \<Rightarrow> (string \<times> json) list" where
  "project_urls_of vs = fold (\<lambda>v urls. case split_once (CHR '','') v of
       Some (label, url) \<Rightarrow> if trim label \<noteq> [] \<and> trim url \<noteq> [] then AList.update (trim label) (JString (trim url)) urls else urls
     | None \<Rightarrow> urls) vs []"

definition parse_python_metadata :: "string \<Rightarrow> string + artifact_metadata" where
  "parse_python_metadata body =
     (let headers = parse_rfc822_headers body in
      case map_of (mh_first headers) ''Version'' of
        None \<Rightarrow> Inl ''python metadata does not contain Version''
      | Some version \<Rightarrow>
          (let urls = project_urls_of (headers_get_all headers ''Project-URL'') in
           Inr \<lparr>am_version = version,
             am_details = JObject [(''home_page'', json_of_option (map_of (mh_first headers) ''Home-page'')),
               (''project_urls'', if urls = [] then JNull else JObject urls)]\<rparr>))"

definition parse_npm_package_json :: "(string \<Rightarrow> json option) \<Rightarrow> string \<Rightarrow> string + artifact_metadata" where
  "parse_npm_package_json parse body = (case parse body of
     None \<Rightarrow> Inl ''failed to decode package.json''
   | Some raw \<Rightarrow> (case Option.bind (json_get raw ''version'') as_str of
       Some version \<Rightarrow>
         if trim version = [] then Inl ''package.json does not contain version''
         else Inr \<lparr>am_version = version,
           am_details = JObject [(''repository'', case json_get raw ''repository'' of Some v \<Rightarrow> v | None \<Rightarrow> JNull)]\<rparr>
     | None \<Rightarrow> Inl ''package.json does not contain version''))"

record cargo_fields =
  cf_in_package :: bool
  cf_version :: "string option"
  cf_repository :: "string option"
  cf_homepage :: "string option"

definition trim_quotes :: "string \<Rightarrow> string" where
  "trim_quotes s = rev (dropWhile (\<lambda>c. byte c = 34) (rev (dropWhile (\<lambda>c. byte c = 34) s)))"

definition cargo_line :: "string \<Rightarrow> cargo_fields \<Rightarrow> cargo_fields" where
  "cargo_line line f =
     (let trimmed = trim line in
      if starts_with trimmed ''['' \<and> ends_with trimmed '']'' then f\<lparr>cf_in_package := (trimmed = ''[package]'')\<rparr>
      else if \<not> cf_in_package f \<or> trimmed = [] \<or> starts_with trimmed ''#'' then f
      else case split_once (CHR ''='') trimmed of
          None \<Rightarrow> f
        | Some (k, w) \<Rightarrow>
            (let key = trim k; v = trim_quotes (trim w) in
             if v = [] then f
             else if key = ''version'' then f\<lparr>cf_version := Some v\<rparr>
             else if key = ''repository'' then f\<lparr>cf_repository := Some v\<rparr>
             else if key = ''homepage'' then f\<lparr>cf_homepage := Some v\<rparr>
             else f))"

definition parse_cargo_toml :: "string \<Rightarrow> json option \<Rightarrow> string + artifact_metadata" where
  "parse_cargo_toml body vcs_info =
     (let f = fold cargo_line (str_lines body)
            \<lparr>cf_in_package = False, cf_version = None, cf_repository = None, cf_homepage = None\<rparr> in
      case cf_version f of
        None \<Rightarrow> Inl ''Cargo.toml does not contain package.version''
      | Some version \<Rightarrow> Inr \<lparr>am_version = version,
          am_details = JObject
            [(''crate'', JObject [(''repository'', json_of_option (cf_repository f)), (''homepage'', json_of_option (cf_homepage f)),
               (''vcs_commit'', json_of_option (Option.bind vcs_info extract_vcs_commit_from_value))]),
             (''crate_vcs_info'', case vcs_info of Some v \<Rightarrow> v | None \<Rightarrow> JNull)]\<rparr>)"

text \<open>The archive commands: the arguments give a failure to run, or success, standard output and standard error.\<close>

record artifact_env =
  ae_run :: "string list \<Rightarrow> string + (bool \<times> string \<times> string)"
  ae_parse :: "string \<Rightarrow> json option"

record local_artifact =
  la_path :: string
  la_filename :: "string option"

definition run_archive :: "artifact_env \<Rightarrow> string list \<Rightarrow> string + string" where
  "run_archive ae args = (case ae_run ae args of
     Inl _ \<Rightarrow> Inl ''failed to run the archive command''
   | Inr (ok, out, err) \<Rightarrow> if ok then Inr out else Inl (trim err))"

definition list_archive_entries :: "artifact_env \<Rightarrow> string \<Rightarrow> local_artifact_kind \<Rightarrow> string + string list" where
  "list_archive_entries ae path kind =
     map_sum id (\<lambda>out. filter (\<lambda>line. line \<noteq> []) (map trim (str_lines out)))
       (run_archive ae (if kind = Wheel then [''unzip'', ''-Z1'', path] else [''tar'', ''-tzf'', path]))"

definition read_archive_entry :: "artifact_env \<Rightarrow> string \<Rightarrow> local_artifact_kind \<Rightarrow> string \<Rightarrow> string + string" where
  "read_archive_entry ae path kind entry =
     run_archive ae (if kind = Wheel then [''unzip'', ''-p'', path, entry] else [''tar'', ''-xOf'', path, entry])"

text \<open>The first entry of the listing that passes, and its body.\<close>

definition read_first_entry ::
  "artifact_env \<Rightarrow> string \<Rightarrow> local_artifact_kind \<Rightarrow> (string \<Rightarrow> bool) \<Rightarrow> string \<Rightarrow> string + string" where
  "read_first_entry ae path kind wanted missing = (case list_archive_entries ae path kind of
     Inl err \<Rightarrow> Inl err
   | Inr es \<Rightarrow> (case List.find wanted es of
       None \<Rightarrow> Inl missing
     | Some entry \<Rightarrow> read_archive_entry ae path kind entry))"

definition crate_vcs_info :: "artifact_env \<Rightarrow> string \<Rightarrow> string + json option" where
  "crate_vcs_info ae path = (case list_archive_entries ae path CrateTarball of
     Inl err \<Rightarrow> Inl err
   | Inr es \<Rightarrow> (case List.find (\<lambda>e. ends_with e ''/.cargo_vcs_info.json'' \<or> e = ''.cargo_vcs_info.json'') es of
       None \<Rightarrow> Inr None
     | Some entry \<Rightarrow> map_sum id (ae_parse ae) (read_archive_entry ae path CrateTarball entry)))"

fun load_local_artifact_metadata :: "artifact_env \<Rightarrow> ecosystem \<Rightarrow> string \<Rightarrow> local_artifact_kind \<Rightarrow> string + artifact_metadata" where
  "load_local_artifact_metadata ae Pypi path Wheel =
     (case read_first_entry ae path Wheel (\<lambda>e. ends_with e ''.dist-info/METADATA'') ''wheel does not contain dist-info/METADATA'' of
        Inl err \<Rightarrow> Inl err | Inr body \<Rightarrow> parse_python_metadata body)"
| "load_local_artifact_metadata ae Pypi path PypiSdist =
     (case read_first_entry ae path PypiSdist (\<lambda>e. ends_with e ''/PKG-INFO'' \<or> e = ''PKG-INFO'') ''sdist does not contain PKG-INFO'' of
        Inl err \<Rightarrow> Inl err | Inr body \<Rightarrow> parse_python_metadata body)"
| "load_local_artifact_metadata ae Npm path NpmTarball =
     (case read_first_entry ae path NpmTarball (\<lambda>e. e = ''package/package.json'' \<or> ends_with e ''/package.json'')
         ''npm tarball does not contain package.json'' of
        Inl err \<Rightarrow> Inl err | Inr body \<Rightarrow> parse_npm_package_json (ae_parse ae) body)"
| "load_local_artifact_metadata ae CratesIo path CrateTarball =
     (case read_first_entry ae path CrateTarball (\<lambda>e. ends_with e ''/Cargo.toml'' \<or> e = ''Cargo.toml'')
         ''crate tarball does not contain Cargo.toml'' of
        Inl err \<Rightarrow> Inl err
      | Inr body \<Rightarrow> (case crate_vcs_info ae path of Inl err \<Rightarrow> Inl err | Inr vcs \<Rightarrow> parse_cargo_toml body vcs))"
| "load_local_artifact_metadata ae eco path kind = Inl ''unsupported local provenance inspection''"

record local_artifact_report =
  lr_ecosystem :: ecosystem
  lr_package :: string
  lr_version :: string
  lr_artifact_path :: string
  lr_artifact_kind :: local_artifact_kind
  lr_details :: json
  lr_repository :: "repository_provenance option"

definition inspect_local_artifact_provenance ::
  "provenance_env \<Rightarrow> artifact_env \<Rightarrow> ecosystem \<Rightarrow> string \<Rightarrow> string option \<Rightarrow> local_artifact \<Rightarrow> string \<Rightarrow> string \<Rightarrow> provenance_state
     \<Rightarrow> provenance_state \<times> (string + local_artifact_report)" where
  "inspect_local_artifact_provenance env ae eco pkg version_override a github_base gitlab_base s =
     (case classify_local_artifact (la_filename a) of
        Inl err \<Rightarrow> (s, Inl err)
      | Inr kind \<Rightarrow> (case load_local_artifact_metadata ae eco (la_path a) kind of
          Inl err \<Rightarrow> (s, Inl err)
        | Inr m \<Rightarrow>
            (let version = (case version_override of Some v \<Rightarrow> if trim v \<noteq> [] then v else am_version m | None \<Rightarrow> am_version m);
                 (s, checked) = check_release_provenance env eco version (am_details m) github_base gitlab_base s in
             (s, map_sum id (\<lambda>repository. \<lparr>lr_ecosystem = eco, lr_package = pkg, lr_version = version, lr_artifact_path = la_path a,
                lr_artifact_kind = kind, lr_details = am_details m, lr_repository = repository\<rparr>) checked))))"


end
