(* ===== verification/Provenance_Props.thy ===== *)
theory Provenance_Props
  imports Provenance
begin

text \<open>
  What a provenance verdict means: it is suspicious exactly when it matched nothing, its match is one of the
  candidates, GitLab is suspicious exactly when every lookup answered 404; and what the caches do to it: names
  cached once hide every later tag, and a GitLab failure is repeated for ever.
\<close>

section \<open>Well-formed verdicts\<close>

definition verdict_wf :: "string \<Rightarrow> repository_provenance \<Rightarrow> bool" where
  "verdict_wf version p \<longleftrightarrow> rp_package_version p = version \<and> rp_candidate_refs p = candidate_version_refs version
     \<and> (rp_suspicious p \<longleftrightarrow> rp_match_kind p = MatchNone)
     \<and> (rp_matched_ref p \<noteq> None \<longleftrightarrow> rp_match_kind p \<in> {MatchTag, MatchRelease})
     \<and> (rp_matched_commit p \<noteq> None \<longleftrightarrow> rp_match_kind p = MatchCommit)
     \<and> (\<forall>c. rp_matched_ref p = Some c \<longrightarrow> c \<in> set (candidate_version_refs version))"

definition outcome_wf :: "string \<Rightarrow> provenance_outcome \<Rightarrow> bool" where
  "outcome_wf version r \<longleftrightarrow> (\<forall>p. snd r = Inr (Some p) \<longrightarrow> verdict_wf version p)"

lemma outcome_wf_simps [simp]:
  "outcome_wf version (s, Inl err)" "outcome_wf version (s, Inr None)"
  "outcome_wf version (s, Inr (Some p)) \<longleftrightarrow> verdict_wf version p"
  by (simp_all add: outcome_wf_def)

lemma verdict_wf_simps [simp]:
  "verdict_wf version (unknown_provenance env r version (candidate_version_refs version) reason)"
  "verdict_wf version (mismatch_provenance env r version (candidate_version_refs version) reason)"
  "verdict_wf version (commit_provenance env r version commit reason)"
  "c \<in> set (candidate_version_refs version) \<Longrightarrow> verdict_wf version (release_match env r version (candidate_version_refs version) c)"
  "c \<in> set (candidate_version_refs version) \<Longrightarrow> verdict_wf version (gitlab_match env r version (candidate_version_refs version) c h)"
  "c \<in> set (candidate_version_refs version) \<Longrightarrow>
     verdict_wf version (provenance_of env r version (candidate_version_refs version) MatchTag (Some c) None False reason)"
  by (simp_all add: verdict_wf_def unknown_provenance_def mismatch_provenance_def commit_provenance_def release_match_def
      gitlab_match_def provenance_of_def)

lemma github_commit_wf: "outcome_wf version (check_github_commit env r version commit base s)"
  by (auto simp: check_github_commit_def Let_def split: prod.splits option.splits sum.splits)

lemma gitlab_commit_wf: "outcome_wf version (check_gitlab_commit env r version commit base s)"
  by (auto simp: check_gitlab_commit_def Let_def split: prod.splits option.splits sum.splits)

lemma commit_or_mismatch_wf:
  "(\<And>c s. outcome_wf version (check c s)) \<Longrightarrow>
     outcome_wf version (commit_or_mismatch env r version (candidate_version_refs version) reason check commit s)"
  by (auto simp: commit_or_mismatch_def outcome_wf_def split: prod.splits option.splits sum.splits) (metis snd_conv)

lemma github_releases_wf:
  "set cs \<subseteq> set (candidate_version_refs version) \<Longrightarrow>
     outcome_wf version (github_releases env r version (candidate_version_refs version) base cs s)"
  by (induction cs arbitrary: s) (auto simp: Let_def split: prod.splits option.splits sum.splits)

lemma gitlab_tags_wf:
  "set cs \<subseteq> set (candidate_version_refs version) \<Longrightarrow>
     outcome_wf version (gitlab_tags env r version (candidate_version_refs version) base cs s)"
  by (induction cs arbitrary: s) (auto simp: Let_def split: prod.splits option.splits sum.splits cached_gitlab_tag.splits)

lemma find_candidate: "List.find P xs = Some c \<Longrightarrow> c \<in> set xs"
  by (auto simp: find_Some_iff)

lemma github_check_wf: "outcome_wf version (check_github_release_provenance env r version commit base s)"
proof -
  let ?cands = "candidate_version_refs version"
  obtain s1 backoff where 1: "(if github_api_token env = None then active_github_backoff_reason env s else (s, None)) = (s1, backoff)"
    by fastforce
  obtain s2 tags where 2: "github_tags env r base s1 = (s2, tags)"
    by fastforce
  obtain s3 rel where 3: "github_releases env r version ?cands base ?cands s2 = (s3, rel)"
    by fastforce
  have rel: "outcome_wf version (s3, rel)"
    using github_releases_wf [OF subset_refl, of version env r base s2] 3 by simp
  have last: "outcome_wf version (commit_or_mismatch env r version ?cands reason (\<lambda>c. check_github_commit env r version c base) commit s3)" for reason
    by (rule commit_or_mismatch_wf) (rule github_commit_wf)
  show ?thesis
    unfolding check_github_release_provenance_def Let_def 1
    using rel last
    by (auto simp: 2 3 find_candidate split: option.split sum.split cached_github_tags.split)
qed

lemma gitlab_check_wf: "outcome_wf version (check_gitlab_release_provenance env r version commit base s)"
  using gitlab_tags_wf [OF subset_refl, of version env r base s]
  by (auto simp: check_gitlab_release_provenance_def Let_def
      intro!: commit_or_mismatch_wf gitlab_commit_wf split: prod.splits option.splits sum.splits)

lemma check_wf: "outcome_wf version (check_release_provenance env eco version details gh gl s)"
  by (auto simp: check_release_provenance_def Let_def github_check_wf gitlab_check_wf verdict_wf_def
      split: option.split repository_provider.split)

section \<open>GitLab without cached answers\<close>

lemma insert_other_none:
  "j \<noteq> k \<Longrightarrow> bm_get m j = None \<Longrightarrow> bm_get (snd (bm_insert k v m)) j = None"
proof -
  assume j: "j \<noteq> k" "bm_get m j = None"
  have "map_of (entries (bm_evict_oldest m)) j = None"
    using evict_subset(3) [of m j] j(2) by (cases "map_of (entries (bm_evict_oldest m)) j") (auto simp: bm_get_def)
  with j show ?thesis
    by (cases "map_of (entries m) k") (auto simp: insert_old insert_new bm_get_def)
qed

lemma refresh_none: "bm_get m k = None \<Longrightarrow> bm_get_cloned_refresh k m = (None, m)"
  by (simp add: bm_get_cloned_refresh_def bm_get_def split: option.split)

lemma refresh_some: "bm_get m k = Some v \<Longrightarrow> bm_get_cloned_refresh k m = (Some v, bm_touch k m)"
  by (auto simp: bm_get_cloned_refresh_def bm_get_def)

definition gitlab_absent :: "provenance_env \<Rightarrow> resolved_repository \<Rightarrow> string \<Rightarrow> string \<Rightarrow> bool" where
  "gitlab_absent env r base c \<longleftrightarrow>
     (case pe_get env None (gitlab_tag_url env base r c) of Inr (status, _) \<Rightarrow> status = 404 | Inl _ \<Rightarrow> False)"

definition gitlab_fresh :: "provenance_env \<Rightarrow> resolved_repository \<Rightarrow> string \<Rightarrow> string list \<Rightarrow> provenance_state \<Rightarrow> bool" where
  "gitlab_fresh env r base cs s \<longleftrightarrow> list_all (\<lambda>c. bm_get (pv_gitlab_tags s) (gitlab_key env base r c) = None) cs"

lemma gitlab_key_inject [simp]: "gitlab_key env base r c = gitlab_key env base r d \<longleftrightarrow> c = d"
  by (simp add: gitlab_key_def)

lemma gitlab_fresh_insert:
  "gitlab_fresh env r base cs s \<Longrightarrow> c \<notin> set cs \<Longrightarrow> gitlab_fresh env r base cs (remember_gitlab (gitlab_key env base r c) v s)"
  by (auto simp: gitlab_fresh_def list_all_iff remember_gitlab_def intro!: insert_other_none)

text \<open>The walk reaches the end exactly when every tag is absent, and never answers with a suspicion itself.\<close>

lemma fetch_not_found:
  "snd (fetch_gitlab_tag env r base c s) = Inr GitlabNotFound \<longleftrightarrow> gitlab_absent env r base c"
  by (auto simp: fetch_gitlab_tag_def gitlab_absent_def Let_def split: sum.split prod.split)

lemma fetch_fresh:
  "gitlab_fresh env r base cs s \<Longrightarrow> c \<notin> set cs \<Longrightarrow> gitlab_fresh env r base cs (fst (fetch_gitlab_tag env r base c s))"
  by (auto simp: fetch_gitlab_tag_def Let_def gitlab_fresh_insert split: sum.split prod.split)

lemma gitlab_tags_end:
  assumes "gitlab_fresh env r base cs s" "distinct cs"
  shows "snd (gitlab_tags env r version cands base cs s) = Inr None \<longleftrightarrow> list_all (gitlab_absent env r base) cs"
  using assms
proof (induction cs arbitrary: s)
  case (Cons c cs)
  obtain t tag where f: "fetch_gitlab_tag env r base c s = (t, tag)"
    by fastforce
  have get: "bm_get_cloned_refresh (gitlab_key env base r c) (pv_gitlab_tags s) = (None, pv_gitlab_tags s)"
    using Cons.prems by (simp add: gitlab_fresh_def refresh_none)
  have "gitlab_fresh env r base cs t"
    using fetch_fresh [of env r base cs s c] Cons.prems f by (simp add: gitlab_fresh_def)
  then have IH: "snd (gitlab_tags env r version cands base cs t) = Inr None \<longleftrightarrow> list_all (gitlab_absent env r base) cs"
    using Cons by simp
  have tag: "tag = Inr GitlabNotFound \<longleftrightarrow> gitlab_absent env r base c"
    using fetch_not_found [of env r base c s] f by simp
  show ?case
  proof (cases tag)
    case (Inr v)
    then show ?thesis
      using tag IH by (cases v) (simp_all add: get f)
  qed (use tag in \<open>simp add: get f\<close>)
qed simp

lemma gitlab_tags_not_suspicious:
  "snd (gitlab_tags env r version cands base cs s) = Inr (Some p) \<Longrightarrow> \<not> rp_suspicious p"
proof (induction cs arbitrary: s)
  case (Cons c cs)
  then show ?case
    by (auto simp: Let_def gitlab_match_def unknown_provenance_def provenance_of_def
        split: prod.splits sum.splits cached_gitlab_tag.splits option.splits)
qed simp

lemma sorted_distinct_adj: "sorted xs \<Longrightarrow> distinct (remdups_adj (xs :: 'a::linorder list))"
  by (induction xs rule: remdups_adj.induct) auto

lemma candidates_distinct: "distinct (candidate_version_refs version)"
  by (simp add: candidate_version_refs_def Let_def sorted_distinct_adj)

definition gitlab_commit_absent :: "provenance_env \<Rightarrow> resolved_repository \<Rightarrow> string \<Rightarrow> string option \<Rightarrow> bool" where
  "gitlab_commit_absent env r base commit \<longleftrightarrow> (case commit of None \<Rightarrow> True
   | Some c \<Rightarrow> trim c = [] \<or> (case pe_get env None (base @ ''/projects/'' @ pe_url_encode env (rr_owner r @ ''/'' @ rr_name r)
       @ ''/repository/commits/'' @ pe_url_encode env c) of Inr (status, _) \<Rightarrow> status = 404 | Inl _ \<Rightarrow> False))"

lemma gitlab_commit_none:
  "snd (check_gitlab_commit env r version c base s) = Inr None \<longleftrightarrow> gitlab_commit_absent env r base (Some c)"
  by (auto simp: check_gitlab_commit_def gitlab_commit_absent_def split: sum.split prod.split)

lemma commit_not_suspicious:
  "snd (check_gitlab_commit env r version c base s) = Inr (Some p) \<Longrightarrow> \<not> rp_suspicious p"
  by (auto simp: check_gitlab_commit_def commit_provenance_def unknown_provenance_def provenance_of_def
      split: sum.splits prod.splits if_splits)

lemma commit_or_mismatch_suspicious:
  "(\<exists>p. snd (commit_or_mismatch env r version cands reason (\<lambda>c. check_gitlab_commit env r version c base) commit s) = Inr (Some p)
      \<and> rp_suspicious p) \<longleftrightarrow> gitlab_commit_absent env r base commit"
proof (cases commit)
  case None
  then show ?thesis
    by (simp add: commit_or_mismatch_def gitlab_commit_absent_def mismatch_provenance_def provenance_of_def)
next
  case (Some c)
  obtain t found where f: "check_gitlab_commit env r version c base s = (t, found)"
    by fastforce
  show ?thesis
  proof (cases found)
    case (Inr o')
    with Some f show ?thesis
      using gitlab_commit_none [of env r version c base s] commit_not_suspicious [of env r version c base s]
      by (cases o') (auto simp: commit_or_mismatch_def mismatch_provenance_def provenance_of_def)
  qed (use Some f gitlab_commit_none [of env r version c base s] in \<open>simp add: commit_or_mismatch_def\<close>)
qed

section \<open>Cached answers\<close>

text \<open>Every candidate is without a release: no answer is cached, and the API answers 404.\<close>

definition github_releases_absent :: "provenance_env \<Rightarrow> resolved_repository \<Rightarrow> string \<Rightarrow> string list \<Rightarrow> provenance_state \<Rightarrow> bool" where
  "github_releases_absent env r base cs s \<longleftrightarrow> list_all (\<lambda>c.
     bm_get (pv_github_releases s) (github_release_key base r c) = None
     \<and> (case pe_get env (github_api_token env) (github_release_url env base r c) of
         Inr (status, _) \<Rightarrow> status = 404 | Inl _ \<Rightarrow> False)) cs"

lemma github_release_key_inject [simp]: "github_release_key base r c = github_release_key base r d \<longleftrightarrow> c = d"
  by (simp add: github_release_key_def)

lemma github_releases_none:
  assumes "github_releases_absent env r base cs s" "distinct cs"
  shows "\<exists>m. github_releases env r version cands base cs s = (s\<lparr>pv_github_releases := m\<rparr>, Inr None)"
  using assms
proof (induction cs arbitrary: s)
  case (Cons c cs)
  let ?m = "snd (bm_insert (github_release_key base r c) False (pv_github_releases s))"
  have "github_releases_absent env r base cs (s\<lparr>pv_github_releases := ?m\<rparr>)"
    using Cons.prems by (auto simp: github_releases_absent_def list_all_iff intro!: insert_other_none)
  from Cons.IH [OF this] Cons.prems obtain m where
    m: "github_releases env r version cands base cs (s\<lparr>pv_github_releases := ?m\<rparr>) = (s\<lparr>pv_github_releases := m\<rparr>, Inr None)"
    by auto
  have "bm_get_cloned_refresh (github_release_key base r c) (pv_github_releases s) = (None, pv_github_releases s)"
    using Cons.prems by (simp add: github_releases_absent_def refresh_none)
  with Cons.prems m show ?case
    by (auto simp: github_releases_absent_def split: sum.splits)
next
  case Nil
  have "s = s\<lparr>pv_github_releases := pv_github_releases s\<rparr>"
    by simp
  then show ?case
    by (metis github_releases.simps(1))
qed

lemma cached_names_hit:
  "bm_get (pv_github_tags s) key = Some (TagNames names) \<Longrightarrow>
     cached_tags key s = (s\<lparr>pv_github_tags := bm_touch key (pv_github_tags s)\<rparr>, Some (TagNames names))"
  by (simp add: cached_tags_def refresh_some)

section \<open>Properties\<close>

definition demo_repository :: resolved_repository where
  "demo_repository = \<lparr>rr_provider = Gitlab, rr_repository_url = ''u'', rr_normalized_repository_url = ''u'', rr_owner = ''o'', rr_name = ''r''\<rparr>"

text \<open>Every tag and release is absent, but the tags endpoint of GitHub lists \<open>v2\<close>.\<close>

definition demo_answers :: provenance_env where
  "demo_answers = \<lparr>pe_now = 0, pe_github_token = None, pe_gh_token = None,
     pe_get = (\<lambda>_ url. if url = github_tags_url ''b'' demo_repository
       then Inr (200, Inr (JArray [JObject [(''name'', JString ''v2'')]])) else Inr (404, Inl ''no body'')),
     pe_status_text = (\<lambda>_. ''404 Not Found''), pe_url_encode = id\<rparr>"

definition demo_cached_tags :: provenance_state where
  "demo_cached_tags = provenance_start\<lparr>pv_github_tags :=
     snd (bm_insert (github_tags_key ''b'' demo_repository) (TagNames [''v1'']) (pv_github_tags provenance_start))\<rparr>"

lemma demo_refs: "candidate_version_refs ''2'' = [''2'', ''v2'']"
  by code_simp

text \<open>A verdict is suspicious exactly when it matched nothing; it names a tag or release exactly when its kind says
  so, and then one of the candidate references of the version it was asked about; a commit likewise.\<close>

theorem provenance_verdicts_well_formed:
  assumes "snd (check_release_provenance env eco version details gh gl s) = Inr (Some p)"
  shows "verdict_wf version p"
  using check_wf [of version env eco details gh gl s] assms by (simp add: outcome_wf_def)

lemma empty_cache: "bm_get (pv_gitlab_tags provenance_start) k = None"
  by (simp add: provenance_start_def bm_get_def bm_new_def)

lemma demo_gitlab_answer: "pe_get demo_answers None (gitlab_tag_url demo_answers ''b'' r c) = Inr (404, Inl ''no body'')"
  by (simp add: demo_answers_def gitlab_tag_url_def github_tags_url_def)

lemma demo_no_commit: "extract_embedded_repository_commit CratesIo (JObject [(''crate'', JObject [(''repository'', v)])]) = None"
  by simp

lemma provenance_verdicts_well_formed_witness:
  "\<exists>p. snd (check_release_provenance demo_answers CratesIo ''2'' (JObject [(''crate'', JObject [(''repository'', JString ''git+https://gitlab.com/o/r.git'')])])
      ''b'' ''b'' provenance_start) = Inr (Some p) \<and> rp_suspicious p \<and> verdict_wf ''2'' p"
proof -
  let ?d = "JObject [(''crate'', JObject [(''repository'', JString ''git+https://gitlab.com/o/r.git'')])]"
  have "\<exists>p. snd (check_release_provenance demo_answers CratesIo ''2'' ?d ''b'' ''b'' provenance_start) = Inr (Some p) \<and> rp_suspicious p"
  proof -
    have "resolve_repository ''git+https://gitlab.com/o/r.git'' = Some
        \<lparr>rr_provider = Gitlab, rr_repository_url = ''git+https://gitlab.com/o/r.git'', rr_normalized_repository_url = ''https://gitlab.com/o/r'',
         rr_owner = ''o'', rr_name = ''r''\<rparr>"
      by code_simp
    moreover have "filled_str (json_pointer ?d [''crate'', ''repository'']) = Some ''git+https://gitlab.com/o/r.git''"
      by code_simp
    ultimately show ?thesis
      by (simp add: check_release_provenance_def extract_crates_repository_url_def check_gitlab_release_provenance_def demo_refs
          refresh_none insert_other_none empty_cache fetch_gitlab_tag_def remember_gitlab_def Let_def
          demo_gitlab_answer commit_or_mismatch_def mismatch_provenance_def provenance_of_def demo_no_commit)
  qed
  then show ?thesis
    using provenance_verdicts_well_formed by blast
qed

text \<open>C14: With no answer cached, a release of a GitLab project is suspicious exactly when every candidate reference
  answered 404 and so did its embedded commit, if it has one: an error, a refusal or an undecodable answer never
  makes it so.\<close>

theorem gitlab_suspicious_iff:
  assumes "gitlab_fresh env r base (candidate_version_refs version) s"
  shows "(\<exists>p. snd (check_gitlab_release_provenance env r version commit base s) = Inr (Some p) \<and> rp_suspicious p)
    \<longleftrightarrow> list_all (gitlab_absent env r base) (candidate_version_refs version) \<and> gitlab_commit_absent env r base commit"
proof -
  let ?cands = "candidate_version_refs version"
  obtain t found where f: "gitlab_tags env r version ?cands base ?cands s = (t, found)"
    by fastforce
  have none: "found = Inr None \<longleftrightarrow> list_all (gitlab_absent env r base) ?cands"
    using gitlab_tags_end [OF assms candidates_distinct, of version ?cands] f by simp
  have other: "\<not> rp_suspicious p" if "found = Inr (Some p)" for p
    using gitlab_tags_not_suspicious [of env r version ?cands base ?cands s p] f that by simp
  show ?thesis
  proof (cases found)
    case (Inr o')
    then show ?thesis
      using none other commit_or_mismatch_suspicious
      by (cases o') (auto simp: check_gitlab_release_provenance_def f)
  qed (use none in \<open>simp add: check_gitlab_release_provenance_def f\<close>)
qed

lemma gitlab_suspicious_iff_witness:
  "(\<exists>p. snd (check_gitlab_release_provenance demo_answers demo_repository ''2'' (Some ''abc'') ''b'' provenance_start) = Inr (Some p) \<and> rp_suspicious p)
    \<longleftrightarrow> list_all (gitlab_absent demo_answers demo_repository ''b'') [''2'', ''v2''] \<and> gitlab_commit_absent demo_answers demo_repository ''b'' (Some ''abc'')"
  using gitlab_suspicious_iff [of demo_answers demo_repository "''b''" "''2''" provenance_start "Some ''abc''"]
  by (simp add: demo_refs gitlab_fresh_def provenance_start_def bm_get_def bm_new_def)

text \<open>Tag names that were cached once are used for good: whatever the tags endpoint answers now, a version that is
  not among them, has no GitHub release and embeds no commit is reported as a suspicious mismatch, and the names
  stay cached for the next check.\<close>

theorem cached_tags_hide_new_tags:
  assumes "bm_get (pv_github_tags s) (github_tags_key base r) = Some (TagNames names)"
    and "pv_github_backoff s = None"
    and "set (candidate_version_refs version) \<inter> set names = {}"
    and "github_releases_absent env r base (candidate_version_refs version) s"
  shows "snd (check_github_release_provenance env r version None base s) =
      Inr (Some (mismatch_provenance env r version (candidate_version_refs version)
        ''repository resolved on GitHub but no matching tag or release was found for the package version''))
    \<and> bm_get (pv_github_tags (fst (check_github_release_provenance env r version None base s))) (github_tags_key base r)
        = Some (TagNames names)"
proof -
  let ?cands = "candidate_version_refs version"
  let ?s = "s\<lparr>pv_github_tags := bm_touch (github_tags_key base r) (pv_github_tags s)\<rparr>"
  have backoff: "(if github_api_token env = None then active_github_backoff_reason env s else (s, None)) = (s, None)"
    using assms(2) by (simp add: active_github_backoff_reason_def)
  have tags: "github_tags env r base s = (?s, Inr (TagNames names))"
    using assms(1) by (simp add: github_tags_def cached_names_hit)
  have find: "List.find (\<lambda>c. c \<in> set names) ?cands = None"
    using assms(3) by (auto simp: find_None_iff)
  have "github_releases_absent env r base ?cands ?s"
    using assms(4) by (simp add: github_releases_absent_def)
  then obtain m where m: "github_releases env r version ?cands base ?cands ?s = (?s\<lparr>pv_github_releases := m\<rparr>, Inr None)"
    using github_releases_none candidates_distinct by metis
  show ?thesis
    unfolding check_github_release_provenance_def Let_def backoff
    using assms(1) by (simp add: tags find m commit_or_mismatch_def get_touch)
qed

text \<open>A GitLab lookup that once failed with any status but 404 answers the same for good: the check of that version
  is inconclusive whatever GitLab answers now, and the failure stays cached.\<close>

theorem gitlab_failure_repeats:
  assumes "candidate_version_refs version = c # cs"
    and "bm_get (pv_gitlab_tags s) (gitlab_key env base r c) = Some (GitlabUnknown reason)"
  shows "snd (check_gitlab_release_provenance env r version commit base s) =
      Inr (Some (unknown_provenance env r version (c # cs) reason))
    \<and> bm_get (pv_gitlab_tags (fst (check_gitlab_release_provenance env r version commit base s))) (gitlab_key env base r c)
        = Some (GitlabUnknown reason)"
  using assms by (simp add: check_gitlab_release_provenance_def refresh_some get_touch)

lemma cached_tags_hide_new_tags_witness:
  "bm_get (pv_github_tags (fst (check_github_release_provenance demo_answers demo_repository ''2'' None ''b'' demo_cached_tags)))
     (github_tags_key ''b'' demo_repository) = Some (TagNames [''v1''])
   \<and> snd (fetch_github_tags demo_answers demo_repository ''b'' demo_cached_tags) = Inr (TagNames [''v2''])"
proof
  have "bm_get (pv_github_tags demo_cached_tags) (github_tags_key ''b'' demo_repository) = Some (TagNames [''v1''])"
    by (simp add: demo_cached_tags_def get_insert_same)
  moreover have "pv_github_backoff demo_cached_tags = None"
    by (simp add: demo_cached_tags_def provenance_start_def)
  moreover have "set (candidate_version_refs ''2'') \<inter> set [''v1''] = {}"
    by (simp add: demo_refs)
  moreover have "github_releases_absent demo_answers demo_repository ''b'' (candidate_version_refs ''2'') demo_cached_tags"
    by (simp add: github_releases_absent_def demo_refs demo_cached_tags_def provenance_start_def bm_get_def bm_new_def demo_answers_def
        github_release_url_def github_tags_url_def demo_repository_def)
  ultimately show "bm_get (pv_github_tags (fst (check_github_release_provenance demo_answers demo_repository ''2'' None ''b'' demo_cached_tags)))
     (github_tags_key ''b'' demo_repository) = Some (TagNames [''v1''])"
    by (rule cached_tags_hide_new_tags [THEN conjunct2])
  show "snd (fetch_github_tags demo_answers demo_repository ''b'' demo_cached_tags) = Inr (TagNames [''v2''])"
    by (simp add: fetch_github_tags_def demo_answers_def tag_names_def List.map_filter_def Let_def)
qed

lemma gitlab_failure_repeats_witness:
  "snd (check_gitlab_release_provenance demo_answers demo_repository ''2'' None ''b''
      (remember_gitlab (gitlab_key demo_answers ''b'' demo_repository ''2'') (GitlabUnknown ''503'') provenance_start))
    = Inr (Some (unknown_provenance demo_answers demo_repository ''2'' [''2'', ''v2''] ''503''))"
  by (rule gitlab_failure_repeats [THEN conjunct1]) (simp_all add: demo_refs remember_gitlab_def get_insert_same)


end
