(* ===== verification/Content_Scan.thy ===== *)
theory Content_Scan
  imports Detection Bounded_Map
begin

text \<open>
  The content-risk scan of \<open>content_risk.rs\<close>: which artifact of a capture is scanned and under which view, the
  rule files with their fingerprint and cache, the globals of a scan, what a matching rule becomes, the
  indicators of the text view, and the signal.  The YARA engine, SHA-256, the regular expressions, the file
  system, the download and the gzip and zip readers are the environment.
\<close>

section \<open>The artifact of a capture\<close>

datatype scan_kind = ScanTarGz | ScanZip

datatype scan_source = ArtifactUrl string | ArtifactLocalPath string

datatype file_role = RoleArchive | RoleManifest | RoleInstallScript | RoleBuildScript | RoleEntrypoint | RoleBinary

fun role_as_str :: "file_role \<Rightarrow> string" where
  "role_as_str RoleArchive = ''archive''"
| "role_as_str RoleManifest = ''manifest''"
| "role_as_str RoleInstallScript = ''install_script''"
| "role_as_str RoleBuildScript = ''build_script''"
| "role_as_str RoleEntrypoint = ''entrypoint''"
| "role_as_str RoleBinary = ''binary''"

record scan_target =
  st_path :: string
  st_role :: file_role
  st_bytes :: string
  st_text :: bool
  st_size_bytes :: nat
  st_modules :: bool

definition scan_kind_from_filename :: "string \<Rightarrow> scan_kind option" where
  "scan_kind_from_filename filename =
     (let lower = to_ascii_lowercase filename in
      if ends_with lower ''.tgz'' \<or> ends_with lower ''.tar.gz'' \<or> ends_with lower ''.crate'' then Some ScanTarGz
      else if ends_with lower ''.whl'' \<or> ends_with lower ''.zip'' then Some ScanZip
      else None)"

definition scan_kind_for_artifact :: "captured_artifact \<Rightarrow> scan_kind option" where
  "scan_kind_for_artifact a =
     (if ar_kind a \<in> {Some ''npm-tarball'', Some ''crate'', Some ''sdist''} then Some ScanTarGz
      else if ar_kind a = Some ''bdist_wheel'' then Some ScanZip
      else scan_kind_from_filename (ar_filename a))"

definition artifact_source_for_capture :: "string \<Rightarrow> captured_release \<Rightarrow> (scan_source \<times> scan_kind \<times> string) option" where
  "artifact_source_for_capture dir cap =
     (case Option.bind (json_pointer (ca_details cap) [''local_artifact'', ''path'']) as_str of
        Some path \<Rightarrow>
          (let full = (if starts_with path ''/'' then path else dir @ ''/'' @ path) in
           case path_file_name full of
             None \<Rightarrow> None
           | Some filename \<Rightarrow> map_option (\<lambda>kind. (ArtifactLocalPath full, kind, filename)) (scan_kind_from_filename filename))
      | None \<Rightarrow>
          (case List.map_filter (\<lambda>a. case (ar_url a, scan_kind_for_artifact a) of
               (Some url, Some kind) \<Rightarrow> Some (ArtifactUrl url, kind, ar_filename a) | _ \<Rightarrow> None) (ca_artifacts cap) of
             found # _ \<Rightarrow> Some found
           | [] \<Rightarrow> None))"

section \<open>The views that are scanned\<close>

definition decompressed_target_max_bytes :: nat where
  "decompressed_target_max_bytes = 64 * 1024 * 1024"

definition max_archive_entries :: nat where
  "max_archive_entries = 8192"

text \<open>What the readers give: the bytes decoded, and whether the stream fails after them; a zip is unreadable or a
  list of entries, unreadable, not a file, or a stream.\<close>

datatype zip_entry = ZipUnreadable | ZipNoFile | ZipFile string bool

record archive_readers =
  rd_gzip :: "string \<Rightarrow> string \<times> bool"
  rd_zip :: "string \<Rightarrow> zip_entry list option"

text \<open>\<open>Read::take\<close> stops before a failure that lies behind its limit.\<close>

definition read_limited :: "nat \<Rightarrow> string \<times> bool \<Rightarrow> string \<times> bool" where
  "read_limited limit r = (take limit (fst r), snd r \<and> length (fst r) < limit)"

fun unzip_entries :: "zip_entry list \<Rightarrow> string \<Rightarrow> string" where
  "unzip_entries [] decoded = decoded"
| "unzip_entries (ZipUnreadable # es) decoded = unzip_entries es decoded"
| "unzip_entries (ZipNoFile # es) decoded = unzip_entries es decoded"
| "unzip_entries (ZipFile bytes fails # es) decoded =
     (let remaining = decompressed_target_max_bytes - length decoded in
      if remaining = 0 then decoded
      else let (read, failed) = read_limited remaining (bytes, fails) in
        unzip_entries es (decoded @ read @ (if failed then [] else [CHR 0x0A])))"

definition decompressed_bytes :: "archive_readers \<Rightarrow> scan_kind \<Rightarrow> string \<Rightarrow> string option" where
  "decompressed_bytes rd kind bytes = (case kind of
     ScanTarGz \<Rightarrow> (let (read, failed) = read_limited decompressed_target_max_bytes (rd_gzip rd bytes) in
       if failed then None else Some read)
   | ScanZip \<Rightarrow> map_option (\<lambda>es. unzip_entries (take max_archive_entries es) []) (rd_zip rd bytes))"

definition decompressed_scan_target :: "archive_readers \<Rightarrow> string \<Rightarrow> scan_kind \<Rightarrow> string \<Rightarrow> scan_target option" where
  "decompressed_scan_target rd name kind bytes = (case decompressed_bytes rd kind bytes of
     None \<Rightarrow> None
   | Some decoded \<Rightarrow>
       if decoded = [] then None
       else Some \<lparr>st_path = name @ ''!decompressed'', st_role = RoleArchive, st_bytes = decoded, st_text = True,
         st_size_bytes = length decoded, st_modules = False\<rparr>)"

definition archive_scan_target :: "string \<Rightarrow> string \<Rightarrow> scan_target" where
  "archive_scan_target name bytes = \<lparr>st_path = name, st_role = RoleArchive, st_bytes = bytes, st_text = False,
     st_size_bytes = length bytes, st_modules = True\<rparr>"

section \<open>The context of a package\<close>

record dependency_flags =
  df_primno_dpapi :: bool
  df_koffi :: bool
  df_sqlite3 :: bool
  df_screenshot_desktop :: bool
  df_rcedit :: bool
  df_archiver :: bool
  df_adm_zip :: bool
  df_tar :: bool
  df_ws :: bool
  df_axios :: bool
  df_form_data :: bool

record package_scan_context =
  sx_ecosystem :: ecosystem
  sx_package_name :: string
  sx_package_version :: string
  sx_has_install_script :: bool
  sx_has_build_script :: bool
  sx_has_bin :: bool
  sx_has_repository :: bool
  sx_windows_target :: bool
  sx_dependency_count :: nat
  sx_dependency_flags :: dependency_flags

definition flags_of :: "string list \<Rightarrow> dependency_flags" where
  "flags_of deps =
     \<lparr>df_primno_dpapi = (''@primno/dpapi'' \<in> set deps), df_koffi = (''koffi'' \<in> set deps), df_sqlite3 = (''sqlite3'' \<in> set deps),
      df_screenshot_desktop = (''screenshot-desktop'' \<in> set deps), df_rcedit = (''rcedit'' \<in> set deps),
      df_archiver = (''archiver'' \<in> set deps), df_adm_zip = (''adm-zip'' \<in> set deps), df_tar = (''tar'' \<in> set deps),
      df_ws = (''ws'' \<in> set deps), df_axios = (''axios'' \<in> set deps), df_form_data = (''form-data'' \<in> set deps)\<rparr>"

definition detail_present :: "captured_release \<Rightarrow> string \<Rightarrow> bool" where
  "detail_present cap k = (case json_get (ca_details cap) k of Some v \<Rightarrow> v \<noteq> JNull | None \<Rightarrow> False)"

text \<open>The scan root, when there is one, says which files exist in it.\<close>

definition context_from_capture :: "captured_release \<Rightarrow> (string \<Rightarrow> bool) option \<Rightarrow> package_scan_context" where
  "context_from_capture cap scan_root =
     (let deps = remdups (map to_ascii_lowercase (array_strings (json_get (ca_details cap) ''dependencies''))) in
      \<lparr>sx_ecosystem = ca_ecosystem cap, sx_package_name = ca_package cap, sx_package_version = ca_version cap,
       sx_has_install_script = json_get_bool (ca_details cap) ''has_install_scripts'',
       sx_has_build_script = (case scan_root of Some exists \<Rightarrow> exists ''build.rs'' \<or> exists ''setup.py'' | None \<Rightarrow> False),
       sx_has_bin = detail_present cap ''bin'',
       sx_has_repository = (ca_upstream_repository cap \<noteq> None \<or> detail_present cap ''repository''),
       sx_windows_target = list_ex (\<lambda>t. str_contains (to_ascii_lowercase t) ''win'') (array_strings (json_get (ca_details cap) ''pkg_targets'')),
       sx_dependency_count = length deps, sx_dependency_flags = flags_of deps\<rparr>)"

datatype yara_global = GlobalStr string | GlobalBool bool | GlobalInt int

definition apply_globals :: "package_scan_context \<Rightarrow> scan_target \<Rightarrow> (string \<times> yara_global) list" where
  "apply_globals cx t =
     (let role = (\<lambda>r. GlobalBool (st_role t = r)); f = sx_dependency_flags cx in
      [(''ecosystem'', GlobalStr (ecosystem_as_str (sx_ecosystem cx))), (''package_name'', GlobalStr (sx_package_name cx)),
       (''package_version'', GlobalStr (sx_package_version cx)), (''file_path'', GlobalStr (st_path t)),
       (''file_role'', GlobalStr (role_as_str (st_role t))), (''is_archive'', role RoleArchive), (''is_manifest'', role RoleManifest),
       (''is_install_script'', role RoleInstallScript), (''is_build_script'', role RoleBuildScript),
       (''is_entrypoint'', role RoleEntrypoint), (''is_binary'', role RoleBinary),
       (''is_npm'', GlobalBool (sx_ecosystem cx = Npm)), (''is_pypi'', GlobalBool (sx_ecosystem cx = Pypi)),
       (''is_crates'', GlobalBool (sx_ecosystem cx = CratesIo)), (''has_install_script'', GlobalBool (sx_has_install_script cx)),
       (''has_build_script'', GlobalBool (sx_has_build_script cx)), (''has_bin'', GlobalBool (sx_has_bin cx)),
       (''has_repository'', GlobalBool (sx_has_repository cx)), (''windows_target'', GlobalBool (sx_windows_target cx)),
       (''dependency_count'', GlobalInt (int (sx_dependency_count cx))),
       (''dep_primno_dpapi'', GlobalBool (df_primno_dpapi f)), (''dep_koffi'', GlobalBool (df_koffi f)),
       (''dep_sqlite3'', GlobalBool (df_sqlite3 f)), (''dep_screenshot_desktop'', GlobalBool (df_screenshot_desktop f)),
       (''dep_rcedit'', GlobalBool (df_rcedit f)), (''dep_archiver'', GlobalBool (df_archiver f)),
       (''dep_adm_zip'', GlobalBool (df_adm_zip f)), (''dep_tar'', GlobalBool (df_tar f)), (''dep_ws'', GlobalBool (df_ws f)),
       (''dep_axios'', GlobalBool (df_axios f)), (''dep_form_data'', GlobalBool (df_form_data f))])"

definition module_scan_options :: "ecosystem \<Rightarrow> (string \<times> string) list" where
  "module_scan_options eco =
     [(''npm'', if eco = Npm then ''npm'' else ''disabled''), (''pypi'', if eco = Pypi then ''pypi'' else ''disabled''),
      (''crate'', if eco = CratesIo then ''crate'' else ''disabled'')]"

definition disabled_module_scan_options :: "(string \<times> string) list" where
  "disabled_module_scan_options = [(''npm'', ''disabled''), (''pypi'', ''disabled''), (''crate'', ''disabled'')]"

section \<open>Rules\<close>

text \<open>A directory lists its entries or cannot be read; a file reads or does not.\<close>

datatype rules_node = FsFile "string option" | FsDir "(string \<times> rules_node) list option"

definition path_extension :: "string \<Rightarrow> string option" where
  "path_extension name = (case rsplit_once (CHR ''.'') name of
     Some (stem, ext) \<Rightarrow> if stem = [] then None else Some ext | None \<Rightarrow> None)"

text \<open>The rule files below a directory, each with its path components.\<close>

fun rule_files :: "string list \<Rightarrow> (string \<times> rules_node) list \<Rightarrow> string + (string list \<times> string option) list" where
  "rule_files dir [] = Inr []"
| "rule_files dir ((name, FsFile body) # es) =
     map_sum id (\<lambda>fs. if path_extension name \<in> {Some ''yar'', Some ''yara''} then (dir @ [name], body) # fs else fs) (rule_files dir es)"
| "rule_files dir ((name, FsDir None) # es) = Inl ''failed to read directory''"
| "rule_files dir ((name, FsDir (Some ds)) # es) = (case rule_files (dir @ [name]) ds of
     Inl err \<Rightarrow> Inl err
   | Inr inner \<Rightarrow> map_sum id (\<lambda>fs. inner @ fs) (rule_files dir es))"

type_synonym rule_source = "string list \<times> string"

fun read_sources :: "(string list \<times> string option) list \<Rightarrow> string + rule_source list" where
  "read_sources [] = Inr []"
| "read_sources ((path, None) # fs) = Inl ''failed to read rule file''"
| "read_sources ((path, Some body) # fs) = map_sum id (\<lambda>rest. (path, body) # rest) (read_sources fs)"

definition load_rule_sources :: "rules_node option \<Rightarrow> string + rule_source list" where
  "load_rule_sources tree = (case tree of
     Some (FsDir (Some es)) \<Rightarrow> (case rule_files [] es of
       Inl err \<Rightarrow> Inl err | Inr files \<Rightarrow> read_sources (sort_key fst files))
   | Some _ \<Rightarrow> Inl ''failed to read directory''
   | None \<Rightarrow> Inl ''content-risk rules dir does not exist'')"

text \<open>\<open>'r\<close> are compiled rules.  A pattern match has its range, XOR key and data; a scan gives the matching rules.\<close>

datatype meta_value = MetaInteger int | MetaString string | MetaOther

record yara_pattern_match =
  ym_start :: nat
  ym_end :: nat
  ym_xor_key :: "nat option"
  ym_data :: string

record yara_match =
  yr_identifier :: string
  yr_namespace :: string
  yr_tags :: "string list"
  yr_metadata :: "(string \<times> meta_value) list"
  yr_patterns :: "(string \<times> yara_pattern_match list) list"

record 'r scan_env =
  se_sha256 :: "string \<Rightarrow> string"
  se_compile :: "string list \<Rightarrow> string + 'r"
  se_scan :: "'r \<Rightarrow> (string \<times> yara_global) list \<Rightarrow> (string \<times> string) list \<Rightarrow> string \<Rightarrow> string + yara_match list"
  se_urls :: "string \<Rightarrow> string list"
  se_discord :: "string \<Rightarrow> string list"
  se_telegram :: "string \<Rightarrow> string list"
  se_ipv4 :: "string \<Rightarrow> string list"
  se_canonical :: "string \<Rightarrow> string option"
  se_tree :: "string \<Rightarrow> rules_node option"
  se_rules_override :: "string option"
  se_exists :: "string \<Rightarrow> bool"
  se_manifest_dir :: string
  se_fetch :: "scan_source \<Rightarrow> string + string"
  se_readers :: archive_readers

text \<open>The bytes hashed: each path and source, closed by a zero byte.\<close>

definition fingerprint_rule_sources :: "'r scan_env \<Rightarrow> string \<Rightarrow> rule_source list \<Rightarrow> string" where
  "fingerprint_rule_sources env dir sources =
     se_sha256 env (concat (map (\<lambda>(path, source).
       dir @ concat (map (\<lambda>c. ''/'' @ c) path) @ [CHR 0x00] @ source @ [CHR 0x00]) sources))"

record 'r cached_rule_set =
  rs_fingerprint :: string
  rs_rules :: 'r

definition max_ruleset_cache_entries :: nat where
  "max_ruleset_cache_entries = 8"

type_synonym 'r ruleset_cache = "(string, 'r cached_rule_set) bounded_map"

definition load_ruleset :: "'r scan_env \<Rightarrow> string \<Rightarrow> 'r ruleset_cache \<Rightarrow> 'r ruleset_cache \<times> (string + ('r \<times> string))" where
  "load_ruleset env dir cache =
     (let canonical = (case se_canonical env dir of Some d \<Rightarrow> d | None \<Rightarrow> dir) in
      case load_rule_sources (se_tree env canonical) of
        Inl err \<Rightarrow> (cache, Inl err)
      | Inr sources \<Rightarrow>
          (let fingerprint = fingerprint_rule_sources env canonical sources;
               (cached, cache) = bm_get_cloned_refresh canonical cache;
               hit = (case cached of Some c \<Rightarrow> if rs_fingerprint c = fingerprint then Some c else None | None \<Rightarrow> None) in
           case hit of
             Some c \<Rightarrow> (cache, Inr (rs_rules c, rs_fingerprint c))
           | None \<Rightarrow> (case se_compile env (map snd sources) of
               Inl err \<Rightarrow> (cache, Inl err)
             | Inr rules \<Rightarrow>
                 (snd (bm_insert canonical \<lparr>rs_fingerprint = fingerprint, rs_rules = rules\<rparr> cache), Inr (rules, fingerprint)))))"

definition default_rules_dir :: string where
  "default_rules_dir = ''rules/content-risk''"

definition content_risk_rules_dir :: "'r scan_env \<Rightarrow> string" where
  "content_risk_rules_dir env = (case se_rules_override env of
     Some path \<Rightarrow> path
   | None \<Rightarrow> if se_exists env default_rules_dir then default_rules_dir
       else se_manifest_dir env @ ''/../../'' @ default_rules_dir)"

section \<open>Matches\<close>

definition looks_like_text :: "string \<Rightarrow> bool" where
  "looks_like_text bytes \<longleftrightarrow> bytes = [] \<or> (0 \<notin> set (map byte bytes) \<and> utf8_valid (map byte bytes))"

definition char_is_control :: "string \<Rightarrow> bool" where
  "char_is_control u \<longleftrightarrow> (case map byte u of
     [b] \<Rightarrow> b < 32 \<or> b = 127
   | [a, b] \<Rightarrow> a = 0xC2 \<and> b < 0xA0
   | _ \<Rightarrow> False)"

definition preview_char :: "string \<Rightarrow> string" where
  "preview_char u =
     (if u = [CHR 0x0A] then [CHR 0x5C, CHR ''n''] else if u = [CHR 0x0D] then [CHR 0x5C, CHR ''r'']
      else if u = [CHR 0x09] then [CHR 0x5C, CHR ''t''] else if char_is_control u then '' '' else u)"

definition hex_digit :: "nat \<Rightarrow> char" where
  "hex_digit n = (if n < 10 then char_of (48 + n) else char_of (87 + n))"

definition match_preview_bytes :: nat where
  "match_preview_bytes = 96"

definition match_preview :: "string \<Rightarrow> string" where
  "match_preview bytes =
     (let preview = take match_preview_bytes bytes; more = (if length bytes > length preview then ''...'' else []) in
      if looks_like_text preview then concat (map preview_char (utf8_chars preview)) @ more
      else ''hex:'' @ concat (map (\<lambda>b. [hex_digit (byte b div 16), hex_digit (byte b mod 16)]) preview) @ more)"

text \<open>The last positive \<open>score\<close>, kept in 32 bits, and the last \<open>description\<close>.\<close>

definition metadata_score :: "(string \<times> meta_value) list \<Rightarrow> nat" where
  "metadata_score meta = fold (\<lambda>(ident, v) score. case v of
     MetaInteger n \<Rightarrow> if ident = ''score'' \<and> n > 0 then nat (n mod 2 ^ 32) else score | _ \<Rightarrow> score) meta 1"

definition metadata_description :: "(string \<times> meta_value) list \<Rightarrow> string option" where
  "metadata_description meta = fold (\<lambda>(ident, v) d. case v of
     MetaString t \<Rightarrow> if ident = ''description'' then Some t else d | _ \<Rightarrow> d) meta None"

definition pattern_matches_of :: "yara_match \<Rightarrow> pattern_match list" where
  "pattern_matches_of r =
     sort_key (\<lambda>p. (pm_pattern_id p, pm_range_start p, pm_range_end p))
       (concat (map (\<lambda>(ident, ms). map (\<lambda>m. \<lparr>pm_pattern_id = ident, pm_range_start = ym_start m, pm_range_end = ym_end m,
          pm_xor_key = ym_xor_key m, pm_preview = Some (match_preview (ym_data m))\<rparr>) ms) (yr_patterns r)))"

definition content_match_of :: "scan_target \<Rightarrow> yara_match \<Rightarrow> content_match" where
  "content_match_of t r =
     (let profile = rule_behavior_profile (yr_identifier r) (yr_tags r); ps = pattern_matches_of r in
      \<lparr>cm_rule_id = yr_identifier r, cm_namespace = yr_namespace r, cm_tags = yr_tags r,
       cm_match_class = Some (rf_match_class profile), cm_behavior_tags = rf_behavior_tags profile,
       cm_score = metadata_score (yr_metadata r), cm_file_path = st_path t, cm_file_role = role_as_str (st_role t),
       cm_matched_patterns = btree_set (map pm_pattern_id ps), cm_pattern_matches = ps,
       cm_evidence_kind = Some (if ps = [] then ''module_condition'' else ''pattern''),
       cm_description = metadata_description (yr_metadata r)\<rparr>)"

fun scan_targets :: "'r scan_env \<Rightarrow> 'r \<Rightarrow> package_scan_context \<Rightarrow> scan_target list \<Rightarrow> string + content_match list" where
  "scan_targets env rules cx [] = Inr []"
| "scan_targets env rules cx (t # ts) =
     (case se_scan env rules (apply_globals cx t)
         (if st_modules t then module_scan_options (sx_ecosystem cx) else disabled_module_scan_options) (st_bytes t) of
        Inl err \<Rightarrow> Inl err
      | Inr rs \<Rightarrow> map_sum id (\<lambda>rest. map (content_match_of t) rs @ rest) (scan_targets env rules cx ts))"

definition match_order :: "content_match \<Rightarrow> int \<times> string \<times> string" where
  "match_order m = (- int (cm_score m), cm_rule_id m, cm_file_path m)"

definition run_yara_scan :: "'r scan_env \<Rightarrow> 'r \<Rightarrow> package_scan_context \<Rightarrow> scan_target list \<Rightarrow> string + content_match list" where
  "run_yara_scan env rules cx ts = map_sum id (sort_key match_order) (scan_targets env rules cx ts)"

section \<open>Indicators\<close>

definition ioc_markers :: "(string \<times> string) list" where
  "ioc_markers =
     [(''windows_run_key'', ''Software'' @ [CHR 0x5C] @ ''Microsoft'' @ [CHR 0x5C] @ ''Windows'' @ [CHR 0x5C] @ ''CurrentVersion''
         @ [CHR 0x5C] @ ''Run''),
      (''windows_startup_folder'', ''Start Menu'' @ [CHR 0x5C] @ ''Programs'' @ [CHR 0x5C] @ ''Startup''),
      (''defender_exclusion'', ''Add-MpPreference''), (''wscript'', ''wscript.exe'')]"

definition target_iocs :: "'r scan_env \<Rightarrow> scan_target \<Rightarrow> (string \<times> string \<times> string) list" where
  "target_iocs env t =
     (if \<not> st_text t then []
      else map (\<lambda>(kind, v). (kind, v, st_path t))
        (map (Pair ''url'') (se_urls env (st_bytes t)) @ map (Pair ''discord_webhook'') (se_discord env (st_bytes t))
         @ map (Pair ''telegram_bot_token'') (se_telegram env (st_bytes t)) @ map (Pair ''ipv4'') (se_ipv4 env (st_bytes t))
         @ filter (\<lambda>(_, marker). str_contains (st_bytes t) marker) ioc_markers))"

definition extract_iocs :: "'r scan_env \<Rightarrow> scan_target list \<Rightarrow> content_ioc list" where
  "extract_iocs env ts = map (\<lambda>(kind, v, path). \<lparr>io_kind = kind, io_value = v, io_file_path = Some path\<rparr>)
     (btree_set (concat (map (target_iocs env) ts)))"

section \<open>The signal\<close>

definition skipped_signal :: "string \<Rightarrow> content_risk" where
  "skipped_signal reason = (content_risk_empty reason)\<lparr>cr_engine := Some ''yara_x''\<rparr>"

text \<open>\<open>max_by_key\<close> gives the last of the greatest.\<close>

fun last_max :: "content_match list \<Rightarrow> content_match option" where
  "last_max [] = None"
| "last_max (m # ms) = (case last_max ms of
     Some b \<Rightarrow> if cm_score b \<ge> cm_score m then Some b else Some m | None \<Rightarrow> Some m)"

definition scan_reason :: "content_match list \<Rightarrow> string" where
  "scan_reason ms = (case last_max ms of
     Some m \<Rightarrow> (case cm_description m of Some d \<Rightarrow> d | None \<Rightarrow> ''content-risk rule matched: '' @ cm_rule_id m)
   | None \<Rightarrow> ''no content-risk rules matched'')"

definition u32_sum :: "nat list \<Rightarrow> nat" where
  "u32_sum xs = sum_list xs mod 2 ^ 32"

definition behavior_score :: "content_match list \<Rightarrow> nat" where
  "behavior_score ms = u32_sum (map cm_score (filter (\<lambda>m. cm_match_class m \<noteq> Some ContextOnly) ms))"

definition signal_of :: "content_match list \<Rightarrow> content_ioc list \<Rightarrow> scan_target list \<Rightarrow> string \<Rightarrow> content_risk" where
  "signal_of ms iocs ts fingerprint =
     \<lparr>cr_scanned = True, cr_suspicious = (behavior_score ms \<ge> 8), cr_score = u32_sum (map cm_score ms),
      cr_factors = btree_set (map cm_rule_id ms) @ (if iocs = [] then [] else [''iocs_extracted'']),
      cr_reason = scan_reason ms, cr_matches = ms, cr_iocs = iocs,
      cr_scanned_files = map (\<lambda>t. \<lparr>sf_path = st_path t, sf_role = role_as_str (st_role t), sf_size_bytes = st_size_bytes t,
        sf_text = st_text t\<rparr>) ts,
      cr_engine = Some ''yara_x'', cr_rule_set_version = Some fingerprint, cr_error = None\<rparr>"

definition scan_captured_release_inner ::
  "'r scan_env \<Rightarrow> string \<Rightarrow> captured_release \<Rightarrow> 'r ruleset_cache \<Rightarrow> 'r ruleset_cache \<times> (string + content_risk)" where
  "scan_captured_release_inner env dir cap cache =
     (if ca_status cap \<notin> {Active, Yanked, Unknown} then (cache, Inr (skipped_signal ''content-risk scan skipped for inactive release''))
      else case artifact_source_for_capture dir cap of
          None \<Rightarrow> (cache, Inr (skipped_signal ''content-risk scan skipped: no artifact source''))
        | Some (source, kind, name) \<Rightarrow> (case se_fetch env source of
            Inl err \<Rightarrow> (cache, Inl err)
          | Inr bytes \<Rightarrow> (case load_ruleset env (content_risk_rules_dir env) cache of
              (cache, Inl err) \<Rightarrow> (cache, Inl err)
            | (cache, Inr (rules, fingerprint)) \<Rightarrow>
                (let ts = archive_scan_target name bytes
                       # (case decompressed_scan_target (se_readers env) name kind bytes of Some t \<Rightarrow> [t] | None \<Rightarrow> []) in
                 (cache, map_sum id (\<lambda>ms. signal_of ms (extract_iocs env ts) ts fingerprint)
                    (run_yara_scan env rules (context_from_capture cap None) ts))))))"


end
