(* ===== verification/Content_Scan_Props.thy ===== *)
theory Content_Scan_Props
  imports Content_Scan
begin

text \<open>
  The scan reports every matching rule of every view once and no other, most severe first; the rule cache never
  changes what is compiled; matches that only give context never make a release suspicious; and a rule that
  matches a stored archive in both of its views counts twice.
\<close>

section \<open>Matches\<close>

definition scan_one :: "'r scan_env \<Rightarrow> 'r \<Rightarrow> package_scan_context \<Rightarrow> scan_target \<Rightarrow> string + yara_match list" where
  "scan_one env rules cx t = se_scan env rules (apply_globals cx t)
     (if st_modules t then module_scan_options (sx_ecosystem cx) else disabled_module_scan_options) (st_bytes t)"

fun right_or :: "'a \<Rightarrow> 'e + 'a \<Rightarrow> 'a" where
  "right_or d (Inr a) = a"
| "right_or d (Inl e) = d"

definition all_matches :: "'r scan_env \<Rightarrow> 'r \<Rightarrow> package_scan_context \<Rightarrow> scan_target list \<Rightarrow> content_match list" where
  "all_matches env rules cx ts = concat (map (\<lambda>t. map (content_match_of t) (right_or [] (scan_one env rules cx t))) ts)"

lemma scan_targets_Cons:
  "scan_targets env rules cx (t # ts) = (case scan_one env rules cx t of
     Inl err \<Rightarrow> Inl err | Inr rs \<Rightarrow> map_sum id (\<lambda>rest. map (content_match_of t) rs @ rest) (scan_targets env rules cx ts))"
  by (simp add: scan_one_def)

declare scan_targets.simps(2) [simp del]

lemma scan_targets_all:
  "if list_all (\<lambda>t. \<not> isl (scan_one env rules cx t)) ts then scan_targets env rules cx ts = Inr (all_matches env rules cx ts)
   else isl (scan_targets env rules cx ts)"
proof (induction ts)
  case (Cons t ts)
  then show ?case
    by (cases "scan_one env rules cx t"; cases "scan_targets env rules cx ts")
      (simp_all add: scan_targets_Cons all_matches_def split: if_splits)
qed (simp add: all_matches_def)

lemma sorted_by_match_order: "sorted (map match_order (sort_key match_order ms))"
  by simp

lemma match_order_le: "match_order a \<le> match_order b \<Longrightarrow> cm_score b \<le> cm_score a"
  by (auto simp: match_order_def less_eq_prod_def)

section \<open>The rule cache\<close>

definition current_sources :: "'r scan_env \<Rightarrow> string \<Rightarrow> string + rule_source list" where
  "current_sources env dir = load_rule_sources (se_tree env (case se_canonical env dir of Some d \<Rightarrow> d | None \<Rightarrow> dir))"

text \<open>Every cached rule set is the compilation of sources seen before.\<close>

definition cache_sound :: "'r scan_env \<Rightarrow> rule_source list set \<Rightarrow> 'r ruleset_cache \<Rightarrow> bool" where
  "cache_sound env A cache \<longleftrightarrow> (\<forall>dir c. bm_get cache dir = Some c \<longrightarrow>
     (\<exists>sources \<in> A. rs_fingerprint c = fingerprint_rule_sources env dir sources \<and> se_compile env (map snd sources) = Inr (rs_rules c)))"

definition same_engine :: "'r scan_env \<Rightarrow> 'r scan_env \<Rightarrow> bool" where
  "same_engine env e \<longleftrightarrow> se_sha256 e = se_sha256 env \<and> se_compile e = se_compile env"

definition collision_free :: "'r scan_env \<Rightarrow> rule_source list set \<Rightarrow> bool" where
  "collision_free env A \<longleftrightarrow> (\<forall>dir. \<forall>a \<in> A. \<forall>b \<in> A.
     fingerprint_rule_sources env dir a = fingerprint_rule_sources env dir b \<longrightarrow> map snd a = map snd b)"

definition load_uncached :: "'r scan_env \<Rightarrow> string \<Rightarrow> string + ('r \<times> string)" where
  "load_uncached env dir =
     (let canonical = (case se_canonical env dir of Some d \<Rightarrow> d | None \<Rightarrow> dir) in
      case current_sources env dir of
        Inl err \<Rightarrow> Inl err
      | Inr sources \<Rightarrow> map_sum id (\<lambda>rules. (rules, fingerprint_rule_sources env canonical sources)) (se_compile env (map snd sources)))"

definition sources_in :: "rule_source list set \<Rightarrow> 'r scan_env \<times> string \<Rightarrow> bool" where
  "sources_in A r \<longleftrightarrow> (case current_sources (fst r) (snd r) of Inr sources \<Rightarrow> sources \<in> A | Inl _ \<Rightarrow> True)"

lemma fingerprint_same: "same_engine env e \<Longrightarrow> fingerprint_rule_sources e dir a = fingerprint_rule_sources env dir a"
  by (simp add: same_engine_def fingerprint_rule_sources_def)

lemma insert_other_some:
  "bm_get (snd (bm_insert k v m)) j = Some w \<Longrightarrow> j = k \<and> w = v \<or> bm_get m j = Some w"
proof -
  assume g: "bm_get (snd (bm_insert k v m)) j = Some w"
  show ?thesis
  proof (cases "map_of (entries m) k")
    case None
    with g show ?thesis
      using evict_subset(3) [of m j] by (auto simp: insert_new bm_get_def split: if_splits)
  qed (use g in \<open>auto simp: insert_old bm_get_def split: if_splits\<close>)
qed

lemma load_ruleset_sound:
  assumes sound: "cache_sound env A cache" and free: "collision_free env A" and e: "same_engine env e" and A: "sources_in A (e, dir)"
  shows "snd (load_ruleset e dir cache) = load_uncached e dir \<and> cache_sound env A (fst (load_ruleset e dir cache))"
proof -
  let ?dir = "case se_canonical e dir of Some d \<Rightarrow> d | None \<Rightarrow> dir"
  show ?thesis
  proof (cases "current_sources e dir")
    case (Inl err)
    with sound show ?thesis
      by (simp add: load_ruleset_def load_uncached_def current_sources_def Let_def)
  next
    case (Inr sources)
    with A have in_A: "sources \<in> A"
      by (simp add: sources_in_def)
    let ?fp = "fingerprint_rule_sources env ?dir sources"
    have loaded: "load_rule_sources (se_tree e ?dir) = Inr sources"
      using Inr by (simp add: current_sources_def)
    have compile: "se_compile e = se_compile env" and fp: "fingerprint_rule_sources e d a = fingerprint_rule_sources env d a" for d a
      using e by (simp_all add: same_engine_def fingerprint_same [OF e])
    obtain cached c1 where get: "bm_get_cloned_refresh ?dir cache = (cached, c1)"
      by fastforce
    then have cached: "cached = bm_get cache ?dir" and same: "bm_get c1 d = bm_get cache d" for d
      by (cases "bm_get cache ?dir"; simp add: bm_get_cloned_refresh_def bm_get_def split: option.splits; auto simp: bm_get_def [symmetric] get_touch)+
    have sound1: "cache_sound env A c1"
      using sound by (simp add: cache_sound_def same)
    show ?thesis
    proof (cases "\<exists>c. cached = Some c \<and> rs_fingerprint c = ?fp")
      case True
      then obtain c where c: "cached = Some c" "rs_fingerprint c = ?fp"
        by blast
      with sound cached obtain b where b: "b \<in> A" "rs_fingerprint c = fingerprint_rule_sources env ?dir b"
          "se_compile env (map snd b) = Inr (rs_rules c)"
        unfolding cache_sound_def by metis
      with free in_A c(2) have "map snd b = map snd sources"
        unfolding collision_free_def by metis
      with b(3) have "se_compile env (map snd sources) = Inr (rs_rules c)"
        by simp
      with c sound1 show ?thesis
        by (simp add: load_ruleset_def load_uncached_def Let_def loaded Inr get fp compile)
    next
      case False
      then have miss: "(case cached of Some c \<Rightarrow> if rs_fingerprint c = ?fp then Some c else None | None \<Rightarrow> None) = None"
        by (auto split: option.split)
      have "cache_sound env A (snd (bm_insert ?dir \<lparr>rs_fingerprint = ?fp, rs_rules = rules\<rparr> c1))"
        if "se_compile env (map snd sources) = Inr rules" for rules
        unfolding cache_sound_def
      proof (intro allI impI)
        fix d c
        assume "bm_get (snd (bm_insert ?dir \<lparr>rs_fingerprint = ?fp, rs_rules = rules\<rparr> c1)) d = Some c"
        then have "d = ?dir \<and> c = \<lparr>rs_fingerprint = ?fp, rs_rules = rules\<rparr> \<or> bm_get c1 d = Some c"
          by (rule insert_other_some)
        then show "\<exists>sources \<in> A. rs_fingerprint c = fingerprint_rule_sources env d sources \<and> se_compile env (map snd sources) = Inr (rs_rules c)"
          using that in_A sound1 unfolding cache_sound_def by auto
      qed
      then show ?thesis
        using sound1
        by (simp add: load_ruleset_def load_uncached_def Let_def loaded Inr get fp compile miss split: sum.split)
    qed
  qed
qed

definition load_all :: "('r scan_env \<times> string) list \<Rightarrow> 'r ruleset_cache \<Rightarrow> 'r ruleset_cache" where
  "load_all rs cache = fold (\<lambda>(e, dir) c. fst (load_ruleset e dir c)) rs cache"

lemma load_all_sound:
  assumes "cache_sound env A cache" "collision_free env A" "list_all (\<lambda>r. same_engine env (fst r) \<and> sources_in A r) rs"
  shows "cache_sound env A (load_all rs cache)"
  using assms(1,3) unfolding load_all_def
  by (induction rs arbitrary: cache) (auto simp: load_ruleset_sound [OF _ assms(2)])

section \<open>Scores\<close>

lemma behavior_score_context: "list_all (\<lambda>m. cm_match_class m = Some ContextOnly) ms \<Longrightarrow> behavior_score ms = 0"
proof -
  assume "list_all (\<lambda>m. cm_match_class m = Some ContextOnly) ms"
  then have "filter (\<lambda>m. cm_match_class m \<noteq> Some ContextOnly) ms = []"
    by (auto simp: list_all_iff filter_empty_conv)
  then show ?thesis
    by (simp add: behavior_score_def u32_sum_def)
qed

lemma class_of_all_matches:
  "m \<in> set (all_matches env rules cx ts) \<Longrightarrow> cm_match_class m = Some (classify_rule_match (cm_rule_id m))"
proof -
  assume "m \<in> set (all_matches env rules cx ts)"
  then obtain t r where "m = content_match_of t r"
    unfolding all_matches_def by auto
  then show ?thesis
    by (simp add: content_match_of_def Let_def rule_behavior_profile_def)
qed

section \<open>Properties\<close>

text \<open>C12: A scan fails exactly when the engine fails on some view; otherwise its matches are exactly the matching rules
  of every view, each with the path and role of its view, in order of falling score.\<close>

theorem scan_matches_exact:
  "(case run_yara_scan env rules cx ts of
     Inl _ \<Rightarrow> list_ex (\<lambda>t. isl (scan_one env rules cx t)) ts
   | Inr ms \<Rightarrow> list_all (\<lambda>t. \<not> isl (scan_one env rules cx t)) ts
       \<and> mset ms = mset (all_matches env rules cx ts) \<and> sorted_wrt (\<ge>) (map cm_score ms))"
proof (cases "list_all (\<lambda>t. \<not> isl (scan_one env rules cx t)) ts")
  case True
  then have "run_yara_scan env rules cx ts = Inr (sort_key match_order (all_matches env rules cx ts))"
    using scan_targets_all [of env rules cx ts] by (simp add: run_yara_scan_def)
  moreover have "sorted_wrt (\<ge>) (map cm_score (sort_key match_order (all_matches env rules cx ts)))"
    using sorted_by_match_order [of "all_matches env rules cx ts"]
    by (simp add: sorted_wrt_map) (rule sorted_wrt_mono_rel [rotated], assumption, simp add: match_order_le)
  ultimately show ?thesis
    using True by simp
next
  case False
  then obtain e where "scan_targets env rules cx ts = Inl e"
    using scan_targets_all [of env rules cx ts] by (auto simp: isl_def)
  with False show ?thesis
    by (auto simp: run_yara_scan_def list_ex_iff list_all_iff)
qed

text \<open>C9: The rule cache is invisible: after any loads, with the files changed in between, loading the rules gives what
  compiling the present files gives, provided the fingerprint tells the sources seen apart.\<close>

theorem ruleset_cache_transparent:
  assumes "collision_free env A"
    and "list_all (\<lambda>r. same_engine env (fst r) \<and> sources_in A r) (rs @ [(e, dir)])"
  shows "snd (load_ruleset e dir (load_all rs (bm_new max_ruleset_cache_entries))) = load_uncached e dir"
proof -
  have "cache_sound env A (bm_new max_ruleset_cache_entries)"
    by (simp add: cache_sound_def bm_get_def bm_new_def)
  then have "cache_sound env A (load_all rs (bm_new max_ruleset_cache_entries))"
    using assms by (intro load_all_sound) simp_all
  with assms show ?thesis
    by (simp add: load_ruleset_sound)
qed

text \<open>C13: Matches that only give context never make a release suspicious, however many there are.\<close>

theorem context_only_never_suspicious:
  assumes "list_all (\<lambda>m. classify_rule_match (cm_rule_id m) = ContextOnly) ms"
    and "run_yara_scan env rules cx ts = Inr ms"
  shows "\<not> cr_suspicious (signal_of ms iocs ts fingerprint)"
proof -
  have "mset ms = mset (all_matches env rules cx ts)"
    using assms(2) scan_targets_all [of env rules cx ts]
    by (cases "scan_targets env rules cx ts") (auto simp: run_yara_scan_def split: if_splits)
  then have eq: "set ms = set (all_matches env rules cx ts)"
    by (rule mset_eq_setD)
  have "cm_match_class m = Some ContextOnly" if "m \<in> set ms" for m
    using that assms(1) class_of_all_matches [of m env rules cx ts] by (simp add: eq list_all_iff)
  then have "behavior_score ms = 0"
    by (intro behavior_score_context) (simp add: list_all_iff)
  then show ?thesis
    by (simp add: signal_of_def)
qed

text \<open>A rule that matches both the archive as it is and its decompressed view counts twice: with half the score it
  would need, it alone makes the release suspicious.\<close>

theorem stored_archive_counts_twice:
  assumes "scan_one env rules cx t1 = Inr [r]" and "scan_one env rules cx t2 = Inr [r]"
    and "classify_rule_match (yr_identifier r) \<noteq> ContextOnly"
    and "4 \<le> metadata_score (yr_metadata r)" and "metadata_score (yr_metadata r) < 8"
  shows "\<exists>ms ms1. run_yara_scan env rules cx [t1, t2] = Inr ms \<and> cr_suspicious (signal_of ms iocs ts fingerprint)
    \<and> run_yara_scan env rules cx [t2] = Inr ms1 \<and> \<not> cr_suspicious (signal_of ms1 iocs ts fingerprint)"
proof -
  have both: "scan_targets env rules cx [t1, t2] = Inr [content_match_of t1 r, content_match_of t2 r]"
    and one: "scan_targets env rules cx [t2] = Inr [content_match_of t2 r]"
    using assms(1,2) by (simp_all add: scan_targets_Cons)
  have score: "cm_score (content_match_of t r) = metadata_score (yr_metadata r)"
    and cls: "cm_match_class (content_match_of t r) = Some (classify_rule_match (yr_identifier r))" for t
    by (simp_all add: content_match_of_def Let_def rule_behavior_profile_def)
  have "behavior_score (sort_key match_order [content_match_of t1 r, content_match_of t2 r]) = 2 * metadata_score (yr_metadata r)"
    using assms(3-5) by (simp add: behavior_score_def u32_sum_def score cls)
  moreover have "behavior_score [content_match_of t2 r] = metadata_score (yr_metadata r)"
    using assms(3-5) by (simp add: behavior_score_def u32_sum_def score cls)
  ultimately show ?thesis
    using assms(4,5) by (simp add: run_yara_scan_def both one signal_of_def)
qed

definition demo_rule :: "string \<Rightarrow> nat \<Rightarrow> yara_match" where
  "demo_rule ident score = \<lparr>yr_identifier = ident, yr_namespace = ''default'', yr_tags = [],
     yr_metadata = [(''score'', MetaInteger (int score))], yr_patterns = []\<rparr>"

text \<open>One rule file, read as \<open>body\<close>; every view matches the rules given.\<close>

definition demo_scan_env :: "string \<Rightarrow> yara_match list \<Rightarrow> string scan_env" where
  "demo_scan_env body rs =
     \<lparr>se_sha256 = id, se_compile = (\<lambda>ss. Inr (concat ss)), se_scan = (\<lambda>_ _ _ _. Inr rs), se_urls = (\<lambda>_. []), se_discord = (\<lambda>_. []),
      se_telegram = (\<lambda>_. []), se_ipv4 = (\<lambda>_. []), se_canonical = Some,
      se_tree = (\<lambda>_. Some (FsDir (Some [(''r.yar'', FsFile (Some body))]))), se_rules_override = Some ''rules'', se_exists = (\<lambda>_. True),
      se_manifest_dir = [], se_fetch = (\<lambda>_. Inr ''bytes''), se_readers = \<lparr>rd_gzip = (\<lambda>b. (b, False)), rd_zip = (\<lambda>_. None)\<rparr>\<rparr>"

lemma demo_extension: "path_extension ''r.yar'' = Some ''yar''"
  by code_simp

lemma demo_sources: "current_sources (demo_scan_env body rs) ''rules'' = Inr [([''r.yar''], body)]"
  by (simp add: current_sources_def demo_scan_env_def load_rule_sources_def demo_extension)

lemma ruleset_cache_transparent_witness:
  "snd (load_ruleset (demo_scan_env ''new'' []) ''rules'' (load_all [(demo_scan_env ''old'' [], ''rules'')] (bm_new max_ruleset_cache_entries)))
    = load_uncached (demo_scan_env ''new'' []) ''rules''
   \<and> load_uncached (demo_scan_env ''new'' []) ''rules'' \<noteq> load_uncached (demo_scan_env ''old'' []) ''rules''"
proof
  let ?A = "{[([''r.yar''], ''old'')], [([''r.yar''], ''new'')]}"
  have free: "collision_free (demo_scan_env ''new'' []) ?A"
    by (simp add: collision_free_def fingerprint_rule_sources_def demo_scan_env_def)
  have "list_all (\<lambda>r. same_engine (demo_scan_env ''new'' []) (fst r) \<and> sources_in ?A r)
      ([(demo_scan_env ''old'' [], ''rules'')] @ [(demo_scan_env ''new'' [], ''rules'')])"
    by (simp add: sources_in_def demo_sources) (simp add: same_engine_def demo_scan_env_def)
  with free show "snd (load_ruleset (demo_scan_env ''new'' []) ''rules'' (load_all [(demo_scan_env ''old'' [], ''rules'')] (bm_new max_ruleset_cache_entries)))
    = load_uncached (demo_scan_env ''new'' []) ''rules''"
    by (rule ruleset_cache_transparent)
  show "load_uncached (demo_scan_env ''new'' []) ''rules'' \<noteq> load_uncached (demo_scan_env ''old'' []) ''rules''"
    by (simp add: load_uncached_def demo_sources) (simp add: demo_scan_env_def)
qed

definition demo_views :: "scan_target list" where
  "demo_views = [archive_scan_target ''a.whl'' ''stored'', archive_scan_target ''a.whl!decompressed'' ''stored'']"

definition demo_context :: package_scan_context where
  "demo_context = \<lparr>sx_ecosystem = Pypi, sx_package_name = ''a'', sx_package_version = ''1'', sx_has_install_script = False,
     sx_has_build_script = False, sx_has_bin = False, sx_has_repository = False, sx_windows_target = False, sx_dependency_count = 0,
     sx_dependency_flags = flags_of []\<rparr>"

lemma demo_scan_one: "scan_one (demo_scan_env body rs) rules cx t = Inr rs"
  by (simp add: scan_one_def demo_scan_env_def)

lemma demo_classes:
  "classify_rule_match ''generic_oast_callback'' = ContextOnly"
  "classify_rule_match ''generic_discord_or_telegram_exfil'' = MaliciousBehavior"
  by code_simp+

lemma context_only_never_suspicious_witness:
  "\<exists>ms. run_yara_scan (demo_scan_env ''b'' [demo_rule ''generic_oast_callback'' 9]) ''b'' demo_context demo_views = Inr ms
     \<and> length ms = 2 \<and> \<not> cr_suspicious (signal_of ms [] demo_views ''f'')"
proof -
  let ?env = "demo_scan_env ''b'' [demo_rule ''generic_oast_callback'' 9]"
  have targets: "scan_targets ?env ''b'' demo_context demo_views
      = Inr (map (\<lambda>t. content_match_of t (demo_rule ''generic_oast_callback'' 9)) demo_views)"
    by (simp add: demo_views_def scan_targets_Cons demo_scan_one)
  then obtain ms where ms: "run_yara_scan ?env ''b'' demo_context demo_views = Inr ms"
      "ms = sort_key match_order (map (\<lambda>t. content_match_of t (demo_rule ''generic_oast_callback'' 9)) demo_views)"
    by (simp add: run_yara_scan_def)
  then have "list_all (\<lambda>m. classify_rule_match (cm_rule_id m) = ContextOnly) ms"
    by (simp add: list_all_iff demo_classes content_match_of_def Let_def demo_rule_def)
  from context_only_never_suspicious [OF this ms(1)] ms show ?thesis
    by (simp add: demo_views_def)
qed

lemma stored_archive_counts_twice_witness:
  "\<exists>ms. run_yara_scan (demo_scan_env ''b'' [demo_rule ''generic_discord_or_telegram_exfil'' 6]) ''b'' demo_context demo_views = Inr ms
     \<and> cr_suspicious (signal_of ms [] demo_views ''f'')"
  using stored_archive_counts_twice [OF demo_scan_one demo_scan_one, of "demo_rule ''generic_discord_or_telegram_exfil'' 6"
      "''b''" "''b''" demo_context "demo_views ! 0" "demo_views ! 1" "[]" demo_views "''f''"]
  by (auto simp: demo_rule_def demo_classes metadata_score_def demo_views_def)


end
