(* ===== verification/Diff_Render.thy ===== *)
theory Diff_Render
  imports Diff_Types
begin

text \<open>
  The reports of \<open>diff.rs\<close>: a release diff as text and as Markdown, and the unified patch of one file.  The text
  of a time and of a JSON value, and the \<open>diff\<close> command, are the environment.
\<close>

section \<open>Values\<close>

record render_env =
  ro_time :: "datetime \<Rightarrow> string"
  ro_json :: "json \<Rightarrow> string"
  ro_json_pretty :: "json \<Rightarrow> string"

definition show_bool :: "bool \<Rightarrow> string" where
  "show_bool b = (if b then ''true'' else ''false'')"

fun join_strs :: "string \<Rightarrow> string list \<Rightarrow> string" where
  "join_strs sep [] = []"
| "join_strs sep [s] = s"
| "join_strs sep (s # ss) = s @ sep @ join_strs sep ss"

definition opt_part :: "string \<Rightarrow> string option \<Rightarrow> string list" where
  "opt_part label v = (case v of Some s \<Rightarrow> [label @ s] | None \<Rightarrow> [])"

definition hash_parts :: "artifact_hashes \<Rightarrow> string list" where
  "hash_parts h = opt_part ''sha256='' (ah_sha256 h) @ opt_part ''sha512='' (ah_sha512 h) @ opt_part ''blake2b_256='' (ah_blake2b_256 h)
     @ opt_part ''md5='' (ah_md5 h) @ opt_part ''integrity='' (ah_integrity h) @ opt_part ''shasum='' (ah_shasum h)
     @ opt_part ''checksum='' (ah_checksum h)"

definition format_hashes_inline :: "artifact_hashes \<Rightarrow> string option" where
  "format_hashes_inline h = (if hash_parts h = [] then None else Some (join_strs '' | '' (hash_parts h)))"

definition format_hashes_block :: "artifact_hashes \<Rightarrow> string option" where
  "format_hashes_block h = (if hash_parts h = [] then None else Some (join_strs [CHR 0x0A] (hash_parts h)))"

text \<open>\<open>ArtifactRef\<close> and \<open>ArtifactSummary\<close> are formatted alike.\<close>

definition format_artifact_summary :: "render_env \<Rightarrow> artifact_summary \<Rightarrow> string" where
  "format_artifact_summary env a = join_strs '' | ''
     (af_filename a # opt_part ''kind='' (af_kind a) @ opt_part ''size='' (map_option show_nat (af_size_bytes a))
      @ opt_part ''uploaded_at='' (map_option (ro_time env) (af_uploaded_at a))
      @ (case af_path a of Some p \<Rightarrow> [''path='' @ p] | None \<Rightarrow> opt_part ''url='' (af_url a))
      @ (case format_hashes_inline (af_hashes a) of Some h \<Rightarrow> [h] | None \<Rightarrow> [])
      @ opt_part ''yanked='' (map_option show_bool (af_yanked a)) @ opt_part ''provenance='' (af_provenance_path a))"

definition format_file_record :: "file_record \<Rightarrow> string" where
  "format_file_record f = fr_path f @ '' | size='' @ show_nat (fr_size_bytes f) @ '' | sha256='' @ fr_sha256 f
     @ '' | text='' @ show_bool (fr_text f)"

section \<open>The text report\<close>

definition text_section :: "string \<Rightarrow> ('a \<Rightarrow> string list) \<Rightarrow> 'a list \<Rightarrow> string list" where
  "text_section title item xs = (if xs = [] then [] else [[], title @ '':''] @ concat (map item xs))"

definition write_text_list_section :: "string \<Rightarrow> string list \<Rightarrow> string list" where
  "write_text_list_section title vs = text_section title (\<lambda>v. [''  - '' @ v]) vs"

definition write_text_artifact_section :: "render_env \<Rightarrow> string \<Rightarrow> artifact_summary list \<Rightarrow> string list" where
  "write_text_artifact_section env title xs = text_section title (\<lambda>a. [''  - '' @ format_artifact_summary env a]) xs"

definition write_text_artifact_change_section :: "render_env \<Rightarrow> string \<Rightarrow> artifact_change list \<Rightarrow> string list" where
  "write_text_artifact_change_section env title xs = text_section title (\<lambda>c.
     [''  - '' @ ax_filename c, ''    baseline: '' @ format_artifact_summary env (ax_baseline c),
      ''    target: '' @ format_artifact_summary env (ax_target c)]) xs"

definition write_text_metadata_section :: "render_env \<Rightarrow> string \<Rightarrow> (string \<times> json) list \<Rightarrow> string list" where
  "write_text_metadata_section env title xs = text_section title (\<lambda>(k, v). [''  - '' @ k @ '': '' @ ro_json env v]) xs"

definition write_text_metadata_change_section :: "render_env \<Rightarrow> string \<Rightarrow> metadata_value_change list \<Rightarrow> string list" where
  "write_text_metadata_change_section env title xs = text_section title (\<lambda>c.
     [''  - '' @ mv_key c, ''    baseline: '' @ ro_json env (mv_baseline c), ''    target: '' @ ro_json env (mv_target c)]) xs"

definition write_text_compared_artifact_section :: "render_env \<Rightarrow> string \<Rightarrow> artifact_ref option \<Rightarrow> artifact_ref option \<Rightarrow> string list" where
  "write_text_compared_artifact_section env title baseline target =
     (if baseline = None \<and> target = None then []
      else [[], title @ '':''] @ opt_part ''  - baseline: '' (map_option (format_artifact_summary env) baseline)
        @ opt_part ''  - target: '' (map_option (format_artifact_summary env) target))"

definition write_text_file_record_section :: "string \<Rightarrow> file_record list \<Rightarrow> string list" where
  "write_text_file_record_section title xs = text_section title (\<lambda>f. [''  - '' @ format_file_record f]) xs"

definition write_text_file_record_change_section :: "string \<Rightarrow> file_record_change list \<Rightarrow> string list" where
  "write_text_file_record_change_section title xs = text_section title (\<lambda>c.
     [''  - '' @ fc_path c, ''    baseline: '' @ format_file_record (fc_baseline c),
      ''    target: '' @ format_file_record (fc_target c)]) xs"

definition write_text_patch_section :: "string \<Rightarrow> file_patch list \<Rightarrow> string list" where
  "write_text_patch_section title xs = text_section title (\<lambda>p.
     [[], ''  ['' @ file_change_label (fp_change p) @ ''] '' @ fp_path p] @ opt_part ''    reason: '' (fp_reason p)
     @ (case fp_patch p of Some body \<Rightarrow> map (\<lambda>l. ''    '' @ l) (str_lines body) | None \<Rightarrow> [])) xs"

definition counts_text :: "nat \<Rightarrow> nat \<Rightarrow> nat \<Rightarrow> string" where
  "counts_text added removed changed = ''+'' @ show_nat added @ '' -'' @ show_nat removed @ '' ~'' @ show_nat changed"

definition artifact_counts :: "release_diff \<Rightarrow> string" where
  "artifact_counts d = counts_text (length (ad_added (rd_artifacts d))) (length (ad_removed (rd_artifacts d)))
     (length (ad_changed (rd_artifacts d)))"

definition key_counts :: "release_diff \<Rightarrow> string" where
  "key_counts d = counts_text (length (dd_added_keys (rd_details d))) (length (dd_removed_keys (rd_details d)))
     (length (dd_changed_keys (rd_details d)))"

definition file_counts :: "content_diff \<Rightarrow> string" where
  "file_counts c = counts_text (cd_files_added_count c) (cd_files_removed_count c) (cd_files_changed_count c)"

definition kind_or_unknown :: "content_diff \<Rightarrow> string" where
  "kind_or_unknown c = (case cd_artifact_kind c of Some k \<Rightarrow> k | None \<Rightarrow> ''unknown'')"

definition changed_mark :: "release_diff \<Rightarrow> string" where
  "changed_mark d = (if sd_changed (rd_status d) then '' (changed)'' else [])"

definition text_content_summary :: "content_diff \<Rightarrow> string list" where
  "text_content_summary c =
     (if cd_available c
      then [''Content: kind='' @ kind_or_unknown c @ '' '' @ file_counts c]
        @ (if cd_patches_included c
           then [''Patches: included for '' @ show_nat (length (cd_file_patches c)) @ '' files''
             @ (case cd_patch_context c of Some n \<Rightarrow> '' (context='' @ show_nat n @ '')'' | None \<Rightarrow> [])]
           else [])
      else (case cd_reason c of Some r \<Rightarrow> [''Content: unavailable ('' @ r @ '')''] | None \<Rightarrow> []))"

definition text_content_sections :: "render_env \<Rightarrow> content_diff \<Rightarrow> string list" where
  "text_content_sections env c =
     (if cd_available c
      then write_text_compared_artifact_section env ''Compared Artifacts'' (cd_baseline_artifact c) (cd_target_artifact c)
        @ write_text_list_section ''Files Added'' (cd_files_added c)
        @ write_text_list_section ''Files Removed'' (cd_files_removed c)
        @ write_text_list_section ''Files Changed'' (cd_files_changed c)
        @ write_text_file_record_section ''Files Added Detail'' (cd_files_added_detail c)
        @ write_text_file_record_section ''Files Removed Detail'' (cd_files_removed_detail c)
        @ write_text_file_record_change_section ''Files Changed Detail'' (cd_files_changed_detail c)
        @ write_text_patch_section ''File Patches'' (cd_file_patches c)
      else [])"

definition release_diff_lines :: "render_env \<Rightarrow> release_diff \<Rightarrow> string list" where
  "release_diff_lines env d =
     [''Diff '' @ ecosystem_as_str (rd_ecosystem d) @ '':'' @ rd_package d, ''Baseline: '' @ rd_baseline_version d,
      ''Target: '' @ rd_target_version d, ''Generated: '' @ ro_time env (rd_generated_at d),
      ''Status: '' @ sd_baseline (rd_status d) @ '' -> '' @ sd_target (rd_status d) @ changed_mark d,
      ''Artifacts: '' @ artifact_counts d, ''Metadata Keys: '' @ key_counts d]
     @ text_content_summary (rd_content d)
     @ write_text_list_section ''Notes'' (rd_notes d)
     @ write_text_artifact_section env ''Artifacts Added'' (ad_added (rd_artifacts d))
     @ write_text_artifact_section env ''Artifacts Removed'' (ad_removed (rd_artifacts d))
     @ write_text_artifact_change_section env ''Artifacts Changed'' (ad_changed (rd_artifacts d))
     @ write_text_list_section ''Metadata Keys Added'' (dd_added_keys (rd_details d))
     @ write_text_list_section ''Metadata Keys Removed'' (dd_removed_keys (rd_details d))
     @ write_text_list_section ''Metadata Keys Changed'' (dd_changed_keys (rd_details d))
     @ write_text_metadata_section env ''Metadata Added'' (dd_added (rd_details d))
     @ write_text_metadata_section env ''Metadata Removed'' (dd_removed (rd_details d))
     @ write_text_metadata_change_section env ''Metadata Changed'' (dd_changed (rd_details d))
     @ text_content_sections env (rd_content d)"

definition render_release_diff_text :: "render_env \<Rightarrow> release_diff \<Rightarrow> string" where
  "render_release_diff_text env d = out_lines (release_diff_lines env d)"

section \<open>The Markdown report\<close>

definition md_code :: "string \<Rightarrow> string" where
  "md_code s = ''`'' @ s @ ''`''"

definition code_part :: "string \<Rightarrow> string option \<Rightarrow> string list" where
  "code_part label v = (case v of Some s \<Rightarrow> [label @ md_code s] | None \<Rightarrow> [])"

definition escape_markdown_table_cell :: "string \<Rightarrow> string" where
  "escape_markdown_table_cell s = concat (map (\<lambda>c. if c = CHR ''|'' then [CHR 0x5C, c] else [c]) s)"

definition counted :: "string \<Rightarrow> 'a list \<Rightarrow> string" where
  "counted title xs = ''## '' @ title @ '' ('' @ show_nat (length xs) @ '')''"

definition write_markdown_json_block :: "render_env \<Rightarrow> json \<Rightarrow> string list" where
  "write_markdown_json_block env v = [''```json'', ro_json_pretty env v, ''```'', []]"

definition write_markdown_artifact_common :: "render_env \<Rightarrow> artifact_summary \<Rightarrow> string list" where
  "write_markdown_artifact_common env a =
     [''- filename: '' @ md_code (af_filename a)] @ code_part ''- kind: '' (af_kind a)
     @ code_part ''- size_bytes: '' (map_option show_nat (af_size_bytes a))
     @ code_part ''- uploaded_at: '' (map_option (ro_time env) (af_uploaded_at a)) @ code_part ''- path: '' (af_path a)
     @ (case af_url a of Some u \<Rightarrow> [''- url: <'' @ u @ ''>''] | None \<Rightarrow> [])
     @ code_part ''- yanked: '' (map_option show_bool (af_yanked a)) @ code_part ''- provenance_path: '' (af_provenance_path a)
     @ (case format_hashes_block (af_hashes a) of
          Some block \<Rightarrow> [''Hashes:'', [], ''```text'', if ends_with block [CHR 0x0A] then butlast block else block, ''```'', []]
        | None \<Rightarrow> [[]])"

definition write_markdown_list_section :: "string \<Rightarrow> string list \<Rightarrow> string list" where
  "write_markdown_list_section title vs = (if vs = [] then [] else [''## '' @ title, []] @ map (\<lambda>v. ''- '' @ v) vs @ [[]])"

definition write_markdown_metadata_section :: "render_env \<Rightarrow> string \<Rightarrow> (string \<times> json) list \<Rightarrow> string list" where
  "write_markdown_metadata_section env title xs = (if xs = [] then []
     else [''## '' @ title, []] @ concat (map (\<lambda>(k, v). [''### '' @ md_code k, []] @ write_markdown_json_block env v) xs) @ [[]])"

definition write_markdown_metadata_change_section :: "render_env \<Rightarrow> string \<Rightarrow> metadata_value_change list \<Rightarrow> string list" where
  "write_markdown_metadata_change_section env title xs = (if xs = [] then []
     else [''## '' @ title, []]
       @ concat (map (\<lambda>c. [''### '' @ md_code (mv_key c), [], ''Baseline:'', []] @ write_markdown_json_block env (mv_baseline c)
            @ [''Target:'', []] @ write_markdown_json_block env (mv_target c)) xs) @ [[]])"

definition write_markdown_code_list_section :: "string \<Rightarrow> string list \<Rightarrow> string list" where
  "write_markdown_code_list_section title vs = (if vs = [] then []
     else [counted title vs, [], ''```text''] @ vs @ [''```'', []])"

definition write_markdown_compared_artifact_section :: "render_env \<Rightarrow> string \<Rightarrow> artifact_ref option \<Rightarrow> artifact_ref option \<Rightarrow> string list" where
  "write_markdown_compared_artifact_section env title baseline target =
     (if baseline = None \<and> target = None then []
      else [''## '' @ title, []]
        @ (case baseline of Some a \<Rightarrow> [''### Baseline'', []] @ write_markdown_artifact_common env a | None \<Rightarrow> [])
        @ (case target of Some a \<Rightarrow> [''### Target'', []] @ write_markdown_artifact_common env a | None \<Rightarrow> []) @ [[]])"

definition write_markdown_artifact_section :: "render_env \<Rightarrow> string \<Rightarrow> artifact_summary list \<Rightarrow> string list" where
  "write_markdown_artifact_section env title xs = (if xs = [] then []
     else [counted title xs, []]
       @ concat (map (\<lambda>a. [''### '' @ md_code (af_filename a), []] @ write_markdown_artifact_common env a) xs) @ [[]])"

definition write_markdown_artifact_change_section :: "render_env \<Rightarrow> string \<Rightarrow> artifact_change list \<Rightarrow> string list" where
  "write_markdown_artifact_change_section env title xs = (if xs = [] then []
     else [counted title xs, []]
       @ concat (map (\<lambda>c. [''### '' @ md_code (ax_filename c), [], ''Baseline:'', []] @ write_markdown_artifact_common env (ax_baseline c)
            @ [''Target:'', []] @ write_markdown_artifact_common env (ax_target c)) xs) @ [[]])"

definition file_cells :: "file_record \<Rightarrow> string" where
  "file_cells f = md_code (escape_markdown_table_cell (fr_path f)) @ '' | '' @ md_code (show_nat (fr_size_bytes f)) @ '' | ''
     @ md_code (escape_markdown_table_cell (fr_sha256 f)) @ '' | '' @ md_code (show_bool (fr_text f)) @ '' |''"

definition write_markdown_file_record_section :: "string \<Rightarrow> file_record list \<Rightarrow> string list" where
  "write_markdown_file_record_section title xs = (if xs = [] then []
     else [counted title xs, [], ''| Path | Size | SHA256 | Text |'', ''| --- | ---: | --- | --- |'']
       @ map (\<lambda>f. ''| '' @ file_cells f) xs @ [[]])"

definition write_markdown_file_record_change_section :: "string \<Rightarrow> file_record_change list \<Rightarrow> string list" where
  "write_markdown_file_record_change_section title xs = (if xs = [] then []
     else [counted title xs, []]
       @ concat (map (\<lambda>c. [''### '' @ md_code (fc_path c), [], ''| Version | Path | Size | SHA256 | Text |'', ''| --- | --- | ---: | --- | --- |'',
            ''| Baseline | '' @ file_cells (fc_baseline c), ''| Target | '' @ file_cells (fc_target c), []]) xs))"

text \<open>The body of a patch, with its last line closed.\<close>

definition write_markdown_patch_section :: "string \<Rightarrow> file_patch list \<Rightarrow> string list" where
  "write_markdown_patch_section title xs = (if xs = [] then []
     else [''## '' @ title, []]
       @ concat (map (\<lambda>p. [''### '' @ md_code (fp_path p) @ '' ('' @ file_change_label (fp_change p) @ '')'', []]
            @ (case fp_reason p of Some r \<Rightarrow> [''- Reason: '' @ r, []] | None \<Rightarrow> [])
            @ (case fp_patch p of
                 Some body \<Rightarrow> [''```diff'', if ends_with body [CHR 0x0A] then butlast body else body, ''```'', []]
               | None \<Rightarrow> [])) xs))"

definition markdown_content_summary :: "content_diff \<Rightarrow> string list" where
  "markdown_content_summary c =
     (if cd_available c
      then [''- Content: '' @ md_code (kind_or_unknown c) @ '' '' @ md_code (file_counts c), []]
        @ (if cd_patches_included c
           then [''- Patches: included for '' @ md_code (show_nat (length (cd_file_patches c))) @ '' files''
             @ (case cd_patch_context c of Some n \<Rightarrow> '' with '' @ md_code (show_nat n) @ '' lines of context'' | None \<Rightarrow> []), []]
           else [])
      else (case cd_reason c of Some r \<Rightarrow> [''- Content: unavailable '' @ md_code r, []] | None \<Rightarrow> []))"

definition markdown_content_sections :: "render_env \<Rightarrow> content_diff \<Rightarrow> string list" where
  "markdown_content_sections env c =
     (if cd_available c
      then write_markdown_compared_artifact_section env ''Compared Artifacts'' (cd_baseline_artifact c) (cd_target_artifact c)
        @ write_markdown_code_list_section ''Files Added'' (cd_files_added c)
        @ write_markdown_code_list_section ''Files Removed'' (cd_files_removed c)
        @ write_markdown_code_list_section ''Files Changed'' (cd_files_changed c)
        @ write_markdown_file_record_section ''Files Added Detail'' (cd_files_added_detail c)
        @ write_markdown_file_record_section ''Files Removed Detail'' (cd_files_removed_detail c)
        @ write_markdown_file_record_change_section ''Files Changed Detail'' (cd_files_changed_detail c)
        @ write_markdown_patch_section ''File Patches'' (cd_file_patches c)
      else [])"

definition render_release_diff_markdown :: "render_env \<Rightarrow> release_diff \<Rightarrow> string" where
  "render_release_diff_markdown env d = out_lines
     ([''# Release Diff: '' @ md_code (ecosystem_as_str (rd_ecosystem d) @ '':'' @ rd_package d), [],
       ''- Baseline: '' @ md_code (rd_baseline_version d), ''- Target: '' @ md_code (rd_target_version d),
       ''- Generated: '' @ md_code (ro_time env (rd_generated_at d)),
       ''- Status: '' @ md_code (sd_baseline (rd_status d) @ '' -> '' @ sd_target (rd_status d)) @ changed_mark d,
       ''- Artifacts: '' @ md_code (artifact_counts d), ''- Metadata keys: '' @ md_code (key_counts d)]
      @ markdown_content_summary (rd_content d)
      @ write_markdown_list_section ''Notes'' (rd_notes d)
      @ write_markdown_artifact_section env ''Artifacts Added'' (ad_added (rd_artifacts d))
      @ write_markdown_artifact_section env ''Artifacts Removed'' (ad_removed (rd_artifacts d))
      @ write_markdown_artifact_change_section env ''Artifacts Changed'' (ad_changed (rd_artifacts d))
      @ write_markdown_list_section ''Metadata Keys Added'' (dd_added_keys (rd_details d))
      @ write_markdown_list_section ''Metadata Keys Removed'' (dd_removed_keys (rd_details d))
      @ write_markdown_list_section ''Metadata Keys Changed'' (dd_changed_keys (rd_details d))
      @ write_markdown_metadata_section env ''Metadata Added'' (dd_added (rd_details d))
      @ write_markdown_metadata_section env ''Metadata Removed'' (dd_removed (rd_details d))
      @ write_markdown_metadata_change_section env ''Metadata Changed'' (dd_changed (rd_details d))
      @ markdown_content_sections env (rd_content d))"

definition render_stored_release_diff_markdown :: "render_env \<Rightarrow> stored_diff \<Rightarrow> string" where
  "render_stored_release_diff_markdown env s = (case st_diff s of
     Some d \<Rightarrow> render_release_diff_markdown env d
   | None \<Rightarrow> out_lines ([''# Release Diff: '' @ md_code (ecosystem_as_str (st_ecosystem s) @ '':'' @ st_package s), [],
       ''- Target: '' @ md_code (st_version s), ''- Generated: '' @ md_code (ro_time env (st_generated_at s)),
       ''- Status: '' @ md_code (stored_diff_status_as_str (st_status s))] @ code_part ''- Reason: '' (st_reason s) @ [[]]))"

section \<open>The unified patch\<close>

definition patch_labels :: "string \<Rightarrow> file_change_kind \<Rightarrow> string \<times> string" where
  "patch_labels path change =
     ((case change of FileAdded \<Rightarrow> ''/dev/null'' | _ \<Rightarrow> ''baseline/'' @ path),
      (case change of FileRemoved \<Rightarrow> ''/dev/null'' | _ \<Rightarrow> ''target/'' @ path))"

text \<open>The command's outcome: a failure to start, or an exit code, none after a signal, with its output and errors.\<close>

definition render_unified_patch ::
  "(string list \<Rightarrow> string + (nat option \<times> string \<times> string)) \<Rightarrow> string \<Rightarrow> file_change_kind \<Rightarrow> string option \<Rightarrow> string option \<Rightarrow> nat
     \<Rightarrow> string + string" where
  "render_unified_patch run path change baseline target context_lines =
     (let (left_label, right_label) = patch_labels path change;
          or_null = (\<lambda>p. case p of Some f \<Rightarrow> f | None \<Rightarrow> ''/dev/null'') in
      case run [''diff'', ''-U'', show_nat context_lines, ''-L'', left_label, ''-L'', right_label, or_null baseline, or_null target] of
        Inl _ \<Rightarrow> Inl (''failed to spawn diff for '' @ path)
      | Inr (exit_code, out, err) \<Rightarrow> (case exit_code of
          Some n \<Rightarrow> if n = 0 \<or> n = 1 then Inr out
            else Inl (''diff command failed for '' @ path @ '' with exit code '' @ show_nat n @ '': '' @ trim err)
        | None \<Rightarrow> Inl (''diff command terminated by signal for '' @ path @ '': '' @ trim err)))"

section \<open>Lines of a report\<close>

lemma plain_append: "plain_line (a @ b) \<longleftrightarrow> list_all (\<lambda>c. byte c \<noteq> 10) a \<and> plain_line b" if "b \<noteq> []"
  using that by (auto simp: plain_line_def)

text \<open>Code fences as CommonMark has them: up to three spaces, then three backticks; only an info string without
  backticks may follow an opening fence, and only spaces a closing one.\<close>

definition fence_text :: "string \<Rightarrow> string option" where
  "fence_text l =
     (let indent = length (takeWhile (\<lambda>c. c = CHR '' '') l); r = drop indent l in
      if indent \<le> 3 \<and> starts_with r ''```'' then Some (dropWhile (\<lambda>c. c = CHR ''`'') r) else None)"

definition opens_fence :: "string \<Rightarrow> bool" where
  "opens_fence l \<longleftrightarrow> (case fence_text l of Some info \<Rightarrow> CHR ''`'' \<notin> set info | None \<Rightarrow> False)"

definition closes_fence :: "string \<Rightarrow> bool" where
  "closes_fence l \<longleftrightarrow> (case fence_text l of Some info \<Rightarrow> trim info = [] | None \<Rightarrow> False)"

fun inside_fence :: "bool \<Rightarrow> string list \<Rightarrow> bool" where
  "inside_fence inside [] = inside"
| "inside_fence inside (l # ls) = inside_fence (if inside then \<not> closes_fence l else opens_fence l) ls"

lemma inside_append: "inside_fence b (xs @ ys) = inside_fence (inside_fence b xs) ys"
  by (induction xs arbitrary: b) simp_all

lemma inside_kept: "list_all (\<lambda>l. \<not> closes_fence l) ls \<Longrightarrow> inside_fence True ls"
  by (induction ls) simp_all

lemma fences:
  "opens_fence ''```diff''" "closes_fence '' ```''" "\<not> opens_fence []" "\<not> opens_fence (CHR ''#'' # l)"
  by (code_simp, code_simp, code_simp, simp add: opens_fence_def fence_text_def)

text \<open>A patch with a context line of three backticks closes its own code block in the Markdown report: the lines of
  the patch behind it, which the author of the package chose, stand outside any block.\<close>

theorem patch_escapes_code_block:
  assumes "fp_patch p = Some (out_lines (before @ '' ```'' # after))" and "fp_reason p = None"
    and "list_all plain_line (before @ after)" and "list_all (\<lambda>l. \<not> closes_fence l) before"
    and "plain_line (fp_path p)" and "plain_line title"
  shows "\<exists>report. str_lines (out_lines (write_markdown_patch_section title [p])) = report @ after @ [''```'', []]
    \<and> \<not> inside_fence False report"
proof -
  let ?head = "[''## '' @ title, [], ''### '' @ md_code (fp_path p) @ '' ('' @ file_change_label (fp_change p) @ '')'', [], ''```diff'']"
  let ?report = "?head @ before @ ['' ```'']"
  have "out_lines (write_markdown_patch_section title [p]) = out_lines (?report @ after @ [''```'', []]) @ []"
    using out_lines_closed [of "before @ '' ```'' # after"]
    by (simp add: write_markdown_patch_section_def assms(1,2) del: out_lines_append(1)) simp
  moreover have "list_all plain_line (?report @ after @ [''```'', []])"
    using assms(3,5,6) by (cases "fp_change p"; cases "title = []") (auto simp: plain_line_def md_code_def byte_def)
  ultimately have "str_lines (out_lines (write_markdown_patch_section title [p])) = ?report @ after @ [''```'', []]"
    using str_lines_out [of "?report @ after @ [''```'', []]" "[]"] by (simp add: str_lines_def)
  moreover have "\<not> inside_fence False ?report"
    using assms(4) inside_kept [of before] by (simp add: inside_append fences)
  ultimately show ?thesis
    by blast
qed

lemma patch_escapes_code_block_witness:
  "\<exists>report. str_lines (out_lines (write_markdown_patch_section ''File Patches''
       [\<lparr>fp_path = ''README.md'', fp_change = FileChanged, fp_text = True, fp_patch = Some (out_lines [''@@ -1,2 +1,3 @@'', '' ```'', ''+<img>'']),
         fp_reason = None\<rparr>])) = report @ [''+<img>'', ''```'', []]
     \<and> \<not> inside_fence False report"
proof -
  have "list_all (\<lambda>l. \<not> closes_fence l) [''@@ -1,2 +1,3 @@'']"
    by code_simp
  moreover have "list_all plain_line ([''@@ -1,2 +1,3 @@''] @ [''+<img>''])" "plain_line ''README.md''" "plain_line ''File Patches''"
    by code_simp+
  ultimately show ?thesis
    using patch_escapes_code_block [of "\<lparr>fp_path = ''README.md'', fp_change = FileChanged, fp_text = True,
        fp_patch = Some (out_lines [''@@ -1,2 +1,3 @@'', '' ```'', ''+<img>'']), fp_reason = None\<rparr>"
        "[''@@ -1,2 +1,3 @@'']" "[''+<img>'']" "''File Patches''"]
    by simp
qed


end
