(* ===== verification/Perf.thy ===== *)
theory Perf
  imports F64_Arith Event
begin

text \<open>
  The runtime counters (\<open>perf.rs\<close>): the atomics of \<open>Inner\<close> as memory locations, every \<open>record_*\<close> method
  as the sequence of atomic instructions it performs, the compare-exchange loop of \<open>update_max\<close> one
  step at a time, and \<open>snapshot\<close> with its derived figures.  Threads interleave instruction by instruction
  (the accesses are relaxed, but each location has one order of modification, and no statement here
  compares two locations).
\<close>

section \<open>The atomics and their instructions\<close>

datatype counter =
    CtrObservedEvents | CtrLedgerAppends | CtrLedgerAppendUs | CtrStoreEventWrites | CtrStoreEventWriteUs
    | CtrSinkPublishes | CtrSinkPublishUs | CtrPriorityHigh | CtrPriorityMedium | CtrPriorityLow | CtrPriorityUnknown
    | CtrTriageEnqueued | CtrTriageStarted | CtrTriageCompleted | CtrTriageFailed | CtrTriageDropped
    | CtrTriagePromoted | CtrTriageQueueWaitUs | CtrTriageRunUs | CtrTriageRunMaxUs | CtrStagingCacheEntries
    | CtrStagingCacheBytes | CtrStagingCachePruned | CtrStagingCachePromoted | CtrStagingCacheDiscarded
    | CtrCaptureEnqueued | CtrCaptureSkipped | CtrCaptureStarted | CtrCaptureCompleted | CtrCaptureFailed
    | CtrCaptureQueueWaitUs | CtrCaptureRunUs | CtrCaptureRunMaxUs | CtrContentScanCompleted | CtrContentScanUs
    | CtrContentScanMaxUs | CtrDiffEnqueued | CtrDiffSkipped | CtrDiffStarted | CtrDiffCompleted | CtrDiffFailed
    | CtrDiffQueueWaitUs | CtrDiffRunUs | CtrDiffRunMaxUs

type_synonym counters = "counter \<Rightarrow> 64 word"

definition stats_default :: counters where
  "stats_default = (\<lambda>_. 0)"

text \<open>A \<open>Duration\<close> in nanoseconds.\<close>

type_synonym duration = nat

definition as_micros :: "duration \<Rightarrow> nat" where
  "as_micros d = d div 1000"

definition as_secs_f64 :: "duration \<Rightarrow> f64" where
  "as_secs_f64 d = f64_add (f64_of_u64 (d div 1000000000)) (f64_div (f64_of_u64 (d mod 1000000000)) (f64_of_u64 1000000000))"

text \<open>\<open>MaxCas c w current\<close> is \<open>update_max\<close> about to try its compare-exchange.\<close>

datatype instr = FetchAdd counter "64 word" | StoreWord counter "64 word" | UpdateMax counter "64 word"
  | MaxCas counter "64 word" "64 word"

fun exec_instr :: "counters \<Rightarrow> instr \<Rightarrow> counters \<times> instr option" where
  "exec_instr m (FetchAdd c w) = (m(c := m c + w), None)"
| "exec_instr m (StoreWord c w) = (m(c := w), None)"
| "exec_instr m (UpdateMax c w) = (m, if m c < w then Some (MaxCas c w (m c)) else None)"
| "exec_instr m (MaxCas c w current) =
     (if m c = current then (m(c := w), None)
      else (m, if m c < w then Some (MaxCas c w (m c)) else None))"

definition saturated_micros :: "duration \<Rightarrow> 64 word" where
  "saturated_micros d = of_nat (min (as_micros d) u64_max)"

definition add_duration :: "counter \<Rightarrow> duration \<Rightarrow> instr" where
  "add_duration c d = FetchAdd c (saturated_micros d)"

definition update_max :: "counter \<Rightarrow> duration \<Rightarrow> instr" where
  "update_max c d = UpdateMax c (saturated_micros d)"

section \<open>The methods\<close>

definition record_observed_event :: "instr list" where
  "record_observed_event = [FetchAdd CtrObservedEvents 1]"

definition record_ledger_append :: "duration \<Rightarrow> instr list" where
  "record_ledger_append d = [FetchAdd CtrLedgerAppends 1, add_duration CtrLedgerAppendUs d]"

definition record_store_event_write :: "duration \<Rightarrow> instr list" where
  "record_store_event_write d = [FetchAdd CtrStoreEventWrites 1, add_duration CtrStoreEventWriteUs d]"

definition record_sink_publish :: "duration \<Rightarrow> instr list" where
  "record_sink_publish d = [FetchAdd CtrSinkPublishes 1, add_duration CtrSinkPublishUs d]"

definition record_priority :: "priority_snapshot \<Rightarrow> instr list" where
  "record_priority s = [FetchAdd (case snapshot_bucket s of
       BucketHigh \<Rightarrow> CtrPriorityHigh
     | BucketMedium \<Rightarrow> CtrPriorityMedium
     | BucketLow \<Rightarrow> CtrPriorityLow
     | BucketUnknown \<Rightarrow> CtrPriorityUnknown) 1]"

definition record_capture_enqueued :: "instr list" where
  "record_capture_enqueued = [FetchAdd CtrCaptureEnqueued 1]"

definition record_triage_enqueued :: "instr list" where
  "record_triage_enqueued = [FetchAdd CtrTriageEnqueued 1]"

definition record_triage_started :: "duration \<Rightarrow> instr list" where
  "record_triage_started d = [FetchAdd CtrTriageStarted 1, add_duration CtrTriageQueueWaitUs d]"

definition record_triage_completed :: "duration \<Rightarrow> instr list" where
  "record_triage_completed d = [FetchAdd CtrTriageCompleted 1, add_duration CtrTriageRunUs d, update_max CtrTriageRunMaxUs d]"

definition record_triage_failed :: "duration \<Rightarrow> instr list" where
  "record_triage_failed d = [FetchAdd CtrTriageFailed 1, add_duration CtrTriageRunUs d, update_max CtrTriageRunMaxUs d]"

definition record_triage_promoted :: "instr list" where
  "record_triage_promoted = [FetchAdd CtrTriagePromoted 1]"

definition record_triage_dropped :: "instr list" where
  "record_triage_dropped = [FetchAdd CtrTriageDropped 1]"

definition record_capture_skipped :: "instr list" where
  "record_capture_skipped = [FetchAdd CtrCaptureSkipped 1]"

definition record_staging_cache_snapshot :: "nat \<Rightarrow> 64 word \<Rightarrow> instr list" where
  "record_staging_cache_snapshot n bytes = [StoreWord CtrStagingCacheEntries (of_nat (min n u64_max)), StoreWord CtrStagingCacheBytes bytes]"

definition record_staging_cache_pruned :: "nat \<Rightarrow> instr list" where
  "record_staging_cache_pruned n = [FetchAdd CtrStagingCachePruned (of_nat (min n u64_max))]"

definition record_staging_cache_promoted :: "instr list" where
  "record_staging_cache_promoted = [FetchAdd CtrStagingCachePromoted 1]"

definition record_staging_cache_discarded :: "instr list" where
  "record_staging_cache_discarded = [FetchAdd CtrStagingCacheDiscarded 1]"

definition record_capture_started :: "duration \<Rightarrow> instr list" where
  "record_capture_started d = [FetchAdd CtrCaptureStarted 1, add_duration CtrCaptureQueueWaitUs d]"

definition record_capture_completed :: "duration \<Rightarrow> instr list" where
  "record_capture_completed d = [FetchAdd CtrCaptureCompleted 1, add_duration CtrCaptureRunUs d, update_max CtrCaptureRunMaxUs d]"

definition record_capture_failed :: "duration \<Rightarrow> instr list" where
  "record_capture_failed d = [FetchAdd CtrCaptureFailed 1, add_duration CtrCaptureRunUs d, update_max CtrCaptureRunMaxUs d]"

definition record_content_scan :: "duration \<Rightarrow> instr list" where
  "record_content_scan d = [FetchAdd CtrContentScanCompleted 1, add_duration CtrContentScanUs d, update_max CtrContentScanMaxUs d]"

definition record_diff_enqueued :: "instr list" where
  "record_diff_enqueued = [FetchAdd CtrDiffEnqueued 1]"

definition record_diff_skipped :: "instr list" where
  "record_diff_skipped = [FetchAdd CtrDiffSkipped 1]"

definition record_diff_started :: "duration \<Rightarrow> instr list" where
  "record_diff_started d = [FetchAdd CtrDiffStarted 1, add_duration CtrDiffQueueWaitUs d]"

definition record_diff_completed :: "duration \<Rightarrow> instr list" where
  "record_diff_completed d = [FetchAdd CtrDiffCompleted 1, add_duration CtrDiffRunUs d, update_max CtrDiffRunMaxUs d]"

definition record_diff_failed :: "duration \<Rightarrow> instr list" where
  "record_diff_failed d = [FetchAdd CtrDiffFailed 1, add_duration CtrDiffRunUs d, update_max CtrDiffRunMaxUs d]"

text \<open>A call of one of the methods.\<close>

datatype perf_call =
    CallObservedEvent | CallLedgerAppend duration | CallStoreEventWrite duration | CallSinkPublish duration
    | CallPriority priority_snapshot | CallCaptureEnqueued | CallTriageEnqueued | CallTriageStarted duration
    | CallTriageCompleted duration | CallTriageFailed duration | CallTriagePromoted | CallTriageDropped
    | CallCaptureSkipped | CallStagingCacheSnapshot nat "64 word" | CallStagingCachePruned nat
    | CallStagingCachePromoted | CallStagingCacheDiscarded | CallCaptureStarted duration
    | CallCaptureCompleted duration | CallCaptureFailed duration | CallContentScan duration | CallDiffEnqueued
    | CallDiffSkipped | CallDiffStarted duration | CallDiffCompleted duration | CallDiffFailed duration

fun perf_ops :: "perf_call \<Rightarrow> instr list" where
  "perf_ops CallObservedEvent = record_observed_event"
| "perf_ops (CallLedgerAppend d) = record_ledger_append d"
| "perf_ops (CallStoreEventWrite d) = record_store_event_write d"
| "perf_ops (CallSinkPublish d) = record_sink_publish d"
| "perf_ops (CallPriority s) = record_priority s"
| "perf_ops CallCaptureEnqueued = record_capture_enqueued"
| "perf_ops CallTriageEnqueued = record_triage_enqueued"
| "perf_ops (CallTriageStarted d) = record_triage_started d"
| "perf_ops (CallTriageCompleted d) = record_triage_completed d"
| "perf_ops (CallTriageFailed d) = record_triage_failed d"
| "perf_ops CallTriagePromoted = record_triage_promoted"
| "perf_ops CallTriageDropped = record_triage_dropped"
| "perf_ops CallCaptureSkipped = record_capture_skipped"
| "perf_ops (CallStagingCacheSnapshot n bytes) = record_staging_cache_snapshot n bytes"
| "perf_ops (CallStagingCachePruned n) = record_staging_cache_pruned n"
| "perf_ops CallStagingCachePromoted = record_staging_cache_promoted"
| "perf_ops CallStagingCacheDiscarded = record_staging_cache_discarded"
| "perf_ops (CallCaptureStarted d) = record_capture_started d"
| "perf_ops (CallCaptureCompleted d) = record_capture_completed d"
| "perf_ops (CallCaptureFailed d) = record_capture_failed d"
| "perf_ops (CallContentScan d) = record_content_scan d"
| "perf_ops CallDiffEnqueued = record_diff_enqueued"
| "perf_ops CallDiffSkipped = record_diff_skipped"
| "perf_ops (CallDiffStarted d) = record_diff_started d"
| "perf_ops (CallDiffCompleted d) = record_diff_completed d"
| "perf_ops (CallDiffFailed d) = record_diff_failed d"

lemmas record_defs =
  record_observed_event_def record_ledger_append_def record_store_event_write_def record_sink_publish_def
  record_priority_def record_capture_enqueued_def record_triage_enqueued_def record_triage_started_def
  record_triage_completed_def record_triage_failed_def record_triage_promoted_def record_triage_dropped_def
  record_capture_skipped_def record_staging_cache_snapshot_def record_staging_cache_pruned_def
  record_staging_cache_promoted_def record_staging_cache_discarded_def record_capture_started_def
  record_capture_completed_def record_capture_failed_def record_content_scan_def record_diff_enqueued_def
  record_diff_skipped_def record_diff_started_def record_diff_completed_def record_diff_failed_def add_duration_def
  update_max_def

section \<open>The snapshot\<close>

definition f64_epsilon :: f64 where "f64_epsilon = 0x3CB0000000000000"

definition micros_to_ms :: "64 word \<Rightarrow> f64" where
  "micros_to_ms w = f64_div (f64_of_u64 (unat w)) (f64_of_u64 1000)"

definition average_ms :: "64 word \<Rightarrow> 64 word \<Rightarrow> f64" where
  "average_ms total_micros n = (if n = 0 then f64_zero else f64_div (micros_to_ms total_micros) (f64_of_u64 (unat n)))"

definition rate_per_sec :: "64 word \<Rightarrow> duration \<Rightarrow> f64" where
  "rate_per_sec n elapsed = (let seconds = as_secs_f64 elapsed in
     if f64_le seconds f64_epsilon then f64_zero else f64_div (f64_of_u64 (unat n)) seconds)"

definition word_saturating_sub :: "64 word \<Rightarrow> 64 word \<Rightarrow> 64 word" where
  "word_saturating_sub a b = (if a \<le> b then 0 else a - b)"

definition word_saturating_add :: "64 word \<Rightarrow> 64 word \<Rightarrow> 64 word" where
  "word_saturating_add a b = of_nat (min (unat a + unat b) u64_max)"

record runtime_snapshot =
  rs_elapsed :: duration
  rs_observed_events :: "64 word"
  rs_observed_per_sec :: f64
  rs_ledger_append_avg_ms :: f64
  rs_store_event_write_avg_ms :: f64
  rs_sink_publish_avg_ms :: f64
  rs_priority_high :: "64 word"
  rs_priority_medium :: "64 word"
  rs_priority_low :: "64 word"
  rs_priority_unknown :: "64 word"
  rs_triage_enqueued :: "64 word"
  rs_triage_started :: "64 word"
  rs_triage_completed :: "64 word"
  rs_triage_failed :: "64 word"
  rs_triage_dropped :: "64 word"
  rs_triage_promoted :: "64 word"
  rs_triage_queue_backlog :: "64 word"
  rs_triage_in_flight :: "64 word"
  rs_triage_queue_avg_ms :: f64
  rs_triage_run_avg_ms :: f64
  rs_triage_run_max_ms :: f64
  rs_staging_cache_entries :: "64 word"
  rs_staging_cache_bytes :: "64 word"
  rs_staging_cache_pruned :: "64 word"
  rs_staging_cache_promoted :: "64 word"
  rs_staging_cache_discarded :: "64 word"
  rs_capture_enqueued :: "64 word"
  rs_capture_skipped :: "64 word"
  rs_capture_started :: "64 word"
  rs_capture_completed :: "64 word"
  rs_capture_failed :: "64 word"
  rs_capture_queue_backlog :: "64 word"
  rs_capture_in_flight :: "64 word"
  rs_capture_queue_avg_ms :: f64
  rs_capture_run_avg_ms :: f64
  rs_capture_run_max_ms :: f64
  rs_content_scan_completed :: "64 word"
  rs_content_scan_avg_ms :: f64
  rs_content_scan_max_ms :: f64
  rs_diff_enqueued :: "64 word"
  rs_diff_skipped :: "64 word"
  rs_diff_started :: "64 word"
  rs_diff_completed :: "64 word"
  rs_diff_failed :: "64 word"
  rs_diff_queue_backlog :: "64 word"
  rs_diff_in_flight :: "64 word"
  rs_diff_queue_avg_ms :: f64
  rs_diff_run_avg_ms :: f64
  rs_diff_run_max_ms :: f64

text \<open>\<open>v\<close> is what the loads returned, each location read once except the content-scan count, which is
  read a second time for the average.\<close>

definition stats_snapshot :: "duration \<Rightarrow> counters \<Rightarrow> 64 word \<Rightarrow> runtime_snapshot" where
  "stats_snapshot elapsed v content_scans_again = \<lparr>
     rs_elapsed = elapsed,
     rs_observed_events = v CtrObservedEvents,
     rs_observed_per_sec = rate_per_sec (v CtrObservedEvents) elapsed,
     rs_ledger_append_avg_ms = average_ms (v CtrLedgerAppendUs) (v CtrLedgerAppends),
     rs_store_event_write_avg_ms = average_ms (v CtrStoreEventWriteUs) (v CtrStoreEventWrites),
     rs_sink_publish_avg_ms = average_ms (v CtrSinkPublishUs) (v CtrSinkPublishes),
     rs_priority_high = v CtrPriorityHigh,
     rs_priority_medium = v CtrPriorityMedium,
     rs_priority_low = v CtrPriorityLow,
     rs_priority_unknown = v CtrPriorityUnknown,
     rs_triage_enqueued = v CtrTriageEnqueued,
     rs_triage_started = v CtrTriageStarted,
     rs_triage_completed = v CtrTriageCompleted,
     rs_triage_failed = v CtrTriageFailed,
     rs_triage_dropped = v CtrTriageDropped,
     rs_triage_promoted = v CtrTriagePromoted,
     rs_triage_queue_backlog = word_saturating_sub (v CtrTriageEnqueued) (v CtrTriageStarted),
     rs_triage_in_flight = word_saturating_sub (v CtrTriageStarted) (word_saturating_add (v CtrTriageCompleted) (v CtrTriageFailed)),
     rs_triage_queue_avg_ms = average_ms (v CtrTriageQueueWaitUs) (v CtrTriageStarted),
     rs_triage_run_avg_ms = average_ms (v CtrTriageRunUs) (word_saturating_add (v CtrTriageCompleted) (v CtrTriageFailed)),
     rs_triage_run_max_ms = micros_to_ms (v CtrTriageRunMaxUs),
     rs_staging_cache_entries = v CtrStagingCacheEntries,
     rs_staging_cache_bytes = v CtrStagingCacheBytes,
     rs_staging_cache_pruned = v CtrStagingCachePruned,
     rs_staging_cache_promoted = v CtrStagingCachePromoted,
     rs_staging_cache_discarded = v CtrStagingCacheDiscarded,
     rs_capture_enqueued = v CtrCaptureEnqueued,
     rs_capture_skipped = v CtrCaptureSkipped,
     rs_capture_started = v CtrCaptureStarted,
     rs_capture_completed = v CtrCaptureCompleted,
     rs_capture_failed = v CtrCaptureFailed,
     rs_capture_queue_backlog = word_saturating_sub (v CtrCaptureEnqueued) (v CtrCaptureStarted),
     rs_capture_in_flight = word_saturating_sub (v CtrCaptureStarted) (word_saturating_add (v CtrCaptureCompleted) (v CtrCaptureFailed)),
     rs_capture_queue_avg_ms = average_ms (v CtrCaptureQueueWaitUs) (v CtrCaptureStarted),
     rs_capture_run_avg_ms = average_ms (v CtrCaptureRunUs) (word_saturating_add (v CtrCaptureCompleted) (v CtrCaptureFailed)),
     rs_capture_run_max_ms = micros_to_ms (v CtrCaptureRunMaxUs),
     rs_content_scan_completed = v CtrContentScanCompleted,
     rs_content_scan_avg_ms = average_ms (v CtrContentScanUs) content_scans_again,
     rs_content_scan_max_ms = micros_to_ms (v CtrContentScanMaxUs),
     rs_diff_enqueued = v CtrDiffEnqueued,
     rs_diff_skipped = v CtrDiffSkipped,
     rs_diff_started = v CtrDiffStarted,
     rs_diff_completed = v CtrDiffCompleted,
     rs_diff_failed = v CtrDiffFailed,
     rs_diff_queue_backlog = word_saturating_sub (v CtrDiffEnqueued) (v CtrDiffStarted),
     rs_diff_in_flight = word_saturating_sub (v CtrDiffStarted) (word_saturating_add (v CtrDiffCompleted) (v CtrDiffFailed)),
     rs_diff_queue_avg_ms = average_ms (v CtrDiffQueueWaitUs) (v CtrDiffStarted),
     rs_diff_run_avg_ms = average_ms (v CtrDiffRunUs) (word_saturating_add (v CtrDiffCompleted) (v CtrDiffFailed)),
     rs_diff_run_max_ms = micros_to_ms (v CtrDiffRunMaxUs)\<rparr>"


text \<open>\<open>run_periodic_reporter\<close> logs a snapshot after every interval, or never.\<close>

definition reporter_interval :: "duration option \<Rightarrow> duration option" where
  "reporter_interval interval = (case interval of Some d \<Rightarrow> if d \<noteq> 0 then Some d else None | None \<Rightarrow> None)"

section \<open>Threads\<close>

text \<open>Any thread with an instruction left performs it; a compare-exchange that is to be retried stays in front.\<close>

inductive perf_step :: "counters \<times> instr list list \<Rightarrow> counters \<times> instr list list \<Rightarrow> bool" where
  perf_instr: "exec_instr m op = (m', again)
    \<Longrightarrow> perf_step (m, xs @ (op # ops) # ys) (m', xs @ ((case again of Some op' \<Rightarrow> op' # ops | None \<Rightarrow> ops)) # ys)"

definition perf_threads :: "perf_call list list \<Rightarrow> instr list list" where
  "perf_threads calls = map (\<lambda>cs. concat (map perf_ops cs)) calls"

definition max_counters :: "counter set" where
  "max_counters = {CtrTriageRunMaxUs, CtrCaptureRunMaxUs, CtrContentScanMaxUs, CtrDiffRunMaxUs}"

definition gauge_counters :: "counter set" where
  "gauge_counters = {CtrStagingCacheEntries, CtrStagingCacheBytes}"

text \<open>The instructions still to be performed keep to the kind of their location; a pending compare-exchange
  would raise the value it was read at.\<close>

fun instr_kind_ok :: "instr \<Rightarrow> bool" where
  "instr_kind_ok (FetchAdd c w) \<longleftrightarrow> c \<notin> max_counters \<and> c \<notin> gauge_counters"
| "instr_kind_ok (StoreWord c w) \<longleftrightarrow> c \<in> gauge_counters"
| "instr_kind_ok (UpdateMax c w) \<longleftrightarrow> c \<in> max_counters"
| "instr_kind_ok (MaxCas c w current) \<longleftrightarrow> c \<in> max_counters \<and> current < w"

lemma perf_ops_kind_ok: "list_all instr_kind_ok (perf_ops call)"
  by (cases call) (simp_all add: record_defs max_counters_def gauge_counters_def split: priority_bucket.splits)

text \<open>What the instructions left will add to a location, and the values they will raise it to.\<close>

fun instr_adds :: "counter \<Rightarrow> instr \<Rightarrow> 64 word" where
  "instr_adds c (FetchAdd c' w) = (if c' = c then w else 0)"
| "instr_adds c _ = 0"

fun instr_peaks :: "counter \<Rightarrow> instr \<Rightarrow> 64 word list" where
  "instr_peaks c (UpdateMax c' w) = (if c' = c then [w] else [])"
| "instr_peaks c (MaxCas c' w current) = (if c' = c then [w] else [])"
| "instr_peaks c _ = []"

definition adds_of :: "counter \<Rightarrow> instr list \<Rightarrow> 64 word" where
  "adds_of c ops = sum_list (map (instr_adds c) ops)"

definition peaks_of :: "counter \<Rightarrow> instr list \<Rightarrow> 64 word list" where
  "peaks_of c ops = concat (map (instr_peaks c) ops)"

lemma adds_of_simps [simp]:
  "adds_of c [] = 0" "adds_of c (op # ops) = instr_adds c op + adds_of c ops"
  "adds_of c (ops @ ops') = adds_of c ops + adds_of c ops'"
  by (simp_all add: adds_of_def)

lemma peaks_of_simps [simp]:
  "peaks_of c [] = []" "peaks_of c (op # ops) = instr_peaks c op @ peaks_of c ops"
  "peaks_of c (ops @ ops') = peaks_of c ops @ peaks_of c ops'"
  by (simp_all add: peaks_of_def)

definition perf_inv :: "counter \<Rightarrow> 64 word \<Rightarrow> counters \<times> instr list list \<Rightarrow> bool" where
  "perf_inv c v = (\<lambda>(m, ts). list_all instr_kind_ok (concat ts) \<and>
     (if c \<in> max_counters then Max (insert (m c) (set (peaks_of c (concat ts)))) = v
      else c \<notin> gauge_counters \<longrightarrow> m c + adds_of c (concat ts) = v))"

lemma Max_insert_le:
  assumes "finite A" "finite B" "b \<le> a"
  shows "Max (insert a (A \<union> insert b B)) = Max (insert a (A \<union> B :: 'a::linorder set))"
proof (cases "A \<union> B = {}")
  case False
  then have "Max (insert b (insert a (A \<union> B))) = Max (insert a (A \<union> B))"
    using assms by (simp add: max.coboundedI1 max_absorb2)
  then show ?thesis
    by (simp add: insert_commute)
qed (use assms in \<open>auto simp: max_def\<close>)

lemma Max_insert_ge:
  assumes "finite A" "finite B" "a \<le> b"
  shows "Max (insert b (A \<union> B)) = Max (insert a (A \<union> insert b B :: 'a::linorder set))"
  using Max_insert_le [OF assms] Max_insert_le [of "{}" "A \<union> B" a b] assms
  by (simp add: insert_commute)

lemma gauge_not_max: "c \<in> gauge_counters \<Longrightarrow> c \<notin> max_counters"
  by (auto simp: max_counters_def gauge_counters_def)

lemma perf_step_inv: "perf_step s s' \<Longrightarrow> perf_inv c v s \<Longrightarrow> perf_inv c v s'"
proof (induction rule: perf_step.induct)
  case (perf_instr m op m' again xs ops ys)
  then have kinds: "list_all instr_kind_ok (concat xs)" "instr_kind_ok op" "list_all instr_kind_ok ops"
      "list_all instr_kind_ok (concat ys)"
    by (auto simp: perf_inv_def)
  show ?case
  proof (cases op)
    case (FetchAdd c' w)
    with perf_instr show ?thesis
      by (auto simp: perf_inv_def ac_simps)
  next
    case (StoreWord c' w)
    with perf_instr show ?thesis
      by (auto simp: perf_inv_def dest: gauge_not_max)
  next
    case (UpdateMax c' w)
    with perf_instr kinds show ?thesis
      by (cases "c' = c"; cases "m c' < w") (auto simp: perf_inv_def Max_insert_le Max_insert_ge simp del: Max_insert Un_insert_right)
  next
    case (MaxCas c' w current)
    with perf_instr kinds show ?thesis
      by (cases "c' = c"; cases "m c' = current"; cases "m c' < w") (auto simp: perf_inv_def Max_insert_le Max_insert_ge simp del: Max_insert Un_insert_right)
  qed
qed


lemma perf_run_inv: "perf_step\<^sup>*\<^sup>* s s' \<Longrightarrow> perf_inv c v s \<Longrightarrow> perf_inv c v s'"
  by (induction rule: rtranclp_induct) (auto intro: perf_step_inv)

lemma concat_perf_threads: "concat (perf_threads calls) = concat (map perf_ops (concat calls))"
  by (induction calls) (simp_all add: perf_threads_def)

lemma calls_kind_ok: "list_all instr_kind_ok (concat (map perf_ops cs))"
  by (induction cs) (simp_all add: perf_ops_kind_ok)

section \<open>No schedule runs forever\<close>

text \<open>A retry only turns a stale compare-exchange into a fresh one; every other step uses an instruction up.\<close>

fun instr_weight :: "instr \<Rightarrow> nat" where
  "instr_weight (UpdateMax c w) = 2"
| "instr_weight _ = 1"

fun instr_stale :: "counters \<Rightarrow> instr \<Rightarrow> nat" where
  "instr_stale m (MaxCas c w current) = (if m c = current then 0 else 1)"
| "instr_stale m _ = 0"

definition perf_weight :: "counters \<times> instr list list \<Rightarrow> nat \<times> nat" where
  "perf_weight = (\<lambda>(m, ts). (sum_list (map instr_weight (concat ts)), sum_list (map (instr_stale m) (concat ts))))"

lemma perf_step_decreases: "perf_step s s' \<Longrightarrow> (perf_weight s', perf_weight s) \<in> less_than <*lex*> less_than"
proof (induction rule: perf_step.induct)
  case (perf_instr m op m' again xs ops ys)
  then show ?case
    by (cases op) (auto simp: perf_weight_def split: if_splits)
qed

text \<open>C20: Whatever calls the threads make and however their atomic instructions are scheduled, retried
  compare-exchanges included, no schedule runs forever.\<close>

theorem perf_schedules_terminate: "wfP (\<lambda>s' s. perf_step s s')"
proof -
  have "{(s', s). perf_step s s'} \<subseteq> inv_image (less_than <*lex*> less_than) perf_weight"
    using perf_step_decreases by auto
  then show ?thesis
    unfolding wfp_def by (rule wf_subset [rotated]) auto
qed

text \<open>Recording loses nothing under concurrency: when every thread has finished, each counter holds its
  start value plus every increment and duration recorded for it (modulo \<open>2 ^ 64\<close>), and each maximum is the
  largest of its start value and the recorded durations.  (The two staging-cache gauges are overwritten.)\<close>

lemma perf_recording_exact:
  assumes "perf_step\<^sup>*\<^sup>* (m, perf_threads calls) (m', ts)" and "concat ts = []" and "c \<notin> gauge_counters"
  shows "m' c = (let ops = concat (map perf_ops (concat calls)) in
           if c \<in> max_counters then Max (insert (m c) (set (peaks_of c ops))) else m c + adds_of c ops)"
proof -
  define ops where "ops = concat (map perf_ops (concat calls))"
  define v where "v = (if c \<in> max_counters then Max (insert (m c) (set (peaks_of c ops))) else m c + adds_of c ops)"
  have "perf_inv c v (m, perf_threads calls)"
    using calls_kind_ok [of "concat calls"] by (simp add: perf_inv_def concat_perf_threads v_def ops_def)
  then have "perf_inv c v (m', ts)"
    by (rule perf_run_inv [OF assms(1)])
  then have "m' c = v"
    using assms(2,3) by (simp add: perf_inv_def del: concat_eq_Nil_conv split: if_splits)
  then show ?thesis
    by (simp add: v_def ops_def Let_def)
qed

end
