(* ===== verification/F64_Show.thy ===== *)
theory F64_Show
  imports F64_Arith Rust_Str
begin

text \<open>
  Rust's \<open>Display\<close> of an \<open>f64\<close>: the shortest decimal digits inside the value's rounding interval, the nearest
  of them, without an exponent.  A finite value is \<open>m * 2 ^ e\<close>; its interval reaches half way to its
  neighbours (a quarter below a power of two) and is closed when the mantissa is even.
\<close>

text \<open>\<open>m * 2 ^ e\<close> as a fraction.\<close>

definition dec_num :: "nat \<Rightarrow> int \<Rightarrow> nat" where "dec_num m e = m * 2 ^ nat e"

definition dec_den :: "int \<Rightarrow> nat" where "dec_den e = 2 ^ nat (- e)"

text \<open>The zeros between the decimal point and the first digit of a positive fraction below one.\<close>

function leading_zeros :: "nat \<Rightarrow> nat \<Rightarrow> nat" where
  "leading_zeros n d = (if 0 < n \<and> n * 10 < d then Suc (leading_zeros (n * 10) d) else 0)"
  by pat_completeness auto
termination
  by (relation "measure (\<lambda>(n, d). d - n)") auto

declare leading_zeros.simps [simp del]

definition decimal_point :: "nat \<Rightarrow> int \<Rightarrow> int" where
  "decimal_point m e = (let n = dec_num m e; d = dec_den e in
     if d \<le> n then int (length (show_nat (n div d))) else - int (leading_zeros n d))"

text \<open>\<open>4 * digits * 10 ^ j\<close> lies between \<open>lo * 2 ^ e\<close> and \<open>hi * 2 ^ e\<close>.\<close>

definition in_interval :: "nat \<Rightarrow> int \<Rightarrow> int \<Rightarrow> nat \<Rightarrow> bool" where
  "in_interval m e j digits =
     (let v = 4 * digits * 10 ^ nat j * dec_den e; unit = 2 ^ nat e * 10 ^ nat (- j);
          lo = (4 * m - (if m = 2 ^ 52 \<and> - 1074 < e then 1 else 2)) * unit; hi = (4 * m + 2) * unit
      in if even m then lo \<le> v \<and> v \<le> hi else lo < v \<and> v < hi)"

text \<open>With \<open>k\<close> digits: the truncated ones or one more in the last place, the nearer when both will do.\<close>

definition digits_at :: "nat \<Rightarrow> int \<Rightarrow> nat \<Rightarrow> (nat \<times> int) option" where
  "digits_at m e k =
     (let j = decimal_point m e - int k; n = dec_num m e * 10 ^ nat (- j); d = dec_den e * 10 ^ nat j;
          q = n div d; down = in_interval m e j q; up = in_interval m e j (q + 1)
      in if up \<and> (\<not> down \<or> d \<le> 2 * (n mod d)) then Some (q + 1, j) else if down then Some (q, j) else None)"

text \<open>Seventeen digits always suffice.\<close>

fun shortest_digits :: "nat \<Rightarrow> int \<Rightarrow> nat \<Rightarrow> nat \<Rightarrow> nat \<times> int" where
  "shortest_digits m e k 0 = (0, 0)"
| "shortest_digits m e k (Suc fuel) = (case digits_at m e k of Some r \<Rightarrow> r | None \<Rightarrow> shortest_digits m e (k + 1) fuel)"

definition strip_zeros :: "string \<Rightarrow> string" where
  "strip_zeros s = rev (dropWhile (\<lambda>c. c = CHR ''0'') (rev s))"

definition show_decimal :: "nat \<times> int \<Rightarrow> string" where
  "show_decimal = (\<lambda>(d, j).
     if 0 \<le> j then show_nat d @ replicate (nat j) (CHR ''0'')
     else let p = 10 ^ nat (- j); f = show_nat (d mod p);
              frac = strip_zeros (replicate (nat (- j) - length f) (CHR ''0'') @ f)
          in show_nat (d div p) @ (if frac = [] then [] else CHR ''.'' # frac))"

definition show_f64 :: "f64 \<Rightarrow> string" where
  "show_f64 x =
     (if f64_is_nan x then ''NaN''
      else (if f64_negative x then ''-'' else '''') @
        (if f64_is_infinite x then ''inf''
         else if f64_is_zero x then ''0''
         else show_decimal (shortest_digits (f64_mantissa x) (f64_exponent x) 1 17)))"

section \<open>Integers are printed exactly\<close>

lemma digit_char_0 [simp]: "digit_char 0 = CHR ''0''"
  by code_simp

lemma bit_length_bounds:
  "0 < n \<Longrightarrow> 0 < bit_length n \<and> 2 ^ (bit_length n - 1) \<le> n \<and> n < 2 ^ bit_length n"
proof (induction n rule: bit_length.induct)
  case (1 n)
  show ?case
  proof (cases "n div 2 = 0")
    case True
    then have "n = 1" using 1 by auto
    then show ?thesis by (simp add: bit_length_numeral)
  next
    case False
    then have ih: "0 < bit_length (n div 2)" "2 ^ (bit_length (n div 2) - 1) \<le> n div 2" "n div 2 < 2 ^ bit_length (n div 2)"
      using 1 by auto
    have "bit_length n = Suc (bit_length (n div 2))"
      using 1 by (subst bit_length.simps) simp
    moreover obtain b where "bit_length (n div 2) = Suc b"
      using ih by (cases "bit_length (n div 2)") auto
    ultimately show ?thesis
      using ih by auto
  qed
qed

lemma bit_length_le: "n < 2 ^ k \<Longrightarrow> bit_length n \<le> k"
proof (cases "n = 0")
  case False
  assume "n < 2 ^ k"
  with False have "(2::nat) ^ (bit_length n - 1) < 2 ^ k"
    using bit_length_bounds [of n] by linarith
  then show ?thesis
    using power_less_imp_less_exp [of "2::nat" "bit_length n - 1" k] by simp
qed (simp add: bit_length_numeral)

lemma div_mod_of_sum: "r < (p::nat) \<Longrightarrow> (a * p + r) div p = a \<and> (a * p + r) mod p = r"
  by simp

lemma f64_of_small:
  assumes "0 < n" "n < 2 ^ 53"
  defines "l \<equiv> bit_length n"
  shows "f64_mantissa (f64_of_u64 n) = n * 2 ^ (53 - l)" "f64_exponent (f64_of_u64 n) = int l - 53"
    "\<not> f64_is_nan (f64_of_u64 n)" "\<not> f64_is_infinite (f64_of_u64 n)" "\<not> f64_negative (f64_of_u64 n)"
    "\<not> f64_is_zero (f64_of_u64 n)" "l \<le> 53"
proof -
  have l: "l \<le> 53" "0 < l" "2 ^ (l - 1) \<le> n" "n < 2 ^ l"
    using bit_length_bounds [OF assms(1)] bit_length_le [OF assms(2)] by (auto simp: l_def)
  define m where "m = n * 2 ^ (53 - l)"
  have "(2::nat) ^ (l - 1) * 2 ^ (53 - l) = 2 ^ 52" "(2::nat) ^ l * 2 ^ (53 - l) = 2 ^ 53"
    using l by (simp_all add: power_add [symmetric])
  then have m: "2 ^ 52 \<le> m" "m < 2 ^ 53"
    using l mult_le_mono1 [OF l(3), of "2 ^ (53 - l)"] mult_less_mono1 [OF l(4), of "2 ^ (53 - l)"]
    by (simp_all add: m_def)
  define b where "b = (l + 1022) * 2 ^ 52 + (m - 2 ^ 52)"
  have small: "m - 2 ^ 52 < 2 ^ 52"
    using m by simp
  have bd: "b div 2 ^ 52 = l + 1022" "b mod 2 ^ 52 = m - 2 ^ 52"
    unfolding b_def using div_mod_of_sum [of "m - 2 ^ 52" "2 ^ 52" "l + 1022"] small by blast+
  have b: "b < f64_infinity_bits" "2 ^ 52 \<le> b" "b < 2 ^ 63"
    using m l by (simp_all add: b_def f64_infinity_bits_def)
  have eq: "f64_of_u64 n = f64_pack False b"
    using assms(1) l(1) by (simp add: f64_of_u64_def f64_pack_def Let_def b_def m_def l_def)
  have mag: "f64_magnitude (f64_of_u64 n) = b"
    using b by (simp add: eq f64_magnitude_pack)
  show "f64_mantissa (f64_of_u64 n) = n * 2 ^ (53 - l)"
    using b m bd by (simp add: f64_mantissa_def mag flip: m_def)
  show "f64_exponent (f64_of_u64 n) = int l - 53"
    unfolding f64_exponent_def mag bd by simp
  show "\<not> f64_is_nan (f64_of_u64 n)" "\<not> f64_is_infinite (f64_of_u64 n)" "\<not> f64_is_zero (f64_of_u64 n)"
    using b by (simp_all add: f64_is_nan_def f64_is_infinite_def f64_is_zero_def mag)
  show "\<not> f64_negative (f64_of_u64 n)"
    using b by (simp add: eq f64_negative_pack)
  show "l \<le> 53" by (rule l)
qed

lemma in_interval_integer:
  assumes "0 < n" "l \<le> 53"
  shows "in_interval (n * 2 ^ (53 - l)) (int l - 53) (int j) q \<longleftrightarrow> q * 10 ^ j = n"
proof -
  define d :: nat where "d = 2 ^ (53 - l)"
  have d: "0 < d" by (simp add: d_def)
  have den: "dec_den (int l - 53) = d" "nat (int l - 53) = 0"
    using assms(2) by (simp_all add: dec_den_def d_def nat_diff_distrib)
  have "4 * (n * d) - 2 \<le> 4 * q * 10 ^ j * d \<and> 4 * q * 10 ^ j * d \<le> 4 * (n * d) + 2 \<Longrightarrow> q * 10 ^ j = n"
  proof (rule ccontr)
    assume h: "4 * (n * d) - 2 \<le> 4 * q * 10 ^ j * d \<and> 4 * q * 10 ^ j * d \<le> 4 * (n * d) + 2"
    have e: "4 * q * 10 ^ j * d = 4 * ((q * 10 ^ j) * d)" by simp
    assume "q * 10 ^ j \<noteq> n"
    then consider "q * 10 ^ j + 1 \<le> n" | "n + 1 \<le> q * 10 ^ j" by linarith
    then show False
    proof cases
      case 1
      then have "(q * 10 ^ j) * d + d \<le> n * d"
        using mult_le_mono1 [OF 1, of d] by (simp add: algebra_simps)
      with h d show ?thesis unfolding e by linarith
    next
      case 2
      then have "n * d + d \<le> (q * 10 ^ j) * d"
        using mult_le_mono1 [OF 2, of d] by (simp add: algebra_simps)
      with h d show ?thesis unfolding e by linarith
    qed
  qed
  moreover obtain c where c: "c = 1 \<or> c = (2::nat)"
    and eq: "in_interval (n * d) (int l - 53) (int j) q \<longleftrightarrow>
      (if even (n * d) then 4 * (n * d) - c \<le> 4 * q * 10 ^ j * d \<and> 4 * q * 10 ^ j * d \<le> 4 * (n * d) + 2
       else 4 * (n * d) - c < 4 * q * 10 ^ j * d \<and> 4 * q * 10 ^ j * d < 4 * (n * d) + 2)"
    by (rule that [of "if n * d = 2 ^ 52 \<and> - 1074 < int l - 53 then 1 else 2"])
      (simp_all only: in_interval_def Let_def den nat_int power_0 mult_1 mult_1_right nat_zminus_int, simp)
  ultimately have iff: "in_interval (n * d) (int l - 53) (int j) q \<longrightarrow> q * 10 ^ j = n"
    by (auto split: if_splits)
  have "in_interval (n * d) (int l - 53) (int j) q" if "q * 10 ^ j = n"
  proof -
    have v: "4 * q * 10 ^ j * d = 4 * (n * d)" and pos: "0 < n * d"
      using that assms(1) d by auto
    have bounds: "4 * (n * d) - c < 4 * (n * d)" "4 * (n * d) < 4 * (n * d) + 2"
      using c pos by auto
    show ?thesis
      unfolding eq v by (simp only: if_cancel bounds less_imp_le [OF bounds(1)] less_imp_le [OF bounds(2)] simp_thms)
  qed
  with iff show ?thesis
    unfolding d_def by blast
qed

lemma length_show_nat_le: "n < 10 ^ k \<Longrightarrow> 0 < k \<Longrightarrow> length (show_nat n) \<le> k"
proof (induction k arbitrary: n)
  case (Suc k)
  show ?case
  proof (cases "n < 10")
    case False
    then have "0 < k" "n div 10 < 10 ^ k"
      using Suc.prems by (cases k, auto simp: div_less_iff_less_mult mult.commute)
    with Suc.IH [of "n div 10"] False show ?thesis
      by (subst show_nat.simps) simp
  qed (subst show_nat.simps, simp)
qed simp

lemma show_nat_shift: "0 < d \<Longrightarrow> show_nat (d * 10 ^ j) = show_nat d @ replicate j (CHR ''0'')"
proof (induction j)
  case (Suc j)
  have "show_nat (d * 10 ^ Suc j) = show_nat (d * 10 ^ j) @ [digit_char 0]"
    using Suc.prems by (subst show_nat.simps) simp
  then show ?case
    using Suc by (simp add: replicate_append_same)
qed simp

lemma shortest_digits_integer:
  assumes n: "0 < n" "l \<le> 53" and K: "length (show_nat n) = k + i" "i < fuel"
  shows "\<exists>d j. shortest_digits (n * 2 ^ (53 - l)) (int l - 53) k fuel = (d, int j) \<and> d * 10 ^ j = n"
  using K
proof (induction fuel arbitrary: k i)
  case (Suc fuel)
  let ?m = "n * 2 ^ (53 - l)" and ?e = "int l - 53"
  have den: "dec_num ?m ?e = ?m" "dec_den ?e = 2 ^ (53 - l)"
    using n by (simp_all add: dec_num_def dec_den_def nat_diff_distrib)
  have point: "decimal_point ?m ?e = int k + int i"
    using n Suc.prems by (simp add: decimal_point_def den Let_def)
  have j: "decimal_point ?m ?e - int k = int i"
    by (simp add: point)
  show ?case
  proof (cases "digits_at ?m ?e k")
    case None
    have "i \<noteq> 0"
    proof
      assume "i = 0"
      then have "digits_at ?m ?e k = Some (n, 0)"
        using n in_interval_integer [OF n, of 0] by (simp add: digits_at_def j den Let_def)
      with None show False by simp
    qed
    then obtain i' where "i = Suc i'" by (cases i) auto
    with None Suc show ?thesis
      using Suc.IH [of "k + 1" i'] by simp
  next
    case (Some r)
    then obtain d where "r = (d, int i)" "in_interval ?m ?e (int i) d"
      by (auto simp: digits_at_def j Let_def split: if_splits)
    with Some show ?thesis
      using in_interval_integer [OF n] by auto
  qed
qed simp

text \<open>\<open>Display\<close> of an integer counter converted to \<open>f64\<close> is the integer itself, for every value an
  \<open>f64\<close> holds exactly.\<close>

theorem show_f64_integer:
  assumes "n < 2 ^ 53"
  shows "show_f64 (f64_of_u64 n) = show_nat n"
proof (cases "n = 0")
  case True
  then show ?thesis
    by (subst show_nat.simps) (simp add: show_f64_def f64_of_u64_def f64_is_nan_def f64_magnitude_def f64_negative_def
      f64_is_infinite_def f64_is_zero_def f64_infinity_bits_def)
next
  case False
  define l where "l = bit_length n"
  have n: "0 < n" using False by simp
  note facts = f64_of_small [OF n assms, folded l_def]
  have "length (show_nat n) \<le> 16"
    using assms by (intro length_show_nat_le) simp_all
  moreover have "0 < length (show_nat n)" by simp
  ultimately obtain i where i: "length (show_nat n) = 1 + i" "i < 17"
    by (cases "length (show_nat n)") auto
  obtain d j where dj: "shortest_digits (n * 2 ^ (53 - l)) (int l - 53) 1 17 = (d, int j)" "d * 10 ^ j = n"
    using shortest_digits_integer [OF n facts(7) i] by blast
  have "0 < d" using n dj(2) by (cases d) auto
  then show ?thesis
    using facts dj show_nat_shift [of d j] by (simp add: show_f64_def show_decimal_def)
qed

lemma show_f64_integer_witness: "show_f64 (f64_of_u64 1500) = ''1500''"
proof -
  have "show_nat 1500 = ''1500''" by code_simp
  then show ?thesis using show_f64_integer [of 1500] by simp
qed

end
