(* ===== verification/Health.thy ===== *)
theory Health
  imports Perf F64_Show Json
begin

text \<open>
  The health endpoint (\<open>health.rs\<close>): the shared \<open>HealthState\<close> the source tasks and workers record their exits
  in, the readiness it gives, and \<open>handle_connection\<close>, from the bytes one read of the socket returned to the
  bytes of the response.  The JSON text of a response body (\<open>serde_json::to_vec\<close>) is an argument.
\<close>

section \<open>Health state\<close>

record health_snapshot =
  hs_configured_sources :: "64 word"
  hs_stopped_sources :: "64 word"
  hs_failed_sources :: "64 word"
  hs_triage_worker_failed :: bool
  hs_capture_worker_failed :: bool
  hs_diff_worker_failed :: bool
  hs_shutting_down :: bool

definition health_new :: "nat \<Rightarrow> health_snapshot" where
  "health_new configured = \<lparr>hs_configured_sources = of_nat configured, hs_stopped_sources = 0, hs_failed_sources = 0,
     hs_triage_worker_failed = False, hs_capture_worker_failed = False, hs_diff_worker_failed = False,
     hs_shutting_down = False\<rparr>"

definition record_source_exit :: "bool \<Rightarrow> health_snapshot \<Rightarrow> health_snapshot" where
  "record_source_exit success h =
     (let h = h\<lparr>hs_stopped_sources := hs_stopped_sources h + 1\<rparr>
      in if \<not> success then h\<lparr>hs_failed_sources := hs_failed_sources h + 1\<rparr> else h)"

definition record_capture_worker_exit :: "bool \<Rightarrow> health_snapshot \<Rightarrow> health_snapshot" where
  "record_capture_worker_exit success h = (if \<not> success then h\<lparr>hs_capture_worker_failed := True\<rparr> else h)"

definition record_triage_worker_exit :: "bool \<Rightarrow> health_snapshot \<Rightarrow> health_snapshot" where
  "record_triage_worker_exit success h = (if \<not> success then h\<lparr>hs_triage_worker_failed := True\<rparr> else h)"

definition record_diff_worker_exit :: "bool \<Rightarrow> health_snapshot \<Rightarrow> health_snapshot" where
  "record_diff_worker_exit success h = (if \<not> success then h\<lparr>hs_diff_worker_failed := True\<rparr> else h)"

definition mark_shutting_down :: "health_snapshot \<Rightarrow> health_snapshot" where
  "mark_shutting_down h = h\<lparr>hs_shutting_down := True\<rparr>"

text \<open>What the tasks of the service report, in the order the reports arrive.\<close>

datatype health_report = SourceExit bool | CaptureWorkerExit bool | TriageWorkerExit bool | DiffWorkerExit bool
  | ShuttingDown

fun record_report :: "health_report \<Rightarrow> health_snapshot \<Rightarrow> health_snapshot" where
  "record_report (SourceExit ok) = record_source_exit ok"
| "record_report (CaptureWorkerExit ok) = record_capture_worker_exit ok"
| "record_report (TriageWorkerExit ok) = record_triage_worker_exit ok"
| "record_report (DiffWorkerExit ok) = record_diff_worker_exit ok"
| "record_report ShuttingDown = mark_shutting_down"

definition health_ready :: "health_snapshot \<Rightarrow> bool" where
  "health_ready health \<longleftrightarrow> \<not> hs_shutting_down health
     \<and> hs_failed_sources health = 0
     \<and> \<not> hs_triage_worker_failed health
     \<and> \<not> hs_capture_worker_failed health
     \<and> \<not> hs_diff_worker_failed health"

section \<open>The request\<close>

text \<open>The second word of the first line of what the read returned, \<open>/\<close> when there is none.\<close>

definition request_path :: "string \<Rightarrow> string" where
  "request_path received =
     (case str_lines (from_utf8_lossy received) of
        line # _ \<Rightarrow> (case split_whitespace line of _ # path # _ \<Rightarrow> path | _ \<Rightarrow> ''/'')
      | [] \<Rightarrow> ''/'')"

section \<open>The bodies\<close>

definition json_u64 :: "64 word \<Rightarrow> json" where
  "json_u64 w = JNumber (PosInt (unat w))"

definition json_f64 :: "f64 \<Rightarrow> json" where
  "json_f64 x = (if f64_is_finite x then JNumber (JFloat x) else JNull)"

definition render_health_json :: "runtime_snapshot \<Rightarrow> health_snapshot \<Rightarrow> bool \<Rightarrow> json" where
  "render_health_json snapshot health ready = JObject
     [(''runtime'', JObject
        [(''capture_in_flight'', json_u64 (rs_capture_in_flight snapshot)),
         (''capture_queue_backlog'', json_u64 (rs_capture_queue_backlog snapshot)),
         (''diff_in_flight'', json_u64 (rs_diff_in_flight snapshot)),
         (''diff_queue_backlog'', json_u64 (rs_diff_queue_backlog snapshot)),
         (''elapsed_secs'', json_f64 (as_secs_f64 (rs_elapsed snapshot))),
         (''observed_events'', json_u64 (rs_observed_events snapshot)),
         (''observed_per_sec'', json_f64 (rs_observed_per_sec snapshot)),
         (''staging_cache_bytes'', json_u64 (rs_staging_cache_bytes snapshot)),
         (''staging_cache_entries'', json_u64 (rs_staging_cache_entries snapshot)),
         (''triage_in_flight'', json_u64 (rs_triage_in_flight snapshot)),
         (''triage_queue_backlog'', json_u64 (rs_triage_queue_backlog snapshot))]),
      (''sources'', JObject
        [(''configured'', json_u64 (hs_configured_sources health)),
         (''failed'', json_u64 (hs_failed_sources health)),
         (''stopped'', json_u64 (hs_stopped_sources health))]),
      (''status'', JString (if ready then ''ok'' else if hs_shutting_down health then ''shutting_down'' else ''degraded'')),
      (''workers'', JObject
        [(''capture_failed'', JBool (hs_capture_worker_failed health)),
         (''diff_failed'', JBool (hs_diff_worker_failed health)),
         (''triage_failed'', JBool (hs_triage_worker_failed health))])]"

definition render_ready_json :: "health_snapshot \<Rightarrow> bool \<Rightarrow> json" where
  "render_ready_json health ready = JObject
     [(''capture_worker_failed'', JBool (hs_capture_worker_failed health)),
      (''diff_worker_failed'', JBool (hs_diff_worker_failed health)),
      (''failed_sources'', json_u64 (hs_failed_sources health)),
      (''ready'', JBool ready),
      (''shutting_down'', JBool (hs_shutting_down health)),
      (''triage_worker_failed'', JBool (hs_triage_worker_failed health))]"

text \<open>The metrics: one family per \<open>push_metric_help\<close> call (name, help, type), with the samples pushed after it,
  in the order of the calls.\<close>

type_synonym metric_family = "string \<times> string \<times> string \<times> (string \<times> f64) list"

definition flag_f64 :: "bool \<Rightarrow> f64" where
  "flag_f64 b = f64_of_u64 (if b then 1 else 0)"

definition count_f64 :: "64 word \<Rightarrow> f64" where
  "count_f64 w = f64_of_u64 (unat w)"

definition metrics_health :: "health_snapshot \<Rightarrow> bool \<Rightarrow> metric_family list" where
  "metrics_health health ready = [
     (''supply_stream_ready'', ''Whether the service is currently ready to serve.'', ''gauge'',
       [(''supply_stream_ready'', flag_f64 ready)]),
     (''supply_stream_shutting_down'', ''Whether the service is shutting down.'', ''gauge'',
       [(''supply_stream_shutting_down'', flag_f64 (hs_shutting_down health))]),
     (''supply_stream_sources_configured'', ''Number of configured package sources.'', ''gauge'',
       [(''supply_stream_sources_configured'', count_f64 (hs_configured_sources health))]),
     (''supply_stream_sources_stopped_total'', ''Number of package sources that have stopped.'', ''counter'',
       [(''supply_stream_sources_stopped_total'', count_f64 (hs_stopped_sources health))]),
     (''supply_stream_sources_failed_total'', ''Number of package sources that have failed.'', ''counter'',
       [(''supply_stream_sources_failed_total'', count_f64 (hs_failed_sources health))]),
     (''supply_stream_triage_worker_failed'', ''Whether the triage worker has failed.'', ''gauge'',
       [(''supply_stream_triage_worker_failed'', flag_f64 (hs_triage_worker_failed health))]),
     (''supply_stream_capture_worker_failed'', ''Whether the capture worker has failed.'', ''gauge'',
       [(''supply_stream_capture_worker_failed'', flag_f64 (hs_capture_worker_failed health))]),
     (''supply_stream_diff_worker_failed'', ''Whether the diff worker has failed.'', ''gauge'',
       [(''supply_stream_diff_worker_failed'', flag_f64 (hs_diff_worker_failed health))])]"

definition metrics_runtime :: "runtime_snapshot \<Rightarrow> metric_family list" where
  "metrics_runtime snapshot = [
     (''supply_stream_runtime_elapsed_seconds'', ''Time elapsed since the service started.'', ''gauge'',
       [(''supply_stream_runtime_elapsed_seconds'', as_secs_f64 (rs_elapsed snapshot))]),
     (''supply_stream_observed_events_total'', ''Total number of observed package release events.'', ''counter'',
       [(''supply_stream_observed_events_total'', count_f64 (rs_observed_events snapshot))]),
     (''supply_stream_observed_events_per_second'', ''Current rate of observed events per second.'', ''gauge'',
       [(''supply_stream_observed_events_per_second'', rs_observed_per_sec snapshot)]),
     (''supply_stream_priority_events_total'', ''Total observed events by priority tier.'', ''counter'',
       [(''supply_stream_priority_events_total{bucket=\"high\"}'', count_f64 (rs_priority_high snapshot)),
        (''supply_stream_priority_events_total{bucket=\"medium\"}'', count_f64 (rs_priority_medium snapshot)),
        (''supply_stream_priority_events_total{bucket=\"low\"}'', count_f64 (rs_priority_low snapshot)),
        (''supply_stream_priority_events_total{bucket=\"unknown\"}'', count_f64 (rs_priority_unknown snapshot))])]"

definition metrics_triage :: "runtime_snapshot \<Rightarrow> metric_family list" where
  "metrics_triage snapshot = [
     (''supply_stream_triage_enqueued_total'', ''Total triage requests enqueued.'', ''counter'',
       [(''supply_stream_triage_enqueued_total'', count_f64 (rs_triage_enqueued snapshot))]),
     (''supply_stream_triage_started_total'', ''Total triage requests started.'', ''counter'',
       [(''supply_stream_triage_started_total'', count_f64 (rs_triage_started snapshot))]),
     (''supply_stream_triage_completed_total'', ''Total triage requests completed.'', ''counter'',
       [(''supply_stream_triage_completed_total'', count_f64 (rs_triage_completed snapshot))]),
     (''supply_stream_triage_failed_total'', ''Total triage requests that failed.'', ''counter'',
       [(''supply_stream_triage_failed_total'', count_f64 (rs_triage_failed snapshot))]),
     (''supply_stream_triage_dropped_total'', ''Total triage requests dropped without promotion.'', ''counter'',
       [(''supply_stream_triage_dropped_total'', count_f64 (rs_triage_dropped snapshot))]),
     (''supply_stream_triage_promoted_total'', ''Total triage requests promoted to capture.'', ''counter'',
       [(''supply_stream_triage_promoted_total'', count_f64 (rs_triage_promoted snapshot))]),
     (''supply_stream_triage_queue_backlog'', ''Current triage queue depth.'', ''gauge'',
       [(''supply_stream_triage_queue_backlog'', count_f64 (rs_triage_queue_backlog snapshot))]),
     (''supply_stream_triage_in_flight'', ''Number of triage requests currently in flight.'', ''gauge'',
       [(''supply_stream_triage_in_flight'', count_f64 (rs_triage_in_flight snapshot))]),
     (''supply_stream_triage_queue_avg_ms'', ''Average triage queue wait time in milliseconds.'', ''gauge'',
       [(''supply_stream_triage_queue_avg_ms'', rs_triage_queue_avg_ms snapshot)]),
     (''supply_stream_triage_run_avg_ms'', ''Average triage processing time in milliseconds.'', ''gauge'',
       [(''supply_stream_triage_run_avg_ms'', rs_triage_run_avg_ms snapshot)]),
     (''supply_stream_triage_run_max_ms'', ''Maximum triage processing time in milliseconds.'', ''gauge'',
       [(''supply_stream_triage_run_max_ms'', rs_triage_run_max_ms snapshot)])]"

definition metrics_staging :: "runtime_snapshot \<Rightarrow> metric_family list" where
  "metrics_staging snapshot = [
     (''supply_stream_staging_cache_entries'', ''Number of entries in the artifact staging cache.'', ''gauge'',
       [(''supply_stream_staging_cache_entries'', count_f64 (rs_staging_cache_entries snapshot))]),
     (''supply_stream_staging_cache_bytes'', ''Total bytes used by the artifact staging cache.'', ''gauge'',
       [(''supply_stream_staging_cache_bytes'', count_f64 (rs_staging_cache_bytes snapshot))]),
     (''supply_stream_staging_cache_pruned_total'', ''Total entries pruned from the staging cache.'', ''counter'',
       [(''supply_stream_staging_cache_pruned_total'', count_f64 (rs_staging_cache_pruned snapshot))]),
     (''supply_stream_staging_cache_promoted_total'', ''Total entries promoted from staging to permanent capture.'', ''counter'',
       [(''supply_stream_staging_cache_promoted_total'', count_f64 (rs_staging_cache_promoted snapshot))]),
     (''supply_stream_staging_cache_discarded_total'', ''Total entries discarded from the staging cache.'', ''counter'',
       [(''supply_stream_staging_cache_discarded_total'', count_f64 (rs_staging_cache_discarded snapshot))])]"

definition metrics_capture :: "runtime_snapshot \<Rightarrow> metric_family list" where
  "metrics_capture snapshot = [
     (''supply_stream_capture_enqueued_total'', ''Total capture requests enqueued.'', ''counter'',
       [(''supply_stream_capture_enqueued_total'', count_f64 (rs_capture_enqueued snapshot))]),
     (''supply_stream_capture_skipped_total'', ''Total capture requests skipped.'', ''counter'',
       [(''supply_stream_capture_skipped_total'', count_f64 (rs_capture_skipped snapshot))]),
     (''supply_stream_capture_started_total'', ''Total capture requests started.'', ''counter'',
       [(''supply_stream_capture_started_total'', count_f64 (rs_capture_started snapshot))]),
     (''supply_stream_capture_completed_total'', ''Total capture requests completed.'', ''counter'',
       [(''supply_stream_capture_completed_total'', count_f64 (rs_capture_completed snapshot))]),
     (''supply_stream_capture_failed_total'', ''Total capture requests that failed.'', ''counter'',
       [(''supply_stream_capture_failed_total'', count_f64 (rs_capture_failed snapshot))]),
     (''supply_stream_capture_queue_backlog'', ''Current capture queue depth.'', ''gauge'',
       [(''supply_stream_capture_queue_backlog'', count_f64 (rs_capture_queue_backlog snapshot))]),
     (''supply_stream_capture_in_flight'', ''Number of capture requests currently in flight.'', ''gauge'',
       [(''supply_stream_capture_in_flight'', count_f64 (rs_capture_in_flight snapshot))]),
     (''supply_stream_capture_queue_avg_ms'', ''Average capture queue wait time in milliseconds.'', ''gauge'',
       [(''supply_stream_capture_queue_avg_ms'', rs_capture_queue_avg_ms snapshot)]),
     (''supply_stream_capture_run_avg_ms'', ''Average capture processing time in milliseconds.'', ''gauge'',
       [(''supply_stream_capture_run_avg_ms'', rs_capture_run_avg_ms snapshot)]),
     (''supply_stream_capture_run_max_ms'', ''Maximum capture processing time in milliseconds.'', ''gauge'',
       [(''supply_stream_capture_run_max_ms'', rs_capture_run_max_ms snapshot)])]"

definition metrics_scan :: "runtime_snapshot \<Rightarrow> metric_family list" where
  "metrics_scan snapshot = [
     (''supply_stream_content_scan_completed_total'', ''Total content-risk scans completed.'', ''counter'',
       [(''supply_stream_content_scan_completed_total'', count_f64 (rs_content_scan_completed snapshot))]),
     (''supply_stream_content_scan_avg_ms'', ''Average content-risk scan time in milliseconds.'', ''gauge'',
       [(''supply_stream_content_scan_avg_ms'', rs_content_scan_avg_ms snapshot)]),
     (''supply_stream_content_scan_max_ms'', ''Maximum content-risk scan time in milliseconds.'', ''gauge'',
       [(''supply_stream_content_scan_max_ms'', rs_content_scan_max_ms snapshot)])]"

definition metrics_diff :: "runtime_snapshot \<Rightarrow> metric_family list" where
  "metrics_diff snapshot = [
     (''supply_stream_diff_enqueued_total'', ''Total diff requests enqueued.'', ''counter'',
       [(''supply_stream_diff_enqueued_total'', count_f64 (rs_diff_enqueued snapshot))]),
     (''supply_stream_diff_skipped_total'', ''Total diff requests skipped.'', ''counter'',
       [(''supply_stream_diff_skipped_total'', count_f64 (rs_diff_skipped snapshot))]),
     (''supply_stream_diff_started_total'', ''Total diff requests started.'', ''counter'',
       [(''supply_stream_diff_started_total'', count_f64 (rs_diff_started snapshot))]),
     (''supply_stream_diff_completed_total'', ''Total diff requests completed.'', ''counter'',
       [(''supply_stream_diff_completed_total'', count_f64 (rs_diff_completed snapshot))]),
     (''supply_stream_diff_failed_total'', ''Total diff requests that failed.'', ''counter'',
       [(''supply_stream_diff_failed_total'', count_f64 (rs_diff_failed snapshot))]),
     (''supply_stream_diff_queue_backlog'', ''Current diff queue depth.'', ''gauge'',
       [(''supply_stream_diff_queue_backlog'', count_f64 (rs_diff_queue_backlog snapshot))]),
     (''supply_stream_diff_in_flight'', ''Number of diff requests currently in flight.'', ''gauge'',
       [(''supply_stream_diff_in_flight'', count_f64 (rs_diff_in_flight snapshot))]),
     (''supply_stream_diff_queue_avg_ms'', ''Average diff queue wait time in milliseconds.'', ''gauge'',
       [(''supply_stream_diff_queue_avg_ms'', rs_diff_queue_avg_ms snapshot)]),
     (''supply_stream_diff_run_avg_ms'', ''Average diff processing time in milliseconds.'', ''gauge'',
       [(''supply_stream_diff_run_avg_ms'', rs_diff_run_avg_ms snapshot)]),
     (''supply_stream_diff_run_max_ms'', ''Maximum diff processing time in milliseconds.'', ''gauge'',
       [(''supply_stream_diff_run_max_ms'', rs_diff_run_max_ms snapshot)])]"

definition metric_families :: "runtime_snapshot \<Rightarrow> health_snapshot \<Rightarrow> bool \<Rightarrow> metric_family list" where
  "metric_families snapshot health ready =
     metrics_health health ready @ metrics_runtime snapshot @ metrics_triage snapshot @ metrics_staging snapshot
     @ metrics_capture snapshot @ metrics_scan snapshot @ metrics_diff snapshot"

definition push_metric_help :: "string \<Rightarrow> string \<Rightarrow> string \<Rightarrow> string" where
  "push_metric_help name help metric_type =
     out_line (''# HELP '' @ name @ '' '' @ help) @ out_line (''# TYPE '' @ name @ '' '' @ metric_type)"

definition push_metric_value :: "string \<times> f64 \<Rightarrow> string" where
  "push_metric_value = (\<lambda>(name, x). out_line (name @ '' '' @ show_f64 x))"

definition render_family :: "metric_family \<Rightarrow> string" where
  "render_family = (\<lambda>(name, help, metric_type, samples).
     push_metric_help name help metric_type @ concat (map push_metric_value samples))"

definition render_metrics :: "runtime_snapshot \<Rightarrow> health_snapshot \<Rightarrow> bool \<Rightarrow> string" where
  "render_metrics snapshot health ready = concat (map render_family (metric_families snapshot health ready))"

section \<open>The response\<close>

definition health_response :: "(json \<Rightarrow> string) \<Rightarrow> runtime_snapshot \<Rightarrow> health_snapshot \<Rightarrow> string \<Rightarrow> string \<times> string \<times> string" where
  "health_response to_vec snapshot health path =
     (let ready = health_ready health in
      if path = ''/health'' then
        (''200 OK'', ''application/json'', to_vec (render_health_json snapshot health ready))
      else if path = ''/ready'' then
        (if ready then ''200 OK'' else ''503 Service Unavailable'', ''application/json'',
         to_vec (render_ready_json health ready))
      else if path = ''/metrics'' then
        (''200 OK'', ''text/plain; version=0.0.4'', render_metrics snapshot health ready)
      else (''404 Not Found'', ''application/json'', to_vec (JObject [(''error'', JString ''not_found'')])))"

definition crlf :: string where "crlf = map char_of [13::nat, 10]"

definition handle_connection :: "(json \<Rightarrow> string) \<Rightarrow> runtime_snapshot \<Rightarrow> health_snapshot \<Rightarrow> string \<Rightarrow> string" where
  "handle_connection to_vec snapshot health received =
     (let (status_code, content_type, body) = health_response to_vec snapshot health (request_path received)
      in ''HTTP/1.1 '' @ status_code @ crlf @ ''content-type: '' @ content_type @ crlf
         @ ''content-length: '' @ show_nat (length body) @ crlf @ ''connection: close'' @ crlf @ crlf @ body)"

end
