(* ===== verification/Health_Props.thy ===== *)
theory Health_Props
  imports Health
begin

text \<open>
  What the health endpoint promises: readiness after any history of exit reports, the shape of the metrics
  text, and the counters the text shows after the threads of the service have recorded into them.
\<close>

section \<open>Readiness\<close>

fun report_fine :: "health_report \<Rightarrow> bool" where
  "report_fine (SourceExit ok) = ok"
| "report_fine (CaptureWorkerExit ok) = ok"
| "report_fine (TriageWorkerExit ok) = ok"
| "report_fine (DiffWorkerExit ok) = ok"
| "report_fine ShuttingDown = False"

lemmas report_defs = record_source_exit_def record_capture_worker_exit_def record_triage_worker_exit_def
  record_diff_worker_exit_def mark_shutting_down_def Let_def

lemma unat_plus_one: "unat (w :: 64 word) + 1 < 2 ^ 64 \<Longrightarrow> unat (w + 1) = unat w + 1"
  by (simp add: unat_word_ariths)

lemma record_report_failed:
  "unat (hs_failed_sources h) + 1 < 2 ^ 64
    \<Longrightarrow> unat (hs_failed_sources (record_report r h)) = unat (hs_failed_sources h) + (if r = SourceExit False then 1 else 0)"
  by (cases r) (auto simp: report_defs unat_plus_one)

lemma record_report_ready:
  "unat (hs_failed_sources h) + 1 < 2 ^ 64 \<Longrightarrow> health_ready (record_report r h) \<longleftrightarrow> health_ready h \<and> report_fine r"
  using record_report_failed [of h r] by (cases r) (auto simp: report_defs health_ready_def unat_eq_0 [symmetric])

lemma reports_ready:
  "unat (hs_failed_sources h) + length reports < 2 ^ 64
    \<Longrightarrow> health_ready (fold record_report reports h) \<longleftrightarrow> health_ready h \<and> list_all report_fine reports"
proof (induction reports arbitrary: h)
  case (Cons r reports)
  then have "unat (hs_failed_sources h) + 1 < 2 ^ 64"
    by simp
  then show ?case
    using Cons record_report_ready [of h r] record_report_failed [of h r] by auto
qed simp

text \<open>C19: \<open>/ready\<close> answers 200 exactly while no source and no worker has reported an error and no shutdown has
  begun, and 503 otherwise, whatever reports came in whatever order; sources that stopped without an error, all of
  them even, leave the service ready.  (The failure counter wraps at \<open>2 ^ 64\<close>.)\<close>

theorem ready_reports_failures:
  assumes "length reports < 2 ^ 64" and "request_path received = ''/ready''"
  shows "let response = handle_connection to_vec snapshot (fold record_report reports (health_new n)) received in
           (starts_with response ''HTTP/1.1 200 OK'' \<longleftrightarrow> list_all report_fine reports)
           \<and> (starts_with response ''HTTP/1.1 503 Service Unavailable'' \<longleftrightarrow> \<not> list_all report_fine reports)"
proof -
  have ready: "health_ready (fold record_report reports (health_new n)) \<longleftrightarrow> list_all report_fine reports"
    using reports_ready [of "health_new n" reports] assms(1) by (simp add: health_new_def health_ready_def)
  show ?thesis
    using assms(2) ready by (simp add: handle_connection_def health_response_def starts_with_def Let_def)
qed

lemma ready_reports_failures_witness:
  "\<forall>snapshot. starts_with (handle_connection (\<lambda>_. ''{}'') snapshot
      (fold record_report [SourceExit True, SourceExit True, DiffWorkerExit False] (health_new 2)) ''GET  /ready HTTP/1.1'')
    ''HTTP/1.1 503 Service Unavailable''"
proof -
  have "request_path ''GET  /ready HTTP/1.1'' = ''/ready''"
    by code_simp
  then show ?thesis
    using ready_reports_failures [of "[SourceExit True, SourceExit True, DiffWorkerExit False]"
      "''GET  /ready HTTP/1.1''" "\<lambda>_. ''{}''" _ 2] by (simp add: Let_def)
qed

section \<open>The metrics text\<close>

definition family_lines :: "metric_family \<Rightarrow> string list" where
  "family_lines = (\<lambda>(name, help, metric_type, samples).
     [''# HELP '' @ name @ '' '' @ help, ''# TYPE '' @ name @ '' '' @ metric_type]
     @ map (\<lambda>(sample, x). sample @ '' '' @ show_f64 x) samples)"

definition printable :: "string \<Rightarrow> bool" where
  "printable l \<longleftrightarrow> list_all (\<lambda>c. 32 \<le> byte c) l"

lemma printable_simps [simp]:
  "printable []" "printable (c # l) \<longleftrightarrow> 32 \<le> byte c \<and> printable l" "printable (l @ l') \<longleftrightarrow> printable l \<and> printable l'"
  by (simp_all add: printable_def)

lemma printable_plain: "printable l \<Longrightarrow> plain_line l"
  by (cases l rule: rev_cases) (auto simp: printable_def plain_line_def list_all_iff)

lemma printable_show_nat [simp]: "printable (show_nat n)"
  using show_nat_digits [of _ n] by (fastforce simp: printable_def list_all_iff is_digit_def)

lemma printable_replicate [simp]: "printable (replicate k (CHR ''0''))"
  by (auto simp: printable_def list_all_iff byte_def)

lemma printable_strip_zeros: "printable s \<Longrightarrow> printable (strip_zeros s)"
  by (auto simp: printable_def list_all_iff strip_zeros_def dest: set_dropWhileD)

lemma printable_show_f64 [simp]: "printable (show_f64 x)"
proof -
  have "printable (show_decimal r)" for r
    by (cases r) (simp add: show_decimal_def Let_def byte_def printable_strip_zeros)
  then show ?thesis
    by (simp add: show_f64_def byte_def)
qed

definition family_plain :: "metric_family \<Rightarrow> bool" where
  "family_plain = (\<lambda>(name, help, metric_type, samples). printable name \<and> printable help \<and> printable metric_type
     \<and> list_all (\<lambda>(sample, x). printable sample) samples)"

lemma render_family_lines: "render_family f = out_lines (family_lines f)"
proof -
  have "concat (map push_metric_value samples) = out_lines (map (\<lambda>(sample, x). sample @ '' '' @ show_f64 x) samples)"
    for samples by (induction samples) (auto simp: push_metric_value_def)
  then show ?thesis
    by (cases f) (simp add: render_family_def push_metric_help_def family_lines_def)
qed

lemma family_lines_plain: "family_plain f \<Longrightarrow> list_all plain_line (family_lines f)"
  by (cases f) (auto simp: family_plain_def family_lines_def list_all_iff byte_def intro!: printable_plain)

lemma render_families_lines:
  "list_all family_plain fs \<Longrightarrow> str_lines (concat (map render_family fs)) = concat (map family_lines fs)"
proof -
  assume h: "list_all family_plain fs"
  have "concat (map render_family fs) = out_lines (concat (map family_lines fs))"
    by (induction fs) (simp_all add: render_family_lines)
  moreover have "list_all plain_line (concat (map family_lines fs))"
    using h by (induction fs) (simp_all add: family_lines_plain)
  ultimately show ?thesis
    using str_lines_out [of "concat (map family_lines fs)" "[]"] by (simp add: str_lines_def)
qed

lemmas metric_group_defs = metrics_health_def metrics_runtime_def metrics_triage_def metrics_staging_def
  metrics_capture_def metrics_scan_def metrics_diff_def

lemma metric_families_plain: "list_all family_plain (metric_families snapshot health ready)"
  by (simp add: metric_families_def metric_group_defs family_plain_def byte_def)

lemma render_metrics_lines:
  "str_lines (render_metrics snapshot health ready) = concat (map family_lines (metric_families snapshot health ready))"
  unfolding render_metrics_def by (rule render_families_lines) (rule metric_families_plain)

text \<open>C22: The metrics text is a well-formed exposition for every snapshot: its lines are, family by family, one HELP
  line, one TYPE line and the samples; no family is declared twice; every sample is of the family declared
  before it; and exactly the counters are named \<open>_total\<close>.\<close>

theorem metrics_exposition:
  "let families = metric_families snapshot health ready in
     str_lines (render_metrics snapshot health ready) = concat (map family_lines families)
     \<and> distinct (map fst families)
     \<and> list_all (\<lambda>(name, help, metric_type, samples). samples \<noteq> []
         \<and> list_all (\<lambda>(sample, x). takeWhile (\<lambda>c. c \<noteq> CHR ''{'') sample = name) samples
         \<and> metric_type = (if ends_with name ''_total'' then ''counter'' else ''gauge'')) families"
proof -
  have "distinct (map fst (metric_families snapshot health ready))"
    by (simp add: metric_families_def metric_group_defs)
  moreover have "list_all (\<lambda>(name, help, metric_type, samples). samples \<noteq> []
         \<and> list_all (\<lambda>(sample, x). takeWhile (\<lambda>c. c \<noteq> CHR ''{'') sample = name) samples
         \<and> metric_type = (if ends_with name ''_total'' then ''counter'' else ''gauge''))
       (metric_families snapshot health ready)"
    by (simp add: metric_families_def metric_group_defs ends_with_def)
  ultimately show ?thesis
    by (simp add: render_metrics_lines Let_def)
qed

section \<open>From the recording threads to the metrics\<close>

lemma adds_of_observed:
  "adds_of CtrObservedEvents (concat (map perf_ops cs)) = of_nat (length (filter (\<lambda>c. c = CallObservedEvent) cs))"
proof (induction cs)
  case (Cons c cs)
  have "adds_of CtrObservedEvents (perf_ops c) = (if c = CallObservedEvent then 1 else 0)"
    by (cases c) (simp_all add: record_defs split: priority_bucket.splits)
  then show ?case
    using Cons by simp
qed simp

text \<open>C4: However the service's threads interleave their recording, once they are done the metrics show exactly the
  number of events they observed: no increment is lost, and the conversion to floating point and its decimal
  text are exact up to \<open>2 ^ 53\<close>.\<close>

theorem metrics_count_every_event:
  assumes "perf_step\<^sup>*\<^sup>* (stats_default, perf_threads calls) (m, ts)" and "concat ts = []"
    and "n = length (filter (\<lambda>c. c = CallObservedEvent) (concat calls))" and "n < 2 ^ 53"
  shows "(''supply_stream_observed_events_total '' @ show_nat n)
           \<in> set (str_lines (render_metrics (stats_snapshot elapsed m again) health ready))"
proof -
  have "m CtrObservedEvents = of_nat n"
    using perf_recording_exact [OF assms(1,2), of CtrObservedEvents]
    by (simp add: gauge_counters_def max_counters_def adds_of_observed stats_default_def assms(3))
  then have "count_f64 (rs_observed_events (stats_snapshot elapsed m again)) = f64_of_u64 n"
    using assms(4) by (simp add: stats_snapshot_def count_f64_def unat_of_nat)
  then have "''supply_stream_observed_events_total '' @ show_nat n
      \<in> set (concat (map family_lines (metrics_runtime (stats_snapshot elapsed m again))))"
    using show_f64_integer [OF assms(4)] by (simp add: metrics_runtime_def family_lines_def)
  then show ?thesis
    unfolding render_metrics_lines metric_families_def by simp
qed

lemma metrics_count_every_event_witness:
  "\<exists>m. ''supply_stream_observed_events_total 2'' \<in>
     set (str_lines (render_metrics (stats_snapshot 0 m 0) (health_new 1) True))"
proof -
  define m1 where "m1 = stats_default(CtrObservedEvents := stats_default CtrObservedEvents + 1)"
  define m2 where "m2 = m1(CtrObservedEvents := m1 CtrObservedEvents + 1)"
  have threads: "perf_threads [[CallObservedEvent], [CallObservedEvent]]
      = [[FetchAdd CtrObservedEvents 1]] @ [[FetchAdd CtrObservedEvents 1]]"
    by (simp add: perf_threads_def record_observed_event_def)
  have "perf_step (stats_default, perf_threads [[CallObservedEvent], [CallObservedEvent]]) (m1, [[FetchAdd CtrObservedEvents 1], []])"
    using perf_instr [of stats_default "FetchAdd CtrObservedEvents 1" m1 None "[[FetchAdd CtrObservedEvents 1]]" "[]" "[]"]
    by (simp add: m1_def threads)
  moreover have "perf_step (m1, [[FetchAdd CtrObservedEvents 1], []]) (m2, [[], []])"
    using perf_instr [of m1 "FetchAdd CtrObservedEvents 1" m2 None "[]" "[]" "[[]]"] by (simp add: m2_def)
  ultimately have run: "perf_step\<^sup>*\<^sup>* (stats_default, perf_threads [[CallObservedEvent], [CallObservedEvent]]) (m2, [[], []])"
    by (meson converse_rtranclp_into_rtranclp rtranclp.rtrancl_refl)
  have "show_nat 2 = ''2''"
    by code_simp
  then show ?thesis
    using metrics_count_every_event [OF run, of 2 0 0 "health_new 1" True] by auto
qed

end
