(* ===== verification/Publication.thy ===== *)
theory Publication
  imports Diff_Worker Priority_Resolver
begin

text \<open>
  What the capture worker and the diff worker publish: the repository, priority and assessment signals of
  \<open>event.rs\<close>, the release evidence bundle (\<open>bundle.rs\<close>) and the emitting functions of \<open>capture.rs\<close> and \<open>autodiff.rs\<close>.  The diff
  reaches an assessment on two ways: directly, and through the JSON value of the stored diff that a bundle
  carries.  The derived serialisation of a stored diff is written out as far as the bundle reads it; the parts it
  does not read are printed by functions of the environment.
\<close>

section \<open>The diff of an assessment\<close>

definition manifest_names :: "string list" where
  "manifest_names = [''package.json'', ''Cargo.toml'', ''pyproject.toml'', ''setup.py'', ''setup.cfg'']"

definition is_package_manifest_only :: "string list \<Rightarrow> string list \<Rightarrow> string list \<Rightarrow> bool" where
  "is_package_manifest_only files_added files_removed files_changed =
     (if files_added \<noteq> [] \<or> files_removed \<noteq> [] \<or> files_changed = [] then False
      else list_all (\<lambda>p. list_ex (\<lambda>n. p = n \<or> ends_with p (CHR ''/'' # n)) manifest_names) files_changed)"

definition diff_input_of :: "stored_diff \<Rightarrow> diff_input" where
  "diff_input_of d =
     (case st_diff d of
        Some r \<Rightarrow> (let c = rd_content r; hook = cd_npm_install_hook c in
          \<lparr>di_status = stored_diff_status_as_str (st_status d), di_baseline_version = st_baseline_version d,
           di_available = cd_available c, di_patches_included = cd_patches_included c,
           di_files_added_count = cd_files_added_count c, di_files_removed_count = cd_files_removed_count c,
           di_files_changed_count = cd_files_changed_count c,
           di_package_manifest_only = is_package_manifest_only (cd_files_added c) (cd_files_removed c) (cd_files_changed c),
           di_target_has_install_scripts = map_option ih_target_has_install_scripts hook,
           di_install_scripts_longstanding = map_option ih_longstanding_unchanged hook,
           di_install_hook_changed = map_option ih_effective_changed hook\<rparr>)
      | None \<Rightarrow>
          \<lparr>di_status = stored_diff_status_as_str (st_status d), di_baseline_version = st_baseline_version d,
           di_available = False, di_patches_included = False, di_files_added_count = 0, di_files_removed_count = 0,
           di_files_changed_count = 0, di_package_manifest_only = False, di_target_has_install_scripts = None,
           di_install_scripts_longstanding = None, di_install_hook_changed = None\<rparr>)"

section \<open>The JSON value of a stored diff\<close>

record diff_printers =
  dp_time :: "datetime \<Rightarrow> json"
  dp_status :: "status_diff \<Rightarrow> json"
  dp_artifacts :: "artifact_diff \<Rightarrow> json"
  dp_details :: "details_diff \<Rightarrow> json"
  dp_artifact :: "artifact_ref \<Rightarrow> json"
  dp_file :: "file_record \<Rightarrow> json"
  dp_file_change :: "file_record_change \<Rightarrow> json"
  dp_patch :: "file_patch \<Rightarrow> json"
  dp_commit :: "crate_repository_commit_diff \<Rightarrow> json"

text \<open>\<open>skip_serializing_if\<close> for an option, a list and a map; a number.\<close>

definition opt_entry :: "string \<Rightarrow> ('a \<Rightarrow> json) \<Rightarrow> 'a option \<Rightarrow> (string \<times> json) list" where
  "opt_entry k f v = (case v of Some x \<Rightarrow> [(k, f x)] | None \<Rightarrow> [])"

definition list_entry :: "string \<Rightarrow> ('a \<Rightarrow> json) \<Rightarrow> 'a list \<Rightarrow> (string \<times> json) list" where
  "list_entry k f xs = (if xs = [] then [] else [(k, JArray (map f xs))])"

definition map_entry :: "string \<Rightarrow> (string \<times> string) list \<Rightarrow> (string \<times> json) list" where
  "map_entry k m = (if m = [] then [] else [(k, JObject (map (\<lambda>(a, b). (a, JString b)) m))])"

definition json_nat :: "nat \<Rightarrow> json" where
  "json_nat n = JNumber (PosInt n)"

definition npm_hook_value :: "npm_install_hook_diff \<Rightarrow> json" where
  "npm_hook_value h = JObject
     ([(''baseline_has_install_scripts'', JBool (ih_baseline_has_install_scripts h))]
      @ map_entry ''baseline_scripts'' (ih_baseline_scripts h)
      @ [(''effective_changed'', JBool (ih_effective_changed h)),
         (''hook_files_changed'', JBool (ih_hook_files_changed h)),
         (''longstanding_unchanged'', JBool (ih_longstanding_unchanged h))]
      @ list_entry ''referenced_files'' JString (ih_referenced_files h)
      @ list_entry ''referenced_files_changed'' JString (ih_referenced_files_changed h)
      @ [(''scripts_changed'', JBool (ih_scripts_changed h)),
         (''target_has_install_scripts'', JBool (ih_target_has_install_scripts h))]
      @ map_entry ''target_scripts'' (ih_target_scripts h))"

definition content_diff_value :: "diff_printers \<Rightarrow> content_diff \<Rightarrow> json" where
  "content_diff_value pr c = JObject
     (opt_entry ''artifact_kind'' JString (cd_artifact_kind c)
      @ [(''available'', JBool (cd_available c))]
      @ opt_entry ''baseline_artifact'' (dp_artifact pr) (cd_baseline_artifact c)
      @ opt_entry ''crate_repository_commit'' (dp_commit pr) (cd_crate_repository_commit c)
      @ list_entry ''file_patches'' (dp_patch pr) (cd_file_patches c)
      @ list_entry ''files_added'' JString (cd_files_added c)
      @ [(''files_added_count'', json_nat (cd_files_added_count c))]
      @ list_entry ''files_added_detail'' (dp_file pr) (cd_files_added_detail c)
      @ list_entry ''files_changed'' JString (cd_files_changed c)
      @ [(''files_changed_count'', json_nat (cd_files_changed_count c))]
      @ list_entry ''files_changed_detail'' (dp_file_change pr) (cd_files_changed_detail c)
      @ list_entry ''files_removed'' JString (cd_files_removed c)
      @ [(''files_removed_count'', json_nat (cd_files_removed_count c))]
      @ list_entry ''files_removed_detail'' (dp_file pr) (cd_files_removed_detail c)
      @ opt_entry ''npm_install_hook'' npm_hook_value (cd_npm_install_hook c)
      @ opt_entry ''patch_context'' json_nat (cd_patch_context c)
      @ [(''patches_included'', JBool (cd_patches_included c))]
      @ opt_entry ''reason'' JString (cd_reason c)
      @ opt_entry ''target_artifact'' (dp_artifact pr) (cd_target_artifact c))"

definition release_diff_value :: "diff_printers \<Rightarrow> release_diff \<Rightarrow> json" where
  "release_diff_value pr r = JObject
     ([(''artifacts'', dp_artifacts pr (rd_artifacts r)),
       (''baseline_event_id'', JString (rd_baseline_event_id r)),
       (''baseline_version'', JString (rd_baseline_version r)),
       (''content'', content_diff_value pr (rd_content r)),
       (''details'', dp_details pr (rd_details r)),
       (''ecosystem'', JString (ecosystem_as_str (rd_ecosystem r))),
       (''generated_at'', dp_time pr (rd_generated_at r))]
      @ list_entry ''notes'' JString (rd_notes r)
      @ [(''package'', JString (rd_package r)),
         (''status'', dp_status pr (rd_status r)),
         (''target_event_id'', JString (rd_target_event_id r)),
         (''target_version'', JString (rd_target_version r))])"

definition stored_diff_value :: "diff_printers \<Rightarrow> stored_diff \<Rightarrow> json" where
  "stored_diff_value pr d = JObject
     (opt_entry ''baseline_event_id'' JString (st_baseline_event_id d)
      @ opt_entry ''baseline_version'' JString (st_baseline_version d)
      @ opt_entry ''diff'' (release_diff_value pr) (st_diff d)
      @ [(''ecosystem'', JString (ecosystem_as_str (st_ecosystem d))),
         (''event_id'', JString (st_event_id d)),
         (''generated_at'', dp_time pr (st_generated_at d)),
         (''package'', JString (st_package d))]
      @ opt_entry ''reason'' JString (st_reason d)
      @ [(''status'', JString (stored_diff_status_as_str (st_status d))),
         (''version'', JString (st_version d))])"

text \<open>What a bundle reads back from such a value.\<close>

definition get_in :: "json option \<Rightarrow> string \<Rightarrow> json option" where
  "get_in v k = Option.bind v (\<lambda>j. json_get j k)"

definition get_bool_or :: "bool \<Rightarrow> json option \<Rightarrow> bool" where
  "get_bool_or b v = (case Option.bind v as_bool of Some x \<Rightarrow> x | None \<Rightarrow> b)"

definition get_usize :: "json option \<Rightarrow> nat" where
  "get_usize v = (case Option.bind v as_u64 of Some n \<Rightarrow> n | None \<Rightarrow> 0)"

definition diff_assessment_input_from_value :: "json \<Rightarrow> diff_input option" where
  "diff_assessment_input_from_value v =
     (case Option.bind (json_get v ''status'') as_str of
        None \<Rightarrow> None
      | Some status \<Rightarrow>
          if status \<noteq> ''ready'' \<and> status \<noteq> ''no_baseline'' then None
          else let content = get_in (json_get v ''diff'') ''content''; hook = get_in content ''npm_install_hook'' in
            Some \<lparr>di_status = status,
              di_baseline_version = Option.bind (json_get v ''baseline_version'') as_str,
              di_available = get_bool_or False (get_in content ''available''),
              di_patches_included = get_bool_or False (get_in content ''patches_included''),
              di_files_added_count = get_usize (get_in content ''files_added_count''),
              di_files_removed_count = get_usize (get_in content ''files_removed_count''),
              di_files_changed_count = get_usize (get_in content ''files_changed_count''),
              di_package_manifest_only = is_package_manifest_only (array_strings (get_in content ''files_added''))
                (array_strings (get_in content ''files_removed'')) (array_strings (get_in content ''files_changed'')),
              di_target_has_install_scripts = Option.bind (get_in hook ''target_has_install_scripts'') as_bool,
              di_install_scripts_longstanding = Option.bind (get_in hook ''longstanding_unchanged'') as_bool,
              di_install_hook_changed = Option.bind (get_in hook ''effective_changed'') as_bool\<rparr>)"

section \<open>Signals\<close>

record assessment_signal =
  sg_event_id :: string
  sg_ecosystem :: ecosystem
  sg_package :: string
  sg_version :: string
  sg_suspicious :: bool
  sg_severity :: severity
  sg_verdict_class :: verdict_class
  sg_priority_tier :: priority_tier
  sg_graph :: emitted_graph_evidence
  sg_factors :: "string list"
  sg_behavior_tags :: "string list"
  sg_matched_rules :: "string list"
  sg_matched_evidence :: "rule_evidence list"
  sg_reason :: string
  sg_repository :: "repository_provenance option"
  sg_diff :: "diff_evidence option"

text \<open>The kinds and signal types are constants of the three signals and are left out.\<close>

definition assessment_signal_of ::
  "release_event \<Rightarrow> repository_provenance option \<Rightarrow> release_assessment \<Rightarrow> assessment_signal" where
  "assessment_signal_of e repository a =
     \<lparr>sg_event_id = ev_event_id e, sg_ecosystem = ev_ecosystem e, sg_package = ev_package e, sg_version = ev_version e,
      sg_suspicious = as_suspicious a, sg_severity = as_severity a, sg_verdict_class = as_verdict_class a,
      sg_priority_tier = ps_tier (event_priority_snapshot e), sg_graph = as_graph a, sg_factors = as_factors a,
      sg_behavior_tags = as_behavior_tags a, sg_matched_rules = as_matched_rules a,
      sg_matched_evidence = as_matched_evidence a, sg_reason = as_reason a, sg_repository = repository,
      sg_diff = as_diff a\<rparr>"

record repository_signal =
  rg_event_id :: string
  rg_ecosystem :: ecosystem
  rg_package :: string
  rg_version :: string
  rg_suspicious :: bool
  rg_severity :: severity
  rg_factors :: "string list"
  rg_reason :: string
  rg_repository :: repository_provenance

definition repo_release_parity ::
  "release_event \<Rightarrow> repository_provenance \<Rightarrow> severity \<Rightarrow> string list \<Rightarrow> repository_signal" where
  "repo_release_parity e repository sev factors =
     \<lparr>rg_event_id = ev_event_id e, rg_ecosystem = ev_ecosystem e, rg_package = ev_package e, rg_version = ev_version e,
      rg_suspicious = rp_suspicious repository, rg_severity = sev, rg_factors = factors, rg_reason = rp_reason repository,
      rg_repository = repository\<rparr>"

record priority_signal =
  pg_event_id :: string
  pg_ecosystem :: ecosystem
  pg_package :: string
  pg_version :: string
  pg_previous_priority :: "priority_snapshot option"
  pg_current_priority :: priority_snapshot
  pg_graph :: emitted_graph_evidence
  pg_reason :: string

definition local_graph_promotion ::
  "release_event \<Rightarrow> priority_snapshot option \<Rightarrow> priority_snapshot \<Rightarrow> emitted_graph_evidence \<Rightarrow> priority_signal" where
  "local_graph_promotion e previous current graph =
     \<lparr>pg_event_id = ev_event_id e, pg_ecosystem = ev_ecosystem e, pg_package = ev_package e, pg_version = ev_version e,
      pg_previous_priority = previous, pg_current_priority = current, pg_graph = graph,
      pg_reason = ''capture-derived graph knowledge promoted package priority from ''
        @ (case previous of Some p \<Rightarrow> source_as_str (ps_source p) | None \<Rightarrow> ''none'')
        @ '' to '' @ source_as_str (ps_source current)\<rparr>"

section \<open>The evidence bundle\<close>

record evidence_bundle =
  eb_generated_at :: datetime
  eb_event :: emitted_event
  eb_package_repository :: "package_repository_identity option"
  eb_capture :: "captured_release option"
  eb_diff :: "json option"
  eb_release_assessment :: "assessment_signal option"

datatype bundle_io = BundleReadCapture | BundleReadDiff | BundleGraph | BundleRepository | BundleEvents
  | BundleCreateDir | BundleWrite

record bundle_env =
  be_io :: "bundle_io \<Rightarrow> bool"
  be_now :: datetime
  be_codecs :: codecs
  be_show_time :: "datetime \<Rightarrow> string"
  be_dir_of :: "release_event \<Rightarrow> string"
  be_printers :: diff_printers

text \<open>\<open>read_json_if_exists\<close>: a missing file is no value, any other failure an error.\<close>

definition read_capture_json :: "bundle_env \<Rightarrow> string \<Rightarrow> 'p world \<Rightarrow> string + captured_release option" where
  "read_capture_json env dir w =
     (if \<not> be_io env BundleReadCapture then Inl ''failed to read capture.json''
      else case map_of (wo_files w) (path_join dir ''capture.json'') of
        None \<Rightarrow> Inr None | Some (CaptureJson cap) \<Rightarrow> Inr (Some cap) | _ \<Rightarrow> Inl ''failed to parse capture.json'')"

definition read_diff_json :: "bundle_env \<Rightarrow> string \<Rightarrow> 'p world \<Rightarrow> string + json option" where
  "read_diff_json env dir w =
     (if \<not> be_io env BundleReadDiff then Inl ''failed to read diff.json''
      else case map_of (wo_files w) (path_join dir ''diff.json'') of
        None \<Rightarrow> Inr None | Some (DiffJson d) \<Rightarrow> Inr (Some (stored_diff_value (be_printers env) d))
      | _ \<Rightarrow> Inl ''failed to parse diff.json'')"

definition bundle_graph ::
  "graph_evidence option \<Rightarrow> package_repository_identity option \<Rightarrow> nat \<Rightarrow> emitted_graph_evidence" where
  "bundle_graph graph package_repository seen =
     \<lparr>gr_known_in_local_graph = (case graph of Some g \<Rightarrow> ge_known g | None \<Rightarrow> False), gr_known_in_census = False,
      gr_observed_count = seen,
      gr_direct_dependencies_seen = (case graph of Some g \<Rightarrow> ge_direct_dependencies_seen g | None \<Rightarrow> 0),
      gr_reverse_dependents_seen = (case graph of Some g \<Rightarrow> ge_reverse_dependents_seen g | None \<Rightarrow> 0),
      gr_repository = (case package_repository of Some r \<Rightarrow> Some r | None \<Rightarrow> Option.bind graph ge_repository)\<rparr>"

definition bundle_assessment ::
  "bundle_env \<Rightarrow> release_event \<Rightarrow> graph_evidence option \<Rightarrow> json option \<Rightarrow> captured_release \<Rightarrow> assessment_signal" where
  "bundle_assessment env e graph diff cap =
     assessment_signal_of e (ca_upstream_repository cap)
       (assess_release (be_codecs env) e graph cap (ca_upstream_repository cap)
         (Option.bind diff diff_assessment_input_from_value))"

definition build_release_bundle ::
  "bundle_env \<Rightarrow> release_event \<Rightarrow> captured_release option \<Rightarrow> json option \<Rightarrow> 'p world \<Rightarrow> string + evidence_bundle" where
  "build_release_bundle env e capture diff w =
     (let dir = be_dir_of env e in
      case (case capture of Some cap \<Rightarrow> Inr (Some cap) | None \<Rightarrow> read_capture_json env dir w) of
        Inl err \<Rightarrow> Inl err
      | Inr capture \<Rightarrow>
      case (case diff of Some d \<Rightarrow> Inr (Some d) | None \<Rightarrow> read_diff_json env dir w) of
        Inl err \<Rightarrow> Inl err
      | Inr diff \<Rightarrow>
      if \<not> be_io env BundleGraph then Inl ''graph query failed''
      else let graph = load_graph_evidence (be_show_time env) (ev_ecosystem e) (ev_package e) (wo_store w) in
      if \<not> be_io env BundleRepository then Inl ''repository query failed''
      else let package_repository = load_package_repository_identity (ev_ecosystem e)
             (normalize_package_name (ev_ecosystem e) (ev_package e)) (be_show_time env) (wo_store w) in
      case (if be_io env BundleEvents then load_package_events (ev_ecosystem e) (ev_package e) (wo_store w) else None) of
        None \<Rightarrow> Inl ''event query failed''
      | Some events \<Rightarrow> Inr
          \<lparr>eb_generated_at = be_now env,
           eb_event = emitted_view e (bundle_graph graph package_repository (length events)),
           eb_package_repository = package_repository, eb_capture = capture, eb_diff = diff,
           eb_release_assessment = map_option (bundle_assessment env e graph diff) capture\<rparr>)"

text \<open>The bundle is built first; then the directory and the file are written, by path.\<close>

definition write_release_bundle ::
  "bundle_env \<Rightarrow> release_event \<Rightarrow> captured_release option \<Rightarrow> json option \<Rightarrow> 'p world
   \<Rightarrow> string + (string \<times> evidence_bundle)" where
  "write_release_bundle env e capture diff w = (case build_release_bundle env e capture diff w of
     Inl err \<Rightarrow> Inl err
   | Inr bundle \<Rightarrow>
       if \<not> be_io env BundleCreateDir then Inl ''failed to create bundle dir''
       else if \<not> be_io env BundleWrite then Inl ''failed to write bundle.json''
       else Inr (path_join (be_dir_of env e) ''bundle.json'', bundle))"

definition should_publish_live_bundle :: "evidence_bundle \<Rightarrow> bool" where
  "should_publish_live_bundle b \<longleftrightarrow> (case eb_release_assessment b of Some a \<Rightarrow> sg_suspicious a | None \<Rightarrow> False)"

section \<open>Emitting\<close>

text \<open>What reaches the sink: nothing without a sink, and nothing when publishing fails (which is only logged).\<close>

datatype published = PubRepository repository_signal | PubPriority priority_signal | PubAssessment assessment_signal
  | PubBundle evidence_bundle

type_synonym sink = "(published \<Rightarrow> bool) option"

definition publish :: "sink \<Rightarrow> published \<Rightarrow> published list" where
  "publish sink p = (case sink of Some accepts \<Rightarrow> if accepts p then [p] else [] | None \<Rightarrow> [])"

definition emit_repository_signal :: "sink \<Rightarrow> release_event \<Rightarrow> captured_release \<Rightarrow> published list" where
  "emit_repository_signal sink e cap = (case ca_upstream_repository cap of
     None \<Rightarrow> []
   | Some repository \<Rightarrow>
       (let (sev, factors) = repository_signal_assessment e cap repository
        in publish sink (PubRepository (repo_release_parity e repository sev factors))))"

text \<open>The update of the package itself, if the capture changed it; otherwise the resolver is asked.\<close>

definition emit_priority_signal ::
  "priority_env \<Rightarrow> sink \<Rightarrow> release_event \<Rightarrow> priority_update list \<Rightarrow> resolver \<Rightarrow> resolver \<times> published list" where
  "emit_priority_signal env sink e updates s =
     (let package = normalize_package_name (ev_ecosystem e) (ev_package e);
          update = find (\<lambda>u. pu_ecosystem u = ev_ecosystem e \<and> pu_package u = package) updates;
          previous = (case ev_priority e of Some p \<Rightarrow> Some p | None \<Rightarrow> Option.bind update pu_previous);
          current = (case update of Some u \<Rightarrow> pu_current u | None \<Rightarrow> resolve (ev_ecosystem e) (ev_package e) s)
      in if ps_source current \<noteq> LocalGraph
            \<or> (case previous of Some p \<Rightarrow> ps_source p = LocalGraph | None \<Rightarrow> True) then (s, [])
         else if sink = None then (s, [])
         else let (s, graph) = resolver_graph_evidence env (ev_ecosystem e) (ev_package e) s
           in (s, publish sink (PubPriority (local_graph_promotion e previous current graph))))"

definition emit_release_bundle ::
  "bundle_env \<Rightarrow> sink \<Rightarrow> release_event \<Rightarrow> captured_release option \<Rightarrow> json option \<Rightarrow> 'p world \<Rightarrow> published list" where
  "emit_release_bundle env sink e capture diff w = (case write_release_bundle env e capture diff w of
     Inl _ \<Rightarrow> []
   | Inr (_, bundle) \<Rightarrow> if should_publish_live_bundle bundle then publish sink (PubBundle bundle) else [])"

text \<open>The diff worker's bundle of a diff it has just built (\<open>DiffContext::emit_release_bundle\<close>).\<close>

definition emit_diff_bundle :: "bundle_env \<Rightarrow> sink \<Rightarrow> release_event \<Rightarrow> stored_diff \<Rightarrow> 'p world \<Rightarrow> published list" where
  "emit_diff_bundle env sink e d w =
     (case write_release_bundle env e None (Some (stored_diff_value (be_printers env) d)) w of
        Inl _ \<Rightarrow> []
      | Inr (_, bundle) \<Rightarrow> if should_publish_live_bundle bundle then publish sink (PubBundle bundle) else [])"

definition load_capture :: "bundle_env \<Rightarrow> string \<Rightarrow> 'p world \<Rightarrow> string + captured_release" where
  "load_capture env path w =
     (if \<not> be_io env BundleReadCapture then Inl ''failed to read capture.json''
      else case map_of (wo_files w) path of Some (CaptureJson cap) \<Rightarrow> Inr cap | _ \<Rightarrow> Inl ''failed to read capture.json'')"

text \<open>A graph query that fails counts as no graph evidence here.\<close>

definition emit_release_assessment ::
  "bundle_env \<Rightarrow> sink \<Rightarrow> release_event \<Rightarrow> string \<Rightarrow> stored_diff \<Rightarrow> 'p world \<Rightarrow> published list" where
  "emit_release_assessment env sink e dir d w =
     (if sink = None then []
      else case load_capture env (path_join dir ''capture.json'') w of
        Inl _ \<Rightarrow> []
      | Inr cap \<Rightarrow>
          (let graph = (if be_io env BundleGraph
                then load_graph_evidence (be_show_time env) (ev_ecosystem e) (ev_package e) (wo_store w) else None);
               repository = ca_upstream_repository cap
           in publish sink (PubAssessment (assessment_signal_of e repository
                (assess_release (be_codecs env) e graph cap repository (Some (diff_input_of d)))))))"

section \<open>The two ways of a diff into an assessment\<close>

lemma map_of_entries:
  "map_of (opt_entry k f v @ rest) x = (if x = k \<and> v \<noteq> None then Some (f (the v)) else map_of rest x)"
  "map_of (list_entry k g xs @ rest) x = (if x = k \<and> xs \<noteq> [] then Some (JArray (map g xs)) else map_of rest x)"
  "map_of (map_entry k m @ rest) x = (if x = k \<and> m \<noteq> []
     then Some (JObject (map (\<lambda>(a, b). (a, JString b)) m)) else map_of rest x)"
  by (auto simp: opt_entry_def list_entry_def map_entry_def split: option.splits)

lemmas map_of_entry = map_of_entries [where rest = "[]", simplified] map_of_entries

lemma array_strings_JStrings: "array_strings (Some (JArray (map JString xs))) = xs"
  by (induction xs) (simp_all add: array_strings_def array_items_def List.map_filter_simps)

lemma array_strings_nothing: "array_strings None = []"
  by (simp add: array_strings_def array_items_def List.map_filter_simps)

lemmas value_defs = stored_diff_value_def release_diff_value_def content_diff_value_def npm_hook_value_def json_nat_def

end
