(* ===== verification/Publication_Props.thy ===== *)
theory Publication_Props
  imports Publication Pipeline Resolver_Props
begin

text \<open>
  What is published agrees with what is stored: the diff read back from a bundle, the assessment a bundle carries,
  and where the plan in a bundle departs from the plan the event stream published.
\<close>

text \<open>The diff a bundle reads back from its own JSON is the diff the assessment takes directly: for every
  stored diff, whatever optional parts and empty lists its serialisation leaves out.\<close>

lemma diff_value_reads: "diff_assessment_input_from_value (stored_diff_value pr d) = Some (diff_input_of d)"
proof -
  have status: "stored_diff_status_as_str (st_status d) = ''ready'' \<or> stored_diff_status_as_str (st_status d) = ''no_baseline''"
    by (cases "st_status d") simp_all
  have top: "json_get (stored_diff_value pr d) ''status'' = Some (JString (stored_diff_status_as_str (st_status d)))"
    "json_get (stored_diff_value pr d) ''baseline_version'' = map_option JString (st_baseline_version d)"
    "json_get (stored_diff_value pr d) ''diff'' = map_option (release_diff_value pr) (st_diff d)"
    by (auto simp: stored_diff_value_def map_of_entry simp del: map_of_append split: option.splits)
  show ?thesis
  proof (cases "st_diff d")
    case None
    then show ?thesis
      using status by (cases "st_baseline_version d")
        (auto simp: diff_assessment_input_from_value_def top diff_input_of_def get_in_def get_bool_or_def get_usize_def
          array_strings_nothing is_package_manifest_only_def)
  next
    case (Some r)
    define c where "c = rd_content r"
    have content: "get_in (Some (release_diff_value pr r)) ''content'' = Some (content_diff_value pr c)"
      by (simp add:  get_in_def release_diff_value_def map_of_entry c_def del: map_of_append)
    have fields: "json_get (content_diff_value pr c) ''available'' = Some (JBool (cd_available c))"
      "json_get (content_diff_value pr c) ''patches_included'' = Some (JBool (cd_patches_included c))"
      "json_get (content_diff_value pr c) ''files_added_count'' = Some (JNumber (PosInt (cd_files_added_count c)))"
      "json_get (content_diff_value pr c) ''files_removed_count'' = Some (JNumber (PosInt (cd_files_removed_count c)))"
      "json_get (content_diff_value pr c) ''files_changed_count'' = Some (JNumber (PosInt (cd_files_changed_count c)))"
      "json_get (content_diff_value pr c) ''files_added'' = (if cd_files_added c = [] then None else Some (JArray (map JString (cd_files_added c))))"
      "json_get (content_diff_value pr c) ''files_removed'' = (if cd_files_removed c = [] then None else Some (JArray (map JString (cd_files_removed c))))"
      "json_get (content_diff_value pr c) ''files_changed'' = (if cd_files_changed c = [] then None else Some (JArray (map JString (cd_files_changed c))))"
      "json_get (content_diff_value pr c) ''npm_install_hook'' = map_option npm_hook_value (cd_npm_install_hook c)"
      by (simp_all add: content_diff_value_def map_of_entry json_nat_def map_option_case del: map_of_append split: option.splits)
    have arrays: "array_strings (if xs = [] then None else Some (JArray (map JString xs))) = xs" for xs
      by (simp add: array_strings_JStrings array_strings_nothing)
    have hooks: "json_get (npm_hook_value h) ''target_has_install_scripts'' = Some (JBool (ih_target_has_install_scripts h))"
      "json_get (npm_hook_value h) ''longstanding_unchanged'' = Some (JBool (ih_longstanding_unchanged h))"
      "json_get (npm_hook_value h) ''effective_changed'' = Some (JBool (ih_effective_changed h))" for h
      by (simp_all add: npm_hook_value_def map_of_entry del: map_of_append)
    have gets: "get_in None k = None" "get_in (Some (content_diff_value pr c)) k = json_get (content_diff_value pr c) k"
      "get_in (Some (npm_hook_value h)) k = json_get (npm_hook_value h) k" for k h
      by (simp_all add: get_in_def)
    have version: "Option.bind (map_option JString v) as_str = v" for v
      by (cases v) simp_all
    show ?thesis
      using status by (cases "cd_npm_install_hook c")
        (auto simp: diff_assessment_input_from_value_def content top Some diff_input_of_def gets fields arrays hooks version
          get_bool_or_def get_usize_def c_def [symmetric] Let_def)
  qed
qed

section \<open>Bundle and signal\<close>

text \<open>C5: After a diff, the assessment inside the evidence bundle is the assessment the worker published on its
  own, although one is computed from the diff and the other from the diff's JSON; and the bundle goes to the live
  stream exactly when that assessment is suspicious.\<close>

theorem bundle_carries_published_assessment:
  assumes "be_io env BundleGraph"
    and "emit_release_assessment env sink e (be_dir_of env e) d w = [PubAssessment a]"
    and "build_release_bundle env e None (Some (stored_diff_value (be_printers env) d)) w = Inr b"
  shows "eb_release_assessment b = Some a \<and> (should_publish_live_bundle b \<longleftrightarrow> sg_suspicious a)"
proof -
  obtain cap where cap: "load_capture env (path_join (be_dir_of env e) ''capture.json'') w = Inr cap"
    and a: "a = assessment_signal_of e (ca_upstream_repository cap)
      (assess_release (be_codecs env) e (load_graph_evidence (be_show_time env) (ev_ecosystem e) (ev_package e) (wo_store w))
        cap (ca_upstream_repository cap) (Some (diff_input_of d)))"
    using assms(1,2) by (auto simp: emit_release_assessment_def publish_def Let_def split: if_splits sum.splits option.splits)
  have "read_capture_json env (be_dir_of env e) w = Inr (Some cap)"
    using cap by (auto simp: load_capture_def read_capture_json_def split: if_splits option.splits stored_file.splits)
  then have "eb_release_assessment b = Some a"
    using assms(1,3) by (auto simp: build_release_bundle_def Let_def a bundle_assessment_def diff_value_reads split: if_splits option.splits)
  then show ?thesis
    by (simp add: should_publish_live_bundle_def)
qed

definition demo_bundle_env :: bundle_env where
  "demo_bundle_env = \<lparr>be_io = \<lambda>_. True, be_now = 12, be_codecs = demo_codecs, be_show_time = \<lambda>_. ''1970'',
     be_dir_of = \<lambda>_. ''d'', be_printers = \<lparr>dp_time = \<lambda>_. JNull, dp_status = \<lambda>_. JNull, dp_artifacts = \<lambda>_. JNull,
       dp_details = \<lambda>_. JNull, dp_artifact = \<lambda>_. JNull, dp_file = \<lambda>_. JNull, dp_file_change = \<lambda>_. JNull,
       dp_patch = \<lambda>_. JNull, dp_commit = \<lambda>_. JNull\<rparr>\<rparr>"

definition demo_stored_diff :: stored_diff where
  "demo_stored_diff = \<lparr>st_event_id = ''a'', st_ecosystem = Npm, st_package = ''p'', st_version = ''1'', st_generated_at = 11,
     st_baseline_event_id = None, st_baseline_version = None, st_status = NoBaseline, st_reason = None, st_diff = None\<rparr>"

definition demo_captured_world :: "unit world" where
  "demo_captured_world = demo_world\<lparr>wo_files := [(''d/capture.json'', CaptureJson (captured_removed 9 demo_event))]\<rparr>"

lemma demo_capture_path: "path_join ''d'' ''capture.json'' = ''d/capture.json''"
  by (simp add: path_join_def)

lemma bundle_carries_published_assessment_witness:
  "\<exists>a b. emit_release_assessment demo_bundle_env (Some (\<lambda>_. True)) demo_event ''d'' demo_stored_diff demo_captured_world = [PubAssessment a]
    \<and> eb_release_assessment b = Some a \<and> (should_publish_live_bundle b \<longleftrightarrow> sg_suspicious a)"
proof -
  have dir: "be_dir_of demo_bundle_env demo_event = ''d''"
    by (simp add: demo_bundle_env_def)
  obtain a where a: "emit_release_assessment demo_bundle_env (Some (\<lambda>_. True)) demo_event ''d'' demo_stored_diff demo_captured_world
      = [PubAssessment a]"
    by (simp add: emit_release_assessment_def load_capture_def demo_capture_path demo_captured_world_def demo_bundle_env_def
        publish_def Let_def)
  obtain b where b: "build_release_bundle demo_bundle_env demo_event None
      (Some (stored_diff_value (be_printers demo_bundle_env) demo_stored_diff)) demo_captured_world = Inr b"
    by (simp add: build_release_bundle_def read_capture_json_def demo_capture_path demo_captured_world_def demo_bundle_env_def
        demo_world_def load_package_events_def release_rows_def store_empty_def Let_def)
  have "be_io demo_bundle_env BundleGraph"
    by (simp add: demo_bundle_env_def)
  from bundle_carries_published_assessment [OF this a [folded dir] b] a show ?thesis
    by blast
qed

section \<open>The plan in a bundle\<close>

text \<open>C21: The plan in an evidence bundle can contradict the plan that was published for the same event.  A bundle
  counts every release of the package the store has ever recorded, the event stream the releases this run of the
  resolver has seen: after a restart the stream says the diff is skipped while the bundle says that graph policy
  escalated it.\<close>

theorem bundle_plan_contradicts_published:
  assumes "\<not> diff_requested e"
    and "load_graph_evidence (be_show_time env) (ev_ecosystem e) (ev_package e) (wo_store w) = Some g"
    and "0 < ge_reverse_dependents_seen g"
    and "load_package_events (ev_ecosystem e) (ev_package e) (wo_store w) = Some events" and "2 \<le> length events"
    and "bm_get (rv_observation_counts s) (ev_ecosystem e, normalize_package_name (ev_ecosystem e) (ev_package e)) \<in> {None, Some 1}"
    and "build_release_bundle env e capture diff w = Inr b"
  shows "let bundled = pl_diff (em_plan (eb_event b));
      published = pl_diff (em_plan (emitted_view e (snd (resolver_graph_evidence penv (ev_ecosystem e) (ev_package e) s))))
    in jp_requested bundled \<and> jp_planned_state bundled = ''pending''
    \<and> \<not> jp_requested published \<and> jp_planned_state published = ''skipped''"
proof -
  define bundled where "bundled = pl_diff (em_plan (eb_event b))"
  define published where "published = pl_diff (em_plan (emitted_view e (snd (resolver_graph_evidence penv (ev_ecosystem e) (ev_package e) s))))"
  have known: "ge_known g"
    using assms(2) by (auto simp: load_graph_evidence_def load_graph_evidence_blocking_def Let_def split: if_splits)
  obtain repository where "eb_event b = emitted_view e (bundle_graph (Some g) repository (length events))"
    using assms(2,4,7) by (auto simp: build_release_bundle_def Let_def split: sum.splits if_splits)
  then have "jp_requested bundled \<and> jp_planned_state bundled = ''pending''"
    using assms(1,3,5) known by (simp add: bundled_def emitted_view_def Let_def diff_requested_with_graph_def graph_diff_escalation_def
      bundle_graph_def diff_requested_def)
  moreover have "gr_observed_count (snd (resolver_graph_evidence penv (ev_ecosystem e) (ev_package e) s)) < 2"
    using assms(6) by (auto simp: resolver_graph_evidence_def Let_def evidence_of_cached_def split: option.splits prod.splits)
  then have "\<not> jp_requested published \<and> jp_planned_state published = ''skipped''"
    using assms(1) by (simp add: published_def emitted_view_def Let_def diff_requested_with_graph_def graph_diff_escalation_def
      diff_requested_def)
  ultimately show ?thesis
    by (simp add: bundled_def published_def Let_def)
qed

definition demo_releases :: "unit world" where
  "demo_releases = demo_world\<lparr>wo_store := (upsert_event_row (demo_event\<lparr>ev_event_id := ''b'', ev_version := ''2''\<rparr>) Observed
     (upsert_event_row demo_event Observed store_empty))
       \<lparr>st_graph_edge_index := [((''npm'', ''q'', ''p''), \<lparr>geo_weight = f64_one, geo_confidence = None, geo_sources_json = None,
          geo_updated_at = 1\<rparr>)]\<rparr>\<rparr>"

lemma those_map_some: "\<forall>x \<in> set xs. f x \<noteq> None \<Longrightarrow> \<exists>ys. those (map f xs) = Some ys \<and> length ys = length xs"
  by (induction xs) auto

lemma bundle_plan_contradicts_published_witness:
  "\<exists>b. build_release_bundle demo_bundle_env demo_event None None demo_releases = Inr b
    \<and> jp_planned_state (pl_diff (em_plan (eb_event b))) = ''pending''
    \<and> jp_planned_state (pl_diff (em_plan (emitted_view demo_event (snd (resolver_graph_evidence demo_env Npm ''p'' demo_resolver))))) = ''skipped''"
proof -
  have e: "ev_ecosystem demo_event = Npm" "ev_package demo_event = ''p''" "normalize_package_name Npm ''p'' = ''p''"
    by (simp_all add: demo_event_def, code_simp)
  obtain events where events: "load_package_events Npm ''p'' (wo_store demo_releases) = Some events" "2 \<le> length events"
  proof -
    define r1 where "r1 = event_row ''observed'' demo_event"
    define r2 where "r2 = event_row ''observed'' (demo_event\<lparr>ev_event_id := ''b'', ev_version := ''2''\<rparr>)"
    have rows: "release_rows (wo_store demo_releases) = [r1, r2]"
      by (simp add: release_rows_def demo_releases_def upsert_event_row_def sql_upsert_def store_empty_def demo_event_def r1_def r2_def)
    have "rr_ecosystem r = ecosystem_as_str Npm \<and> rr_package r = ''p''" if "r \<in> {r1, r2}" for r
      using that by (auto simp: r1_def r2_def event_row_def Let_def demo_event_def)
    then have "\<exists>events. load_package_events Npm ''p'' (wo_store demo_releases) = Some events \<and> length events = 2"
      using those_map_some [of "sort_key (\<lambda>r. (release_time r, rr_observed_at r, rr_event_id r)) [r1, r2]" event_from_row]
      by (auto simp: load_package_events_def rows r1_def r2_def event_from_event_row)
    then show ?thesis using that by auto
  qed
  obtain g where g: "load_graph_evidence (be_show_time demo_bundle_env) Npm ''p'' (wo_store demo_releases) = Some g"
      "0 < ge_reverse_dependents_seen g"
    by (simp add: load_graph_evidence_def e load_graph_evidence_blocking_def edges_from_def edges_to_def demo_releases_def
        store_empty_def upsert_event_row_def Let_def)
  have low: "\<not> diff_requested demo_event"
    by (simp add: diff_requested_def snapshot_diff_requested_def event_priority_snapshot_def demo_event_def default_unknown_def)
  have unseen: "bm_get (rv_observation_counts demo_resolver) (Npm, ''p'') = None"
    by (simp add: demo_resolver_def bm_new_def bm_get_def)
  have io: "be_io demo_bundle_env x" for x
    by (simp add: demo_bundle_env_def)
  have files: "wo_files demo_releases = []"
    by (simp add: demo_releases_def demo_world_def)
  obtain b where b: "build_release_bundle demo_bundle_env demo_event None None demo_releases = Inr b"
    using events g io files by (simp add: build_release_bundle_def read_capture_json_def read_diff_json_def Let_def e)
  show ?thesis
    using bundle_plan_contradicts_published [of demo_event demo_bundle_env demo_releases g events demo_resolver None None b demo_env]
      events g b low unseen by (simp add: e Let_def)
qed

end
