(* ===== verification/Priority_View.thy ===== *)
theory Priority_View
  imports Event
begin

text \<open>
  The log summary of recent events (\<open>priority_view.rs\<close>): a bounded queue of the last observed releases, and the
  snapshot with the bucket counts and the releases of the highest priority first.
\<close>

record view_entry =
  ve_event_id :: string
  ve_ecosystem :: ecosystem
  ve_package :: string
  ve_version :: string
  ve_observed_at :: datetime
  ve_priority_bucket :: string
  ve_direct_popularity :: f64
  ve_propagated_impact :: f64
  ve_hidden_leverage :: f64

record view_state =
  vw_recent_capacity :: nat
  vw_entries :: "view_entry list"

record view_snapshot =
  vs_window_events :: nat
  vs_priorities :: priority_counts
  vs_top_releases :: "view_entry list"

definition view_new :: "nat \<Rightarrow> view_state" where
  "view_new capacity = \<lparr>vw_recent_capacity = capacity, vw_entries = []\<rparr>"

definition bucket_rank :: "string \<Rightarrow> nat" where
  "bucket_rank bucket =
     (if bucket = ''high'' then 0 else if bucket = ''medium'' then 1 else if bucket = ''unknown'' then 2
      else if bucket = ''low'' then 3 else 4)"

fun bucket_label :: "priority_bucket \<Rightarrow> string" where
  "bucket_label BucketHigh = ''high''"
| "bucket_label BucketMedium = ''medium''"
| "bucket_label BucketLow = ''low''"
| "bucket_label BucketUnknown = ''unknown''"

definition f64_or_default :: "f64 option \<Rightarrow> f64" where
  "f64_or_default v = (case v of Some x \<Rightarrow> x | None \<Rightarrow> f64_zero)"

definition view_entry_of :: "release_event \<Rightarrow> view_entry" where
  "view_entry_of e = (let p = event_priority_snapshot e in
     \<lparr>ve_event_id = ev_event_id e, ve_ecosystem = ev_ecosystem e, ve_package = ev_package e, ve_version = ev_version e,
      ve_observed_at = ev_observed_at e, ve_priority_bucket = bucket_label (snapshot_bucket p),
      ve_direct_popularity = f64_or_default (ps_direct_popularity p),
      ve_propagated_impact = f64_or_default (ps_propagated_impact p),
      ve_hidden_leverage = f64_or_default (ps_hidden_leverage p)\<rparr>)"

definition view_record :: "release_event \<Rightarrow> view_state \<Rightarrow> view_state" where
  "view_record e s =
     (let entry = view_entry_of e;
          s = (if length (vw_entries s) = vw_recent_capacity s \<and> 0 < vw_recent_capacity s
               then s\<lparr>vw_entries := tl (vw_entries s)\<rparr> else s)
      in if 0 < vw_recent_capacity s then s\<lparr>vw_entries := vw_entries s @ [entry]\<rparr> else s)"

definition count_bucket :: "view_entry \<Rightarrow> priority_counts \<Rightarrow> priority_counts" where
  "count_bucket entry c =
     (if ve_priority_bucket entry = ''high'' then c\<lparr>pc_high := pc_high c + 1\<rparr>
      else if ve_priority_bucket entry = ''medium'' then c\<lparr>pc_medium := pc_medium c + 1\<rparr>
      else if ve_priority_bucket entry = ''low'' then c\<lparr>pc_low := pc_low c + 1\<rparr>
      else c\<lparr>pc_unknown := pc_unknown c + 1\<rparr>)"

text \<open>The order of \<open>sort_by\<close>: bucket, then impact, leverage and time descending, then the package name.\<close>

definition view_key :: "view_entry \<Rightarrow> nat \<times> int \<times> int \<times> int \<times> string" where
  "view_key entry = (bucket_rank (ve_priority_bucket entry), - f64_total_key (ve_propagated_impact entry),
     - f64_total_key (ve_hidden_leverage entry), - ve_observed_at entry, ve_package entry)"

definition view_snapshot_of :: "nat \<Rightarrow> view_state \<Rightarrow> view_snapshot" where
  "view_snapshot_of top_limit s =
     \<lparr>vs_window_events = length (vw_entries s), vs_priorities = fold count_bucket (vw_entries s) counts_zero,
      vs_top_releases = take top_limit (sort_key view_key (vw_entries s))\<rparr>"

section \<open>The window\<close>

lemma view_record_window:
  assumes "vw_entries s = map view_entry_of (drop (length es - n) es)" "vw_recent_capacity s = n"
  shows "vw_entries (view_record e s) = map view_entry_of (drop (length (es @ [e]) - n) (es @ [e]))
    \<and> vw_recent_capacity (view_record e s) = n"
proof (cases "n \<le> length es")
  case True
  then have "Suc (length es) - n = Suc (length es - n)" by simp
  moreover have "n \<noteq> 0 \<Longrightarrow> drop (Suc (length es - n)) es = tl (drop (length es - n) es)"
    by (simp add: drop_Suc tl_drop)
  ultimately show ?thesis
    using assms True by (cases "n = 0") (simp_all add: view_record_def Let_def map_tl)
qed (use assms in \<open>auto simp: view_record_def Let_def\<close>)

lemma view_window: "vw_entries (fold view_record es (view_new n)) = map view_entry_of (drop (length es - n) es)
    \<and> vw_recent_capacity (fold view_record es (view_new n)) = n"
proof (induction es rule: rev_induct)
  case (snoc e es)
  then show ?case
    using view_record_window [of "fold view_record es (view_new n)" es n e] by (simp del: drop_append length_append)
qed (simp add: view_new_def)

definition counts_sum :: "priority_counts \<Rightarrow> nat" where
  "counts_sum c = pc_high c + pc_medium c + pc_low c + pc_unknown c"

lemma counts_sum_fold: "counts_sum (fold count_bucket entries c) = counts_sum c + length entries"
  by (induction entries arbitrary: c) (simp_all add: counts_sum_def count_bucket_def)

text \<open>C23: After any events, the view summarises exactly the last \<open>capacity\<close> of them: it counts each of them in one
  bucket, and its top releases are the first ones of that window in the order of the report, none of the rest
  ranking before any of them.\<close>

theorem view_is_recent_window:
  "let snap = view_snapshot_of limit (fold view_record events (view_new capacity));
       window = map view_entry_of (drop (length events - capacity) events)
   in vs_window_events snap = min capacity (length events)
      \<and> counts_sum (vs_priorities snap) = vs_window_events snap
      \<and> length (vs_top_releases snap) = min limit (vs_window_events snap)
      \<and> (\<exists>rest. mset (vs_top_releases snap @ rest) = mset window \<and> sorted (map view_key (vs_top_releases snap @ rest)))"
proof -
  have "\<exists>rest. mset (take limit (sort_key view_key xs) @ rest) = mset xs \<and> sorted (map view_key (take limit (sort_key view_key xs) @ rest))"
    for xs :: "view_entry list"
    by (rule exI [of _ "drop limit (sort_key view_key xs)"]) (simp flip: map_append mset_append)
  note split = this
  define window where "window = map view_entry_of (drop (length events - capacity) events)"
  have entries: "vw_entries (fold view_record events (view_new capacity)) = window"
    by (simp add: view_window window_def)
  have len: "length window = min capacity (length events)"
    by (simp add: window_def)
  have zero: "counts_sum counts_zero = 0"
    by (simp add: counts_sum_def counts_zero_def)
  show ?thesis
    unfolding Let_def window_def [symmetric]
    using split [of window] by (simp add: view_snapshot_of_def entries len counts_sum_fold zero)
qed

end
