(* ===== verification/Census.thy ===== *)
theory Census
  imports Names
begin

text \<open>
  The native package census (\<open>census.rs\<close>): the project names of the PyPI simple index read by a byte scanner, the
  pages of npm's \<open>_all_docs\<close> with the page size halved on failure, the pages of crates.io, and the merged
  records.  An answer of the web is a function of the URL; \<open>serde\<close> decoding and URL encoding are arguments.  The
  two paging loops end only when the server lets them, so they run on fuel, and not returning is \<open>None\<close>.
\<close>

record census_config =
  nc_pypi_base :: string
  nc_npm_all_docs_base :: string
  nc_crates_io_base :: string
  nc_npm_page_size :: nat
  nc_npm_start_key :: "string option"
  nc_npm_limit :: nat
  nc_pypi_limit :: nat
  nc_crates_page_size :: nat
  nc_crates_start_page :: nat
  nc_crates_limit :: nat

record crates_page =
  ck_crates :: "string list"
  ck_next_page :: "string option"

text \<open>\<open>nw_get\<close> is one request through the throttle: a transport error or a status with the body.\<close>

record census_web =
  nw_get :: "string \<Rightarrow> string + (nat \<times> string)"
  nw_rows :: "string \<Rightarrow> string list option"
  nw_crates :: "string \<Rightarrow> crates_page option"
  nw_json_string :: "string \<Rightarrow> string"
  nw_url_encode :: "string \<Rightarrow> string"

definition error_status :: "nat \<Rightarrow> bool" where
  "error_status status \<longleftrightarrow> 400 \<le> status \<and> status \<le> 599"

definition trim_end_slashes :: "string \<Rightarrow> string" where
  "trim_end_slashes s = rev (dropWhile (\<lambda>c. c = CHR ''/'') (rev s))"

text \<open>A limit of zero is none.\<close>

definition census_limit :: "nat \<Rightarrow> nat" where
  "census_limit n = (if n = 0 then u64_max else n)"

section \<open>PyPI\<close>

definition ascii_ws :: "char \<Rightarrow> bool" where
  "ascii_ws c \<longleftrightarrow> byte c \<in> {9, 10, 12, 13, 32}"

definition name_key :: string where
  "name_key = CHR 0x22 # ''name'' @ [CHR 0x22]"

text \<open>The bytes up to the closing quote, a backslash taking the next byte with it, and what follows.\<close>

fun scan_name :: "string \<Rightarrow> string option \<times> string" where
  "scan_name [] = (None, [])"
| "scan_name [c] = (if c = CHR 0x22 then (Some [], []) else (None, []))"
| "scan_name (c # d # s) =
     (if c = CHR 0x5C then map_prod (map_option (\<lambda>n. c # d # n)) id (scan_name s)
      else if c = CHR 0x22 then (Some [], d # s)
      else map_prod (map_option (\<lambda>n. c # n)) id (scan_name (d # s)))"

lemma scan_name_length: "length (snd (scan_name s)) \<le> length s"
  by (induction s rule: scan_name.induct) (auto simp: le_SucI)

lemma after_key_shorter: "s \<noteq> [] \<Longrightarrow> length (dropWhile P (drop (k + length name_key) s)) < length s"
  using length_dropWhile_le [of P "drop (k + length name_key) s"] by (cases s) (auto simp: name_key_def)

text \<open>The cursor is the rest of the body.\<close>

function extract_names_loop :: "nat \<Rightarrow> string \<Rightarrow> string list \<Rightarrow> string list" where
  "extract_names_loop limit s names =
     (if s = [] \<or> limit \<le> length names then names
      else case find_sub s name_key of
        None \<Rightarrow> names
      | Some k \<Rightarrow>
          (let r = dropWhile ascii_ws (drop (k + length name_key) s) in
           if r = [] \<or> hd r \<noteq> CHR '':'' then extract_names_loop limit (drop 1 r) names
           else let q = dropWhile ascii_ws (tl r) in
             if q = [] \<or> hd q \<noteq> CHR 0x22 then extract_names_loop limit (drop 1 q) names
             else let (name, rest) = scan_name (tl q) in
               extract_names_loop limit rest
                 (case name of Some n \<Rightarrow> if utf8_valid (map byte n) then names @ [n] else names | None \<Rightarrow> names)))"
  by pat_completeness auto
termination
proof (relation "measure (\<lambda>(limit, s, names). length s)", goal_cases)
  case 1
  then show ?case by simp
next
  case (2 limit s names k r)
  with after_key_shorter [of s ascii_ws k] show ?case by simp
next
  case (3 limit s names k r q)
  with after_key_shorter [of s ascii_ws k] length_dropWhile_le [of ascii_ws "tl r"] show ?case by simp
next
  case (4 limit s names k r q p name rest)
  with after_key_shorter [of s ascii_ws k] length_dropWhile_le [of ascii_ws "tl r"] scan_name_length [of "tl q"]
  show ?case
    using 4 by (auto dest!: arg_cong [of _ _ snd])
qed

declare extract_names_loop.simps [simp del]

definition extract_pypi_project_names :: "string \<Rightarrow> nat \<Rightarrow> string list" where
  "extract_pypi_project_names body limit = extract_names_loop limit body []"

definition fetch_pypi_simple_packages :: "census_web \<Rightarrow> census_config \<Rightarrow> string + string list" where
  "fetch_pypi_simple_packages web cfg =
     (case nw_get web (trim_end_slashes (nc_pypi_base cfg) @ ''/simple/'') of
        Inl _ \<Rightarrow> Inl ''failed to fetch PyPI simple index''
      | Inr (status, body) \<Rightarrow>
          if error_status status then Inl ''PyPI simple index returned an error''
          else Inr (map (normalize_package_name Pypi) (extract_pypi_project_names body (census_limit (nc_pypi_limit cfg)))))"

section \<open>npm\<close>

definition npm_all_docs_min_page_size :: nat where
  "npm_all_docs_min_page_size = 10"

definition npm_all_docs_url :: "census_web \<Rightarrow> census_config \<Rightarrow> nat \<Rightarrow> string option \<Rightarrow> string" where
  "npm_all_docs_url web cfg page_size start_key =
     trim_end_slashes (nc_npm_all_docs_base cfg) @ ''?limit='' @ show_nat page_size
     @ (case start_key of Some key \<Rightarrow> ''&startkey='' @ nw_url_encode web (nw_json_string web key) | None \<Rightarrow> [])"

text \<open>One page, the page size halved after every failure until it is at its minimum.\<close>

function npm_all_docs_page ::
  "census_web \<Rightarrow> census_config \<Rightarrow> string option \<Rightarrow> nat \<Rightarrow> string + (nat \<times> string list)" where
  "npm_all_docs_page web cfg last_id page_size =
     (let url = npm_all_docs_url web cfg page_size last_id;
          attempt = (case nw_get web url of
              Inl _ \<Rightarrow> Inl (''failed to fetch npm all docs page from '' @ url)
            | Inr (status, body) \<Rightarrow>
                if error_status status then Inl (''npm all docs returned an error for '' @ url)
                else case nw_rows web body of Some rows \<Rightarrow> Inr rows
                  | None \<Rightarrow> Inl (''failed to decode npm all docs page from '' @ url))
      in case attempt of
        Inr rows \<Rightarrow> Inr (page_size, rows)
      | Inl err \<Rightarrow>
          if page_size > npm_all_docs_min_page_size
          then npm_all_docs_page web cfg last_id (max (page_size div 2) npm_all_docs_min_page_size)
          else Inl err)"
  by pat_completeness auto
termination
  by (relation "measure (\<lambda>(web, cfg, last_id, page_size). page_size)") (auto simp: npm_all_docs_min_page_size_def)

declare npm_all_docs_page.simps [simp del]

text \<open>The rows of a page: design documents and the row the page starts at again are skipped.\<close>

fun npm_rows :: "nat \<Rightarrow> string list \<Rightarrow> string option \<times> string list \<times> nat \<Rightarrow> string option \<times> string list \<times> nat" where
  "npm_rows limit [] acc = acc"
| "npm_rows limit (i # rows) (last_id, packages, emitted) =
     (if starts_with i ''_'' then npm_rows limit rows (last_id, packages, emitted)
      else if last_id = Some i then npm_rows limit rows (last_id, packages, emitted)
      else let packages = packages @ [normalize_package_name Npm i] in
        if limit \<le> length packages then (Some i, packages, emitted + 1)
        else npm_rows limit rows (Some i, packages, emitted + 1))"

fun npm_all_docs_loop ::
  "census_web \<Rightarrow> census_config \<Rightarrow> nat \<Rightarrow> nat \<Rightarrow> nat \<Rightarrow> string option \<Rightarrow> string list \<Rightarrow> (string + string list) option" where
  "npm_all_docs_loop web cfg limit 0 page_size last_id packages = None"
| "npm_all_docs_loop web cfg limit (Suc fuel) page_size last_id packages =
     (if limit \<le> length packages then Some (Inr packages)
      else case npm_all_docs_page web cfg last_id page_size of
        Inl err \<Rightarrow> Some (Inl err)
      | Inr (page_size, rows) \<Rightarrow>
          if rows = [] then Some (Inr packages)
          else (case npm_rows limit rows (last_id, packages, 0) of
            (last_id, packages, emitted) \<Rightarrow>
              if emitted = 0 then Some (Inr packages)
              else npm_all_docs_loop web cfg limit fuel page_size last_id packages))"

definition fetch_npm_all_docs_packages :: "census_web \<Rightarrow> census_config \<Rightarrow> nat \<Rightarrow> (string + string list) option" where
  "fetch_npm_all_docs_packages web cfg fuel =
     npm_all_docs_loop web cfg (census_limit (nc_npm_limit cfg)) fuel (max (nc_npm_page_size cfg) 1) (nc_npm_start_key cfg) []"

section \<open>crates.io\<close>

definition crates_page_url :: "census_config \<Rightarrow> nat \<Rightarrow> string" where
  "crates_page_url cfg page = trim_end_slashes (nc_crates_io_base cfg) @ ''/api/v1/crates?page='' @ show_nat page
     @ ''&per_page='' @ show_nat (max 1 (min (nc_crates_page_size cfg) 100))"

fun crates_loop :: "census_web \<Rightarrow> census_config \<Rightarrow> nat \<Rightarrow> nat \<Rightarrow> nat \<Rightarrow> string list \<Rightarrow> (string + string list) option" where
  "crates_loop web cfg limit 0 page packages = None"
| "crates_loop web cfg limit (Suc fuel) page packages =
     (if limit \<le> length packages then Some (Inr packages)
      else let url = crates_page_url cfg page in
        case nw_get web url of
          Inl _ \<Rightarrow> Some (Inl (''failed to fetch crates.io page from '' @ url))
        | Inr (status, body) \<Rightarrow>
            if status = 400 \<and> page > 1 then Some (Inr packages)
            else if error_status status then Some (Inl (''crates.io returned an error for '' @ url))
            else case nw_crates web body of
              None \<Rightarrow> Some (Inl (''failed to decode crates.io page from '' @ url))
            | Some p \<Rightarrow>
                if ck_crates p = [] then Some (Inr packages)
                else let packages = packages @ take (limit - length packages) (map (normalize_package_name CratesIo) (ck_crates p)) in
                  if limit \<le> length packages \<or> ck_next_page p = None then Some (Inr packages)
                  else crates_loop web cfg limit fuel (page + 1) packages)"

definition fetch_crates_io_packages :: "census_web \<Rightarrow> census_config \<Rightarrow> nat \<Rightarrow> (string + string list) option" where
  "fetch_crates_io_packages web cfg fuel =
     crates_loop web cfg (census_limit (nc_crates_limit cfg)) fuel (max (nc_crates_start_page cfg) 1) []"

section \<open>The census\<close>

record census_entry =
  cy_ecosystem :: ecosystem
  cy_package :: string
  cy_discovered_at :: "datetime option"
  cy_source :: "string option"

record census_summary =
  cz_ecosystems :: "(ecosystem \<times> nat) list"
  cz_emitted_records :: nat

fun census_source :: "ecosystem \<Rightarrow> string" where
  "census_source Pypi = ''pypi_simple_index''"
| "census_source Npm = ''npm_all_docs''"
| "census_source CratesIo = ''crates_io_native''"

definition census_fetch :: "census_web \<Rightarrow> census_config \<Rightarrow> nat \<Rightarrow> ecosystem \<Rightarrow> (string + string list) option" where
  "census_fetch web cfg fuel eco = (case eco of
     Pypi \<Rightarrow> Some (fetch_pypi_simple_packages web cfg)
   | Npm \<Rightarrow> fetch_npm_all_docs_packages web cfg fuel
   | CratesIo \<Rightarrow> fetch_crates_io_packages web cfg fuel)"

text \<open>The keys of the \<open>BTreeMap\<close> are sorted and give the whole record.\<close>

fun census_loop ::
  "census_web \<Rightarrow> census_config \<Rightarrow> nat \<Rightarrow> ecosystem list \<Rightarrow> (ecosystem \<times> string) list \<Rightarrow> (ecosystem \<times> nat) list
   \<Rightarrow> (string + ((ecosystem \<times> string) list \<times> (ecosystem \<times> nat) list)) option" where
  "census_loop web cfg fuel [] found summary = Some (Inr (found, summary))"
| "census_loop web cfg fuel (eco # ecos) found summary =
     (case census_fetch web cfg fuel eco of
        None \<Rightarrow> None
      | Some (Inl err) \<Rightarrow> Some (Inl err)
      | Some (Inr discovered) \<Rightarrow>
          census_loop web cfg fuel ecos (fold (\<lambda>p. insort_insert (eco, p)) discovered found)
            (summary @ [(eco, length discovered)]))"

definition census_entry_of :: "ecosystem \<times> string \<Rightarrow> census_entry" where
  "census_entry_of = (\<lambda>(eco, p). \<lparr>cy_ecosystem = eco, cy_package = p, cy_discovered_at = None, cy_source = Some (census_source eco)\<rparr>)"

definition import_native_package_census ::
  "census_web \<Rightarrow> census_config \<Rightarrow> nat \<Rightarrow> ecosystem list \<Rightarrow> (string + (census_entry list \<times> census_summary)) option" where
  "import_native_package_census web cfg fuel ecosystems =
     map_option (map_sum id (\<lambda>(found, summary). (map census_entry_of found,
       \<lparr>cz_ecosystems = summary, cz_emitted_records = length found\<rparr>)))
       (census_loop web cfg fuel ecosystems [] [])"

end
