(* ===== verification/Census_Props.thy ===== *)
theory Census_Props
  imports Census
begin

text \<open>
  The census finds what the registries list: every package of npm's \<open>_all_docs\<close> once, page by page, and every
  project of a PyPI simple index; and where it does not.
\<close>

section \<open>Paging through npm\<close>

text \<open>\<open>_all_docs\<close> as CouchDB documents it: a page is the first \<open>limit\<close> rows from the start key on, which is included.\<close>

definition all_docs_from :: "string list \<Rightarrow> string option \<Rightarrow> string list" where
  "all_docs_from ids key = (case key of None \<Rightarrow> ids | Some k \<Rightarrow> dropWhile (\<lambda>i. i \<noteq> k) ids)"

definition serves_all_docs :: "census_web \<Rightarrow> census_config \<Rightarrow> nat \<Rightarrow> string list \<Rightarrow> bool" where
  "serves_all_docs web cfg psize ids \<longleftrightarrow> list_all (\<lambda>key.
     case nw_get web (npm_all_docs_url web cfg psize key) of
       Inr (status, body) \<Rightarrow> status = 200 \<and> nw_rows web body = Some (take psize (all_docs_from ids key))
     | Inl _ \<Rightarrow> False) (None # map Some ids)"

definition package_ids :: "string list \<Rightarrow> bool" where
  "package_ids ids \<longleftrightarrow> distinct ids \<and> list_all (\<lambda>i. \<not> starts_with i ''_'') ids"

lemma npm_page_served:
  "serves_all_docs web cfg psize ids \<Longrightarrow> key \<in> set (None # map Some ids)
    \<Longrightarrow> npm_all_docs_page web cfg key psize = Inr (psize, take psize (all_docs_from ids key))"
  by (subst npm_all_docs_page.simps)
    (auto simp: serves_all_docs_def list_all_iff error_status_def Let_def split: sum.splits)

lemma npm_rows_all:
  assumes "package_ids rows" "length packages + length rows < limit" "rows \<noteq> [] \<Longrightarrow> last_id \<noteq> Some (hd rows)"
  shows "npm_rows limit rows (last_id, packages, n)
    = (if rows = [] then last_id else Some (last rows), packages @ map (normalize_package_name Npm) rows, n + length rows)"
  using assms
proof (induction rows arbitrary: last_id packages n)
  case (Cons i rows)
  then have "package_ids rows" "rows \<noteq> [] \<Longrightarrow> Some i \<noteq> Some (hd rows)"
    by (auto simp: package_ids_def dest: list.set_sel(1))
  with Cons show ?case
    by (auto simp: package_ids_def Let_def)
qed simp

lemma npm_rows_skip: "npm_rows limit (i # rows) (Some i, packages, n) = npm_rows limit rows (Some i, packages, n)"
  by simp

lemma all_docs_from_middle:
  "package_ids (pre @ i # rest) \<Longrightarrow> all_docs_from (pre @ i # rest) (Some i) = i # rest"
  by (auto simp: all_docs_from_def package_ids_def dropWhile_append)

lemma package_ids_part: "package_ids (a @ b) \<Longrightarrow> package_ids b \<and> package_ids (take k b)"
  by (auto simp: package_ids_def list_all_iff dest: in_set_takeD)

lemma take_split_last: "take n xs \<noteq> [] \<Longrightarrow> xs = butlast (take n xs) @ last (take n xs) # drop n xs"
  using append_butlast_last_id [of "take n xs"] append_take_drop_id [of n xs] by (metis append.assoc append_Cons append_Nil)

lemma npm_loop_rest:
  assumes "serves_all_docs web cfg psize ids" "2 \<le> psize" "package_ids ids" "length ids < limit"
    and "ids = pre @ i # rest" "length rest < fuel"
  shows "npm_all_docs_loop web cfg limit fuel psize (Some i) (map (normalize_package_name Npm) (pre @ [i]))
    = Some (Inr (map (normalize_package_name Npm) ids))"
  using assms(5,6)
proof (induction fuel arbitrary: pre i rest)
  case (Suc fuel)
  have page: "npm_all_docs_page web cfg (Some i) psize = Inr (psize, i # take (psize - 1) rest)"
    using npm_page_served [OF assms(1), of "Some i"] assms(2,3) Suc.prems(1)
    by (cases psize) (simp_all add: all_docs_from_middle)
  have rows: "package_ids (take (psize - 1) rest)" "rest \<noteq> [] \<Longrightarrow> i \<noteq> hd rest"
    using assms(3) Suc.prems(1) package_ids_part [of "pre @ [i]" rest] by (auto simp: package_ids_def)
  show ?case
  proof (cases "rest = []")
    case True
    then show ?thesis
      using assms(4) Suc.prems by (simp add: page)
  next
    case False
    define new where "new = take (psize - 1) rest"
    have new: "new \<noteq> []" "length new \<le> length rest"
      using False assms(2) by (auto simp: new_def)
    have len: "length (pre @ [i]) + length new < limit"
      using assms(4) Suc.prems(1) new(2) by simp
    have "npm_rows limit new (Some i, map (normalize_package_name Npm) (pre @ [i]), 0)
        = (Some (last new), map (normalize_package_name Npm) (pre @ [i] @ new), length new)"
      using npm_rows_all [of new "map (normalize_package_name Npm) (pre @ [i])" limit "Some i" 0] rows new len False assms(2)
      by (simp add: new_def)
    moreover have "ids = (pre @ i # butlast new) @ last new # drop (psize - 1) rest"
      using Suc.prems(1) new(1) take_split_last [of "psize - 1" rest] by (simp add: new_def)
    moreover have "length (drop (psize - 1) rest) < fuel"
      using Suc.prems(2) False assms(2) by (cases rest) auto
    ultimately show ?thesis
      using Suc.IH [of "pre @ i # butlast new" "last new" "drop (psize - 1) rest"] assms(4) Suc.prems(1) new(1)
        page [folded new_def]
      by simp
  qed
qed simp

text \<open>C28: With pages of at least two rows the census returns every package npm lists, once and in order, after at
  most one request more than there are packages, although every page begins with the last row of the one before.\<close>

theorem npm_census_complete:
  assumes "serves_all_docs web cfg (nc_npm_page_size cfg) ids" and "2 \<le> nc_npm_page_size cfg"
    and "package_ids ids" and "nc_npm_start_key cfg = None" and "nc_npm_limit cfg = 0" and "length ids < u64_max"
    and "length ids < fuel"
  shows "fetch_npm_all_docs_packages web cfg fuel = Some (Inr (map (normalize_package_name Npm) ids))"
proof -
  define psize where "psize = nc_npm_page_size cfg"
  have psize: "max (nc_npm_page_size cfg) (Suc 0) = psize" "2 \<le> psize"
    using assms(2) by (simp_all add: psize_def)
  have page: "npm_all_docs_page web cfg None psize = Inr (psize, take psize ids)"
    using npm_page_served [OF assms(1), of None] by (simp add: psize_def all_docs_from_def)
  obtain fuel' where fuel: "fuel = Suc fuel'" "length ids \<le> fuel'"
    using assms(7) by (cases fuel) auto
  show ?thesis
  proof (cases "ids = []")
    case True
    then show ?thesis
      by (simp add: fetch_npm_all_docs_packages_def psize assms(4,5) fuel census_limit_def page)
  next
    case False
    define new where "new = take psize ids"
    have new: "new \<noteq> []" using False psize by (auto simp: new_def)
    have rows: "npm_rows u64_max new (None, [], 0) = (Some (last new), map (normalize_package_name Npm) new, length new)"
      using npm_rows_all [of new "[]" u64_max None 0] package_ids_part [of "[]" ids psize] assms(3,6) new by (simp add: new_def)
    have split: "ids = butlast new @ last new # drop psize ids"
      using new take_split_last [of psize ids] by (simp add: new_def)
    have "length (drop psize ids) < fuel'"
      using fuel False psize by (cases ids) auto
    then have "npm_all_docs_loop web cfg u64_max fuel' psize (Some (last new)) (map (normalize_package_name Npm) (butlast new @ [last new]))
        = Some (Inr (map (normalize_package_name Npm) ids))"
      using npm_loop_rest [OF assms(1) assms(2) assms(3) assms(6) split] by (simp add: psize_def)
    then show ?thesis
      using new rows assms(6) by (simp add: fetch_npm_all_docs_packages_def psize assms(4,5) fuel census_limit_def page new_def [symmetric])
  qed
qed

text \<open>A page of one row is the start key alone: with a page size of one the census stops after the first
  package and reports it as the whole registry.\<close>

theorem npm_single_row_pages_stop:
  assumes "serves_all_docs web cfg 1 (i # ids)" and "nc_npm_page_size cfg \<le> 1" and "package_ids (i # ids)"
    and "nc_npm_start_key cfg = None" and "nc_npm_limit cfg = 0"
  shows "fetch_npm_all_docs_packages web cfg (Suc (Suc fuel)) = Some (Inr [normalize_package_name Npm i])"
proof -
  have psize: "max (nc_npm_page_size cfg) (Suc 0) = Suc 0"
    using assms(2) by simp
  have pages: "npm_all_docs_page web cfg None 1 = Inr (1, [i])" "npm_all_docs_page web cfg (Some i) 1 = Inr (1, [i])"
    using npm_page_served [OF assms(1), of None] npm_page_served [OF assms(1), of "Some i"] by (simp_all add: all_docs_from_def)
  have "\<not> starts_with i ''_''" "\<not> u64_max \<le> 1"
    using assms(3) by (simp_all add: package_ids_def u64_max_def)
  then show ?thesis
    using pages by (simp add: fetch_npm_all_docs_packages_def psize assms(4,5) census_limit_def)
qed

text \<open>A registry of three packages behind a web that answers by the requested URL.\<close>

definition small_registry :: "string list" where
  "small_registry = [''a'', ''@s/b'', ''C'']"

definition small_npm_config :: "nat \<Rightarrow> census_config" where
  "small_npm_config page_size = \<lparr>nc_pypi_base = ''p'', nc_npm_all_docs_base = ''r/'', nc_crates_io_base = ''c'',
     nc_npm_page_size = page_size, nc_npm_start_key = None, nc_npm_limit = 0, nc_pypi_limit = 0, nc_crates_page_size = 100,
     nc_crates_start_page = 1, nc_crates_limit = 0\<rparr>"

definition small_npm_web :: "nat \<Rightarrow> census_web" where
  "small_npm_web page_size = \<lparr>
     nw_get = (\<lambda>url. Inr (200, case find (\<lambda>i. url = ''r?limit='' @ show_nat page_size @ ''&startkey='' @ i) small_registry of
       Some i \<Rightarrow> i | None \<Rightarrow> [])),
     nw_rows = (\<lambda>body. Some (take page_size (all_docs_from small_registry (if body = [] then None else Some body)))),
     nw_crates = (\<lambda>_. None), nw_json_string = id, nw_url_encode = id\<rparr>"

lemmas small_npm_defs = small_registry_def small_npm_config_def small_npm_web_def serves_all_docs_def package_ids_def
  npm_all_docs_url_def all_docs_from_def trim_end_slashes_def starts_with_def u64_max_def

lemma small_npm_serves:
  "serves_all_docs (small_npm_web 2) (small_npm_config 2) 2 small_registry"
  "serves_all_docs (small_npm_web 1) (small_npm_config 1) 1 small_registry"
  by (simp_all add: small_npm_defs)

lemma small_npm_names: "map (normalize_package_name Npm) small_registry = [''a'', ''@s/b'', ''c'']"
  by code_simp

lemma small_registry_ids: "package_ids small_registry" "length small_registry < 4" "length small_registry < u64_max"
  by (simp_all add: small_npm_defs)

lemma small_npm_config_simps:
  "nc_npm_page_size (small_npm_config n) = n" "nc_npm_start_key (small_npm_config n) = None"
  "nc_npm_limit (small_npm_config n) = 0"
  by (simp_all add: small_npm_config_def)

lemma npm_census_complete_witness:
  "fetch_npm_all_docs_packages (small_npm_web 2) (small_npm_config 2) 4 = Some (Inr [''a'', ''@s/b'', ''c''])"
  using npm_census_complete [of "small_npm_web 2" "small_npm_config 2" small_registry 4] small_npm_serves(1)
  by (simp add: small_npm_config_simps small_registry_ids small_npm_names)

lemma npm_single_row_pages_stop_witness:
  "fetch_npm_all_docs_packages (small_npm_web 1) (small_npm_config 1) (Suc (Suc 0)) = Some (Inr [''a''])"
  using npm_single_row_pages_stop [of "small_npm_web 1" "small_npm_config 1" "''a''" "[''@s/b'', ''C'']" 0]
    small_npm_serves(2) small_registry_ids(1) small_npm_names
  by (simp add: small_npm_config_simps small_registry_def)

section \<open>Reading the PyPI index\<close>

text \<open>The JSON of the simple index as PyPI serves it: its version, then one object per project.\<close>

definition quoted :: "string \<Rightarrow> string" where
  "quoted s = CHR 0x22 # s @ [CHR 0x22]"

definition index_start :: "nat \<Rightarrow> string" where
  "index_start serial = ''{'' @ quoted ''meta'' @ '':{'' @ quoted ''_last-serial'' @ '':'' @ show_nat serial @ '','' @ quoted ''api-version''
     @ '':'' @ quoted ''1.1'' @ ''},'' @ quoted ''projects'' @ '':[''"

definition entry_start :: "nat \<Rightarrow> string" where
  "entry_start serial = ''{'' @ quoted ''_last-serial'' @ '':'' @ show_nat serial @ '',''"

fun index_entries :: "(nat \<times> string) list \<Rightarrow> string" where
  "index_entries [] = '']}''"
| "index_entries ((serial, name) # ps) =
     entry_start serial @ quoted ''name'' @ '':'' @ quoted name @ (if ps = [] then ''}'' else ''},'') @ index_entries ps"

definition simple_index :: "nat \<Rightarrow> (nat \<times> string) list \<Rightarrow> string" where
  "simple_index serial ps = index_start serial @ index_entries ps"

text \<open>A gap: text in and around which the key cannot be found.\<close>

definition gap :: "string \<Rightarrow> bool" where
  "gap r \<longleftrightarrow> (\<forall>t. find_sub (r @ t) name_key = map_option (\<lambda>n. length r + n) (find_sub t name_key))"

lemma gap_Nil: "gap []"
  by (simp add: gap_def option.map_ident)

lemma gap_append: "gap a \<Longrightarrow> gap b \<Longrightarrow> gap (a @ b)"
  by (simp add: gap_def option.map_comp comp_def add.assoc)

lemma gap_plain: "CHR 0x22 \<notin> set r \<Longrightarrow> gap r"
  unfolding gap_def by (auto intro!: find_sub_skip simp: name_key_def)

lemma gap_Cons: "gap r \<Longrightarrow> (\<And>t. \<not> starts_with (c # r @ t) name_key) \<Longrightarrow> gap (c # r)"
  by (simp add: gap_def option.map_comp comp_def)

lemma gap_show_nat: "gap r \<Longrightarrow> gap (show_nat n @ r)"
  by (rule gap_append, rule gap_plain) (auto dest: show_nat_digits simp: is_digit_def byte_def)

lemmas gap_rules = gap_Nil gap_Cons gap_show_nat

lemma gap_entry_start: "gap (entry_start n)"
  by (simp add: entry_start_def quoted_def) (intro gap_rules; simp add: starts_with_def name_key_def)

lemma gap_index_start: "gap (index_start n)"
  by (simp add: index_start_def quoted_def) (intro gap_rules; simp add: starts_with_def name_key_def)

lemma gap_key: "gap r \<Longrightarrow> find_sub (r @ name_key @ t) name_key = Some (length r)"
  by (simp add: gap_def find_sub_here)

lemma scan_name_plain:
  "CHR 0x22 \<notin> set n \<Longrightarrow> CHR 0x5C \<notin> set n \<Longrightarrow> scan_name (n @ CHR 0x22 # rest) = (Some n, rest)"
proof (induction n)
  case Nil
  then show ?case
    by (cases rest) auto
next
  case (Cons c n)
  then show ?case
    by (cases n) auto
qed

lemma utf8_valid_ascii: "list_all plain_ascii n \<Longrightarrow> utf8_valid (map byte n)"
  by (induction n) (auto simp: plain_ascii_def)

definition index_name :: "string \<Rightarrow> bool" where
  "index_name n \<longleftrightarrow> list_all (\<lambda>c. plain_ascii c \<and> c \<noteq> CHR 0x22 \<and> c \<noteq> CHR 0x5C) n"

lemma extract_step:
  assumes "gap r" "index_name n" "length names < limit"
  shows "extract_names_loop limit (r @ quoted ''name'' @ '':'' @ quoted n @ rest) names
    = extract_names_loop limit rest (names @ [n])"
proof -
  have "find_sub (r @ quoted ''name'' @ '':'' @ quoted n @ rest) name_key = Some (length r)"
    using gap_key [OF assms(1)] by (simp add: name_key_def quoted_def)
  moreover have "scan_name (n @ CHR 0x22 # rest) = (Some n, rest)" "utf8_valid (map byte n)"
    using assms(2) scan_name_plain [of n rest] utf8_valid_ascii [of n] by (auto simp: index_name_def list_all_iff)
  ultimately show ?thesis
    using assms(3) by (subst extract_names_loop.simps) (simp add: name_key_def quoted_def ascii_ws_def byte_def)
qed

lemma extract_end: "gap r \<Longrightarrow> extract_names_loop limit (r @ '']}'') names = names"
  by (subst extract_names_loop.simps) (simp add: gap_def name_key_def starts_with_def)

lemma extract_entries:
  "gap r \<Longrightarrow> list_all (\<lambda>(_, n). index_name n) ps
    \<Longrightarrow> extract_names_loop limit (r @ index_entries ps) names = names @ take (limit - length names) (map snd ps)"
proof (induction ps arbitrary: r names)
  case Nil
  then show ?case
    by (simp add: extract_end)
next
  case (Cons p ps)
  obtain serial n where p: "p = (serial, n)"
    by (cases p)
  define sep where "sep = (if ps = [] then ''}'' else ''},'')"
  have sep: "gap sep"
    by (simp add: sep_def gap_plain)
  show ?case
  proof (cases "length names < limit")
    case True
    have "gap (r @ entry_start serial)"
      using Cons.prems(1) gap_entry_start by (rule gap_append)
    then have "extract_names_loop limit (r @ index_entries (p # ps)) names
        = extract_names_loop limit (sep @ index_entries ps) (names @ [n])"
      using extract_step [of "r @ entry_start serial" n names limit "sep @ index_entries ps"] True Cons.prems(2)
      by (simp add: p sep_def)
    also have "\<dots> = names @ [n] @ take (limit - Suc (length names)) (map snd ps)"
      using Cons.IH [OF sep] Cons.prems(2) by simp
    finally show ?thesis
      using True by (simp add: p take_Cons' Suc_diff_Suc)
  qed (simp add: extract_names_loop.simps)
qed

text \<open>C30: The byte scanner reads back from the index the names of the projects it lists, in order and at most as many
  as the limit: neither \<open>_last-serial\<close> nor \<open>api-version\<close> nor anything else in it is taken for a name.\<close>

theorem pypi_index_read:
  assumes "list_all (\<lambda>(_, n). index_name n) ps"
  shows "extract_pypi_project_names (simple_index serial ps) limit = take limit (map snd ps)"
  using extract_entries [OF gap_index_start assms, where limit = limit and names = "[]"]
  by (simp add: extract_pypi_project_names_def simple_index_def)

theorem pypi_index_read_witness:
  "extract_pypi_project_names (simple_index 7 [(1, ''name''), (2, ''b-c''), (3, ''d'')]) 2 = [''name'', ''b-c'']"
  by (subst pypi_index_read) (simp_all add: index_name_def plain_ascii_def byte_def)

end
