(* ===== verification/Collector.thy ===== *)
theory Collector
  imports Provenance Priority_Data
begin

text \<open>
  The graph collector (\<open>collector.rs\<close>): from a list of seed packages it walks the dependency graph in the
  registries breadth first, to a depth and up to a number of packages, and gives the score input of what it found.
  The web is an argument: the answer to each URL through the throttles, JSON text, the order in which concurrent
  requests complete and in which a \<open>HashMap\<close> lists its keys.  The typed \<open>serde\<close> decoders of the registries' documents
  are written out; a JSON array in the place of a struct is refused.  A panic is \<open>None\<close>.
\<close>

section \<open>Typed decoding\<close>

text \<open>An \<open>Option\<close> field, a field with a default, and a required one; only the first accepts null.\<close>

definition field_opt :: "(json \<Rightarrow> 'a option) \<Rightarrow> json \<Rightarrow> string \<Rightarrow> 'a option option" where
  "field_opt dec v k = (case json_get v k of
     None \<Rightarrow> Some None | Some JNull \<Rightarrow> Some None | Some w \<Rightarrow> map_option Some (dec w))"

definition field_default :: "'a \<Rightarrow> (json \<Rightarrow> 'a option) \<Rightarrow> json \<Rightarrow> string \<Rightarrow> 'a option" where
  "field_default d dec v k = (case json_get v k of None \<Rightarrow> Some d | Some w \<Rightarrow> dec w)"

definition field_required :: "(json \<Rightarrow> 'a option) \<Rightarrow> json \<Rightarrow> string \<Rightarrow> 'a option" where
  "field_required dec v k = Option.bind (json_get v k) dec"

definition decode_list :: "(json \<Rightarrow> 'a option) \<Rightarrow> json \<Rightarrow> 'a list option" where
  "decode_list dec v = Option.bind (as_array v) (\<lambda>xs. those (map dec xs))"

definition decode_map :: "(json \<Rightarrow> 'a option) \<Rightarrow> json \<Rightarrow> (string \<times> 'a) list option" where
  "decode_map dec v = Option.bind (as_object v) (\<lambda>fs. those (map (\<lambda>(k, w). map_option (Pair k) (dec w)) fs))"

record npm_latest_manifest =
  nl_dependencies :: "(string \<times> string) list option"
  nl_repository :: "json option"

record npm_version_meta =
  nv_dependencies :: "(string \<times> string) list"
  nv_repository :: "json option"

record collector_packument =
  nq_latest :: "string option"
  nq_versions :: "(string \<times> npm_version_meta) list"

record pypi_info =
  pj_requires_dist :: "string list"
  pj_home_page :: "string option"
  pj_project_urls :: "(string \<times> string) list option"

record crates_dependency =
  cd_name :: string
  cd_kind :: "string option"
  cd_optional :: bool

record crates_metadata =
  cm_downloads :: "f64 option"
  cm_max_stable_version :: "string option"
  cm_max_version :: "string option"
  cm_repository :: "string option"
  cm_homepage :: "string option"

record crates_index_entry =
  ci_deps :: "crates_dependency list"
  ci_yanked :: bool

definition decode_npm_latest_manifest :: "json \<Rightarrow> npm_latest_manifest option" where
  "decode_npm_latest_manifest v =
     (case (as_object v, field_opt (decode_map as_str) v ''dependencies'', field_opt Some v ''repository'') of
        (Some _, Some deps, Some repo) \<Rightarrow> Some \<lparr>nl_dependencies = deps, nl_repository = repo\<rparr>
      | _ \<Rightarrow> None)"

definition decode_npm_version_meta :: "json \<Rightarrow> npm_version_meta option" where
  "decode_npm_version_meta v =
     (case (as_object v, field_default [] (decode_map as_str) v ''dependencies'', field_opt Some v ''repository'') of
        (Some _, Some deps, Some repo) \<Rightarrow> Some \<lparr>nv_dependencies = deps, nv_repository = repo\<rparr>
      | _ \<Rightarrow> None)"

definition decode_npm_packument :: "json \<Rightarrow> collector_packument option" where
  "decode_npm_packument v =
     (case (Option.bind (field_required as_object v ''dist-tags'') (\<lambda>fs. field_opt as_str (JObject fs) ''latest''),
            field_required (decode_map decode_npm_version_meta) v ''versions'') of
        (Some latest, Some versions) \<Rightarrow> Some \<lparr>nq_latest = latest, nq_versions = versions\<rparr>
      | _ \<Rightarrow> None)"

definition decode_pypi_info :: "json \<Rightarrow> pypi_info option" where
  "decode_pypi_info v =
     (case (as_object v, field_default [] (decode_list as_str) v ''requires_dist'', field_opt as_str v ''home_page'',
            field_opt (decode_map as_str) v ''project_urls'') of
        (Some _, Some requires, Some home, Some urls) \<Rightarrow>
          Some \<lparr>pj_requires_dist = requires, pj_home_page = home, pj_project_urls = urls\<rparr>
      | _ \<Rightarrow> None)"

text \<open>The index calls the dependency \<open>name\<close>, the API \<open>crate_id\<close>.\<close>

definition decode_crates_dependency :: "string \<Rightarrow> json \<Rightarrow> crates_dependency option" where
  "decode_crates_dependency name_field v =
     (case (field_required as_str v name_field, field_opt as_str v ''kind'', field_default False as_bool v ''optional'') of
        (Some name, Some kind, Some optional) \<Rightarrow> Some \<lparr>cd_name = name, cd_kind = kind, cd_optional = optional\<rparr>
      | _ \<Rightarrow> None)"

definition decode_crates_index_entry :: "json \<Rightarrow> crates_index_entry option" where
  "decode_crates_index_entry v =
     (case (as_object v, field_default [] (decode_list (decode_crates_dependency ''name'')) v ''deps'',
            field_default False as_bool v ''yanked'') of
        (Some _, Some deps, Some yanked) \<Rightarrow> Some \<lparr>ci_deps = deps, ci_yanked = yanked\<rparr>
      | _ \<Rightarrow> None)"

definition decode_crates_metadata :: "json \<Rightarrow> crates_metadata option" where
  "decode_crates_metadata raw = Option.bind (json_get raw ''crate'') (\<lambda>v.
     case (as_object v, field_opt as_f64 v ''downloads'', field_opt as_str v ''max_stable_version'', field_opt as_str v ''max_version'',
           field_opt as_str v ''repository'', field_opt as_str v ''homepage'') of
       (Some _, Some downloads, Some max_stable, Some max_version, Some repo, Some home) \<Rightarrow>
         Some \<lparr>cm_downloads = downloads, cm_max_stable_version = max_stable, cm_max_version = max_version,
               cm_repository = repo, cm_homepage = home\<rparr>
     | _ \<Rightarrow> None)"

section \<open>Pure helpers\<close>

text \<open>\<open>&s[..i]\<close> panics unless \<open>i\<close> is a character boundary of \<open>s\<close>.\<close>

definition char_boundary :: "string \<Rightarrow> nat \<Rightarrow> bool" where
  "char_boundary s i \<longleftrightarrow> i = length s \<or> (i < length s \<and> \<not> is_cont (s ! i))"

definition crates_index_path :: "string \<Rightarrow> string option" where
  "crates_index_path package =
     (let p = to_ascii_lowercase package in
      if length p = 1 then Some (''1/'' @ p)
      else if length p = 2 then Some (''2/'' @ p)
      else if length p = 3 then
        (if char_boundary p 1 then Some (''3/'' @ take 1 p @ ''/'' @ p) else None)
      else if char_boundary p 2 \<and> char_boundary p 4
      then Some (take 2 p @ ''/'' @ take 2 (drop 2 p) @ ''/'' @ p) else None)"

text \<open>The last line that is not yanked, or else the last line; one line that does not parse fails the search.\<close>

fun latest_entry :: "(string \<Rightarrow> json option) \<Rightarrow> string list \<Rightarrow> crates_index_entry option \<Rightarrow> string + crates_index_entry" where
  "latest_entry parse [] yanked = (case yanked of
     Some e \<Rightarrow> Inr e | None \<Rightarrow> Inl ''crates.io sparse index body did not contain any version rows'')"
| "latest_entry parse (line # rest) yanked =
     (if trim line = [] then latest_entry parse rest yanked
      else case Option.bind (parse line) decode_crates_index_entry of
        None \<Rightarrow> Inl ''failed to parse crates.io sparse index row''
      | Some e \<Rightarrow> if \<not> ci_yanked e then Inr e
                  else latest_entry parse rest (case yanked of Some y \<Rightarrow> Some y | None \<Rightarrow> Some e))"

definition select_latest_crates_index_entry :: "(string \<Rightarrow> json option) \<Rightarrow> string \<Rightarrow> string + crates_index_entry" where
  "select_latest_crates_index_entry parse body = latest_entry parse (rev (str_lines body)) None"

definition normal_dependencies :: "crates_dependency list \<Rightarrow> string list" where
  "normal_dependencies deps =
     map (normalize_package_name CratesIo \<circ> cd_name)
       (filter (\<lambda>d. (case cd_kind d of None \<Rightarrow> True | Some kind \<Rightarrow> kind = ''normal'') \<and> \<not> cd_optional d) deps)"

text \<open>The edges that leave node 0, which is the package itself; whatever is malformed is skipped.\<close>

definition deps_dev_edge_target :: "json list \<Rightarrow> json \<Rightarrow> string option" where
  "deps_dev_edge_target nodes edge =
     (if Option.bind (json_get edge ''fromNode'') as_u64 \<noteq> Some 0 then None
      else case Option.bind (json_get edge ''toNode'') as_u64 of
        None \<Rightarrow> None
      | Some to \<Rightarrow> if to < length nodes then Option.bind (json_pointer (nodes ! to) [''versionKey'', ''name'']) as_str else None)"

definition extract_deps_dev_direct_dependencies :: "ecosystem \<Rightarrow> json \<Rightarrow> string + string list" where
  "extract_deps_dev_direct_dependencies eco raw =
     (case Option.bind (json_get raw ''nodes'') as_array of
        None \<Rightarrow> Inl ''deps.dev dependency graph missing nodes''
      | Some nodes \<Rightarrow> (case Option.bind (json_get raw ''edges'') as_array of
          None \<Rightarrow> Inl ''deps.dev dependency graph missing edges''
        | Some edges \<Rightarrow> Inr (btree_set (map (normalize_package_name eco) (List.map_filter (deps_dev_edge_target nodes) edges)))))"

section \<open>Fetching a package\<close>

record collected_node =
  cn_direct_popularity :: "f64 option"
  cn_dependencies :: "string list"
  cn_repository :: "repository_ref option"
  cn_used_external_fallback :: bool

text \<open>\<open>lw_json\<close> is a request whose answer has a good status and is JSON, \<open>lw_text\<close> one whose answer is text.\<close>

record collect_web =
  lw_json :: "string \<Rightarrow> string + json"
  lw_text :: "string \<Rightarrow> string + string"
  lw_parse :: "string \<Rightarrow> json option"
  lw_url_encode :: "string \<Rightarrow> string"
  lw_key_order :: "string list \<Rightarrow> string list"
  lw_completion :: "(ecosystem \<times> string) list \<Rightarrow> (ecosystem \<times> string) list"

record collector_endpoints =
  ce_npm_registry_base :: string
  ce_pypi_project_base :: string
  ce_crates_base :: string
  ce_crates_index_base :: string
  ce_deps_dev_base :: string

definition default_endpoints :: collector_endpoints where
  "default_endpoints = \<lparr>ce_npm_registry_base = ''https://registry.npmjs.org'', ce_pypi_project_base = ''https://pypi.org/pypi'',
     ce_crates_base = ''https://crates.io/api/v1'', ce_crates_index_base = ''https://index.crates.io'',
     ce_deps_dev_base = ''https://api.deps.dev/v3''\<rparr>"

definition hash_keys :: "collect_web \<Rightarrow> (string \<times> 'v) list \<Rightarrow> string list" where
  "hash_keys web m = lw_key_order web (remdups (map fst m))"

definition fetch_decoded :: "collect_web \<Rightarrow> (json \<Rightarrow> 'a option) \<Rightarrow> string \<Rightarrow> string \<Rightarrow> string + 'a" where
  "fetch_decoded web dec err url = (case lw_json web url of
     Inl e \<Rightarrow> Inl e
   | Inr v \<Rightarrow> (case dec v of Some a \<Rightarrow> Inr a | None \<Rightarrow> Inl err))"

definition npm_repository :: "datetime \<Rightarrow> string \<Rightarrow> json option \<Rightarrow> repository_ref option" where
  "npm_repository now pkg repository = Option.bind repository (\<lambda>v.
     extract_package_repository_identity now Npm pkg (JObject [(''repository'', v)]) ''collector_registry_metadata'' (Some f64_one))"

definition fetch_npm_latest_node :: "collect_web \<Rightarrow> datetime \<Rightarrow> string \<Rightarrow> string \<Rightarrow> string + collected_node" where
  "fetch_npm_latest_node web now pkg encoded =
     map_sum id (\<lambda>raw. \<lparr>cn_direct_popularity = None,
         cn_dependencies = map (normalize_package_name Npm) (hash_keys web (case nl_dependencies raw of Some m \<Rightarrow> m | None \<Rightarrow> [])),
         cn_repository = npm_repository now pkg (nl_repository raw), cn_used_external_fallback = False\<rparr>)
       (fetch_decoded web decode_npm_latest_manifest (''failed to decode npm latest manifest for '' @ pkg)
         (ce_npm_registry_base default_endpoints @ ''/'' @ encoded @ ''/latest''))"

definition fetch_npm_packument_node :: "collect_web \<Rightarrow> datetime \<Rightarrow> string \<Rightarrow> string \<Rightarrow> string + collected_node" where
  "fetch_npm_packument_node web now pkg encoded =
     (case fetch_decoded web decode_npm_packument (''failed to decode npm packument for '' @ pkg)
         (ce_npm_registry_base default_endpoints @ ''/'' @ encoded) of
        Inl e \<Rightarrow> Inl e
      | Inr raw \<Rightarrow> (case nq_latest raw of
          None \<Rightarrow> Inl ''missing dist-tags.latest''
        | Some latest \<Rightarrow> (case map_of (rev (nq_versions raw)) latest of
            None \<Rightarrow> Inl (''missing latest npm version metadata for '' @ pkg)
          | Some meta \<Rightarrow> Inr \<lparr>cn_direct_popularity = None,
              cn_dependencies = map (normalize_package_name Npm) (hash_keys web (nv_dependencies meta)),
              cn_repository = npm_repository now pkg (nv_repository meta), cn_used_external_fallback = False\<rparr>)))"

definition fetch_npm_node :: "collect_web \<Rightarrow> datetime \<Rightarrow> string \<Rightarrow> string + collected_node" where
  "fetch_npm_node web now pkg =
     (let encoded = lw_url_encode web pkg in
      case fetch_npm_latest_node web now pkg encoded of
        Inr node \<Rightarrow> Inr node
      | Inl _ \<Rightarrow> fetch_npm_packument_node web now pkg encoded)"

definition json_opt_string :: "string option \<Rightarrow> json" where
  "json_opt_string v = (case v of Some s \<Rightarrow> JString s | None \<Rightarrow> JNull)"

definition fetch_pypi_node :: "collect_web \<Rightarrow> datetime \<Rightarrow> string \<Rightarrow> string + collected_node" where
  "fetch_pypi_node web now pkg =
     map_sum id (\<lambda>info. \<lparr>cn_direct_popularity = None,
         cn_dependencies = map (normalize_package_name Pypi) (List.map_filter parse_pypi_requirement_name (pj_requires_dist info)),
         cn_repository = extract_package_repository_identity now Pypi pkg
           (JObject [(''home_page'', json_opt_string (pj_home_page info)),
                     (''project_urls'', case pj_project_urls info of
                        Some urls \<Rightarrow> JObject (in_key_order (map (apsnd JString) urls)) | None \<Rightarrow> JNull)])
           ''collector_registry_metadata'' (Some f64_one),
         cn_used_external_fallback = False\<rparr>)
       (fetch_decoded web (\<lambda>v. field_required decode_pypi_info v ''info'') (''failed to decode PyPI metadata for '' @ pkg)
         (ce_pypi_project_base default_endpoints @ ''/'' @ lw_url_encode web pkg @ ''/json''))"

definition fetch_crates_index_node :: "collect_web \<Rightarrow> string \<Rightarrow> (string + collected_node) option" where
  "fetch_crates_index_node web pkg = map_option (\<lambda>index_path.
     case lw_text web (ce_crates_index_base default_endpoints @ ''/'' @ index_path) of
       Inl e \<Rightarrow> Inl e
     | Inr body \<Rightarrow>
         map_sum id (\<lambda>entry. \<lparr>cn_direct_popularity = None, cn_dependencies = normal_dependencies (ci_deps entry),
             cn_repository = None, cn_used_external_fallback = False\<rparr>)
           (select_latest_crates_index_entry (lw_parse web) body)) (crates_index_path pkg)"

definition fetch_crates_api_node :: "collect_web \<Rightarrow> datetime \<Rightarrow> string \<Rightarrow> string + collected_node" where
  "fetch_crates_api_node web now pkg =
     (let base = ce_crates_base default_endpoints @ ''/crates/'' @ lw_url_encode web pkg in
      case fetch_decoded web decode_crates_metadata (''failed to decode crates.io metadata for '' @ pkg) base of
        Inl e \<Rightarrow> Inl e
      | Inr raw \<Rightarrow> (case (case cm_max_stable_version raw of Some v \<Rightarrow> Some v | None \<Rightarrow> cm_max_version raw) of
          None \<Rightarrow> Inl ''missing crates.io latest version''
        | Some latest \<Rightarrow>
            map_sum id (\<lambda>deps. \<lparr>cn_direct_popularity = cm_downloads raw, cn_dependencies = normal_dependencies deps,
                cn_repository = extract_package_repository_identity now CratesIo pkg
                  (JObject [(''crate'', JObject [(''homepage'', json_opt_string (cm_homepage raw)),
                                               (''repository'', json_opt_string (cm_repository raw))])])
                  ''collector_registry_metadata'' (Some f64_one),
                cn_used_external_fallback = False\<rparr>)
              (fetch_decoded web
                (\<lambda>v. Option.bind (as_object v) (\<lambda>_. field_default [] (decode_list (decode_crates_dependency ''crate_id'')) v ''dependencies''))
                (''failed to decode crates.io dependencies for '' @ pkg) (base @ ''/'' @ latest @ ''/dependencies''))))"

definition fetch_crates_node :: "collect_web \<Rightarrow> datetime \<Rightarrow> string \<Rightarrow> (string + collected_node) option" where
  "fetch_crates_node web now pkg = (case fetch_crates_index_node web pkg of
     None \<Rightarrow> None
   | Some (Inr node) \<Rightarrow> Some (Inr node)
   | Some (Inl _) \<Rightarrow> Some (fetch_crates_api_node web now pkg))"

definition fetch_deps_dev_node :: "collect_web \<Rightarrow> ecosystem \<Rightarrow> string \<Rightarrow> string + collected_node" where
  "fetch_deps_dev_node web eco pkg =
     (let base = ce_deps_dev_base default_endpoints @ ''/systems/'' @ deps_dev_v3_system eco @ ''/packages/'' @ lw_url_encode web pkg in
      case lw_json web base of
        Inl e \<Rightarrow> Inl e
      | Inr package_raw \<Rightarrow> (case select_deps_dev_default_version package_raw of
          None \<Rightarrow> Inl ''missing deps.dev default version''
        | Some version \<Rightarrow> (case lw_json web (base @ ''/versions/'' @ lw_url_encode web version @ '':dependencies'') of
            Inl e \<Rightarrow> Inl e
          | Inr raw \<Rightarrow>
              map_sum id (\<lambda>deps. \<lparr>cn_direct_popularity = None, cn_dependencies = deps, cn_repository = None,
                  cn_used_external_fallback = True\<rparr>)
                (extract_deps_dev_direct_dependencies eco raw))))"

definition fetch_node :: "collect_web \<Rightarrow> datetime \<Rightarrow> bool \<Rightarrow> ecosystem \<times> string \<Rightarrow> (string + collected_node) option" where
  "fetch_node web now allow_external_fallback = (\<lambda>(eco, pkg).
     (case (case eco of Npm \<Rightarrow> Some (fetch_npm_node web now pkg) | Pypi \<Rightarrow> Some (fetch_pypi_node web now pkg)
              | CratesIo \<Rightarrow> fetch_crates_node web now pkg) of
        None \<Rightarrow> None
      | Some (Inr node) \<Rightarrow> Some (Inr node)
      | Some (Inl err) \<Rightarrow>
          if allow_external_fallback
          then Some (case fetch_deps_dev_node web eco pkg of
            Inr node \<Rightarrow> Inr node
          | Inl _ \<Rightarrow> Inl ''registry fetch failed and deps.dev fallback also failed'')
          else Some (Inl err)))"

definition fetch_package_repository_identity ::
  "collect_web \<Rightarrow> datetime \<Rightarrow> ecosystem \<Rightarrow> string \<Rightarrow> (string + repository_ref option) option" where
  "fetch_package_repository_identity web now eco pkg = map_option (map_sum id cn_repository) (fetch_node web now False (eco, pkg))"

section \<open>The walk\<close>

record collect_config =
  cl_max_depth :: nat
  cl_max_packages :: nat
  cl_request_concurrency :: nat
  cl_allow_external_fallback :: bool

record seed_record =
  se_ecosystem :: ecosystem
  se_package :: string
  se_direct_popularity :: "f64 option"

definition seed_key :: "seed_record \<Rightarrow> ecosystem \<times> string" where
  "seed_key r = (se_ecosystem r, normalize_package_name (se_ecosystem r) (se_package r))"

definition popularity_map :: "seed_record list \<Rightarrow> ((ecosystem \<times> string) \<times> f64) list" where
  "popularity_map rs = fold (\<lambda>r m.
     let popularity = f64_max (case se_direct_popularity r of Some p \<Rightarrow> p | None \<Rightarrow> f64_zero) f64_zero in
     AList.update (seed_key r) (case map_of m (seed_key r) of Some current \<Rightarrow> f64_max current popularity | None \<Rightarrow> popularity) m) rs []"

record collect_state =
  ct_seen :: "(ecosystem \<times> string) set"
  ct_packages :: "((ecosystem \<times> string) \<times> f64 option) list"
  ct_edges :: "(ecosystem \<times> string \<times> string) list"
  ct_repositories :: "((ecosystem \<times> string) \<times> repository_ref) list"
  ct_fetch_failures :: nat
  ct_external_fallback_fetches :: nat

definition collect_start :: collect_state where
  "collect_start = \<lparr>ct_seen = {}, ct_packages = [], ct_edges = [], ct_repositories = [], ct_fetch_failures = 0,
     ct_external_fallback_fetches = 0\<rparr>"

text \<open>The packages of the frontier that are fetched on a level: each once, while there is room.\<close>

fun schedule :: "nat \<Rightarrow> (ecosystem \<times> string) set \<Rightarrow> (ecosystem \<times> string) set \<Rightarrow> (ecosystem \<times> string) list
    \<Rightarrow> (ecosystem \<times> string) list \<Rightarrow> (ecosystem \<times> string) set \<times> (ecosystem \<times> string) list" where
  "schedule capacity seen scheduled_set scheduled [] = (seen, scheduled)"
| "schedule capacity seen scheduled_set scheduled (p # frontier) =
     (if p \<in> seen \<or> p \<in> scheduled_set then schedule capacity seen scheduled_set scheduled frontier
      else if capacity \<le> length scheduled then (seen, scheduled)
      else schedule capacity (insert p seen) (insert p scheduled_set) (scheduled @ [p]) frontier)"

fun absorb_dependencies :: "bool \<Rightarrow> ecosystem \<times> string \<Rightarrow> string list \<Rightarrow> collect_state \<times> (ecosystem \<times> string) list
    \<Rightarrow> collect_state \<times> (ecosystem \<times> string) list" where
  "absorb_dependencies deeper (eco, pkg) [] acc = acc"
| "absorb_dependencies deeper (eco, pkg) (d # ds) (st, next_frontier) =
     absorb_dependencies deeper (eco, pkg) ds
       (st\<lparr>ct_edges := insort_insert (eco, pkg, d) (ct_edges st)\<rparr>,
        if deeper \<and> (eco, d) \<notin> ct_seen st then next_frontier @ [(eco, d)] else next_frontier)"

definition absorb_fetch :: "((ecosystem \<times> string) \<times> f64) list \<Rightarrow> bool \<Rightarrow> (ecosystem \<times> string) \<times> (string + collected_node)
    \<Rightarrow> collect_state \<times> (ecosystem \<times> string) list \<Rightarrow> collect_state \<times> (ecosystem \<times> string) list" where
  "absorb_fetch popularity deeper = (\<lambda>(p, result) (st, next_frontier). case result of
     Inr node \<Rightarrow>
       (let direct = (case map_of popularity p of Some v \<Rightarrow> Some v | None \<Rightarrow> cn_direct_popularity node);
            or_zero = (\<lambda>v. case v of Some x \<Rightarrow> x | None \<Rightarrow> f64_zero) in
        absorb_dependencies deeper p (cn_dependencies node)
          (st\<lparr>ct_packages := AList.update p (case map_of (ct_packages st) p of
                  Some current \<Rightarrow> Some (f64_max (or_zero current) (or_zero direct)) | None \<Rightarrow> direct) (ct_packages st),
              ct_repositories := (case cn_repository node of
                  Some r \<Rightarrow> AList.update p r (ct_repositories st) | None \<Rightarrow> ct_repositories st),
              ct_external_fallback_fetches := ct_external_fallback_fetches st + (if cn_used_external_fallback node then 1 else 0)\<rparr>,
           next_frontier))
   | Inl _ \<Rightarrow>
       (st\<lparr>ct_fetch_failures := ct_fetch_failures st + 1,
           ct_packages := AList.update p (case map_of (ct_packages st) p of
               Some current \<Rightarrow> current | None \<Rightarrow> map_of popularity p) (ct_packages st)\<rparr>, next_frontier))"

text \<open>The levels \<open>0..=max_depth\<close>; a panic of one request ends the program.\<close>

fun collect_levels :: "collect_web \<Rightarrow> datetime \<Rightarrow> collect_config \<Rightarrow> ((ecosystem \<times> string) \<times> f64) list \<Rightarrow> nat list
    \<Rightarrow> (ecosystem \<times> string) list \<Rightarrow> collect_state \<Rightarrow> collect_state option" where
  "collect_levels web now cfg popularity [] frontier st = Some st"
| "collect_levels web now cfg popularity (depth # depths) frontier st =
     (if frontier = [] \<or> cl_max_packages cfg \<le> card (ct_seen st) then Some st
      else case schedule (cl_max_packages cfg - card (ct_seen st)) (ct_seen st) {} [] frontier of (seen, scheduled) \<Rightarrow>
        if scheduled = [] then Some (st\<lparr>ct_seen := seen\<rparr>)
        else case those (map (\<lambda>p. map_option (Pair p) (fetch_node web now (cl_allow_external_fallback cfg) p)) (lw_completion web scheduled)) of
          None \<Rightarrow> None
        | Some fetches \<Rightarrow>
            (case fold (absorb_fetch popularity (depth < cl_max_depth cfg)) fetches (st\<lparr>ct_seen := seen\<rparr>, []) of
              (st, next_frontier) \<Rightarrow> collect_levels web now cfg popularity depths next_frontier st))"

record collect_ecosystem_summary =
  cq_ecosystem :: ecosystem
  cq_packages :: nat
  cq_dependencies :: nat

record collect_summary =
  cq_seed_packages :: nat
  cq_discovered_packages :: nat
  cq_emitted_package_records :: nat
  cq_emitted_dependency_records :: nat
  cq_fetch_failures :: nat
  cq_external_fallback_fetches :: nat
  cq_ecosystems :: "collect_ecosystem_summary list"

record collected_material =
  cx_records :: "score_input list"
  cx_repositories :: "repository_ref list"
  cx_summary :: collect_summary

definition collect_ecosystems :: "collect_state \<Rightarrow> collect_ecosystem_summary list" where
  "collect_ecosystems st =
     filter (\<lambda>q. cq_packages q > 0 \<or> cq_dependencies q > 0)
       (map (\<lambda>eco. \<lparr>cq_ecosystem = eco, cq_packages = length (filter (\<lambda>p. fst (fst p) = eco) (ct_packages st)),
                   cq_dependencies = length (filter (\<lambda>e. fst e = eco) (ct_edges st))\<rparr>) [Npm, Pypi, CratesIo])"

definition collected_material_of :: "nat \<Rightarrow> collect_state \<Rightarrow> collected_material" where
  "collected_material_of seeds st =
     \<lparr>cx_records =
        map (\<lambda>((eco, pkg), popularity). SI_Package eco pkg (case popularity of Some p \<Rightarrow> p | None \<Rightarrow> f64_zero)) (in_key_order (ct_packages st))
        @ map (\<lambda>(eco, pkg, d). SI_Dependency eco pkg d f64_one [''registry_metadata''] (Some f64_one)) (ct_edges st),
      cx_repositories = map snd (in_key_order (ct_repositories st)),
      cx_summary = \<lparr>cq_seed_packages = seeds, cq_discovered_packages = length (ct_packages st),
        cq_emitted_package_records = length (ct_packages st), cq_emitted_dependency_records = length (ct_edges st),
        cq_fetch_failures = ct_fetch_failures st, cq_external_fallback_fetches = ct_external_fallback_fetches st,
        cq_ecosystems = collect_ecosystems st\<rparr>\<rparr>"

definition collect_graph_material ::
  "collect_web \<Rightarrow> datetime \<Rightarrow> seed_record list \<Rightarrow> seed_record list \<Rightarrow> collect_config \<Rightarrow> (string + collected_material) option" where
  "collect_graph_material web now seeds popularity cfg =
     (if cl_max_packages cfg = 0 then Some (Inl ''max_packages must be greater than zero'')
      else if cl_request_concurrency cfg = 0 then Some (Inl ''request_concurrency must be greater than zero'')
      else map_option (\<lambda>st. Inr (collected_material_of (length seeds) st))
        (collect_levels web now cfg (popularity_map (seeds @ popularity)) [0..<Suc (cl_max_depth cfg)] (map seed_key seeds) collect_start))"

definition load_seed_records :: "(string \<Rightarrow> seed_record option) \<Rightarrow> file_read \<Rightarrow> string + seed_record list" where
  "load_seed_records dec f = (case f of
     NotFound \<Rightarrow> Inl ''failed to read seeds''
   | ReadFails \<Rightarrow> Inl ''failed to read seeds''
   | FileBody body \<Rightarrow> parse_ndjson ''failed to parse seed record line''
       (\<lambda>line. map_option (\<lambda>r. r\<lparr>se_package := normalize_package_name (se_ecosystem r) (se_package r)\<rparr>) (dec line)) (str_lines body))"

definition collect_graph_material_from_files ::
  "(string \<Rightarrow> seed_record option) \<Rightarrow> collect_web \<Rightarrow> datetime \<Rightarrow> file_read \<Rightarrow> file_read option \<Rightarrow> collect_config
   \<Rightarrow> (string + collected_material) option" where
  "collect_graph_material_from_files dec web now seeds popularity cfg =
     (case load_seed_records dec seeds of
        Inl e \<Rightarrow> Some (Inl e)
      | Inr seeds \<Rightarrow>
          (case (case popularity of Some f \<Rightarrow> load_seed_records dec f | None \<Rightarrow> Inr []) of
             Inl e \<Rightarrow> Some (Inl e)
           | Inr popularity \<Rightarrow> collect_graph_material web now seeds popularity cfg))"

definition collect_score_input ::
  "collect_web \<Rightarrow> datetime \<Rightarrow> seed_record list \<Rightarrow> seed_record list \<Rightarrow> collect_config
   \<Rightarrow> (string + (score_input list \<times> collect_summary)) option" where
  "collect_score_input web now seeds popularity cfg =
     map_option (map_sum id (\<lambda>m. (cx_records m, cx_summary m))) (collect_graph_material web now seeds popularity cfg)"

definition collect_score_input_from_files ::
  "(string \<Rightarrow> seed_record option) \<Rightarrow> collect_web \<Rightarrow> datetime \<Rightarrow> file_read \<Rightarrow> file_read option \<Rightarrow> collect_config
   \<Rightarrow> (string + (score_input list \<times> collect_summary)) option" where
  "collect_score_input_from_files dec web now seeds popularity cfg =
     map_option (map_sum id (\<lambda>m. (cx_records m, cx_summary m))) (collect_graph_material_from_files dec web now seeds popularity cfg)"

end
