(* ===== verification/Deps_Dev.thy ===== *)
theory Deps_Dev
  imports Collector
begin

text \<open>
  The deps.dev export (\<open>deps_dev.rs\<close>): files of dependent rows become score input, either all of them or the part of
  the graph that depends on one package, found by a breadth-first search against the edges.  Directory listings, file
  contents, gzip and JSON text are arguments; the decoder of a row with its field aliases is written out.
\<close>

section \<open>Rows\<close>

datatype direct_popularity_strategy = ConstantPopularity | DirectDependentCount

record import_config =
  ic_default_direct_popularity :: f64
  ic_include_indirect :: bool
  ic_include_non_highest :: bool
  ic_direct_popularity_strategy :: direct_popularity_strategy

record import_summary =
  ip_input_files :: nat
  im_input_rows :: nat
  im_imported_rows :: nat
  im_skipped_unsupported_system_rows :: nat
  im_skipped_indirect_rows :: nat
  im_skipped_non_highest_rows :: nat
  im_emitted_package_records :: nat
  im_emitted_dependency_records :: nat

record focus_config =
  fo_reverse_depth :: nat
  fo_max_frontier_packages :: nat
  fo_include_non_highest :: bool
  fo_default_direct_popularity :: f64
  fo_direct_popularity_strategy :: direct_popularity_strategy

record focus_summary =
  fs_input_files :: nat
  fs_input_rows :: nat
  fs_matched_rows :: nat
  fs_reverse_depth :: nat
  fs_frontier_packages :: nat
  fs_frontier_truncated :: bool
  fs_emitted_package_records :: nat
  fs_emitted_dependency_records :: nat

record dependents_row =
  dr_system :: string
  dr_name :: string
  dr_dependent_system :: string
  dr_dependent_name :: string
  dr_minimum_depth :: "nat option"
  dr_dependent_is_highest :: "bool option"

text \<open>A field under its aliases: given twice it is an error.\<close>

definition aliased :: "json \<Rightarrow> string list \<Rightarrow> json option option" where
  "aliased v names = (case List.map_filter (json_get v) names of
     [] \<Rightarrow> Some None | [w] \<Rightarrow> Some (Some w) | _ \<Rightarrow> None)"

definition alias_required :: "(json \<Rightarrow> 'a option) \<Rightarrow> json \<Rightarrow> string list \<Rightarrow> 'a option" where
  "alias_required dec v names = (case aliased v names of Some (Some w) \<Rightarrow> dec w | _ \<Rightarrow> None)"

definition alias_opt :: "(json \<Rightarrow> 'a option) \<Rightarrow> json \<Rightarrow> string list \<Rightarrow> 'a option option" where
  "alias_opt dec v names = (case aliased v names of
     None \<Rightarrow> None | Some None \<Rightarrow> Some None | Some (Some JNull) \<Rightarrow> Some None | Some (Some w) \<Rightarrow> map_option Some (dec w))"

definition decode_version_key :: "json \<Rightarrow> (string \<times> string) option" where
  "decode_version_key v =
     (case (alias_required as_str v [''system'', ''System''], alias_required as_str v [''name'', ''Name''],
            alias_opt as_str v [''_version'', ''Version'', ''version'']) of
        (Some system, Some name, Some _) \<Rightarrow> Some (system, name)
      | _ \<Rightarrow> None)"

definition decode_dependents_row :: "json \<Rightarrow> dependents_row option" where
  "decode_dependents_row v =
     (case (decode_version_key v, alias_required decode_version_key v [''dependent'', ''Dependent''],
            alias_opt as_u64 v [''minimum_depth'', ''MinimumDepth''],
            alias_opt as_bool v [''dependent_is_highest_release_with_resolution'', ''DependentIsHighestReleaseWithResolution'']) of
        (Some (system, name), Some (dependent_system, dependent_name), Some depth, Some highest) \<Rightarrow>
          Some \<lparr>dr_system = system, dr_name = name, dr_dependent_system = dependent_system, dr_dependent_name = dependent_name,
                dr_minimum_depth = depth, dr_dependent_is_highest = highest\<rparr>
      | _ \<Rightarrow> None)"

definition parse_deps_dev_system :: "string \<Rightarrow> ecosystem option" where
  "parse_deps_dev_system s =
     (if s \<in> {''NPM'', ''npm''} then Some Npm
      else if s \<in> {''PYPI'', ''pypi''} then Some Pypi
      else if s \<in> {''CARGO'', ''cargo''} then Some CratesIo else None)"

text \<open>The rows of all inputs in order; the first that does not parse fails the import.\<close>

definition parse_dependents_rows :: "(string \<Rightarrow> json option) \<Rightarrow> string list \<Rightarrow> string + dependents_row list" where
  "parse_dependents_rows parse inputs =
     parse_ndjson ''failed to parse deps.dev dependents row'' (\<lambda>line. Option.bind (parse line) decode_dependents_row)
       (concat (map str_lines inputs))"

section \<open>Import\<close>

record import_state =
  is_packages :: "(ecosystem \<times> string) list"
  is_edges :: "(ecosystem \<times> string \<times> string) list"
  is_summary :: import_summary

definition import_start :: "nat \<Rightarrow> import_state" where
  "import_start input_files = \<lparr>is_packages = [], is_edges = [],
     is_summary = \<lparr>ip_input_files = input_files, im_input_rows = 0, im_imported_rows = 0, im_skipped_unsupported_system_rows = 0,
       im_skipped_indirect_rows = 0, im_skipped_non_highest_rows = 0, im_emitted_package_records = 0, im_emitted_dependency_records = 0\<rparr>\<rparr>"

definition import_row :: "import_config \<Rightarrow> dependents_row \<Rightarrow> import_state \<Rightarrow> import_state" where
  "import_row cfg row st =
     (let s = (is_summary st)\<lparr>im_input_rows := im_input_rows (is_summary st) + 1\<rparr>;
          unsupported = st\<lparr>is_summary := s\<lparr>im_skipped_unsupported_system_rows := im_skipped_unsupported_system_rows s + 1\<rparr>\<rparr> in
      case parse_deps_dev_system (dr_system row) of
        None \<Rightarrow> unsupported
      | Some eco \<Rightarrow> (case parse_deps_dev_system (dr_dependent_system row) of
          None \<Rightarrow> unsupported
        | Some dependent_eco \<Rightarrow>
            if dependent_eco \<noteq> eco then unsupported
            else if \<not> ic_include_indirect cfg \<and> (case dr_minimum_depth row of Some d \<Rightarrow> d | None \<Rightarrow> 0) \<noteq> 1
            then st\<lparr>is_summary := s\<lparr>im_skipped_indirect_rows := im_skipped_indirect_rows s + 1\<rparr>\<rparr>
            else if \<not> ic_include_non_highest cfg \<and> dr_dependent_is_highest row = Some False
            then st\<lparr>is_summary := s\<lparr>im_skipped_non_highest_rows := im_skipped_non_highest_rows s + 1\<rparr>\<rparr>
            else
              (let package = normalize_package_name eco (dr_name row);
                   dependent = normalize_package_name eco (dr_dependent_name row) in
               st\<lparr>is_packages := insort_insert (eco, dependent) (insort_insert (eco, package) (is_packages st)),
                  is_edges := (if dependent \<noteq> package then insort_insert (eco, dependent, package) (is_edges st) else is_edges st),
                  is_summary := s\<lparr>im_imported_rows := im_imported_rows s + 1\<rparr>\<rparr>)))"

definition import_popularity :: "direct_popularity_strategy \<Rightarrow> f64 \<Rightarrow> nat \<Rightarrow> f64" where
  "import_popularity strategy fallback n = (case strategy of
     ConstantPopularity \<Rightarrow> fallback | DirectDependentCount \<Rightarrow> f64_max (f64_of_u64 n) fallback)"

text \<open>The confidence 0.8 of an exported edge.\<close>

definition export_confidence :: f64 where
  "export_confidence = 0x3FE999999999999A"

definition export_edge :: "ecosystem \<Rightarrow> string \<Rightarrow> string \<Rightarrow> score_input" where
  "export_edge eco package dependency = SI_Dependency eco package dependency f64_one [''deps_dev_export''] (Some export_confidence)"

definition import_dependents_latest_from_inputs ::
  "(string \<Rightarrow> json option) \<Rightarrow> string list \<Rightarrow> nat \<Rightarrow> import_config \<Rightarrow> string + (score_input list \<times> import_summary)" where
  "import_dependents_latest_from_inputs parse inputs input_files cfg =
     (if f64_lt (ic_default_direct_popularity cfg) f64_zero then Inl ''default_direct_popularity must be >= 0.0''
      else map_sum id (\<lambda>rows.
        let st = fold (import_row cfg) rows (import_start input_files);
            dependents = (\<lambda>eco package. length (filter (\<lambda>(e, _, dependency). e = eco \<and> dependency = package) (is_edges st))) in
        (map (\<lambda>(eco, package). SI_Package eco package
            (import_popularity (ic_direct_popularity_strategy cfg) (ic_default_direct_popularity cfg) (dependents eco package))) (is_packages st)
         @ map (\<lambda>(eco, package, dependency). export_edge eco package dependency) (is_edges st),
         (is_summary st)\<lparr>im_emitted_package_records := length (is_packages st),
           im_emitted_dependency_records := length (is_edges st)\<rparr>)) (parse_dependents_rows parse inputs))"

definition import_dependents_latest_from_ndjson ::
  "(string \<Rightarrow> json option) \<Rightarrow> string \<Rightarrow> import_config \<Rightarrow> string + (score_input list \<times> import_summary)" where
  "import_dependents_latest_from_ndjson parse input cfg = import_dependents_latest_from_inputs parse [input] 1 cfg"

section \<open>The packages that depend on one\<close>

record focus_state =
  ff_reverse_edges :: "(string \<times> string list) list"
  ff_dependent_counts :: "(string \<times> nat) list"
  ff_input_rows :: nat
  ff_matched_rows :: nat

definition focus_row :: "focus_config \<Rightarrow> ecosystem \<Rightarrow> dependents_row \<Rightarrow> focus_state \<Rightarrow> focus_state" where
  "focus_row cfg eco row st =
     (let st = st\<lparr>ff_input_rows := ff_input_rows st + 1\<rparr> in
      if parse_deps_dev_system (dr_system row) \<noteq> Some eco \<or> parse_deps_dev_system (dr_dependent_system row) \<noteq> Some eco then st
      else if (case dr_minimum_depth row of Some d \<Rightarrow> d | None \<Rightarrow> 0) \<noteq> 1 then st
      else if \<not> fo_include_non_highest cfg \<and> dr_dependent_is_highest row = Some False then st
      else
        (let st = st\<lparr>ff_matched_rows := ff_matched_rows st + 1\<rparr>;
             dependency = normalize_package_name eco (dr_name row);
             dependent = normalize_package_name eco (dr_dependent_name row) in
         if dependency = dependent then st
         else st\<lparr>ff_reverse_edges := entry_update dependency [] (insort_insert dependent) (ff_reverse_edges st),
                 ff_dependent_counts := entry_update dependency 0 Suc (ff_dependent_counts st)\<rparr>))"

text \<open>The dependents of one package: the search stops for good at the first new package there is no room for.\<close>

fun visit_dependents :: "nat \<Rightarrow> nat \<Rightarrow> string list \<Rightarrow> string list \<times> (string \<times> nat) list \<Rightarrow> (string list \<times> (string \<times> nat) list) \<times> bool" where
  "visit_dependents room depth [] acc = (acc, False)"
| "visit_dependents room depth (d # ds) (visited, queue) =
     (if room \<le> length visited \<and> d \<notin> set visited then ((visited, queue), True)
      else if d \<notin> set visited then visit_dependents room depth ds (insort d visited, queue @ [(d, depth)])
      else visit_dependents room depth ds (visited, queue))"

definition reverse_of :: "(string \<times> string list) list \<Rightarrow> string \<Rightarrow> string list" where
  "reverse_of edges d = (case map_of edges d of Some ds \<Rightarrow> ds | None \<Rightarrow> [])"

lemma visit_dependents_shape:
  assumes "visit_dependents room depth ds (visited, queue) = ((visited', queue'), truncated)"
  shows "\<exists>new. queue' = queue @ map (\<lambda>d. (d, depth)) new \<and> set visited' = set visited \<union> set new \<and> length visited' = length visited + length new
    \<and> set new \<subseteq> set ds \<and> distinct new \<and> set new \<inter> set visited = {} \<and> (truncated \<or> set ds \<subseteq> set visited') \<and> (new = [] \<longrightarrow> visited' = visited)
    \<and> (length visited \<le> room \<longrightarrow> length visited' \<le> room)"
  using assms
proof (induction ds arbitrary: visited queue)
  case (Cons d ds)
  consider "d \<in> set visited" | "d \<notin> set visited" "room \<le> length visited" | "d \<notin> set visited" "length visited < room"
    by fastforce
  then show ?case
  proof cases
    case 1
    then show ?thesis
      using Cons by fastforce
  next
    case 3
    then have "visit_dependents room depth ds (insort d visited, queue @ [(d, depth)]) = ((visited', queue'), truncated)"
      using Cons.prems by simp
    from Cons.IH [OF this] obtain new where
      "queue' = (queue @ [(d, depth)]) @ map (\<lambda>d. (d, depth)) new" "set visited' = set (insort d visited) \<union> set new"
      "length visited' = length (insort d visited) + length new" "set new \<subseteq> set ds" "distinct new" "set new \<inter> set (insort d visited) = {}"
      "truncated \<or> set ds \<subseteq> set visited'" "length (insort d visited) \<le> room \<longrightarrow> length visited' \<le> room"
      by blast
    then show ?thesis
      using 3 by (intro exI [of _ "d # new"]) (auto simp: set_insort_key)
  qed (use Cons.prems in auto)
qed auto

function focus_search :: "(string \<times> string list) list \<Rightarrow> nat \<Rightarrow> nat \<Rightarrow> string list \<Rightarrow> (string \<times> nat) list \<Rightarrow> string list \<times> bool" where
  "focus_search edges room reverse_depth visited [] = (visited, False)"
| "focus_search edges room reverse_depth visited ((d, depth) # queue) =
     (if reverse_depth \<le> depth then focus_search edges room reverse_depth visited queue
      else case visit_dependents room (depth + 1) (reverse_of edges d) (visited, queue) of
        ((visited', queue'), truncated) \<Rightarrow>
          if truncated then (visited', True) else focus_search edges room reverse_depth visited' queue')"
  by pat_completeness auto

definition all_dependents :: "(string \<times> string list) list \<Rightarrow> string set" where
  "all_dependents edges = (\<Union>ds \<in> snd ` set edges. set ds)"

lemma reverse_of_all: "set (reverse_of edges d) \<subseteq> all_dependents edges"
proof (cases "map_of edges d")
  case (Some ds)
  then show ?thesis
    using map_of_SomeD [OF Some] by (force simp: reverse_of_def all_dependents_def)
qed (simp add: reverse_of_def)

termination focus_search
proof (relation "measures [\<lambda>(edges, room, depth, visited, queue). card (all_dependents edges - set visited),
    \<lambda>(edges, room, depth, visited, queue). length queue]", goal_cases)
  case (3 edges room reverse_depth visited d depth queue p truncated visited' queue')
  then obtain new where new: "queue' = queue @ map (\<lambda>d. (d, depth + 1)) new" "set visited' = set visited \<union> set new"
      "set new \<subseteq> all_dependents edges" "set new \<inter> set visited = {}" "new = [] \<longrightarrow> visited' = visited"
    using visit_dependents_shape [of room "depth + 1" "reverse_of edges d" visited queue visited' queue' truncated] reverse_of_all
    by fastforce
  have "finite (all_dependents edges)"
    by (auto simp: all_dependents_def)
  then have "new \<noteq> [] \<Longrightarrow> card (all_dependents edges - set visited') < card (all_dependents edges - set visited)"
    using new hd_in_set [of new] by (intro psubset_card_mono) (simp, blast)
  then show ?case
    using new by (cases "new = []") auto
qed auto

declare focus_search.simps [simp del]

definition focus_dependents_subgraph_from_inputs ::
  "(string \<Rightarrow> json option) \<Rightarrow> string list \<Rightarrow> nat \<Rightarrow> ecosystem \<Rightarrow> string \<Rightarrow> focus_config
   \<Rightarrow> string + (score_input list \<times> seed_record list \<times> focus_summary)" where
  "focus_dependents_subgraph_from_inputs parse inputs input_files eco package cfg =
     (if f64_lt (fo_default_direct_popularity cfg) f64_zero then Inl ''default_direct_popularity must be >= 0.0''
      else if fo_max_frontier_packages cfg = 0 then Inl ''max_frontier_packages must be greater than zero''
      else map_sum id (\<lambda>rows.
        let target = normalize_package_name eco package;
            st = fold (focus_row cfg eco) rows \<lparr>ff_reverse_edges = [], ff_dependent_counts = [], ff_input_rows = 0, ff_matched_rows = 0\<rparr>;
            (visited, truncated) =
              focus_search (ff_reverse_edges st) (fo_max_frontier_packages cfg) (fo_reverse_depth cfg) [target] [(target, 0)];
            popularity = (\<lambda>p. import_popularity (fo_direct_popularity_strategy cfg) (fo_default_direct_popularity cfg)
              (case map_of (ff_dependent_counts st) p of Some n \<Rightarrow> n | None \<Rightarrow> 0));
            edges = concat (map (\<lambda>dependency. map (\<lambda>dependent. export_edge eco dependent dependency)
              (filter (\<lambda>dependent. dependent \<in> set visited) (reverse_of (ff_reverse_edges st) dependency))) visited) in
        (map (\<lambda>p. SI_Package eco p (popularity p)) visited @ edges,
         map (\<lambda>p. \<lparr>se_ecosystem = eco, se_package = p, se_direct_popularity = Some (popularity p)\<rparr>) visited,
         \<lparr>fs_input_files = input_files, fs_input_rows = ff_input_rows st, fs_matched_rows = ff_matched_rows st,
          fs_reverse_depth = fo_reverse_depth cfg, fs_frontier_packages = length visited, fs_frontier_truncated = truncated,
          fs_emitted_package_records = length visited, fs_emitted_dependency_records = length edges\<rparr>))
        (parse_dependents_rows parse inputs))"

section \<open>Input files\<close>

datatype input_path = InputDir "(string \<times> bool) list option" | InputFile | NoInput

text \<open>A directory lists its entries with whether each is a file; a listing can fail.  \<open>read\<close> gives the bytes.\<close>

record input_fs =
  ex_kind :: "string \<Rightarrow> input_path"
  ex_read :: "string \<Rightarrow> string option"
  ex_gunzip :: "string \<Rightarrow> string option"

definition is_supported_input_file :: "string \<Rightarrow> bool" where
  "is_supported_input_file path =
     (let name = (case rsplit_once (CHR ''/'') path of Some (_, n) \<Rightarrow> n | None \<Rightarrow> path) in
      list_ex (ends_with name) [''.ndjson'', ''.jsonl'', ''.json'', ''.ndjson.gz'', ''.jsonl.gz'', ''.json.gz''])"

fun collect_export_files :: "input_fs \<Rightarrow> string list \<Rightarrow> string list \<Rightarrow> string + string list" where
  "collect_export_files fs [] files = Inr files"
| "collect_export_files fs (input # inputs) files =
     (case ex_kind fs input of
        InputDir None \<Rightarrow> Inl (''failed to read directory '' @ input)
      | InputDir (Some listing) \<Rightarrow>
          collect_export_files fs inputs (fold (\<lambda>(path, is_file) files.
            if is_file \<and> is_supported_input_file path then insort_insert path files else files) listing files)
      | InputFile \<Rightarrow> collect_export_files fs inputs (if is_supported_input_file input then insort_insert input files else files)
      | NoInput \<Rightarrow> Inl (''deps.dev input path not found: '' @ input))"

definition collect_input_files :: "input_fs \<Rightarrow> string list \<Rightarrow> string + string list" where
  "collect_input_files fs inputs = (case collect_export_files fs inputs [] of
     Inl e \<Rightarrow> Inl e
   | Inr files \<Rightarrow> if files = [] then Inl ''no supported deps.dev input files found'' else Inr files)"

definition read_input_body :: "input_fs \<Rightarrow> string \<Rightarrow> string + string" where
  "read_input_body fs path = (case ex_read fs path of
     None \<Rightarrow> Inl (''failed to read deps.dev input '' @ path)
   | Some bytes \<Rightarrow>
       if ends_with path ''.gz''
       then (case ex_gunzip fs bytes of
           Some body \<Rightarrow> if utf8_valid (map byte body) then Inr body else Inl (''failed to decode gzip deps.dev input '' @ path)
         | None \<Rightarrow> Inl (''failed to decode gzip deps.dev input '' @ path))
       else if utf8_valid (map byte bytes) then Inr bytes else Inl (''deps.dev input is not valid utf-8: '' @ path))"

fun read_input_bodies :: "input_fs \<Rightarrow> string list \<Rightarrow> string + string list" where
  "read_input_bodies fs [] = Inr []"
| "read_input_bodies fs (path # paths) = (case read_input_body fs path of
     Inl e \<Rightarrow> Inl e
   | Inr body \<Rightarrow> map_sum id ((#) body) (read_input_bodies fs paths))"

definition import_dependents_latest_from_paths ::
  "(string \<Rightarrow> json option) \<Rightarrow> input_fs \<Rightarrow> string list \<Rightarrow> import_config \<Rightarrow> string + (score_input list \<times> import_summary)" where
  "import_dependents_latest_from_paths parse fs inputs cfg = (case collect_input_files fs inputs of
     Inl e \<Rightarrow> Inl e
   | Inr files \<Rightarrow> (case read_input_bodies fs files of
       Inl e \<Rightarrow> Inl e
     | Inr bodies \<Rightarrow> import_dependents_latest_from_inputs parse bodies (length files) cfg))"

definition import_dependents_latest_from_file ::
  "(string \<Rightarrow> json option) \<Rightarrow> input_fs \<Rightarrow> string \<Rightarrow> import_config \<Rightarrow> string + (score_input list \<times> import_summary)" where
  "import_dependents_latest_from_file parse fs input cfg = import_dependents_latest_from_paths parse fs [input] cfg"

definition focus_dependents_subgraph_from_paths ::
  "(string \<Rightarrow> json option) \<Rightarrow> input_fs \<Rightarrow> string list \<Rightarrow> ecosystem \<Rightarrow> string \<Rightarrow> focus_config
   \<Rightarrow> string + (score_input list \<times> seed_record list \<times> focus_summary)" where
  "focus_dependents_subgraph_from_paths parse fs inputs eco package cfg = (case collect_input_files fs inputs of
     Inl e \<Rightarrow> Inl e
   | Inr files \<Rightarrow> (case read_input_bodies fs files of
       Inl e \<Rightarrow> Inl e
     | Inr bodies \<Rightarrow> focus_dependents_subgraph_from_inputs parse bodies (length files) eco package cfg))"

end
