(* ===== verification/Deps_Dev_Props.thy ===== *)
theory Deps_Dev_Props
  imports Deps_Dev
begin

text \<open>
  The search against its reference, the packages that reach the target over at most so many dependency edges, and the
  bookkeeping of an import: every row is counted once.
\<close>

section \<open>Rows of an import\<close>

definition rows_accounted :: "import_summary \<Rightarrow> bool" where
  "rows_accounted s \<longleftrightarrow> im_input_rows s = im_imported_rows s + im_skipped_unsupported_system_rows s
     + im_skipped_indirect_rows s + im_skipped_non_highest_rows s"

lemma import_row_accounted: "rows_accounted (is_summary st) \<Longrightarrow> rows_accounted (is_summary (import_row cfg row st))"
  by (auto simp: import_row_def rows_accounted_def Let_def split: option.split)

lemma import_row_input: "im_input_rows (is_summary (import_row cfg row st)) = Suc (im_input_rows (is_summary st))"
  by (auto simp: import_row_def Let_def split: option.split)

definition edges_within :: "import_state \<Rightarrow> bool" where
  "edges_within st \<longleftrightarrow> sorted (is_packages st) \<and> distinct (is_packages st) \<and> sorted (is_edges st) \<and> distinct (is_edges st)
     \<and> (\<forall>(eco, dependent, package) \<in> set (is_edges st). dependent \<noteq> package
         \<and> (eco, dependent) \<in> set (is_packages st) \<and> (eco, package) \<in> set (is_packages st))"

lemma import_row_within: "edges_within st \<Longrightarrow> edges_within (import_row cfg row st)"
  by (auto simp: import_row_def edges_within_def Let_def sorted_insort_insert distinct_insort_insert set_insort_insert split: option.split)

lemma import_fold:
  "rows_accounted (is_summary st) \<Longrightarrow> edges_within st \<Longrightarrow> rows_accounted (is_summary (fold (import_row cfg) rows st))
    \<and> edges_within (fold (import_row cfg) rows st)
    \<and> im_input_rows (is_summary (fold (import_row cfg) rows st)) = im_input_rows (is_summary st) + length rows"
  by (induction rows arbitrary: st) (simp_all add: import_row_accounted import_row_within import_row_input)

text \<open>An import counts every row it read once, as imported or under the one reason it was skipped for.\<close>

theorem import_accounts_rows:
  assumes "import_dependents_latest_from_inputs parse inputs input_files cfg = Inr (records, summary)"
  shows "\<exists>rows. parse_dependents_rows parse inputs = Inr rows \<and> im_input_rows summary = length rows \<and> rows_accounted summary"
proof -
  obtain rows where rows: "parse_dependents_rows parse inputs = Inr rows"
    using assms by (auto simp: import_dependents_latest_from_inputs_def split: if_splits sum.splits) (cases "parse_dependents_rows parse inputs"; simp)
  have start: "rows_accounted (is_summary (import_start input_files))" "edges_within (import_start input_files)"
    by (simp_all add: import_start_def rows_accounted_def edges_within_def)
  show ?thesis
    using assms rows import_fold [OF start, of cfg rows]
    by (auto simp: import_dependents_latest_from_inputs_def Let_def rows_accounted_def import_start_def split: if_splits)
qed

section \<open>The search\<close>

fun reaching :: "(string \<times> string list) list \<Rightarrow> string \<Rightarrow> nat \<Rightarrow> string set" where
  "reaching edges target 0 = {target}"
| "reaching edges target (Suc n) = reaching edges target n \<union> (\<Union>d \<in> reaching edges target n. set (reverse_of edges d))"

lemma reaching_mono: "m \<le> n \<Longrightarrow> reaching edges target m \<subseteq> reaching edges target n"
  by (induction n) (auto simp: le_Suc_eq)

lemma reaching_closed:
  assumes "(\<Union>d \<in> reaching edges target n. set (reverse_of edges d)) \<subseteq> reaching edges target n"
  shows "n \<le> m \<Longrightarrow> reaching edges target m = reaching edges target n"
proof (induction m)
  case (Suc m)
  then show ?case
    using assms by (cases "n = Suc m") auto
qed simp

text \<open>The queue holds packages at distance \<open>m\<close> and behind them some at the next; whoever is nearer and not in the
  queue has had its dependents visited.\<close>

definition search_inv :: "(string \<times> string list) list \<Rightarrow> string \<Rightarrow> nat \<Rightarrow> nat \<Rightarrow> string list \<Rightarrow> string list \<Rightarrow> string list \<Rightarrow> bool" where
  "search_inv edges target limit m here nxt visited \<longleftrightarrow>
     set visited = reaching edges target m \<union> set nxt \<and> set here \<subseteq> reaching edges target m \<and> set nxt \<subseteq> reaching edges target (Suc m)
     \<and> m \<le> limit \<and> (m = limit \<longrightarrow> nxt = [])
     \<and> (m < limit \<longrightarrow> (\<forall>d \<in> reaching edges target m - set here. set (reverse_of edges d) \<subseteq> set visited))"

definition search_queue :: "nat \<Rightarrow> string list \<Rightarrow> string list \<Rightarrow> (string \<times> nat) list" where
  "search_queue m here nxt = map (\<lambda>d. (d, m)) here @ map (\<lambda>d. (d, Suc m)) nxt"

lemma search_inv_next:
  assumes "search_inv edges target limit m [] nxt visited" "m < limit"
  shows "search_inv edges target limit (Suc m) nxt [] visited"
proof -
  have vis: "set visited = reaching edges target (Suc m)"
    using assms by (auto simp: search_inv_def)
  have "set (reverse_of edges d) \<subseteq> set visited" if "d \<in> reaching edges target (Suc m) - set nxt" for d
  proof -
    have "d \<in> reaching edges target m"
      using that vis assms(1) unfolding search_inv_def by blast
    then show ?thesis
      using assms unfolding search_inv_def by auto
  qed
  then show ?thesis
    using assms vis by (auto simp: search_inv_def)
qed

lemma focus_search_exact:
  assumes "search_inv edges target limit m here nxt visited"
    and "focus_search edges room limit visited (search_queue m here nxt) = (visited', False)"
  shows "set visited' = reaching edges target limit"
  using assms
proof (induction edges room limit visited "search_queue m here nxt" arbitrary: m here nxt rule: focus_search.induct)
  case (1 edges room limit visited)
  then have empty: "here = []" "nxt = []" "visited' = visited"
    by (auto simp: search_queue_def focus_search.simps)
  show ?case
  proof (cases "m < limit")
    case True
    then have "reaching edges target limit = reaching edges target m"
      using 1 empty by (intro reaching_closed) (auto simp: search_inv_def)
    then show ?thesis
      using 1 empty by (simp add: search_inv_def)
  qed (use 1 empty in \<open>auto simp: search_inv_def\<close>)
next
  case (2 edges room limit visited d depth queue)
  obtain m' rest nxt' where inv: "search_inv edges target limit m' (d # rest) nxt' visited"
    and queue: "depth = m'" "queue = search_queue m' rest nxt'"
  proof (cases here)
    case Nil
    then have "m < limit" "(d, depth) # queue = search_queue (Suc m) nxt []"
      using 2(3,4) by (auto simp: search_queue_def search_inv_def)
    then show ?thesis
      using search_inv_next [of edges target limit m nxt visited] 2(4) Nil that [of "Suc m" "tl nxt" "[]"]
      by (cases nxt) (auto simp: search_queue_def)
  next
    case (Cons e rest)
    then show ?thesis
      using 2(3,4) that [of m rest nxt] by (auto simp: search_queue_def)
  qed
  show ?case
  proof (cases "limit \<le> depth")
    case True
    then have "m' = limit" "search_inv edges target limit m' rest nxt' visited"
      using inv queue(1) by (auto simp: search_inv_def)
    then show ?thesis
      using 2(1) [OF True queue(2)] 2(5) [folded 2(3)] True queue(2) by (simp add: focus_search.simps)
  next
    case False
    obtain visited1 queue1 truncated where visit:
        "visit_dependents room (depth + 1) (reverse_of edges d) (visited, queue) = ((visited1, queue1), truncated)"
      by (metis prod.exhaust)
    have ok: "\<not> truncated" "focus_search edges room limit visited1 queue1 = (visited', False)"
      using 2(5) [folded 2(3)] False visit by (auto simp: focus_search.simps split: if_splits)
    obtain new where new: "queue1 = queue @ map (\<lambda>d. (d, depth + 1)) new" "set visited1 = set visited \<union> set new"
        "set new \<subseteq> set (reverse_of edges d)" "set (reverse_of edges d) \<subseteq> set visited1"
      using visit_dependents_shape [OF visit] ok(1) by blast
    have "m' < limit"
      using False queue(1) by simp
    have dep: "set (reverse_of edges e) \<subseteq> set visited1" if "e \<in> reaching edges target m'" "e \<notin> set rest" for e
    proof (cases "e = d")
      case False
      have "\<forall>e \<in> reaching edges target m' - set (d # rest). set (reverse_of edges e) \<subseteq> set visited"
        using inv \<open>m' < limit\<close> unfolding search_inv_def by blast
      then have "set (reverse_of edges e) \<subseteq> set visited"
        using that False by (metis DiffI set_ConsD)
      then show ?thesis
        using new(2) by auto
    qed (use new(4) in simp)
    have "search_inv edges target limit m' rest (nxt' @ new) visited1"
      using inv new(2,3) dep \<open>m' < limit\<close> by (auto simp: search_inv_def)
    moreover have q: "(visited1, search_queue m' rest (nxt' @ new)) = (visited1, queue1)"
      using new(1) queue by (simp add: search_queue_def)
    ultimately show ?thesis
      using 2(2) [OF False visit [symmetric] q ok(1)] ok(2) q by simp
  qed
qed

lemma focus_search_room:
  "length visited \<le> room \<Longrightarrow> focus_search edges room limit visited queue = (visited', truncated) \<Longrightarrow> length visited' \<le> room"
proof (induction edges room limit visited queue rule: focus_search.induct)
  case (2 edges room limit visited d depth queue)
  obtain visited1 queue1 t where visit:
      "visit_dependents room (depth + 1) (reverse_of edges d) (visited, queue) = ((visited1, queue1), t)"
    by (metis prod.exhaust)
  then have "length visited1 \<le> room"
    using visit_dependents_shape [OF visit] 2(3) by blast
  then show ?case
    using 2 visit by (auto simp: focus_search.simps split: if_splits)
qed (simp add: focus_search.simps)

lemma visit_dependents_sorted:
  "visit_dependents room depth ds (visited, queue) = ((visited', queue'), truncated) \<Longrightarrow> sorted visited \<Longrightarrow> distinct visited
    \<Longrightarrow> sorted visited' \<and> distinct visited'"
  by (induction ds arbitrary: visited queue) (auto simp: sorted_insort distinct_insort split: if_splits)

lemma focus_search_sorted:
  "sorted visited \<Longrightarrow> distinct visited \<Longrightarrow> focus_search edges room limit visited queue = (visited', truncated)
    \<Longrightarrow> sorted visited' \<and> distinct visited'"
proof (induction edges room limit visited queue rule: focus_search.induct)
  case (2 edges room limit visited d depth queue)
  obtain visited1 queue1 t where visit:
      "visit_dependents room (depth + 1) (reverse_of edges d) (visited, queue) = ((visited1, queue1), t)"
    by (metis prod.exhaust)
  then have "sorted visited1 \<and> distinct visited1"
    using visit_dependents_sorted [OF visit] 2(3,4) by blast
  then show ?case
    using 2 visit by (auto simp: focus_search.simps split: if_splits)
qed (simp add: focus_search.simps)

definition focus_packages :: "score_input list \<Rightarrow> string list" where
  "focus_packages rs = List.map_filter (\<lambda>r. case r of SI_Package _ p _ \<Rightarrow> Some p | SI_Dependency _ _ _ _ _ _ \<Rightarrow> None) rs"

lemma focus_packages_parts:
  "focus_packages (map (\<lambda>p. SI_Package eco p (f p)) ps @ edges) = ps @ focus_packages edges"
  "focus_packages (concat (map (\<lambda>d. map (\<lambda>p. export_edge eco p d) (g d)) ds)) = []"
  by (auto simp: focus_packages_def List.map_filter_def comp_def export_edge_def filter_empty_conv)

text \<open>The edges a focus collects from the rows.\<close>

definition focus_edges :: "focus_config \<Rightarrow> ecosystem \<Rightarrow> dependents_row list \<Rightarrow> (string \<times> string list) list" where
  "focus_edges cfg eco rows = ff_reverse_edges (fold (focus_row cfg eco) rows
     \<lparr>ff_reverse_edges = [], ff_dependent_counts = [], ff_input_rows = 0, ff_matched_rows = 0\<rparr>)"

text \<open>C11: A focused subgraph never has more packages than there is room for, and when it was not cut short it is the
  target with exactly the packages that reach it over at most \<open>reverse_depth\<close> dependency edges.\<close>

theorem focus_is_reverse_reachability:
  assumes "focus_dependents_subgraph_from_inputs parse inputs input_files eco package cfg = Inr (records, seeds, summary)"
  shows "length (focus_packages records) \<le> fo_max_frontier_packages cfg \<and> map se_package seeds = focus_packages records
    \<and> (fs_frontier_truncated summary \<or> (\<exists>rows. parse_dependents_rows parse inputs = Inr rows
        \<and> focus_packages records = sorted_list_of_set
            (reaching (focus_edges cfg eco rows) (normalize_package_name eco package) (fo_reverse_depth cfg))))"
proof -
  define target where "target = normalize_package_name eco package"
  obtain rows where rows: "parse_dependents_rows parse inputs = Inr rows" and room: "fo_max_frontier_packages cfg \<noteq> 0"
    using assms by (cases "parse_dependents_rows parse inputs") (auto simp: focus_dependents_subgraph_from_inputs_def split: if_splits)
  obtain visited truncated where search: "focus_search (focus_edges cfg eco rows) (fo_max_frontier_packages cfg) (fo_reverse_depth cfg)
      [target] [(target, 0)] = (visited, truncated)"
    by (metis prod.exhaust)
  have out: "focus_packages records = visited" "map se_package seeds = visited" "fs_frontier_truncated summary = truncated"
    using assms rows search [unfolded focus_edges_def target_def] room
    by (auto simp: focus_dependents_subgraph_from_inputs_def Let_def focus_packages_parts comp_def split: if_splits)
  have "set visited = reaching (focus_edges cfg eco rows) target (fo_reverse_depth cfg)" if "\<not> truncated"
  proof (rule focus_search_exact)
    show "search_inv (focus_edges cfg eco rows) target (fo_reverse_depth cfg) 0 [target] [] [target]"
      by (auto simp: search_inv_def)
  qed (use search that in \<open>simp add: search_queue_def\<close>)
  moreover have "sorted visited \<and> distinct visited"
    by (rule focus_search_sorted [OF _ _ search]) simp_all
  ultimately have "\<not> truncated \<Longrightarrow> visited = sorted_list_of_set (reaching (focus_edges cfg eco rows) target (fo_reverse_depth cfg))"
    by (metis sorted_list_of_set.idem_if_sorted_distinct)
  then show ?thesis
    using out rows focus_search_room [OF _ search] room by (auto simp: target_def)
qed

text \<open>Three rows as letters, package and dependent: \<open>a\<close> depends on \<open>b\<close>, \<open>b\<close> on \<open>c\<close>, \<open>c\<close> on \<open>d\<close>.\<close>

fun letter_row :: "string \<Rightarrow> json option" where
  "letter_row [x, y] = Some (JObject [(''System'', JString ''NPM''), (''Name'', JString [x]),
     (''Dependent'', JObject [(''System'', JString ''NPM''), (''Name'', JString [y])]), (''MinimumDepth'', JNumber (PosInt 1))])"
| "letter_row _ = None"

definition letter_focus :: focus_config where
  "letter_focus = \<lparr>fo_reverse_depth = 2, fo_max_frontier_packages = 9, fo_include_non_highest = False,
     fo_default_direct_popularity = f64_zero, fo_direct_popularity_strategy = ConstantPopularity\<rparr>"

lemma letter_focus_runs:
  "case focus_dependents_subgraph_from_inputs letter_row [''ba'', ''cb'', ''dc''] 3 Npm ''D'' letter_focus of
     Inr (records, seeds, summary) \<Rightarrow> \<not> fs_frontier_truncated summary | Inl _ \<Rightarrow> False"
  by code_simp

lemma letter_focus_edges:
  "map_sum id (focus_edges letter_focus Npm) (parse_dependents_rows letter_row [''ba'', ''cb'', ''dc''])
    = Inr [(''b'', [''a'']), (''c'', [''b'']), (''d'', [''c''])]"
  by code_simp

theorem focus_is_reverse_reachability_witness:
  "case focus_dependents_subgraph_from_inputs letter_row [''ba'', ''cb'', ''dc''] 3 Npm ''D'' letter_focus of
     Inr (records, seeds, summary) \<Rightarrow> set (focus_packages records) = {''b'', ''c'', ''d''} | Inl _ \<Rightarrow> False"
proof -
  obtain records seeds summary where run: "focus_dependents_subgraph_from_inputs letter_row [''ba'', ''cb'', ''dc''] 3 Npm ''D'' letter_focus
      = Inr (records, seeds, summary)" "\<not> fs_frontier_truncated summary"
    using letter_focus_runs by (auto split: sum.splits)
  obtain rows where rows: "parse_dependents_rows letter_row [''ba'', ''cb'', ''dc''] = Inr rows"
      "focus_packages records = sorted_list_of_set (reaching (focus_edges letter_focus Npm rows)
         (normalize_package_name Npm ''D'') (fo_reverse_depth letter_focus))"
    using focus_is_reverse_reachability [OF run(1)] run(2) by blast
  have "focus_edges letter_focus Npm rows = [(''b'', [''a'']), (''c'', [''b'']), (''d'', [''c''])]"
    using letter_focus_edges rows(1) by simp
  moreover have "normalize_package_name Npm ''D'' = ''d''"
    by code_simp
  ultimately have "focus_packages records = sorted_list_of_set {''b'', ''c'', ''d''}"
    using rows(2) by (simp add: letter_focus_def numeral_2_eq_2 reverse_of_def insert_commute)
  then show ?thesis
    using run(1) by simp
qed

end
