(* ===== verification/Warehouse.thy ===== *)
theory Warehouse
  imports Deps_Dev
begin

text \<open>
  The client of the deps.dev data warehouse (\<open>deps_dev_bigquery.rs\<close>): credentials from the gcloud files, the queries,
  their execution with polling and paging, the baseline and top-package imports, and the focused search one query per
  level.  Requests are numbered; the answer to each is an argument.  Polling and paging end only when the server lets
  them, so they run on fuel, and running out is \<open>None\<close>.
\<close>

section \<open>Credentials\<close>

record refresh_credentials =
  rc_client_id :: string
  rc_client_secret :: string
  rc_refresh_token :: string

record google_cloud_auth =
  ga_project_id :: string
  ga_access_token :: "string option"
  ga_refresh_credentials :: "refresh_credentials option"

text \<open>The process environment, the files, and the two gcloud databases: the first account with a token, the stored
  credentials of an account, and its token with the expiry, \<open>None\<close> when that does not parse.\<close>

record gcloud_env =
  ge_var :: "string \<Rightarrow> string option"
  ge_read :: "string \<Rightarrow> string option"
  ge_parse_credentials :: "string \<Rightarrow> refresh_credentials option"
  ge_first_account :: "string \<Rightarrow> string + string option"
  ge_credentials_row :: "string \<Rightarrow> string \<Rightarrow> string option"
  ge_token_row :: "string \<Rightarrow> string \<Rightarrow> (string \<times> datetime option) option"
  ge_exists :: "string \<Rightarrow> bool"
  ge_now :: datetime

definition gcloud_dir :: "gcloud_env \<Rightarrow> string option" where
  "gcloud_dir env = or_else (ge_var env ''CLOUDSDK_CONFIG'') (map_option (\<lambda>home. home @ ''/.config/gcloud'') (ge_var env ''HOME''))"

definition application_default_credentials_path :: "gcloud_env \<Rightarrow> string option \<Rightarrow> string option" where
  "application_default_credentials_path env dir =
     or_else (ge_var env ''GOOGLE_APPLICATION_CREDENTIALS'') (map_option (\<lambda>d. d @ ''/application_default_credentials.json'') dir)"

fun ini_value :: "string list \<Rightarrow> string option \<Rightarrow> string \<Rightarrow> string \<Rightarrow> string option" where
  "ini_value [] current section key = None"
| "ini_value (raw # lines) current section key =
     (let line = trim raw in
      if line = [] \<or> starts_with line ''#'' \<or> starts_with line '';'' then ini_value lines current section key
      else case Option.bind (strip_prefix line ''['') (\<lambda>l. strip_suffix l '']'') of
        Some stripped \<Rightarrow> ini_value lines (Some (trim stripped)) section key
      | None \<Rightarrow>
          if current \<noteq> Some section then ini_value lines current section key
          else case split_once (CHR ''='') line of
            None \<Rightarrow> ini_value lines current section key
          | Some (left, right) \<Rightarrow> if trim left = key then Some (trim right) else ini_value lines current section key)"

definition parse_gcloud_ini_value :: "string \<Rightarrow> string \<Rightarrow> string \<Rightarrow> string option" where
  "parse_gcloud_ini_value body section key = ini_value (str_lines body) None section key"

definition filled :: "string option \<Rightarrow> string option" where
  "filled v = (case map_option trim v of Some s \<Rightarrow> if s \<noteq> [] then Some s else None | None \<Rightarrow> None)"

definition active_config_body :: "gcloud_env \<Rightarrow> string \<Rightarrow> string option" where
  "active_config_body env dir =
     (let active_name = (case filled (ge_read env (dir @ ''/active_config'')) of Some n \<Rightarrow> n | None \<Rightarrow> ''default'') in
      ge_read env (dir @ ''/configurations/config_'' @ active_name))"

definition detect_project_id :: "gcloud_env \<Rightarrow> string option \<Rightarrow> string option" where
  "detect_project_id env dir =
     (case filled (or_else (ge_var env ''GOOGLE_CLOUD_PROJECT'') (or_else (ge_var env ''GCLOUD_PROJECT'') (ge_var env ''CLOUDSDK_CORE_PROJECT''))) of
        Some value \<Rightarrow> Some value
      | None \<Rightarrow> Option.bind dir (\<lambda>d. Option.bind (active_config_body env d) (\<lambda>body. parse_gcloud_ini_value body ''core'' ''project'')))"

definition detect_active_account :: "gcloud_env \<Rightarrow> string option \<Rightarrow> string + string option" where
  "detect_active_account env dir =
     (case filled (ge_var env ''CLOUDSDK_CORE_ACCOUNT'') of
        Some value \<Rightarrow> Inr (Some value)
      | None \<Rightarrow> (case dir of
          None \<Rightarrow> Inr None
        | Some d \<Rightarrow> (case Option.bind (active_config_body env d) (\<lambda>body. parse_gcloud_ini_value body ''core'' ''account'') of
            Some account \<Rightarrow> Inr (Some account)
          | None \<Rightarrow> if ge_exists env (d @ ''/access_tokens.db'') then ge_first_account env (d @ ''/access_tokens.db'') else Inr None)))"

definition load_authorized_user_credentials :: "gcloud_env \<Rightarrow> string \<Rightarrow> refresh_credentials option" where
  "load_authorized_user_credentials env path = Option.bind (ge_read env path) (ge_parse_credentials env)"

definition load_gcloud_refresh_credentials :: "gcloud_env \<Rightarrow> string \<Rightarrow> string \<Rightarrow> refresh_credentials option" where
  "load_gcloud_refresh_credentials env dir account =
     Option.bind (ge_credentials_row env (dir @ ''/credentials.db'') account) (ge_parse_credentials env)"

text \<open>A token whose expiry cannot be read counts as fresh; 30 seconds are 30,000 of the clock's milliseconds.\<close>

definition load_gcloud_access_token :: "gcloud_env \<Rightarrow> string \<Rightarrow> string \<Rightarrow> string option" where
  "load_gcloud_access_token env dir account =
     (case ge_token_row env (dir @ ''/access_tokens.db'') account of
        None \<Rightarrow> None
      | Some (token, expiry) \<Rightarrow> (case expiry of
          Some e \<Rightarrow> if e \<le> ge_now env + 30000 then None else Some token
        | None \<Rightarrow> Some token))"

definition discover :: "gcloud_env \<Rightarrow> string + google_cloud_auth" where
  "discover env =
     (let dir = gcloud_dir env in
      case detect_project_id env dir of
        None \<Rightarrow> Inl ''missing Google Cloud project; set GOOGLE_CLOUD_PROJECT or gcloud core/project''
      | Some project_id \<Rightarrow> (case detect_active_account env dir of
          Inl e \<Rightarrow> Inl e
        | Inr account \<Rightarrow>
            (let adc = Option.bind (application_default_credentials_path env dir)
                   (\<lambda>path. if ge_exists env path then load_authorized_user_credentials env path else None);
                 both = Option.bind dir (\<lambda>d. map_option (Pair d) account) in
             Inr \<lparr>ga_project_id = project_id,
                  ga_access_token = Option.bind both (\<lambda>(d, a). load_gcloud_access_token env d a),
                  ga_refresh_credentials = or_else adc (Option.bind both (\<lambda>(d, a). load_gcloud_refresh_credentials env d a))\<rparr>)))"

section \<open>Queries\<close>

definition deps_dev_dataset :: string where
  "deps_dev_dataset = ''bigquery-public-data.deps_dev_v1.DependenciesLatest''"

fun warehouse_system :: "ecosystem \<Rightarrow> string" where
  "warehouse_system Npm = ''NPM''"
| "warehouse_system Pypi = ''PYPI''"
| "warehouse_system CratesIo = ''CARGO''"

definition escape_sql_string :: "string \<Rightarrow> string" where
  "escape_sql_string value = str_replace [CHR 0x27] [CHR 0x27, CHR 0x27] value"

definition sql_literal :: "string \<Rightarrow> string" where
  "sql_literal s = CHR 0x27 # s @ [CHR 0x27]"

fun join_with :: "string \<Rightarrow> string list \<Rightarrow> string" where
  "join_with sep [] = []"
| "join_with sep [s] = s"
| "join_with sep (s # ss) = s @ sep @ join_with sep ss"

definition frontier_rows :: "string list \<Rightarrow> string" where
  "frontier_rows frontier = join_with '' UNION ALL '' (map (\<lambda>name. ''SELECT '' @ sql_literal (escape_sql_string name) @ '' AS Name'') frontier)"

definition quoted_dataset :: string where
  "quoted_dataset = CHR 0x60 # deps_dev_dataset @ [CHR 0x60]"

definition build_dependents_query :: "ecosystem \<Rightarrow> string list \<Rightarrow> string" where
  "build_dependents_query eco frontier =
     ''WITH frontier AS ('' @ frontier_rows frontier @ '') SELECT DISTINCT d.Dependency.Name AS DependencyName, d.Name AS DependentName FROM ''
     @ quoted_dataset @ '' AS d JOIN frontier AS f ON d.Dependency.Name = f.Name WHERE d.System = '' @ sql_literal (warehouse_system eco)
     @ '' AND d.MinimumDepth = 1''"

definition build_top_packages_query_page :: "ecosystem \<Rightarrow> nat \<Rightarrow> nat \<Rightarrow> string" where
  "build_top_packages_query_page eco package_limit offset =
     ''WITH counts AS ( SELECT d.Dependency.Name AS PackageName, COUNT(DISTINCT d.Name) AS DependentCount FROM '' @ quoted_dataset
     @ '' AS d WHERE d.System = '' @ sql_literal (warehouse_system eco)
     @ '' AND d.MinimumDepth = 1 GROUP BY d.Dependency.Name ) SELECT PackageName, DependentCount FROM counts ORDER BY DependentCount DESC, PackageName ASC LIMIT ''
     @ show_nat package_limit @ '' OFFSET '' @ show_nat offset"

definition build_edges_for_frontier_query :: "ecosystem \<Rightarrow> string list \<Rightarrow> nat \<Rightarrow> string" where
  "build_edges_for_frontier_query eco frontier edge_limit =
     ''WITH frontier AS ('' @ frontier_rows frontier @ '') SELECT DISTINCT d.Name AS PackageName, d.Dependency.Name AS DependencyName FROM ''
     @ quoted_dataset @ '' AS d WHERE d.System = '' @ sql_literal (warehouse_system eco)
     @ '' AND d.MinimumDepth = 1 AND d.Name IN (SELECT Name FROM frontier)''
     @ (if edge_limit > 0 then '' LIMIT '' @ show_nat edge_limit else [])"

section \<open>Executing a query\<close>

record bigquery_response =
  br_job_complete :: "bool option"
  br_page_token :: "string option"
  br_rows :: "json option list list option"
  br_job_id :: "string option"

text \<open>What a request brings: a transport error, retryable or not, or a status with the body and what it decodes to.\<close>

datatype wh_reply = WhTransport bool string | WhAnswer nat string "bigquery_response option"

text \<open>The n-th request of the run: a token refresh, a query, or one page of a job's results.\<close>

record warehouse =
  wh_refresh :: "nat \<Rightarrow> refresh_credentials \<Rightarrow> string + string"
  wh_post :: "nat \<Rightarrow> string \<Rightarrow> string \<Rightarrow> wh_reply"
  wh_results :: "nat \<Rightarrow> string \<Rightarrow> string \<Rightarrow> string option \<Rightarrow> wh_reply"
  wh_render :: "json \<Rightarrow> string"

datatype wh_error = WhUnauthorized | WhFailed string

definition access_token :: "warehouse \<Rightarrow> google_cloud_auth \<Rightarrow> nat \<Rightarrow> (wh_error + string) \<times> nat" where
  "access_token wh auth n = (case ga_refresh_credentials auth of
     Some credentials \<Rightarrow> (case wh_refresh wh n credentials of Inr token \<Rightarrow> Inr token | Inl e \<Rightarrow> Inl (WhFailed e), n + 1)
   | None \<Rightarrow> (case ga_access_token auth of
       Some token \<Rightarrow> (Inr token, n)
     | None \<Rightarrow> (Inl (WhFailed ''no Google Cloud credentials available for BigQuery''), n)))"

text \<open>A request is sent at most three times; the reply of the last decides.\<close>

fun send_attempts :: "(nat \<Rightarrow> wh_reply) \<Rightarrow> nat \<Rightarrow> nat \<Rightarrow> wh_reply \<times> nat" where
  "send_attempts send 0 n = (send n, n + 1)"
| "send_attempts send (Suc retries) n = (case send n of
     WhTransport True e \<Rightarrow> send_attempts send retries (n + 1)
   | r \<Rightarrow> (r, n + 1))"

definition checked_reply :: "string \<Rightarrow> string \<Rightarrow> string \<Rightarrow> wh_reply \<Rightarrow> wh_error + bigquery_response" where
  "checked_reply transport failed decode r = (case r of
     WhTransport _ e \<Rightarrow> Inl (WhFailed transport)
   | WhAnswer status text body \<Rightarrow>
       if status = 401 then Inl WhUnauthorized
       else if \<not> (200 \<le> status \<and> status < 300)
       then Inl (WhFailed (failed @ '': status='' @ show_nat status @ '' body='' @ text))
       else case body of Some b \<Rightarrow> Inr b | None \<Rightarrow> Inl (WhFailed decode))"

definition send_bigquery_query_request :: "warehouse \<Rightarrow> string \<Rightarrow> string \<Rightarrow> nat \<Rightarrow> wh_reply \<times> nat" where
  "send_bigquery_query_request wh token query n = send_attempts (\<lambda>n. wh_post wh n token query) 2 n"

definition fetch_bigquery_results ::
  "warehouse \<Rightarrow> string \<Rightarrow> string \<Rightarrow> string option \<Rightarrow> nat \<Rightarrow> (wh_error + bigquery_response) \<times> nat" where
  "fetch_bigquery_results wh token job page n =
     apfst (checked_reply ''failed to fetch BigQuery query results'' ''BigQuery query results request failed''
        ''failed to decode BigQuery query results'')
       (send_attempts (\<lambda>n. wh_results wh n token job page) 2 n)"

definition cell_text :: "warehouse \<Rightarrow> json option \<Rightarrow> string option" where
  "cell_text wh v = (case v of
     None \<Rightarrow> None | Some JNull \<Rightarrow> None | Some (JString s) \<Rightarrow> Some s | Some w \<Rightarrow> Some (wh_render wh w))"

definition row_cell :: "warehouse \<Rightarrow> json option list \<Rightarrow> nat \<Rightarrow> string option" where
  "row_cell wh row i = (if i < length row then cell_text wh (row ! i) else None)"

fun extract_rows :: "(json option list \<Rightarrow> wh_error + 'r) \<Rightarrow> json option list list \<Rightarrow> wh_error + 'r list" where
  "extract_rows f [] = Inr []"
| "extract_rows f (row # rows) = (case f row of Inl e \<Rightarrow> Inl e | Inr r \<Rightarrow> map_sum id ((#) r) (extract_rows f rows))"

definition pair_row :: "warehouse \<Rightarrow> string \<Rightarrow> string \<Rightarrow> json option list \<Rightarrow> wh_error + (string \<times> string)" where
  "pair_row wh first second row = (case row_cell wh row 0 of
     None \<Rightarrow> Inl (WhFailed first)
   | Some a \<Rightarrow> (case row_cell wh row 1 of None \<Rightarrow> Inl (WhFailed second) | Some b \<Rightarrow> Inr (a, b)))"

definition extract_query_row :: "warehouse \<Rightarrow> json option list \<Rightarrow> wh_error + (string \<times> string)" where
  "extract_query_row wh = pair_row wh ''BigQuery row missing dependency name'' ''BigQuery row missing dependent name''"

definition extract_edge_row :: "warehouse \<Rightarrow> json option list \<Rightarrow> wh_error + (string \<times> string)" where
  "extract_edge_row wh = pair_row wh ''BigQuery row missing package name'' ''BigQuery row missing dependency name''"

text \<open>\<open>str::parse::<u64>\<close>.\<close>

definition parse_u64 :: "string \<Rightarrow> nat option" where
  "parse_u64 s = Option.bind (parse_digits (case s of c # r \<Rightarrow> if c = CHR ''+'' then r else s | [] \<Rightarrow> []))
     (\<lambda>n. if n \<le> u64_max then Some n else None)"

definition extract_top_package_row :: "warehouse \<Rightarrow> json option list \<Rightarrow> wh_error + (string \<times> nat)" where
  "extract_top_package_row wh row = (case row_cell wh row 0 of
     None \<Rightarrow> Inl (WhFailed ''BigQuery row missing package name'')
   | Some a \<Rightarrow> Inr (a, case Option.bind (row_cell wh row 1) parse_u64 of Some k \<Rightarrow> k | None \<Rightarrow> 0))"

text \<open>The answers of a job that is still running may carry rows too; then the pages follow.\<close>

fun poll_job :: "warehouse \<Rightarrow> (json option list \<Rightarrow> wh_error + 'r) \<Rightarrow> string \<Rightarrow> string option \<Rightarrow> nat \<Rightarrow> bigquery_response \<Rightarrow> 'r list \<Rightarrow> nat
    \<Rightarrow> ((wh_error + (bigquery_response \<times> 'r list)) \<times> nat) option" where
  "poll_job wh f token job fuel payload rows n =
     (if br_job_complete payload \<noteq> Some False then Some (Inr (payload, rows), n)
      else case job of
        None \<Rightarrow> Some (Inl (WhFailed ''BigQuery query did not provide a job id''), n)
      | Some j \<Rightarrow> (case fuel of
          0 \<Rightarrow> None
        | Suc fuel \<Rightarrow> (case fetch_bigquery_results wh token j None n of
            (Inl e, n) \<Rightarrow> Some (Inl e, n)
          | (Inr payload, n) \<Rightarrow> (case extract_rows f (case br_rows payload of Some rs \<Rightarrow> rs | None \<Rightarrow> []) of
              Inl e \<Rightarrow> Some (Inl e, n)
            | Inr extra \<Rightarrow> poll_job wh f token job fuel payload (rows @ extra) n))))"

fun fetch_pages :: "warehouse \<Rightarrow> (json option list \<Rightarrow> wh_error + 'r) \<Rightarrow> string \<Rightarrow> string option \<Rightarrow> nat \<Rightarrow> string option \<Rightarrow> 'r list \<Rightarrow> nat
    \<Rightarrow> ((wh_error + 'r list) \<times> nat) option" where
  "fetch_pages wh f token job fuel page rows n = (case page of
     None \<Rightarrow> Some (Inr rows, n)
   | Some p \<Rightarrow> (case job of
       None \<Rightarrow> Some (Inl (WhFailed ''BigQuery query did not provide a job id''), n)
     | Some j \<Rightarrow> (case fuel of
         0 \<Rightarrow> None
       | Suc fuel \<Rightarrow> (case fetch_bigquery_results wh token j (Some p) n of
           (Inl e, n) \<Rightarrow> Some (Inl e, n)
         | (Inr payload, n) \<Rightarrow> (case extract_rows f (case br_rows payload of Some rs \<Rightarrow> rs | None \<Rightarrow> []) of
             Inl e \<Rightarrow> Some (Inl e, n)
           | Inr extra \<Rightarrow> fetch_pages wh f token job fuel (br_page_token payload) (rows @ extra) n)))))"

declare poll_job.simps [simp del] fetch_pages.simps [simp del]

definition execute_query ::
  "warehouse \<Rightarrow> (json option list \<Rightarrow> wh_error + 'r) \<Rightarrow> nat \<Rightarrow> string \<Rightarrow> string \<Rightarrow> nat \<Rightarrow> ((wh_error + 'r list) \<times> nat) option" where
  "execute_query wh f fuel token query n =
     (case apfst (checked_reply ''failed to execute BigQuery query'' ''BigQuery query request failed'' ''failed to decode BigQuery query response'')
         (send_bigquery_query_request wh token query n) of
        (Inl e, n) \<Rightarrow> Some (Inl e, n)
      | (Inr payload, n) \<Rightarrow> (case extract_rows f (case br_rows payload of Some rs \<Rightarrow> rs | None \<Rightarrow> []) of
          Inl e \<Rightarrow> Some (Inl e, n)
        | Inr rows \<Rightarrow> (case poll_job wh f token (br_job_id payload) fuel payload rows n of
            None \<Rightarrow> None
          | Some (Inl e, n) \<Rightarrow> Some (Inl e, n)
          | Some (Inr (last_payload, rows), n) \<Rightarrow> fetch_pages wh f token (br_job_id payload) fuel (br_page_token last_payload) rows n)))"

definition execute_bigquery_query :: "warehouse \<Rightarrow> nat \<Rightarrow> string \<Rightarrow> string \<Rightarrow> nat \<Rightarrow> ((wh_error + (string \<times> string) list) \<times> nat) option" where
  "execute_bigquery_query wh = execute_query wh (extract_query_row wh)"

definition execute_bigquery_edge_query :: "warehouse \<Rightarrow> nat \<Rightarrow> string \<Rightarrow> string \<Rightarrow> nat \<Rightarrow> ((wh_error + (string \<times> string) list) \<times> nat) option" where
  "execute_bigquery_edge_query wh = execute_query wh (extract_edge_row wh)"

definition execute_bigquery_top_package_query :: "warehouse \<Rightarrow> nat \<Rightarrow> string \<Rightarrow> string \<Rightarrow> nat \<Rightarrow> ((wh_error + (string \<times> nat) list) \<times> nat) option" where
  "execute_bigquery_top_package_query wh = execute_query wh (extract_top_package_row wh)"

text \<open>A token is fetched for every query, and once more when the answer is unauthorized.\<close>

definition is_unauthorized :: "wh_error \<Rightarrow> bool" where
  "is_unauthorized e = (case e of WhUnauthorized \<Rightarrow> True | WhFailed message \<Rightarrow> str_contains message ''unauthorized'')"

definition with_token ::
  "warehouse \<Rightarrow> google_cloud_auth \<Rightarrow> (string \<Rightarrow> nat \<Rightarrow> ((wh_error + 'r) \<times> nat) option) \<Rightarrow> nat \<Rightarrow> ((wh_error + 'r) \<times> nat) option" where
  "with_token wh auth run n = (case access_token wh auth n of
     (Inl e, n) \<Rightarrow> Some (Inl e, n)
   | (Inr token, n) \<Rightarrow> (case run token n of
       None \<Rightarrow> None
     | Some (Inl e, n) \<Rightarrow>
         if is_unauthorized e
         then (case access_token wh auth n of (Inl e, n) \<Rightarrow> Some (Inl e, n) | (Inr token, n) \<Rightarrow> run token n)
         else Some (Inl e, n)
     | Some (Inr r, n) \<Rightarrow> Some (Inr r, n)))"

section \<open>Baselines\<close>

record live_baseline_config =
  lb_package_limit :: nat
  lb_package_offset :: nat
  lb_edge_limit :: nat
  lb_default_direct_popularity :: f64
  lb_strategy :: direct_popularity_strategy

record baseline_window =
  bw_package_limit :: nat
  bw_package_offset :: nat
  bw_edge_limit :: nat

definition div_ceil :: "nat \<Rightarrow> nat \<Rightarrow> nat" where
  "div_ceil a b = (if a mod b > 0 then a div b + 1 else a div b)"

definition default_baseline_package_window :: nat where "default_baseline_package_window = 100"

fun window_loop :: "live_baseline_config \<Rightarrow> nat \<Rightarrow> nat \<Rightarrow> nat \<Rightarrow> nat \<Rightarrow> baseline_window list" where
  "window_loop cfg 0 remaining_packages remaining_edges offset = []"
| "window_loop cfg (Suc extra) remaining_packages remaining_edges offset =
     (let package_limit = min remaining_packages default_baseline_package_window;
          edge_limit = (if lb_edge_limit cfg > 0 then div_ceil remaining_edges (Suc extra) else 0)
      in \<lparr>bw_package_limit = package_limit, bw_package_offset = offset, bw_edge_limit = edge_limit\<rparr>
         # window_loop cfg extra (remaining_packages - package_limit) (remaining_edges - edge_limit) (offset + package_limit))"

definition baseline_package_windows :: "live_baseline_config \<Rightarrow> baseline_window list" where
  "baseline_package_windows cfg =
     (if lb_package_limit cfg = 0 then []
      else window_loop cfg (div_ceil (lb_package_limit cfg) default_baseline_package_window)
        (lb_package_limit cfg) (lb_edge_limit cfg) (lb_package_offset cfg))"

definition default_top_package_page_size :: nat where "default_top_package_page_size = 5000"

text \<open>The rows of one page: a name seen before is dropped, and the page is cut when there are enough.\<close>

fun take_new :: "nat \<Rightarrow> ('r \<Rightarrow> 'k) \<Rightarrow> 'r list \<Rightarrow> 'k set \<times> 'r list \<Rightarrow> 'k set \<times> 'r list" where
  "take_new limit key [] acc = acc"
| "take_new limit key (row # rows) (seen, out) =
     (if key row \<in> seen then take_new limit key rows (seen, out)
      else if limit \<le> length out + 1 then (insert (key row) seen, out @ [row])
      else take_new limit key rows (insert (key row) seen, out @ [row]))"

fun top_pages :: "warehouse \<Rightarrow> google_cloud_auth \<Rightarrow> ecosystem \<Rightarrow> nat \<Rightarrow> nat \<Rightarrow> nat \<Rightarrow> string set \<Rightarrow> (string \<times> nat) list \<Rightarrow> nat
    \<Rightarrow> ((wh_error + (string \<times> nat) list) \<times> nat) option" where
  "top_pages wh auth eco limit 0 offset seen packages n = None"
| "top_pages wh auth eco limit (Suc fuel) offset seen packages n =
     (if limit \<le> length packages then Some (Inr packages, n)
      else let page_size = min (limit - length packages) default_top_package_page_size in
        case with_token wh auth
            (\<lambda>token. execute_bigquery_top_package_query wh fuel token (build_top_packages_query_page eco page_size offset)) n of
          None \<Rightarrow> None
        | Some (Inl e, n) \<Rightarrow> Some (Inl e, n)
        | Some (Inr rows, n) \<Rightarrow>
            if rows = [] then Some (Inr packages, n)
            else (case take_new limit fst rows (seen, packages) of (seen, packages) \<Rightarrow>
              if length rows < page_size then Some (Inr packages, n)
              else top_pages wh auth eco limit fuel (offset + length rows) seen packages n))"

definition query_top_packages ::
  "warehouse \<Rightarrow> google_cloud_auth \<Rightarrow> nat \<Rightarrow> ecosystem \<Rightarrow> nat \<Rightarrow> nat \<Rightarrow> nat \<Rightarrow> ((wh_error + (string \<times> nat) list) \<times> nat) option" where
  "query_top_packages wh auth fuel eco package_limit package_offset n =
     (if package_limit = 0 then Some (Inr [], n) else top_pages wh auth eco package_limit fuel package_offset {} [] n)"

definition default_baseline_query_batch :: nat where "default_baseline_query_batch = 50"

text \<open>The edges of the packages, in batches that share what is left of the limit.\<close>

fun edge_batches :: "warehouse \<Rightarrow> google_cloud_auth \<Rightarrow> nat \<Rightarrow> ecosystem \<Rightarrow> nat \<Rightarrow> string list list \<Rightarrow> (string \<times> string) set
    \<Rightarrow> (string \<times> string) list \<Rightarrow> nat \<Rightarrow> ((wh_error + (string \<times> string) list) \<times> nat) option" where
  "edge_batches wh auth fuel eco limit [] seen edges n = Some (Inr edges, n)"
| "edge_batches wh auth fuel eco limit (batch # batches) seen edges n =
     (let remaining = (if limit > 0 then limit - length edges else u64_max) in
      if remaining = 0 then Some (Inr edges, n)
      else let per_batch_limit = (if limit > 0 then div_ceil remaining (Suc (length batches)) else u64_max) in
        case with_token wh auth
            (\<lambda>token. execute_bigquery_edge_query wh fuel token (build_edges_for_frontier_query eco batch per_batch_limit)) n of
          None \<Rightarrow> None
        | Some (Inl e, n) \<Rightarrow> Some (Inl e, n)
        | Some (Inr rows, n) \<Rightarrow>
            (case take_new (if limit > 0 then limit else length edges + length rows + 1) id rows (seen, edges) of (seen, edges) \<Rightarrow>
              if limit > 0 \<and> limit \<le> length edges then Some (Inr edges, n)
              else edge_batches wh auth fuel eco limit batches seen edges n))"

definition query_global_baseline_edges ::
  "warehouse \<Rightarrow> google_cloud_auth \<Rightarrow> nat \<Rightarrow> ecosystem \<Rightarrow> baseline_window \<Rightarrow> nat \<Rightarrow> ((wh_error + (string \<times> string) list) \<times> nat) option" where
  "query_global_baseline_edges wh auth fuel eco w n =
     (case query_top_packages wh auth fuel eco (bw_package_limit w) (bw_package_offset w) n of
        None \<Rightarrow> None
      | Some (Inl e, n) \<Rightarrow> Some (Inl e, n)
      | Some (Inr rows, n) \<Rightarrow>
          if rows = [] then Some (Inr [], n)
          else edge_batches wh auth fuel eco (bw_edge_limit w) (chunks default_baseline_query_batch (map fst rows)) {} [] n)"

record baseline_state =
  bs_package_keys :: "(ecosystem \<times> string) list"
  bs_edges :: "(ecosystem \<times> string \<times> string) list"

definition baseline_row :: "ecosystem \<Rightarrow> string \<times> string \<Rightarrow> baseline_state \<times> string set \<times> nat \<Rightarrow> baseline_state \<times> string set \<times> nat" where
  "baseline_row eco = (\<lambda>(a, b) (st, packages, edges).
     let package = normalize_package_name eco a; dependency = normalize_package_name eco b in
     if package = dependency then (st, packages, edges)
     else (st\<lparr>bs_package_keys := insort_insert (eco, dependency) (insort_insert (eco, package) (bs_package_keys st)),
              bs_edges := insort_insert (eco, package, dependency) (bs_edges st)\<rparr>,
           insert dependency (insert package packages),
           if (eco, package, dependency) \<in> set (bs_edges st) then edges else edges + 1))"

fun baseline_windows_loop :: "warehouse \<Rightarrow> google_cloud_auth \<Rightarrow> nat \<Rightarrow> ecosystem \<Rightarrow> nat \<Rightarrow> baseline_window list
    \<Rightarrow> baseline_state \<times> string set \<times> nat \<Rightarrow> nat \<Rightarrow> ((wh_error + baseline_state \<times> string set \<times> nat) \<times> nat) option" where
  "baseline_windows_loop wh auth fuel eco limit [] acc n = Some (Inr acc, n)"
| "baseline_windows_loop wh auth fuel eco limit (w # ws) acc n =
     (case query_global_baseline_edges wh auth fuel eco w n of
        None \<Rightarrow> None
      | Some (Inl e, n) \<Rightarrow> Some (Inl e, n)
      | Some (Inr rows, n) \<Rightarrow>
          (let acc = fold (baseline_row eco) rows acc in
           if limit > 0 \<and> limit \<le> snd (snd acc) then Some (Inr acc, n)
           else baseline_windows_loop wh auth fuel eco limit ws acc n))"

record live_ecosystem_summary =
  lo_ecosystem :: ecosystem
  lo_packages :: nat
  lo_dependency_records :: nat

fun baseline_ecosystems :: "warehouse \<Rightarrow> google_cloud_auth \<Rightarrow> nat \<Rightarrow> live_baseline_config \<Rightarrow> ecosystem list \<Rightarrow> baseline_state
    \<Rightarrow> live_ecosystem_summary list \<Rightarrow> nat \<Rightarrow> ((wh_error + baseline_state \<times> live_ecosystem_summary list) \<times> nat) option" where
  "baseline_ecosystems wh auth fuel cfg [] st sums n = Some (Inr (st, sums), n)"
| "baseline_ecosystems wh auth fuel cfg (eco # ecos) st sums n =
     (case baseline_windows_loop wh auth fuel eco (lb_edge_limit cfg) (baseline_package_windows cfg) (st, {}, 0) n of
        None \<Rightarrow> None
      | Some (Inl e, n) \<Rightarrow> Some (Inl e, n)
      | Some (Inr (st, packages, edges), n) \<Rightarrow> baseline_ecosystems wh auth fuel cfg ecos st
          (sums @ [\<lparr>lo_ecosystem = eco, lo_packages = card packages, lo_dependency_records = edges\<rparr>]) n)"

record live_baseline_summary =
  lm_ecosystems :: "live_ecosystem_summary list"
  lm_emitted_package_records :: nat
  lm_emitted_dependency_records :: nat

record live_top_package_summary =
  lt_ecosystems :: "(ecosystem \<times> nat) list"
  lt_emitted_seed_records :: nat

definition bigquery_edge :: "ecosystem \<Rightarrow> string \<Rightarrow> string \<Rightarrow> score_input" where
  "bigquery_edge eco package dependency = SI_Dependency eco package dependency f64_one [''deps_dev_bigquery''] (Some export_confidence)"

definition baseline_records :: "live_baseline_config \<Rightarrow> baseline_state \<Rightarrow> score_input list" where
  "baseline_records cfg st =
     map (\<lambda>(eco, package). SI_Package eco package (import_popularity (lb_strategy cfg) (lb_default_direct_popularity cfg)
         (length (filter (\<lambda>(e, _, dependency). e = eco \<and> dependency = package) (bs_edges st))))) (bs_package_keys st)
     @ map (\<lambda>(eco, package, dependency). bigquery_edge eco package dependency) (bs_edges st)"

definition import_dependencies_latest_live ::
  "gcloud_env \<Rightarrow> warehouse \<Rightarrow> nat \<Rightarrow> ecosystem list \<Rightarrow> live_baseline_config
   \<Rightarrow> (wh_error + (score_input list \<times> live_baseline_summary)) option" where
  "import_dependencies_latest_live env wh fuel ecosystems cfg =
     (if lb_package_limit cfg = 0
      then Some (Inr ([], \<lparr>lm_ecosystems = [], lm_emitted_package_records = 0, lm_emitted_dependency_records = 0\<rparr>))
      else if f64_lt (lb_default_direct_popularity cfg) f64_zero
      then Some (Inl (WhFailed ''default_direct_popularity must be >= 0.0''))
      else case discover env of
        Inl e \<Rightarrow> Some (Inl (WhFailed e))
      | Inr auth \<Rightarrow>
          map_option (\<lambda>(r, _). map_sum id (\<lambda>(st, sums). (baseline_records cfg st,
              \<lparr>lm_ecosystems = sums, lm_emitted_package_records = length (bs_package_keys st),
               lm_emitted_dependency_records = length (bs_edges st)\<rparr>)) r)
            (baseline_ecosystems wh auth fuel cfg ecosystems \<lparr>bs_package_keys = [], bs_edges = []\<rparr> [] 0))"

fun top_windows :: "warehouse \<Rightarrow> google_cloud_auth \<Rightarrow> nat \<Rightarrow> ecosystem \<Rightarrow> baseline_window list \<Rightarrow> (string \<times> nat) list \<Rightarrow> nat
    \<Rightarrow> ((wh_error + (string \<times> nat) list) \<times> nat) option" where
  "top_windows wh auth fuel eco [] rows n = Some (Inr rows, n)"
| "top_windows wh auth fuel eco (w # ws) rows n =
     (case query_top_packages wh auth fuel eco (bw_package_limit w) (bw_package_offset w) n of
        None \<Rightarrow> None
      | Some (Inl e, n) \<Rightarrow> Some (Inl e, n)
      | Some (Inr extra, n) \<Rightarrow>
          top_windows wh auth fuel eco ws (fold (\<lambda>row rows. if fst row \<in> set (map fst rows) then rows else rows @ [row]) extra rows) n)"

fun top_ecosystems :: "warehouse \<Rightarrow> google_cloud_auth \<Rightarrow> nat \<Rightarrow> live_baseline_config \<Rightarrow> ecosystem list
    \<Rightarrow> (seed_record list \<times> (ecosystem \<times> nat) list) \<Rightarrow> nat \<Rightarrow> ((wh_error + (seed_record list \<times> (ecosystem \<times> nat) list)) \<times> nat) option" where
  "top_ecosystems wh auth fuel cfg [] acc n = Some (Inr acc, n)"
| "top_ecosystems wh auth fuel cfg (eco # ecos) (seeds, sums) n =
     (case top_windows wh auth fuel eco (baseline_package_windows cfg) [] n of
        None \<Rightarrow> None
      | Some (Inl e, n) \<Rightarrow> Some (Inl e, n)
      | Some (Inr rows, n) \<Rightarrow> top_ecosystems wh auth fuel cfg ecos
          (seeds @ map (\<lambda>(name, dependents). \<lparr>se_ecosystem = eco, se_package = normalize_package_name eco name,
             se_direct_popularity = Some (import_popularity (lb_strategy cfg) (lb_default_direct_popularity cfg) dependents)\<rparr>) rows,
           sums @ [(eco, length rows)]) n)"

definition import_top_package_seeds_live ::
  "gcloud_env \<Rightarrow> warehouse \<Rightarrow> nat \<Rightarrow> ecosystem list \<Rightarrow> live_baseline_config
   \<Rightarrow> (wh_error + (seed_record list \<times> live_top_package_summary)) option" where
  "import_top_package_seeds_live env wh fuel ecosystems cfg =
     (if lb_package_limit cfg = 0 then Some (Inr ([], \<lparr>lt_ecosystems = [], lt_emitted_seed_records = 0\<rparr>))
      else if f64_lt (lb_default_direct_popularity cfg) f64_zero
      then Some (Inl (WhFailed ''default_direct_popularity must be >= 0.0''))
      else case discover env of
        Inl e \<Rightarrow> Some (Inl (WhFailed e))
      | Inr auth \<Rightarrow> map_option (\<lambda>(r, _). map_sum id (\<lambda>(seeds, sums).
            (seeds, \<lparr>lt_ecosystems = sums, lt_emitted_seed_records = length seeds\<rparr>)) r)
          (top_ecosystems wh auth fuel cfg ecosystems ([], []) 0))"

section \<open>The focused search\<close>

definition default_frontier_query_batch :: nat where "default_frontier_query_batch = 200"

definition query_dependents_batch ::
  "warehouse \<Rightarrow> google_cloud_auth \<Rightarrow> nat \<Rightarrow> ecosystem \<Rightarrow> string list \<Rightarrow> nat \<Rightarrow> ((wh_error + (string \<times> string) list) \<times> nat) option" where
  "query_dependents_batch wh auth fuel eco frontier n =
     (if frontier = [] then Some (Inr [], n)
      else with_token wh auth (\<lambda>token. execute_bigquery_query wh fuel token (build_dependents_query eco frontier)) n)"

record live_focus_state =
  lf_visited :: "string list"
  lf_reverse_edges :: "(string \<times> string) list"
  lf_frontier :: "(string \<times> nat) list"
  lf_input_rows :: nat
  lf_matched_rows :: nat
  lf_frontier_packages :: nat
  lf_frontier_truncated :: bool

text \<open>A row: the edge is kept even when its package finds no room, and a package is queued again whenever it is met.\<close>

definition live_focus_row :: "focus_config \<Rightarrow> ecosystem \<Rightarrow> nat \<Rightarrow> string \<times> string \<Rightarrow> live_focus_state \<Rightarrow> live_focus_state" where
  "live_focus_row cfg eco depth = (\<lambda>(a, b) st.
     let dependency = normalize_package_name eco a; dependent = normalize_package_name eco b in
     if dependency = dependent then st
     else
       (let new_package = dependent \<notin> set (lf_visited st);
            st = st\<lparr>lf_reverse_edges := insort_insert (dependent, dependency) (lf_reverse_edges st)\<rparr> in
        if new_package \<and> fo_max_frontier_packages cfg < length (lf_visited st) + 1
        then st\<lparr>lf_frontier_truncated := True\<rparr>
        else
          (let visited = insort_insert dependent (lf_visited st) in
           st\<lparr>lf_visited := visited,
              lf_frontier_packages := (if new_package then length visited else lf_frontier_packages st),
              lf_frontier := (if depth < fo_reverse_depth cfg then lf_frontier st @ [(dependent, depth + 1)] else lf_frontier st)\<rparr>)))"

fun live_focus_batches :: "warehouse \<Rightarrow> google_cloud_auth \<Rightarrow> nat \<Rightarrow> ecosystem \<Rightarrow> focus_config \<Rightarrow> nat \<Rightarrow> string list list
    \<Rightarrow> live_focus_state \<Rightarrow> nat \<Rightarrow> ((wh_error + live_focus_state) \<times> nat) option" where
  "live_focus_batches wh auth fuel eco cfg depth [] st n = Some (Inr st, n)"
| "live_focus_batches wh auth fuel eco cfg depth (batch # batches) st n =
     (case query_dependents_batch wh auth fuel eco batch n of
        None \<Rightarrow> None
      | Some (Inl e, n) \<Rightarrow> Some (Inl e, n)
      | Some (Inr rows, n) \<Rightarrow>
          (let st = fold (live_focus_row cfg eco depth) rows
                 (st\<lparr>lf_input_rows := lf_input_rows st + length batch, lf_matched_rows := lf_matched_rows st + length rows\<rparr>);
               st = (if lf_frontier_truncated st
                 then st\<lparr>lf_frontier := filter (\<lambda>(name, _). name \<in> set (lf_visited st)) (lf_frontier st)\<rparr> else st) in
           live_focus_batches wh auth fuel eco cfg depth batches st n))"

text \<open>A level of the queue is taken off and queried; the level after it is what its rows queued, so levels are counted
  down from the depth of the search.\<close>

fun live_focus_levels :: "warehouse \<Rightarrow> google_cloud_auth \<Rightarrow> nat \<Rightarrow> ecosystem \<Rightarrow> focus_config \<Rightarrow> nat \<Rightarrow> live_focus_state \<Rightarrow> nat
    \<Rightarrow> ((wh_error + live_focus_state) \<times> nat) option" where
  "live_focus_levels wh auth fuel eco cfg 0 st n = Some (Inr st, n)"
| "live_focus_levels wh auth fuel eco cfg (Suc levels) st n = (case lf_frontier st of
     [] \<Rightarrow> Some (Inr st, n)
   | (_, depth) # _ \<Rightarrow>
       if fo_reverse_depth cfg \<le> depth then Some (Inr st, n)
       else
         (let level = map fst (takeWhile (\<lambda>(_, d). d = depth) (lf_frontier st));
              st = st\<lparr>lf_frontier := dropWhile (\<lambda>(_, d). d = depth) (lf_frontier st)\<rparr> in
          case live_focus_batches wh auth fuel eco cfg depth (chunks default_frontier_query_batch level) st n of
            None \<Rightarrow> None
          | Some (Inl e, n) \<Rightarrow> Some (Inl e, n)
          | Some (Inr st, n) \<Rightarrow> live_focus_levels wh auth fuel eco cfg levels st n))"

definition focus_dependents_subgraph_live_with_auth ::
  "warehouse \<Rightarrow> google_cloud_auth \<Rightarrow> nat \<Rightarrow> ecosystem \<Rightarrow> string \<Rightarrow> focus_config
   \<Rightarrow> (wh_error + (score_input list \<times> seed_record list \<times> focus_summary)) option" where
  "focus_dependents_subgraph_live_with_auth wh auth fuel eco package cfg =
     (if f64_lt (fo_default_direct_popularity cfg) f64_zero then Some (Inl (WhFailed ''default_direct_popularity must be >= 0.0''))
      else if fo_max_frontier_packages cfg = 0 then Some (Inl (WhFailed ''max_frontier_packages must be greater than zero''))
      else let target = normalize_package_name eco package in
        map_option (\<lambda>(r, _). map_sum id (\<lambda>st.
          let popularity = (\<lambda>p. import_popularity (fo_direct_popularity_strategy cfg) (fo_default_direct_popularity cfg)
                (length (filter (\<lambda>(_, dependency). dependency = p) (lf_reverse_edges st)))) in
          (map (\<lambda>p. SI_Package eco p (popularity p)) (lf_visited st)
             @ map (\<lambda>(dependent, dependency). bigquery_edge eco dependent dependency) (lf_reverse_edges st),
           map (\<lambda>p. \<lparr>se_ecosystem = eco, se_package = p, se_direct_popularity = Some (popularity p)\<rparr>) (lf_visited st),
           \<lparr>fs_input_files = 0, fs_input_rows = lf_input_rows st, fs_matched_rows = lf_matched_rows st,
            fs_reverse_depth = fo_reverse_depth cfg, fs_frontier_packages = lf_frontier_packages st,
            fs_frontier_truncated = lf_frontier_truncated st, fs_emitted_package_records = length (lf_visited st),
            fs_emitted_dependency_records = length (lf_reverse_edges st)\<rparr>)) r)
          (live_focus_levels wh auth fuel eco cfg (Suc (fo_reverse_depth cfg))
            \<lparr>lf_visited = [target], lf_reverse_edges = [], lf_frontier = [(target, 0)], lf_input_rows = 0, lf_matched_rows = 0,
             lf_frontier_packages = 1, lf_frontier_truncated = False\<rparr> 0))"

definition focus_dependents_subgraph_live ::
  "gcloud_env \<Rightarrow> warehouse \<Rightarrow> nat \<Rightarrow> ecosystem \<Rightarrow> string \<Rightarrow> focus_config
   \<Rightarrow> (wh_error + (score_input list \<times> seed_record list \<times> focus_summary)) option" where
  "focus_dependents_subgraph_live env wh fuel eco package cfg = (case discover env of
     Inl e \<Rightarrow> Some (Inl (WhFailed e))
   | Inr auth \<Rightarrow> focus_dependents_subgraph_live_with_auth wh auth fuel eco (normalize_package_name eco package) cfg)"

end
