(* ===== verification/Warehouse_Props.thy ===== *)
theory Warehouse_Props
  imports Warehouse
begin

text \<open>
  The windows of a baseline tile what was asked for; the focused search keeps within its room; and how far the escaping
  of names in queries reaches.
\<close>

section \<open>Windows\<close>

text \<open>Windows that follow each other without gap from an offset.\<close>

fun contiguous :: "nat \<Rightarrow> baseline_window list \<Rightarrow> bool" where
  "contiguous offset [] = True"
| "contiguous offset (w # ws) =
     (bw_package_offset w = offset \<and> 0 < bw_package_limit w \<and> bw_package_limit w \<le> 100 \<and> contiguous (offset + bw_package_limit w) ws)"

lemma div_ceil_one: "div_ceil n (Suc 0) = n"
  by (simp add: div_ceil_def)

lemma div_ceil_le: "0 < k \<Longrightarrow> div_ceil n k \<le> n"
proof (cases "k = 1")
  case False
  assume "0 < k"
  with False have "2 \<le> k"
    by simp
  show ?thesis
  proof (cases "n mod k = 0")
    case False
    then have "0 < n"
      by (cases n) auto
    then have "n div k < n"
      using \<open>2 \<le> k\<close> by (intro div_less_dividend) auto
    then show ?thesis
      by (simp add: div_ceil_def)
  qed (simp add: div_ceil_def)
qed (simp add: div_ceil_def)

lemma window_loop_tiles:
  "r \<le> 100 * k \<Longrightarrow> 100 * (k - 1) < r \<or> k = 0 \<Longrightarrow>
    contiguous offset (window_loop cfg k r e offset) \<and> sum_list (map bw_package_limit (window_loop cfg k r e offset)) = r
    \<and> (lb_edge_limit cfg > 0 \<longrightarrow> k > 0 \<longrightarrow> sum_list (map bw_edge_limit (window_loop cfg k r e offset)) = e)
    \<and> (lb_edge_limit cfg = 0 \<longrightarrow> sum_list (map bw_edge_limit (window_loop cfg k r e offset)) = 0)"
proof (induction k arbitrary: r e offset)
  case (Suc k)
  let ?p = "min r 100" and ?e = "if lb_edge_limit cfg > 0 then div_ceil e (Suc k) else 0"
  have "r - ?p \<le> 100 * k" "100 * (k - 1) < r - ?p \<or> k = 0"
    using Suc.prems by auto
  note rest = Suc.IH [OF this, of "offset + ?p" "e - ?e"]
  show ?case
  proof (cases "k = 0")
    case True
    then show ?thesis
      using Suc.prems by (auto simp: Let_def default_baseline_package_window_def div_ceil_one)
  next
    case False
    then show ?thesis
      using rest Suc.prems div_ceil_le [of "Suc k" e]
      by (auto simp: Let_def default_baseline_package_window_def)
  qed
qed simp

text \<open>C29: The windows of a baseline tile the packages asked for: they start at the offset, follow each other without gap
  or overlap, hold between 1 and 100 packages each and as many as the limit together; and their edge limits add up to
  the edge limit.\<close>

theorem baseline_windows_tile:
  "contiguous (lb_package_offset cfg) (baseline_package_windows cfg)
    \<and> sum_list (map bw_package_limit (baseline_package_windows cfg)) = lb_package_limit cfg
    \<and> (lb_package_limit cfg = 0 \<or> sum_list (map bw_edge_limit (baseline_package_windows cfg)) = lb_edge_limit cfg)"
proof (cases "lb_package_limit cfg = 0")
  case False
  define k where "k = div_ceil (lb_package_limit cfg) 100"
  have k: "lb_package_limit cfg \<le> 100 * k" "100 * (k - 1) < lb_package_limit cfg" "0 < k"
    using False by (auto simp: k_def div_ceil_def) presburger+
  then show ?thesis
    using window_loop_tiles [of "lb_package_limit cfg" k "lb_package_offset cfg" cfg "lb_edge_limit cfg"] False
    by (cases "lb_edge_limit cfg = 0") (simp_all add: baseline_package_windows_def default_baseline_package_window_def flip: k_def)
qed (simp add: baseline_package_windows_def)

text \<open>An edge limit smaller than the number of windows leaves windows with the limit zero, which is no limit.\<close>

theorem zero_edge_limit_window:
  "map bw_edge_limit (baseline_package_windows (cfg\<lparr>lb_package_limit := 200, lb_edge_limit := 1\<rparr>)) = [1, 0]"
  by (simp add: baseline_package_windows_def div_ceil_def default_baseline_package_window_def Let_def numeral_2_eq_2)

section \<open>The focused search\<close>

lemma map_sum_eq_Inr: "map_sum f g x = Inr y \<longleftrightarrow> (\<exists>z. x = Inr z \<and> y = g z)"
  by (cases x) auto

lemma live_focus_row_room:
  "length (lf_visited st) \<le> fo_max_frontier_packages cfg \<Longrightarrow> length (lf_visited (live_focus_row cfg eco depth row st)) \<le> fo_max_frontier_packages cfg"
  by (cases row) (auto simp: live_focus_row_def Let_def insort_insert_key_def)

lemma live_focus_rows_room:
  "length (lf_visited st) \<le> fo_max_frontier_packages cfg
    \<Longrightarrow> length (lf_visited (fold (live_focus_row cfg eco depth) rows st)) \<le> fo_max_frontier_packages cfg"
  by (induction rows arbitrary: st) (simp_all add: live_focus_row_room)

lemma live_focus_batches_room:
  "length (lf_visited st) \<le> fo_max_frontier_packages cfg \<Longrightarrow> live_focus_batches wh auth fuel eco cfg depth batches st n = Some (Inr st', n')
    \<Longrightarrow> length (lf_visited st') \<le> fo_max_frontier_packages cfg"
proof (induction batches arbitrary: st n)
  case (Cons batch batches)
  obtain rows n1 where q: "query_dependents_batch wh auth fuel eco batch n = Some (Inr rows, n1)"
    using Cons.prems(2) by (auto split: option.splits prod.splits sum.splits)
  define st1 where "st1 = fold (live_focus_row cfg eco depth) rows
    (st\<lparr>lf_input_rows := lf_input_rows st + length batch, lf_matched_rows := lf_matched_rows st + length rows\<rparr>)"
  define st2 where "st2 = (if lf_frontier_truncated st1
    then st1\<lparr>lf_frontier := filter (\<lambda>(name, _). name \<in> set (lf_visited st1)) (lf_frontier st1)\<rparr> else st1)"
  have "length (lf_visited st2) \<le> fo_max_frontier_packages cfg"
    unfolding st2_def st1_def by (simp add: live_focus_rows_room Cons.prems(1))
  moreover have "live_focus_batches wh auth fuel eco cfg depth batches st2 n1 = Some (Inr st', n')"
    using Cons.prems(2) q unfolding st2_def st1_def by (simp add: Let_def)
  ultimately show ?case
    by (rule Cons.IH)
qed simp

lemma live_focus_levels_room:
  "length (lf_visited st) \<le> fo_max_frontier_packages cfg \<Longrightarrow> live_focus_levels wh auth fuel eco cfg levels st n = Some (Inr st', n')
    \<Longrightarrow> length (lf_visited st') \<le> fo_max_frontier_packages cfg"
proof (induction levels arbitrary: st n)
  case (Suc levels)
  show ?case
  proof (cases "lf_frontier st")
    case Nil
    then show ?thesis
      using Suc.prems by simp
  next
    case (Cons p ps)
    obtain name depth where p: "p = (name, depth)"
      by (cases p)
    define level where "level = map fst (takeWhile (\<lambda>(_, d). d = depth) (lf_frontier st))"
    define st1 where "st1 = st\<lparr>lf_frontier := dropWhile (\<lambda>(_, d). d = depth) (lf_frontier st)\<rparr>"
    show ?thesis
    proof (cases "fo_reverse_depth cfg \<le> depth")
      case True
      then show ?thesis
        using Suc.prems Cons p by simp
    next
      case False
      then have run: "(case live_focus_batches wh auth fuel eco cfg depth (chunks default_frontier_query_batch level) st1 n of
          None \<Rightarrow> None | Some (Inl e, n) \<Rightarrow> Some (Inl e, n)
        | Some (Inr st, n) \<Rightarrow> live_focus_levels wh auth fuel eco cfg levels st n) = Some (Inr st', n')"
        using Suc.prems(2) Cons p unfolding live_focus_levels.simps level_def st1_def Let_def by simp
      then obtain st2 n2 where "live_focus_batches wh auth fuel eco cfg depth (chunks default_frontier_query_batch level) st1 n = Some (Inr st2, n2)"
          "live_focus_levels wh auth fuel eco cfg levels st2 n2 = Some (Inr st', n')"
        by (auto split: option.splits prod.splits sum.splits)
      then show ?thesis
        using live_focus_batches_room [of st1] Suc.prems(1) Suc.IH by (fastforce simp: st1_def)
    qed
  qed
qed simp

text \<open>The live search keeps within its room as the offline one does.\<close>

theorem live_focus_bounded:
  assumes "focus_dependents_subgraph_live_with_auth wh auth fuel eco package cfg = Some (Inr (records, seeds, summary))"
  shows "length seeds \<le> fo_max_frontier_packages cfg \<and> fs_emitted_package_records summary = length seeds"
proof -
  obtain st n where st: "live_focus_levels wh auth fuel eco cfg (Suc (fo_reverse_depth cfg))
      \<lparr>lf_visited = [normalize_package_name eco package], lf_reverse_edges = [], lf_frontier = [(normalize_package_name eco package, 0)],
       lf_input_rows = 0, lf_matched_rows = 0, lf_frontier_packages = 1, lf_frontier_truncated = False\<rparr> 0 = Some (Inr st, n)"
    and room: "fo_max_frontier_packages cfg \<noteq> 0" and out: "length seeds = length (lf_visited st)" "fs_emitted_package_records summary = length (lf_visited st)"
    using assms unfolding focus_dependents_subgraph_live_with_auth_def Let_def
    by (auto simp del: live_focus_levels.simps split: if_splits simp: map_sum_eq_Inr)
  have "length (lf_visited st) \<le> fo_max_frontier_packages cfg"
    by (rule live_focus_levels_room [OF _ st]) (use room in simp)
  then show ?thesis
    using out by simp
qed

section \<open>Names in queries\<close>

text \<open>A quoted literal as GoogleSQL reads it after the opening quote: a quote ends it, a backslash takes the next
  character with it, and a line break is an error.\<close>

fun read_literal :: "string \<Rightarrow> (string \<times> string) option" where
  "read_literal [] = None"
| "read_literal (c # s) =
     (if c = CHR 0x27 then Some ([], s)
      else if c = CHR 0x0A then None
      else if c = CHR 0x5C then (case s of [] \<Rightarrow> None | d # s \<Rightarrow> map_option (apfst ((#) d)) (read_literal s))
      else map_option (apfst ((#) c)) (read_literal s))"

definition plain_in_sql :: "string \<Rightarrow> bool" where
  "plain_in_sql s \<longleftrightarrow> CHR 0x27 \<notin> set s \<and> CHR 0x5C \<notin> set s \<and> CHR 0x0A \<notin> set s"

lemma read_plain: "plain_in_sql s \<Longrightarrow> read_literal (s @ CHR 0x27 # rest) = Some (s, rest)"
  by (induction s) (auto simp: plain_in_sql_def)

text \<open>A name without quote, backslash and line break is read back from the literal.\<close>

theorem plain_name_literal: "plain_in_sql name \<Longrightarrow> read_literal (tl (sql_literal (escape_sql_string name)) @ rest) = Some (name, rest)"
  using read_plain [of name rest] str_replace_absent [of "[CHR 0x27]" name "[CHR 0x27, CHR 0x27]"]
  by (simp add: plain_in_sql_def sql_literal_def escape_sql_string_def)

text \<open>A doubled quote ends the literal in the middle of the name, and a backslash at its end takes the closing quote
  with it.\<close>

theorem quoted_name_escapes_literal:
  "read_literal (tl (sql_literal (escape_sql_string (''it'' @ [CHR 0x27] @ ''s''))) @ '' AS Name'')
    = Some (''it'', CHR 0x27 # ''s'' @ CHR 0x27 # '' AS Name'')"
  "read_literal (tl (sql_literal (escape_sql_string (''it'' @ [CHR 0x5C]))) @ '' AS Name'') = None"
  by code_simp+

end
