(* ===== verification/Collector_Props.thy ===== *)
theory Collector_Props
  imports Collector
begin

text \<open>
  The walk against its reference: the packages within so many dependency steps of the seeds.  Also where the
  collector loses what the registries say.
\<close>

section \<open>The reference\<close>

definition deps_of :: "collect_web \<Rightarrow> datetime \<Rightarrow> bool \<Rightarrow> ecosystem \<times> string \<Rightarrow> (ecosystem \<times> string) list" where
  "deps_of web now fallback p = (case fetch_node web now fallback p of
     Some (Inr node) \<Rightarrow> map (Pair (fst p)) (cn_dependencies node) | _ \<Rightarrow> [])"

fun within :: "collect_web \<Rightarrow> datetime \<Rightarrow> bool \<Rightarrow> (ecosystem \<times> string) set \<Rightarrow> nat \<Rightarrow> (ecosystem \<times> string) set" where
  "within web now fallback seeds 0 = seeds"
| "within web now fallback seeds (Suc n) =
     within web now fallback seeds n \<union> (\<Union>p \<in> within web now fallback seeds n. set (deps_of web now fallback p))"

definition fetch_fails :: "collect_web \<Rightarrow> datetime \<Rightarrow> bool \<Rightarrow> ecosystem \<times> string \<Rightarrow> bool" where
  "fetch_fails web now fallback p = (case fetch_node web now fallback p of Some (Inr _) \<Rightarrow> False | _ \<Rightarrow> True)"

text \<open>The packages are those seen, the edges all of theirs, and the failures counted once each.\<close>

definition out_edges :: "collect_web \<Rightarrow> datetime \<Rightarrow> bool \<Rightarrow> (ecosystem \<times> string) set \<Rightarrow> (ecosystem \<times> string \<times> string) set" where
  "out_edges web now fallback S = (\<Union>p \<in> S. (\<lambda>q. (fst p, snd p, snd q)) ` set (deps_of web now fallback p))"

definition walk_exact :: "collect_web \<Rightarrow> datetime \<Rightarrow> bool \<Rightarrow> collect_state \<Rightarrow> bool" where
  "walk_exact web now fallback st \<longleftrightarrow> finite (ct_seen st) \<and> distinct (keys (ct_packages st)) \<and> set (keys (ct_packages st)) = ct_seen st
     \<and> sorted (ct_edges st) \<and> distinct (ct_edges st) \<and> set (ct_edges st) = out_edges web now fallback (ct_seen st)
     \<and> ct_fetch_failures st = card {p \<in> ct_seen st. fetch_fails web now fallback p}"

lemma within_mono: "m \<le> n \<Longrightarrow> within web now fallback S m \<subseteq> within web now fallback S n"
  by (induction n) (auto simp: le_Suc_eq)

lemma within_closed:
  assumes "within web now fallback S (Suc n) \<subseteq> within web now fallback S n"
  shows "n \<le> m \<Longrightarrow> within web now fallback S m = within web now fallback S n"
proof (induction m)
  case (Suc m)
  then show ?case
    using assms by (cases "n = Suc m") auto
qed simp

lemma finite_within: "finite S \<Longrightarrow> finite (within web now fallback S n)"
  by (induction n) auto

section \<open>One level\<close>

definition schedule_ok :: "nat \<Rightarrow> (ecosystem \<times> string) set \<Rightarrow> (ecosystem \<times> string) list \<Rightarrow> (ecosystem \<times> string) list
    \<Rightarrow> (ecosystem \<times> string) set \<Rightarrow> (ecosystem \<times> string) list \<Rightarrow> (ecosystem \<times> string) list \<Rightarrow> bool" where
  "schedule_ok capacity seen scheduled frontier seen' scheduled' new \<longleftrightarrow>
     scheduled' = scheduled @ new \<and> seen' = seen \<union> set new \<and> distinct new \<and> set new \<inter> seen = {}
     \<and> set new \<subseteq> set frontier \<and> length scheduled' \<le> capacity \<and> (set frontier \<subseteq> seen' \<or> length scheduled' = capacity)"

lemma schedule_shape:
  assumes "schedule capacity seen (set scheduled) scheduled frontier = (seen', scheduled')" "set scheduled \<subseteq> seen"
    "length scheduled \<le> capacity"
  shows "\<exists>new. schedule_ok capacity seen scheduled frontier seen' scheduled' new"
  using assms
proof (induction frontier arbitrary: seen scheduled)
  case Nil
  then show ?case
    by (auto simp: schedule_ok_def)
next
  case (Cons p frontier)
  consider "p \<in> seen" | "p \<notin> seen" "capacity \<le> length scheduled" | "p \<notin> seen" "length scheduled < capacity"
    by fastforce
  then show ?case
  proof cases
    case 1
    then have "schedule capacity seen (set scheduled) scheduled frontier = (seen', scheduled')"
      using Cons.prems(1) by simp
    from Cons.IH [OF this Cons.prems(2,3)] obtain new where "schedule_ok capacity seen scheduled frontier seen' scheduled' new" ..
    then show ?thesis
      using 1 by (intro exI [of _ new]) (auto simp: schedule_ok_def)
  next
    case 2
    then have "p \<notin> set scheduled"
      using Cons.prems(2) by auto
    with 2 have "seen' = seen" "scheduled' = scheduled"
      using Cons.prems(1) by simp_all
    then show ?thesis
      using 2 Cons.prems by (intro exI [of _ "[]"]) (auto simp: schedule_ok_def)
  next
    case 3
    then have "p \<notin> set scheduled"
      using Cons.prems(2) by auto
    with 3 have "schedule capacity (insert p seen) (set (scheduled @ [p])) (scheduled @ [p]) frontier = (seen', scheduled')"
      using Cons.prems(1) by simp
    from Cons.IH [OF this] obtain new where "schedule_ok capacity (insert p seen) (scheduled @ [p]) frontier seen' scheduled' new"
      using Cons.prems(2) 3 by auto
    then show ?thesis
      using 3 by (intro exI [of _ "p # new"]) (auto simp: schedule_ok_def)
  qed
qed

lemma absorb_dependencies_eq:
  "absorb_dependencies deeper p ds (st, nf) =
     (st\<lparr>ct_edges := fold (\<lambda>d. insort_insert (fst p, snd p, d)) ds (ct_edges st)\<rparr>,
      nf @ (if deeper then filter (\<lambda>k. k \<notin> ct_seen st) (map (Pair (fst p)) ds) else []))"
  by (cases p, induction ds arbitrary: st nf) auto

lemma fold_insort_insert_map:
  "sorted s \<Longrightarrow> distinct s \<Longrightarrow> sorted (fold (\<lambda>d. insort_insert (f d)) ds s) \<and> distinct (fold (\<lambda>d. insort_insert (f d)) ds s)
    \<and> set (fold (\<lambda>d. insort_insert (f d)) ds s) = f ` set ds \<union> set s"
  by (induction ds arbitrary: s) (auto simp: sorted_insort_insert distinct_insort_insert set_insort_insert)

definition fetched :: "collect_web \<Rightarrow> datetime \<Rightarrow> bool \<Rightarrow> (ecosystem \<times> string) list \<Rightarrow> ((ecosystem \<times> string) \<times> (string + collected_node)) list" where
  "fetched web now fallback ps = map (\<lambda>p. (p, the (fetch_node web now fallback p))) ps"

lemma those_fetched:
  "\<forall>p \<in> set ps. fetch_node web now fallback p \<noteq> None
    \<Longrightarrow> those (map (\<lambda>p. map_option (Pair p) (fetch_node web now fallback p)) ps) = Some (fetched web now fallback ps)"
  by (induction ps) (auto simp: fetched_def)

lemma those_fetched_None:
  "p \<in> set ps \<Longrightarrow> fetch_node web now fallback p = None
    \<Longrightarrow> those (map (\<lambda>p. map_option (Pair p) (fetch_node web now fallback p)) ps) = None"
  by (induction ps) (auto split: option.splits)

lemma absorb_one:
  assumes "absorb_fetch popularity deeper (p, f) (st, nf) = (st', nf')" and F: "fetch_node web now fallback p = Some f"
    and "distinct (keys (ct_packages st))" "sorted (ct_edges st)" "distinct (ct_edges st)"
  shows "ct_seen st' = ct_seen st \<and> distinct (keys (ct_packages st')) \<and> set (keys (ct_packages st')) = insert p (set (keys (ct_packages st)))
    \<and> (sorted (ct_edges st') \<and> distinct (ct_edges st') \<and> set (ct_edges st') = out_edges web now fallback {p} \<union> set (ct_edges st))
    \<and> ct_fetch_failures st' = ct_fetch_failures st + (if fetch_fails web now fallback p then 1 else 0)
    \<and> set nf' = set nf \<union> (if deeper then set (deps_of web now fallback p) - ct_seen st else {})"
proof (cases f)
  case (Inl e)
  then have "deps_of web now fallback p = []" "fetch_fails web now fallback p"
    using F by (simp_all add: deps_of_def fetch_fails_def)
  moreover obtain u where "st' = st\<lparr>ct_fetch_failures := ct_fetch_failures st + 1, ct_packages := AList.update p u (ct_packages st)\<rparr>"
    "nf' = nf"
    using assms(1) Inl by (auto simp: absorb_fetch_def)
  ultimately show ?thesis
    using assms(3-) by (simp add: distinct_update dom_update out_edges_def)
next
  case (Inr node)
  have deps: "deps_of web now fallback p = map (Pair (fst p)) (cn_dependencies node)" "\<not> fetch_fails web now fallback p"
    using F Inr by (simp_all add: deps_of_def fetch_fails_def)
  have edges: "out_edges web now fallback {p} = (\<lambda>d. (fst p, snd p, d)) ` set (cn_dependencies node)"
    by (auto simp: out_edges_def deps image_image)
  obtain u where "ct_packages st' = AList.update p u (ct_packages st)" "ct_seen st' = ct_seen st"
    "ct_edges st' = fold (\<lambda>d. insort_insert (fst p, snd p, d)) (cn_dependencies node) (ct_edges st)"
    "ct_fetch_failures st' = ct_fetch_failures st"
    "nf' = nf @ (if deeper then filter (\<lambda>k. k \<notin> ct_seen st) (map (Pair (fst p)) (cn_dependencies node)) else [])"
    using assms(1) Inr by (auto simp: absorb_fetch_def absorb_dependencies_eq Let_def)
  then show ?thesis
    using fold_insort_insert_map [OF assms(4,5), of "\<lambda>d. (fst p, snd p, d)" "cn_dependencies node"] assms(3) deps edges
    by (simp add: distinct_update dom_update) auto
qed

lemma absorb_fetched:
  assumes "fold (absorb_fetch popularity deeper) (fetched web now fallback ps) (st, nf) = (st', nf')"
    and "\<forall>p \<in> set ps. fetch_node web now fallback p \<noteq> None" "distinct ps"
    and "distinct (keys (ct_packages st))" "sorted (ct_edges st)" "distinct (ct_edges st)"
  shows "ct_seen st' = ct_seen st \<and> distinct (keys (ct_packages st')) \<and> set (keys (ct_packages st')) = set (keys (ct_packages st)) \<union> set ps
    \<and> sorted (ct_edges st') \<and> distinct (ct_edges st') \<and> set (ct_edges st') = set (ct_edges st) \<union> out_edges web now fallback (set ps)
    \<and> ct_fetch_failures st' = ct_fetch_failures st + card {p \<in> set ps. fetch_fails web now fallback p}
    \<and> set nf' = set nf \<union> (if deeper then (\<Union>p \<in> set ps. set (deps_of web now fallback p)) - ct_seen st else {})"
  using assms
proof (induction ps arbitrary: st nf)
  case (Cons p ps)
  define f where "f = the (fetch_node web now fallback p)"
  obtain st1 nf1 where step: "absorb_fetch popularity deeper (p, f) (st, nf) = (st1, nf1)"
    by (cases "absorb_fetch popularity deeper (p, f) (st, nf)")
  have F: "fetch_node web now fallback p = Some f"
    using Cons.prems(2) by (auto simp: f_def)
  have one: "ct_seen st1 = ct_seen st" "distinct (keys (ct_packages st1))" "set (keys (ct_packages st1)) = insert p (set (keys (ct_packages st)))"
    "sorted (ct_edges st1) \<and> distinct (ct_edges st1) \<and> set (ct_edges st1) = out_edges web now fallback {p} \<union> set (ct_edges st)"
    "ct_fetch_failures st1 = ct_fetch_failures st + (if fetch_fails web now fallback p then 1 else 0)"
    "set nf1 = set nf \<union> (if deeper then set (deps_of web now fallback p) - ct_seen st else {})"
    using absorb_one [OF step F Cons.prems(4-6)] by blast+
  have "{q \<in> set (p # ps). fetch_fails web now fallback q}
      = (if fetch_fails web now fallback p then {p} else {}) \<union> {q \<in> set ps. fetch_fails web now fallback q}"
    by auto
  then have "card {q \<in> set (p # ps). fetch_fails web now fallback q}
      = (if fetch_fails web now fallback p then 1 else 0) + card {q \<in> set ps. fetch_fails web now fallback q}"
    using Cons.prems(3) by (simp add: card_insert_if)
  moreover have "out_edges web now fallback (set (p # ps)) = out_edges web now fallback {p} \<union> out_edges web now fallback (set ps)"
    by (simp add: out_edges_def)
  moreover have "fold (absorb_fetch popularity deeper) (fetched web now fallback ps) (st1, nf1) = (st', nf')"
    using Cons.prems(1) step by (simp add: fetched_def f_def)
  ultimately show ?case
    using Cons.IH [of st1 nf1] one Cons.prems(2,3) by auto
qed (simp add: out_edges_def fetched_def)

section \<open>The whole walk\<close>

lemma out_edges_Un: "out_edges web now fallback (A \<union> B) = out_edges web now fallback A \<union> out_edges web now fallback B"
  by (auto simp: out_edges_def)

text \<open>One level: what is scheduled is fetched, whatever the order of completion.\<close>

lemma level_step:
  assumes complete: "\<And>ps. mset (lw_completion web ps) = mset ps"
    and "walk_exact web now fallback st" "set new \<inter> ct_seen st = {}" "distinct new"
    and fetches: "fold (absorb_fetch popularity deeper) (fetched web now fallback (lw_completion web new)) (st\<lparr>ct_seen := ct_seen st \<union> set new\<rparr>, []) = (st', nf)"
    and "\<forall>p \<in> set new. fetch_node web now fallback p \<noteq> None"
  shows "walk_exact web now fallback st' \<and> ct_seen st' = ct_seen st \<union> set new
    \<and> set nf = (if deeper then (\<Union>p \<in> set new. set (deps_of web now fallback p)) - ct_seen st' else {})"
proof -
  have new: "set (lw_completion web new) = set new" "distinct (lw_completion web new)"
    using complete [of new] assms(4) by (metis set_mset_mset) (metis complete assms(4) mset_eq_imp_distinct_iff)
  note step = absorb_fetched [OF fetches, unfolded new, simplified]
  have "{p \<in> ct_seen st \<union> set new. fetch_fails web now fallback p}
      = {p \<in> ct_seen st. fetch_fails web now fallback p} \<union> {p \<in> set new. fetch_fails web now fallback p}"
    by auto
  moreover have "{p \<in> ct_seen st. fetch_fails web now fallback p} \<inter> {p \<in> set new. fetch_fails web now fallback p} = {}"
    using assms(3) by auto
  ultimately have "card {p \<in> ct_seen st \<union> set new. fetch_fails web now fallback p}
      = card {p \<in> ct_seen st. fetch_fails web now fallback p} + card {p \<in> set new. fetch_fails web now fallback p}"
    using assms(2) by (simp add: walk_exact_def card_Un_disjoint)
  then show ?thesis
    using step assms(2,6) new(2) by (auto simp: walk_exact_def out_edges_Un)
qed

lemma collect_levels_bounded:
  assumes complete: "\<And>ps. mset (lw_completion web ps) = mset ps"
    and "walk_exact web now (cl_allow_external_fallback cfg) st" "card (ct_seen st) \<le> cl_max_packages cfg"
    and "collect_levels web now cfg popularity depths frontier st = Some st'"
  shows "walk_exact web now (cl_allow_external_fallback cfg) st' \<and> card (ct_seen st') \<le> cl_max_packages cfg"
  using assms(2-)
proof (induction depths arbitrary: frontier st)
  case (Cons depth depths)
  obtain seen scheduled where sch: "schedule (cl_max_packages cfg - card (ct_seen st)) (ct_seen st) {} [] frontier = (seen, scheduled)"
    by (cases "schedule (cl_max_packages cfg - card (ct_seen st)) (ct_seen st) {} [] frontier")
  then obtain new where new: "schedule_ok (cl_max_packages cfg - card (ct_seen st)) (ct_seen st) [] frontier seen scheduled new"
    using schedule_shape [of _ "ct_seen st" "[]" frontier seen scheduled] by auto
  then have card: "card seen \<le> cl_max_packages cfg" "scheduled = new"
    using Cons.prems(1,2) by (auto simp: schedule_ok_def walk_exact_def card_Un_disjoint Int_commute distinct_card)
  show ?case
  proof (cases "frontier = [] \<or> cl_max_packages cfg \<le> card (ct_seen st) \<or> new = []")
    case True
    then show ?thesis
      using Cons.prems sch new card(2) by (auto simp: schedule_ok_def split: if_splits)
  next
    case False
    have fetchable: "\<forall>p \<in> set (lw_completion web new). fetch_node web now (cl_allow_external_fallback cfg) p \<noteq> None"
      using Cons.prems(3) False sch card(2) those_fetched_None by (fastforce split: option.splits prod.splits)
    have "set (lw_completion web new) = set new"
      by (metis complete set_mset_mset)
    moreover obtain st1 nf where step: "fold (absorb_fetch popularity (depth < cl_max_depth cfg))
        (fetched web now (cl_allow_external_fallback cfg) (lw_completion web new)) (st\<lparr>ct_seen := seen\<rparr>, []) = (st1, nf)"
      by fastforce
    ultimately have "walk_exact web now (cl_allow_external_fallback cfg) st1 \<and> ct_seen st1 = seen"
      using level_step [OF complete Cons.prems(1), of new popularity "depth < cl_max_depth cfg" st1 nf] fetchable new
      by (auto simp: schedule_ok_def)
    then show ?thesis
      using Cons.IH [of st1 nf] Cons.prems(3) False sch card step those_fetched [OF fetchable] by simp
  qed
qed simp

text \<open>With room for all of them, the packages seen before level \<open>n\<close> are those fewer than \<open>n\<close> steps away, and the
  frontier holds the others at \<open>n\<close> steps.\<close>

definition frontier_ok :: "collect_web \<Rightarrow> datetime \<Rightarrow> bool \<Rightarrow> (ecosystem \<times> string) set \<Rightarrow> nat \<Rightarrow> (ecosystem \<times> string) set
    \<Rightarrow> (ecosystem \<times> string) list \<Rightarrow> bool" where
  "frontier_ok web now fallback S n seen frontier \<longleftrightarrow>
     seen = (case n of 0 \<Rightarrow> {} | Suc m \<Rightarrow> within web now fallback S m) \<and> seen \<union> set frontier = within web now fallback S n"

lemma frontier_next:
  assumes "frontier_ok web now fallback S n seen frontier"
  shows "within web now fallback S (Suc n) = within web now fallback S n
    \<union> (\<Union>p \<in> within web now fallback S n - seen. set (deps_of web now fallback p))"
  using assms by (cases n) (auto simp: frontier_ok_def)

lemma frontier_stable:
  assumes "frontier_ok web now fallback S n seen frontier" "set frontier \<subseteq> seen" "n \<le> m"
  shows "within web now fallback S m = seen"
proof -
  have "within web now fallback S n = seen"
    using assms by (auto simp: frontier_ok_def)
  moreover from this have "within web now fallback S (Suc n) \<subseteq> within web now fallback S n"
    using frontier_next [OF assms(1)] by simp
  ultimately show ?thesis
    using within_closed assms(3) by metis
qed

lemma schedule_complete:
  assumes "schedule_ok (room - card seen) seen [] frontier seen' scheduled new"
    and "seen \<union> set frontier \<subseteq> W" "finite W" "card W \<le> room" "card seen < room"
  shows "seen' = seen \<union> set frontier"
proof -
  have new: "seen' = seen \<union> set new" "distinct new" "set new \<inter> seen = {}" "set new \<subseteq> set frontier" "scheduled = new"
    using assms(1) by (auto simp: schedule_ok_def)
  have "seen' = W" if "length new = room - card seen"
  proof (rule card_seteq [OF assms(3)])
    show "seen' \<subseteq> W"
      using new assms(2) by auto
    have "card seen' = card seen + length new"
      using new finite_subset [of seen W] assms(2,3) by (simp add: card_Un_disjoint Int_commute distinct_card)
    then show "card W \<le> card seen'"
      using that assms(4,5) by simp
  qed
  then have "set frontier \<subseteq> seen'"
    using assms(1,2) new(5) by (auto simp: schedule_ok_def)
  then show ?thesis
    using new by auto
qed

lemma collect_levels_exact:
  assumes complete: "\<And>ps. mset (lw_completion web ps) = mset ps"
    and "finite S" "card (within web now (cl_allow_external_fallback cfg) S (cl_max_depth cfg)) \<le> cl_max_packages cfg"
    and fetchable: "\<forall>p \<in> within web now (cl_allow_external_fallback cfg) S (cl_max_depth cfg).
      fetch_node web now (cl_allow_external_fallback cfg) p \<noteq> None"
    and "walk_exact web now (cl_allow_external_fallback cfg) st"
    and "frontier_ok web now (cl_allow_external_fallback cfg) S n (ct_seen st) frontier" "n \<le> cl_max_depth cfg"
  shows "\<exists>st'. collect_levels web now cfg popularity [n..<Suc (cl_max_depth cfg)] frontier st = Some st'
    \<and> walk_exact web now (cl_allow_external_fallback cfg) st'
    \<and> ct_seen st' = within web now (cl_allow_external_fallback cfg) S (cl_max_depth cfg)"
  using assms(5-)
proof (induction "cl_max_depth cfg - n" arbitrary: n frontier st rule: less_induct)
  case less
  let ?fallback = "cl_allow_external_fallback cfg" and ?max = "cl_max_depth cfg"
  let ?W = "within web now ?fallback S"
  note ok = less.prems(2)
  have Wn: "ct_seen st \<union> set frontier = ?W n"
    using ok unfolding frontier_ok_def by blast
  then have below: "?W n \<subseteq> ?W ?max" "finite (?W ?max)" "ct_seen st \<subseteq> ?W ?max"
    using within_mono [OF less.prems(3), of web now ?fallback S] finite_within [OF assms(2)] by auto
  have upt: "[n..<Suc ?max] = n # [Suc n..<Suc ?max]"
    using less.prems(3) by (simp add: upt_conv_Cons)
  show ?case
  proof (cases "frontier = [] \<or> cl_max_packages cfg \<le> card (ct_seen st)")
    case True
    then have "ct_seen st = ?W ?max"
      using frontier_stable [OF ok _ less.prems(3)] card_seteq [OF below(2,3)] assms(3) by auto
    then show ?thesis
      using True less.prems(1) upt by simp
  next
    case False
    obtain seen new where sch: "schedule (cl_max_packages cfg - card (ct_seen st)) (ct_seen st) {} [] frontier = (seen, new)"
      by (cases "schedule (cl_max_packages cfg - card (ct_seen st)) (ct_seen st) {} [] frontier")
    then have new: "schedule_ok (cl_max_packages cfg - card (ct_seen st)) (ct_seen st) [] frontier seen new new"
      using schedule_shape [of _ "ct_seen st" "[]" frontier seen new] by (auto simp: schedule_ok_def)
    have seen: "seen = ?W n"
      using schedule_complete [OF new _ below(2) assms(3)] Wn below(1) False by auto
    show ?thesis
    proof (cases "new = []")
      case True
      then have "ct_seen st = seen" "ct_seen st = ?W ?max"
        using new seen Wn frontier_stable [OF ok _ less.prems(3)] by (auto simp: schedule_ok_def)
      moreover from this have "walk_exact web now ?fallback (st\<lparr>ct_seen := seen\<rparr>)"
        using less.prems(1) by (simp add: walk_exact_def)
      ultimately show ?thesis
        using True False less.prems(1) upt sch by simp
    next
      case False
      have fetch: "\<forall>p \<in> set new. fetch_node web now ?fallback p \<noteq> None"
        using fetchable new seen below(1) by (auto simp: schedule_ok_def)
      moreover have "set (lw_completion web new) = set new"
        by (metis complete set_mset_mset)
      moreover obtain st1 nf where step: "fold (absorb_fetch popularity (n < ?max)) (fetched web now ?fallback (lw_completion web new))
          (st\<lparr>ct_seen := seen\<rparr>, []) = (st1, nf)"
        by fastforce
      ultimately have level: "walk_exact web now ?fallback st1" "ct_seen st1 = ?W n"
          "set nf = (if n < ?max then (\<Union>p \<in> set new. set (deps_of web now ?fallback p)) - ?W n else {})"
        using level_step [OF complete less.prems(1), of new popularity "n < ?max" st1 nf] new seen
        by (auto simp: schedule_ok_def)
      have rest: "collect_levels web now cfg popularity [n..<Suc ?max] frontier st
          = collect_levels web now cfg popularity [Suc n..<Suc ?max] nf st1"
        using \<open>\<not> (frontier = [] \<or> cl_max_packages cfg \<le> card (ct_seen st))\<close> False upt sch step fetch
          those_fetched [of "lw_completion web new"] \<open>set (lw_completion web new) = set new\<close> by simp
      show ?thesis
      proof (cases "n < ?max")
        case True
        have "set new = ?W n - ct_seen st"
          using new seen by (auto simp: schedule_ok_def)
        then have "frontier_ok web now ?fallback S (Suc n) (ct_seen st1) nf"
          using frontier_next [OF ok] level(2,3) True by (auto simp: frontier_ok_def)
        then show ?thesis
          using less.hyps [of "Suc n" st1 nf] level(1) True rest by simp
      next
        case False
        then have "n = ?max" "[Suc n..<Suc ?max] = []"
          using less.prems(3) by auto
        then show ?thesis
          using rest level(1,2) by simp
      qed
    qed
  qed
qed

definition package_keys :: "score_input list \<Rightarrow> (ecosystem \<times> string) list" where
  "package_keys rs = List.map_filter (\<lambda>r. case r of SI_Package eco pkg _ \<Rightarrow> Some (eco, pkg) | SI_Dependency _ _ _ _ _ _ \<Rightarrow> None) rs"

definition edge_keys :: "score_input list \<Rightarrow> (ecosystem \<times> string \<times> string) list" where
  "edge_keys rs = List.map_filter (\<lambda>r. case r of SI_Dependency eco pkg d _ _ _ \<Rightarrow> Some (eco, pkg, d) | SI_Package _ _ _ \<Rightarrow> None) rs"

lemma map_filter_append: "List.map_filter f (xs @ ys) = List.map_filter f xs @ List.map_filter f ys"
  by (simp add: List.map_filter_def)

lemma material_key_parts:
  "package_keys (map (\<lambda>((eco, pkg), popularity). SI_Package eco pkg (f popularity)) ps) = keys ps"
  "package_keys (map (\<lambda>(eco, pkg, d). SI_Dependency eco pkg d w srcs c) es) = []"
  "edge_keys (map (\<lambda>((eco, pkg), popularity). SI_Package eco pkg (f popularity)) ps) = []"
  "edge_keys (map (\<lambda>(eco, pkg, d). SI_Dependency eco pkg d w srcs c) es) = es"
  unfolding package_keys_def edge_keys_def
  by (induction ps, auto simp: List.map_filter_simps) (induction es, auto simp: List.map_filter_simps)+

lemma material_keys:
  "package_keys (cx_records (collected_material_of n st)) = keys (in_key_order (ct_packages st))"
  "edge_keys (cx_records (collected_material_of n st)) = ct_edges st"
  using material_key_parts unfolding collected_material_of_def
  by (simp_all add: package_keys_def edge_keys_def map_filter_append)

lemma keys_in_key_order: "distinct (keys m) \<Longrightarrow> keys (in_key_order m) = sorted_list_of_set (set (keys m))"
  by (intro sorted_distinct_set_unique) (simp_all add: in_key_order_def distinct_map_sort_key)

definition material_exact :: "collect_web \<Rightarrow> datetime \<Rightarrow> bool \<Rightarrow> (ecosystem \<times> string) set \<Rightarrow> collected_material \<Rightarrow> bool" where
  "material_exact web now fallback S m \<longleftrightarrow>
     package_keys (cx_records m) = sorted_list_of_set S \<and> edge_keys (cx_records m) = sorted_list_of_set (out_edges web now fallback S)
     \<and> cq_emitted_package_records (cx_summary m) = card S
     \<and> cq_fetch_failures (cx_summary m) = card {p \<in> S. fetch_fails web now fallback p}"

lemma finite_out_edges: "finite S \<Longrightarrow> finite (out_edges web now fallback S)"
  by (simp add: out_edges_def)

lemma walk_material:
  assumes "walk_exact web now fallback st"
  shows "material_exact web now fallback (ct_seen st) (collected_material_of n st)"
proof -
  have "length (ct_packages st) = card (ct_seen st)"
    using assms distinct_card [of "keys (ct_packages st)"] by (simp add: walk_exact_def)
  moreover have "ct_edges st = sorted_list_of_set (out_edges web now fallback (ct_seen st))"
  proof (rule sorted_distinct_set_unique)
    show "set (ct_edges st) = set (sorted_list_of_set (out_edges web now fallback (ct_seen st)))"
      using assms finite_out_edges [of "ct_seen st" web now fallback] by (simp only: walk_exact_def set_sorted_list_of_set)
  qed (use assms in \<open>simp_all add: walk_exact_def\<close>)
  moreover have "keys (in_key_order (ct_packages st)) = sorted_list_of_set (ct_seen st)"
    using keys_in_key_order [of "ct_packages st"] assms by (simp only: walk_exact_def)
  ultimately show ?thesis
    using assms unfolding material_exact_def material_keys walk_exact_def by (simp add: collected_material_of_def)
qed

lemma walk_start: "walk_exact web now fallback collect_start"
  by (simp add: walk_exact_def collect_start_def out_edges_def)

text \<open>C10: When at most \<open>max_packages\<close> packages lie within \<open>max_depth\<close> dependency steps of the seeds, the collector emits
  exactly these, each once, and every dependency of theirs, whatever the order in which the concurrent requests
  complete; and it counts the packages that could not be fetched.\<close>

theorem collect_is_reachability:
  assumes "\<And>ps. mset (lw_completion web ps) = mset ps" and "cl_request_concurrency cfg > 0" and "cl_max_packages cfg > 0"
    and "W = within web now (cl_allow_external_fallback cfg) (set (map seed_key seeds)) (cl_max_depth cfg)"
    and "card W \<le> cl_max_packages cfg"
    and "\<forall>p \<in> W. fetch_node web now (cl_allow_external_fallback cfg) p \<noteq> None"
  shows "\<exists>m. collect_graph_material web now seeds popularity cfg = Some (Inr m)
    \<and> material_exact web now (cl_allow_external_fallback cfg) W m"
proof -
  have "frontier_ok web now (cl_allow_external_fallback cfg) (set (map seed_key seeds)) 0 (ct_seen collect_start) (map seed_key seeds)"
    by (simp add: frontier_ok_def collect_start_def)
  from collect_levels_exact [OF assms(1) _ assms(5)[unfolded assms(4)] assms(6)[unfolded assms(4)] walk_start this,
      of "popularity_map (seeds @ popularity)"]
  obtain st where "collect_levels web now cfg (popularity_map (seeds @ popularity)) [0..<Suc (cl_max_depth cfg)] (map seed_key seeds)
      collect_start = Some st" "walk_exact web now (cl_allow_external_fallback cfg) st" "ct_seen st = W"
    using assms(4) by auto
  then show ?thesis
    using walk_material assms(2,3) unfolding collect_graph_material_def by fastforce
qed

text \<open>However large the graph, the collector emits at most \<open>max_packages\<close> packages, each once, and only edges that
  leave them.\<close>

theorem collect_bounded:
  assumes "\<And>ps. mset (lw_completion web ps) = mset ps"
    and "collect_graph_material web now seeds popularity cfg = Some (Inr m)"
  shows "\<exists>S. card S \<le> cl_max_packages cfg \<and> finite S \<and> material_exact web now (cl_allow_external_fallback cfg) S m"
proof -
  obtain st where st: "collect_levels web now cfg (popularity_map (seeds @ popularity)) [0..<Suc (cl_max_depth cfg)] (map seed_key seeds)
      collect_start = Some st" "m = collected_material_of (length seeds) st"
    using assms(2) by (auto simp: collect_graph_material_def split: if_splits)
  have "walk_exact web now (cl_allow_external_fallback cfg) st \<and> card (ct_seen st) \<le> cl_max_packages cfg"
    by (rule collect_levels_bounded [OF assms(1) walk_start _ st(1)]) (simp add: collect_start_def)
  then show ?thesis
    using walk_material st(2) by (auto simp: walk_exact_def)
qed

text \<open>A registry where \<open>a\<close> needs \<open>b\<close> and \<open>b\<close> needs \<open>c\<close>, which answers the last request first.\<close>

definition chain_manifest :: "string \<Rightarrow> json" where
  "chain_manifest d = JObject [(''dependencies'', JObject [(d, JString ''^1.0.0'')])]"

definition chain_web :: collect_web where
  "chain_web = \<lparr>
     lw_json = (\<lambda>url. if url = ''https://registry.npmjs.org/a/latest'' then Inr (chain_manifest ''b'')
       else if url = ''https://registry.npmjs.org/b/latest'' then Inr (chain_manifest ''c'') else Inl ''offline''),
     lw_text = (\<lambda>_. Inl ''offline''), lw_parse = (\<lambda>_. None), lw_url_encode = id, lw_key_order = id, lw_completion = rev\<rparr>"

definition chain_seeds :: "seed_record list" where
  "chain_seeds = [\<lparr>se_ecosystem = Npm, se_package = ''A'', se_direct_popularity = None\<rparr>]"

definition chain_config :: "nat \<Rightarrow> collect_config" where
  "chain_config n = \<lparr>cl_max_depth = 1, cl_max_packages = n, cl_request_concurrency = 4, cl_allow_external_fallback = False\<rparr>"

lemma chain_config_simps:
  "cl_max_depth (chain_config n) = 1" "cl_max_packages (chain_config n) = n" "0 < cl_request_concurrency (chain_config n)"
  "cl_allow_external_fallback (chain_config n) = False"
  by (simp_all add: chain_config_def)

lemma chain_completion: "mset (lw_completion chain_web ps) = mset ps"
  by (simp add: chain_web_def)

lemma chain_deps:
  "deps_of chain_web 0 False (Npm, ''a'') = [(Npm, ''b'')]" "deps_of chain_web 0 False (Npm, ''b'') = [(Npm, ''c'')]"
  "fetch_fails chain_web 0 False (Npm, ''a'') = False" "fetch_fails chain_web 0 False (Npm, ''b'') = False"
  "map seed_key chain_seeds = [(Npm, ''a'')]"
  by code_simp+

lemma chain_fetches: "fetch_node chain_web 0 False (Npm, ''a'') \<noteq> None" "fetch_node chain_web 0 False (Npm, ''b'') \<noteq> None"
  unfolding fetch_node_def by (auto split: sum.split)

theorem collect_is_reachability_witness:
  "\<exists>m. collect_graph_material chain_web 0 chain_seeds [] (chain_config 2) = Some (Inr m)
    \<and> set (package_keys (cx_records m)) = {(Npm, ''a''), (Npm, ''b'')}
    \<and> set (edge_keys (cx_records m)) = {(Npm, ''a'', ''b''), (Npm, ''b'', ''c'')}"
proof -
  have W: "within chain_web 0 (cl_allow_external_fallback (chain_config 2)) (set (map seed_key chain_seeds)) (cl_max_depth (chain_config 2))
      = {(Npm, ''a''), (Npm, ''b'')}"
    unfolding chain_deps(5) by (auto simp: chain_config_simps chain_deps One_nat_def)
  have "\<exists>m. collect_graph_material chain_web 0 chain_seeds [] (chain_config 2) = Some (Inr m)
      \<and> material_exact chain_web 0 (cl_allow_external_fallback (chain_config 2)) {(Npm, ''a''), (Npm, ''b'')} m"
    by (rule collect_is_reachability [OF chain_completion _ _ W [symmetric]])
      (simp_all add: chain_config_simps chain_fetches del: not_None_eq)
  then show ?thesis
    by (auto simp: material_exact_def chain_config_simps out_edges_def chain_deps)
qed

lemma chain_returns: "case collect_graph_material chain_web 0 chain_seeds [] (chain_config 1) of Some (Inr m) \<Rightarrow> True | _ \<Rightarrow> False"
  by code_simp

theorem collect_bounded_witness:
  "case collect_graph_material chain_web 0 chain_seeds [] (chain_config 1) of
     Some (Inr m) \<Rightarrow> (\<exists>S. card S \<le> 1 \<and> finite S \<and> material_exact chain_web 0 False S m) | _ \<Rightarrow> False"
  using collect_bounded [OF chain_completion, of 0 chain_seeds "[]" "chain_config 1"] chain_returns
  by (simp add: chain_config_simps split: option.splits sum.splits)

section \<open>What the registries say and the collector loses\<close>

text \<open>A PyPI project without dependencies, whose \<open>requires_dist\<close> the API gives as null, cannot be fetched: the
  default of the field covers only its absence.\<close>

theorem null_requires_dist_fails:
  assumes "lw_json web (''https://pypi.org/pypi/'' @ lw_url_encode web pkg @ ''/json'') = Inr doc"
    and "json_pointer doc [''info'', ''requires_dist''] = Some JNull"
  shows "fetch_node web now False (Pypi, pkg) = Some (Inl (''failed to decode PyPI metadata for '' @ pkg))"
proof -
  obtain info where info: "json_get doc ''info'' = Some info" "json_get info ''requires_dist'' = Some JNull"
    using assms(2) by (auto split: option.splits)
  then have "decode_pypi_info info = None"
    by (simp add: decode_pypi_info_def field_default_def decode_list_def split: option.splits)
  then show ?thesis
    using assms(1) info by (simp add: fetch_node_def fetch_pypi_node_def fetch_decoded_def default_endpoints_def field_required_def)
qed

theorem null_requires_dist_fails_witness:
  "fetch_node (chain_web\<lparr>lw_json := \<lambda>_. Inr (JObject [(''info'', JObject [(''requires_dist'', JNull)])])\<rparr>) 0 False (Pypi, ''six'')
    = Some (Inl ''failed to decode PyPI metadata for six'')"
  by (subst null_requires_dist_fails [where doc = "JObject [(''info'', JObject [(''requires_dist'', JNull)])]"]) simp_all

text \<open>A renamed dependency enters the graph under its alias: the field \<open>package\<close> of the sparse index, which holds
  the name of the crate, is not read.\<close>

theorem renamed_dependency_is_alias:
  "decode_crates_dependency ''name'' (JObject [(''name'', JString ''alias''), (''package'', JString ''real-crate''), (''kind'', JString ''normal'')])
    = Some \<lparr>cd_name = ''alias'', cd_kind = Some ''normal'', cd_optional = False\<rparr>"
  by (simp add: decode_crates_dependency_def field_required_def field_opt_def field_default_def)

text \<open>A seed without a popularity is given popularity zero, and the downloads the registry reports for it are
  not used.\<close>

theorem seed_popularity_pinned:
  "map_of (popularity_map [\<lparr>se_ecosystem = eco, se_package = pkg, se_direct_popularity = None\<rparr>]) (eco, normalize_package_name eco pkg)
    = Some (f64_max f64_zero f64_zero)"
  by (simp add: popularity_map_def seed_key_def Let_def)

lemma lowercase_ascii: "byte c < 128 \<Longrightarrow> byte (ascii_lower c) < 128"
  by (auto simp: ascii_lower_byte is_upper_def)

text \<open>The path of a crate in the sparse index exists for every ASCII name but the empty one, for which the program
  panics.\<close>

theorem crates_index_path_total:
  assumes "list_all (\<lambda>c. byte c < 128) name"
  shows "crates_index_path name = None \<longleftrightarrow> name = []"
proof -
  have "\<not> is_cont (to_ascii_lowercase name ! i)" if "i < length name" for i
    using assms that lowercase_ascii [of "name ! i"] by (auto simp: list_all_length is_cont_def to_ascii_lowercase_def)
  moreover have "name = [] \<or> 1 \<le> length name"
    by (cases name) auto
  ultimately show ?thesis
    by (auto simp: crates_index_path_def Let_def char_boundary_def)
qed

end
