(* ===== verification/Visibility.thy ===== *)
theory Visibility
  imports Collector Diff_Content
begin

text \<open>
  The visibility report (\<open>visibility.rs\<close>): which registries, mirrors and content networks show a release, probe by
  probe.  The answer of the web to a GET and to a HEAD of a URL is an argument, as are JSON text and URL encoding.
\<close>

section \<open>Reports\<close>

datatype probe_state = Visible | ProbeMissing | Unsupported | ProbeError

record probe_result =
  pb_name :: string
  pb_url :: string
  pb_state :: probe_state
  pb_checked_at :: datetime
  pb_marker :: "string option"
  pb_detail :: json

record visibility_report =
  vr_ecosystem :: ecosystem
  vr_package :: string
  vr_version :: "string option"
  vr_observed_at :: datetime
  vr_probes :: "probe_result list"

text \<open>An answer: its status, the URL after redirects, two headers, and its body read as text or as JSON.\<close>

record http_answer =
  ha_status :: nat
  ha_url :: string
  ha_content_length :: "string option"
  ha_content_type :: "string option"
  ha_text :: "string + string"
  ha_json :: "string + json"

record visibility_web =
  vw_get :: "string \<Rightarrow> string + http_answer"
  vw_head :: "string \<Rightarrow> string + http_answer"
  vw_url_encode :: "string \<Rightarrow> string"
  vw_render :: "json \<Rightarrow> string"
  vw_parse :: "string \<Rightarrow> json option"
  vw_now :: datetime

definition probe_new :: "visibility_web \<Rightarrow> string \<Rightarrow> string \<Rightarrow> probe_state \<Rightarrow> string option \<Rightarrow> json \<Rightarrow> probe_result" where
  "probe_new web name url state marker detail =
     \<lparr>pb_name = name, pb_url = url, pb_state = state, pb_checked_at = vw_now web, pb_marker = marker, pb_detail = detail\<rparr>"

definition nat_json :: "nat \<Rightarrow> json" where
  "nat_json n = JNumber (PosInt n)"

definition json_opt :: "json option \<Rightarrow> json" where
  "json_opt v = (case v of Some w \<Rightarrow> w | None \<Rightarrow> JNull)"

text \<open>What every probe does with a request: a transport error, a missing document and any other bad status are
  results, and \<open>k\<close> reads a good answer.\<close>

definition probe_answer ::
  "visibility_web \<Rightarrow> string \<Rightarrow> string \<Rightarrow> (string \<times> json) list \<Rightarrow> string + http_answer \<Rightarrow> (http_answer \<Rightarrow> probe_result) \<Rightarrow> probe_result" where
  "probe_answer web name url path r k = (case r of
     Inl err \<Rightarrow> probe_new web name url ProbeError None (JObject ((''error'', JString err) # path))
   | Inr a \<Rightarrow>
       if ha_status a = 404 then probe_new web name url ProbeMissing None (JObject ((''http_status'', nat_json 404) # path))
       else if \<not> (200 \<le> ha_status a \<and> ha_status a < 300)
       then probe_new web name url ProbeError None (JObject ((''http_status'', nat_json (ha_status a)) # path))
       else k a)"

definition read_body :: "visibility_web \<Rightarrow> string \<Rightarrow> string \<Rightarrow> string + 'a \<Rightarrow> ('a \<Rightarrow> probe_result) \<Rightarrow> probe_result" where
  "read_body web name url body k = (case body of
     Inl err \<Rightarrow> probe_new web name url ProbeError None (JObject [(''error'', JString err)])
   | Inr b \<Rightarrow> k b)"

section \<open>PyPI\<close>

definition object_at :: "json \<Rightarrow> string \<Rightarrow> (string \<times> json) list" where
  "object_at raw k = (case Option.bind (json_get raw k) as_object of Some fs \<Rightarrow> fs | None \<Rightarrow> [])"

definition first_in_order :: "string list \<Rightarrow> string option" where
  "first_in_order xs = (case sort xs of [] \<Rightarrow> None | x # _ \<Rightarrow> Some x)"

definition pypi_release_detail :: "nat \<Rightarrow> json list \<Rightarrow> json" where
  "pypi_release_detail version_count files = JObject [
     (''artifact_count'', nat_json (length files)),
     (''filenames'', JArray (map JString (List.map_filter (\<lambda>f. json_get_str f ''filename'') files))),
     (''published_at'', json_opt_string (first_in_order (List.map_filter (\<lambda>f. json_get_str f ''upload_time_iso_8601'') files))),
     (''version_count'', nat_json version_count),
     (''yanked'', JBool (list_ex (\<lambda>f. json_get_bool f ''yanked'') files)),
     (''yanked_reason'', json_opt_string (case List.map_filter (\<lambda>f. json_get_str f ''yanked_reason'') files of
         r # _ \<Rightarrow> Some r | [] \<Rightarrow> None))]"

definition probe_pypi_project_json :: "visibility_web \<Rightarrow> string \<Rightarrow> string option \<Rightarrow> probe_result" where
  "probe_pypi_project_json web package version =
     (let name = ''pypi.project-json''; url = ''https://pypi.org/pypi/'' @ vw_url_encode web package @ ''/json'' in
      probe_answer web name url [] (vw_get web url) (\<lambda>a. read_body web name url (ha_json a) (\<lambda>raw.
        let marker = map_option (vw_render web) (json_get raw ''last_serial'');
            releases = object_at raw ''releases'' in
        case version of
          Some v \<Rightarrow> (case Option.bind (map_of releases v) as_array of
            Some files \<Rightarrow> probe_new web name url Visible marker (pypi_release_detail (length releases) files)
          | None \<Rightarrow> probe_new web name url ProbeMissing marker
              (JObject [(''version'', JString v), (''version_count'', nat_json (length releases))]))
        | None \<Rightarrow> probe_new web name url Visible marker
            (JObject [(''project_status'', json_opt (json_pointer raw [''project-status'', ''status''])),
                      (''version_count'', nat_json (length releases))]))))"

text \<open>The last comment line of a simple index and the texts of its links, a line each.\<close>

definition simple_comment :: "string \<Rightarrow> string option" where
  "simple_comment line =
     (case Option.bind (strip_prefix (trim line) ''<!--'') (\<lambda>l. map_option trim (strip_suffix l ''-->'')) of
        Some value \<Rightarrow> if value \<noteq> [] then Some value else None
      | None \<Rightarrow> None)"

definition extract_simple_marker :: "string \<Rightarrow> string option" where
  "extract_simple_marker body = (case List.map_filter simple_comment (rev (str_lines body)) of m # _ \<Rightarrow> Some m | [] \<Rightarrow> None)"

definition anchor_text :: "string \<Rightarrow> string option" where
  "anchor_text line = Option.bind (split_once (CHR ''>'') line) (\<lambda>(_, tail).
     map_option (\<lambda>i. trim (take i tail)) (find_sub tail ''</a>''))"

definition extract_anchor_texts :: "string \<Rightarrow> string list" where
  "extract_anchor_texts body = filter (\<lambda>t. t \<noteq> []) (List.map_filter anchor_text (str_lines body))"

text \<open>\<open>str::replace\<close> of a character by a string of one character.\<close>

definition replace_char :: "char \<Rightarrow> char \<Rightarrow> string \<Rightarrow> string" where
  "replace_char a b s = map (\<lambda>c. if c = a then b else c) s"

definition pypi_distribution_prefixes :: "string \<Rightarrow> string list" where
  "pypi_distribution_prefixes package =
     (let package = to_ascii_lowercase package; normalized = normalize_pypi_name package in
      fold (\<lambda>value seen. if value \<in> set seen then seen else seen @ [value])
        [package, replace_char (CHR ''-'') (CHR ''_'') package, replace_char (CHR ''.'') (CHR ''_'') package,
         replace_char (CHR ''.'') (CHR ''-'') package, normalized, replace_char (CHR ''-'') (CHR ''_'') normalized] [])"

definition pypi_filename_matches :: "string \<Rightarrow> string \<Rightarrow> string \<Rightarrow> bool" where
  "pypi_filename_matches filename package version =
     (let filename = to_ascii_lowercase filename in
      list_ex (\<lambda>p. case strip_prefix filename p of
          Some rest \<Rightarrow> starts_with rest (CHR ''-'' # version) \<or> starts_with rest (CHR ''_'' # version)
        | None \<Rightarrow> False) (pypi_distribution_prefixes package))"

definition probe_pypi_simple :: "visibility_web \<Rightarrow> string \<Rightarrow> string \<Rightarrow> string \<Rightarrow> string option \<Rightarrow> probe_result" where
  "probe_pypi_simple web name url package version =
     probe_answer web name url [] (vw_get web url) (\<lambda>a. read_body web name url (ha_text a) (\<lambda>body.
       let marker = extract_simple_marker body; anchors = extract_anchor_texts body in
       case version of
         Some v \<Rightarrow>
           (let filenames = filter (\<lambda>f. pypi_filename_matches f package v) anchors in
            if filenames = []
            then probe_new web name url ProbeMissing marker
              (JObject [(''link_count'', nat_json (length anchors)), (''version'', JString v)])
            else probe_new web name url Visible marker
              (JObject [(''filenames'', JArray (map JString filenames)), (''link_count'', nat_json (length anchors)),
                        (''version'', JString v)]))
       | None \<Rightarrow> probe_new web name url Visible marker (JObject [(''link_count'', nat_json (length anchors))])))"

definition pypi_simple_indexes :: "(string \<times> string) list" where
  "pypi_simple_indexes =
     [(''pypi.simple'', ''https://pypi.org/simple/''),
      (''pypi.mirror.aliyun.simple'', ''https://mirrors.aliyun.com/pypi/simple/''),
      (''pypi.mirror.tuna.simple'', ''https://pypi.tuna.tsinghua.edu.cn/simple/''),
      (''pypi.mirror.ustc.simple'', ''https://pypi.mirrors.ustc.edu.cn/simple/''),
      (''pypi.piwheels.simple'', ''https://www.piwheels.org/simple/'')]"

definition locate_pypi :: "visibility_web \<Rightarrow> string \<Rightarrow> string option \<Rightarrow> probe_result list" where
  "locate_pypi web package version =
     probe_pypi_project_json web package version
     # map (\<lambda>(name, base). probe_pypi_simple web name (base @ vw_url_encode web (normalize_pypi_name package) @ ''/'') package version)
         pypi_simple_indexes"

section \<open>npm\<close>

definition probe_npm_packument :: "visibility_web \<Rightarrow> string \<Rightarrow> string option \<Rightarrow> probe_result" where
  "probe_npm_packument web package version =
     (let name = ''npm.registry.packument''; url = ''https://registry.npmjs.org/'' @ vw_url_encode web package in
      probe_answer web name url [] (vw_get web url) (\<lambda>a. read_body web name url (ha_json a) (\<lambda>raw.
        let versions = object_at raw ''versions''; times = object_at raw ''time'';
            marker = Option.bind (map_of times ''modified'') as_str;
            latest = json_opt (json_pointer raw [''dist-tags'', ''latest'']) in
        case version of
          Some v \<Rightarrow> (case map_of versions v of
            Some meta \<Rightarrow> probe_new web name url Visible marker
              (JObject [(''deprecated'', json_opt (json_get meta ''deprecated'')),
                        (''integrity'', json_opt (json_pointer meta [''dist'', ''integrity''])),
                        (''published_at'', json_opt (map_of times v)),
                        (''shasum'', json_opt (json_pointer meta [''dist'', ''shasum''])),
                        (''version_count'', nat_json (length versions))])
          | None \<Rightarrow> probe_new web name url ProbeMissing marker
              (JObject [(''latest'', latest), (''version'', JString v), (''version_count'', nat_json (length versions))]))
        | None \<Rightarrow> probe_new web name url Visible marker
            (JObject [(''latest'', latest), (''version_count'', nat_json (length versions))]))))"

definition npm_dependency_names :: "json \<Rightarrow> string list" where
  "npm_dependency_names body = sort (map fst (object_at body ''dependencies''))"

definition probe_npm_package_json :: "visibility_web \<Rightarrow> string \<Rightarrow> string \<Rightarrow> probe_result" where
  "probe_npm_package_json web name url =
     probe_answer web name url [] (vw_get web url) (\<lambda>a. read_body web name url (ha_json a) (\<lambda>body.
       probe_new web name url Visible None
         (JObject [(''dependencies'', JArray (map JString (npm_dependency_names body))),
                   (''main'', json_opt (json_get body ''main'')), (''module'', json_opt (json_get body ''module'')),
                   (''name'', json_opt (json_get body ''name'')), (''resolved_url'', JString (ha_url a)),
                   (''version'', json_opt (json_get body ''version''))])))"

definition content_headers :: "http_answer \<Rightarrow> (string \<times> json) list" where
  "content_headers a = [(''content_length'', json_opt_string (ha_content_length a)),
     (''content_type'', json_opt_string (ha_content_type a))]"

definition npm_package_basename :: "string \<Rightarrow> string" where
  "npm_package_basename package = (case rsplit_once (CHR ''/'') package of Some (_, name) \<Rightarrow> name | None \<Rightarrow> package)"

definition npm_tarball_url :: "string \<Rightarrow> string \<Rightarrow> string" where
  "npm_tarball_url package version =
     ''https://registry.npmjs.org/'' @ package @ ''/-/'' @ npm_package_basename package @ ''-'' @ version @ ''.tgz''"

definition npm_npmmirror_tarball_url :: "string \<Rightarrow> string \<Rightarrow> string" where
  "npm_npmmirror_tarball_url package version =
     ''https://registry.npmmirror.com/'' @ package @ ''/-/'' @ npm_package_basename package @ ''-'' @ version @ ''.tgz''"

definition probe_npm_tarball :: "visibility_web \<Rightarrow> string \<Rightarrow> string \<Rightarrow> probe_result" where
  "probe_npm_tarball web package version =
     (let name = ''npm.registry.tarball''; url = npm_tarball_url package version in
      probe_answer web name url [] (vw_head web url) (\<lambda>a. probe_new web name url Visible None (JObject (content_headers a))))"

definition probe_npm_npmmirror_tarball :: "visibility_web \<Rightarrow> string \<Rightarrow> string \<Rightarrow> probe_result" where
  "probe_npm_npmmirror_tarball web package version =
     (let name = ''npm.npmmirror.tarball''; url = npm_npmmirror_tarball_url package version in
      probe_answer web name url [] (vw_head web url) (\<lambda>a. probe_new web name url Visible None (JObject (content_headers a))))"

definition npm_entry_paths_from_detail :: "json \<Rightarrow> string list" where
  "npm_entry_paths_from_detail detail =
     fold (\<lambda>value paths. let path = trim_start_matches ''./'' (trim value) in
         if path \<noteq> [] \<and> path \<notin> set paths then paths @ [path] else paths)
       (List.map_filter (json_get_str detail) [''main'', ''module'']) []"

definition probe_npm_file :: "visibility_web \<Rightarrow> string \<Rightarrow> string \<Rightarrow> string \<Rightarrow> probe_result" where
  "probe_npm_file web name url path =
     probe_answer web name url [(''path'', JString path)] (vw_head web url)
       (\<lambda>a. probe_new web name url Visible None (JObject (content_headers a @ [(''path'', JString path)])))"

definition npm_entry_file_probes :: "visibility_web \<Rightarrow> string \<Rightarrow> string \<Rightarrow> string \<Rightarrow> string \<Rightarrow> probe_result \<Rightarrow> probe_result list" where
  "npm_entry_file_probes web package version base_url probe_name package_json_probe =
     (if pb_state package_json_probe \<noteq> Visible then []
      else map (\<lambda>path. probe_npm_file web probe_name
          (if str_contains base_url ''npmmirror.com''
           then base_url @ ''/'' @ package @ ''/'' @ version @ ''/'' @ path
           else base_url @ ''/'' @ package @ ''@'' @ version @ ''/'' @ path) path)
        (npm_entry_paths_from_detail (pb_detail package_json_probe)))"

definition locate_npm :: "visibility_web \<Rightarrow> string \<Rightarrow> string option \<Rightarrow> probe_result list" where
  "locate_npm web package version =
     (let versioned = (\<lambda>sep rest. case version of Some v \<Rightarrow> package @ sep @ v | None \<Rightarrow> package @ rest);
          unpkg = probe_npm_package_json web ''npm.unpkg.package-json'' (''https://unpkg.com/'' @ versioned ''@'' [] @ ''/package.json'');
          jsdelivr = probe_npm_package_json web ''npm.jsdelivr.package-json''
            (''https://cdn.jsdelivr.net/npm/'' @ versioned ''@'' [] @ ''/package.json'');
          npmmirror = probe_npm_package_json web ''npm.npmmirror.package-json''
            (''https://registry.npmmirror.com/'' @ versioned ''/'' ''/latest'')
      in [probe_npm_packument web package version, unpkg]
         @ (case version of None \<Rightarrow> []
            | Some v \<Rightarrow>
                probe_npm_tarball web package v
                # npm_entry_file_probes web package v ''https://cdn.jsdelivr.net/npm'' ''npm.jsdelivr.entry-file'' jsdelivr
                @ [probe_npm_npmmirror_tarball web package v]
                @ npm_entry_file_probes web package v ''https://registry.npmmirror.com'' ''npm.npmmirror.entry-file'' npmmirror)
         @ [jsdelivr, npmmirror])"

section \<open>crates.io\<close>

definition probe_crates_api :: "visibility_web \<Rightarrow> string \<Rightarrow> string option \<Rightarrow> probe_result" where
  "probe_crates_api web package version =
     (let name = ''crates.api''; url = ''https://crates.io/api/v1/crates/'' @ vw_url_encode web package in
      probe_answer web name url [] (vw_get web url) (\<lambda>a. read_body web name url (ha_json a) (\<lambda>raw.
        let versions = array_items (json_get raw ''versions'');
            marker = Option.bind (json_pointer raw [''crate'', ''updated_at'']) as_str;
            newest = json_opt (case versions of item # _ \<Rightarrow> json_get item ''num'' | [] \<Rightarrow> None) in
        case version of
          Some v \<Rightarrow> (case find (\<lambda>item. json_get_str item ''num'' = Some v) versions of
            Some item \<Rightarrow> probe_new web name url Visible marker
              (JObject [(''checksum'', json_opt (json_get item ''checksum'')),
                        (''published_at'', json_opt (json_get item ''created_at'')),
                        (''version_count'', nat_json (length versions)),
                        (''yanked'', json_opt (json_get item ''yanked''))])
          | None \<Rightarrow> probe_new web name url ProbeMissing marker
              (JObject [(''newest'', newest), (''version'', JString v), (''version_count'', nat_json (length versions))]))
        | None \<Rightarrow> probe_new web name url Visible marker
            (JObject [(''newest'', newest), (''version_count'', nat_json (length versions))]))))"

definition probe_crates_index :: "visibility_web \<Rightarrow> string \<Rightarrow> string option \<Rightarrow> probe_result option" where
  "probe_crates_index web package version = map_option (\<lambda>index_path.
     let name = ''crates.index''; url = ''https://index.crates.io/'' @ index_path in
     probe_answer web name url [] (vw_get web url) (\<lambda>a. read_body web name url (ha_text a) (\<lambda>body.
       let rows = List.map_filter (vw_parse web) (str_lines body) in
       case version of
         Some v \<Rightarrow> (case find (\<lambda>row. json_get_str row ''vers'' = Some v) rows of
           Some row \<Rightarrow> probe_new web name url Visible None
             (JObject [(''checksum'', json_opt (json_get row ''cksum'')), (''row_count'', nat_json (length rows)),
                       (''yanked'', json_opt (json_get row ''yanked''))])
         | None \<Rightarrow> probe_new web name url ProbeMissing None
             (JObject [(''row_count'', nat_json (length rows)), (''version'', JString v)]))
       | None \<Rightarrow> probe_new web name url Visible None (JObject [(''row_count'', nat_json (length rows))]))))
     (crates_index_path package)"

definition probe_crates_download :: "visibility_web \<Rightarrow> string \<Rightarrow> string option \<Rightarrow> probe_result" where
  "probe_crates_download web package version =
     (let name = ''crates.download'' in
      case version of
        None \<Rightarrow> probe_new web name (''https://crates.io/api/v1/crates/'' @ package @ ''/<version>/download'') Unsupported None
          (JObject [(''reason'', JString ''a specific version is required'')])
      | Some v \<Rightarrow>
          (let url = ''https://crates.io/api/v1/crates/'' @ package @ ''/'' @ v @ ''/download'' in
           probe_answer web name url [] (vw_head web url) (\<lambda>a. probe_new web name url Visible None
             (JObject [(''content_length'', json_opt_string (ha_content_length a)), (''resolved_url'', JString (ha_url a))]))))"

definition locate_crates_io :: "visibility_web \<Rightarrow> string \<Rightarrow> string option \<Rightarrow> probe_result list option" where
  "locate_crates_io web package version =
     map_option (\<lambda>index. [probe_crates_api web package version, index, probe_crates_download web package version])
       (probe_crates_index web package version)"

definition locate_release :: "visibility_web \<Rightarrow> ecosystem \<Rightarrow> string \<Rightarrow> string option \<Rightarrow> visibility_report option" where
  "locate_release web eco package version =
     map_option (\<lambda>probes. \<lparr>vr_ecosystem = eco, vr_package = package, vr_version = version, vr_observed_at = vw_now web,
         vr_probes = probes\<rparr>)
       (case eco of Pypi \<Rightarrow> Some (locate_pypi web package version) | Npm \<Rightarrow> Some (locate_npm web package version)
          | CratesIo \<Rightarrow> locate_crates_io web package version)"

section \<open>What a report says\<close>

definition good_status :: "string + http_answer \<Rightarrow> bool" where
  "good_status r = (case r of Inr a \<Rightarrow> 200 \<le> ha_status a \<and> ha_status a < 300 | Inl _ \<Rightarrow> False)"

definition gone :: "string + http_answer \<Rightarrow> bool" where
  "gone r = (case r of Inr a \<Rightarrow> ha_status a = 404 | Inl _ \<Rightarrow> False)"

text \<open>A probe is backed by the answer to the URL it names.\<close>

definition backed_by :: "string + http_answer \<Rightarrow> probe_result \<Rightarrow> bool" where
  "backed_by r p = (case pb_state p of Visible \<Rightarrow> good_status r | ProbeMissing \<Rightarrow> gone r \<or> good_status r
     | Unsupported \<Rightarrow> False | ProbeError \<Rightarrow> \<not> gone r)"

definition probe_backed :: "visibility_web \<Rightarrow> probe_result \<Rightarrow> bool" where
  "probe_backed web p \<longleftrightarrow> backed_by (vw_get web (pb_url p)) p \<or> backed_by (vw_head web (pb_url p)) p"

lemma probe_new_simps [simp]:
  "pb_url (probe_new web name url state marker detail) = url" "pb_state (probe_new web name url state marker detail) = state"
  by (simp_all add: probe_new_def)

lemma probe_answer_backed:
  assumes "r = vw_get web url \<or> r = vw_head web url"
    and "\<And>a. r = Inr a \<Longrightarrow> ha_status a \<noteq> 404 \<Longrightarrow> pb_url (k a) = url \<and> pb_state (k a) \<noteq> Unsupported"
  shows "probe_backed web (probe_answer web name url path r k)"
proof -
  have "pb_url (probe_answer web name url path r k) = url \<and> backed_by r (probe_answer web name url path r k)"
    using assms(2) by (cases r) (auto simp: backed_by_def probe_answer_def gone_def good_status_def split: probe_state.split)
  then show ?thesis
    using assms(1) by (auto simp: probe_backed_def)
qed

lemma read_body_simps:
  "(\<And>b. pb_url (k b) = url \<and> pb_state (k b) \<noteq> Unsupported)
    \<Longrightarrow> pb_url (read_body web name url body k) = url \<and> pb_state (read_body web name url body k) \<noteq> Unsupported"
  by (simp add: read_body_def split: sum.split)

lemmas probe_intros = probe_answer_backed read_body_simps

lemma pypi_probes_backed:
  "probe_backed web (probe_pypi_project_json web package version)" "probe_backed web (probe_pypi_simple web name url package version)"
  unfolding probe_pypi_project_json_def probe_pypi_simple_def Let_def
  by (rule probe_intros; (rule probe_intros)?; auto split: option.split)+

lemma npm_probes_backed:
  "probe_backed web (probe_npm_packument web package version)" "probe_backed web (probe_npm_package_json web name url)"
  "probe_backed web (probe_npm_tarball web package v)" "probe_backed web (probe_npm_npmmirror_tarball web package v)"
  "probe_backed web (probe_npm_file web name url path)"
  unfolding probe_npm_packument_def probe_npm_package_json_def probe_npm_tarball_def probe_npm_npmmirror_tarball_def
    probe_npm_file_def Let_def
  by (rule probe_intros; (rule probe_intros)?; auto split: option.split)+

lemma entry_probes_backed: "p \<in> set (npm_entry_file_probes web package v base name json_probe) \<Longrightarrow> probe_backed web p"
  by (auto simp: npm_entry_file_probes_def npm_probes_backed(5) split: if_splits)

lemma crates_probes_backed:
  "probe_backed web (probe_crates_api web package version)" "probe_backed web (probe_crates_download web package (Some v))"
  unfolding probe_crates_api_def probe_crates_download_def Let_def option.case
  by (rule probe_intros; (rule probe_intros)?; auto split: option.split)+

lemma crates_index_backed: "probe_crates_index web package version = Some p \<Longrightarrow> probe_backed web p"
  unfolding probe_crates_index_def Let_def map_option_eq_Some
  by (elim exE conjE, hypsubst, rule probe_intros; (rule probe_intros)?; auto split: option.split)


text \<open>A simple index is searched for a version by a prefix of its file names: a release reads as visible once any
  later one is listed whose version begins with the same characters, as 1.0 does when only 1.0.1 is there.\<close>

theorem version_prefix_reads_visible:
  assumes "vw_get web url = Inr a" "ha_status a = 200" "ha_text a = Inr body"
    and "filename \<in> set (extract_anchor_texts body)"
    and "to_ascii_lowercase filename = to_ascii_lowercase package @ ''-'' @ listed @ rest" and "prefix version listed"
  shows "pb_state (probe_pypi_simple web name url package (Some version)) = Visible"
proof -
  have "to_ascii_lowercase package \<in> set (pypi_distribution_prefixes package)"
    by (auto simp: pypi_distribution_prefixes_def Let_def)
  moreover have "starts_with (''-'' @ listed @ rest) (CHR ''-'' # version)"
    using assms(6) by (auto simp: starts_with_prefix prefix_def)
  ultimately have "pypi_filename_matches filename package version"
    using assms(5) by (auto simp: pypi_filename_matches_def list_ex_iff strip_prefix_def starts_with_def intro!: bexI [of _ "to_ascii_lowercase package"])
  then have "filter (\<lambda>f. pypi_filename_matches f package version) (extract_anchor_texts body) \<noteq> []"
    using assms(4) by (auto simp: filter_empty_conv)
  then show ?thesis
    using assms(1-3) by (simp add: probe_pypi_simple_def probe_answer_def read_body_def Let_def)
qed

text \<open>A web whose one document is an index that lists version 1.0.1 only.\<close>

definition index_web :: visibility_web where
  "index_web = \<lparr>vw_get = (\<lambda>url. if url = ''u'' then Inr \<lparr>ha_status = 200, ha_url = ''u'', ha_content_length = None, ha_content_type = None,
       ha_text = Inr ''<a>six-1.0.1.tar.gz</a>'', ha_json = Inl ''no JSON''\<rparr> else Inl ''offline''),
     vw_head = (\<lambda>_. Inl ''offline''), vw_url_encode = id, vw_render = (\<lambda>_. []), vw_parse = (\<lambda>_. None), vw_now = 0\<rparr>"

theorem version_prefix_reads_visible_witness:
  "pb_state (probe_pypi_simple index_web ''pypi.simple'' ''u'' ''Six'' (Some ''1.0'')) = Visible"
proof (rule version_prefix_reads_visible [where a = "projr (vw_get index_web ''u'')"])
  show "''six-1.0.1.tar.gz'' \<in> set (extract_anchor_texts ''<a>six-1.0.1.tar.gz</a>'')"
    by code_simp
  show "to_ascii_lowercase ''six-1.0.1.tar.gz'' = to_ascii_lowercase ''Six'' @ ''-'' @ ''1.0.1'' @ ''.tar.gz''"
    by code_simp
qed (simp_all add: index_web_def)


end
