(* ===== verification/Spec2Isabelle.thy ===== *)
theory Spec2Isabelle
  imports Pipeline Worker_Pools Shutdown Lineage Diff Scoring_Props Resolver_Props Provenance_Props Content_Scan_Props Diff_Render Health_Props Publication_Props Priority_View Census_Props Deps_Dev_Props Warehouse_Props Collector_Props Visibility
begin

text \<open>
  A model of \<open>supply-stream\<close>, a service that watches PyPI, npm and crates.io for new releases, ranks them by how much
  of an ecosystem depends on them, captures the important ones, scans and diffs them, and publishes what it finds.
  The library \<open>src/crates/supply-stream-core/src\<close> is modelled file by file; paths below are relative to it.

  \<^bold>\<open>How the parts interact.\<close>  The pollers (\<open>sources/\<close>) turn registry feeds into release events, each remembered
  in a window of recent keys (\<open>state.rs\<close>).  The event loop (\<open>lib.rs\<close>) writes an event to the ledger (\<open>ledger.rs\<close>),
  the operational store (\<open>store.rs\<close>) and the stream (\<open>sink.rs\<close>) with the plan the priority resolver (\<open>priority.rs\<close>)
  gave it, and then queues one request: for the capture worker when the plan says capture (\<open>capture.rs\<close>), else for the
  triage worker (\<open>triage.rs\<close>), which reads the metadata and may send the release on.  A capture is fetched, scanned
  (\<open>content_risk.rs\<close>, \<open>detection.rs\<close>), checked against its repository (\<open>repo_provenance.rs\<close>), judged
  (\<open>assessment.rs\<close>) and fed back into the resolver's graph; the diff worker (\<open>autodiff.rs\<close>, \<open>diff.rs\<close>) compares it
  with its predecessor (\<open>history.rs\<close>) and publishes assessment and evidence bundle (\<open>bundle.rs\<close>).  Beside the service
  stand the batch jobs that build its scores: \<open>census.rs\<close> lists the registries, \<open>collector.rs\<close> walks the dependency
  graph, \<open>scoring.rs\<close> ranks it; \<open>visibility.rs\<close> asks where a release can be seen.  \<open>perf.rs\<close>, \<open>health.rs\<close> and
  \<open>priority_view.rs\<close> report on the running service.

  \<^bold>\<open>The theories.\<close>  Each holds a component's records, one definition per operation in the order of the source, and
  its lemmas; a theory named \<open>X_Props\<close> holds the properties of \<open>X\<close>.

    \<^item> Foundations: \<open>Prelude\<close> (machine bounds, saturating counters, sorted sets, association lists, the collections
      \<open>model_defs\<close> and \<open>inv_intros\<close>), \<open>Rust_Str\<close> (strings as UTF-8 byte lists and the standard library's operations),
      \<open>F64\<close>, \<open>F64_Arith\<close>, \<open>F64_Show\<close> (64-bit patterns with IEEE comparison, rounded arithmetic, \<open>Display\<close>), \<open>Json\<close>
      (\<open>serde_json::Value\<close>), \<open>Names\<close> (package names and versions, locale \<open>name_normaliser\<close>), \<open>Edit_Distance\<close>.
    \<^item> Memory: \<open>Dedupe_Window\<close> is the locale \<open>bounded_memory\<close>, what a bounded memory of seen keys promises and what the
      emit loop gets from it; \<open>Recent_Keys\<close> (\<open>state.rs\<close>) and \<open>Bounded_Map\<close> (\<open>bounded_map.rs\<close>) interpret it.
    \<^item> Sources: \<open>Backoff\<close> (\<open>sources/mod.rs\<close>), \<open>Pollers\<close> (\<open>sources/npm.rs\<close>, \<open>pypi.rs\<close>, \<open>crates_io.rs\<close>), \<open>Xml_Rpc\<close> (the
      reader and writer of \<open>sources/pypi.rs\<close>), \<open>Event\<close> (\<open>event.rs\<close>).
    \<^item> Records: \<open>Ledger\<close> (\<open>ledger.rs\<close>, \<open>sink.rs\<close>, the files of \<open>state.rs\<close>), \<open>Store\<close>, \<open>Store_Queries\<close>, \<open>Store_Props\<close>
      (\<open>store.rs\<close>: tables, write commands and the batching write worker, queries), \<open>History\<close>, \<open>Lineage\<close> (\<open>history.rs\<close>).
    \<^item> Priority: \<open>Priority_Data\<close>, \<open>Priority_Resolver\<close>, \<open>Resolver_Props\<close> (\<open>priority.rs\<close>), \<open>Scoring\<close>, \<open>Scoring_Props\<close>
      (\<open>scoring.rs\<close>), \<open>Census\<close>, \<open>Census_Props\<close> (\<open>census.rs\<close>), \<open>Collector\<close>, \<open>Collector_Props\<close> (\<open>collector.rs\<close>).
    \<^item> Capture: \<open>Capture_Types\<close>, \<open>Capture_Extract\<close>, \<open>Npm_Metadata\<close>, \<open>Capture_Worker\<close> (\<open>capture.rs\<close>,
      \<open>install_scripts.rs\<close>), \<open>Triage\<close> (\<open>triage.rs\<close>, its part of \<open>config.rs\<close>), \<open>Worker_Pools\<close> (the task pools of the
      three workers as step relations).
    \<^item> Analysis: \<open>Content_Scan\<close> and its properties (\<open>content_risk.rs\<close>), \<open>Detection\<close> (\<open>detection.rs\<close>), \<open>Provenance\<close> and its
      properties (\<open>repo_provenance.rs\<close>), \<open>Assessment\<close> (\<open>assessment.rs\<close>), \<open>Diff_Types\<close>, \<open>Diff_Content\<close>, \<open>Diff\<close>,
      \<open>Diff_Render\<close> (\<open>diff.rs\<close>), \<open>Diff_Worker\<close> (\<open>autodiff.rs\<close>).
    \<^item> Service: \<open>Pipeline\<close> (one event through \<open>lib.rs\<close> and the workers), \<open>Shutdown\<close> (\<open>run\<close> of \<open>lib.rs\<close> as a step relation),
      \<open>Publication\<close> and its properties (signals and bundles), \<open>Perf\<close> (atomic counters under interleaving), \<open>Health\<close> and
      its properties, \<open>Priority_View\<close>, \<open>Visibility\<close>.

  \<^bold>\<open>Conventions.\<close>  A struct is a record with a prefix of its own, an enum a datatype.  A \<open>HashMap\<close> is an association list,
  a \<open>BTreeSet\<close> its sorted list, a SQLite table an association list from primary keys to rows.  A function that can fail
  returns a sum with the message on the left; context added on the way up is kept where a decision reads it and
  shortened otherwise.  A panic is \<open>None\<close>.  Time, files, the web, child processes, \<open>serde\<close> text, SHA-256, the regular
  expressions and YARA are arguments, mostly fields of one environment record per component, and what a proof needs of
  them is a named hypothesis.  Concurrency is explicit: the task pools, the shutdown and the counters are step
  relations or interleavings, the write worker a sequence of batches, and the order in which concurrent requests
  complete is an arbitrary permutation.

  \<^bold>\<open>What the lemmas show.\<close>  The invariants: a row of the store always decodes and its job states move only along their
  transitions; the bounded maps and windows keep their capacity; the pools keep within their concurrency and lose no
  request; the resolver never lowers a snapshot (an expansion is not among those operations, for it replaces the whole
  score map by a file).  The refinements: the write worker is the sequence of its acknowledged commands; cached rules are
  the compiled files; the metrics text counts what the threads recorded; the log summary is the recent window.  The
  equivalences: verdicts are the policy written out, the collector is reachability in the dependency graph, the merge of
  inputs is the union of their records, the two-row loop is the edit distance, a bundle's assessment is the published
  one.  The round trips: ledger, XML-RPC, recorded events, the PyPI index.  The order of effects: an event is recorded
  before it is dispatched, a saved page is sent once, requests are spaced.  Where the code does not do what it means to,
  the theorem says what it does: a torn line stops the ledger, the audit of dropped releases blocks the shutdown, a
  restarted service contradicts itself in its bundles.

  \<^bold>\<open>Bounds and fuel.\<close>  Counters of the program are naturals, saturating at \<open>u64_max\<close> where the code saturates.  Loops whose
  end the code ensures are total functions with a measure.  The loops that end only when a server lets them (the pages of
  a census) run on fuel and give \<open>None\<close> without enough; \<open>npm_census_complete\<close> shows that one step more than there
  are packages suffices.  The XML-RPC reader takes fuel, of which one
  unit for every byte of the body is enough (\<open>parse_value_total\<close>).  A double is shown with at most 17 significant
  digits.  Schedules of the counters' compare-exchange loops end
  (\<open>perf_schedules_terminate\<close>).

  \<^bold>\<open>Not modelled.\<close>  SQLite itself, its schema migration and its read pool; sockets, HTTP and the HTTP server's loop; file
  handles beyond read, append and failure; tracing.  A derived decoder also accepts a JSON array for a struct: the
  model refuses it.  \<open>deps_dev.rs\<close> and \<open>deps_dev_bigquery.rs\<close> build queries for a data warehouse and import its tables;
  \<open>config.rs\<close>, \<open>history_command.rs\<close> and \<open>priority_command.rs\<close> of the binary parse arguments and print; the evaluation
  of the detection corpus in \<open>detection.rs\<close> is a test harness.
\<close>

end
